(* ===== verification/Prelude.thy ===== *)
theory Prelude
  imports Complex_Main "HOL-Library.Char_ord" "HOL-Library.List_Lexorder"
begin

text \<open>
  Shared vocabulary of the development: Python exceptions as values of a sum type, chains of
  \<open>if ...: raise ...\<close> guards, the \<open>str\<close> operations the sources use on the Latin-1 range of
  characters, \<open>sorted(set(...))\<close>, and dictionaries as association lists in insertion order.
  A Python \<open>str\<close> is a \<open>string\<close>; a Python \<open>bytes\<close> is a list of 8-bit characters.
\<close>

section \<open>Collections of facts\<close>

named_theorems guard_simps \<open>unfolding of guard chains\<close>
named_theorems str_simps \<open>facts on Python string operations\<close>

section \<open>Exceptions as values\<close>

text \<open>
  One constructor per exception class raised by the sources, with its message; \<open>OtherError\<close> is one
  of a third party, with its class name.
\<close>

datatype exn =
    ValueError string
  | RuntimeError string
  | KeyError string
  | TypeError string
  | AttributeError string
  | OSError string
  | OverflowError string
  | AssertionError string
  | ValidationError string
  | HarnessContractError string
  | RunArtifactError string
  | AttestationError string
  | OpenShellError string
  | AndroidAdbError string
  | BrowserContractError string
  | BrowserRunnerError string
  | AndroidContractError string
  | AndroidCompileError string
  | OtherError string string

text \<open>\<open>type(exc).__name__\<close> and \<open>str(exc)\<close>.\<close>

fun exn_name :: "exn \<Rightarrow> string" where
  "exn_name (ValueError _) = ''ValueError''"
| "exn_name (RuntimeError _) = ''RuntimeError''"
| "exn_name (KeyError _) = ''KeyError''"
| "exn_name (TypeError _) = ''TypeError''"
| "exn_name (AttributeError _) = ''AttributeError''"
| "exn_name (OSError _) = ''OSError''"
| "exn_name (OverflowError _) = ''OverflowError''"
| "exn_name (AssertionError _) = ''AssertionError''"
| "exn_name (ValidationError _) = ''ValidationError''"
| "exn_name (HarnessContractError _) = ''HarnessContractError''"
| "exn_name (RunArtifactError _) = ''RunArtifactError''"
| "exn_name (AttestationError _) = ''AttestationError''"
| "exn_name (OpenShellError _) = ''OpenShellError''"
| "exn_name (AndroidAdbError _) = ''AndroidAdbError''"
| "exn_name (BrowserContractError _) = ''BrowserContractError''"
| "exn_name (BrowserRunnerError _) = ''BrowserRunnerError''"
| "exn_name (AndroidContractError _) = ''AndroidContractError''"
| "exn_name (AndroidCompileError _) = ''AndroidCompileError''"
| "exn_name (OtherError n _) = n"

fun exn_message :: "exn \<Rightarrow> string" where
  "exn_message (ValueError m) = m"
| "exn_message (RuntimeError m) = m"
| "exn_message (KeyError m) = m"
| "exn_message (TypeError m) = m"
| "exn_message (AttributeError m) = m"
| "exn_message (OSError m) = m"
| "exn_message (OverflowError m) = m"
| "exn_message (AssertionError m) = m"
| "exn_message (ValidationError m) = m"
| "exn_message (HarnessContractError m) = m"
| "exn_message (RunArtifactError m) = m"
| "exn_message (AttestationError m) = m"
| "exn_message (OpenShellError m) = m"
| "exn_message (AndroidAdbError m) = m"
| "exn_message (BrowserContractError m) = m"
| "exn_message (BrowserRunnerError m) = m"
| "exn_message (AndroidContractError m) = m"
| "exn_message (AndroidCompileError m) = m"
| "exn_message (OtherError _ m) = m"

definition describe_exn :: "exn \<Rightarrow> string" where
  "describe_exn e = exn_name e @ '': '' @ exn_message e"

type_synonym 'a res = "exn + 'a"

type_synonym bytes = "char list"

fun rbind :: "'a res \<Rightarrow> ('a \<Rightarrow> 'b res) \<Rightarrow> 'b res" where
  "rbind (Inl e) f = Inl e"
| "rbind (Inr x) f = f x"

lemma rbind_Inr_iff: "rbind m f = Inr y \<longleftrightarrow> (\<exists>x. m = Inr x \<and> f x = Inr y)"
  by (cases m) auto

lemma rbind_Inl_iff: "rbind m f = Inl e \<longleftrightarrow> m = Inl e \<or> (\<exists>x. m = Inr x \<and> f x = Inl e)"
  by (cases m) auto

text \<open>A chain of guards, each raising its error when its condition holds, in source order.\<close>

fun guards :: "(bool \<times> exn) list \<Rightarrow> 'a \<Rightarrow> 'a res" where
  "guards [] x = Inr x"
| "guards ((c, e) # gs) x = (if c then Inl e else guards gs x)"

lemma guards_Inr_iff [guard_simps]:
  "guards gs x = Inr y \<longleftrightarrow> x = y \<and> list_all (\<lambda>g. \<not> fst g) gs"
  by (induction gs x rule: guards.induct) auto

lemma guards_first:
  "\<lbrakk>c; list_all (\<lambda>g. \<not> fst g) pre\<rbrakk> \<Longrightarrow> guards (pre @ (c, e) # post) x = Inl e"
  by (induction pre) auto

text \<open>
  The equations of \<open>guards\<close> are kept out of the simplifier: a successful chain is reasoned about by
  \<open>guards_Inr_iff\<close>, a failing one by \<open>guards_first\<close>.
\<close>

declare guards.simps [simp del]

fun traverse :: "('a \<Rightarrow> 'b res) \<Rightarrow> 'a list \<Rightarrow> 'b list res" where
  "traverse f [] = Inr []"
| "traverse f (x # xs) = rbind (f x) (\<lambda>y. rbind (traverse f xs) (\<lambda>ys. Inr (y # ys)))"

lemma traverse_all_Inr: "\<forall>x \<in> set xs. f x = Inr (g x) \<Longrightarrow> traverse f xs = Inr (map g xs)"
  by (induction xs) auto

lemma traverse_length: "traverse f xs = Inr ys \<Longrightarrow> length ys = length xs"
  by (induction xs arbitrary: ys) (auto simp: rbind_Inr_iff)

section \<open>Strings\<close>

definition starts_with :: "string \<Rightarrow> string \<Rightarrow> bool" where
  "starts_with s p \<longleftrightarrow> take (length p) s = p"

definition ends_with :: "string \<Rightarrow> string \<Rightarrow> bool" where
  "ends_with s p \<longleftrightarrow> length p \<le> length s \<and> drop (length s - length p) s = p"

text \<open>\<open>contains s p\<close> is Python's \<open>p in s\<close>.\<close>

fun contains :: "string \<Rightarrow> string \<Rightarrow> bool" where
  "contains [] p \<longleftrightarrow> p = []"
| "contains (c # cs) p \<longleftrightarrow> starts_with (c # cs) p \<or> contains cs p"

lemma starts_with_append [str_simps, simp]: "starts_with (p @ s) p"
  by (simp add: starts_with_def)

lemma starts_with_iff: "starts_with s p \<longleftrightarrow> (\<exists>t. s = p @ t)"
  by (metis append_eq_conv_conj starts_with_def)

lemma ends_with_append [str_simps, simp]: "ends_with (s @ p) p"
  by (simp add: ends_with_def)

lemma contains_iff: "contains s p \<longleftrightarrow> (\<exists>a b. s = a @ p @ b)"
proof (induction s)
  case Nil
  then show ?case by auto
next
  case (Cons c cs)
  show ?case
  proof
    assume "contains (c # cs) p"
    then consider "starts_with (c # cs) p" | "contains cs p" by auto
    then show "\<exists>a b. c # cs = a @ p @ b"
    proof cases
      case 1
      then show ?thesis by (metis append_Nil starts_with_iff)
    next
      case 2
      then show ?thesis using Cons.IH by (metis append_Cons)
    qed
  next
    assume "\<exists>a b. c # cs = a @ p @ b"
    then obtain a b where ab: "c # cs = a @ p @ b" by blast
    show "contains (c # cs) p"
    proof (cases a)
      case Nil
      then show ?thesis using ab by (metis append_Nil contains.simps(2) starts_with_append)
    next
      case (Cons x xs)
      then show ?thesis using ab Cons.IH by auto
    qed
  qed
qed

lemma contains_append: "contains (a @ p @ b) p"
  using contains_iff by blast

text \<open>\<open>str.lower\<close> on the Latin-1 range.\<close>

definition lower_char :: "char \<Rightarrow> char" where
  "lower_char c = (let n = (of_char c :: nat) in
     if (65 \<le> n \<and> n \<le> 90) \<or> (192 \<le> n \<and> n \<le> 222 \<and> n \<noteq> 215) then char_of (n + 32) else c)"

definition lower :: "string \<Rightarrow> string" where
  "lower = map lower_char"

text \<open>\<open>str.isspace\<close> for one character of the Latin-1 range, and \<open>str.strip\<close>.\<close>

definition is_space :: "char \<Rightarrow> bool" where
  "is_space c \<longleftrightarrow> (let n = (of_char c :: nat) in
     (9 \<le> n \<and> n \<le> 13) \<or> (28 \<le> n \<and> n \<le> 32) \<or> n = 133 \<or> n = 160)"

definition strip_set :: "(char \<Rightarrow> bool) \<Rightarrow> string \<Rightarrow> string" where
  "strip_set P s = rev (dropWhile P (rev (dropWhile P s)))"

definition strip :: "string \<Rightarrow> string" where
  "strip = strip_set is_space"

lemma set_strip: "set (strip s) \<subseteq> set s"
  by (auto simp: strip_def strip_set_def dest!: set_dropWhileD)

lemma strip_id:
  assumes "s = [] \<or> \<not> is_space (hd s)" and "s = [] \<or> \<not> is_space (last s)"
  shows "strip s = s"
proof (cases "s = []")
  case False
  with assms have "dropWhile is_space s = s" "dropWhile is_space (rev s) = rev s"
    by (simp_all add: dropWhile_eq_self_iff hd_rev)
  then show ?thesis by (simp add: strip_def strip_set_def)
qed (simp add: strip_def strip_set_def)

text \<open>Joining with a separator, \<open>sep.join(xs)\<close>.\<close>

fun join :: "string \<Rightarrow> string list \<Rightarrow> string" where
  "join sep [] = []"
| "join sep [x] = x"
| "join sep (x # y # xs) = x @ sep @ join sep (y # xs)"

text \<open>Splitting on one character, \<open>s.split(c)\<close>; never empty.\<close>

fun split_on :: "char \<Rightarrow> string \<Rightarrow> string list" where
  "split_on c [] = [[]]"
| "split_on c (x # xs) =
     (if x = c then [] # split_on c xs
      else (case split_on c xs of [] \<Rightarrow> [[x]] | w # ws \<Rightarrow> (x # w) # ws))"

lemma split_on_nonempty [simp]: "split_on c s \<noteq> []"
  by (induction s) (auto split: list.splits)

lemma split_on_none: "c \<notin> set s \<Longrightarrow> split_on c s = [s]"
  by (induction s) auto

text \<open>Splitting on runs of white space, \<open>s.split()\<close>.\<close>

fun words_acc :: "string \<Rightarrow> string \<Rightarrow> string list" where
  "words_acc w [] = (if w = [] then [] else [rev w])"
| "words_acc w (c # cs) =
     (if is_space c then (if w = [] then words_acc [] cs else rev w # words_acc [] cs)
      else words_acc (c # w) cs)"

definition split_words :: "string \<Rightarrow> string list" where
  "split_words s = words_acc [] s"

text \<open>Decimal numerals, \<open>str(n)\<close> for integers.\<close>

fun show_nat :: "nat \<Rightarrow> string" where
  "show_nat n = (if n < 10 then [char_of (48 + n)] else show_nat (n div 10) @ [char_of (48 + n mod 10)])"

declare show_nat.simps [simp del]

definition show_int :: "int \<Rightarrow> string" where
  "show_int i = (if i < 0 then CHR ''-'' # show_nat (nat (- i)) else show_nat (nat i))"

lemma show_nat_nonempty [simp]: "show_nat n \<noteq> []"
  by (subst show_nat.simps) simp

section \<open>Digest syntax\<close>

definition is_lhex :: "char \<Rightarrow> bool" where
  "is_lhex c \<longleftrightarrow> (let n = (of_char c :: nat) in (48 \<le> n \<and> n \<le> 57) \<or> (97 \<le> n \<and> n \<le> 102))"

definition is_hex :: "nat \<Rightarrow> string \<Rightarrow> bool" where
  "is_hex k s \<longleftrightarrow> length s = k \<and> list_all is_lhex s"

text \<open>The pattern \<open>^[0-9a-f]{64}$\<close>, and its \<open>None\<close>-tolerant form.\<close>

abbreviation is_hex64 :: "string \<Rightarrow> bool" where
  "is_hex64 \<equiv> is_hex 64"

definition opt_hex64 :: "string option \<Rightarrow> bool" where
  "opt_hex64 d \<longleftrightarrow> (case d of None \<Rightarrow> True | Some s \<Rightarrow> is_hex64 s)"

lemma is_hex64_nonempty: "is_hex64 s \<Longrightarrow> s \<noteq> []"
  by (auto simp: is_hex_def)

lemma is_hex_take: "\<lbrakk>is_hex n s; k \<le> n\<rbrakk> \<Longrightarrow> is_hex k (take k s)"
  by (auto simp: is_hex_def list_all_iff dest: in_set_takeD)

lemma opt_hex64_simps [simp]: "opt_hex64 None" "opt_hex64 (Some s) = is_hex64 s"
  by (simp_all add: opt_hex64_def)

section \<open>Sorted and unique lists\<close>

text \<open>\<open>sorted(set(xs))\<close>, and the check \<open>xs == sorted(set(xs))\<close>.\<close>

definition sorted_set :: "'a::linorder list \<Rightarrow> 'a list" where
  "sorted_set xs = sort (remdups xs)"

lemma set_sorted_set [simp]: "set (sorted_set xs) = set xs"
  by (simp add: sorted_set_def)

lemma sorted_sorted_set [simp]: "sorted (sorted_set xs)"
  by (simp add: sorted_set_def)

lemma distinct_sorted_set [simp]: "distinct (sorted_set xs)"
  by (simp add: sorted_set_def)

lemma sorted_set_idem [simp]: "sorted_set (sorted_set xs) = sorted_set xs"
  by (simp add: sorted_set_def sort_key_id_if_sorted distinct_remdups_id sorted_sort_id)

lemma sorted_set_fix_iff: "xs = sorted_set xs \<longleftrightarrow> sorted xs \<and> distinct xs"
  by (metis distinct_remdups_id distinct_sorted_set sorted_set_def sorted_sort_id sorted_sorted_set)

lemma sorted_set_cong: "set xs = set ys \<Longrightarrow> sorted_set xs = sorted_set ys"
  by (rule sorted_distinct_set_unique) simp_all

lemma sorted_set_empty_iff [simp]: "sorted_set xs = [] \<longleftrightarrow> xs = []"
  by (metis set_empty set_sorted_set)

lemma list_ex_map_filter:
  "(\<And>x. P (f x)) \<Longrightarrow> list_ex P (map f (filter Q xs)) \<longleftrightarrow> list_ex Q xs"
  by (induction xs) auto

section \<open>Dictionaries in insertion order\<close>

text \<open>
  A Python \<open>dict\<close> with string keys: an association list with distinct keys, in insertion order;
  \<open>d[k] = v\<close> keeps the position of an existing key and appends a new one; \<open>d.pop(k, None)\<close>
  deletes.
\<close>

type_synonym 'v dict = "(string \<times> 'v) list"

fun dict_set :: "string \<Rightarrow> 'v \<Rightarrow> 'v dict \<Rightarrow> 'v dict" where
  "dict_set k v [] = [(k, v)]"
| "dict_set k v ((k', v') # d) = (if k = k' then (k, v) # d else (k', v') # dict_set k v d)"

definition dict_update :: "'v dict \<Rightarrow> 'v dict \<Rightarrow> 'v dict" where
  "dict_update d upd = fold (\<lambda>(k, v). dict_set k v) upd d"

definition dict_pop :: "string \<Rightarrow> 'v dict \<Rightarrow> 'v dict" where
  "dict_pop k d = filter (\<lambda>kv. fst kv \<noteq> k) d"

definition dict_keys :: "'v dict \<Rightarrow> string list" where
  "dict_keys d = map fst d"

lemma map_of_dict_set [simp]: "map_of (dict_set k v d) = (map_of d)(k \<mapsto> v)"
  by (induction k v d rule: dict_set.induct) (auto simp: fun_eq_iff)

lemma map_of_dict_pop [simp]: "map_of (dict_pop k d) = (map_of d)(k := None)"
  unfolding dict_pop_def by (induction d) (auto simp: fun_eq_iff)

lemma dict_keys_set: "set (dict_keys (dict_set k v d)) = insert k (set (dict_keys d))"
  unfolding dict_keys_def by (induction k v d rule: dict_set.induct) auto

lemma dict_set_fresh: "k \<notin> set (dict_keys d) \<Longrightarrow> dict_set k v d = d @ [(k, v)]"
  unfolding dict_keys_def by (induction k v d rule: dict_set.induct) auto

lemma distinct_dict_set: "distinct (dict_keys d) \<Longrightarrow> distinct (dict_keys (dict_set k v d))"
proof (induction k v d rule: dict_set.induct)
  case (2 k v k' v' d)
  then show ?case using dict_keys_set [of k v d] by (auto simp: dict_keys_def)
qed (simp add: dict_keys_def)

lemma distinct_dict_pop: "distinct (dict_keys d) \<Longrightarrow> distinct (dict_keys (dict_pop k d))"
  unfolding dict_keys_def dict_pop_def by (rule distinct_map_filter)

lemma map_of_dict_update: "map_of (dict_update d upd) k =
  (case map_of (rev upd) k of None \<Rightarrow> map_of d k | Some v \<Rightarrow> Some v)"
  unfolding dict_update_def
  by (induction upd arbitrary: d) (auto simp: map_add_def split: option.splits)

lemma dict_pop_absent: "k \<notin> set (dict_keys d) \<Longrightarrow> dict_pop k d = d"
  unfolding dict_pop_def dict_keys_def by (induction d) auto

end
