(* ===== verification/Sha256.thy ===== *)
theory Sha256
  imports Prelude "HOL-Library.Word"
begin

text \<open>
  \<open>hashlib.sha256\<close> of the standard library, as the sources use it: the hexadecimal digest of
  a byte string. The compression works on 32-bit words. The sources call it in one shot
  (\<open>hashlib.sha256(data).hexdigest()\<close>) and incrementally (\<open>digest.update(chunk)\<close>), which is the
  digest of the concatenated chunks. Every other theory treats \<open>sha256\<close> as a black box whose only
  used law is the interface \<open>hex_digest\<close> below.
\<close>

unbundle bit_operations_syntax

type_synonym u32 = "32 word"

definition rotr :: "nat \<Rightarrow> u32 \<Rightarrow> u32" where
  "rotr n x = drop_bit n x OR push_bit (32 - n) x"

definition round_constants :: "u32 list" where
  "round_constants =
    [1116352408, 1899447441, 3049323471, 3921009573, 961987163, 1508970993, 2453635748, 2870763221,
     3624381080, 310598401, 607225278, 1426881987, 1925078388, 2162078206, 2614888103, 3248222580,
     3835390401, 4022224774, 264347078, 604807628, 770255983, 1249150122, 1555081692, 1996064986,
     2554220882, 2821834349, 2952996808, 3210313671, 3336571891, 3584528711, 113926993, 338241895,
     666307205, 773529912, 1294757372, 1396182291, 1695183700, 1986661051, 2177026350, 2456956037,
     2730485921, 2820302411, 3259730800, 3345764771, 3516065817, 3600352804, 4094571909, 275423344,
     430227734, 506948616, 659060556, 883997877, 958139571, 1322822218, 1537002063, 1747873779,
     1955562222, 2024104815, 2227730452, 2361852424, 2428436474, 2756734187, 3204031479, 3329325298]"

definition initial_state :: "u32 list" where
  "initial_state =
    [1779033703, 3144134277, 1013904242, 2773480762, 1359893119, 2600822924, 528734635, 1541459225]"

definition be_word :: "bytes \<Rightarrow> u32" where
  "be_word bs = fold (\<lambda>b w. push_bit 8 w OR of_char b) bs 0"

fun chunks :: "nat \<Rightarrow> 'a list \<Rightarrow> 'a list list" where
  "chunks n xs = (if xs = [] \<or> n = 0 then [] else take n xs # chunks n (drop n xs))"

declare chunks.simps [simp del]

definition pad :: "bytes \<Rightarrow> bytes" where
  "pad m = (let n = length m; z = (119 - n mod 64) mod 64 in
     m @ [CHR 0x80] @ replicate z (CHR 0x00) @
     map (\<lambda>i. char_of (uint (drop_bit (8 * i) (word_of_nat (8 * n) :: 64 word) AND 255)))
       [7, 6, 5, 4, 3, 2, 1, 0])"

text \<open>The message schedule, kept in reverse: the newest word first.\<close>

fun schedule :: "nat \<Rightarrow> u32 list \<Rightarrow> u32 list" where
  "schedule 0 w = rev w"
| "schedule (Suc k) w =
     (let x = w ! 1; y = w ! 14;
          s1 = rotr 17 x XOR rotr 19 x XOR drop_bit 10 x;
          s0 = rotr 7 y XOR rotr 18 y XOR drop_bit 3 y
      in schedule k ((w ! 15 + s0 + w ! 6 + s1) # w))"

fun sha_round :: "u32 \<times> u32 \<Rightarrow> u32 list \<Rightarrow> u32 list" where
  "sha_round (k, w) [a, b, c, d, e, f, g, h] =
     (let s1 = rotr 6 e XOR rotr 11 e XOR rotr 25 e;
          ch = (e AND f) XOR (NOT e AND g);
          t1 = h + s1 + ch + k + w;
          s0 = rotr 2 a XOR rotr 13 a XOR rotr 22 a;
          mj = (a AND b) XOR (a AND c) XOR (b AND c)
      in [t1 + (s0 + mj), a, b, c, d + t1, e, f, g])"
| "sha_round _ st = st"

definition compress :: "bytes \<Rightarrow> u32 list \<Rightarrow> u32 list" where
  "compress blk st =
     map2 (+) st (fold sha_round
       (zip round_constants (schedule 48 (rev (map be_word (chunks 4 blk))))) st)"

definition sha256_words :: "bytes \<Rightarrow> u32 list" where
  "sha256_words m = fold compress (chunks 64 (pad m)) initial_state"

definition hex_digit :: "nat \<Rightarrow> char" where
  "hex_digit n = ''0123456789abcdef'' ! n"

definition hex_word :: "u32 \<Rightarrow> string" where
  "hex_word w = map (\<lambda>i. hex_digit (unat (drop_bit (4 * i) w AND 15))) [7, 6, 5, 4, 3, 2, 1, 0]"

definition sha256 :: "bytes \<Rightarrow> string" where
  "sha256 m = concat (map hex_word (sha256_words m))"

text \<open>The digest always has the syntax \<open>[0-9a-f]{64}\<close>.\<close>

lemma length_sha_round [simp]: "length (sha_round kw st) = length st"
  by (induction kw st rule: sha_round.induct) (simp_all add: Let_def)

lemma length_fold_sha_round [simp]: "length (fold sha_round kws st) = length st"
  by (induction kws arbitrary: st) simp_all

lemma length_fold_compress [simp]: "length (fold compress blks st) = length st"
  by (induction blks arbitrary: st) (simp_all add: compress_def)

lemma length_sha256_words [simp]: "length (sha256_words m) = 8"
  by (simp add: sha256_words_def initial_state_def)

lemma unat_nibble: "unat (w AND 15 :: u32) < 16"
proof -
  have "w AND 15 \<le> (15 :: u32)" by (rule word_and_le1)
  then have "unat (w AND 15) \<le> unat (15 :: u32)" by (simp add: word_le_nat_alt)
  then show ?thesis by simp
qed

lemma is_lhex_hex_digit: "n < 16 \<Longrightarrow> is_lhex (hex_digit n)"
proof -
  assume "n < 16"
  then have "hex_digit n \<in> set ''0123456789abcdef''"
    unfolding hex_digit_def by (intro nth_mem) simp
  moreover have "list_all is_lhex ''0123456789abcdef''" by (simp add: is_lhex_def)
  ultimately show ?thesis by (simp only: list_all_iff)
qed

lemma is_hex_hex_word: "is_hex 8 (hex_word w)"
  unfolding is_hex_def hex_word_def by (auto intro!: is_lhex_hex_digit unat_nibble)

lemma is_hex_concat:
  "\<forall>x \<in> set xs. is_hex k (f x) \<Longrightarrow> is_hex (k * length xs) (concat (map f xs))"
  by (induction xs) (auto simp: is_hex_def)

theorem is_hex64_sha256 [simp]: "is_hex64 (sha256 m)"
  unfolding sha256_def using is_hex_concat [of "sha256_words m" 8 hex_word] is_hex_hex_word
  by simp

section \<open>The interface the rest of the program relies on\<close>

text \<open>
  A hexadecimal digest function: what a content address needs is only its syntax. Facts that need
  more (that two addresses coincide only for equal contents) are stated as explicit collisions.
\<close>

locale hex_digest =
  fixes digest :: "bytes \<Rightarrow> string"
  assumes digest_hex: "is_hex64 (digest m)"
begin

lemma digest_nonempty: "digest m \<noteq> []"
  using digest_hex is_hex64_nonempty by blast

lemma digest_length: "length (digest m) = 64"
  using digest_hex by (simp add: is_hex_def)

lemma digest_prefix_hex: "k \<le> 64 \<Longrightarrow> is_hex k (take k (digest m))"
  using digest_hex is_hex_take by blast

end

interpretation sha: hex_digest sha256
  by unfold_locales simp

end
