(* ===== verification/Floats.thy ===== *)
theory Floats
  imports Prelude "HOL-Library.Log_Nat"
begin

text \<open>
  Python floats: a finite \<open>float\<close> is the rational number it denotes, every arithmetic operation
  is the exact result rounded to nearest, ties to even, with a 53-bit significand
  (\<open>double_of\<close>), and \<open>repr\<close> is the shortest decimal string that rounds back. The exponent range
  is unbounded: overflow and subnormal numbers do not occur in the sources' computations (rates,
  scores, millisecond durations) and are not modelled; neither are \<open>nan\<close> and \<open>inf\<close>.
\<close>

definition round_half_even :: "rat \<Rightarrow> int" where
  "round_half_even x = (let f = \<lfloor>x\<rfloor>; d = x - of_int f in
     if d < 1 / 2 then f else if d > 1 / 2 then f + 1 else if even f then f else f + 1)"

definition pow2 :: "int \<Rightarrow> rat" where
  "pow2 e = (if 0 \<le> e then 2 ^ nat e else 1 / 2 ^ nat (- e))"

definition pow10 :: "int \<Rightarrow> rat" where
  "pow10 e = (if 0 \<le> e then 10 ^ nat e else 1 / 10 ^ nat (- e))"

text \<open>The exponent \<open>e\<close> with \<open>2^52 \<le> x / 2^e < 2^53\<close>, for \<open>x > 0\<close>.\<close>

definition double_exp :: "rat \<Rightarrow> int" where
  "double_exp x = (let (n, d) = quotient_of x; e = bitlen n - bitlen d - 53 in
     if 2 ^ 53 \<le> x / pow2 e then e + 1 else if x / pow2 e < 2 ^ 52 then e - 1 else e)"

definition double_of :: "rat \<Rightarrow> rat" where
  "double_of x = (if x = 0 then 0
     else let a = \<bar>x\<bar>; e = double_exp a; m = of_int (round_half_even (a / pow2 e)) * pow2 e
          in if x < 0 then - m else m)"

definition fadd :: "rat \<Rightarrow> rat \<Rightarrow> rat" where
  "fadd a b = double_of (a + b)"

definition fmul :: "rat \<Rightarrow> rat \<Rightarrow> rat" where
  "fmul a b = double_of (a * b)"

definition fdiv :: "rat \<Rightarrow> rat \<Rightarrow> rat" where
  "fdiv a b = double_of (a / b)"

text \<open>\<open>round(x, 2)\<close>: the decimal nearest to the exact value, ties to even, as a float.\<close>

definition py_round2 :: "rat \<Rightarrow> rat" where
  "py_round2 x = double_of (of_int (round_half_even (x * 100)) / 100)"

text \<open>
  \<open>repr\<close>: the first \<open>p \<le> 17\<close> such that rounding to \<open>p\<close> significant digits gives the same float;
  \<open>dec_exp\<close> is the exponent of the leading digit.
\<close>

fun dec_exp_up :: "nat \<Rightarrow> rat \<Rightarrow> int \<Rightarrow> int" where
  "dec_exp_up 0 x e = e"
| "dec_exp_up (Suc n) x e =
     (if pow10 (e + 1) \<le> x then dec_exp_up n x (e + 1)
      else if x < pow10 e then dec_exp_up n x (e - 1) else e)"

definition digits_at :: "nat \<Rightarrow> rat \<Rightarrow> int \<Rightarrow> nat \<times> int" where
  "digits_at p x e = (let q = e - int p + 1; m = nat (round_half_even (x / pow10 q)) in
     if m = 10 ^ p then (10 ^ (p - 1), q + 1) else (m, q))"

fun shortest :: "nat \<Rightarrow> nat \<Rightarrow> rat \<Rightarrow> int \<Rightarrow> nat \<times> int" where
  "shortest 0 p x e = digits_at p x e"
| "shortest (Suc n) p x e = (let (m, q) = digits_at p x e in
     if double_of (of_nat m * pow10 q) = x then (m, q) else shortest n (Suc p) x e)"

definition format_digits :: "string \<Rightarrow> int \<Rightarrow> string" where
  "format_digits ds e =
     (if - 4 \<le> e \<and> e < 16 then
        (if e < 0 then ''0.'' @ replicate (nat (- e - 1)) CHR ''0'' @ ds
         else if int (length ds) \<le> e + 1
           then ds @ replicate (nat (e + 1) - length ds) CHR ''0'' @ ''.0''
         else take (nat (e + 1)) ds @ ''.'' @ drop (nat (e + 1)) ds)
      else take 1 ds @ (if length ds = 1 then '''' else ''.'' @ drop 1 ds) @ ''e'' @
        (if e < 0 then ''-'' else ''+'') @
        (let s = show_nat (nat \<bar>e\<bar>) in if length s < 2 then CHR ''0'' # s else s))"

definition float_repr :: "rat \<Rightarrow> string" where
  "float_repr x = (if x = 0 then ''0.0''
     else let a = \<bar>x\<bar>; e = dec_exp_up 400 a 0; (m, q) = shortest 17 1 a e; ds = show_nat m;
              body = format_digits ds (q + int (length ds) - 1)
          in if x < 0 then CHR ''-'' # body else body)"

lemma double_of_0 [simp]: "double_of 0 = 0"
  by (simp add: double_of_def)

lemma fdiv_0 [simp]: "fdiv 0 b = 0"
  by (simp add: fdiv_def)

lemma round_half_even_of_int [simp]: "round_half_even (of_int n) = n"
  by (simp add: round_half_even_def)

lemma double_of_1 [simp]: "double_of 1 = 1"
  by code_simp

lemma fdiv_self [simp]: "b \<noteq> 0 \<Longrightarrow> fdiv b b = 1"
  by (simp add: fdiv_def)

end
