(* ===== verification/Json.thy ===== *)
theory Json
  imports Sha256 Floats
begin

text \<open>
  JSON values as \<open>json.loads\<close> and \<open>model_dump(mode="json")\<close> produce them, the canonical encoding
  \<open>json.dumps(v, sort_keys=True, separators=(",", ":"))\<close>, the content address
  \<open>canonical_digest\<close> that every component uses (\<open>evidence.py\<close>, \<open>run_artifact_common.py\<close>), and
  Python's \<open>==\<close> on such values. An object is a \<open>dict\<close> in insertion order.
\<close>

datatype json =
    JNull
  | JBool bool
  | JInt int
  | JFloat rat
  | JStr string
  | JArr "json list"
  | JObj "(string \<times> json) list"

section \<open>Encoding\<close>

definition hex4 :: "nat \<Rightarrow> string" where
  "hex4 n = map (\<lambda>k. hex_digit (n div 16 ^ k mod 16)) [3, 2, 1, 0]"

definition escape_char :: "char \<Rightarrow> string" where
  "escape_char c =
     (if c = CHR 0x22 then [CHR 0x5C, CHR 0x22]
      else if c = CHR 0x5C then [CHR 0x5C, CHR 0x5C]
      else if c = CHR 0x0A then [CHR 0x5C, CHR ''n'']
      else if c = CHR 0x0D then [CHR 0x5C, CHR ''r'']
      else if c = CHR 0x09 then [CHR 0x5C, CHR ''t'']
      else if c = CHR 0x0C then [CHR 0x5C, CHR ''f'']
      else if c = CHR 0x08 then [CHR 0x5C, CHR ''b'']
      else let n = (of_char c :: nat) in
        if 32 \<le> n \<and> n \<le> 126 then [c] else CHR 0x5C # CHR ''u'' # hex4 n)"

definition quote :: "string \<Rightarrow> string" where
  "quote s = CHR 0x22 # concat (map escape_char s) @ [CHR 0x22]"

fun dumps :: "json \<Rightarrow> string" where
  "dumps JNull = ''null''"
| "dumps (JBool b) = (if b then ''true'' else ''false'')"
| "dumps (JInt i) = show_int i"
| "dumps (JFloat x) = float_repr x"
| "dumps (JStr s) = quote s"
| "dumps (JArr xs) = ''['' @ join '','' (map dumps xs) @ '']''"
| "dumps (JObj kvs) = ''{'' @ join '',''
     (map (\<lambda>(k, t). quote k @ '':'' @ t) (sort_key fst (map (\<lambda>(k, v). (k, dumps v)) kvs))) @ ''}''"

text \<open>
  \<open>str.encode("utf-8")\<close> on the Latin-1 range: one byte below 128, two bytes above. The
  canonical encoding is pure ASCII (\<open>ensure_ascii\<close>), so encoding it changes nothing.
\<close>

definition utf8_char :: "char \<Rightarrow> bytes" where
  "utf8_char c = (let n = (of_char c :: nat) in
     if n < 128 then [c] else [char_of (192 + n div 64), char_of (128 + n mod 64)])"

definition utf8 :: "string \<Rightarrow> bytes" where
  "utf8 s = concat (map utf8_char s)"

definition canonical_digest :: "json \<Rightarrow> string" where
  "canonical_digest v = sha256 (utf8 (dumps v))"

text \<open>\<open>hashlib.sha256(text.encode("utf-8")).hexdigest()\<close>\<close>

definition text_digest :: "string \<Rightarrow> string" where
  "text_digest s = sha256 (utf8 s)"

lemma is_hex64_canonical_digest [simp]: "is_hex64 (canonical_digest v)"
  by (simp add: canonical_digest_def)

lemma is_hex64_text_digest [simp]: "is_hex64 (text_digest s)"
  by (simp add: text_digest_def)

lemma digests_nonempty [simp]: "canonical_digest v \<noteq> []" "text_digest s \<noteq> []"
  by (simp_all add: canonical_digest_def text_digest_def sha.digest_nonempty)

section \<open>Access\<close>

fun obj_items :: "json \<Rightarrow> json dict" where
  "obj_items (JObj kvs) = kvs"
| "obj_items _ = []"

text \<open>\<open>value.get(key)\<close> on an object.\<close>

definition jget :: "json \<Rightarrow> string \<Rightarrow> json option" where
  "jget v k = map_of (obj_items v) k"

text \<open>\<open>value.get(key)\<close> where a missing key gives \<open>None\<close>, i.e. JSON null.\<close>

definition jget_null :: "json dict \<Rightarrow> string \<Rightarrow> json" where
  "jget_null d k = (case map_of d k of None \<Rightarrow> JNull | Some v \<Rightarrow> v)"

definition jget_default :: "json dict \<Rightarrow> string \<Rightarrow> json \<Rightarrow> json" where
  "jget_default d k v = (case map_of d k of None \<Rightarrow> v | Some w \<Rightarrow> w)"

fun is_obj :: "json \<Rightarrow> bool" where
  "is_obj (JObj _) = True"
| "is_obj _ = False"

definition opt_str :: "string option \<Rightarrow> json" where
  "opt_str s = (case s of None \<Rightarrow> JNull | Some t \<Rightarrow> JStr t)"

definition strs :: "string list \<Rightarrow> json" where
  "strs xs = JArr (map JStr xs)"

lemma opt_str_simps [simp]: "opt_str None = JNull" "opt_str (Some t) = JStr t"
  by (simp_all add: opt_str_def)

lemma opt_str_inj: "opt_str a = opt_str b \<longleftrightarrow> a = b"
  by (cases a; cases b) auto

lemma strs_inj: "strs xs = strs ys \<longleftrightarrow> xs = ys"
  by (simp add: strs_def inj_map_eq_map inj_def)

section \<open>Python equality and truth\<close>

text \<open>
  \<open>True == 1\<close>, \<open>1 == 1.0\<close>, and dictionaries compare without their order: two values are equal
  when their normal forms are.
\<close>

fun jnorm :: "json \<Rightarrow> json" where
  "jnorm (JBool b) = JFloat (if b then 1 else 0)"
| "jnorm (JInt i) = JFloat (of_int i)"
| "jnorm (JArr xs) = JArr (map jnorm xs)"
| "jnorm (JObj kvs) = JObj (sort_key fst (map (\<lambda>(k, v). (k, jnorm v)) kvs))"
| "jnorm v = v"

definition py_eq :: "json \<Rightarrow> json \<Rightarrow> bool" where
  "py_eq a b \<longleftrightarrow> jnorm a = jnorm b"

fun truthy :: "json \<Rightarrow> bool" where
  "truthy JNull = False"
| "truthy (JBool b) = b"
| "truthy (JInt i) = (i \<noteq> 0)"
| "truthy (JFloat x) = (x \<noteq> 0)"
| "truthy (JStr s) = (s \<noteq> [])"
| "truthy (JArr xs) = (xs \<noteq> [])"
| "truthy (JObj kvs) = (kvs \<noteq> [])"

lemma py_eq_refl [simp]: "py_eq a a"
  by (simp add: py_eq_def)

lemma py_eq_sym: "py_eq a b \<Longrightarrow> py_eq b a"
  by (simp add: py_eq_def)

lemma py_eq_trans: "\<lbrakk>py_eq a b; py_eq b c\<rbrakk> \<Longrightarrow> py_eq a c"
  by (simp add: py_eq_def)

lemma jnorm_JStr_iff: "jnorm v = JStr s \<longleftrightarrow> v = JStr s"
  by (cases v) auto

lemma py_eq_JStr [simp]: "py_eq v (JStr s) \<longleftrightarrow> v = JStr s" "py_eq (JStr s) v \<longleftrightarrow> v = JStr s"
  by (auto simp: py_eq_def jnorm_JStr_iff dest: sym)

lemma py_eq_strs [simp]: "py_eq v (strs xs) \<longleftrightarrow> v = strs xs"
proof
  assume "py_eq v (strs xs)"
  then have "jnorm v = JArr (map JStr xs)" by (simp add: py_eq_def strs_def comp_def)
  then obtain ys where v: "v = JArr ys" and ys: "map jnorm ys = map JStr xs" by (cases v) auto
  from ys have "ys = map JStr xs"
    by (induction ys arbitrary: xs) (auto simp: jnorm_JStr_iff Cons_eq_map_conv)
  with v show "v = strs xs" by (simp add: strs_def)
qed simp

lemma py_eq_opt_str: "py_eq v (opt_str s) \<longleftrightarrow> v = opt_str s"
proof (cases s)
  case None
  then show ?thesis by (cases v) (auto simp: py_eq_def)
qed simp

section \<open>Conversion to text\<close>

text \<open>\<open>repr\<close> of a string: single quotes unless the string has one and no double quote.\<close>

definition repr_char :: "char \<Rightarrow> char \<Rightarrow> string" where
  "repr_char q c =
     (if c = q then [CHR 0x5C, c]
      else if c = CHR 0x5C then [CHR 0x5C, CHR 0x5C]
      else if c = CHR 0x0A then [CHR 0x5C, CHR ''n'']
      else if c = CHR 0x0D then [CHR 0x5C, CHR ''r'']
      else if c = CHR 0x09 then [CHR 0x5C, CHR ''t'']
      else let n = (of_char c :: nat) in
        if n < 32 \<or> (127 \<le> n \<and> n \<le> 160) \<or> n = 173 then CHR 0x5C # CHR ''x'' # drop 2 (hex4 n) else [c])"

definition repr_str :: "string \<Rightarrow> string" where
  "repr_str s = (let q = (if CHR 0x27 \<in> set s \<and> CHR 0x22 \<notin> set s then CHR 0x22 else CHR 0x27) in
     q # concat (map (repr_char q) s) @ [q])"

fun py_repr :: "json \<Rightarrow> string" where
  "py_repr JNull = ''None''"
| "py_repr (JBool b) = (if b then ''True'' else ''False'')"
| "py_repr (JInt i) = show_int i"
| "py_repr (JFloat x) = float_repr x"
| "py_repr (JStr s) = repr_str s"
| "py_repr (JArr xs) = ''['' @ join '', '' (map py_repr xs) @ '']''"
| "py_repr (JObj kvs) = ''{'' @ join '', '' (map (\<lambda>(k, v). repr_str k @ '': '' @ py_repr v) kvs) @ ''}''"

text \<open>\<open>str(v)\<close>: a string is itself, anything else its \<open>repr\<close>.\<close>

definition py_str :: "json \<Rightarrow> string" where
  "py_str v = (case v of JStr s \<Rightarrow> s | _ \<Rightarrow> py_repr v)"

lemma py_str_JStr [simp]: "py_str (JStr s) = s"
  by (simp add: py_str_def)

end
