(* ===== verification/Models.thy ===== *)
theory Models
  imports Json
begin

text \<open>
  The data model of \<open>models.py\<close>: the run specification, its sandbox policy and limits, inference
  receipts and the evidence bundle, each with its \<open>model_dump(mode="json")\<close>. A field of type
  \<open>dict[str, Any]\<close> is a JSON dictionary in insertion order.
\<close>

section \<open>Enumerations\<close>

datatype quota_class = QuotaFree | QuotaPaid | QuotaLocal

fun quota_value :: "quota_class \<Rightarrow> string" where
  "quota_value QuotaFree = ''free''"
| "quota_value QuotaPaid = ''paid''"
| "quota_value QuotaLocal = ''local''"

datatype runtime_backend = Openshell | Cloudflare | Enroot | Fake

fun backend_value :: "runtime_backend \<Rightarrow> string" where
  "backend_value Openshell = ''openshell''"
| "backend_value Cloudflare = ''cloudflare''"
| "backend_value Enroot = ''enroot''"
| "backend_value Fake = ''fake''"

lemma backend_value_inj [simp]: "backend_value a = backend_value b \<longleftrightarrow> a = b"
  by (cases a; cases b) auto

section \<open>Run specification\<close>

record skill_ref =
  source_url :: string
  commit_or_digest :: string
  entrypoint :: string
  provenance_digest :: "string option"

record agent_ref =
  harness :: string
  agent_version :: string

record model_ref =
  provider :: string
  model_name :: string
  quota :: quota_class

record runtime_ref =
  backend :: runtime_backend
  runtime_version :: string
  image_digest :: string

record network_rule =
  host :: string
  port :: int
  protocol :: string
  access :: string
  binaries :: "string list"
  rule_path :: "string option"

record sandbox_policy =
  policy_network :: string
  allowed_hosts :: "string list"
  network_rules :: "network_rule list"
  policy_filesystem :: string
  policy_secrets :: string
  landlock_compatibility :: string
  provider_names :: "string list"
  secret_env_names :: "string list"

record scenario =
  scenario_id :: string
  task :: string
  scenario_assertions :: "string list"

record limits =
  timeout_seconds :: int
  max_model_calls :: int
  max_output_tokens :: int
  max_network_requests :: int

record run_spec =
  spec_run_id :: string
  skill :: skill_ref
  agent :: agent_ref
  model :: model_ref
  runtime :: runtime_ref
  policy :: sandbox_policy
  scenario :: scenario
  limits :: limits

text \<open>The defaults of the declarations.\<close>

definition default_network_rule :: "string \<Rightarrow> network_rule" where
  "default_network_rule h = \<lparr>host = h, port = 443, protocol = ''rest'', access = ''read-only'',
     binaries = [''/usr/bin/curl''], rule_path = None\<rparr>"

definition default_policy :: sandbox_policy where
  "default_policy = \<lparr>policy_network = ''deny-by-default'', allowed_hosts = [], network_rules = [],
     policy_filesystem = ''ephemeral'', policy_secrets = ''brokered'',
     landlock_compatibility = ''hard_requirement'', provider_names = [], secret_env_names = []\<rparr>"

definition default_limits :: limits where
  "default_limits = \<lparr>timeout_seconds = 300, max_model_calls = 20, max_output_tokens = 20000,
     max_network_requests = 100\<rparr>"

definition skill_json :: "skill_ref \<Rightarrow> json" where
  "skill_json s = JObj [(''source_url'', JStr (source_url s)),
     (''commit_or_digest'', JStr (commit_or_digest s)), (''entrypoint'', JStr (entrypoint s)),
     (''provenance_digest'', opt_str (provenance_digest s))]"

definition agent_json :: "agent_ref \<Rightarrow> json" where
  "agent_json a = JObj [(''harness'', JStr (harness a)), (''version'', JStr (agent_version a))]"

definition model_json :: "model_ref \<Rightarrow> json" where
  "model_json m = JObj [(''provider'', JStr (provider m)), (''model'', JStr (model_name m)),
     (''quota_class'', JStr (quota_value (quota m)))]"

definition runtime_json :: "runtime_ref \<Rightarrow> json" where
  "runtime_json r = JObj [(''backend'', JStr (backend_value (backend r))),
     (''version'', JStr (runtime_version r)), (''image_digest'', JStr (image_digest r))]"

definition rule_json :: "network_rule \<Rightarrow> json" where
  "rule_json r = JObj [(''host'', JStr (host r)), (''port'', JInt (port r)),
     (''protocol'', JStr (protocol r)), (''access'', JStr (access r)),
     (''binaries'', strs (binaries r)), (''path'', opt_str (rule_path r))]"

definition policy_json :: "sandbox_policy \<Rightarrow> json" where
  "policy_json p = JObj [(''network'', JStr (policy_network p)),
     (''allowed_hosts'', strs (allowed_hosts p)),
     (''network_rules'', JArr (map rule_json (network_rules p))),
     (''filesystem'', JStr (policy_filesystem p)), (''secrets'', JStr (policy_secrets p)),
     (''landlock_compatibility'', JStr (landlock_compatibility p)),
     (''provider_names'', strs (provider_names p)),
     (''secret_env_names'', strs (secret_env_names p))]"

definition scenario_json :: "scenario \<Rightarrow> json" where
  "scenario_json s = JObj [(''id'', JStr (scenario_id s)), (''task'', JStr (task s)),
     (''assertions'', strs (scenario_assertions s))]"

definition limits_json :: "limits \<Rightarrow> json" where
  "limits_json l = JObj [(''timeout_seconds'', JInt (timeout_seconds l)),
     (''max_model_calls'', JInt (max_model_calls l)),
     (''max_output_tokens'', JInt (max_output_tokens l)),
     (''max_network_requests'', JInt (max_network_requests l))]"

definition run_spec_json :: "run_spec \<Rightarrow> json" where
  "run_spec_json s = JObj [(''run_id'', JStr (spec_run_id s)), (''skill'', skill_json (skill s)),
     (''agent'', agent_json (agent s)), (''model'', model_json (model s)),
     (''runtime'', runtime_json (runtime s)), (''policy'', policy_json (policy s)),
     (''scenario'', scenario_json (scenario s)), (''limits'', limits_json (limits s))]"

section \<open>Inference receipts\<close>

record inference_receipt =
  rec_provider :: string
  rec_model :: string
  request_hash :: string
  input_tokens :: int
  output_tokens :: int
  latency_ms :: rat
  price_usd :: rat
  rec_quota :: quota_class
  rate_limit_headers :: "string dict"
  rec_error :: "string option"
  rec_run_id :: "string option"

definition receipt_json :: "inference_receipt \<Rightarrow> json" where
  "receipt_json r = JObj [(''provider'', JStr (rec_provider r)), (''model'', JStr (rec_model r)),
     (''request_hash'', JStr (request_hash r)), (''input_tokens'', JInt (input_tokens r)),
     (''output_tokens'', JInt (output_tokens r)), (''latency_ms'', JFloat (latency_ms r)),
     (''price_usd'', JFloat (price_usd r)), (''quota_class'', JStr (quota_value (rec_quota r))),
     (''rate_limit_headers'', JObj (map (\<lambda>(k, v). (k, JStr v)) (rate_limit_headers r))),
     (''error'', opt_str (rec_error r)), (''run_id'', opt_str (rec_run_id r))]"

section \<open>Evidence bundle\<close>

record evidence_bundle =
  ev_run_id :: string
  ev_provenance_digest :: "string option"
  exit_code :: "int option"
  ev_stdout :: string
  ev_stderr :: string
  commands :: "json dict list"
  processes :: "json dict list"
  network :: "json dict list"
  filesystem_before :: "json dict"
  filesystem_after :: "json dict"
  inference :: "inference_receipt list"
  assertions :: "bool dict"
  findings :: "json dict list"
  runtime_metadata :: "json dict"
  ev_policy :: "json dict"
  ocsf_events :: "json dict list"
  coding_receipt :: "json dict"
  agent_events :: "json dict list"
  workspace_diff :: "json dict"
  test_results :: "json dict list"
  browser_receipt :: "json dict"
  browser_events :: "json dict list"
  dom_snapshot :: "json dict"
  accessibility_snapshot :: "json dict"
  network_trace :: "json dict list"
  screenshots :: "json dict list"
  downloads :: "json dict list"
  browser_assertions :: "bool dict"

definition empty_evidence :: "string \<Rightarrow> evidence_bundle" where
  "empty_evidence rid = \<lparr>ev_run_id = rid, ev_provenance_digest = None, exit_code = None,
     ev_stdout = [], ev_stderr = [], commands = [], processes = [], network = [],
     filesystem_before = [], filesystem_after = [], inference = [], assertions = [], findings = [],
     runtime_metadata = [], ev_policy = [], ocsf_events = [], coding_receipt = [],
     agent_events = [], workspace_diff = [], test_results = [], browser_receipt = [],
     browser_events = [], dom_snapshot = [], accessibility_snapshot = [], network_trace = [],
     screenshots = [], downloads = [], browser_assertions = []\<rparr>"

definition objs :: "json dict list \<Rightarrow> json" where
  "objs ds = JArr (map JObj ds)"

definition bools :: "bool dict \<Rightarrow> json" where
  "bools d = JObj (map (\<lambda>(k, b). (k, JBool b)) d)"

definition opt_int :: "int option \<Rightarrow> json" where
  "opt_int i = (case i of None \<Rightarrow> JNull | Some n \<Rightarrow> JInt n)"

definition evidence_json :: "evidence_bundle \<Rightarrow> json" where
  "evidence_json e = JObj [(''run_id'', JStr (ev_run_id e)),
     (''provenance_digest'', opt_str (ev_provenance_digest e)),
     (''exit_code'', opt_int (exit_code e)), (''stdout'', JStr (ev_stdout e)),
     (''stderr'', JStr (ev_stderr e)), (''commands'', objs (commands e)),
     (''processes'', objs (processes e)), (''network'', objs (network e)),
     (''filesystem_before'', JObj (filesystem_before e)),
     (''filesystem_after'', JObj (filesystem_after e)),
     (''inference'', JArr (map receipt_json (inference e))),
     (''assertions'', bools (assertions e)), (''findings'', objs (findings e)),
     (''runtime_metadata'', JObj (runtime_metadata e)), (''policy'', JObj (ev_policy e)),
     (''ocsf_events'', objs (ocsf_events e)), (''coding_receipt'', JObj (coding_receipt e)),
     (''agent_events'', objs (agent_events e)), (''workspace_diff'', JObj (workspace_diff e)),
     (''test_results'', objs (test_results e)), (''browser_receipt'', JObj (browser_receipt e)),
     (''browser_events'', objs (browser_events e)), (''dom_snapshot'', JObj (dom_snapshot e)),
     (''accessibility_snapshot'', JObj (accessibility_snapshot e)),
     (''network_trace'', objs (network_trace e)), (''screenshots'', objs (screenshots e)),
     (''downloads'', objs (downloads e)), (''browser_assertions'', bools (browser_assertions e))]"

end
