(* ===== verification/Evidence.thy ===== *)
theory Evidence
  imports Models
begin

text \<open>
  \<open>evidence.py\<close>: content-addressed evidence objects, the capture contract a trusted adapter writes
  into \<open>runtime_metadata\<close>, the attachment of inference receipts and the content-addressed store;
  and \<open>security.py\<close>: the evaluation of a bundle into findings and a security gate.
\<close>

section \<open>Evidence objects\<close>

definition evidence_object :: "string \<Rightarrow> json dict \<Rightarrow> json dict" where
  "evidence_object kind value =
     (let payload = [(''kind'', JStr kind), (''value'', JObj value)]
      in (''evidence_id'', JStr (canonical_digest (JObj payload))) # payload)"

definition evidence_id_of :: "string \<Rightarrow> json dict \<Rightarrow> string" where
  "evidence_id_of kind value = canonical_digest (JObj [(''kind'', JStr kind), (''value'', JObj value)])"

definition index_groups :: "evidence_bundle \<Rightarrow> (string \<times> json dict) list" where
  "index_groups b =
     map (Pair ''command'') (commands b) @ map (Pair ''process'') (processes b) @
     map (Pair ''network'') (network b) @ map (Pair ''finding'') (findings b) @
     map (Pair ''ocsf'') (ocsf_events b) @ map (Pair ''agent_event'') (agent_events b) @
     map (Pair ''test_result'') (test_results b) @
     filter (\<lambda>(k, v). v \<noteq> []) [(''filesystem_before'', filesystem_before b),
       (''filesystem_after'', filesystem_after b), (''coding_receipt'', coding_receipt b),
       (''workspace_diff'', workspace_diff b)]"

definition index_evidence :: "evidence_bundle \<Rightarrow> (json dict) dict" where
  "index_evidence b = fold (\<lambda>(kind, value). dict_set (evidence_id_of kind value) (evidence_object kind value))
     (index_groups b) []"

section \<open>The capture contract\<close>

fun py_set :: "json \<Rightarrow> string list" where
  "py_set (JArr xs) = map py_str xs"
| "py_set _ = []"

definition captured_evidence :: "evidence_bundle \<Rightarrow> string list" where
  "captured_evidence b =
     (case jget_default (runtime_metadata b) ''evidence_contract'' (JObj []) of
        JObj contract \<Rightarrow> py_set (jget_default contract ''captured'' (JArr []))
      | _ \<Rightarrow> [])"

definition mark_evidence_captured ::
  "evidence_bundle \<Rightarrow> string list \<Rightarrow> string option \<Rightarrow> evidence_bundle" where
  "mark_evidence_captured b kinds rb =
     (let contract = obj_items (jget_null (runtime_metadata b) ''evidence_contract'');
          contract' = dict_update contract [(''schema_version'', JStr ''1.0''),
            (''captured'', strs (sorted_set (captured_evidence b @ kinds)))];
          metadata = dict_set ''evidence_contract'' (JObj contract') (runtime_metadata b);
          metadata' = (case rb of None \<Rightarrow> metadata
            | Some v \<Rightarrow> dict_set ''runtime_backend'' (JStr v) metadata)
      in b\<lparr>runtime_metadata := metadata'\<rparr>)"

text \<open>
  \<open>attach_run_receipts\<close>: the ledger is given by the records it reads for this run, or is absent.
\<close>

definition attach_run_receipts ::
  "evidence_bundle \<Rightarrow> (string \<Rightarrow> inference_receipt list) option \<Rightarrow> evidence_bundle" where
  "attach_run_receipts b ledger =
     (case ledger of None \<Rightarrow> b
      | Some read \<Rightarrow>
          (let receipts = read (ev_run_id b); updated = b\<lparr>inference := receipts\<rparr>
           in if receipts = [] then updated else mark_evidence_captured updated [''inference''] None))"

text \<open>\<open>EvidenceStore.persist\<close>: a directory of files named by their digest, written once.\<close>

definition evidence_store_persist ::
  "(string \<rightharpoonup> json) \<Rightarrow> evidence_bundle \<Rightarrow> string \<times> (string \<rightharpoonup> json)" where
  "evidence_store_persist store b =
     (let payload = evidence_json b; digest = canonical_digest payload
      in (digest, if store digest = None then store(digest \<mapsto> payload) else store))"

lemma captured_mark [simp]:
  "set (captured_evidence (mark_evidence_captured b kinds rb)) = set (captured_evidence b) \<union> set kinds"
proof -
  have "captured_evidence (mark_evidence_captured b kinds rb)
      = sorted_set (captured_evidence b @ kinds)"
    by (cases rb) (simp_all add: captured_evidence_def mark_evidence_captured_def Let_def
        jget_default_def dict_update_def strs_def comp_def)
  then show ?thesis by simp
qed

lemma mark_runtime_backend:
  "map_of (runtime_metadata (mark_evidence_captured b kinds (Some v))) ''runtime_backend'' = Some (JStr v)"
  by (simp add: mark_evidence_captured_def Let_def)

lemma mark_metadata_other:
  "\<lbrakk>k \<noteq> ''evidence_contract''; k \<noteq> ''runtime_backend''\<rbrakk> \<Longrightarrow>
     map_of (runtime_metadata (mark_evidence_captured b kinds rb)) k = map_of (runtime_metadata b) k"
  by (cases rb) (simp_all add: mark_evidence_captured_def Let_def)

lemma mark_runtime_backend_none:
  "map_of (runtime_metadata (mark_evidence_captured b kinds None)) ''runtime_backend''
     = map_of (runtime_metadata b) ''runtime_backend''"
  by (simp add: mark_evidence_captured_def Let_def)

text \<open>Marking changes the runtime metadata only.\<close>

lemma mark_frame:
  "\<exists>m. mark_evidence_captured b kinds rb = b\<lparr>runtime_metadata := m\<rparr>"
  by (auto simp: mark_evidence_captured_def Let_def)

lemma mark_frame_simps [simp]:
  "ev_run_id (mark_evidence_captured b kinds rb) = ev_run_id b"
  "ev_provenance_digest (mark_evidence_captured b kinds rb) = ev_provenance_digest b"
  "exit_code (mark_evidence_captured b kinds rb) = exit_code b"
  "ev_stdout (mark_evidence_captured b kinds rb) = ev_stdout b"
  "ev_stderr (mark_evidence_captured b kinds rb) = ev_stderr b"
  "commands (mark_evidence_captured b kinds rb) = commands b"
  "network (mark_evidence_captured b kinds rb) = network b"
  "filesystem_after (mark_evidence_captured b kinds rb) = filesystem_after b"
  "findings (mark_evidence_captured b kinds rb) = findings b"
  "assertions (mark_evidence_captured b kinds rb) = assertions b"
  "inference (mark_evidence_captured b kinds rb) = inference b"
  using mark_frame [of b kinds rb] by (auto simp del: mark_evidence_captured_def)

lemma attach_frame [simp]:
  "ev_run_id (attach_run_receipts b l) = ev_run_id b"
  "ev_provenance_digest (attach_run_receipts b l) = ev_provenance_digest b"
  "exit_code (attach_run_receipts b l) = exit_code b"
  "ev_stdout (attach_run_receipts b l) = ev_stdout b"
  "ev_stderr (attach_run_receipts b l) = ev_stderr b"
  "commands (attach_run_receipts b l) = commands b"
  "network (attach_run_receipts b l) = network b"
  "filesystem_after (attach_run_receipts b l) = filesystem_after b"
  "findings (attach_run_receipts b l) = findings b"
  "assertions (attach_run_receipts b l) = assertions b"
  by (simp_all add: attach_run_receipts_def Let_def split: option.splits)

section \<open>Security evaluation\<close>

record security_evaluation =
  sec_findings :: "json dict list"
  sec_gate :: string

definition rule_id_of :: "string \<Rightarrow> string" where
  "rule_id_of rule =
     (if rule = ''undeclared_network'' then ''runtime.network.denied''
      else if rule = ''agent_control_file_mutation'' then ''runtime.filesystem.agent-control-file-mutated''
      else if rule = ''credential_exposure'' then ''runtime.output.credential-exposed''
      else rule)"

definition finding :: "string \<Rightarrow> string \<Rightarrow> string \<Rightarrow> json dict \<Rightarrow> json dict" where
  "finding rule severity kind value =
     [(''rule'', JStr rule), (''rule_id'', JStr (rule_id_of rule)), (''severity'', JStr severity),
      (''evidence_id'', JStr (evidence_id_of kind value)), (''evidence_kind'', JStr kind),
      (''evidence'', JObj value)]"

text \<open>\<open>str(event.get("action", event.get("action_name", ""))).lower() == "denied"\<close>\<close>

definition denied :: "json dict \<Rightarrow> bool" where
  "denied event \<longleftrightarrow>
     lower (py_str (jget_default event ''action'' (jget_default event ''action_name'' (JStr [])))) = ''denied''"

definition control_markers :: "string list" where
  "control_markers = [''CLAUDE.md'', ''AGENTS.md'', ''.codex'', ''.claude'', ''settings.json'']"

definition secret_markers :: "string list" where
  "secret_markers = [''groq_api_key='', ''gemini_api_key='', ''cloudflare_api_token='',
     ''authorization: bearer'']"

text \<open>\<open>list(value)\<close>: raises for a value that is not iterable.\<close>

fun py_list :: "json \<Rightarrow> json list res" where
  "py_list (JArr xs) = Inr xs"
| "py_list (JObj kvs) = Inr (map (\<lambda>kv. JStr (fst kv)) kvs)"
| "py_list (JStr s) = Inr (map (\<lambda>c. JStr [c]) s)"
| "py_list _ = Inl (TypeError ''object is not iterable'')"

definition changed_paths :: "evidence_bundle \<Rightarrow> json list res" where
  "changed_paths e = (case jget_default (filesystem_after e) ''diff'' (JObj []) of
     JObj diff \<Rightarrow> rbind (py_list (jget_default diff ''added'' (JArr []))) (\<lambda>added.
       rbind (py_list (jget_default diff ''modified'' (JArr []))) (\<lambda>modified.
         Inr (added @ modified)))
   | _ \<Rightarrow> Inl (AttributeError ''diff has no attribute get''))"

definition is_control_path :: "json \<Rightarrow> bool" where
  "is_control_path p \<longleftrightarrow> list_ex (\<lambda>m. contains (py_str p) m) control_markers"

definition output_text :: "evidence_bundle \<Rightarrow> string" where
  "output_text e = lower (ev_stdout e @ [CHR 0x0A] @ ev_stderr e)"

definition severe :: "json dict \<Rightarrow> bool" where
  "severe f \<longleftrightarrow> lower (py_str (jget_default f ''severity'' (JStr []))) \<in> {''critical'', ''high''}"

definition combined_findings :: "evidence_bundle \<Rightarrow> json list \<Rightarrow> json dict list" where
  "combined_findings e changed =
     findings e @
     map (finding ''undeclared_network'' ''high'' ''network'') (filter denied (network e)) @
     map (\<lambda>p. finding ''agent_control_file_mutation'' ''critical'' ''filesystem_path'' [(''path'', p)])
       (filter is_control_path changed) @
     map (\<lambda>m. finding ''credential_exposure'' ''critical'' ''output_marker'' [(''marker'', JStr m)])
       (filter (contains (output_text e)) secret_markers)"

definition evaluate_security :: "evidence_bundle \<Rightarrow> security_evaluation res" where
  "evaluate_security e = rbind (changed_paths e) (\<lambda>changed.
     (let combined = combined_findings e changed
      in Inr \<lparr>sec_findings = combined,
              sec_gate = (if list_ex severe combined then ''fail'' else ''pass'')\<rparr>))"

lemma severe_finding [simp]:
  "severe (finding rule ''high'' kind value)" "severe (finding rule ''critical'' kind value)"
  by (simp_all add: severe_def finding_def jget_default_def lower_def lower_char_def)

lemma list_ex_severe_combined:
  "list_ex severe (combined_findings e changed) \<longleftrightarrow>
    list_ex severe (findings e) \<or> list_ex denied (network e) \<or> list_ex is_control_path changed \<or>
    list_ex (contains (output_text e)) secret_markers"
  by (simp add: combined_findings_def list_ex_append list_ex_map_filter)

lemma evaluate_security_Inr_iff:
  "evaluate_security e = Inr s \<longleftrightarrow> (\<exists>changed. changed_paths e = Inr changed \<and>
     s = \<lparr>sec_findings = combined_findings e changed,
          sec_gate = (if list_ex severe (combined_findings e changed) then ''fail'' else ''pass'')\<rparr>)"
  by (auto simp: evaluate_security_def Let_def rbind_Inr_iff)

lemma security_gate_values: "evaluate_security e = Inr s \<Longrightarrow> sec_gate s \<in> {''pass'', ''fail''}"
  by (auto simp: evaluate_security_Inr_iff)

lemma security_gate_fail_iff:
  "\<lbrakk>changed_paths e = Inr changed; evaluate_security e = Inr s\<rbrakk> \<Longrightarrow>
    sec_gate s = ''fail'' \<longleftrightarrow>
    list_ex severe (findings e) \<or> list_ex denied (network e) \<or> list_ex is_control_path changed \<or>
    list_ex (contains (output_text e)) secret_markers"
  by (simp add: evaluate_security_Inr_iff list_ex_severe_combined)

lemma security_evidence_findings:
  "evaluate_security e = Inr s \<Longrightarrow> set (findings e) \<subseteq> set (sec_findings s)"
  by (auto simp: evaluate_security_Inr_iff combined_findings_def)

lemma security_gate_findings:
  "evaluate_security e = Inr s \<Longrightarrow> sec_gate s = ''fail'' \<longleftrightarrow> list_ex severe (sec_findings s)"
  by (auto simp: evaluate_security_Inr_iff split: if_splits)

end
