(* ===== verification/Paths.thy ===== *)
theory Paths
  imports Prelude
begin

text \<open>
  The standard-library path and pattern functions the contracts use: the components of
  \<open>pathlib.PurePosixPath\<close>, and \<open>fnmatch.fnmatchcase\<close> (where \<open>*\<close> also matches \<open>/\<close>), with its
  character classes.
\<close>

section \<open>PurePosixPath\<close>

definition is_absolute :: "string \<Rightarrow> bool" where
  "is_absolute s \<longleftrightarrow> starts_with s ''/''"

definition path_parts :: "string \<Rightarrow> string list" where
  "path_parts s =
     (if is_absolute s then [if starts_with s ''//'' \<and> \<not> starts_with s ''///'' then ''//'' else ''/''] else [])
     @ filter (\<lambda>w. w \<noteq> [] \<and> w \<noteq> ''.'') (split_on CHR ''/'' s)"

section \<open>Joining resolved paths\<close>

definition join_path :: "string \<Rightarrow> string \<Rightarrow> string" where
  "join_path a b = (if is_absolute b then b else if ends_with a ''/'' then a @ b else a @ ''/'' @ b)"

text \<open>\<open>p.relative_to(root)\<close> of resolved paths succeeds.\<close>

definition below :: "string \<Rightarrow> string \<Rightarrow> bool" where
  "below dir p \<longleftrightarrow> p = dir \<or> starts_with p (if ends_with dir ''/'' then dir else dir @ ''/'')"

definition parent_of :: "string \<Rightarrow> string" where
  "parent_of p = rev (drop 1 (dropWhile (\<lambda>ch. ch \<noteq> CHR ''/'') (rev p)))"

section \<open>fnmatchcase\<close>

fun until_close :: "string \<Rightarrow> (string \<times> string) option" where
  "until_close [] = None"
| "until_close (c # r) = (if c = CHR '']'' then Some ([], r)
     else map_option (\<lambda>(b, t). (c # b, t)) (until_close r))"

text \<open>The text after an opening bracket, split at its closing bracket, if it has one.\<close>

definition class_split :: "string \<Rightarrow> (string \<times> string) option" where
  "class_split p =
     (let neg = starts_with p ''!''; p1 = (if neg then tl p else p);
          br = starts_with p1 '']''; p2 = (if br then tl p1 else p1)
      in map_option (\<lambda>(b, t). ((if neg then ''!'' else []) @ (if br then '']'' else []) @ b, t))
           (until_close p2))"

fun in_items :: "char \<Rightarrow> string \<Rightarrow> bool" where
  "in_items c (a # b # z # r) =
     (if b = CHR ''-'' then (a \<le> c \<and> c \<le> z) \<or> in_items c r else c = a \<or> in_items c (b # z # r))"
| "in_items c [a, b] = (c = a \<or> c = b)"
| "in_items c [a] = (c = a)"
| "in_items c [] = False"

definition in_class :: "char \<Rightarrow> string \<Rightarrow> bool" where
  "in_class c stuff =
     (if starts_with stuff ''!'' then \<not> in_items c (tl stuff) else in_items c stuff)"

lemma until_close_length: "until_close p = Some (b, t) \<Longrightarrow> length t < length p"
  by (induction p arbitrary: b t) (fastforce split: if_splits)+

lemma class_split_length: "class_split p = Some (b, t) \<Longrightarrow> length t < length p"
  by (cases p) (auto simp: class_split_def Let_def split: if_splits dest!: until_close_length)

function (sequential) glob :: "string \<Rightarrow> string \<Rightarrow> bool" where
  "glob [] s = (s = [])"
| "glob (p # ps) s =
     (if p = CHR ''*'' then glob ps s \<or> (case s of [] \<Rightarrow> False | _ # t \<Rightarrow> glob (p # ps) t)
      else if p = CHR ''?'' then (case s of [] \<Rightarrow> False | _ # t \<Rightarrow> glob ps t)
      else if p = CHR ''['' then
        (case class_split ps of
           None \<Rightarrow> (case s of [] \<Rightarrow> False | c # t \<Rightarrow> c = p \<and> glob ps t)
         | Some (stuff, rest) \<Rightarrow> (case s of [] \<Rightarrow> False | c # t \<Rightarrow> in_class c stuff \<and> glob rest t))
      else (case s of [] \<Rightarrow> False | c # t \<Rightarrow> c = p \<and> glob ps t))"
  by pat_completeness auto
termination
  by (relation "measure (\<lambda>(p, s). length p + length s)")
     (auto dest: class_split_length)

definition fnmatchcase :: "string \<Rightarrow> string \<Rightarrow> bool" where
  "fnmatchcase path pattern = glob pattern path"

text \<open>A literal character, a trailing star, a double star.\<close>

definition literal_char :: "char \<Rightarrow> bool" where
  "literal_char c \<longleftrightarrow> c \<notin> {CHR ''*'', CHR ''?'', CHR ''[''}"

lemma glob_literal: "literal_char c \<Longrightarrow> glob (c # ps) (c # t) = glob ps t"
  by (simp add: literal_char_def)

lemma glob_literals: "list_all literal_char pre \<Longrightarrow> glob (pre @ ps) (pre @ t) = glob ps t"
  by (induction pre) (auto simp: glob_literal simp del: glob.simps(2))

lemma glob_star_suffix: "glob ps t \<Longrightarrow> glob (CHR ''*'' # ps) (s @ t)"
  by (induction s) (cases t; auto)+

lemma glob_star_all [simp]: "glob ''*'' s"
  using glob_star_suffix [of "[]" "[]" s] by simp

lemma glob_star_star [simp]: "glob ''**'' s"
  using glob_star_suffix [of "''*''" "[]" s] by (simp del: glob.simps(2))

lemma glob_subtree: "list_all literal_char pre \<Longrightarrow> glob (pre @ ''**'') (pre @ s)"
  using glob_literals [of pre "''**''" s] by (simp del: glob.simps(2))

lemma glob_anywhere: "list_all literal_char suf \<Longrightarrow> glob (''**'' @ suf) (s @ suf)"
  using glob_star_suffix [of "CHR ''*'' # suf" suf s] glob_star_suffix [of suf suf "[]"]
    glob_literals [of suf "[]" "[]"] by (simp del: glob.simps(2))

end
