(* ===== verification/CodingContract.thy ===== *)
theory CodingContract
  imports Json Paths
begin

text \<open>
  \<open>coding_contract.py\<close>: the trusted wrapper policy of one coding-agent execution, the workspace
  diff, process results and the receipt the runner signs with its digest. Each class is a record;
  \<open>validate_*\<close> is the class's validation: nested models first, then the field constraints, then
  the \<open>model_validator\<close>, in source order.
\<close>

section \<open>Constants\<close>

definition mutable_versions :: "string list" where
  "mutable_versions = [''latest'', ''main'', ''master'', ''head'', ''*'', ''unknown'']"

definition mandatory_protected_globs :: "string list" where
  "mandatory_protected_globs =
     [''.git'', ''.git/**'', ''.skill-native'', ''.skill-native/**'', ''AGENTS.md'', ''**/AGENTS.md'',
      ''CLAUDE.md'', ''**/CLAUDE.md'', ''.codex'', ''.codex/**'', ''**/.codex/**'', ''.claude'',
      ''.claude/**'', ''**/.claude/**'']"

definition safe_ignored_globs :: "string list" where
  "safe_ignored_globs =
     [''__pycache__'', ''**/__pycache__/**'', ''*.pyc'', ''**/*.pyc'', ''.pytest_cache'',
      ''.pytest_cache/**'', ''**/.pytest_cache/**'']"

definition policy_check_ids :: "string list" where
  "policy_check_ids =
     [''driver_version_verified'', ''agent_exit_zero'', ''structured_events_valid'', ''tests_passed'',
      ''allowed_changes'', ''protected_paths_unchanged'', ''changed_file_budget'',
      ''changed_byte_budget'', ''symlink_safe'', ''output_within_limit'',
      ''process_trees_terminated'', ''version_probe_preserved_workspace'',
      ''tests_preserved_workspace'']"

datatype coding_driver = Generic | Codex | Gemini | Qwen | Openhands

fun driver_value :: "coding_driver \<Rightarrow> string" where
  "driver_value Generic = ''generic''"
| "driver_value Codex = ''codex''"
| "driver_value Gemini = ''gemini''"
| "driver_value Qwen = ''qwen''"
| "driver_value Openhands = ''openhands''"

datatype output_format = Jsonl | JsonFormat | TextFormat

fun format_value :: "output_format \<Rightarrow> string" where
  "format_value Jsonl = ''jsonl''"
| "format_value JsonFormat = ''json''"
| "format_value TextFormat = ''text''"

section \<open>The contract\<close>

record coding_contract =
  cc_driver :: coding_driver
  cc_driver_version :: string
  cc_output_format :: output_format
  require_structured_events :: bool
  workspace :: string
  version_command :: "string list"
  test_commands :: "string list list"
  allowed_change_globs :: "string list"
  protected_change_globs :: "string list"
  ignored_globs :: "string list"
  max_changed_files :: int
  max_changed_bytes :: int
  max_task_bytes :: int
  max_capture_bytes :: int
  max_output_excerpt_chars :: int
  capture_agent_output_excerpts :: bool
  cc_max_events :: int
  agent_timeout_seconds :: int
  version_timeout_seconds :: int
  test_timeout_seconds :: int

definition contract_json :: "coding_contract \<Rightarrow> json" where
  "contract_json c = JObj [(''driver'', JStr (driver_value (cc_driver c))),
     (''driver_version'', JStr (cc_driver_version c)),
     (''output_format'', JStr (format_value (cc_output_format c))),
     (''require_structured_events'', JBool (require_structured_events c)),
     (''workspace'', JStr (workspace c)), (''version_command'', strs (version_command c)),
     (''test_commands'', JArr (map strs (test_commands c))),
     (''allowed_change_globs'', strs (allowed_change_globs c)),
     (''protected_change_globs'', strs (protected_change_globs c)),
     (''ignored_globs'', strs (ignored_globs c)),
     (''max_changed_files'', JInt (max_changed_files c)),
     (''max_changed_bytes'', JInt (max_changed_bytes c)),
     (''max_task_bytes'', JInt (max_task_bytes c)),
     (''max_capture_bytes'', JInt (max_capture_bytes c)),
     (''max_output_excerpt_chars'', JInt (max_output_excerpt_chars c)),
     (''capture_agent_output_excerpts'', JBool (capture_agent_output_excerpts c)),
     (''max_events'', JInt (cc_max_events c)),
     (''agent_timeout_seconds'', JInt (agent_timeout_seconds c)),
     (''version_timeout_seconds'', JInt (version_timeout_seconds c)),
     (''test_timeout_seconds'', JInt (test_timeout_seconds c))]"

definition unsafe_pattern :: "string \<Rightarrow> bool" where
  "unsafe_pattern p \<longleftrightarrow> p = [] \<or> starts_with p ''/'' \<or> ''..'' \<in> set (path_parts p)"

definition glob_guards :: "string \<Rightarrow> string list \<Rightarrow> (bool \<times> exn) list" where
  "glob_guards name globs =
     [(\<not> distinct globs, ValidationError (''coding.'' @ name @ '' must not contain duplicates'')),
      (list_ex unsafe_pattern globs, ValidationError (''coding.'' @ name @ '' contains an unsafe pattern''))]"

definition bad_argv :: "string list \<Rightarrow> bool" where
  "bad_argv command \<longleftrightarrow> command = [] \<or> [] \<in> set command"

definition contract_field_guards :: "coding_contract \<Rightarrow> (bool \<times> exn) list" where
  "contract_field_guards c =
     [(cc_driver_version c = [], ValidationError ''driver_version''),
      (version_command c = [], ValidationError ''version_command''),
      (test_commands c = [], ValidationError ''test_commands''),
      (allowed_change_globs c = [], ValidationError ''allowed_change_globs''),
      (max_changed_files c < 0, ValidationError ''max_changed_files''),
      (max_changed_bytes c < 0, ValidationError ''max_changed_bytes''),
      (max_task_bytes c < 1, ValidationError ''max_task_bytes''),
      (max_capture_bytes c < 1, ValidationError ''max_capture_bytes''),
      (max_output_excerpt_chars c < 0 \<or> 20000 < max_output_excerpt_chars c,
        ValidationError ''max_output_excerpt_chars''),
      (cc_max_events c < 1 \<or> 100000 < cc_max_events c, ValidationError ''max_events''),
      (agent_timeout_seconds c < 1, ValidationError ''agent_timeout_seconds''),
      (version_timeout_seconds c < 1, ValidationError ''version_timeout_seconds''),
      (test_timeout_seconds c < 1, ValidationError ''test_timeout_seconds'')]"

definition contract_guards :: "coding_contract \<Rightarrow> (bool \<times> exn) list" where
  "contract_guards c =
     [(lower (strip (cc_driver_version c)) \<in> set mutable_versions,
        ValidationError ''coding.driver_version must be pinned, not mutable''),
      (is_absolute (workspace c) \<or> ''..'' \<in> set (path_parts (workspace c)),
        ValidationError ''coding.workspace must stay relative to the runtime working directory''),
      (list_ex bad_argv (version_command c # test_commands c),
        ValidationError ''coding commands must contain non-empty argv strings'')]
     @ glob_guards ''allowed_change_globs'' (allowed_change_globs c)
     @ glob_guards ''protected_change_globs'' (protected_change_globs c)
     @ glob_guards ''ignored_globs'' (ignored_globs c)
     @ [(\<not> set mandatory_protected_globs \<subseteq> set (protected_change_globs c),
          ValidationError ''coding.protected_change_globs cannot remove mandatory paths''),
        (\<not> set (ignored_globs c) \<subseteq> set safe_ignored_globs,
          ValidationError ''coding.ignored_globs may only contain trusted cache patterns''),
        (capture_agent_output_excerpts c,
          ValidationError ''capture_agent_output_excerpts requires a trusted operator overlay''),
        (require_structured_events c \<and> cc_output_format c = TextFormat,
          ValidationError ''coding.output_format=text cannot satisfy require_structured_events=true'')]"

definition validate_contract :: "coding_contract \<Rightarrow> coding_contract res" where
  "validate_contract c = guards (contract_field_guards c @ contract_guards c) c"

section \<open>Workspace diff\<close>

record file_change =
  fc_path :: string
  fc_status :: string
  before_kind :: "string option"
  after_kind :: "string option"
  before_sha256 :: "string option"
  after_sha256 :: "string option"
  before_size :: int
  after_size :: int
  bytes_changed :: int
  fc_symlink_target :: "string option"

definition change_json :: "file_change \<Rightarrow> json" where
  "change_json c = JObj [(''path'', JStr (fc_path c)), (''status'', JStr (fc_status c)),
     (''before_kind'', opt_str (before_kind c)), (''after_kind'', opt_str (after_kind c)),
     (''before_sha256'', opt_str (before_sha256 c)), (''after_sha256'', opt_str (after_sha256 c)),
     (''before_size'', JInt (before_size c)), (''after_size'', JInt (after_size c)),
     (''bytes_changed'', JInt (bytes_changed c)), (''symlink_target'', opt_str (fc_symlink_target c))]"

definition kind_ok :: "string option \<Rightarrow> bool" where
  "kind_ok k \<longleftrightarrow> k \<in> {None, Some ''file'', Some ''symlink''}"

definition validate_change :: "file_change \<Rightarrow> file_change res" where
  "validate_change c = guards
     [(fc_path c = [], ValidationError ''path''),
      (fc_status c \<notin> {''added'', ''removed'', ''modified''}, ValidationError ''status''),
      (\<not> kind_ok (before_kind c), ValidationError ''before_kind''),
      (\<not> kind_ok (after_kind c), ValidationError ''after_kind''),
      (\<not> opt_hex64 (before_sha256 c), ValidationError ''before_sha256''),
      (\<not> opt_hex64 (after_sha256 c), ValidationError ''after_sha256''),
      (before_size c < 0, ValidationError ''before_size''),
      (after_size c < 0, ValidationError ''after_size''),
      (bytes_changed c < 0, ValidationError ''bytes_changed'')] c"

record workspace_diff =
  before_digest :: string
  after_digest :: string
  changes :: "file_change list"
  changed_files :: int
  changed_bytes :: int
  disallowed_paths :: "string list"
  protected_paths :: "string list"
  unsafe_symlinks :: "string list"
  diff_digest :: string

definition diff_payload :: "workspace_diff \<Rightarrow> json dict" where
  "diff_payload d = [(''before_digest'', JStr (before_digest d)),
     (''after_digest'', JStr (after_digest d)), (''changes'', JArr (map change_json (changes d))),
     (''changed_files'', JInt (changed_files d)), (''changed_bytes'', JInt (changed_bytes d)),
     (''disallowed_paths'', strs (disallowed_paths d)),
     (''protected_paths'', strs (protected_paths d)),
     (''unsafe_symlinks'', strs (unsafe_symlinks d))]"

definition diff_json :: "workspace_diff \<Rightarrow> json" where
  "diff_json d = JObj (diff_payload d @ [(''diff_digest'', JStr (diff_digest d))])"

definition validate_diff :: "workspace_diff \<Rightarrow> workspace_diff res" where
  "validate_diff d = rbind (traverse validate_change (changes d)) (\<lambda>_. guards
     [(\<not> is_hex64 (before_digest d), ValidationError ''before_digest''),
      (\<not> is_hex64 (after_digest d), ValidationError ''after_digest''),
      (changed_files d < 0, ValidationError ''changed_files''),
      (changed_bytes d < 0, ValidationError ''changed_bytes''),
      (\<not> is_hex64 (diff_digest d), ValidationError ''diff_digest''),
      (changed_files d \<noteq> int (length (changes d)),
        ValidationError ''workspace changed_files does not match changes''),
      (changed_bytes d \<noteq> sum_list (map bytes_changed (changes d)),
        ValidationError ''workspace changed_bytes does not match changes''),
      (disallowed_paths d \<noteq> sorted_set (disallowed_paths d),
        ValidationError ''workspace disallowed_paths must be sorted and unique''),
      (protected_paths d \<noteq> sorted_set (protected_paths d),
        ValidationError ''workspace protected_paths must be sorted and unique''),
      (unsafe_symlinks d \<noteq> sorted_set (unsafe_symlinks d),
        ValidationError ''workspace unsafe_symlinks must be sorted and unique''),
      (canonical_digest (JObj (diff_payload d)) \<noteq> diff_digest d,
        ValidationError ''workspace diff digest does not match payload'')] d)"

section \<open>Process results\<close>

record process_result =
  pr_argv :: "string list"
  pr_argv_digest :: string
  pr_exit_code :: int
  pr_stdout_digest :: string
  pr_stderr_digest :: string
  stdout_excerpt :: string
  stderr_excerpt :: string
  pr_stdout_bytes :: int
  pr_stderr_bytes :: int
  pr_output_truncated :: bool
  pr_timed_out :: bool
  pr_tree_terminated :: bool
  pr_duration_ms :: rat
  passed :: bool

definition process_json :: "process_result \<Rightarrow> json" where
  "process_json p = JObj [(''argv'', strs (pr_argv p)), (''argv_digest'', JStr (pr_argv_digest p)),
     (''exit_code'', JInt (pr_exit_code p)), (''stdout_digest'', JStr (pr_stdout_digest p)),
     (''stderr_digest'', JStr (pr_stderr_digest p)), (''stdout_excerpt'', JStr (stdout_excerpt p)),
     (''stderr_excerpt'', JStr (stderr_excerpt p)), (''stdout_bytes'', JInt (pr_stdout_bytes p)),
     (''stderr_bytes'', JInt (pr_stderr_bytes p)),
     (''output_truncated'', JBool (pr_output_truncated p)),
     (''timed_out'', JBool (pr_timed_out p)),
     (''process_tree_terminated'', JBool (pr_tree_terminated p)),
     (''duration_ms'', JFloat (pr_duration_ms p)), (''passed'', JBool (passed p))]"

definition process_invariant :: "process_result \<Rightarrow> bool" where
  "process_invariant p \<longleftrightarrow>
     pr_exit_code p = 0 \<and> \<not> pr_timed_out p \<and> \<not> pr_output_truncated p \<and> pr_tree_terminated p"

definition validate_process :: "process_result \<Rightarrow> process_result res" where
  "validate_process p = guards
     [(pr_argv p = [], ValidationError ''argv''),
      (\<not> is_hex64 (pr_argv_digest p), ValidationError ''argv_digest''),
      (\<not> is_hex64 (pr_stdout_digest p), ValidationError ''stdout_digest''),
      (\<not> is_hex64 (pr_stderr_digest p), ValidationError ''stderr_digest''),
      (pr_stdout_bytes p < 0, ValidationError ''stdout_bytes''),
      (pr_stderr_bytes p < 0, ValidationError ''stderr_bytes''),
      (pr_duration_ms p < 0, ValidationError ''duration_ms''),
      (canonical_digest (strs (pr_argv p)) \<noteq> pr_argv_digest p,
        ValidationError ''process argv digest does not match argv''),
      (passed p \<and> \<not> process_invariant p,
        ValidationError ''process result cannot pass with a failed process invariant'')] p"

section \<open>Runner configuration\<close>

record runner_config =
  rc_run_id :: string
  rc_task_digest :: string
  rc_child_command_digest :: string
  rc_contract_digest :: string
  rc_contract :: coding_contract

definition validate_config :: "runner_config \<Rightarrow> runner_config res" where
  "validate_config c = rbind (validate_contract (rc_contract c)) (\<lambda>_. guards
     [(rc_run_id c = [], ValidationError ''run_id''),
      (\<not> is_hex64 (rc_task_digest c), ValidationError ''task_digest''),
      (\<not> is_hex64 (rc_child_command_digest c), ValidationError ''child_command_digest''),
      (\<not> is_hex64 (rc_contract_digest c), ValidationError ''contract_digest''),
      (canonical_digest (contract_json (rc_contract c)) \<noteq> rc_contract_digest c,
        ValidationError ''coding runner contract digest does not match contract'')] c)"

section \<open>The receipt\<close>

record agent_receipt =
  rr_run_id :: string
  rr_driver :: coding_driver
  rr_driver_version :: string
  rr_task_digest :: string
  rr_child_command_digest :: string
  rr_contract_digest :: string
  baseline_workspace_digest :: string
  post_version_workspace_digest :: string
  version_probe :: process_result
  agent_process :: process_result
  structured_events_valid :: bool
  raw_event_count :: int
  event_parse_error :: "string option"
  rr_agent_events :: "json dict list"
  rr_workspace_diff :: workspace_diff
  post_test_workspace_digest :: string
  rr_test_results :: "process_result list"
  policy_checks :: "bool dict"
  outcome :: string
  receipt_digest :: string

definition receipt_payload :: "agent_receipt \<Rightarrow> json dict" where
  "receipt_payload r = [(''schema_version'', JStr ''1.0''), (''runner_version'', JStr ''1.0''),
     (''run_id'', JStr (rr_run_id r)), (''driver'', JStr (driver_value (rr_driver r))),
     (''driver_version'', JStr (rr_driver_version r)), (''task_digest'', JStr (rr_task_digest r)),
     (''child_command_digest'', JStr (rr_child_command_digest r)),
     (''contract_digest'', JStr (rr_contract_digest r)),
     (''baseline_workspace_digest'', JStr (baseline_workspace_digest r)),
     (''post_version_workspace_digest'', JStr (post_version_workspace_digest r)),
     (''version_probe'', process_json (version_probe r)),
     (''agent_process'', process_json (agent_process r)),
     (''structured_events_valid'', JBool (structured_events_valid r)),
     (''raw_event_count'', JInt (raw_event_count r)),
     (''event_parse_error'', opt_str (event_parse_error r)),
     (''agent_events'', JArr (map JObj (rr_agent_events r))),
     (''workspace_diff'', diff_json (rr_workspace_diff r)),
     (''post_test_workspace_digest'', JStr (post_test_workspace_digest r)),
     (''test_results'', JArr (map process_json (rr_test_results r))),
     (''policy_checks'', JObj (map (\<lambda>(k, b). (k, JBool b)) (policy_checks r))),
     (''outcome'', JStr (outcome r))]"

definition receipt_obj :: "agent_receipt \<Rightarrow> json dict" where
  "receipt_obj r = receipt_payload r @ [(''receipt_digest'', JStr (receipt_digest r))]"

text \<open>The checks that the receipt's own contents determine, in the order of the source.\<close>

definition expected_checks :: "agent_receipt \<Rightarrow> bool dict" where
  "expected_checks r =
     (let tests = rr_test_results r; d = rr_workspace_diff r in
     [(''driver_version_verified'', passed (version_probe r)),
      (''agent_exit_zero'', passed (agent_process r)),
      (''structured_events_valid'', structured_events_valid r),
      (''tests_passed'', list_all passed tests),
      (''allowed_changes'', disallowed_paths d = []),
      (''protected_paths_unchanged'', protected_paths d = []),
      (''symlink_safe'', unsafe_symlinks d = []),
      (''output_within_limit'', \<not> (pr_output_truncated (version_probe r)
         \<or> pr_output_truncated (agent_process r) \<or> list_ex pr_output_truncated tests)),
      (''process_trees_terminated'', pr_tree_terminated (version_probe r)
         \<and> pr_tree_terminated (agent_process r) \<and> list_all pr_tree_terminated tests),
      (''version_probe_preserved_workspace'',
         baseline_workspace_digest r = post_version_workspace_digest r),
      (''tests_preserved_workspace'', after_digest d = post_test_workspace_digest r)])"

definition expected_outcome :: "agent_receipt \<Rightarrow> string" where
  "expected_outcome r =
     (if passed (version_probe r) \<and> passed (agent_process r) \<and> structured_events_valid r \<and>
         list_all passed (rr_test_results r) \<and> list_all snd (policy_checks r)
      then ''pass'' else ''fail'')"

definition receipt_guards :: "agent_receipt \<Rightarrow> (bool \<times> exn) list" where
  "receipt_guards r =
     [(rr_run_id r = [], ValidationError ''run_id''),
      (rr_driver_version r = [], ValidationError ''driver_version''),
      (\<not> is_hex64 (rr_task_digest r), ValidationError ''task_digest''),
      (\<not> is_hex64 (rr_child_command_digest r), ValidationError ''child_command_digest''),
      (\<not> is_hex64 (rr_contract_digest r), ValidationError ''contract_digest''),
      (\<not> is_hex64 (baseline_workspace_digest r), ValidationError ''baseline_workspace_digest''),
      (\<not> is_hex64 (post_version_workspace_digest r), ValidationError ''post_version_workspace_digest''),
      (raw_event_count r < 0, ValidationError ''raw_event_count''),
      (\<not> is_hex64 (post_test_workspace_digest r), ValidationError ''post_test_workspace_digest''),
      (rr_test_results r = [], ValidationError ''test_results''),
      (outcome r \<notin> {''pass'', ''fail''}, ValidationError ''outcome''),
      (\<not> is_hex64 (receipt_digest r), ValidationError ''receipt_digest''),
      (set (dict_keys (policy_checks r)) \<noteq> set policy_check_ids,
        ValidationError ''coding receipt policy checks do not match contract''),
      (structured_events_valid r \<and> raw_event_count r \<noteq> int (length (rr_agent_events r)),
        ValidationError ''valid structured event count does not match normalized events''),
      (list_ex (\<lambda>(k, b). map_of (policy_checks r) k \<noteq> Some b) (expected_checks r),
        ValidationError ''coding receipt policy check is inconsistent''),
      (outcome r \<noteq> expected_outcome r,
        ValidationError ''coding receipt outcome does not match captured results''),
      (canonical_digest (JObj (receipt_payload r)) \<noteq> receipt_digest r,
        ValidationError ''coding receipt digest does not match payload'')]"

definition validate_receipt :: "agent_receipt \<Rightarrow> agent_receipt res" where
  "validate_receipt r =
     rbind (validate_process (version_probe r)) (\<lambda>_.
     rbind (validate_process (agent_process r)) (\<lambda>_.
     rbind (validate_diff (rr_workspace_diff r)) (\<lambda>_.
     rbind (traverse validate_process (rr_test_results r)) (\<lambda>_.
       guards (receipt_guards r) r))))"

lemmas contract_guard_defs =
  contract_field_guards_def contract_guards_def glob_guards_def

lemma validate_contract_Inr:
  "validate_contract c = Inr c' \<longleftrightarrow> c' = c \<and>
     list_all (\<lambda>g. \<not> fst g) (contract_field_guards c @ contract_guards c)"
  by (auto simp: validate_contract_def guard_simps)

lemma valid_contract_protects:
  "validate_contract c = Inr c' \<Longrightarrow> set mandatory_protected_globs \<subseteq> set (protected_change_globs c)"
  by (simp add: validate_contract_Inr contract_guard_defs)

lemma valid_contract_ignores:
  "validate_contract c = Inr c' \<Longrightarrow> set (ignored_globs c) \<subseteq> set safe_ignored_globs"
  by (simp add: validate_contract_Inr contract_guard_defs)

lemma valid_contract_bounds:
  "validate_contract c = Inr c' \<Longrightarrow> cc_driver_version c \<noteq> [] \<and> version_command c \<noteq> []
     \<and> test_commands c \<noteq> [] \<and> list_all (\<lambda>t. t \<noteq> []) (test_commands c)
     \<and> 0 \<le> max_changed_files c \<and> 0 \<le> max_changed_bytes c \<and> 1 \<le> max_task_bytes c
     \<and> 1 \<le> max_capture_bytes c \<and> 0 \<le> max_output_excerpt_chars c \<and> 1 \<le> cc_max_events c
     \<and> \<not> capture_agent_output_excerpts c"
  by (auto simp: validate_contract_Inr contract_guard_defs bad_argv_def list_all_iff list_ex_iff)

text \<open>A validated receipt: what each of its layers guarantees.\<close>

lemma validate_receipt_Inr:
  "validate_receipt r = Inr r' \<longleftrightarrow> r' = r \<and> validate_process (version_probe r) = Inr (version_probe r)
     \<and> validate_process (agent_process r) = Inr (agent_process r)
     \<and> validate_diff (rr_workspace_diff r) = Inr (rr_workspace_diff r)
     \<and> (\<exists>ts. traverse validate_process (rr_test_results r) = Inr ts)
     \<and> list_all (\<lambda>g. \<not> fst g) (receipt_guards r)"
  by (auto simp: validate_receipt_def rbind_Inr_iff guard_simps validate_process_def validate_diff_def)

text \<open>A passing receipt is one whose every policy check holds.\<close>

lemma receipt_pass_checks:
  assumes "validate_receipt r = Inr r'" and "outcome r = ''pass''"
  shows "list_all snd (policy_checks r)" and "list_all snd (expected_checks r)"
proof -
  have g: "list_all (\<lambda>g. \<not> fst g) (receipt_guards r)"
    using assms(1) by (simp add: validate_receipt_Inr)
  then have "outcome r = expected_outcome r"
    and chk: "\<forall>(k, b) \<in> set (expected_checks r). map_of (policy_checks r) k = Some b"
    by (auto simp: receipt_guards_def list_ex_iff)
  with assms(2) show all: "list_all snd (policy_checks r)"
    by (auto simp: expected_outcome_def split: if_splits)
  show "list_all snd (expected_checks r)"
    using chk all by (fastforce simp: list_all_iff dest: map_of_SomeD)
qed

end
