(* ===== verification/Urls.thy ===== *)
theory Urls
  imports Paths
begin

text \<open>
  The part of \<open>urllib.parse.urlsplit\<close> the contracts read: the scheme, the host name and the port
  of a URL, with the errors it raises for malformed brackets and ports.
\<close>

definition is_digit_char :: "char \<Rightarrow> bool" where
  "is_digit_char c \<longleftrightarrow> CHR ''0'' \<le> c \<and> c \<le> CHR ''9''"

definition is_ascii_alpha :: "char \<Rightarrow> bool" where
  "is_ascii_alpha c \<longleftrightarrow> (CHR ''a'' \<le> c \<and> c \<le> CHR ''z'') \<or> (CHR ''A'' \<le> c \<and> c \<le> CHR ''Z'')"

definition is_alnum_char :: "char \<Rightarrow> bool" where
  "is_alnum_char c \<longleftrightarrow> is_digit_char c \<or> is_ascii_alpha c"

definition digit_value :: "char \<Rightarrow> nat" where
  "digit_value c = of_char c - 48"

definition read_nat :: "string \<Rightarrow> nat" where
  "read_nat = foldl (\<lambda>n c. 10 * n + digit_value c) 0"

text \<open>\<open>s.partition(sep)\<close> and \<open>s.rpartition(sep)[2]\<close> for a one-character separator.\<close>

fun partition_on :: "char \<Rightarrow> string \<Rightarrow> string \<times> bool \<times> string" where
  "partition_on c [] = ([], False, [])"
| "partition_on c (x # xs) = (if x = c then ([], True, xs)
     else (case partition_on c xs of (a, f, b) \<Rightarrow> (x # a, f, b)))"

definition after_last :: "char \<Rightarrow> string \<Rightarrow> string" where
  "after_last c s = last (split_on c s)"

definition clean_url :: "string \<Rightarrow> string" where
  "clean_url s = filter (\<lambda>c. c \<notin> {CHR 0x09, CHR 0x0A, CHR 0x0D})
     (dropWhile (\<lambda>c. (of_char c :: nat) \<le> 32) s)"

definition scheme_char :: "char \<Rightarrow> bool" where
  "scheme_char c \<longleftrightarrow> is_alnum_char c \<or> c \<in> set ''+-.''"

definition split_scheme :: "string \<Rightarrow> string \<times> string" where
  "split_scheme url = (case partition_on CHR '':'' url of (s, found, rest) \<Rightarrow>
     if found \<and> s \<noteq> [] \<and> is_ascii_alpha (hd url) \<and> list_all scheme_char s
     then (lower s, rest) else ([], url))"

definition split_netloc :: "string \<Rightarrow> string" where
  "split_netloc rest = (if starts_with rest ''//''
     then takeWhile (\<lambda>c. c \<notin> set ''/?#'') (drop 2 rest) else [])"

text \<open>\<open>ipaddress.IPv6Address\<close> and the \<open>vX.\<close> literals inside brackets.\<close>

definition is_hex_char :: "char \<Rightarrow> bool" where
  "is_hex_char c \<longleftrightarrow> is_digit_char c \<or> (CHR ''a'' \<le> c \<and> c \<le> CHR ''f'')
     \<or> (CHR ''A'' \<le> c \<and> c \<le> CHR ''F'')"

definition hextet :: "string \<Rightarrow> bool" where
  "hextet w \<longleftrightarrow> w \<noteq> [] \<and> length w \<le> 4 \<and> list_all is_hex_char w"

definition ipv4_literal :: "string \<Rightarrow> bool" where
  "ipv4_literal s \<longleftrightarrow> (let ws = split_on CHR ''.'' s in length ws = 4 \<and>
     list_all (\<lambda>w. w \<noteq> [] \<and> length w \<le> 3 \<and> list_all is_digit_char w \<and> read_nat w \<le> 255
       \<and> (hd w = CHR ''0'' \<longrightarrow> length w = 1)) ws)"

definition ipv6_groups :: "string list \<Rightarrow> bool" where
  "ipv6_groups ps =
     (let n = length ps; inner = filter (\<lambda>i. ps ! i = []) [1..<n - 1]
      in 3 \<le> n \<and> n \<le> 9 \<and> length inner \<le> 1 \<and>
         (if inner = [] then n = 8 \<and> list_all hextet ps
          else (let k = hd inner; a = take k ps; b = drop (k + 1) ps;
                    a' = (if hd a = [] then tl a else a);
                    b' = (if last b = [] then butlast b else b)
                in (hd a = [] \<longrightarrow> a' = []) \<and> (last b = [] \<longrightarrow> b' = []) \<and>
                   length a' + length b' \<le> 7 \<and> list_all hextet (a' @ b'))))"

definition ipv6_literal :: "string \<Rightarrow> bool" where
  "ipv6_literal s =
     (let (addr, scoped, zone) = partition_on CHR ''%'' s; ps = split_on CHR '':'' addr
      in (scoped \<longrightarrow> zone \<noteq> [] \<and> CHR ''%'' \<notin> set zone) \<and> CHR ''/'' \<notin> set s \<and>
         (if CHR ''.'' \<in> set (last ps)
          then ipv4_literal (last ps) \<and> ipv6_groups (butlast ps @ [''0'', ''0''])
          else ipv6_groups ps))"

definition future_literal :: "string \<Rightarrow> bool" where
  "future_literal s =
     (case partition_on CHR ''.'' (tl s) of (v, dot, rest) \<Rightarrow>
        dot \<and> v \<noteq> [] \<and> list_all is_hex_char v \<and> rest \<noteq> [] \<and>
        list_all (\<lambda>c. is_alnum_char c \<or> c \<in> set ''._~!$&()*+,;=:-'' \<or> c = CHR 0x27) rest)"

definition bracket_ok :: "string \<Rightarrow> bool" where
  "bracket_ok netloc =
     (if (CHR ''['' \<in> set netloc) \<noteq> (CHR '']'' \<in> set netloc) then False
      else if CHR ''['' \<notin> set netloc then True
      else (let hp = after_last CHR ''@'' netloc;
                (pre, opened, inside) = partition_on CHR ''['' hp
            in if \<not> opened then
                 (case partition_on CHR '':'' hp of (h, _) \<Rightarrow> ipv6_literal h)
               else (case partition_on CHR '']'' inside of (h, _, port) \<Rightarrow>
                 pre = [] \<and> (port = [] \<or> starts_with port '':'') \<and>
                 (if starts_with h ''v'' then future_literal h else ipv6_literal h))))"

record split_url =
  url_scheme :: string
  url_netloc :: string

definition urlsplit :: "string \<Rightarrow> split_url res" where
  "urlsplit value =
     (let (scheme, rest) = split_scheme (clean_url value); netloc = split_netloc rest
      in if bracket_ok netloc then Inr \<lparr>url_scheme = scheme, url_netloc = netloc\<rparr>
         else Inl (ValueError ''Invalid IPv6 URL''))"

definition hostinfo :: "string \<Rightarrow> string \<times> string" where
  "hostinfo netloc =
     (let hp = after_last CHR ''@'' netloc
      in case partition_on CHR ''['' hp of
           (_, True, inside) \<Rightarrow> (case partition_on CHR '']'' inside of
              (h, _, p) \<Rightarrow> (h, snd (snd (partition_on CHR '':'' p))))
         | (_, False, _) \<Rightarrow> (case partition_on CHR '':'' hp of (h, _, p) \<Rightarrow> (h, p)))"

text \<open>\<open>hostname\<close> is the empty string here where Python gives \<open>None\<close>.\<close>

definition url_hostname :: "split_url \<Rightarrow> string" where
  "url_hostname u = (case partition_on CHR ''%'' (fst (hostinfo (url_netloc u))) of
     (h, pct, zone) \<Rightarrow> lower h @ (if pct then ''%'' else []) @ zone)"

definition url_port :: "split_url \<Rightarrow> nat option res" where
  "url_port u = (let p = snd (hostinfo (url_netloc u)) in
     if p = [] then Inr None
     else if \<not> list_all is_digit_char p then Inl (ValueError ''Port could not be cast to integer value'')
     else if 65535 < read_nat p then Inl (ValueError ''Port out of range 0-65535'')
     else Inr (Some (read_nat p)))"

lemma url_port_bound: "url_port u = Inr (Some n) \<Longrightarrow> n \<le> 65535"
  by (auto simp: url_port_def Let_def split: if_splits)

text \<open>The path of a URL, without its query and fragment.\<close>

definition url_path :: "string \<Rightarrow> string" where
  "url_path url = (let rest = snd (split_scheme (clean_url url));
       r = (if starts_with rest ''//'' then drop (2 + length (split_netloc rest)) rest else rest)
     in takeWhile (\<lambda>ch. ch \<noteq> CHR ''?'' \<and> ch \<noteq> CHR ''#'') r)"

text \<open>The syntax \<open>N.N.N\<close> of a pinned driver version, and a safe file name.\<close>

definition is_version3 :: "string \<Rightarrow> bool" where
  "is_version3 s \<longleftrightarrow> (let ws = split_on CHR ''.'' s in
     length ws = 3 \<and> list_all (\<lambda>w. w \<noteq> [] \<and> list_all is_digit_char w) ws)"

definition is_safe_name :: "string \<Rightarrow> bool" where
  "is_safe_name s \<longleftrightarrow> s \<noteq> [] \<and> length s \<le> 128 \<and> is_alnum_char (hd s)
     \<and> list_all (\<lambda>c. is_alnum_char c \<or> c \<in> set ''._-'') s"

lemma safe_name_flat: "is_safe_name s \<Longrightarrow> CHR ''/'' \<notin> set s \<and> s \<noteq> ''..'' \<and> s \<noteq> ''.''"
  by (auto simp: is_safe_name_def list_all_iff is_alnum_char_def is_digit_char_def
      is_ascii_alpha_def less_eq_char_def)

end
