(* ===== verification/JsonParser.thy ===== *)
theory JsonParser
  imports Json Urls
begin

text \<open>
  \<open>json.loads\<close> on the Latin-1 range of characters, by recursive descent over the grammar of the
  standard library's scanner (an object keeps the last value of a repeated key at the position of
  its first), and the round trip with the canonical encoding \<open>dumps\<close>. The recursion carries fuel;
  \<open>loads\<close> gives it twice the length of the text, which is enough because two calls in a row
  consume at least one character. An escape beyond U+00FF reads as a question mark, and the
  non-standard tokens \<open>NaN\<close> and \<open>Infinity\<close> are rejected: both lie outside the value type.
\<close>

section \<open>Grammar\<close>

definition is_json_ws :: "char \<Rightarrow> bool" where
  "is_json_ws c \<longleftrightarrow> c \<in> {CHR '' '', CHR 0x09, CHR 0x0A, CHR 0x0D}"

definition skip_ws :: "string \<Rightarrow> string" where
  "skip_ws = dropWhile is_json_ws"

definition hex_value :: "char \<Rightarrow> nat option" where
  "hex_value c = (let n = (of_char c :: nat) in
     if 48 \<le> n \<and> n \<le> 57 then Some (n - 48)
     else if 97 \<le> n \<and> n \<le> 102 then Some (n - 87)
     else if 65 \<le> n \<and> n \<le> 70 then Some (n - 55) else None)"

definition code_char :: "nat \<Rightarrow> char" where
  "code_char n = (if n < 256 then char_of n else CHR ''?'')"

definition hex4_value :: "char \<Rightarrow> char \<Rightarrow> char \<Rightarrow> char \<Rightarrow> char option" where
  "hex4_value a b c d = (case (hex_value a, hex_value b, hex_value c, hex_value d) of
     (Some i, Some j, Some k, Some l) \<Rightarrow> Some (code_char (4096 * i + 256 * j + 16 * k + l))
   | _ \<Rightarrow> None)"

definition unescape :: "char \<Rightarrow> char option" where
  "unescape e = map_of [(CHR 0x22, CHR 0x22), (CHR 0x5C, CHR 0x5C), (CHR ''/'', CHR ''/''),
     (CHR ''b'', CHR 0x08), (CHR ''f'', CHR 0x0C), (CHR ''n'', CHR 0x0A), (CHR ''r'', CHR 0x0D),
     (CHR ''t'', CHR 0x09)] e"

definition cons_fst :: "'a \<Rightarrow> ('a list \<times> 'b) option \<Rightarrow> ('a list \<times> 'b) option" where
  "cons_fst x = map_option (\<lambda>(xs, r). (x # xs, r))"

lemma cons_fst_Some [simp]: "cons_fst x (Some (xs, r)) = Some (x # xs, r)"
  by (simp add: cons_fst_def)

text \<open>The body of a string literal, after its opening quote.\<close>

fun pstr :: "string \<Rightarrow> (string \<times> string) option" where
  "pstr [] = None"
| "pstr (c # cs) =
     (if c = CHR 0x22 then Some ([], cs)
      else if c = CHR 0x5C then
        (case cs of [] \<Rightarrow> None
         | e # r \<Rightarrow>
           if e = CHR ''u'' then
             (case r of x1 # x2 # x3 # x4 # r' \<Rightarrow>
                (case hex4_value x1 x2 x3 x4 of None \<Rightarrow> None | Some d \<Rightarrow> cons_fst d (pstr r'))
              | _ \<Rightarrow> None)
           else (case unescape e of None \<Rightarrow> None | Some d \<Rightarrow> cons_fst d (pstr r)))
      else if (of_char c :: nat) < 32 then None
      else cons_fst c (pstr cs))"

text \<open>Numbers: the integer part, then an optional fraction and exponent.\<close>

definition int_digits :: "string \<Rightarrow> string" where
  "int_digits s = (if starts_with s ''0'' then ''0'' else takeWhile is_digit_char s)"

definition frac_digits :: "string \<Rightarrow> string" where
  "frac_digits s = (if starts_with s ''.'' then takeWhile is_digit_char (tl s) else [])"

definition exp_split :: "string \<Rightarrow> (int \<times> string) option" where
  "exp_split s =
     (if starts_with s ''e'' \<or> starts_with s ''E'' then
        (let t = tl s; signed = starts_with t ''-'' \<or> starts_with t ''+'';
             ds = takeWhile is_digit_char (if signed then tl t else t);
             k = int (read_nat ds)
         in if ds = [] then None
            else Some (if starts_with t ''-'' then - k else k,
                       drop (length ds) (if signed then tl t else t)))
      else None)"

definition rat_pow10 :: "int \<Rightarrow> rat" where
  "rat_pow10 k = (if 0 \<le> k then 10 ^ nat k else 1 / 10 ^ nat (- k))"

definition pnum :: "string \<Rightarrow> (json \<times> string) option" where
  "pnum s =
     (let neg = starts_with s ''-''; t = (if neg then tl s else s); ds = int_digits t;
          r = drop (length ds) t; fs = frac_digits r;
          r' = (if fs = [] then r else drop (1 + length fs) r)
      in if ds = [] then None
         else if fs = [] \<and> exp_split r' = None
         then Some (JInt (if neg then - int (read_nat ds) else int (read_nat ds)), r')
         else (let (k, r2) = (case exp_split r' of None \<Rightarrow> (0, r') | Some kr \<Rightarrow> kr);
                   m = rat_of_int (int (read_nat (ds @ fs))) * rat_pow10 (k - int (length fs))
               in Some (JFloat (double_of (if neg then - m else m)), r2)))"

fun pval :: "nat \<Rightarrow> string \<Rightarrow> (json \<times> string) option"
  and parr :: "nat \<Rightarrow> string \<Rightarrow> (json list \<times> string) option"
  and pobj :: "nat \<Rightarrow> string \<Rightarrow> ((string \<times> json) list \<times> string) option" where
  "pval 0 s = None"
| "pval (Suc n) s =
     (case s of [] \<Rightarrow> None
      | c # cs \<Rightarrow>
        if c = CHR 0x22 then map_option (\<lambda>(t, r). (JStr t, r)) (pstr cs)
        else if c = CHR ''{'' then
          (case skip_ws cs of [] \<Rightarrow> None
           | d # r \<Rightarrow> if d = CHR ''}'' then Some (JObj [], r)
                      else map_option (\<lambda>(kvs, t). (JObj (dict_update [] kvs), t)) (pobj n (d # r)))
        else if c = CHR ''['' then
          (case skip_ws cs of [] \<Rightarrow> None
           | d # r \<Rightarrow> if d = CHR '']'' then Some (JArr [], r)
                      else map_option (\<lambda>(xs, t). (JArr xs, t)) (parr n (d # r)))
        else if starts_with s ''null'' then Some (JNull, drop 4 s)
        else if starts_with s ''true'' then Some (JBool True, drop 4 s)
        else if starts_with s ''false'' then Some (JBool False, drop 5 s)
        else pnum s)"
| "parr 0 s = None"
| "parr (Suc n) s =
     (case pval n s of None \<Rightarrow> None
      | Some (v, r) \<Rightarrow>
        (case skip_ws r of [] \<Rightarrow> None
         | d # t \<Rightarrow> if d = CHR '']'' then Some ([v], t)
                    else if d = CHR '','' then cons_fst v (parr n (skip_ws t)) else None))"
| "pobj 0 s = None"
| "pobj (Suc n) s =
     (case s of [] \<Rightarrow> None
      | q # s1 \<Rightarrow>
        if q \<noteq> CHR 0x22 then None
        else (case pstr s1 of None \<Rightarrow> None
         | Some (k, r) \<Rightarrow>
           (case skip_ws r of [] \<Rightarrow> None
            | colon # r1 \<Rightarrow>
              if colon \<noteq> CHR '':'' then None
              else (case pval n (skip_ws r1) of None \<Rightarrow> None
               | Some (v, r2) \<Rightarrow>
                 (case skip_ws r2 of [] \<Rightarrow> None
                  | d # t \<Rightarrow> if d = CHR ''}'' then Some ([(k, v)], t)
                     else if d = CHR '','' then cons_fst (k, v) (pobj n (skip_ws t)) else None)))))"

definition loads :: "string \<Rightarrow> json option" where
  "loads s = (case pval (2 * length s + 2) (skip_ws s) of
     None \<Rightarrow> None | Some (v, r) \<Rightarrow> if skip_ws r = [] then Some v else None)"


section \<open>Round trip\<close>

text \<open>The value a canonical encoding denotes: the same value with sorted keys.\<close>

fun canon :: "json \<Rightarrow> json" where
  "canon (JArr xs) = JArr (map canon xs)"
| "canon (JObj kvs) = JObj (sort_key fst (map (\<lambda>(k, v). (k, canon v)) kvs))"
| "canon v = v"

text \<open>Values without floats and without repeated keys.\<close>

fun plain :: "json \<Rightarrow> bool" where
  "plain (JFloat _) = False"
| "plain (JArr xs) = list_all plain xs"
| "plain (JObj kvs) = (distinct (map fst kvs) \<and> list_all (\<lambda>(k, v). plain v) kvs)"
| "plain _ = True"

lemma plain_opt_str [simp]: "plain (opt_str s)"
  by (cases s) simp_all

lemma plain_strs [simp]: "plain (strs xs)"
  by (simp add: strs_def list_all_iff)

fun fuel_of :: "json \<Rightarrow> nat" where
  "fuel_of (JArr xs) = 1 + sum_list (map (\<lambda>x. 1 + fuel_of x) xs)"
| "fuel_of (JObj kvs) = 1 + sum_list (map (\<lambda>(k, v). 1 + fuel_of v) kvs)"
| "fuel_of _ = 1"

lemma insort_key_map_snd: "insort_key fst (k, f v) (map (\<lambda>(k, v). (k, f v)) xs)
    = map (\<lambda>(k, v). (k, f v)) (insort_key fst (k, v) xs)"
  by (induction xs) auto

lemma sort_key_map_snd:
  "sort_key fst (map (\<lambda>(k, v). (k, f v)) kvs) = map (\<lambda>(k, v). (k, f v)) (sort_key fst kvs)"
  by (induction kvs) (auto simp: insort_key_map_snd)

definition entry_text :: "string \<times> json \<Rightarrow> string" where
  "entry_text kv = quote (fst kv) @ '':'' @ dumps (snd kv)"

lemma dumps_obj: "dumps (JObj kvs) = ''{'' @ join '','' (map entry_text (sort_key fst kvs)) @ ''}''"
proof -
  have e: "(\<lambda>(k, t). quote k @ '':'' @ t) \<circ> (\<lambda>(k, v). (k, dumps v)) = entry_text"
    by (auto simp: entry_text_def)
  show ?thesis by (simp only: dumps.simps sort_key_map_snd map_map e)
qed

lemma canon_obj: "canon (JObj kvs) = JObj (map (\<lambda>(k, v). (k, canon v)) (sort_key fst kvs))"
  by (simp add: sort_key_map_snd)

lemma sum_list_insort_key:
  "sum_list (map g (insort_key f x xs)) = (g x + sum_list (map g xs) :: nat)"
  by (induction xs) auto

lemma sum_list_sort_key: "sum_list (map g (sort_key f xs)) = (sum_list (map g xs) :: nat)"
  by (induction xs) (simp_all add: sum_list_insort_key)

lemma dict_update_fresh:
  "distinct (map fst (d @ kvs)) \<Longrightarrow> dict_update d kvs = d @ kvs"
proof (induction kvs arbitrary: d)
  case (Cons kv kvs)
  obtain k v where kv: "kv = (k, v)" by (cases kv)
  from Cons.prems kv have "k \<notin> set (map fst d)" by auto
  then have "dict_set k v d = d @ [(k, v)]" by (induction k v d rule: dict_set.induct) auto
  with Cons.IH [of "d @ [kv]"] Cons.prems kv show ?case by (simp add: dict_update_def)
qed (simp add: dict_update_def)

subsection \<open>Strings\<close>

lemma hex_value_digit: "n < 16 \<Longrightarrow> hex_value (hex_digit n) = Some n"
proof -
  assume "n < 16"
  then have "n \<in> set [0..<16]" by simp
  then show ?thesis
    by (simp add: upt_conv_Cons hex_digit_def hex_value_def) (elim disjE; simp)
qed

lemma hex4_value_hex4:
  "n < 256 \<Longrightarrow> hex4_value (hex_digit (n div 4096 mod 16)) (hex_digit (n div 256 mod 16))
     (hex_digit (n div 16 mod 16)) (hex_digit (n mod 16)) = Some (char_of n)"
proof -
  assume n: "n < 256"
  then have "n div 4096 = 0" "n div 256 = 0" "n div 16 mod 16 = n div 16" by simp_all
  moreover from n have "n div 16 < 16" by simp
  ultimately show ?thesis
    using n mult_div_mod_eq [of 16 n]
    by (simp add: hex4_value_def hex_value_digit code_char_def)
qed

lemma hex4_list: "hex4 n = [hex_digit (n div 4096 mod 16), hex_digit (n div 256 mod 16),
    hex_digit (n div 16 mod 16), hex_digit (n mod 16)]"
  by (simp add: hex4_def)

lemma pstr_escape: "pstr (escape_char c @ s) = cons_fst c (pstr s)"
proof -
  have lt: "(of_char c :: nat) < 256" by simp
  have hex: "pstr ([CHR 0x5C, CHR ''u''] @ hex4 (of_char c) @ s) = cons_fst c (pstr s)"
    using hex4_value_hex4 [OF lt] by (simp add: hex4_list)
  show ?thesis
  proof (cases "c \<in> {CHR 0x22, CHR 0x5C, CHR 0x0A, CHR 0x0D, CHR 0x09, CHR 0x0C, CHR 0x08}")
    case True
    then show ?thesis by (auto simp: escape_char_def unescape_def)
  next
    case False
    then show ?thesis
      using hex by (auto simp: escape_char_def Let_def)
  qed
qed

lemma pstr_quote: "pstr (concat (map escape_char s) @ CHR 0x22 # r) = Some (s, r)"
  by (induction s) (simp_all add: pstr_escape del: pstr.simps(2), simp)

subsection \<open>Numbers\<close>

lemma digit_char: "n < 10 \<Longrightarrow> is_digit_char (char_of (48 + n)) \<and> digit_value (char_of (48 + n)) = n
    \<and> (char_of (48 + n) = CHR ''0'' \<longleftrightarrow> n = 0)"
proof -
  assume "n < 10"
  then have "n \<in> set [0..<10]" by simp
  then show ?thesis
    by (simp add: upt_conv_Cons is_digit_char_def digit_value_def less_eq_char_def char_of_eq_iff
        take_bit_eq_mod) (elim disjE; simp)
qed

lemma read_nat_snoc: "read_nat (s @ [c]) = 10 * read_nat s + digit_value c"
  by (simp add: read_nat_def)

lemma show_nat_digits: "list_all is_digit_char (show_nat n) \<and> read_nat (show_nat n) = n
    \<and> (hd (show_nat n) = CHR ''0'' \<longleftrightarrow> n = 0)"
proof (induction n rule: less_induct)
  case (less n)
  show ?case
  proof (cases "n < 10")
    case True
    then show ?thesis
      using digit_char [of n] by (simp add: show_nat.simps [of n] read_nat_def)
  next
    case False
    then have "n div 10 < n" "n div 10 \<noteq> 0" by auto
    with less [of "n div 10"] False digit_char [of "n mod 10"] show ?thesis
      by (simp add: show_nat.simps [of n] read_nat_snoc)
  qed
qed

text \<open>What follows a number may not continue it.\<close>

definition stops :: "string \<Rightarrow> bool" where
  "stops r \<longleftrightarrow> r = [] \<or> (\<not> is_digit_char (hd r) \<and> hd r \<notin> set ''.eE'')"

lemma takeWhile_stops: "\<lbrakk>list_all is_digit_char ds; stops r\<rbrakk> \<Longrightarrow> takeWhile is_digit_char (ds @ r) = ds"
  by (induction ds) (cases r; auto simp: stops_def)+

lemma int_digits_show: "stops r \<Longrightarrow> int_digits (show_nat n @ r) = show_nat n"
proof (cases "n = 0")
  case True
  then show ?thesis
    using digit_char [of 0] by (simp add: show_nat.simps [of 0] int_digits_def starts_with_def)
next
  case False
  assume r: "stops r"
  obtain c cs where c: "show_nat n = c # cs" by (cases "show_nat n") auto
  with False show_nat_digits [of n] have "\<not> starts_with (show_nat n @ r) ''0''"
    by (simp add: starts_with_def)
  then show ?thesis
    using takeWhile_stops [OF _ r, of "show_nat n"] show_nat_digits [of n]
    by (simp add: int_digits_def)
qed

lemma stops_no_exp: "stops r \<Longrightarrow> frac_digits r = [] \<and> exp_split r = None"
  by (cases r) (auto simp: stops_def frac_digits_def exp_split_def starts_with_def)

lemma hd_show_nat: "is_digit_char (hd (show_nat n))"
  using show_nat_digits [of n] by (cases "show_nat n") auto

lemma digit_not: "is_digit_char c \<Longrightarrow>
    c \<noteq> CHR ''-'' \<and> c \<noteq> CHR 0x22 \<and> c \<noteq> CHR ''{'' \<and> c \<noteq> CHR ''['' \<and> c \<noteq> CHR ''n'' \<and> c \<noteq> CHR ''t'' \<and> c \<noteq> CHR ''f''
      \<and> \<not> is_json_ws c"
  by (auto simp: is_digit_char_def less_eq_char_def is_json_ws_def)

lemma pnum_show: "stops r \<Longrightarrow> pnum (show_int i @ r) = Some (JInt i, r)"
proof -
  assume r: "stops r"
  have neg: "\<not> starts_with (show_nat n @ r) ''-''" for n
    using hd_show_nat [of n] digit_not by (cases "show_nat n") (auto simp: starts_with_def)
  note facts = int_digits_show [OF r] stops_no_exp [OF r] show_nat_digits
  show ?thesis
  proof (cases "i < 0")
    case True
    then show ?thesis by (simp add: pnum_def show_int_def facts Let_def starts_with_def)
  next
    case False
    then show ?thesis using neg by (simp add: pnum_def show_int_def facts Let_def)
  qed
qed


subsection \<open>Values\<close>

lemma first_char: "plain v \<Longrightarrow> \<exists>c cs. dumps v = c # cs \<and> \<not> is_json_ws c \<and> c \<noteq> CHR '']'' \<and> c \<noteq> CHR ''}''"
proof (cases v)
  case (JInt i)
  obtain c cs where c: "show_nat (nat \<bar>i\<bar>) = c # cs" by (cases "show_nat (nat \<bar>i\<bar>)") auto
  then have d: "is_digit_char c" using hd_show_nat [of "nat \<bar>i\<bar>"] by simp
  then have "c \<noteq> CHR '']'' \<and> c \<noteq> CHR ''}''" by (auto simp: is_digit_char_def less_eq_char_def)
  with JInt c digit_not [OF d] show ?thesis
    by (auto simp: show_int_def is_json_ws_def)
qed (auto simp: quote_def is_json_ws_def dumps_obj simp del: dumps.simps(7))


lemma skip_ws_dumps: "plain v \<Longrightarrow> skip_ws (dumps v @ r) = dumps v @ r"
  using first_char [of v] by (auto simp: skip_ws_def)

lemma pval_int: "stops r \<Longrightarrow> pval (Suc n) (show_int i @ r) = Some (JInt i, r)"
proof -
  assume r: "stops r"
  obtain c cs where c: "show_int i = c # cs" and "c = CHR ''-'' \<or> is_digit_char c"
  proof (cases "i < 0")
    case True
    then show ?thesis using that by (simp add: show_int_def)
  next
    case False
    then show ?thesis
      using that hd_show_nat [of "nat i"] by (cases "show_nat (nat i)") (auto simp: show_int_def)
  qed
  then have "c \<noteq> CHR 0x22" "c \<noteq> CHR ''{''" "c \<noteq> CHR ''[''" "c \<noteq> CHR ''n''" "c \<noteq> CHR ''t''" "c \<noteq> CHR ''f''"
    using digit_not by auto
  then show ?thesis using pnum_show [OF r, of i] c by (simp add: starts_with_def)
qed

lemma stops_sep [simp]: "stops ('','' @ r)" "stops (CHR '','' # r)" "stops (CHR '']'' # r)" "stops (CHR ''}'' # r)"
  by (auto simp: stops_def is_digit_char_def less_eq_char_def)

lemma skip_ws_sep [simp]: "skip_ws (CHR '','' # r) = CHR '','' # r" "skip_ws (CHR '']'' # r) = CHR '']'' # r"
  "skip_ws (CHR ''}'' # r) = CHR ''}'' # r" "skip_ws (CHR '':'' # r) = CHR '':'' # r"
  "skip_ws (CHR 0x22 # r) = CHR 0x22 # r"
  by (simp_all add: skip_ws_def is_json_ws_def)

definition parses :: "json \<Rightarrow> bool" where
  "parses v \<longleftrightarrow> (\<forall>n r. fuel_of v \<le> n \<longrightarrow> stops r \<longrightarrow> pval n (dumps v @ r) = Some (canon v, r))"

lemma parr_join:
  "\<lbrakk>xs \<noteq> []; \<forall>x \<in> set xs. parses x \<and> plain x; sum_list (map (\<lambda>x. 1 + fuel_of x) xs) \<le> n\<rbrakk> \<Longrightarrow>
    parr n (join '','' (map dumps xs) @ '']'' @ r) = Some (map canon xs, r)"
proof (induction xs arbitrary: n)
  case (Cons x xs)
  then obtain m where n: "n = Suc m" by (cases n) auto
  have v: "pval m (dumps x @ t) = Some (canon x, t)" if "stops t" for t
    using Cons.prems n that by (simp add: parses_def)
  show ?case
  proof (cases xs)
    case Nil
    then show ?thesis using v [of "'']'' @ r"] n by simp
  next
    case (Cons y ys)
    have rest: "parr m (join '','' (map dumps xs) @ '']'' @ r) = Some (map canon xs, r)"
      using Cons.prems Cons n by (intro Cons.IH) auto
    have ws: "skip_ws (join '','' (map dumps xs) @ '']'' @ r) = join '','' (map dumps xs) @ '']'' @ r"
      using Cons.prems skip_ws_dumps [of y] Cons by (cases ys) auto
    show ?thesis
      using v [of "'','' @ join '','' (map dumps xs) @ '']'' @ r"] rest ws Cons n by simp
  qed
qed simp

lemma pobj_join:
  "\<lbrakk>kvs \<noteq> []; \<forall>kv \<in> set kvs. parses (snd kv) \<and> plain (snd kv);
    sum_list (map (\<lambda>kv. 1 + fuel_of (snd kv)) kvs) \<le> n\<rbrakk> \<Longrightarrow>
    pobj n (join '','' (map entry_text kvs) @ ''}'' @ r) = Some (map (\<lambda>(k, v). (k, canon v)) kvs, r)"
proof (induction kvs arbitrary: n)
  case (Cons kv kvs)
  then obtain m where n: "n = Suc m" by (cases n) auto
  obtain k x where kv: "kv = (k, x)" by (cases kv)
  have v: "pval m (dumps x @ t) = Some (canon x, t)" if "stops t" for t
    using Cons.prems n kv that by (simp add: parses_def)
  have key: "pstr (concat (map escape_char k) @ CHR 0x22 # t) = Some (k, t)" for t
    by (rule pstr_quote)
  have ws: "skip_ws (dumps x @ t) = dumps x @ t" for t
    using Cons.prems kv by (auto intro: skip_ws_dumps)
  show ?case
  proof (cases kvs)
    case Nil
    then show ?thesis
      using v [of "''}'' @ r"] key ws n kv by (simp add: entry_text_def quote_def)
  next
    case (Cons kv2 ys)
    have rest: "pobj m (join '','' (map entry_text kvs) @ ''}'' @ r)
        = Some (map (\<lambda>(k, v). (k, canon v)) kvs, r)"
      using Cons.prems Cons n by (intro Cons.IH) auto
    have ws2: "skip_ws (join '','' (map entry_text kvs) @ ''}'' @ r)
        = join '','' (map entry_text kvs) @ ''}'' @ r"
      using Cons by (cases ys) (simp_all add: entry_text_def quote_def)
    show ?thesis
      using v [of "'','' @ join '','' (map entry_text kvs) @ ''}'' @ r"] key ws ws2 rest Cons n kv
      by (simp add: entry_text_def [of "(k, x)"] quote_def)
  qed
qed simp

lemma parses_plain: "plain v \<Longrightarrow> parses v"
proof (induction v)
  case (JBool b)
  then show ?case by (auto simp: parses_def starts_with_def Suc_le_eq gr0_conv_Suc)
next
  case JNull
  then show ?case by (auto simp: parses_def starts_with_def Suc_le_eq gr0_conv_Suc)
next
  case (JInt i)
  then show ?case by (auto simp: parses_def Suc_le_eq gr0_conv_Suc pval_int simp del: pval.simps)
next
  case (JStr s)
  then show ?case by (auto simp: parses_def Suc_le_eq gr0_conv_Suc quote_def pstr_quote)
next
  case (JArr xs)
  have el: "\<forall>x \<in> set xs. parses x \<and> plain x" using JArr by (auto simp: list_all_iff)
  show ?case unfolding parses_def
  proof (intro allI impI)
    fix n r assume f: "fuel_of (JArr xs) \<le> n" and "stops r"
    then obtain m where n: "n = Suc m" by (cases n) auto
    show "pval n (dumps (JArr xs) @ r) = Some (canon (JArr xs), r)"
    proof (cases xs)
      case Nil
      then show ?thesis by (simp add: n)
    next
      case (Cons y ys)
      obtain c cs where c: "join '','' (map dumps xs) @ '']'' @ r = c # cs" "c \<noteq> CHR '']''" "\<not> is_json_ws c"
        using Cons first_char [of y] el by (cases ys) auto
      have "parr m (c # cs) = Some (map canon xs, r)"
        using parr_join [OF _ el, of m r] Cons f n c(1) by simp
      with c show ?thesis using n by (simp add: skip_ws_def)
    qed
  qed
next
  case (JObj kvs)
  let ?s = "sort_key fst kvs"
  have el: "\<forall>kv \<in> set ?s. parses (snd kv) \<and> plain (snd kv)"
    using JObj by (auto simp: list_all_iff snds.simps)
  have dist: "distinct (map fst ?s)"
    using JObj.prems by (simp add: distinct_map inj_on_def)
  show ?case unfolding parses_def
  proof (intro allI impI)
    fix n r assume f: "fuel_of (JObj kvs) \<le> n" and "stops r"
    then obtain m where n: "n = Suc m" by (cases n) auto
    have f': "sum_list (map (\<lambda>kv. 1 + fuel_of (snd kv)) ?s) \<le> m"
      using f n by (simp only: sum_list_sort_key) (simp add: case_prod_unfold)
    show "pval n (dumps (JObj kvs) @ r) = Some (canon (JObj kvs), r)"
    proof (cases ?s)
      case Nil
      then show ?thesis by (simp add: n dumps_obj canon_obj del: dumps.simps canon.simps)
    next
      case (Cons y ys)
      obtain cs where c: "join '','' (map entry_text ?s) @ ''}'' @ r = CHR 0x22 # cs"
        using Cons by (cases ys) (auto simp: entry_text_def quote_def)
      have "pobj m (CHR 0x22 # cs) = Some (map (\<lambda>(k, v). (k, canon v)) ?s, r)"
        using pobj_join [OF _ el f', of r] Cons c by simp
      moreover have "dict_update [] (map (\<lambda>(k, v). (k, canon v)) ?s) = map (\<lambda>(k, v). (k, canon v)) ?s"
        by (rule dict_update_fresh [of "[]", simplified])
           (simp add: comp_def case_prod_unfold dist)
      ultimately show ?thesis using n c
        by (simp add: dumps_obj canon_obj del: dumps.simps canon.simps)
    qed
  qed
qed simp

lemma length_join: "xs \<noteq> [] \<Longrightarrow> length (join [c] xs) + 1 = sum_list (map (\<lambda>x. 1 + length x) xs)"
  by (induction "[c]" xs rule: join.induct) auto

lemma show_int_nonempty [simp]: "show_int i \<noteq> []"
  by (simp add: show_int_def)

lemma length_dumps_pos: "plain v \<Longrightarrow> 0 < length (dumps v)"
  using first_char [of v] by auto

lemma fuel_enough: "plain v \<Longrightarrow> fuel_of v \<le> 2 * length (dumps v)"
proof (induction v)
  case (JArr xs)
  have "sum_list (map (\<lambda>x. 1 + fuel_of x) xs) \<le> sum_list (map (\<lambda>x. 2 * (1 + length (dumps x))) xs)"
    using JArr by (intro sum_list_mono) (fastforce simp: list_all_iff)
  also have "\<dots> = 2 * sum_list (map (\<lambda>x. 1 + length (dumps x)) xs)"
    by (simp only: sum_list_const_mult)
  finally show ?case
    using length_join [of "map dumps xs" "CHR '',''"] by (cases xs) (auto simp: comp_def)
next
  case (JObj kvs)
  let ?s = "sort_key fst kvs"
  have el: "\<forall>kv \<in> set ?s. fuel_of (snd kv) \<le> 2 * length (dumps (snd kv))"
    using JObj by (auto simp: list_all_iff snds.simps)
  have "sum_list (map (\<lambda>kv. 1 + fuel_of (snd kv)) ?s)
      \<le> sum_list (map (\<lambda>kv. 2 * (1 + length (entry_text kv))) ?s)"
    using el by (intro sum_list_mono) (auto simp: entry_text_def)
  also have "\<dots> = 2 * sum_list (map (\<lambda>kv. 1 + length (entry_text kv)) ?s)"
    by (simp only: sum_list_const_mult)
  finally have "sum_list (map (\<lambda>kv. 1 + fuel_of (snd kv)) kvs)
      \<le> 2 * sum_list (map (\<lambda>kv. 1 + length (entry_text kv)) ?s)"
    by (simp only: sum_list_sort_key)
  moreover have "?s = [] \<longleftrightarrow> kvs = []" by (metis length_0_conv length_sort)
  ultimately show ?case
    using length_join [of "map entry_text ?s" "CHR '',''"]
    by (cases "kvs = []") (auto simp: dumps_obj comp_def case_prod_unfold simp del: dumps.simps)
qed (auto simp: Suc_le_eq quote_def dest: length_dumps_pos)

lemma loads_dumps: "plain v \<Longrightarrow> loads (dumps v) = Some (canon v)"
proof -
  assume v: "plain v"
  then have "pval (2 * length (dumps v) + 2) (dumps v @ []) = Some (canon v, [])"
    using parses_plain [OF v] fuel_enough [OF v] unfolding parses_def
    by (metis le_add1 le_trans stops_def)
  then show ?thesis using skip_ws_dumps [OF v, of "[]"]
    by (simp add: loads_def skip_ws_def del: pval.simps)
qed

end
