(* ===== verification/BrowserContract.thy ===== *)
theory BrowserContract
  imports JsonParser
begin

text \<open>
  \<open>browser_contract.py\<close>: the deterministic action plan of one browser run, its contract, the runner
  configuration that binds it by digest, and the receipt with its artifacts. As in the source each
  class has its validation: nested models, field constraints, then the \<open>model_validator\<close>.
\<close>

section \<open>Origins and relative paths\<close>

definition normalize_origin :: "string \<Rightarrow> string res" where
  "normalize_origin value = rbind (urlsplit value) (\<lambda>u.
     let scheme = url_scheme u; name = url_hostname u in
     if scheme \<notin> {''http'', ''https''} \<or> name = []
     then Inl (ValueError ''browser origins and URLs must use http or https'')
     else rbind (url_port u) (\<lambda>p.
       let default = (scheme = ''http'' \<and> p \<in> {None, Some 80}) \<or> (scheme = ''https'' \<and> p \<in> {None, Some 443});
           authority = (if default then lower name
             else lower name @ '':'' @ (case p of None \<Rightarrow> ''None'' | Some n \<Rightarrow> show_nat n))
       in Inr (lower scheme @ ''://'' @ authority)))"

definition unsafe_relative_path :: "string \<Rightarrow> bool" where
  "unsafe_relative_path value =
     (let p = map (\<lambda>c. if c = CHR 0x5C then CHR ''/'' else c) value
      in value = [] \<or> is_absolute p \<or> list_ex (\<lambda>w. w \<in> {[], ''.'', ''..''}) (path_parts p))"

section \<open>Actions\<close>

datatype browser_action =
    GotoAction string string
  | ClickAction string bool "string option" "string option"
  | FillAction string string
  | SelectAction string string
  | PressAction string string
  | WaitForAction string string
  | ScreenshotAction string bool
  | AssertTextAction string string string
  | AssertURLAction string
  | AssertTitleAction string string

fun action_json :: "browser_action \<Rightarrow> json" where
  "action_json (GotoAction url w) = JObj [(''kind'', JStr ''goto''), (''url'', JStr url),
     (''wait_until'', JStr w)]"
| "action_json (ClickAction sel popup dl dialog) = JObj [(''kind'', JStr ''click''),
     (''selector'', JStr sel), (''expect_popup'', JBool popup), (''download_name'', opt_str dl),
     (''dialog_action'', opt_str dialog)]"
| "action_json (FillAction sel v) = JObj [(''kind'', JStr ''fill''), (''selector'', JStr sel),
     (''value'', JStr v)]"
| "action_json (SelectAction sel v) = JObj [(''kind'', JStr ''select''), (''selector'', JStr sel),
     (''value'', JStr v)]"
| "action_json (PressAction sel k) = JObj [(''kind'', JStr ''press''), (''selector'', JStr sel),
     (''key'', JStr k)]"
| "action_json (WaitForAction sel s) = JObj [(''kind'', JStr ''wait_for''), (''selector'', JStr sel),
     (''state'', JStr s)]"
| "action_json (ScreenshotAction n full) = JObj [(''kind'', JStr ''screenshot''), (''name'', JStr n),
     (''full_page'', JBool full)]"
| "action_json (AssertTextAction sel v m) = JObj [(''kind'', JStr ''assert_text''),
     (''selector'', JStr sel), (''value'', JStr v), (''match'', JStr m)]"
| "action_json (AssertURLAction v) = JObj [(''kind'', JStr ''assert_url''), (''value'', JStr v)]"
| "action_json (AssertTitleAction v m) = JObj [(''kind'', JStr ''assert_title''), (''value'', JStr v),
     (''match'', JStr m)]"

definition count_true :: "bool list \<Rightarrow> nat" where
  "count_true bs = length (filter (\<lambda>b. b) bs)"

fun action_guards :: "browser_action \<Rightarrow> (bool \<times> exn) list" where
  "action_guards (GotoAction url w) = [(url = [], ValidationError ''url''),
     (w \<notin> {''commit'', ''domcontentloaded'', ''load'', ''networkidle''}, ValidationError ''wait_until'')]"
| "action_guards (ClickAction sel popup dl dialog) = [(sel = [], ValidationError ''selector''),
     (dialog \<notin> {None, Some ''accept'', Some ''dismiss''}, ValidationError ''dialog_action''),
     (1 < count_true [popup, dl \<noteq> None, dialog \<noteq> None],
       ValidationError ''click action may expect at most one popup/download/dialog''),
     (case dl of None \<Rightarrow> False | Some n \<Rightarrow> \<not> is_safe_name n,
       ValidationError ''download_name must be a safe relative file name'')]"
| "action_guards (FillAction sel v) = [(sel = [], ValidationError ''selector'')]"
| "action_guards (SelectAction sel v) = [(sel = [], ValidationError ''selector'')]"
| "action_guards (PressAction sel k) = [(sel = [], ValidationError ''selector''),
     (k = [] \<or> 64 < length k, ValidationError ''key'')]"
| "action_guards (WaitForAction sel s) = [(sel = [], ValidationError ''selector''),
     (s \<notin> {''attached'', ''detached'', ''visible'', ''hidden''}, ValidationError ''state'')]"
| "action_guards (ScreenshotAction n full) = [(n = [], ValidationError ''name''),
     (\<not> is_safe_name n, ValidationError ''screenshot name must be a safe relative file name'')]"
| "action_guards (AssertTextAction sel v m) = [(sel = [], ValidationError ''selector''),
     (m \<notin> {''contains'', ''exact''}, ValidationError ''match'')]"
| "action_guards (AssertURLAction v) = [(v = [], ValidationError ''value'')]"
| "action_guards (AssertTitleAction v m) = [(m \<notin> {''contains'', ''exact''}, ValidationError ''match'')]"

definition validate_action :: "browser_action \<Rightarrow> browser_action res" where
  "validate_action a = guards (action_guards a) a"

fun screenshot_name :: "browser_action \<Rightarrow> string list" where
  "screenshot_name (ScreenshotAction n _) = [n]"
| "screenshot_name _ = []"

section \<open>The contract\<close>

record browser_contract =
  bc_driver_version :: string
  bc_browser :: string
  bc_headless :: bool
  allowed_origins :: "string list"
  actions :: "browser_action list"
  artifact_root :: string
  viewport_width :: int
  viewport_height :: int
  bc_locale :: string
  action_timeout_ms :: int
  navigation_timeout_ms :: int
  max_pages :: int
  max_events :: int
  max_network_events :: int
  max_console_bytes :: int
  max_dom_bytes :: int
  max_aria_bytes :: int
  max_artifact_bytes :: int
  max_download_bytes :: int
  capture_dom :: bool
  capture_aria :: bool
  final_screenshot :: bool

definition browser_contract_json :: "browser_contract \<Rightarrow> json" where
  "browser_contract_json c = JObj [(''schema_version'', JStr ''1.0''),
     (''driver'', JStr ''playwright-python''), (''driver_version'', JStr (bc_driver_version c)),
     (''browser'', JStr (bc_browser c)), (''headless'', JBool (bc_headless c)),
     (''allowed_origins'', strs (allowed_origins c)),
     (''actions'', JArr (map action_json (actions c))),
     (''artifact_root'', JStr (artifact_root c)),
     (''viewport_width'', JInt (viewport_width c)), (''viewport_height'', JInt (viewport_height c)),
     (''locale'', JStr (bc_locale c)), (''action_timeout_ms'', JInt (action_timeout_ms c)),
     (''navigation_timeout_ms'', JInt (navigation_timeout_ms c)),
     (''max_pages'', JInt (max_pages c)), (''max_events'', JInt (max_events c)),
     (''max_network_events'', JInt (max_network_events c)),
     (''max_console_bytes'', JInt (max_console_bytes c)),
     (''max_dom_bytes'', JInt (max_dom_bytes c)), (''max_aria_bytes'', JInt (max_aria_bytes c)),
     (''max_artifact_bytes'', JInt (max_artifact_bytes c)),
     (''max_download_bytes'', JInt (max_download_bytes c)),
     (''capture_dom'', JBool (capture_dom c)), (''capture_aria'', JBool (capture_aria c)),
     (''final_screenshot'', JBool (final_screenshot c))]"

definition outside :: "int \<Rightarrow> int \<Rightarrow> int \<Rightarrow> bool" where
  "outside lo hi x \<longleftrightarrow> x < lo \<or> hi < x"

definition browser_field_guards :: "browser_contract \<Rightarrow> (bool \<times> exn) list" where
  "browser_field_guards c =
     [(\<not> is_version3 (bc_driver_version c), ValidationError ''driver_version''),
      (bc_browser c \<notin> {''chromium'', ''firefox'', ''webkit''}, ValidationError ''browser''),
      (allowed_origins c = [], ValidationError ''allowed_origins''),
      (actions c = [] \<or> 200 < length (actions c), ValidationError ''actions''),
      (outside 320 7680 (viewport_width c), ValidationError ''viewport_width''),
      (outside 240 4320 (viewport_height c), ValidationError ''viewport_height''),
      (length (bc_locale c) < 2 \<or> 32 < length (bc_locale c), ValidationError ''locale''),
      (outside 100 120000 (action_timeout_ms c), ValidationError ''action_timeout_ms''),
      (outside 100 180000 (navigation_timeout_ms c), ValidationError ''navigation_timeout_ms''),
      (outside 1 20 (max_pages c), ValidationError ''max_pages''),
      (outside 1 100000 (max_events c), ValidationError ''max_events''),
      (outside 1 100000 (max_network_events c), ValidationError ''max_network_events''),
      (outside 0 10000000 (max_console_bytes c), ValidationError ''max_console_bytes''),
      (outside 1 50000000 (max_dom_bytes c), ValidationError ''max_dom_bytes''),
      (outside 1 50000000 (max_aria_bytes c), ValidationError ''max_aria_bytes''),
      (outside 1 1000000000 (max_artifact_bytes c), ValidationError ''max_artifact_bytes''),
      (outside 0 1000000000 (max_download_bytes c), ValidationError ''max_download_bytes'')]"

fun origin_check :: "string list \<Rightarrow> browser_action \<Rightarrow> browser_action res" where
  "origin_check allowed (GotoAction url w) = rbind (normalize_origin url) (\<lambda>og.
     if og \<notin> set allowed then Inl (ValidationError ''goto action URL is outside allowed_origins'')
     else Inr (GotoAction url w))"
| "origin_check allowed (AssertURLAction v) = rbind (normalize_origin v) (\<lambda>og.
     if og \<notin> set allowed then Inl (ValidationError ''assert_url value is outside allowed_origins'')
     else Inr (AssertURLAction v))"
| "origin_check allowed a = Inr a"

definition validate_browser_contract :: "browser_contract \<Rightarrow> browser_contract res" where
  "validate_browser_contract c =
     rbind (traverse validate_action (actions c)) (\<lambda>_.
     rbind (guards (browser_field_guards c) c) (\<lambda>_.
     rbind (traverse normalize_origin (allowed_origins c)) (\<lambda>normalized.
     rbind (guards
       [(allowed_origins c \<noteq> normalized,
          ValidationError ''allowed_origins must use canonical origin spelling''),
        (normalized \<noteq> sorted_set normalized,
          ValidationError ''allowed_origins must be normalized, sorted, and unique''),
        (unsafe_relative_path (artifact_root c),
          ValidationError ''artifact_root must be a safe relative path''),
        (\<not> distinct (concat (map screenshot_name (actions c))),
          ValidationError ''screenshot names must be unique'')] c) (\<lambda>_.
     rbind (traverse (origin_check normalized) (actions c)) (\<lambda>_. Inr c)))))"

section \<open>Digests and the runner configuration\<close>

definition browser_contract_digest :: "browser_contract \<Rightarrow> string" where
  "browser_contract_digest c = canonical_digest (browser_contract_json c)"

definition browser_action_plan_digest :: "browser_action list \<Rightarrow> string" where
  "browser_action_plan_digest as = canonical_digest (JArr (map action_json as))"

record browser_config =
  bcfg_run_id :: string
  bcfg_contract :: browser_contract
  bcfg_contract_digest :: string
  bcfg_action_plan_digest :: string
  bcfg_config_digest :: string

definition config_payload :: "browser_config \<Rightarrow> json dict" where
  "config_payload c = [(''schema_version'', JStr ''1.0''), (''run_id'', JStr (bcfg_run_id c)),
     (''contract'', browser_contract_json (bcfg_contract c)),
     (''contract_digest'', JStr (bcfg_contract_digest c)),
     (''action_plan_digest'', JStr (bcfg_action_plan_digest c))]"

definition browser_config_json :: "browser_config \<Rightarrow> json" where
  "browser_config_json c = JObj (config_payload c @ [(''config_digest'', JStr (bcfg_config_digest c))])"

definition validate_browser_config :: "browser_config \<Rightarrow> browser_config res" where
  "validate_browser_config c = rbind (validate_browser_contract (bcfg_contract c)) (\<lambda>_. guards
     [(bcfg_run_id c = [], ValidationError ''run_id''),
      (\<not> is_hex64 (bcfg_contract_digest c), ValidationError ''contract_digest''),
      (\<not> is_hex64 (bcfg_action_plan_digest c), ValidationError ''action_plan_digest''),
      (\<not> is_hex64 (bcfg_config_digest c), ValidationError ''config_digest''),
      (bcfg_contract_digest c \<noteq> browser_contract_digest (bcfg_contract c),
        ValidationError ''browser contract digest does not match contract payload''),
      (bcfg_action_plan_digest c \<noteq> browser_action_plan_digest (actions (bcfg_contract c)),
        ValidationError ''browser action-plan digest does not match actions''),
      (bcfg_config_digest c \<noteq> canonical_digest (JObj (config_payload c)),
        ValidationError ''browser runner config digest does not match payload'')] c)"

definition build_browser_runner_config :: "string \<Rightarrow> browser_contract \<Rightarrow> browser_config res" where
  "build_browser_runner_config rid c =
     (let base = \<lparr>bcfg_run_id = rid, bcfg_contract = c,
            bcfg_contract_digest = browser_contract_digest c,
            bcfg_action_plan_digest = browser_action_plan_digest (actions c),
            bcfg_config_digest = []\<rparr>
      in validate_browser_config
           (base\<lparr>bcfg_config_digest := canonical_digest (JObj (config_payload base))\<rparr>))"

section \<open>Receipts\<close>

record browser_event =
  be_sequence :: int
  be_kind :: string
  be_details :: "json dict"

definition event_json :: "browser_event \<Rightarrow> json" where
  "event_json e = JObj [(''sequence'', JInt (be_sequence e)), (''kind'', JStr (be_kind e)),
     (''details'', JObj (be_details e))]"

definition validate_event :: "browser_event \<Rightarrow> browser_event res" where
  "validate_event e = guards [(be_sequence e < 0, ValidationError ''sequence''),
     (be_kind e = [], ValidationError ''kind'')] e"

record browser_artifact =
  ba_kind :: string
  ba_path :: string
  ba_sha256 :: string
  ba_bytes :: int
  ba_media_type :: string
  ba_sensitivity :: string

definition artifact_obj :: "browser_artifact \<Rightarrow> json dict" where
  "artifact_obj a = [(''kind'', JStr (ba_kind a)), (''path'', JStr (ba_path a)),
     (''sha256'', JStr (ba_sha256 a)), (''bytes'', JInt (ba_bytes a)),
     (''media_type'', JStr (ba_media_type a)), (''sensitivity'', JStr (ba_sensitivity a))]"

definition validate_artifact :: "browser_artifact \<Rightarrow> browser_artifact res" where
  "validate_artifact a = guards
     [(ba_kind a \<notin> {''dom'', ''aria'', ''screenshot'', ''download''}, ValidationError ''kind''),
      (ba_path a = [], ValidationError ''path''), (\<not> is_hex64 (ba_sha256 a), ValidationError ''sha256''),
      (ba_bytes a < 0, ValidationError ''bytes''), (ba_media_type a = [], ValidationError ''media_type''),
      (ba_sensitivity a \<notin> {''public'', ''internal'', ''sensitive''}, ValidationError ''sensitivity''),
      (unsafe_relative_path (ba_path a), ValidationError ''artifact path must be safe and relative'')] a"

record browser_receipt =
  br_runner_version :: string
  br_run_id :: string
  br_config_digest :: string
  br_contract_digest :: string
  br_action_plan_digest :: string
  br_driver_version :: string
  br_browser :: string
  br_browser_version :: string
  br_headless :: bool
  br_outcome :: string
  final_url :: string
  title :: string
  page_count :: int
  br_events :: "browser_event list"
  network_events :: "json dict list"
  console_events :: "json dict list"
  page_errors :: "string list"
  artifacts :: "browser_artifact list"
  br_assertions :: "bool dict"
  br_policy_checks :: "bool dict"
  violations :: "string list"
  br_error :: "string option"
  br_receipt_digest :: string

definition browser_receipt_payload :: "browser_receipt \<Rightarrow> json dict" where
  "browser_receipt_payload r = [(''schema_version'', JStr ''1.0''),
     (''runner_version'', JStr (br_runner_version r)), (''run_id'', JStr (br_run_id r)),
     (''config_digest'', JStr (br_config_digest r)),
     (''contract_digest'', JStr (br_contract_digest r)),
     (''action_plan_digest'', JStr (br_action_plan_digest r)),
     (''driver'', JStr ''playwright-python''), (''driver_version'', JStr (br_driver_version r)),
     (''browser'', JStr (br_browser r)), (''browser_version'', JStr (br_browser_version r)),
     (''headless'', JBool (br_headless r)), (''outcome'', JStr (br_outcome r)),
     (''final_url'', JStr (final_url r)), (''title'', JStr (title r)),
     (''page_count'', JInt (page_count r)), (''events'', JArr (map event_json (br_events r))),
     (''network_events'', JArr (map JObj (network_events r))),
     (''console_events'', JArr (map JObj (console_events r))),
     (''page_errors'', strs (page_errors r)),
     (''artifacts'', JArr (map (\<lambda>a. JObj (artifact_obj a)) (artifacts r))),
     (''assertions'', JObj (map (\<lambda>(k, b). (k, JBool b)) (br_assertions r))),
     (''policy_checks'', JObj (map (\<lambda>(k, b). (k, JBool b)) (br_policy_checks r))),
     (''violations'', strs (violations r)), (''error'', opt_str (br_error r))]"

definition browser_receipt_obj :: "browser_receipt \<Rightarrow> json dict" where
  "browser_receipt_obj r = browser_receipt_payload r @ [(''receipt_digest'', JStr (br_receipt_digest r))]"

definition browser_receipt_guards :: "browser_receipt \<Rightarrow> (bool \<times> exn) list" where
  "browser_receipt_guards r =
     (let pass = br_outcome r = ''pass'' in
     [(br_runner_version r = [], ValidationError ''runner_version''),
      (br_run_id r = [], ValidationError ''run_id''),
      (\<not> is_hex64 (br_config_digest r), ValidationError ''config_digest''),
      (\<not> is_hex64 (br_contract_digest r), ValidationError ''contract_digest''),
      (\<not> is_hex64 (br_action_plan_digest r), ValidationError ''action_plan_digest''),
      (\<not> is_version3 (br_driver_version r), ValidationError ''driver_version''),
      (br_browser r \<notin> {''chromium'', ''firefox'', ''webkit''}, ValidationError ''browser''),
      (br_browser_version r = [], ValidationError ''browser_version''),
      (br_outcome r \<notin> {''pass'', ''fail''}, ValidationError ''outcome''),
      (page_count r < 0, ValidationError ''page_count''),
      (\<not> is_hex64 (br_receipt_digest r), ValidationError ''receipt_digest''),
      (pass \<and> br_error r \<noteq> None, ValidationError ''passing browser receipt must not contain an error''),
      (pass \<and> \<not> list_all snd (br_assertions r),
        ValidationError ''passing browser receipt contains a failed assertion''),
      (pass \<and> \<not> list_all snd (br_policy_checks r),
        ValidationError ''passing browser receipt contains a failed policy check''),
      (pass \<and> violations r \<noteq> [], ValidationError ''passing browser receipt contains policy violations''),
      (\<not> distinct (map ba_path (artifacts r)),
        ValidationError ''browser receipt contains duplicate artifact paths''),
      (br_receipt_digest r \<noteq> canonical_digest (JObj (browser_receipt_payload r)),
        ValidationError ''browser receipt digest does not match payload'')])"

definition validate_browser_receipt :: "browser_receipt \<Rightarrow> browser_receipt res" where
  "validate_browser_receipt r =
     rbind (traverse validate_event (br_events r)) (\<lambda>_.
     rbind (traverse validate_artifact (artifacts r)) (\<lambda>_.
       guards (browser_receipt_guards r) r))"

text \<open>
  \<open>parse_browser_receipt\<close>: exactly one line of canonical JSON. The decoding of the parsed value into
  the typed fields of the receipt (pydantic's coercions) is the argument \<open>decode\<close>.
\<close>

definition one_line :: "string \<Rightarrow> string res" where
  "one_line stdout =
     (let raw = (if ends_with stdout [CHR 0x0A] then butlast stdout else stdout)
      in if raw = [] \<or> CHR 0x0A \<in> set raw
         then Inl (BrowserContractError ''browser runner must emit exactly one JSON line'')
         else Inr raw)"

definition parse_browser_receipt ::
  "(json \<Rightarrow> browser_receipt res) \<Rightarrow> string \<Rightarrow> browser_receipt res" where
  "parse_browser_receipt decode stdout =
     rbind (one_line stdout) (\<lambda>raw.
     case loads raw of
       None \<Rightarrow> Inl (BrowserContractError ''browser runner output is not JSON'')
     | Some parsed \<Rightarrow>
         rbind (decode parsed) (\<lambda>typed.
         rbind (validate_browser_receipt typed) (\<lambda>receipt.
           if raw \<noteq> dumps (JObj (browser_receipt_obj receipt))
           then Inl (BrowserContractError ''browser receipt must use canonical JSON'')
           else Inr receipt)))"

section \<open>Facts\<close>

lemma validate_browser_receipt_Inr:
  "validate_browser_receipt r = Inr r' \<Longrightarrow> r' = r \<and> list_all (\<lambda>g. \<not> fst g) (browser_receipt_guards r)
     \<and> (\<exists>as. traverse validate_artifact (artifacts r) = Inr as)"
  by (auto simp: validate_browser_receipt_def rbind_Inr_iff guard_simps)

lemma parse_browser_receipt_Inr:
  assumes "parse_browser_receipt decode stdout = Inr r"
  shows "list_all (\<lambda>g. \<not> fst g) (browser_receipt_guards r)"
    and "stdout \<in> {dumps (JObj (browser_receipt_obj r)), dumps (JObj (browser_receipt_obj r)) @ [CHR 0x0A]}"
proof -
  from assms obtain raw p where raw: "one_line stdout = Inr raw"
    and v: "validate_browser_receipt p = Inr r" and eq: "raw = dumps (JObj (browser_receipt_obj r))"
    by (auto simp: parse_browser_receipt_def rbind_Inr_iff split: if_splits option.splits)
  from v have "r = p" using validate_browser_receipt_Inr by blast
  with v show "list_all (\<lambda>g. \<not> fst g) (browser_receipt_guards r)"
    using validate_browser_receipt_Inr by blast
  show "stdout \<in> {dumps (JObj (browser_receipt_obj r)), dumps (JObj (browser_receipt_obj r)) @ [CHR 0x0A]}"
  proof (cases "ends_with stdout [CHR 0x0A]")
    case True
    then have "stdout \<noteq> []" and "last stdout = CHR 0x0A"
      by (auto simp: ends_with_def) (metis One_nat_def last_snoc append_take_drop_id)
    then have "stdout = butlast stdout @ [CHR 0x0A]" by (metis append_butlast_last_id)
    with raw eq True show ?thesis by (auto simp: one_line_def Let_def split: if_splits)
  next
    case False
    with raw eq show ?thesis by (auto simp: one_line_def Let_def split: if_splits)
  qed
qed

lemma validate_browser_contract_Inr:
  "validate_browser_contract c = Inr c' \<Longrightarrow> c' = c
     \<and> traverse normalize_origin (allowed_origins c) = Inr (allowed_origins c)
     \<and> (\<exists>ys. traverse (origin_check (allowed_origins c)) (actions c) = Inr ys)"
  by (auto simp: validate_browser_contract_def rbind_Inr_iff guard_simps simp del: guards.simps)

lemma build_browser_config_Inr:
  assumes "build_browser_runner_config rid c = Inr cfg"
  shows "bcfg_contract cfg = c \<and> bcfg_run_id cfg = rid \<and> validate_browser_contract c = Inr c"
proof -
  from assms obtain v where v: "validate_browser_contract c = Inr v"
    and cfg: "bcfg_contract cfg = c" "bcfg_run_id cfg = rid"
    by (auto simp: build_browser_runner_config_def Let_def validate_browser_config_def
        rbind_Inr_iff guard_simps simp del: guards.simps)
  with validate_browser_contract_Inr [OF v] show ?thesis by simp
qed

text \<open>A valid contract only visits allowed origins.\<close>

lemma valid_contract_origins:
  assumes "validate_browser_contract c = Inr c'" and "GotoAction url w \<in> set (actions c)"
  shows "\<exists>og \<in> set (allowed_origins c). normalize_origin url = Inr og"
proof -
  from validate_browser_contract_Inr [OF assms(1)]
  obtain ys where tr: "traverse (origin_check (allowed_origins c)) (actions c) = Inr ys" by blast
  have "\<And>ys. \<lbrakk>traverse (origin_check al) xs = Inr ys; GotoAction url w \<in> set xs\<rbrakk> \<Longrightarrow>
      \<exists>og \<in> set al. normalize_origin url = Inr og" for al xs
    by (induction xs) (auto simp: rbind_Inr_iff split: if_splits)
  with tr assms(2) show ?thesis by blast
qed

end
