(* ===== verification/HarnessContract.thy ===== *)
theory HarnessContract
  imports Evidence CodingContract BrowserContract
begin

text \<open>
  \<open>harness_contract.py\<close>: the harness manifest and its nested contracts, the execution plan and the
  verdict, each with its \<open>model_dump(mode="json")\<close> and its validation.
\<close>

section \<open>Enumerations\<close>

datatype harness_domain = DCoding | DBrowser | DAndroid | DDesktop | DSre | DDocuments | DVoice
  | DRobotics | DCustom

fun domain_value :: "harness_domain \<Rightarrow> string" where
  "domain_value DCoding = ''coding''"
| "domain_value DBrowser = ''browser''"
| "domain_value DAndroid = ''android''"
| "domain_value DDesktop = ''desktop''"
| "domain_value DSre = ''sre''"
| "domain_value DDocuments = ''documents''"
| "domain_value DVoice = ''voice''"
| "domain_value DRobotics = ''robotics''"
| "domain_value DCustom = ''custom''"

datatype runtime_capability = CapIsolation | CapNetworkDeny | CapL7Policy | CapFilesystemPolicy
  | CapBrokeredSecrets | CapProcessTelemetry | CapNetworkTelemetry | CapSnapshotRestore
  | CapPersistentFilesystem | CapGpu | CapStdinStream

fun capability_value :: "runtime_capability \<Rightarrow> string" where
  "capability_value CapIsolation = ''kernel_or_vm_isolation''"
| "capability_value CapNetworkDeny = ''network_deny_by_default''"
| "capability_value CapL7Policy = ''l7_http_policy''"
| "capability_value CapFilesystemPolicy = ''filesystem_policy''"
| "capability_value CapBrokeredSecrets = ''brokered_secrets''"
| "capability_value CapProcessTelemetry = ''process_telemetry''"
| "capability_value CapNetworkTelemetry = ''network_telemetry''"
| "capability_value CapSnapshotRestore = ''snapshot_restore''"
| "capability_value CapPersistentFilesystem = ''persistent_filesystem''"
| "capability_value CapGpu = ''gpu''"
| "capability_value CapStdinStream = ''stdin_stream''"

datatype evidence_kind = KExitCode | KStdout | KStderr | KCommands | KProcesses | KNetwork
  | KFilesystemBefore | KFilesystemAfter | KInference | KAssertions | KFindings | KRuntimeMetadata
  | KPolicy | KOcsfEvents | KCodingReceipt | KAgentEvents | KWorkspaceDiff | KTestResults
  | KBrowserReceipt | KBrowserEvents | KDomSnapshot | KAccessibilitySnapshot | KNetworkTrace
  | KScreenshots | KDownloads | KBrowserAssertions

fun kind_value :: "evidence_kind \<Rightarrow> string" where
  "kind_value KExitCode = ''exit_code''"
| "kind_value KStdout = ''stdout''"
| "kind_value KStderr = ''stderr''"
| "kind_value KCommands = ''commands''"
| "kind_value KProcesses = ''processes''"
| "kind_value KNetwork = ''network''"
| "kind_value KFilesystemBefore = ''filesystem_before''"
| "kind_value KFilesystemAfter = ''filesystem_after''"
| "kind_value KInference = ''inference''"
| "kind_value KAssertions = ''assertions''"
| "kind_value KFindings = ''findings''"
| "kind_value KRuntimeMetadata = ''runtime_metadata''"
| "kind_value KPolicy = ''policy''"
| "kind_value KOcsfEvents = ''ocsf_events''"
| "kind_value KCodingReceipt = ''coding_receipt''"
| "kind_value KAgentEvents = ''agent_events''"
| "kind_value KWorkspaceDiff = ''workspace_diff''"
| "kind_value KTestResults = ''test_results''"
| "kind_value KBrowserReceipt = ''browser_receipt''"
| "kind_value KBrowserEvents = ''browser_events''"
| "kind_value KDomSnapshot = ''dom_snapshot''"
| "kind_value KAccessibilitySnapshot = ''accessibility_snapshot''"
| "kind_value KNetworkTrace = ''network_trace''"
| "kind_value KScreenshots = ''screenshots''"
| "kind_value KDownloads = ''downloads''"
| "kind_value KBrowserAssertions = ''browser_assertions''"

definition reserved_check_ids :: "string list" where
  "reserved_check_ids = [''provenance-continuity'', ''runtime-continuity'', ''command-continuity'',
     ''input-continuity'', ''security-gate'']"

definition reserved_check_prefixes :: "string list" where
  "reserved_check_prefixes = [''evidence:'', ''domain:'']"

definition reserved_id :: "string \<Rightarrow> bool" where
  "reserved_id i \<longleftrightarrow> i \<in> set reserved_check_ids \<or> list_ex (starts_with i) reserved_check_prefixes"

definition coding_agent_evidence :: "string list" where
  "coding_agent_evidence = [''exit_code'', ''stdout'', ''stderr'', ''commands'', ''assertions'',
     ''runtime_metadata'', ''coding_receipt'', ''agent_events'', ''workspace_diff'', ''test_results'']"

definition browser_evidence :: "string list" where
  "browser_evidence = [''exit_code'', ''stdout'', ''stderr'', ''commands'', ''network'', ''assertions'',
     ''runtime_metadata'', ''browser_receipt'', ''browser_events'', ''dom_snapshot'',
     ''accessibility_snapshot'', ''network_trace'', ''screenshots'', ''downloads'',
     ''browser_assertions'']"

section \<open>Verifiers\<close>

datatype verifier_spec =
    ExitCodeZeroVerifier (check_id: string)
  | AssertionTrueVerifier (check_id: string) string
  | StdoutContainsVerifier (check_id: string) string
  | StderrEmptyVerifier (check_id: string)
  | EvidencePresentVerifier (check_id: string) evidence_kind

fun verifier_kind :: "verifier_spec \<Rightarrow> string" where
  "verifier_kind (ExitCodeZeroVerifier _) = ''exit_code_zero''"
| "verifier_kind (AssertionTrueVerifier _ _) = ''assertion_true''"
| "verifier_kind (StdoutContainsVerifier _ _) = ''stdout_contains''"
| "verifier_kind (StderrEmptyVerifier _) = ''stderr_empty''"
| "verifier_kind (EvidencePresentVerifier _ _) = ''evidence_present''"

fun verifier_json :: "verifier_spec \<Rightarrow> json" where
  "verifier_json (ExitCodeZeroVerifier i) = JObj [(''id'', JStr i), (''kind'', JStr ''exit_code_zero'')]"
| "verifier_json (AssertionTrueVerifier i a) = JObj [(''id'', JStr i),
     (''kind'', JStr ''assertion_true''), (''assertion'', JStr a)]"
| "verifier_json (StdoutContainsVerifier i v) = JObj [(''id'', JStr i),
     (''kind'', JStr ''stdout_contains''), (''value'', JStr v)]"
| "verifier_json (StderrEmptyVerifier i) = JObj [(''id'', JStr i), (''kind'', JStr ''stderr_empty'')]"
| "verifier_json (EvidencePresentVerifier i k) = JObj [(''id'', JStr i),
     (''kind'', JStr ''evidence_present''), (''evidence'', JStr (kind_value k))]"

fun verifier_evidence :: "verifier_spec \<Rightarrow> evidence_kind" where
  "verifier_evidence (ExitCodeZeroVerifier _) = KExitCode"
| "verifier_evidence (AssertionTrueVerifier _ _) = KAssertions"
| "verifier_evidence (StdoutContainsVerifier _ _) = KStdout"
| "verifier_evidence (StderrEmptyVerifier _) = KStderr"
| "verifier_evidence (EvidencePresentVerifier _ k) = k"

fun verifier_guards :: "verifier_spec \<Rightarrow> (bool \<times> exn) list" where
  "verifier_guards (AssertionTrueVerifier i a) = [(i = [], ValidationError ''id''),
     (a = [], ValidationError ''assertion'')]"
| "verifier_guards (StdoutContainsVerifier i v) = [(i = [], ValidationError ''id''),
     (v = [], ValidationError ''value'')]"
| "verifier_guards v = [(check_id v = [], ValidationError ''id'')]"

definition validate_verifier :: "verifier_spec \<Rightarrow> verifier_spec res" where
  "validate_verifier v = guards (verifier_guards v) v"

section \<open>The manifest\<close>

record harness_identity =
  hi_id :: string
  hi_version :: string
  hi_domain :: harness_domain
  hi_description :: string

definition identity_json :: "harness_identity \<Rightarrow> json" where
  "identity_json i = JObj [(''id'', JStr (hi_id i)), (''version'', JStr (hi_version i)),
     (''domain'', JStr (domain_value (hi_domain i))), (''description'', JStr (hi_description i))]"

definition lower_alnum :: "char \<Rightarrow> bool" where
  "lower_alnum c \<longleftrightarrow> is_digit_char c \<or> (CHR ''a'' \<le> c \<and> c \<le> CHR ''z'')"

definition is_identity_id :: "string \<Rightarrow> bool" where
  "is_identity_id s \<longleftrightarrow> s \<noteq> [] \<and> lower_alnum (hd s)
     \<and> list_all (\<lambda>c. lower_alnum c \<or> c \<in> set ''._-'') s"

definition validate_identity :: "harness_identity \<Rightarrow> harness_identity res" where
  "validate_identity i = guards [(\<not> is_identity_id (hi_id i), ValidationError ''id''),
     (hi_version i = [], ValidationError ''version'')] i"

record licensing_contract =
  lic_code :: string
  lic_models :: "string list"
  lic_datasets :: "string list"
  lic_dependencies :: "string list"

definition licensing_json :: "licensing_contract \<Rightarrow> json" where
  "licensing_json l = JObj [(''code'', JStr (lic_code l)), (''models'', strs (lic_models l)),
     (''datasets'', strs (lic_datasets l)), (''dependencies'', strs (lic_dependencies l))]"

definition validate_licensing :: "licensing_contract \<Rightarrow> licensing_contract res" where
  "validate_licensing l = guards [(lic_code l = [], ValidationError ''code'')] l"

record environment_contract =
  allowed_runtimes :: "runtime_backend list"
  required_capabilities :: "runtime_capability list"
  env_filesystem :: string

definition environment_json :: "environment_contract \<Rightarrow> json" where
  "environment_json e = JObj [(''allowed_runtimes'', strs (map backend_value (allowed_runtimes e))),
     (''required_capabilities'', strs (map capability_value (required_capabilities e))),
     (''network'', JStr ''deny-by-default''), (''filesystem'', JStr (env_filesystem e)),
     (''secrets'', JStr ''brokered'')]"

definition validate_environment :: "environment_contract \<Rightarrow> environment_contract res" where
  "validate_environment e = guards
     [(allowed_runtimes e = [], ValidationError ''allowed_runtimes''),
      (env_filesystem e \<notin> {''ephemeral'', ''persistent'', ''workspace-only''},
        ValidationError ''filesystem''),
      (\<not> distinct (allowed_runtimes e), ValidationError ''allowed_runtimes must not contain duplicates''),
      (\<not> distinct (required_capabilities e),
        ValidationError ''required_capabilities must not contain duplicates'')] e"

record interface_contract =
  action_schema :: string
  observation_schema :: string
  protocols :: "string list"

definition interface_json :: "interface_contract \<Rightarrow> json" where
  "interface_json i = JObj [(''action_schema'', JStr (action_schema i)),
     (''observation_schema'', JStr (observation_schema i)), (''protocols'', strs (protocols i))]"

definition validate_interface :: "interface_contract \<Rightarrow> interface_contract res" where
  "validate_interface i = guards
     [(\<not> distinct (protocols i), ValidationError ''interfaces.protocols must not contain duplicates'')] i"

record execution_contract =
  adapter_name :: string
  command :: "string list"

definition execution_json :: "execution_contract \<Rightarrow> json" where
  "execution_json e = JObj [(''adapter'', JStr (adapter_name e)), (''command'', strs (command e))]"

definition validate_execution :: "execution_contract \<Rightarrow> execution_contract res" where
  "validate_execution e = guards
     [(adapter_name e = [], ValidationError ''adapter''), (command e = [], ValidationError ''command''),
      ([] \<in> set (command e),
        ValidationError ''execution.command must contain non-empty argv strings'')] e"

record evidence_contract =
  capture :: "evidence_kind list"
  required :: "evidence_kind list"

definition evidence_contract_json :: "evidence_contract \<Rightarrow> json" where
  "evidence_contract_json e = JObj [(''capture'', strs (map kind_value (capture e))),
     (''required'', strs (map kind_value (required e)))]"

definition validate_evidence_contract :: "evidence_contract \<Rightarrow> evidence_contract res" where
  "validate_evidence_contract e = guards
     [(capture e = [], ValidationError ''capture''), (required e = [], ValidationError ''required''),
      (\<not> distinct (capture e), ValidationError ''evidence.capture must not contain duplicates''),
      (\<not> distinct (required e), ValidationError ''evidence.required must not contain duplicates''),
      (\<not> set (required e) \<subseteq> set (capture e),
        ValidationError (''required evidence is not declared for capture: '' @ join '', ''
          (sort (map kind_value (filter (\<lambda>k. k \<notin> set (capture e)) (remdups (required e)))))))] e"

text \<open>\<open>VerificationContract\<close> has its security gate fixed; its state is the list of checks.\<close>

definition verification_json :: "verifier_spec list \<Rightarrow> json" where
  "verification_json checks = JObj [(''security_gate'', JStr ''fail-on-high-or-critical''),
     (''checks'', JArr (map verifier_json checks))]"

definition validate_verification :: "verifier_spec list \<Rightarrow> verifier_spec list res" where
  "validate_verification checks = rbind (traverse validate_verifier checks) (\<lambda>_.
     (let ids = map check_id checks; reserved = filter reserved_id ids in guards
       [(checks = [], ValidationError ''checks''),
        (\<not> distinct ids, ValidationError ''verification check ids must be unique''),
        (reserved \<noteq> [], ValidationError (''verification check ids use reserved kernel identifiers: ''
           @ join '', '' (sort reserved)))] checks))"

record budget_contract =
  b_timeout_seconds :: int
  b_max_model_calls :: int
  b_max_output_tokens :: int
  b_max_network_requests :: int

definition budget_json :: "budget_contract \<Rightarrow> json" where
  "budget_json b = JObj [(''timeout_seconds'', JInt (b_timeout_seconds b)),
     (''max_model_calls'', JInt (b_max_model_calls b)),
     (''max_output_tokens'', JInt (b_max_output_tokens b)),
     (''max_network_requests'', JInt (b_max_network_requests b))]"

definition validate_budget :: "budget_contract \<Rightarrow> budget_contract res" where
  "validate_budget b = guards
     [(b_timeout_seconds b < 1, ValidationError ''timeout_seconds''),
      (b_max_model_calls b < 0, ValidationError ''max_model_calls''),
      (b_max_output_tokens b < 0, ValidationError ''max_output_tokens''),
      (b_max_network_requests b < 0, ValidationError ''max_network_requests'')] b"

record replay_contract =
  supported :: bool
  snapshot_required :: bool

definition replay_json :: "replay_contract \<Rightarrow> json" where
  "replay_json r = JObj [(''supported'', JBool (supported r)),
     (''snapshot_required'', JBool (snapshot_required r))]"

definition validate_replay :: "replay_contract \<Rightarrow> replay_contract res" where
  "validate_replay r = guards [(snapshot_required r \<and> \<not> supported r,
     ValidationError ''snapshot_required=true requires replay.supported=true'')] r"

record harness_manifest =
  hm_identity :: harness_identity
  hm_licensing :: licensing_contract
  hm_environment :: environment_contract
  hm_interfaces :: interface_contract
  hm_execution :: execution_contract
  hm_coding :: "coding_contract option"
  hm_browser :: "browser_contract option"
  hm_evidence :: evidence_contract
  hm_checks :: "verifier_spec list"
  hm_budgets :: budget_contract
  hm_replay :: replay_contract
  hm_failure_taxonomy :: "string list"

definition opt_json :: "('a \<Rightarrow> json) \<Rightarrow> 'a option \<Rightarrow> json" where
  "opt_json f x = (case x of None \<Rightarrow> JNull | Some y \<Rightarrow> f y)"

definition manifest_json :: "harness_manifest \<Rightarrow> json" where
  "manifest_json m = JObj [(''schema_version'', JStr ''1.0''),
     (''identity'', identity_json (hm_identity m)), (''licensing'', licensing_json (hm_licensing m)),
     (''environment'', environment_json (hm_environment m)),
     (''interfaces'', interface_json (hm_interfaces m)),
     (''execution'', execution_json (hm_execution m)),
     (''coding'', opt_json contract_json (hm_coding m)),
     (''browser'', opt_json browser_contract_json (hm_browser m)),
     (''evidence'', evidence_contract_json (hm_evidence m)),
     (''verification'', verification_json (hm_checks m)),
     (''budgets'', budget_json (hm_budgets m)), (''replay'', replay_json (hm_replay m)),
     (''failure_taxonomy'', strs (hm_failure_taxonomy m))]"

definition missing_evidence :: "string list \<Rightarrow> harness_manifest \<Rightarrow> string list" where
  "missing_evidence mandatory m =
     sort (filter (\<lambda>k. k \<notin> set (map kind_value (required (hm_evidence m)))) mandatory)"

definition unmet_check :: "harness_manifest \<Rightarrow> verifier_spec \<Rightarrow> bool" where
  "unmet_check m v \<longleftrightarrow> verifier_evidence v \<notin> set (required (hm_evidence m))"

definition manifest_guards :: "harness_manifest \<Rightarrow> (bool \<times> exn) list" where
  "manifest_guards m =
     (let a = adapter_name (hm_execution m); dom = hi_domain (hm_identity m);
          coding = a = ''coding.agent.v1''; brow = a = ''browser.playwright.v1'' in
     [(coding \<and> dom \<noteq> DCoding, ValidationError ''coding.agent.v1 requires identity.domain=coding''),
      (coding \<and> hm_coding m = None, ValidationError ''coding.agent.v1 requires a coding contract''),
      (coding \<and> missing_evidence coding_agent_evidence m \<noteq> [],
        ValidationError (''coding.agent.v1 requires mandatory coding evidence: ''
          @ join '', '' (missing_evidence coding_agent_evidence m))),
      (\<not> coding \<and> hm_coding m \<noteq> None,
        ValidationError ''coding contract is only valid with execution.adapter=coding.agent.v1''),
      (brow \<and> dom \<noteq> DBrowser, ValidationError ''browser.playwright.v1 requires identity.domain=browser''),
      (brow \<and> hm_browser m = None, ValidationError ''browser.playwright.v1 requires a browser contract''),
      (brow \<and> missing_evidence browser_evidence m \<noteq> [],
        ValidationError (''browser.playwright.v1 requires mandatory browser evidence: ''
          @ join '', '' (missing_evidence browser_evidence m))),
      (\<not> brow \<and> hm_browser m \<noteq> None,
        ValidationError ''browser contract is only valid with execution.adapter=browser.playwright.v1''),
      (list_ex (unmet_check m) (hm_checks m),
        ValidationError ''verifier depends on evidence which must be mandatory evidence''),
      ([] \<in> set (hm_failure_taxonomy m), ValidationError ''failure_taxonomy entries must be non-empty''),
      (\<not> distinct (hm_failure_taxonomy m),
        ValidationError ''failure_taxonomy must not contain duplicates'')])"

definition validate_opt :: "('a \<Rightarrow> 'a res) \<Rightarrow> 'a option \<Rightarrow> 'a option res" where
  "validate_opt f x = (case x of None \<Rightarrow> Inr None | Some y \<Rightarrow> rbind (f y) (\<lambda>z. Inr (Some z)))"

definition validate_manifest :: "harness_manifest \<Rightarrow> harness_manifest res" where
  "validate_manifest m =
     rbind (validate_identity (hm_identity m)) (\<lambda>_.
     rbind (validate_licensing (hm_licensing m)) (\<lambda>_.
     rbind (validate_environment (hm_environment m)) (\<lambda>_.
     rbind (validate_interface (hm_interfaces m)) (\<lambda>_.
     rbind (validate_execution (hm_execution m)) (\<lambda>_.
     rbind (validate_opt validate_contract (hm_coding m)) (\<lambda>_.
     rbind (validate_opt validate_browser_contract (hm_browser m)) (\<lambda>_.
     rbind (validate_evidence_contract (hm_evidence m)) (\<lambda>_.
     rbind (validate_verification (hm_checks m)) (\<lambda>_.
     rbind (validate_budget (hm_budgets m)) (\<lambda>_.
     rbind (validate_replay (hm_replay m)) (\<lambda>_.
       guards (manifest_guards m) m)))))))))))"

section \<open>The plan\<close>

record harness_plan =
  hp_run_id :: string
  manifest_id :: string
  manifest_version :: string
  hp_manifest_digest :: string
  hp_provenance_digest :: string
  hp_domain :: harness_domain
  hp_adapter :: string
  hp_runtime_backend :: runtime_backend
  runtime_capabilities :: "bool dict"
  hp_run_spec :: run_spec
  hp_command :: "string list"
  hp_stdin_digest :: "string option"
  required_evidence :: "evidence_kind list"
  hp_checks :: "verifier_spec list"
  policy_digest :: string
  effective_limits :: limits
  hp_plan_digest :: string

definition plan_payload :: "harness_plan \<Rightarrow> json dict" where
  "plan_payload p = [(''schema_version'', JStr ''1.0''), (''run_id'', JStr (hp_run_id p)),
     (''manifest_id'', JStr (manifest_id p)), (''manifest_version'', JStr (manifest_version p)),
     (''manifest_digest'', JStr (hp_manifest_digest p)),
     (''provenance_digest'', JStr (hp_provenance_digest p)),
     (''domain'', JStr (domain_value (hp_domain p))), (''adapter'', JStr (hp_adapter p)),
     (''runtime_backend'', JStr (backend_value (hp_runtime_backend p))),
     (''runtime_capabilities'', bools (runtime_capabilities p)),
     (''run_spec'', run_spec_json (hp_run_spec p)), (''command'', strs (hp_command p)),
     (''stdin_digest'', opt_str (hp_stdin_digest p)),
     (''required_evidence'', strs (map kind_value (required_evidence p))),
     (''checks'', JArr (map verifier_json (hp_checks p))),
     (''policy_digest'', JStr (policy_digest p)),
     (''effective_limits'', limits_json (effective_limits p))]"

definition plan_json :: "harness_plan \<Rightarrow> json" where
  "plan_json p = JObj (plan_payload p @ [(''plan_digest'', JStr (hp_plan_digest p))])"

definition validate_plan :: "harness_plan \<Rightarrow> harness_plan res" where
  "validate_plan p = rbind (traverse validate_verifier (hp_checks p)) (\<lambda>_. guards
     [(\<not> is_hex64 (hp_manifest_digest p), ValidationError ''manifest_digest''),
      (\<not> is_hex64 (hp_provenance_digest p), ValidationError ''provenance_digest''),
      (\<not> opt_hex64 (hp_stdin_digest p), ValidationError ''stdin_digest''),
      (\<not> is_hex64 (policy_digest p), ValidationError ''policy_digest''),
      (\<not> is_hex64 (hp_plan_digest p), ValidationError ''plan_digest''),
      (spec_run_id (hp_run_spec p) \<noteq> hp_run_id p,
        ValidationError ''run_spec.run_id does not match plan run_id''),
      (provenance_digest (skill (hp_run_spec p)) \<noteq> Some (hp_provenance_digest p),
        ValidationError ''run_spec provenance digest does not match plan provenance digest''),
      (backend (runtime (hp_run_spec p)) \<noteq> hp_runtime_backend p,
        ValidationError ''run_spec runtime backend does not match plan runtime backend''),
      (canonical_digest (JObj (plan_payload p)) \<noteq> hp_plan_digest p,
        ValidationError ''plan digest does not match plan payload'')] p)"

section \<open>The verdict\<close>

record verification_result =
  vr_id :: string
  vr_kind :: string
  vr_passed :: bool
  vr_message :: string
  vr_details :: "json dict"
  vr_evidence_ids :: "string list"

definition result_json :: "verification_result \<Rightarrow> json" where
  "result_json r = JObj [(''id'', JStr (vr_id r)), (''kind'', JStr (vr_kind r)),
     (''passed'', JBool (vr_passed r)), (''message'', JStr (vr_message r)),
     (''details'', JObj (vr_details r)), (''evidence_ids'', strs (vr_evidence_ids r))]"

datatype verdict_status = VPass | VFail

fun status_value :: "verdict_status \<Rightarrow> string" where
  "status_value VPass = ''pass''"
| "status_value VFail = ''fail''"

record harness_verdict =
  hv_run_id :: string
  hv_manifest_digest :: string
  hv_provenance_digest :: string
  hv_plan_digest :: string
  hv_evidence_digest :: string
  hv_runtime_backend :: runtime_backend
  hv_status :: verdict_status
  hv_security_gate :: string
  hv_checks :: "verification_result list"
  failed_check_ids :: "string list"
  security_findings :: "json dict list"
  verdict_digest :: string

definition verdict_payload :: "harness_verdict \<Rightarrow> json dict" where
  "verdict_payload v = [(''schema_version'', JStr ''1.0''), (''run_id'', JStr (hv_run_id v)),
     (''manifest_digest'', JStr (hv_manifest_digest v)),
     (''provenance_digest'', JStr (hv_provenance_digest v)),
     (''plan_digest'', JStr (hv_plan_digest v)), (''evidence_digest'', JStr (hv_evidence_digest v)),
     (''runtime_backend'', JStr (backend_value (hv_runtime_backend v))),
     (''status'', JStr (status_value (hv_status v))), (''security_gate'', JStr (hv_security_gate v)),
     (''checks'', JArr (map result_json (hv_checks v))),
     (''failed_check_ids'', strs (failed_check_ids v)),
     (''security_findings'', objs (security_findings v))]"

definition verdict_json :: "harness_verdict \<Rightarrow> json" where
  "verdict_json v = JObj (verdict_payload v @ [(''verdict_digest'', JStr (verdict_digest v))])"

definition failed_ids :: "verification_result list \<Rightarrow> string list" where
  "failed_ids checks = map vr_id (filter (\<lambda>c. \<not> vr_passed c) checks)"

definition verdict_guards :: "harness_verdict \<Rightarrow> (bool \<times> exn) list" where
  "verdict_guards v =
     [(\<not> is_hex64 (hv_manifest_digest v), ValidationError ''manifest_digest''),
      (\<not> is_hex64 (hv_provenance_digest v), ValidationError ''provenance_digest''),
      (\<not> is_hex64 (hv_plan_digest v), ValidationError ''plan_digest''),
      (\<not> is_hex64 (hv_evidence_digest v), ValidationError ''evidence_digest''),
      (hv_security_gate v \<notin> {''pass'', ''fail''}, ValidationError ''security_gate''),
      (\<not> is_hex64 (verdict_digest v), ValidationError ''verdict_digest''),
      (failed_ids (hv_checks v) \<noteq> failed_check_ids v,
        ValidationError ''failed_check_ids do not match failed checks''),
      (hv_status v \<noteq> (if failed_ids (hv_checks v) \<noteq> [] then VFail else VPass),
        ValidationError ''verdict status does not match failed checks''),
      (hv_security_gate v = ''fail'' \<and> ''security-gate'' \<notin> set (failed_check_ids v),
        ValidationError ''failed security gate is missing from failed_check_ids''),
      (canonical_digest (JObj (verdict_payload v)) \<noteq> verdict_digest v,
        ValidationError ''verdict digest does not match verdict payload'')]"

definition validate_verdict :: "harness_verdict \<Rightarrow> harness_verdict res" where
  "validate_verdict v = guards (verdict_guards v) v"

record harness_run_result =
  rr_plan :: harness_plan
  rr_evidence :: evidence_bundle
  rr_verdict :: harness_verdict
  evidence_path :: "string option"
  verdict_path :: "string option"

end
