(* ===== verification/CodingAgent.thy ===== *)
theory CodingAgent
  imports CodingContract JsonParser
begin

text \<open>
  \<open>coding_agent.py\<close>: the trusted wrapper around one coding-agent execution. The operating system is
  a parameter: what running an argument vector shows of the process (\<open>process_observation\<close>) and
  what it leaves in the workspace. Everything the wrapper computes from that is modelled: the bounded
  capture of the streams, the process results, the parsed events, the snapshots and their digest, the
  workspace diff, the policy checks and the receipt.
\<close>

section \<open>Text of a byte stream\<close>

text \<open>
  \<open>bytes.decode("utf-8", errors="replace")\<close>; a character beyond the Latin-1 range, and the
  replacement character of malformed input, read as a question mark.
\<close>

definition is_cont :: "char \<Rightarrow> bool" where
  "is_cont c \<longleftrightarrow> (let n = (of_char c :: nat) in 128 \<le> n \<and> n < 192)"

fun utf8_decode :: "bytes \<Rightarrow> string" where
  "utf8_decode [] = []"
| "utf8_decode (b # bs) = (let n = (of_char b :: nat) in
     if n < 128 then b # utf8_decode bs
     else (case bs of
       c # bs' \<Rightarrow>
         if (n = 194 \<or> n = 195) \<and> is_cont c
         then char_of (64 * (n - 192) + (of_char c - 128)) # utf8_decode bs'
         else if 196 \<le> n \<and> n < 224 \<and> is_cont c then CHR ''?'' # utf8_decode bs'
         else (case bs' of
           d # bs'' \<Rightarrow>
             if 224 \<le> n \<and> n < 240 \<and> is_cont c \<and> is_cont d then CHR ''?'' # utf8_decode bs''
             else (case bs'' of
               e # bs3 \<Rightarrow>
                 if 240 \<le> n \<and> n < 245 \<and> is_cont c \<and> is_cont d \<and> is_cont e
                 then CHR ''?'' # utf8_decode bs3
                 else CHR ''?'' # utf8_decode bs
             | [] \<Rightarrow> CHR ''?'' # utf8_decode bs)
         | [] \<Rightarrow> CHR ''?'' # utf8_decode bs)
     | [] \<Rightarrow> ''?''))"

section \<open>Bounded capture of a stream\<close>

record stream_accumulator =
  hashed :: bytes
  captured :: bytes
  total_bytes :: nat
  stream_error :: "string option"

definition new_accumulator :: stream_accumulator where
  "new_accumulator = \<lparr>hashed = [], captured = [], total_bytes = 0, stream_error = None\<rparr>"

text \<open>One chunk of the read loop: everything is counted and hashed, a prefix is kept.\<close>

definition consume_chunk :: "nat \<Rightarrow> bytes \<Rightarrow> stream_accumulator \<Rightarrow> stream_accumulator" where
  "consume_chunk cap chunk acc =
     (let acc' = acc\<lparr>total_bytes := total_bytes acc + length chunk, hashed := hashed acc @ chunk\<rparr>
      in if length (captured acc') < cap
         then acc'\<lparr>captured := captured acc' @ take (cap - length (captured acc')) chunk\<rparr>
         else acc')"

definition consume :: "nat \<Rightarrow> bytes list \<Rightarrow> string option \<Rightarrow> stream_accumulator" where
  "consume cap pieces err = (fold (consume_chunk cap) pieces new_accumulator)\<lparr>stream_error := err\<rparr>"

definition stream_truncated :: "nat \<Rightarrow> stream_accumulator \<Rightarrow> bool" where
  "stream_truncated cap acc \<longleftrightarrow> cap < total_bytes acc"

text \<open>Text the wrapper writes itself into an empty stream (a launch or stream error).\<close>

definition write_message :: "nat \<Rightarrow> bytes \<Rightarrow> stream_accumulator \<Rightarrow> stream_accumulator" where
  "write_message cap m acc = acc\<lparr>total_bytes := length m, hashed := hashed acc @ m,
     captured := captured acc @ take cap m\<rparr>"

section \<open>Processes\<close>

text \<open>
  What the operating system shows of one process: whether it could be launched, the chunks read from
  its streams and the errors reading them, its exit code, whether it timed out, whether
  \<open>_terminate_process_tree\<close> and the stream threads ended, and its duration.
\<close>

record process_observation =
  launch_error :: "string option"
  out_chunks :: "bytes list"
  err_chunks :: "bytes list"
  out_error :: "string option"
  err_error :: "string option"
  in_error :: "string option"
  wait_exit :: int
  wait_timed_out :: bool
  tree_ended :: bool
  threads_ended :: bool
  elapsed_ms :: rat

record captured_process =
  cp_argv :: "string list"
  cp_exit :: int
  cp_stdout :: string
  cp_stderr :: string
  cp_stdout_digest :: string
  cp_stderr_digest :: string
  cp_stdout_bytes :: nat
  cp_stderr_bytes :: nat
  cp_truncated :: bool
  cp_timed_out :: bool
  cp_tree_terminated :: bool
  cp_duration :: rat

definition opt_list :: "'a option \<Rightarrow> 'a list" where
  "opt_list x = (case x of None \<Rightarrow> [] | Some y \<Rightarrow> [y])"

definition run_process :: "string list \<Rightarrow> bool \<Rightarrow> int \<Rightarrow> process_observation \<Rightarrow> captured_process" where
  "run_process argv has_input max_capture obs =
     (let cap = nat max_capture; started = (launch_error obs = None);
          out = (if started then consume cap (out_chunks obs) (out_error obs) else new_accumulator);
          err = (case launch_error obs of
                   None \<Rightarrow> consume cap (err_chunks obs) (err_error obs)
                 | Some m \<Rightarrow> write_message cap (utf8 m) new_accumulator);
          stream_errors = opt_list (stream_error out) @ opt_list (stream_error err)
            @ (if has_input \<and> started then opt_list (in_error obs) else []);
          tree = (if started then tree_ended obs \<and> threads_ended obs else True);
          err' = (if stream_errors \<noteq> [] \<and> total_bytes err = 0
                  then write_message cap (utf8 (join ''; '' stream_errors)) err else err)
      in \<lparr>cp_argv = argv, cp_exit = (if started then wait_exit obs else 127),
          cp_stdout = utf8_decode (captured out), cp_stderr = utf8_decode (captured err'),
          cp_stdout_digest = sha256 (hashed out), cp_stderr_digest = sha256 (hashed err'),
          cp_stdout_bytes = total_bytes out, cp_stderr_bytes = total_bytes err',
          cp_truncated = stream_truncated cap out \<or> stream_truncated cap err',
          cp_timed_out = started \<and> wait_timed_out obs,
          cp_tree_terminated = tree \<and> stream_errors = [], cp_duration = elapsed_ms obs\<rparr>)"

definition base_passed :: "captured_process \<Rightarrow> bool" where
  "base_passed c \<longleftrightarrow> cp_exit c = 0 \<and> \<not> cp_timed_out c \<and> \<not> cp_truncated c \<and> cp_tree_terminated c"

definition captured_result :: "captured_process \<Rightarrow> bool option \<Rightarrow> int \<Rightarrow> process_result res" where
  "captured_result c claim excerpt = validate_process
     \<lparr>pr_argv = cp_argv c, pr_argv_digest = canonical_digest (strs (cp_argv c)),
      pr_exit_code = cp_exit c, pr_stdout_digest = cp_stdout_digest c,
      pr_stderr_digest = cp_stderr_digest c, stdout_excerpt = take (nat excerpt) (cp_stdout c),
      stderr_excerpt = take (nat excerpt) (cp_stderr c), pr_stdout_bytes = int (cp_stdout_bytes c),
      pr_stderr_bytes = int (cp_stderr_bytes c), pr_output_truncated = cp_truncated c,
      pr_timed_out = cp_timed_out c, pr_tree_terminated = cp_tree_terminated c,
      pr_duration_ms = cp_duration c,
      passed = (case claim of None \<Rightarrow> base_passed c | Some p \<Rightarrow> p \<and> base_passed c)\<rparr>"

section \<open>Digests and the configuration\<close>

definition task_digest :: "string \<Rightarrow> string" where
  "task_digest t = text_digest t"

definition child_command_digest :: "string list \<Rightarrow> string" where
  "child_command_digest c = canonical_digest (strs c)"

definition contract_digest :: "coding_contract \<Rightarrow> string" where
  "contract_digest c = canonical_digest (contract_json c)"

definition config_json :: "runner_config \<Rightarrow> json" where
  "config_json c = JObj [(''schema_version'', JStr ''1.0''), (''run_id'', JStr (rc_run_id c)),
     (''task_digest'', JStr (rc_task_digest c)),
     (''child_command_digest'', JStr (rc_child_command_digest c)),
     (''contract_digest'', JStr (rc_contract_digest c)), (''contract'', contract_json (rc_contract c))]"

definition build_runner_config ::
  "string \<Rightarrow> string \<Rightarrow> string list \<Rightarrow> coding_contract \<Rightarrow> runner_config res" where
  "build_runner_config rid task child c = validate_config
     \<lparr>rc_run_id = rid, rc_task_digest = task_digest task,
      rc_child_command_digest = child_command_digest child,
      rc_contract_digest = contract_digest c, rc_contract = c\<rparr>"

text \<open>\<open>base64.urlsafe_b64encode\<close>, with the padding stripped as the wrapper does.\<close>

definition b64_digit :: "nat \<Rightarrow> char" where
  "b64_digit n = (''ABCDEFGHIJKLMNOPQRSTUVWXYZabcdefghijklmnopqrstuvwxyz0123456789-_'' ! n)"

fun b64_raw :: "bytes \<Rightarrow> string" where
  "b64_raw [] = []"
| "b64_raw [a] = (let n = of_char a * 16 in [b64_digit (n div 64), b64_digit (n mod 64)])"
| "b64_raw [a, b] = (let n = (of_char a * 256 + of_char b) * 4
     in [b64_digit (n div 4096), b64_digit (n div 64 mod 64), b64_digit (n mod 64)])"
| "b64_raw (a # b # c # r) = (let n = (of_char a * 256 + of_char b) * 256 + of_char c
     in b64_digit (n div 262144) # b64_digit (n div 4096 mod 64) # b64_digit (n div 64 mod 64)
        # b64_digit (n mod 64) # b64_raw r)"

text \<open>The serialiser \<open>model_dump_json\<close> is pydantic's: the argument \<open>dump_json\<close>.\<close>

definition encode_runner_config :: "(json \<Rightarrow> string) \<Rightarrow> runner_config \<Rightarrow> string" where
  "encode_runner_config dump_json c = b64_raw (utf8 (dump_json (config_json c)))"

text \<open>\<open>parse_coding_receipt\<close>; \<open>decode\<close> is pydantic's reading of the object into typed fields.\<close>

definition parse_coding_receipt ::
  "(json dict \<Rightarrow> agent_receipt res) \<Rightarrow> string \<Rightarrow> agent_receipt res" where
  "parse_coding_receipt decode value =
     (let stripped = strip value
      in if stripped = [] then Inl (ValueError ''coding runner did not emit a receipt'')
         else case loads stripped of
           None \<Rightarrow> Inl (ValueError ''coding runner stdout is not exactly one JSON receipt'')
         | Some (JObj d) \<Rightarrow> rbind (decode d) validate_receipt
         | Some _ \<Rightarrow> Inl (ValueError ''coding runner receipt must be a JSON object''))"

section \<open>Structured events\<close>

definition is_line_end :: "char \<Rightarrow> bool" where
  "is_line_end c \<longleftrightarrow> (let n = (of_char c :: nat) in (10 \<le> n \<and> n \<le> 13) \<or> (28 \<le> n \<and> n \<le> 30) \<or> n = 133)"

text \<open>\<open>str.splitlines()\<close>.\<close>

fun lines_acc :: "string \<Rightarrow> string \<Rightarrow> string list" where
  "lines_acc w [] = (if w = [] then [] else [rev w])"
| "lines_acc w (c # cs) =
     (if c = CHR 0x0D \<and> starts_with cs [CHR 0x0A] then rev w # lines_acc [] (tl cs)
      else if is_line_end c then rev w # lines_acc [] cs
      else lines_acc (c # w) cs)"

definition splitlines :: "string \<Rightarrow> string list" where
  "splitlines s = lines_acc [] s"

fun is_scalar :: "json \<Rightarrow> bool" where
  "is_scalar (JStr _) = True"
| "is_scalar (JInt _) = True"
| "is_scalar (JFloat _) = True"
| "is_scalar (JBool _) = True"
| "is_scalar _ = False"

definition event_keys :: "string list" where
  "event_keys = [''type'', ''kind'', ''status'', ''name'', ''id'', ''tool'', ''exit_code'']"

definition safe_event :: "nat \<Rightarrow> json dict \<Rightarrow> json dict" where
  "safe_event index event =
     [(''index'', JInt (int index)), (''event_digest'', JStr (canonical_digest (JObj event)))]
     @ map (\<lambda>k. (k, jget_null event k)) (filter (\<lambda>k. is_scalar (jget_null event k)) event_keys)"

record parsed_events =
  pe_events :: "json dict list"
  pe_count :: nat
  pe_valid :: bool
  pe_error :: "string option"

definition no_events :: "nat \<Rightarrow> bool \<Rightarrow> string option \<Rightarrow> parsed_events" where
  "no_events n ok e = \<lparr>pe_events = [], pe_count = n, pe_valid = ok, pe_error = e\<rparr>"

text \<open>The raw events: \<open>Inl\<close> the text that is not JSON.\<close>

fun load_lines :: "string list \<Rightarrow> string + json list" where
  "load_lines [] = Inr []"
| "load_lines (l # ls) = (case loads l of None \<Rightarrow> Inl l
     | Some v \<Rightarrow> (case load_lines ls of Inl e \<Rightarrow> Inl e | Inr vs \<Rightarrow> Inr (v # vs)))"

definition raw_events :: "output_format \<Rightarrow> string \<Rightarrow> string + json list" where
  "raw_events fmt out =
     (if fmt = Jsonl then load_lines (filter (\<lambda>l. strip l \<noteq> []) (splitlines out))
      else (case loads out of None \<Rightarrow> Inl out | Some (JArr xs) \<Rightarrow> Inr xs | Some v \<Rightarrow> Inr [v]))"

text \<open>\<open>json_error\<close> is the message of the \<open>JSONDecodeError\<close> for a text that is not JSON.\<close>

definition parse_events ::
  "(string \<Rightarrow> string) \<Rightarrow> string \<Rightarrow> output_format \<Rightarrow> bool \<Rightarrow> int \<Rightarrow> bool \<Rightarrow> parsed_events" where
  "parse_events json_error out fmt need max_ev truncated =
     (if truncated then no_events 0 False (Some ''agent output exceeded max_capture_bytes'')
      else if fmt = TextFormat then no_events 0 (\<not> need)
        (if need then Some ''structured events are required but output_format=text'' else None)
      else case raw_events fmt out of
        Inl l \<Rightarrow> no_events 0 False (Some (''invalid '' @ format_value fmt @ '' event stream: '' @ json_error l))
      | Inr vs \<Rightarrow>
          if vs = [] then no_events 0 (\<not> need) (if need then Some ''structured event stream is empty'' else None)
          else if \<not> list_all is_obj vs
          then no_events (length vs) False (Some ''structured event stream contains a non-object'')
          else if max_ev < int (length vs)
          then no_events (length vs) False (Some ''structured event count exceeds max_events'')
          else \<lparr>pe_events = map (\<lambda>(i, v). safe_event i (obj_items v)) (enumerate 0 vs),
                pe_count = length vs, pe_valid = True, pe_error = None\<rparr>)"

section \<open>Snapshots\<close>

text \<open>
  A workspace tree as \<open>os.walk\<close> sees it. A symbolic link carries its target and whether the target
  resolves outside the workspace (the operating system's answer).
\<close>

datatype fs_node =
    RegularFile bytes
  | SymbolicLink string bool
  | Directory "(string \<times> fs_node) list"
  | SpecialFile

record file_state =
  fs_kind :: string
  fs_sha256 :: string
  fs_size :: nat
  fs_target :: "string option"
  fs_unsafe :: bool

definition file_state_of :: "bytes \<Rightarrow> file_state" where
  "file_state_of b = \<lparr>fs_kind = ''file'', fs_sha256 = sha256 b, fs_size = length b,
     fs_target = None, fs_unsafe = False\<rparr>"

definition symlink_state :: "string \<Rightarrow> bool \<Rightarrow> file_state" where
  "symlink_state target unsafe = \<lparr>fs_kind = ''symlink'', fs_sha256 = sha256 (utf8 target),
     fs_size = length (utf8 target), fs_target = Some target, fs_unsafe = unsafe\<rparr>"

definition matches :: "string \<Rightarrow> string list \<Rightarrow> bool" where
  "matches path patterns \<longleftrightarrow> list_ex (fnmatchcase path) patterns"

definition child_path :: "string \<Rightarrow> string \<Rightarrow> string" where
  "child_path rel name = (if rel = [] then name else rel @ ''/'' @ name)"

fun walk :: "string list \<Rightarrow> string \<Rightarrow> fs_node \<Rightarrow> (string \<times> file_state) list" where
  "walk ignored rel (RegularFile b) = [(rel, file_state_of b)]"
| "walk ignored rel (SymbolicLink t unsafe) = [(rel, symlink_state t unsafe)]"
| "walk ignored rel SpecialFile = []"
| "walk ignored rel (Directory es) = concat (map (\<lambda>(name, node).
     if matches (child_path rel name) ignored then [] else walk ignored (child_path rel name) node) es)"

text \<open>
  \<open>_snapshot\<close>: a dictionary from relative paths to states. Its uses sort it, so the order in which
  the walk fills it is not observable.
\<close>

definition snapshot :: "(string \<times> fs_node) list \<Rightarrow> coding_contract \<Rightarrow> file_state dict" where
  "snapshot tree c = dict_update [] (walk (ignored_globs c) [] (Directory tree))"

definition state_json :: "file_state \<Rightarrow> json" where
  "state_json s = JObj [(''kind'', JStr (fs_kind s)), (''sha256'', JStr (fs_sha256 s)),
     (''size'', JInt (int (fs_size s))), (''symlink_target'', opt_str (fs_target s)),
     (''unsafe_symlink'', JBool (fs_unsafe s))]"

definition snapshot_digest :: "file_state dict \<Rightarrow> string" where
  "snapshot_digest s = canonical_digest (JObj (map (\<lambda>(p, v). (p, state_json v)) (sort_key fst s)))"

section \<open>Workspace diff\<close>

definition size_of :: "file_state option \<Rightarrow> int" where
  "size_of s = (case s of None \<Rightarrow> 0 | Some v \<Rightarrow> int (fs_size v))"

definition file_change_of ::
  "file_state dict \<Rightarrow> file_state dict \<Rightarrow> string \<Rightarrow> file_change" where
  "file_change_of before after p = (let b = map_of before p; a = map_of after p in
     \<lparr>fc_path = p,
      fc_status = (if b = None then ''added'' else if a = None then ''removed'' else ''modified''),
      before_kind = map_option fs_kind b, after_kind = map_option fs_kind a,
      before_sha256 = map_option fs_sha256 b, after_sha256 = map_option fs_sha256 a,
      before_size = size_of b, after_size = size_of a, bytes_changed = max (size_of b) (size_of a),
      fc_symlink_target = (case a of Some v \<Rightarrow> fs_target v | None \<Rightarrow> Option.bind b fs_target)\<rparr>)"

definition changed_paths_of :: "file_state dict \<Rightarrow> file_state dict \<Rightarrow> string list" where
  "changed_paths_of before after =
     filter (\<lambda>p. map_of before p \<noteq> map_of after p) (sorted_set (dict_keys before @ dict_keys after))"

definition diff_of :: "file_state dict \<Rightarrow> file_state dict \<Rightarrow> coding_contract \<Rightarrow> workspace_diff" where
  "diff_of before after c =
     (let changes = map (file_change_of before after) (changed_paths_of before after);
          paths = map fc_path changes;
          d = \<lparr>before_digest = snapshot_digest before, after_digest = snapshot_digest after,
               changes = changes, changed_files = int (length changes),
               changed_bytes = sum_list (map bytes_changed changes),
               disallowed_paths = sorted_set (filter (\<lambda>p. \<not> matches p (allowed_change_globs c)) paths),
               protected_paths = sorted_set (filter (\<lambda>p. matches p (protected_change_globs c)) paths),
               unsafe_symlinks = sorted_set (map fst (filter
                 (\<lambda>(p, s). fs_kind s = ''symlink'' \<and> fs_unsafe s) after)),
               diff_digest = []\<rparr>
      in d\<lparr>diff_digest := canonical_digest (JObj (diff_payload d))\<rparr>)"

definition build_workspace_diff ::
  "file_state dict \<Rightarrow> file_state dict \<Rightarrow> coding_contract \<Rightarrow> workspace_diff res" where
  "build_workspace_diff before after c = validate_diff (diff_of before after c)"

section \<open>The wrapper\<close>

text \<open>
  The operating system: running a process in a world gives its observation and the next world; a
  world shows the tree of the workspace; and the workspace directory either is a directory inside
  the runtime root or is not.
\<close>

record 'w runner_os =
  os_exec :: "string list \<Rightarrow> string option \<Rightarrow> int \<Rightarrow> 'w \<Rightarrow> process_observation \<times> 'w"
  os_tree :: "'w \<Rightarrow> (string \<times> fs_node) list"
  os_inside :: bool
  os_is_dir :: bool
  os_json_error :: "string \<Rightarrow> string"

fun run_tests :: "'w runner_os \<Rightarrow> coding_contract \<Rightarrow> string list list \<Rightarrow> 'w \<Rightarrow> process_result list res \<times> 'w" where
  "run_tests os c [] w = (Inr [], w)"
| "run_tests os c (t # ts) w =
     (let (obs, w1) = os_exec os t None (test_timeout_seconds c) w;
          r = captured_result (run_process t False (max_capture_bytes c) obs) None
                (max_output_excerpt_chars c)
      in case r of
           Inl e \<Rightarrow> (Inl e, w1)
         | Inr p \<Rightarrow> (let (rs, w2) = run_tests os c ts w1 in (rbind rs (\<lambda>ps. Inr (p # ps)), w2)))"

definition version_ok :: "coding_contract \<Rightarrow> captured_process \<Rightarrow> bool" where
  "version_ok c v \<longleftrightarrow> base_passed v
     \<and> contains (cp_stdout v @ [CHR 0x0A] @ cp_stderr v) (cc_driver_version c)"

text \<open>The receipt assembled from everything the wrapper observed.\<close>

definition all_checks ::
  "coding_contract \<Rightarrow> process_result \<Rightarrow> process_result \<Rightarrow> parsed_events \<Rightarrow> workspace_diff
    \<Rightarrow> process_result list \<Rightarrow> string \<Rightarrow> string \<Rightarrow> string \<Rightarrow> bool dict" where
  "all_checks c vp ap ev d tests base post_version post_test =
     [(''driver_version_verified'', passed vp),
      (''agent_exit_zero'', passed ap),
      (''structured_events_valid'', pe_valid ev),
      (''tests_passed'', list_all passed tests),
      (''allowed_changes'', disallowed_paths d = []),
      (''protected_paths_unchanged'', protected_paths d = []),
      (''changed_file_budget'', changed_files d \<le> max_changed_files c),
      (''changed_byte_budget'', changed_bytes d \<le> max_changed_bytes c),
      (''symlink_safe'', unsafe_symlinks d = []),
      (''output_within_limit'', \<not> pr_output_truncated vp \<and> \<not> pr_output_truncated ap
         \<and> list_all (\<lambda>t. \<not> pr_output_truncated t) tests),
      (''process_trees_terminated'', pr_tree_terminated vp \<and> pr_tree_terminated ap
         \<and> list_all pr_tree_terminated tests),
      (''version_probe_preserved_workspace'', base = post_version),
      (''tests_preserved_workspace'', after_digest d = post_test)]"

definition make_receipt ::
  "runner_config \<Rightarrow> process_result \<Rightarrow> process_result \<Rightarrow> parsed_events \<Rightarrow> workspace_diff
    \<Rightarrow> process_result list \<Rightarrow> string \<Rightarrow> string \<Rightarrow> string \<Rightarrow> agent_receipt" where
  "make_receipt cfg vp ap ev d tests base post_version post_test =
     (let c = rc_contract cfg;
          checks = all_checks c vp ap ev d tests base post_version post_test;
          r = \<lparr>rr_run_id = rc_run_id cfg, rr_driver = cc_driver c,
               rr_driver_version = cc_driver_version c, rr_task_digest = rc_task_digest cfg,
               rr_child_command_digest = rc_child_command_digest cfg,
               rr_contract_digest = rc_contract_digest cfg, baseline_workspace_digest = base,
               post_version_workspace_digest = post_version, version_probe = vp,
               agent_process = ap, structured_events_valid = pe_valid ev,
               raw_event_count = int (pe_count ev), event_parse_error = pe_error ev,
               rr_agent_events = pe_events ev, rr_workspace_diff = d,
               post_test_workspace_digest = post_test, rr_test_results = tests,
               policy_checks = checks,
               outcome = (if list_all snd checks then ''pass'' else ''fail''),
               receipt_digest = []\<rparr>
      in r\<lparr>receipt_digest := canonical_digest (JObj (receipt_payload r))\<rparr>)"

definition execute_guards ::
  "'w runner_os \<Rightarrow> runner_config \<Rightarrow> string list \<Rightarrow> string \<Rightarrow> (bool \<times> exn) list" where
  "execute_guards os cfg child task =
     [(bad_argv child, ValueError ''coding child command must contain non-empty argv strings''),
      (task_digest task \<noteq> rc_task_digest cfg,
        ValueError ''coding task digest does not match runner configuration''),
      (child_command_digest child \<noteq> rc_child_command_digest cfg,
        ValueError ''coding child command digest does not match runner configuration''),
      (contract_digest (rc_contract cfg) \<noteq> rc_contract_digest cfg,
        ValueError ''coding contract digest does not match runner configuration''),
      (max_task_bytes (rc_contract cfg) < int (length (utf8 task)),
        ValueError ''coding task exceeds max_task_bytes''),
      (\<not> os_inside os, ValueError ''coding workspace escapes the runtime working directory''),
      (\<not> os_is_dir os, ValueError ''coding workspace does not exist'')]"

definition execute_coding_agent ::
  "'w runner_os \<Rightarrow> runner_config \<Rightarrow> string list \<Rightarrow> string \<Rightarrow> 'w \<Rightarrow> agent_receipt res" where
  "execute_coding_agent os cfg child task w0 =
     rbind (guards (execute_guards os cfg child task) ()) (\<lambda>_.
     (let c = rc_contract cfg; cap = max_capture_bytes c;
          snap = (\<lambda>w. snapshot (os_tree os w) c);
          baseline = snapshot_digest (snap w0);
          (vobs, w1) = os_exec os (version_command c) None (version_timeout_seconds c) w0;
          vcap = run_process (version_command c) False cap vobs in
      rbind (captured_result vcap (Some (version_ok c vcap)) (max_output_excerpt_chars c)) (\<lambda>vp.
     (let post_version = snap w1;
          (aobs, w2) = os_exec os child (Some task) (agent_timeout_seconds c) w1;
          acap = run_process child True cap aobs in
      rbind (captured_result acap None
          (if capture_agent_output_excerpts c then max_output_excerpt_chars c else 0)) (\<lambda>ap.
     (let ev = parse_events (os_json_error os) (cp_stdout acap) (cc_output_format c)
                 (require_structured_events c) (cc_max_events c) (cp_truncated acap) in
      rbind (build_workspace_diff post_version (snap w2) c) (\<lambda>d.
     (let (tests, w3) = run_tests os c (test_commands c) w2 in
      rbind tests (\<lambda>ts.
        validate_receipt (make_receipt cfg vp ap ev d ts baseline (snapshot_digest post_version)
          (snapshot_digest (snap w3))))))))))))"


section \<open>Streams\<close>

lemma fold_consume_chunk:
  "fold (consume_chunk cap) pieces acc = acc\<lparr>hashed := hashed acc @ concat pieces,
     total_bytes := total_bytes acc + length (concat pieces),
     captured := captured acc @ take (cap - length (captured acc)) (concat pieces)\<rparr>"
proof (induction pieces arbitrary: acc)
  case (Cons x xs)
  then show ?case
    by (cases acc) (auto simp: consume_chunk_def Let_def min_def)
qed simp

text \<open>The capture keeps exactly the first bytes, counts and hashes all of them.\<close>

lemma consume_eq:
  "consume cap pieces err = \<lparr>hashed = concat pieces, captured = take cap (concat pieces),
     total_bytes = length (concat pieces), stream_error = err\<rparr>"
  by (simp add: consume_def fold_consume_chunk new_accumulator_def)

lemma truncated_iff: "stream_truncated cap (consume cap pieces err) \<longleftrightarrow>
    captured (consume cap pieces err) \<noteq> concat pieces"
  by (auto simp: stream_truncated_def consume_eq)

lemma utf8_decode_utf8: "utf8_decode (utf8 s) = s"
proof (induction s)
  case (Cons c s)
  have n: "(of_char c :: nat) < 256" by simp
  show ?case
  proof (cases "(of_char c :: nat) < 128")
    case True
    then show ?thesis using Cons.IH by (simp add: utf8_def utf8_char_def)
  next
    case False
    let ?n = "of_char c :: nat"
    have q: "?n div 64 = 2 \<or> ?n div 64 = 3" using False n by linarith
    have a: "(of_char (char_of (192 + ?n div 64) :: char) :: nat) = 192 + ?n div 64"
      using q by (auto simp: of_char_of take_bit_eq_mod)
    have m: "?n mod 64 < 64" by simp
    then have b: "(of_char (char_of (128 + ?n mod 64) :: char) :: nat) = 128 + ?n mod 64"
      by (simp add: of_char_of take_bit_eq_mod)
    have "char_of (64 * (192 + ?n div 64 - 192) + (128 + ?n mod 64 - 128)) = c" by simp
    then show ?thesis using Cons.IH False q a b m
      by (auto simp: utf8_def utf8_char_def is_cont_def Let_def)
  qed
qed (simp add: utf8_def)

section \<open>Process results\<close>

lemma run_process_simps [simp]:
  "cp_argv (run_process argv inp cap obs) = argv"
  "cp_duration (run_process argv inp cap obs) = elapsed_ms obs"
  "is_hex64 (cp_stdout_digest (run_process argv inp cap obs))"
  "is_hex64 (cp_stderr_digest (run_process argv inp cap obs))"
  by (simp_all add: run_process_def Let_def)

lemma captured_result_Inr:
  assumes "argv \<noteq> []" and "0 \<le> elapsed_ms obs"
  shows "\<exists>p. captured_result (run_process argv inp cap obs) claim ex = Inr p"
  using assms by (auto simp: captured_result_def validate_process_def process_invariant_def
      base_passed_def guard_simps split: option.splits)

lemma captured_result_facts:
  assumes "captured_result c claim ex = Inr p"
  shows "validate_process p = Inr p" and "pr_argv p = cp_argv c"
    and "passed p = (case claim of None \<Rightarrow> base_passed c | Some b \<Rightarrow> b \<and> base_passed c)"
    and "pr_tree_terminated p = cp_tree_terminated c" and "pr_output_truncated p = cp_truncated c"
proof -
  from assms have eq: "validate_process q = Inr p \<Longrightarrow> p = q \<and> validate_process q = Inr q" for q
    by (auto simp: validate_process_def guard_simps)
  from assms show "validate_process p = Inr p"
    unfolding captured_result_def using eq by blast
  from assms show "pr_argv p = cp_argv c"
    "passed p = (case claim of None \<Rightarrow> base_passed c | Some b \<Rightarrow> b \<and> base_passed c)"
    "pr_tree_terminated p = cp_tree_terminated c" "pr_output_truncated p = cp_truncated c"
    unfolding captured_result_def using eq by fastforce+
qed

section \<open>Snapshots and diffs\<close>

fun names_ok :: "fs_node \<Rightarrow> bool" where
  "names_ok (Directory es) = list_all (\<lambda>(n, x). n \<noteq> [] \<and> names_ok x) es"
| "names_ok _ = True"

definition state_ok :: "file_state \<Rightarrow> bool" where
  "state_ok s \<longleftrightarrow> is_hex64 (fs_sha256 s) \<and> fs_kind s \<in> {''file'', ''symlink''}"

definition snapshot_ok :: "file_state dict \<Rightarrow> bool" where
  "snapshot_ok s \<longleftrightarrow> (\<forall>(p, v) \<in> set s. p \<noteq> [] \<and> state_ok v)"

lemma child_path_nonempty: "n \<noteq> [] \<Longrightarrow> child_path rel n \<noteq> []"
  by (simp add: child_path_def)

lemma walk_ok: "\<lbrakk>names_ok node; rel \<noteq> [] \<or> (\<exists>es. node = Directory es)\<rbrakk> \<Longrightarrow>
    \<forall>(p, v) \<in> set (walk ig rel node). p \<noteq> [] \<and> state_ok v"
proof (induction ig rel node rule: walk.induct)
  case (4 ig rel es)
  show ?case
  proof (clarify)
    fix p v assume "(p, v) \<in> set (walk ig rel (Directory es))"
    then obtain n x where e: "(n, x) \<in> set es" "(p, v) \<in> set (walk ig (child_path rel n) x)"
      "\<not> matches (child_path rel n) ig"
      by (auto split: if_splits)
    with 4(2) have "names_ok x" "n \<noteq> []" by (auto simp: list_all_iff)
    with 4(1) [OF e(1) refl e(3)] e(2) child_path_nonempty show "p \<noteq> [] \<and> state_ok v" by blast
  qed
qed (auto simp: state_ok_def file_state_of_def symlink_state_def)

lemma set_dict_set: "set (dict_set k v d) \<subseteq> insert (k, v) (set d)"
  by (induction k v d rule: dict_set.induct) auto

lemma set_dict_update: "set (dict_update d kvs) \<subseteq> set d \<union> set kvs"
proof (induction kvs arbitrary: d)
  case (Cons kv kvs)
  have "dict_update d (kv # kvs) = dict_update (dict_set (fst kv) (snd kv) d) kvs"
    by (simp add: dict_update_def case_prod_unfold)
  with Cons.IH [of "dict_set (fst kv) (snd kv) d"] set_dict_set [of "fst kv" "snd kv" d]
  show ?case by auto
qed (simp add: dict_update_def)

lemma snapshot_is_ok: "names_ok (Directory tree) \<Longrightarrow> snapshot_ok (snapshot tree c)"
  using walk_ok [of "Directory tree" "[]" "ignored_globs c"]
    set_dict_update [of "[]" "walk (ignored_globs c) [] (Directory tree)"]
  unfolding snapshot_ok_def snapshot_def by fastforce

lemma is_hex64_snapshot_digest [simp]: "is_hex64 (snapshot_digest s)"
  by (simp add: snapshot_digest_def)

lemma snapshot_ok_map_of: "\<lbrakk>snapshot_ok s; map_of s p = Some v\<rbrakk> \<Longrightarrow> p \<noteq> [] \<and> state_ok v"
  using map_of_SomeD unfolding snapshot_ok_def by fastforce

lemma changed_paths_iff: "p \<in> set (changed_paths_of b a) \<longleftrightarrow> map_of b p \<noteq> map_of a p"
proof -
  have "map_of b p \<noteq> map_of a p \<Longrightarrow> p \<in> fst ` set b \<or> p \<in> fst ` set a"
    by (metis map_of_eq_None_iff)
  then show ?thesis by (auto simp: changed_paths_of_def dict_keys_def)
qed

lemma size_of_nonneg [simp]: "0 \<le> size_of s" "\<not> size_of s < 0"
  by (simp_all add: size_of_def split: option.splits)

lemma file_change_valid:
  assumes "snapshot_ok b" "snapshot_ok a" "map_of b p \<noteq> map_of a p"
  shows "validate_change (file_change_of b a p) = Inr (file_change_of b a p)"
proof -
  from assms have "p \<noteq> []"
    using snapshot_ok_map_of [OF assms(1)] snapshot_ok_map_of [OF assms(2)]
    by (metis option.exhaust)
  moreover have "state_ok v" if "map_of b p = Some v" for v
    using assms(1) that snapshot_ok_map_of by blast
  moreover have "state_ok v" if "map_of a p = Some v" for v
    using assms(2) that snapshot_ok_map_of by blast
  ultimately show ?thesis
    by (cases "map_of b p"; cases "map_of a p")
       (auto simp: validate_change_def file_change_of_def Let_def kind_ok_def state_ok_def
          guard_simps less_max_iff_disj max_less_iff_conj simp del: max.absorb1 max.absorb2)
qed

lemma fc_path_file_change [simp]: "fc_path (file_change_of b a p) = p"
  by (simp add: file_change_of_def Let_def)

lemma diff_of_simps [simp]:
  "changes (diff_of b a c) = map (file_change_of b a) (changed_paths_of b a)"
  "before_digest (diff_of b a c) = snapshot_digest b"
  "after_digest (diff_of b a c) = snapshot_digest a"
  "changed_files (diff_of b a c) = int (length (changed_paths_of b a))"
  "protected_paths (diff_of b a c)
     = sorted_set (filter (\<lambda>p. matches p (protected_change_globs c)) (changed_paths_of b a))"
  "disallowed_paths (diff_of b a c)
     = sorted_set (filter (\<lambda>p. \<not> matches p (allowed_change_globs c)) (changed_paths_of b a))"
  by (simp_all add: diff_of_def Let_def comp_def)

lemma build_diff_Inr:
  assumes "snapshot_ok b" "snapshot_ok a"
  shows "build_workspace_diff b a c = Inr (diff_of b a c)"
proof -
  have "traverse validate_change (changes (diff_of b a c)) = Inr (map (\<lambda>x. x) (changes (diff_of b a c)))"
    using file_change_valid [OF assms] changed_paths_iff by (intro traverse_all_Inr) auto
  moreover have "0 \<le> sum_list (map bytes_changed (changes (diff_of b a c)))"
    by (intro sum_list_nonneg) (auto simp: file_change_of_def Let_def le_max_iff_disj)
  ultimately show ?thesis
    by (simp add: build_workspace_diff_def validate_diff_def guard_simps del: diff_of_simps)
       (simp add: diff_of_def Let_def diff_payload_def comp_def)
qed

lemma sorted_changed_paths: "sorted (changed_paths_of b a) \<and> distinct (changed_paths_of b a)"
  by (simp add: changed_paths_of_def sorted_wrt_filter)


section \<open>Events\<close>

lemma parse_events_count:
  "pe_valid (parse_events je out fmt need m tr) \<Longrightarrow>
     pe_count (parse_events je out fmt need m tr) = length (pe_events (parse_events je out fmt need m tr))"
  by (auto simp: parse_events_def no_events_def split: sum.splits if_splits)

lemma parse_events_bound:
  "\<lbrakk>pe_valid (parse_events je out fmt need m tr); 0 \<le> m\<rbrakk> \<Longrightarrow>
     int (length (pe_events (parse_events je out fmt need m tr))) \<le> m"
  by (auto simp: parse_events_def no_events_def split: sum.splits if_splits)

section \<open>The wrapper returns a validated receipt\<close>

text \<open>What the operating system guarantees: durations are not negative and entries have names.\<close>

definition os_ok :: "'w runner_os \<Rightarrow> bool" where
  "os_ok os \<longleftrightarrow> (\<forall>argv inp t w. 0 \<le> elapsed_ms (fst (os_exec os argv inp t w)))
     \<and> (\<forall>w. names_ok (Directory (os_tree os w)))"

text \<open>The worlds after the version probe and after the agent.\<close>

definition version_world :: "'w runner_os \<Rightarrow> runner_config \<Rightarrow> 'w \<Rightarrow> 'w" where
  "version_world os cfg w = snd (os_exec os (version_command (rc_contract cfg)) None
     (version_timeout_seconds (rc_contract cfg)) w)"

definition agent_world :: "'w runner_os \<Rightarrow> runner_config \<Rightarrow> string list \<Rightarrow> string \<Rightarrow> 'w \<Rightarrow> 'w" where
  "agent_world os cfg child task w = snd (os_exec os child (Some task)
     (agent_timeout_seconds (rc_contract cfg)) (version_world os cfg w))"

definition version_capture :: "'w runner_os \<Rightarrow> runner_config \<Rightarrow> 'w \<Rightarrow> captured_process" where
  "version_capture os cfg w = run_process (version_command (rc_contract cfg)) False
     (max_capture_bytes (rc_contract cfg)) (fst (os_exec os (version_command (rc_contract cfg)) None
       (version_timeout_seconds (rc_contract cfg)) w))"

definition agent_capture ::
  "'w runner_os \<Rightarrow> runner_config \<Rightarrow> string list \<Rightarrow> string \<Rightarrow> 'w \<Rightarrow> captured_process" where
  "agent_capture os cfg child task w = run_process child True (max_capture_bytes (rc_contract cfg))
     (fst (os_exec os child (Some task) (agent_timeout_seconds (rc_contract cfg)) (version_world os cfg w)))"

definition agent_parsed ::
  "'w runner_os \<Rightarrow> runner_config \<Rightarrow> string list \<Rightarrow> string \<Rightarrow> 'w \<Rightarrow> parsed_events" where
  "agent_parsed os cfg child task w = (let c = rc_contract cfg; a = agent_capture os cfg child task w in
     parse_events (os_json_error os) (cp_stdout a) (cc_output_format c) (require_structured_events c)
       (cc_max_events c) (cp_truncated a))"

definition workspace_at :: "'w runner_os \<Rightarrow> runner_config \<Rightarrow> 'w \<Rightarrow> file_state dict" where
  "workspace_at os cfg w = snapshot (os_tree os w) (rc_contract cfg)"

lemma run_tests_facts:
  "run_tests os c ts w = (Inr ps, w') \<Longrightarrow>
     map pr_argv ps = ts \<and> (\<forall>p \<in> set ps. validate_process p = Inr p)"
proof (induction ts arbitrary: w ps w')
  case (Cons t ts)
  obtain obs w1 where e: "os_exec os t None (test_timeout_seconds c) w = (obs, w1)" by fastforce
  obtain rs w2 where rs: "run_tests os c ts w1 = (rs, w2)" by fastforce
  from Cons.prems e rs obtain p qs where p: "captured_result (run_process t False (max_capture_bytes c) obs)
      None (max_output_excerpt_chars c) = Inr p" and q: "rs = Inr qs" "ps = p # qs"
    by (auto simp: rbind_Inr_iff split: sum.splits)
  with Cons.IH [of w1 qs w2] rs captured_result_facts [OF p] show ?case by simp
qed simp

lemma run_tests_Inr:
  "\<lbrakk>os_ok os; list_all (\<lambda>t. t \<noteq> []) ts\<rbrakk> \<Longrightarrow> \<exists>ps w'. run_tests os c ts w = (Inr ps, w')"
proof (induction ts arbitrary: w)
  case (Cons t ts)
  obtain obs w1 where e: "os_exec os t None (test_timeout_seconds c) w = (obs, w1)" by fastforce
  with Cons.prems(1) have "0 \<le> elapsed_ms obs" unfolding os_ok_def by (metis fst_conv)
  with Cons.prems(2) obtain p where "captured_result (run_process t False (max_capture_bytes c) obs)
      None (max_output_excerpt_chars c) = Inr p"
    using captured_result_Inr by fastforce
  with e Cons.IH [of w1] Cons.prems show ?case by (fastforce simp: Let_def)
qed simp

lemma make_receipt_checks:
  "list_all (\<lambda>g. \<not> fst g) (receipt_guards (make_receipt cfg vp ap ev d ts base pv pt)) \<longleftrightarrow>
     rc_run_id cfg \<noteq> [] \<and> cc_driver_version (rc_contract cfg) \<noteq> [] \<and> is_hex64 (rc_task_digest cfg)
     \<and> is_hex64 (rc_child_command_digest cfg) \<and> is_hex64 (rc_contract_digest cfg) \<and> is_hex64 base
     \<and> is_hex64 pv \<and> is_hex64 pt \<and> ts \<noteq> [] \<and> (pe_valid ev \<longrightarrow> pe_count ev = length (pe_events ev))"
proof -
  let ?c = "all_checks (rc_contract cfg) vp ap ev d ts base pv pt"
  let ?r = "make_receipt cfg vp ap ev d ts base pv pt"
  have keys: "dict_keys (policy_checks ?r) = policy_check_ids"
    by (simp add: make_receipt_def Let_def all_checks_def policy_check_ids_def dict_keys_def)
  have chk: "\<not> list_ex (\<lambda>(k, b). map_of (policy_checks ?r) k \<noteq> Some b) (expected_checks ?r)"
    by (auto simp: make_receipt_def all_checks_def expected_checks_def list_ex_iff list_all_iff Let_def)
  have out: "outcome ?r = expected_outcome ?r"
    by (auto simp: make_receipt_def Let_def all_checks_def expected_outcome_def)
  have pay: "canonical_digest (JObj (receipt_payload ?r)) = receipt_digest ?r"
    by (simp add: make_receipt_def Let_def receipt_payload_def)
  show ?thesis
    unfolding receipt_guards_def using keys chk out pay
    by (simp) (auto simp: make_receipt_def Let_def)
qed

lemma make_receipt_simps [simp]:
  "version_probe (make_receipt cfg vp ap ev d ts base pv pt) = vp"
  "agent_process (make_receipt cfg vp ap ev d ts base pv pt) = ap"
  "rr_workspace_diff (make_receipt cfg vp ap ev d ts base pv pt) = d"
  "rr_test_results (make_receipt cfg vp ap ev d ts base pv pt) = ts"
  "policy_checks (make_receipt cfg vp ap ev d ts base pv pt)
     = all_checks (rc_contract cfg) vp ap ev d ts base pv pt"
  "outcome (make_receipt cfg vp ap ev d ts base pv pt)
     = (if list_all snd (all_checks (rc_contract cfg) vp ap ev d ts base pv pt) then ''pass'' else ''fail'')"
  by (simp_all add: make_receipt_def Let_def)

text \<open>A run that returns: the pieces its receipt is made of.\<close>

lemma execute_pieces:
  assumes "execute_coding_agent os cfg child task w0 = Inr r"
  obtains vp ap ts d w3 where
    "r = make_receipt cfg vp ap (agent_parsed os cfg child task w0) d ts
       (snapshot_digest (workspace_at os cfg w0))
       (snapshot_digest (workspace_at os cfg (version_world os cfg w0)))
       (snapshot_digest (workspace_at os cfg w3))"
    and "validate_receipt r = Inr r"
    and "build_workspace_diff (workspace_at os cfg (version_world os cfg w0))
       (workspace_at os cfg (agent_world os cfg child task w0)) (rc_contract cfg) = Inr d"
    and "captured_result (version_capture os cfg w0)
       (Some (version_ok (rc_contract cfg) (version_capture os cfg w0)))
       (max_output_excerpt_chars (rc_contract cfg)) = Inr vp"
    and "captured_result (agent_capture os cfg child task w0) None
       (if capture_agent_output_excerpts (rc_contract cfg)
        then max_output_excerpt_chars (rc_contract cfg) else 0) = Inr ap"
    and "run_tests os (rc_contract cfg) (test_commands (rc_contract cfg))
       (agent_world os cfg child task w0) = (Inr ts, w3)"
    and "list_all (\<lambda>g. \<not> fst g) (execute_guards os cfg child task)"
proof -
  let ?c = "rc_contract cfg"
  obtain vobs w1 where e1: "os_exec os (version_command ?c) None (version_timeout_seconds ?c) w0 = (vobs, w1)"
    by fastforce
  obtain aobs w2 where e2: "os_exec os child (Some task) (agent_timeout_seconds ?c) w1 = (aobs, w2)"
    by fastforce
  obtain tests w3 where e3: "run_tests os ?c (test_commands ?c) w2 = (tests, w3)" by fastforce
  have w: "version_world os cfg w0 = w1" "agent_world os cfg child task w0 = w2"
    by (simp_all add: version_world_def agent_world_def e1 e2)
  have cap: "run_process (version_command ?c) False (max_capture_bytes ?c) vobs = version_capture os cfg w0"
    "run_process child True (max_capture_bytes ?c) aobs = agent_capture os cfg child task w0"
    by (simp_all add: version_capture_def agent_capture_def e1 e2 w)
  from assms e1 e2 e3 obtain vp ap d ts where
    g: "list_all (\<lambda>g. \<not> fst g) (execute_guards os cfg child task)"
    and vp: "captured_result (version_capture os cfg w0) (Some (version_ok ?c (version_capture os cfg w0)))
      (max_output_excerpt_chars ?c) = Inr vp"
    and ap: "captured_result (agent_capture os cfg child task w0) None
      (if capture_agent_output_excerpts ?c then max_output_excerpt_chars ?c else 0) = Inr ap"
    and d: "build_workspace_diff (snapshot (os_tree os w1) ?c) (snapshot (os_tree os w2) ?c) ?c = Inr d"
    and ts: "tests = Inr ts"
    and r: "validate_receipt (make_receipt cfg vp ap (agent_parsed os cfg child task w0) d ts
      (snapshot_digest (snapshot (os_tree os w0) ?c)) (snapshot_digest (snapshot (os_tree os w1) ?c))
      (snapshot_digest (snapshot (os_tree os w3) ?c))) = Inr r"
    by (auto simp: execute_coding_agent_def rbind_Inr_iff guard_simps Let_def cap agent_parsed_def)
  from r have r': "r = make_receipt cfg vp ap (agent_parsed os cfg child task w0) d ts
      (snapshot_digest (snapshot (os_tree os w0) ?c)) (snapshot_digest (snapshot (os_tree os w1) ?c))
      (snapshot_digest (snapshot (os_tree os w3) ?c))"
    by (simp add: validate_receipt_Inr)
  show ?thesis
    using that [of vp ap d ts w3] r r' d g vp ap e3 ts w by (simp add: workspace_at_def)
qed

lemma execute_total:
  assumes cfg: "validate_config cfg = Inr cfg'" and os: "os_ok os"
    and g: "list_all (\<lambda>g. \<not> fst g) (execute_guards os cfg child task)"
  shows "\<exists>r. execute_coding_agent os cfg child task w0 = Inr r"
proof -
  let ?c = "rc_contract cfg"
  from cfg have vc: "validate_contract ?c = Inr ?c" and rid: "rc_run_id cfg \<noteq> []"
    "is_hex64 (rc_task_digest cfg)" "is_hex64 (rc_child_command_digest cfg)" "is_hex64 (rc_contract_digest cfg)"
    by (auto simp: validate_config_def rbind_Inr_iff guard_simps validate_contract_Inr)
  note b = valid_contract_bounds [OF vc]
  have child: "child \<noteq> []" using g by (simp add: execute_guards_def bad_argv_def)
  obtain vobs w1 where e1: "os_exec os (version_command ?c) None (version_timeout_seconds ?c) w0 = (vobs, w1)"
    by fastforce
  obtain aobs w2 where e2: "os_exec os child (Some task) (agent_timeout_seconds ?c) w1 = (aobs, w2)"
    by fastforce
  obtain ts w3 where e3: "run_tests os ?c (test_commands ?c) w2 = (Inr ts, w3)"
    using run_tests_Inr [OF os] b by blast
  have "0 \<le> elapsed_ms vobs" "0 \<le> elapsed_ms aobs"
    using os e1 e2 unfolding os_ok_def by (metis fst_conv)+
  with b child obtain vp ap where
    vp: "captured_result (run_process (version_command ?c) False (max_capture_bytes ?c) vobs)
      (Some (version_ok ?c (run_process (version_command ?c) False (max_capture_bytes ?c) vobs)))
      (max_output_excerpt_chars ?c) = Inr vp"
    and ap: "captured_result (run_process child True (max_capture_bytes ?c) aobs) None
      (if capture_agent_output_excerpts ?c then max_output_excerpt_chars ?c else 0) = Inr ap"
    by (metis captured_result_Inr)
  have d: "build_workspace_diff (snapshot (os_tree os w1) ?c) (snapshot (os_tree os w2) ?c) ?c
      = Inr (diff_of (snapshot (os_tree os w1) ?c) (snapshot (os_tree os w2) ?c) ?c)"
    using os snapshot_is_ok unfolding os_ok_def by (intro build_diff_Inr) blast+
  then have dv: "validate_diff (diff_of (snapshot (os_tree os w1) ?c) (snapshot (os_tree os w2) ?c) ?c)
      = Inr (diff_of (snapshot (os_tree os w1) ?c) (snapshot (os_tree os w2) ?c) ?c)"
    by (simp add: build_workspace_diff_def)
  have tf: "map pr_argv ts = test_commands ?c" "\<forall>p \<in> set ts. validate_process p = Inr p"
    using run_tests_facts [OF e3] by auto
  with b have "ts \<noteq> []" by auto
  moreover have "\<exists>ys. traverse validate_process ts = Inr ys"
    using tf(2) traverse_all_Inr [of ts validate_process "\<lambda>p. p"] by auto
  ultimately have "validate_receipt (make_receipt cfg vp ap ev (diff_of (snapshot (os_tree os w1) ?c)
        (snapshot (os_tree os w2) ?c) ?c) ts (snapshot_digest (snapshot (os_tree os w0) ?c))
        (snapshot_digest (snapshot (os_tree os w1) ?c)) (snapshot_digest (snapshot (os_tree os w3) ?c)))
      = Inr (make_receipt cfg vp ap ev (diff_of (snapshot (os_tree os w1) ?c)
        (snapshot (os_tree os w2) ?c) ?c) ts (snapshot_digest (snapshot (os_tree os w0) ?c))
        (snapshot_digest (snapshot (os_tree os w1) ?c)) (snapshot_digest (snapshot (os_tree os w3) ?c)))"
    if "pe_valid ev \<longrightarrow> pe_count ev = length (pe_events ev)" for ev
    using that b rid dv captured_result_facts(1) [OF vp] captured_result_facts(1) [OF ap]
    by (simp add: validate_receipt_Inr make_receipt_checks)
  with g e1 e2 e3 vp ap d show ?thesis
    by (auto simp: execute_coding_agent_def rbind_Inr_iff guard_simps Let_def
        intro!: exI parse_events_count)
qed


lemma all_checks_keys: "map fst (all_checks c vp ap ev d ts base pv pt) = policy_check_ids"
  by (simp add: all_checks_def policy_check_ids_def)

lemma all_true_iff: "distinct (map fst kbs) \<Longrightarrow>
    list_all snd kbs \<longleftrightarrow> (\<forall>k \<in> set (map fst kbs). map_of kbs k = Some True)"
proof
  assume d: "distinct (map fst kbs)" and r: "list_all snd kbs"
  show "\<forall>k \<in> set (map fst kbs). map_of kbs k = Some True"
    using d r by (fastforce simp: list_all_iff map_of_eq_Some_iff)
next
  assume d: "distinct (map fst kbs)" and r: "\<forall>k \<in> set (map fst kbs). map_of kbs k = Some True"
  show "list_all snd kbs"
    unfolding list_all_iff
  proof (clarify)
    fix k b assume "(k, b) \<in> set kbs"
    with d r show "snd (k, b)" by (metis fst_conv image_eqI map_of_is_SomeI option.inject set_map snd_conv)
  qed
qed

lemma distinct_policy_check_ids: "distinct policy_check_ids"
  by (simp add: policy_check_ids_def)

text \<open>A passing receipt of the wrapper, in terms of what the agent changed.\<close>

lemma base_passed_run:
  "base_passed (run_process argv inp cap obs) \<Longrightarrow> launch_error obs = None \<and> wait_exit obs = 0
     \<and> length (concat (out_chunks obs)) \<le> nat cap"
  by (auto simp: base_passed_def run_process_def Let_def stream_truncated_def consume_eq split: if_splits)

lemma pass_changes:
  assumes "list_all snd (all_checks c vp ap ev (diff_of b a c) ts base pv pt)"
    and "map_of b p \<noteq> map_of a p"
  shows "matches p (allowed_change_globs c)" and "\<not> matches p (protected_change_globs c)"
proof -
  have p: "p \<in> set (changed_paths_of b a)" using assms(2) by (simp add: changed_paths_iff)
  from assms(1) have "disallowed_paths (diff_of b a c) = []" "protected_paths (diff_of b a c) = []"
    by (simp_all add: all_checks_def)
  with p show "matches p (allowed_change_globs c)" "\<not> matches p (protected_change_globs c)"
    by (auto simp: filter_empty_conv)
qed

lemma mandatory_protected:
  "\<lbrakk>validate_contract c = Inr c'; matches p mandatory_protected_globs\<rbrakk>
    \<Longrightarrow> matches p (protected_change_globs c)"
  using valid_contract_protects [of c c'] by (auto simp: matches_def list_ex_iff)

lemma git_protected: "matches (''.git/'' @ q) mandatory_protected_globs"
proof -
  have "glob (''.git/'' @ ''**'') (''.git/'' @ q)"
    by (rule glob_subtree) (simp add: literal_char_def)
  then show ?thesis
    unfolding matches_def mandatory_protected_globs_def fnmatchcase_def by (simp del: glob.simps)
qed


section \<open>Properties\<close>

text \<open>A concrete contract, workspace and operating system for the witnesses.\<close>

definition sample_contract :: coding_contract where
  "sample_contract = \<lparr>cc_driver = Generic, cc_driver_version = ''1.2.3'', cc_output_format = Jsonl,
     require_structured_events = False, workspace = ''work'', version_command = [''agent'', ''--version''],
     test_commands = [[''pytest'']], allowed_change_globs = [''src/**''],
     protected_change_globs = mandatory_protected_globs, ignored_globs = safe_ignored_globs,
     max_changed_files = 5, max_changed_bytes = 1000, max_task_bytes = 100,
     max_capture_bytes = 1000, max_output_excerpt_chars = 50, capture_agent_output_excerpts = False,
     cc_max_events = 10, agent_timeout_seconds = 60, version_timeout_seconds = 10,
     test_timeout_seconds = 60\<rparr>"

definition sample_config :: runner_config where
  "sample_config = \<lparr>rc_run_id = ''run-1'', rc_task_digest = task_digest ''fix'',
     rc_child_command_digest = child_command_digest [''agent'', ''run''],
     rc_contract_digest = contract_digest sample_contract, rc_contract = sample_contract\<rparr>"

definition sample_observation :: "bytes \<Rightarrow> process_observation" where
  "sample_observation out = \<lparr>launch_error = None, out_chunks = [out], err_chunks = [],
     out_error = None, err_error = None, in_error = None, wait_exit = 0, wait_timed_out = False,
     tree_ended = True, threads_ended = True, elapsed_ms = 5\<rparr>"

text \<open>In this world the agent, run with an input, writes into the given file.\<close>

definition sample_os :: "string \<Rightarrow> string \<Rightarrow> bool runner_os" where
  "sample_os dir file = \<lparr>os_exec = (\<lambda>argv inp t w.
       (sample_observation (if inp = None then ''agent 1.2.3'' else ''{}''), w \<or> inp \<noteq> None)),
     os_tree = (\<lambda>w. [(dir, Directory [(file, RegularFile (if w then ''x'' else []))])]),
     os_inside = True, os_is_dir = True, os_json_error = (\<lambda>s. ''bad'')\<rparr>"

abbreviation sample_run :: "string \<Rightarrow> string \<Rightarrow> agent_receipt res" where
  "sample_run dir file \<equiv>
     execute_coding_agent (sample_os dir file) sample_config [''agent'', ''run''] ''fix'' False"

lemma sample_fields [simp]:
  "rc_contract sample_config = sample_contract" "version_command sample_contract = [''agent'', ''--version'']"
  "test_commands sample_contract = [[''pytest'']]" "max_capture_bytes sample_contract = 1000"
  "max_output_excerpt_chars sample_contract = 50" "\<not> capture_agent_output_excerpts sample_contract"
  "cc_output_format sample_contract = Jsonl" "cc_max_events sample_contract = 10"
  "cc_driver_version sample_contract = ''1.2.3''" "ignored_globs sample_contract = safe_ignored_globs"
  "allowed_change_globs sample_contract = [''src/**'']" "max_changed_files sample_contract = 5"
  "max_changed_bytes sample_contract = 1000"
  "protected_change_globs sample_contract = mandatory_protected_globs"
  by (simp_all add: sample_contract_def sample_config_def)

lemma sample_contract_valid: "validate_contract sample_contract = Inr sample_contract"
  unfolding validate_contract_Inr by code_simp

lemma sample_config_valid: "validate_config sample_config = Inr sample_config"
  by (simp add: validate_config_def sample_config_def sample_contract_valid guard_simps task_digest_def
      child_command_digest_def contract_digest_def)

lemma sample_os_ok: "\<lbrakk>d \<noteq> []; f \<noteq> []\<rbrakk> \<Longrightarrow> os_ok (sample_os d f)"
  by (simp add: os_ok_def sample_os_def sample_observation_def)

lemma sample_guards:
  "list_all (\<lambda>g. \<not> fst g) (execute_guards (sample_os d f) sample_config [''agent'', ''run''] ''fix'')"
  by (simp add: execute_guards_def sample_config_def sample_os_def bad_argv_def sample_contract_def
      utf8_def utf8_char_def)

lemma sample_returns: "\<lbrakk>d \<noteq> []; f \<noteq> []\<rbrakk> \<Longrightarrow> \<exists>r. sample_run d f = Inr r"
  using execute_total [OF sample_config_valid sample_os_ok sample_guards] by blast

lemma sample_worlds [simp]:
  "version_world (sample_os d f) sample_config False = False"
  "agent_world (sample_os d f) sample_config [''agent'', ''run''] ''fix'' False = True"
  by (simp_all add: version_world_def agent_world_def sample_os_def)

lemma sample_snapshot:
  "\<lbrakk>d \<noteq> []; \<not> matches d safe_ignored_globs; \<not> matches (d @ ''/'' @ f) safe_ignored_globs\<rbrakk> \<Longrightarrow>
    workspace_at (sample_os d f) sample_config w
      = [(d @ ''/'' @ f, file_state_of (if w then ''x'' else []))]"
  by (simp add: workspace_at_def snapshot_def sample_os_def sample_config_def sample_contract_def
      child_path_def dict_update_def)

lemma sample_base_passed:
  "length out \<le> 1000 \<Longrightarrow> base_passed (run_process argv inp 1000 (sample_observation out))"
  by (simp add: base_passed_def run_process_def sample_observation_def Let_def stream_truncated_def
      consume_eq opt_list_def)



text \<open>A receipt of the runner passes exactly when every one of the thirteen policy checks is
  recorded as true.\<close>

theorem coding_pass_iff:
  assumes "execute_coding_agent os cfg child task w = Inr r"
  shows "outcome r = ''pass'' \<longleftrightarrow> (\<forall>k \<in> set policy_check_ids. map_of (policy_checks r) k = Some True)"
proof -
  from assms obtain vp ap ev ts d pt base pv where
    r: "r = make_receipt cfg vp ap ev d ts base pv pt" by (rule execute_pieces) blast
  have "distinct (map fst (policy_checks r))"
    unfolding r make_receipt_simps all_checks_keys by (rule distinct_policy_check_ids)
  from all_true_iff [OF this] show ?thesis unfolding r make_receipt_simps all_checks_keys by simp
qed

theorem coding_pass_iff_witness:
  "\<exists>r. sample_run ''.git'' ''config'' = Inr r \<and>
     (outcome r = ''pass'' \<longleftrightarrow> (\<forall>k \<in> set policy_check_ids. map_of (policy_checks r) k = Some True))"
proof -
  obtain r where "sample_run ''.git'' ''config'' = Inr r" using sample_returns by blast
  with coding_pass_iff [OF this] show ?thesis by blast
qed

text \<open>With a valid contract, an agent that adds, removes or modifies any path matched by a mandatory
  protected pattern (a path under \<open>.git/\<close>, an \<open>AGENTS.md\<close>, an agent control directory) gets a
  failing receipt that names the path, whatever else it did and whatever the contract allows.\<close>

theorem protected_change_fails:
  assumes "execute_coding_agent os cfg child task w = Inr r" and "os_ok os"
    and "validate_contract (rc_contract cfg) = Inr c"
    and "map_of (workspace_at os cfg (version_world os cfg w)) p
      \<noteq> map_of (workspace_at os cfg (agent_world os cfg child task w)) p"
    and "matches p mandatory_protected_globs"
  shows "outcome r = ''fail'' \<and> p \<in> set (protected_paths (rr_workspace_diff r))"
proof -
  let ?b = "workspace_at os cfg (version_world os cfg w)"
  let ?a = "workspace_at os cfg (agent_world os cfg child task w)"
  from assms(1) obtain vp ap ev ts d pt base pv where
    r: "r = make_receipt cfg vp ap ev d ts base pv pt"
    and d: "build_workspace_diff ?b ?a (rc_contract cfg) = Inr d" by (rule execute_pieces) blast
  have "snapshot_ok ?b" "snapshot_ok ?a"
    using assms(2) unfolding workspace_at_def os_ok_def by (blast intro: snapshot_is_ok)+
  from build_diff_Inr [OF this, of "rc_contract cfg"] d have d': "d = diff_of ?b ?a (rc_contract cfg)"
    by simp
  have prot: "matches p (protected_change_globs (rc_contract cfg))"
    by (rule mandatory_protected [OF assms(3,5)])
  with assms(4) have "p \<in> set (protected_paths d)" by (simp add: d' changed_paths_iff)
  moreover have "\<not> list_all snd (policy_checks r)"
    using pass_changes(2) [OF _ assms(4)] prot unfolding r make_receipt_simps d' by blast
  ultimately show ?thesis by (simp add: r)
qed

theorem protected_change_fails_witness:
  "\<exists>r. sample_run ''.git'' ''config'' = Inr r
     \<and> outcome r = ''fail'' \<and> ''.git/config'' \<in> set (protected_paths (rr_workspace_diff r))"
proof -
  obtain r where r: "sample_run ''.git'' ''config'' = Inr r" using sample_returns by blast
  have ig: "\<not> matches ''.git'' safe_ignored_globs" "\<not> matches (''.git'' @ ''/'' @ ''config'') safe_ignored_globs"
    by code_simp+
  have ne: "file_state_of ''x'' \<noteq> file_state_of []" by (simp add: file_state_of_def)
  have v: "validate_contract (rc_contract sample_config) = Inr sample_contract"
    by (simp add: sample_config_def sample_contract_valid)
  have "outcome r = ''fail'' \<and> ''.git/config'' \<in> set (protected_paths (rr_workspace_diff r))"
  proof (rule protected_change_fails [OF r sample_os_ok v])
    show "matches ''.git/config'' mandatory_protected_globs"
      using git_protected [of "''config''"] by simp
  qed (use ne sample_snapshot [OF _ ig] in simp_all)
  with r show ?thesis by blast
qed


lemma sample_pass: "\<exists>r. sample_run ''src'' ''a'' = Inr r \<and> outcome r = ''pass''"
proof -
  let ?os = "sample_os ''src'' ''a''"
  let ?obs1 = "sample_observation ''agent 1.2.3''" and ?obs2 = "sample_observation ''{}''"
  obtain r where r: "sample_run ''src'' ''a'' = Inr r" using sample_returns by blast
  then obtain vp ap ts d w3 where
    eq: "r = make_receipt sample_config vp ap (agent_parsed ?os sample_config [''agent'', ''run''] ''fix'' False) d ts
       (snapshot_digest (workspace_at ?os sample_config False))
       (snapshot_digest (workspace_at ?os sample_config False))
       (snapshot_digest (workspace_at ?os sample_config w3))"
    and d: "build_workspace_diff (workspace_at ?os sample_config False)
       (workspace_at ?os sample_config True) sample_contract = Inr d"
    and vp: "captured_result (version_capture ?os sample_config False)
       (Some (version_ok sample_contract (version_capture ?os sample_config False))) 50 = Inr vp"
    and ap: "captured_result (agent_capture ?os sample_config [''agent'', ''run''] ''fix'' False) None 0 = Inr ap"
    and ts: "run_tests ?os sample_contract [[''pytest'']] True = (Inr ts, w3)"
    by (rule execute_pieces) simp
  have ig: "\<not> matches ''src'' safe_ignored_globs" "\<not> matches (''src'' @ ''/'' @ ''a'') safe_ignored_globs"
    "matches ''src/a'' [''src/**'']" "\<not> matches ''src/a'' mandatory_protected_globs" by code_simp+
  have snap: "workspace_at ?os sample_config w = [(''src/a'', file_state_of (if w then ''x'' else []))]" for w
    using sample_snapshot [OF _ ig(1,2)] by simp
  have caps: "version_capture ?os sample_config False = run_process [''agent'', ''--version''] False 1000 ?obs1"
    "agent_capture ?os sample_config [''agent'', ''run''] ''fix'' False = run_process [''agent'', ''run''] True 1000 ?obs2"
    by (simp_all add: version_capture_def agent_capture_def) (simp_all add: sample_os_def)
  have out: "cp_stdout (run_process a i 1000 ?obs1) = ''agent 1.2.3''"
    "cp_stdout (run_process a i 1000 ?obs2) = ''{}''" for a i
    by (simp_all add: run_process_def sample_observation_def Let_def consume_eq)
  have base: "base_passed (run_process a i 1000 ?obs2)" "base_passed (run_process a i 1000 ?obs1)" for a i
    using sample_base_passed [of "''{}''"] sample_base_passed [of "''agent 1.2.3''"] by simp_all
  then have trunc: "\<not> cp_truncated (run_process a i 1000 ?obs2)" "cp_tree_terminated (run_process a i 1000 ?obs2)"
    "\<not> cp_truncated (run_process a i 1000 ?obs1)" "cp_tree_terminated (run_process a i 1000 ?obs1)" for a i
    by (simp_all add: base_passed_def)
  have "loads ''{}'' = Some (JObj [])" "splitlines ''{}'' = [''{}'']" "strip ''{}'' = ''{}''" by code_simp+
  then have ev: "pe_valid (agent_parsed ?os sample_config [''agent'', ''run''] ''fix'' False)"
    by (simp add: agent_parsed_def caps out trunc parse_events_def raw_events_def)
  have "contains (''agent 1.2.3'' @ [CHR 0x0A] @ x) ''1.2.3''" for x
    using contains_append [of "''agent ''" "''1.2.3''" "[CHR 0x0A] @ x"] by simp
  then have vok: "version_ok sample_contract (version_capture ?os sample_config False)"
    by (simp add: version_ok_def caps out base)
  have "os_exec ?os [''pytest''] None t True = (?obs1, True)" for t by (simp add: sample_os_def)
  with ts obtain tp where tp: "captured_result (run_process [''pytest''] False 1000 ?obs1) None 50 = Inr tp"
    "ts = [tp]" "w3 = True" by (auto simp: rbind_Inr_iff split: sum.splits)
  have "snapshot_ok (workspace_at ?os sample_config w)" for w
    using sample_os_ok [of "''src''" "''a''"] unfolding workspace_at_def os_ok_def by (auto intro: snapshot_is_ok)
  with build_diff_Inr d have d': "d = diff_of (workspace_at ?os sample_config False)
       (workspace_at ?os sample_config True) sample_contract" by (metis sum.inject(2))
  have "file_state_of ''x'' \<noteq> file_state_of []" by (simp add: file_state_of_def)
  then have cp: "changed_paths_of [(''src/a'', file_state_of [])] [(''src/a'', file_state_of ''x'')] = [''src/a'']"
    by (simp add: changed_paths_of_def dict_keys_def sorted_set_def)
  have "changed_bytes d \<le> 1000" "unsafe_symlinks d = []"
    by (simp_all add: d' snap diff_of_def Let_def cp)
       (simp_all add: file_change_of_def size_of_def file_state_of_def sorted_set_def)
  moreover have "passed vp" "passed ap" "passed tp"
    using captured_result_facts(3) [OF vp] captured_result_facts(3) [OF ap] captured_result_facts(3) [OF tp(1)]
      vok base by (simp_all add: caps)
  moreover have "pr_tree_terminated vp" "pr_tree_terminated ap" "pr_tree_terminated tp"
    "\<not> pr_output_truncated vp" "\<not> pr_output_truncated ap" "\<not> pr_output_truncated tp"
    using captured_result_facts(4,5) [OF vp] captured_result_facts(4,5) [OF ap] captured_result_facts(4,5) [OF tp(1)]
      trunc by (simp_all add: caps)
  ultimately have "list_all snd (policy_checks r)"
    using ev tp ig(3,4) by (simp add: eq all_checks_def d' snap cp)
  with r show ?thesis by (simp add: eq)
qed


text \<open>The workspace diff is exact: for snapshots of a walk it is never rejected, and it lists, sorted
  and without repetition, exactly the paths whose state differs, each with the status that tells
  whether the path was added, removed or modified.\<close>

theorem workspace_diff_exact:
  assumes "snapshot_ok before" and "snapshot_ok after"
  shows "\<exists>d. build_workspace_diff before after c = Inr d
    \<and> sorted (map fc_path (changes d)) \<and> distinct (map fc_path (changes d))
    \<and> set (map fc_path (changes d)) = {p. map_of before p \<noteq> map_of after p}
    \<and> (\<forall>ch \<in> set (changes d).
         (fc_status ch = ''added'' \<longleftrightarrow> map_of before (fc_path ch) = None)
       \<and> (fc_status ch = ''removed'' \<longleftrightarrow> map_of after (fc_path ch) = None))"
proof -
  have paths: "map fc_path (changes (diff_of before after c)) = changed_paths_of before after"
    by (simp add: comp_def)
  have "\<forall>p \<in> set (changed_paths_of before after).
      (fc_status (file_change_of before after p) = ''added'' \<longleftrightarrow> map_of before p = None)
    \<and> (fc_status (file_change_of before after p) = ''removed'' \<longleftrightarrow> map_of after p = None)"
    by (auto simp: changed_paths_iff file_change_of_def Let_def)
  moreover have "set (map fc_path (changes (diff_of before after c))) = {p. map_of before p \<noteq> map_of after p}"
    unfolding paths using changed_paths_iff by blast
  ultimately show ?thesis
    using build_diff_Inr [OF assms, of c] sorted_changed_paths [of before after] paths
    by (intro exI [of _ "diff_of before after c"] conjI) auto
qed

theorem workspace_diff_exact_witness:
  "\<exists>d. build_workspace_diff [] [(''a'', file_state_of ''x'')] sample_contract = Inr d
     \<and> map fc_path (changes d) = [''a'']"
proof -
  have "snapshot_ok []" "snapshot_ok [(''a'', file_state_of ''x'')]"
    by (simp_all add: snapshot_ok_def state_ok_def file_state_of_def)
  from workspace_diff_exact [OF this, of sample_contract] obtain d where
    d: "build_workspace_diff [] [(''a'', file_state_of ''x'')] sample_contract = Inr d"
    "distinct (map fc_path (changes d))"
    "set (map fc_path (changes d)) = {p. map_of [] p \<noteq> map_of [(''a'', file_state_of ''x'')] p}"
    by (elim exE conjE)
  moreover have "{p. map_of [] p \<noteq> map_of [(''a'', file_state_of ''x'')] p} = {''a''}" by auto
  moreover have "\<lbrakk>distinct xs; set xs = {x}\<rbrakk> \<Longrightarrow> xs = [x]" for xs and x :: string
    by (cases xs; cases "tl xs") auto
  ultimately have "map fc_path (changes d) = [''a'']" by simp
  with d(1) show ?thesis by (intro exI [of _ d] conjI)
qed

end
