(* ===== verification/Verifiers.thy ===== *)
theory Verifiers
  imports HarnessContract
begin

text \<open>
  \<open>harness_verifiers.py\<close>: whether a kind of evidence is present in a bundle, and the evaluation of one
  verifier of the manifest against the bundle.
\<close>

text \<open>The truth of \<open>getattr(evidence, kind.value)\<close>, with \<open>None\<close> as the only absent exit code.\<close>

fun value_present :: "evidence_bundle \<Rightarrow> evidence_kind \<Rightarrow> bool" where
  "value_present e KExitCode = (exit_code e \<noteq> None)"
| "value_present e KStdout = (ev_stdout e \<noteq> [])"
| "value_present e KStderr = (ev_stderr e \<noteq> [])"
| "value_present e KCommands = (commands e \<noteq> [])"
| "value_present e KProcesses = (processes e \<noteq> [])"
| "value_present e KNetwork = (network e \<noteq> [])"
| "value_present e KFilesystemBefore = (filesystem_before e \<noteq> [])"
| "value_present e KFilesystemAfter = (filesystem_after e \<noteq> [])"
| "value_present e KInference = (inference e \<noteq> [])"
| "value_present e KAssertions = (assertions e \<noteq> [])"
| "value_present e KFindings = (findings e \<noteq> [])"
| "value_present e KRuntimeMetadata = (runtime_metadata e \<noteq> [])"
| "value_present e KPolicy = (ev_policy e \<noteq> [])"
| "value_present e KOcsfEvents = (ocsf_events e \<noteq> [])"
| "value_present e KCodingReceipt = (coding_receipt e \<noteq> [])"
| "value_present e KAgentEvents = (agent_events e \<noteq> [])"
| "value_present e KWorkspaceDiff = (evidence_bundle.workspace_diff e \<noteq> [])"
| "value_present e KTestResults = (test_results e \<noteq> [])"
| "value_present e KBrowserReceipt = (evidence_bundle.browser_receipt e \<noteq> [])"
| "value_present e KBrowserEvents = (browser_events e \<noteq> [])"
| "value_present e KDomSnapshot = (dom_snapshot e \<noteq> [])"
| "value_present e KAccessibilitySnapshot = (accessibility_snapshot e \<noteq> [])"
| "value_present e KNetworkTrace = (network_trace e \<noteq> [])"
| "value_present e KScreenshots = (screenshots e \<noteq> [])"
| "value_present e KDownloads = (downloads e \<noteq> [])"
| "value_present e KBrowserAssertions = (browser_assertions e \<noteq> [])"

definition evidence_present :: "evidence_bundle \<Rightarrow> evidence_kind \<Rightarrow> bool" where
  "evidence_present e k \<longleftrightarrow> kind_value k \<in> set (captured_evidence e) \<or> value_present e k"

definition vresult :: "string \<Rightarrow> string \<Rightarrow> bool \<Rightarrow> string \<Rightarrow> json dict \<Rightarrow> verification_result" where
  "vresult i k ok m d = \<lparr>vr_id = i, vr_kind = k, vr_passed = ok, vr_message = m, vr_details = d,
     vr_evidence_ids = []\<rparr>"

lemma vresult_simps [simp]:
  "vr_id (vresult i k ok m d) = i" "vr_passed (vresult i k ok m d) = ok"
  "vr_kind (vresult i k ok m d) = k" "vr_evidence_ids (vresult i k ok m d) = []"
  by (simp_all add: vresult_def)

definition opt_bool :: "bool option \<Rightarrow> json" where
  "opt_bool b = (case b of None \<Rightarrow> JNull | Some v \<Rightarrow> JBool v)"

fun evaluate_verifier :: "verifier_spec \<Rightarrow> evidence_bundle \<Rightarrow> verification_result" where
  "evaluate_verifier (ExitCodeZeroVerifier i) e =
     vresult i ''exit_code_zero'' (exit_code e = Some 0)
       (''exit_code='' @ py_repr (opt_int (exit_code e))) [(''exit_code'', opt_int (exit_code e))]"
| "evaluate_verifier (AssertionTrueVerifier i a) e =
     (let v = map_of (assertions e) a
      in vresult i ''assertion_true'' (v = Some True)
           (''assertion '' @ repr_str a @ '' is '' @ py_repr (opt_bool v))
           [(''assertion'', JStr a), (''value'', opt_bool v)])"
| "evaluate_verifier (StdoutContainsVerifier i v) e =
     (let ok = contains (ev_stdout e) v
      in vresult i ''stdout_contains'' ok
           ((if ok then ''stdout contains '' else ''stdout does not contain '') @ repr_str v)
           [(''value'', JStr v)])"
| "evaluate_verifier (StderrEmptyVerifier i) e =
     (let ok = evidence_present e KStderr \<and> ev_stderr e = []
      in vresult i ''stderr_empty'' ok
           (if ok then ''stderr was captured and is empty'' else ''stderr is not empty or was not captured'') [])"
| "evaluate_verifier (EvidencePresentVerifier i k) e =
     (let ok = evidence_present e k
      in vresult i ''evidence_present'' ok
           (''evidence '' @ repr_str (kind_value k) @ (if ok then '' is present'' else '' is missing''))
           [(''evidence'', JStr (kind_value k))])"

lemma evaluate_verifier_id [simp]: "vr_id (evaluate_verifier v e) = check_id v"
  by (cases v) (simp_all add: Let_def)

lemma evaluate_verifier_kind [simp]: "vr_kind (evaluate_verifier v e) = verifier_kind v"
  by (cases v) (simp_all add: Let_def)

text \<open>What a passing verifier says of the bundle.\<close>

fun verifier_holds :: "verifier_spec \<Rightarrow> evidence_bundle \<Rightarrow> bool" where
  "verifier_holds (ExitCodeZeroVerifier _) e = (exit_code e = Some 0)"
| "verifier_holds (AssertionTrueVerifier _ a) e = (map_of (assertions e) a = Some True)"
| "verifier_holds (StdoutContainsVerifier _ v) e = (\<exists>a b. ev_stdout e = a @ v @ b)"
| "verifier_holds (StderrEmptyVerifier _) e = (''stderr'' \<in> set (captured_evidence e) \<and> ev_stderr e = [])"
| "verifier_holds (EvidencePresentVerifier _ k) e =
     (kind_value k \<in> set (captured_evidence e) \<or> value_present e k)"

lemma evaluate_verifier_passed: "vr_passed (evaluate_verifier v e) = verifier_holds v e"
  by (cases v) (auto simp: Let_def contains_iff evidence_present_def)

end
