(* ===== verification/Adapters.thy ===== *)
theory Adapters
  imports HarnessContract CodingAgent Verifiers
begin

text \<open>
  \<open>harness_adapters.py\<close> and \<open>browser_adapter.py\<close>: the command template renderer, the domain adapters
  that compile a manifest into a command and an input and turn the output of the trusted runner back
  into evidence and checks, and their registry. Reading the files of a browser run is the argument
  \<open>artifact_fs\<close>; pydantic's decoding and serialisation are the other fields of \<open>adapter_env\<close>.
\<close>

section \<open>Command templates\<close>

text \<open>
  \<open>string.Formatter.parse\<close>: a literal up to the next brace (doubled braces are escapes), then a
  field name up to a colon, an exclamation mark or a closing brace, a conversion and a format
  specification. The parser is lazy: an earlier field is checked before a later one is parsed.
\<close>

definition fmap_fst :: "('a \<Rightarrow> 'b) \<Rightarrow> ('a \<times> 'c) res \<Rightarrow> ('b \<times> 'c) res" where
  "fmap_fst f m = rbind m (\<lambda>(a, c). Inr (f a, c))"

fun take_literal :: "string \<Rightarrow> (string \<times> bool \<times> string) res" where
  "take_literal [] = Inr ([], False, [])"
| "take_literal (c # cs) =
     (if c = CHR ''{'' then
        (case cs of [] \<Rightarrow> Inl (ValueError ''Single '{' encountered in format string'')
         | d # ds \<Rightarrow> if d = CHR ''{'' then Inr (''{'', False, ds) else Inr ([], True, cs))
      else if c = CHR ''}'' then
        (case cs of d # ds \<Rightarrow>
            if d = CHR ''}'' then Inr (''}'', False, ds)
            else Inl (ValueError ''Single '}' encountered in format string'')
         | [] \<Rightarrow> Inl (ValueError ''Single '}' encountered in format string''))
      else fmap_fst (\<lambda>l. c # l) (take_literal cs))"

text \<open>The field name and its terminator; inside square brackets everything is part of the name.\<close>

fun take_name :: "bool \<Rightarrow> string \<Rightarrow> (string \<times> char option \<times> string) res" where
  "take_name br [] = Inr ([], None, [])"
| "take_name True (c # cs) = fmap_fst (\<lambda>n. c # n) (take_name (c \<noteq> CHR '']'') cs)"
| "take_name False (c # cs) =
     (if c = CHR ''{'' then Inl (ValueError ''unexpected '{' in field name'')
      else if c \<in> {CHR ''}'', CHR '':'', CHR ''!''} then Inr ([], Some c, cs)
      else fmap_fst (\<lambda>n. c # n) (take_name (c = CHR ''['') cs))"

fun take_spec :: "nat \<Rightarrow> string \<Rightarrow> (string \<times> string) res" where
  "take_spec k [] = Inl (ValueError ''unmatched '{' in format spec'')"
| "take_spec k (c # cs) =
     (if c = CHR ''}'' \<and> k \<le> 1 then Inr ([], cs)
      else fmap_fst (\<lambda>s. c # s)
        (take_spec (if c = CHR ''{'' then k + 1 else if c = CHR ''}'' then k - 1 else k) cs))"

record template_field =
  tf_name :: string
  tf_conversion :: "char option"
  tf_spec :: string

definition with_spec :: "string \<Rightarrow> char option \<Rightarrow> string \<Rightarrow> (template_field \<times> string) res" where
  "with_spec name conv r = fmap_fst (\<lambda>sp. \<lparr>tf_name = name, tf_conversion = conv, tf_spec = sp\<rparr>) (take_spec 1 r)"

definition without_spec :: "string \<Rightarrow> char option \<Rightarrow> string \<Rightarrow> (template_field \<times> string) res" where
  "without_spec name conv r = Inr (\<lparr>tf_name = name, tf_conversion = conv, tf_spec = []\<rparr>, r)"

fun take_conversion :: "string \<Rightarrow> string \<Rightarrow> (template_field \<times> string) res" where
  "take_conversion name [] = Inl (ValueError ''end of string while looking for conversion specifier'')"
| "take_conversion name [v] = Inl (ValueError ''unmatched '{' in format spec'')"
| "take_conversion name (v # d # r) =
     (if d = CHR ''}'' then without_spec name (Some v) r
      else if d \<noteq> CHR '':'' then Inl (ValueError ''expected ':' after conversion specifier'')
      else with_spec name (Some v) r)"

definition take_field :: "string \<Rightarrow> (template_field \<times> string) res" where
  "take_field s = rbind (take_name False s) (\<lambda>(name, stop, r).
     if stop = None then Inl (ValueError ''expected '}' before end of string'')
     else if stop = Some CHR ''}'' then without_spec name None r
     else if stop = Some CHR '':'' then with_spec name None r
     else take_conversion name r)"

lemma take_literal_length:
  "take_literal s = Inr (l, mk, r) \<Longrightarrow> s \<noteq> [] \<Longrightarrow> length r < length s"
proof (induction s arbitrary: l)
  case (Cons c cs)
  show ?case
  proof (cases "c = CHR ''{'' \<or> c = CHR ''}''")
    case True
    with Cons.prems show ?thesis by (auto split: list.splits if_splits)
  next
    case False
    with Cons.prems(1) obtain l' where l': "take_literal cs = Inr (l', mk, r)"
      by (auto simp: fmap_fst_def rbind_Inr_iff)
    show ?thesis
    proof (cases cs)
      case Nil
      with l' show ?thesis by simp
    next
      case (Cons d ds)
      with Cons.IH [OF l'] show ?thesis by simp
    qed
  qed
qed simp

lemma take_name_length: "take_name br s = Inr (n, t, r) \<Longrightarrow> length r \<le> length s"
  by (induction br s arbitrary: n rule: take_name.induct)
     (fastforce simp: fmap_fst_def rbind_Inr_iff split: if_splits)+

lemma take_spec_length: "take_spec k s = Inr (n, r) \<Longrightarrow> length r \<le> length s"
  by (induction k s arbitrary: n rule: take_spec.induct)
     (fastforce simp: fmap_fst_def rbind_Inr_iff split: if_splits)+

lemma with_spec_length: "with_spec n c s = Inr (f, r) \<Longrightarrow> length r \<le> length s"
  by (auto simp: with_spec_def fmap_fst_def rbind_Inr_iff dest: take_spec_length)

lemma take_conversion_length: "take_conversion n s = Inr (f, r) \<Longrightarrow> length r \<le> length s"
  by (cases "(n, s)" rule: take_conversion.cases)
     (auto simp: without_spec_def split: if_splits dest!: with_spec_length)

lemma take_field_length: "take_field s = Inr (f, r) \<Longrightarrow> length r \<le> length s"
  by (auto simp: take_field_def without_spec_def rbind_Inr_iff split: if_splits
      dest!: take_name_length with_spec_length take_conversion_length)

definition check_field :: "string list \<Rightarrow> template_field \<Rightarrow> unit res" where
  "check_field allowed f = guards
     [(tf_name f \<notin> set allowed,
        HarnessContractError (''unsupported command placeholder: '' @ repr_str (tf_name f))),
      (tf_spec f \<noteq> [] \<or> tf_conversion f \<noteq> None,
        HarnessContractError ''format specifiers and conversions are not allowed in command templates'')] ()"

text \<open>The pieces of a template: literal text, or the name of a field.\<close>

function template_pieces :: "string list \<Rightarrow> string \<Rightarrow> (string + string) list res" where
  "template_pieces allowed s =
     (if s = [] then Inr []
      else case take_literal s of
        Inl e \<Rightarrow> Inl e
      | Inr (l, mk, r) \<Rightarrow>
          if \<not> mk then rbind (template_pieces allowed r) (\<lambda>ps. Inr (Inl l # ps))
          else (case take_field r of
              Inl e \<Rightarrow> Inl e
            | Inr (f, r') \<Rightarrow> rbind (check_field allowed f) (\<lambda>_.
                rbind (template_pieces allowed r') (\<lambda>ps. Inr (Inl l # Inr (tf_name f) # ps)))))"
  by pat_completeness auto
termination
  by (relation "measure (\<lambda>(a, s). length s)")
     (auto dest!: take_literal_length take_field_length)

declare template_pieces.simps [simp del]

definition render_piece :: "string dict \<Rightarrow> string + string \<Rightarrow> string option" where
  "render_piece ctx p = (case p of Inl l \<Rightarrow> Some l | Inr n \<Rightarrow> map_of ctx n)"

definition render :: "string list \<Rightarrow> string dict \<Rightarrow> string \<Rightarrow> string res" where
  "render allowed ctx value = rbind (template_pieces allowed value) (\<lambda>ps.
     let vs = map (render_piece ctx) ps
     in if None \<in> set vs
        then Inl (HarnessContractError (''invalid command template '' @ repr_str value))
        else Inr (concat (map the vs)))"

definition render_command :: "string list \<Rightarrow> string dict \<Rightarrow> string list \<Rightarrow> string list res" where
  "render_command allowed ctx values = traverse (render allowed ctx) values"

definition command_context :: "run_spec \<Rightarrow> bool \<Rightarrow> string dict" where
  "command_context spec include_task =
     [(''entrypoint'', entrypoint (skill spec)), (''run_id'', spec_run_id spec),
      (''scenario_id'', scenario_id (scenario spec)),
      (''skill_digest'', commit_or_digest (skill spec))]
     @ (if include_task then [(''task'', task (scenario spec))] else [])"

definition command_fields :: "string list" where
  "command_fields = [''entrypoint'', ''run_id'', ''scenario_id'', ''task'', ''skill_digest'']"

definition agent_fields :: "string list" where
  "agent_fields = [''entrypoint'', ''run_id'', ''scenario_id'', ''skill_digest'']"


section \<open>The adapter interface\<close>

record domain_adapter =
  da_id :: string
  da_domain :: harness_domain
  da_evidence :: "string list"
  da_command :: "harness_manifest \<Rightarrow> run_spec \<Rightarrow> string list res"
  da_stdin :: "harness_manifest \<Rightarrow> run_spec \<Rightarrow> string option res"
  da_normalize :: "harness_manifest \<Rightarrow> harness_plan \<Rightarrow> evidence_bundle \<Rightarrow> evidence_bundle res"
  da_verify :: "harness_manifest \<Rightarrow> harness_plan \<Rightarrow> evidence_bundle \<Rightarrow> verification_result list"

text \<open>The defaults of the base class: no input, evidence unchanged, no checks.\<close>

definition base_adapter :: "string \<Rightarrow> harness_domain \<Rightarrow> domain_adapter" where
  "base_adapter i d = \<lparr>da_id = i, da_domain = d, da_evidence = [], da_command = (\<lambda>_ _. Inr []),
     da_stdin = (\<lambda>_ _. Inr None), da_normalize = (\<lambda>_ _ e. Inr e), da_verify = (\<lambda>_ _ _. [])\<rparr>"

text \<open>A check on a boolean assertion of the bundle, as both runner adapters report it.\<close>

definition assertion_check :: "string \<Rightarrow> evidence_bundle \<Rightarrow> string \<times> string \<times> string \<Rightarrow> verification_result" where
  "assertion_check kind e c = (case c of (check, assertion, message) \<Rightarrow>
     let ok = map_of (assertions e) assertion = Some True
     in vresult check kind ok (if ok then message else message @ '' ? failed'')
          [(''assertion'', JStr assertion)])"

section \<open>The coding command adapter\<close>

definition coding_command_adapter :: domain_adapter where
  "coding_command_adapter = (base_adapter ''coding.command.v1'' DCoding)\<lparr>
     da_command := (\<lambda>m spec. render_command command_fields (command_context spec True)
       (command (hm_execution m)))\<rparr>"

section \<open>The coding agent adapter\<close>

record root_probe =
  rp_path :: string
  rp_inside :: bool
  rp_usable :: bool

datatype file_probe = OutsideRoot | NoFile string | NotRegular | FileBytes bytes

record adapter_env =
  decode_coding :: "json dict \<Rightarrow> agent_receipt res"
  decode_browser :: "json \<Rightarrow> BrowserContract.browser_receipt res"
  dump_json :: "json \<Rightarrow> string"
  probe_root :: "string \<Rightarrow> string \<Rightarrow> string \<Rightarrow> root_probe"
  probe_file :: "string \<Rightarrow> string \<Rightarrow> file_probe"

definition agent_kinds :: "string list" where
  "agent_kinds = [''coding_receipt'', ''agent_events'', ''workspace_diff'', ''test_results'']"

definition coding_of :: "harness_manifest \<Rightarrow> coding_contract res" where
  "coding_of m = (case hm_coding m of
     None \<Rightarrow> Inl (HarnessContractError ''coding.agent.v1 requires a coding contract'')
   | Some c \<Rightarrow> Inr c)"

definition child_command :: "harness_manifest \<Rightarrow> run_spec \<Rightarrow> string list res" where
  "child_command m spec = render_command agent_fields (command_context spec False) (command (hm_execution m))"

definition agent_command :: "adapter_env \<Rightarrow> harness_manifest \<Rightarrow> run_spec \<Rightarrow> string list res" where
  "agent_command env m spec =
     rbind (coding_of m) (\<lambda>c. rbind (child_command m spec) (\<lambda>child.
     rbind (build_runner_config (spec_run_id spec) (task (scenario spec)) child c) (\<lambda>cfg.
       Inr ([''skill-native-coding-runner'', ''--config-b64'', encode_runner_config (dump_json env) cfg, ''--'']
            @ child))))"

definition agent_stdin :: "harness_manifest \<Rightarrow> run_spec \<Rightarrow> string option res" where
  "agent_stdin m spec = rbind (coding_of m) (\<lambda>c.
     let t = task (scenario spec) in guards
       [(t = [], HarnessContractError ''coding.agent.v1 requires a non-empty scenario.task''),
        (max_task_bytes c < int (length (utf8 t)),
          HarnessContractError ''scenario.task exceeds coding.max_task_bytes'')] (Some t))"

definition mismatches :: "(bool \<times> string) list \<Rightarrow> string list" where
  "mismatches cs = map snd (filter fst cs)"

definition coding_mismatches ::
  "coding_contract \<Rightarrow> harness_plan \<Rightarrow> string list \<Rightarrow> agent_receipt \<Rightarrow> string list" where
  "coding_mismatches c p child r = mismatches
     [(rr_run_id r \<noteq> hp_run_id p, ''run_id''),
      (rr_driver r \<noteq> cc_driver c, ''driver''),
      (rr_driver_version r \<noteq> cc_driver_version c, ''driver_version''),
      (rr_contract_digest r \<noteq> contract_digest c, ''contract_digest''),
      (Some (rr_task_digest r) \<noteq> hp_stdin_digest p, ''task_digest''),
      (rr_child_command_digest r \<noteq> child_command_digest child, ''child_command_digest''),
      (pr_argv (agent_process r) \<noteq> child, ''agent_process.argv''),
      (pr_argv (version_probe r) \<noteq> version_command c, ''version_probe.argv''),
      (map pr_argv (rr_test_results r) \<noteq> test_commands c, ''test_results.argv''),
      (map_of (policy_checks r) ''changed_file_budget''
         \<noteq> Some (changed_files (rr_workspace_diff r) \<le> max_changed_files c), ''changed_file_budget''),
      (map_of (policy_checks r) ''changed_byte_budget''
         \<noteq> Some (changed_bytes (rr_workspace_diff r) \<le> max_changed_bytes c), ''changed_byte_budget'')]"

definition accept_coding_receipt ::
  "adapter_env \<Rightarrow> harness_manifest \<Rightarrow> harness_plan \<Rightarrow> evidence_bundle \<Rightarrow> agent_receipt res" where
  "accept_coding_receipt env m p e =
     rbind (coding_of m) (\<lambda>c.
     rbind (parse_coding_receipt (decode_coding env) (ev_stdout e)) (\<lambda>r.
     rbind (child_command m (hp_run_spec p)) (\<lambda>child.
       let bad = coding_mismatches c p child r in
       if bad \<noteq> []
       then Inl (ValueError (''coding receipt does not preserve the plan: '' @ join '', '' bad))
       else Inr r)))"

definition failed_receipt :: "string list \<Rightarrow> string \<Rightarrow> exn \<Rightarrow> evidence_bundle \<Rightarrow> evidence_bundle" where
  "failed_receipt names key exc e =
     e\<lparr>assertions := dict_update (assertions e) (map (\<lambda>n. (n, False)) names),
       runtime_metadata := dict_set key (JObj [(''receipt_valid'', JBool False),
         (''error'', JStr (describe_exn exc))]) (runtime_metadata e)\<rparr>"

definition accepted_coding :: "agent_receipt \<Rightarrow> evidence_bundle \<Rightarrow> evidence_bundle" where
  "accepted_coding r e =
     (let d = rr_workspace_diff r; pass = (outcome r = ''pass'') in
      mark_evidence_captured (e\<lparr>
        assertions := dict_update (assertions e)
          [(''coding_receipt_valid'', True), (''coding_outcome_pass'', pass),
           (''coding_policy_pass'', list_all snd (policy_checks r)),
           (''coding_wrapper_exit_consistent'', pass = (exit_code e = Some 0)),
           (''coding_tests_passed'', list_all passed (rr_test_results r)),
           (''coding_changes_allowed'', disallowed_paths d = [] \<and> protected_paths d = []),
           (''coding_driver_verified'', passed (version_probe r))],
        runtime_metadata := dict_set ''coding_agent'' (JObj
          [(''receipt_valid'', JBool True), (''receipt_digest'', JStr (receipt_digest r)),
           (''runner_version'', JStr ''1.0''), (''driver'', JStr (driver_value (rr_driver r))),
           (''driver_version'', JStr (rr_driver_version r)), (''outcome'', JStr (outcome r)),
           (''raw_event_count'', JInt (raw_event_count r)),
           (''event_parse_error'', opt_str (event_parse_error r)),
           (''changed_files'', JInt (changed_files d)), (''changed_bytes'', JInt (changed_bytes d))])
          (runtime_metadata e),
        coding_receipt := receipt_obj r, agent_events := rr_agent_events r,
        workspace_diff := obj_items (diff_json d),
        test_results := map (\<lambda>t. obj_items (process_json t)) (rr_test_results r)\<rparr>) agent_kinds None)"

definition coding_failure_names :: "string list" where
  "coding_failure_names = [''coding_receipt_valid'', ''coding_outcome_pass'', ''coding_policy_pass'',
     ''coding_wrapper_exit_consistent'']"

definition agent_normalize ::
  "adapter_env \<Rightarrow> harness_manifest \<Rightarrow> harness_plan \<Rightarrow> evidence_bundle \<Rightarrow> evidence_bundle res" where
  "agent_normalize env m p e = (case accept_coding_receipt env m p e of
     Inl exc \<Rightarrow> Inr (failed_receipt coding_failure_names ''coding_agent'' exc e)
   | Inr r \<Rightarrow> Inr (accepted_coding r e))"

definition agent_checks :: "(string \<times> string \<times> string) list" where
  "agent_checks =
     [(''domain:coding-receipt-continuity'', ''coding_receipt_valid'',
       ''coding receipt is valid and preserves the compiled plan''),
      (''domain:coding-outcome'', ''coding_outcome_pass'',
       ''coding agent, deterministic tests, and workspace policy passed''),
      (''domain:coding-policy'', ''coding_policy_pass'',
       ''all trusted coding-runner policy checks passed''),
      (''domain:coding-wrapper-exit'', ''coding_wrapper_exit_consistent'',
       ''wrapper exit status is consistent with the coding receipt'')]"

definition coding_agent_adapter :: "adapter_env \<Rightarrow> domain_adapter" where
  "coding_agent_adapter env = \<lparr>da_id = ''coding.agent.v1'', da_domain = DCoding, da_evidence = agent_kinds,
     da_command = agent_command env, da_stdin = agent_stdin, da_normalize = agent_normalize env,
     da_verify = (\<lambda>_ _ e. map (assertion_check ''coding_agent'' e) agent_checks)\<rparr>"

section \<open>The browser adapter\<close>

definition browser_of :: "harness_manifest \<Rightarrow> browser_contract res" where
  "browser_of m = (case hm_browser m of
     None \<Rightarrow> Inl (HarnessContractError ''browser.playwright.v1 requires a browser contract'')
   | Some c \<Rightarrow> Inr c)"

definition browser_command :: "harness_manifest \<Rightarrow> run_spec \<Rightarrow> string list res" where
  "browser_command m spec = rbind (browser_of m) (\<lambda>_.
     Inr [''skill-native-browser-runner'', ''--config-stdin''])"

definition browser_stdin :: "harness_manifest \<Rightarrow> run_spec \<Rightarrow> string option res" where
  "browser_stdin m spec = rbind (browser_of m) (\<lambda>c.
     rbind (build_browser_runner_config (spec_run_id spec) c) (\<lambda>cfg.
       Inr (Some (dumps (browser_config_json cfg)))))"

definition browser_mismatches ::
  "browser_contract \<Rightarrow> harness_plan \<Rightarrow> browser_config \<Rightarrow> browser_receipt \<Rightarrow> string list" where
  "browser_mismatches c p cfg r = mismatches
     [(br_run_id r \<noteq> hp_run_id p, ''run_id''),
      (br_config_digest r \<noteq> bcfg_config_digest cfg, ''config_digest''),
      (br_contract_digest r \<noteq> browser_contract_digest c, ''contract_digest''),
      (br_action_plan_digest r \<noteq> browser_action_plan_digest (actions c), ''action_plan_digest''),
      (hp_stdin_digest p \<noteq> Some (text_digest (dumps (browser_config_json cfg))), ''stdin_digest''),
      (br_driver_version r \<noteq> bc_driver_version c, ''driver_version''),
      (br_browser r \<noteq> bc_browser c, ''browser''),
      (br_headless r \<noteq> bc_headless c, ''headless''),
      (max_pages c < page_count r, ''page_count''),
      (max_events c < int (length (br_events r)), ''events''),
      (max_network_events c < int (length (network_events r)), ''network_events'')]"

definition accept_browser_receipt ::
  "adapter_env \<Rightarrow> harness_manifest \<Rightarrow> harness_plan \<Rightarrow> evidence_bundle
    \<Rightarrow> (browser_contract \<times> browser_receipt) res" where
  "accept_browser_receipt env m p e =
     rbind (browser_of m) (\<lambda>c.
     rbind (parse_browser_receipt (decode_browser env) (ev_stdout e)) (\<lambda>r.
     rbind (build_browser_runner_config (hp_run_id p) c) (\<lambda>cfg.
       let bad = browser_mismatches c p cfg r in
       if bad \<noteq> []
       then Inl (BrowserContractError
         (''browser receipt does not preserve the compiled plan: '' @ join '', '' bad))
       else Inr (c, r))))"

text \<open>Checking the artifact files: the running total of their bytes, or the first error.\<close>

fun check_artifact_files ::
  "adapter_env \<Rightarrow> browser_contract \<Rightarrow> string \<Rightarrow> string list \<Rightarrow> int \<Rightarrow> browser_artifact list \<Rightarrow> int res" where
  "check_artifact_files env c dir seen acc [] = Inr acc"
| "check_artifact_files env c dir seen acc (a # as) =
     (if ba_path a \<in> set seen
      then Inl (BrowserContractError ''browser receipt contains duplicate artifact paths'')
      else case probe_file env dir (ba_path a) of
        OutsideRoot \<Rightarrow> Inl (BrowserContractError ''browser artifact escapes trusted root'')
      | NoFile m \<Rightarrow> Inl (OSError m)
      | NotRegular \<Rightarrow> Inl (BrowserContractError ''browser artifact is not a regular file'')
      | FileBytes content \<Rightarrow>
          if int (length content) \<noteq> ba_bytes a
          then Inl (BrowserContractError ''browser artifact size does not match receipt'')
          else if sha256 content \<noteq> ba_sha256 a
          then Inl (BrowserContractError ''browser artifact digest does not match receipt'')
          else if ba_kind a = ''download'' \<and> max_download_bytes c < ba_bytes a
          then Inl (BrowserContractError ''browser download exceeds byte budget'')
          else check_artifact_files env c dir (seen @ [ba_path a]) (acc + ba_bytes a) as)"

definition has_kind :: "string \<Rightarrow> browser_artifact list \<Rightarrow> bool" where
  "has_kind k as \<longleftrightarrow> list_ex (\<lambda>a. ba_kind a = k) as"

definition validate_artifacts ::
  "adapter_env \<Rightarrow> browser_contract \<Rightarrow> string \<Rightarrow> browser_artifact list \<Rightarrow> json dict \<Rightarrow> bool
    \<Rightarrow> (string \<times> int) res" where
  "validate_artifacts env c rid as metadata whole =
     (case jget_null metadata ''workspace_root'' of
        JStr ws \<Rightarrow>
          if ws = [] then Inl (BrowserContractError
            ''browser artifact verification requires trusted workspace_root metadata'')
          else (let rp = probe_root env ws (artifact_root c) rid in
            rbind (guards
              [(\<not> rp_inside rp, BrowserContractError ''browser artifact root escapes workspace''),
               (\<not> rp_usable rp, BrowserContractError ''browser artifact root is missing or unsafe'')] ()) (\<lambda>_.
            rbind (check_artifact_files env c (rp_path rp) [] 0 as) (\<lambda>total. guards
              [(max_artifact_bytes c < total,
                  BrowserContractError ''browser artifacts exceed total byte budget''),
               (whole \<and> capture_dom c \<and> \<not> has_kind ''dom'' as,
                  BrowserContractError ''browser receipt is missing mandatory DOM artifact''),
               (whole \<and> capture_aria c \<and> \<not> has_kind ''aria'' as,
                  BrowserContractError ''browser receipt is missing mandatory ARIA artifact''),
               (whole \<and> final_screenshot c \<and> \<not> has_kind ''screenshot'' as,
                  BrowserContractError ''browser receipt is missing mandatory screenshot'')]
              (rp_path rp, total))))
      | _ \<Rightarrow> Inl (BrowserContractError
            ''browser artifact verification requires trusted workspace_root metadata''))"

definition artifacts_of_kind :: "string \<Rightarrow> browser_artifact list \<Rightarrow> json dict list" where
  "artifacts_of_kind k as = map artifact_obj (filter (\<lambda>a. ba_kind a = k) as)"

definition single_artifact :: "json dict list \<Rightarrow> json dict res" where
  "single_artifact vs = (case vs of [] \<Rightarrow> Inr [] | [v] \<Rightarrow> Inr v
     | _ \<Rightarrow> Inl (BrowserContractError ''browser receipt contains duplicate singular artifacts''))"

definition normalized_event :: "nat \<Rightarrow> json dict \<Rightarrow> json dict" where
  "normalized_event i ev = (let payload = dict_update [(''sequence'', JInt (int i))] ev
     in dict_set ''evidence_id'' (JStr (canonical_digest (JObj payload))) payload)"

definition browser_failure_names :: "string list" where
  "browser_failure_names = [''browser_receipt_valid'', ''browser_outcome_pass'', ''browser_policy_pass'',
     ''browser_artifacts_valid'', ''browser_wrapper_exit_consistent'']"

definition receipt_evidence_kinds :: "string list" where
  "receipt_evidence_kinds = [''network'', ''browser_receipt'', ''browser_events'', ''network_trace'',
     ''browser_assertions'']"

definition accepted_browser ::
  "browser_contract \<Rightarrow> browser_receipt \<Rightarrow> (string \<times> int) res \<Rightarrow> evidence_bundle \<Rightarrow> evidence_bundle res" where
  "accepted_browser c r files e =
     (let ok = (case files of Inl _ \<Rightarrow> False | Inr _ \<Rightarrow> True);
          kind = (\<lambda>k. if ok then artifacts_of_kind k (artifacts r) else []);
          pass = (br_outcome r = ''pass'')
      in rbind (single_artifact (kind ''dom'')) (\<lambda>dom.
         rbind (single_artifact (kind ''aria'')) (\<lambda>aria.
           let shots = kind ''screenshot''; downs = kind ''download'' in
           Inr (mark_evidence_captured (e\<lparr>
             assertions := dict_update (assertions e)
               [(''browser_receipt_valid'', True), (''browser_outcome_pass'', pass),
                (''browser_policy_pass'', list_all snd (br_policy_checks r) \<and> violations r = []),
                (''browser_artifacts_valid'', ok),
                (''browser_wrapper_exit_consistent'', pass = (exit_code e = Some 0)),
                (''browser_driver_verified'', br_driver_version r = bc_driver_version c),
                (''browser_assertions_passed'', list_all snd (br_assertions r))],
             runtime_metadata := dict_set ''browser'' (JObj
               [(''receipt_valid'', JBool True), (''receipt_digest'', JStr (br_receipt_digest r)),
                (''runner_version'', JStr (br_runner_version r)), (''driver'', JStr ''playwright-python''),
                (''driver_version'', JStr (br_driver_version r)), (''browser'', JStr (br_browser r)),
                (''browser_version'', JStr (br_browser_version r)), (''headless'', JBool (br_headless r)),
                (''outcome'', JStr (br_outcome r)), (''final_url'', JStr (final_url r)),
                (''page_count'', JInt (page_count r)),
                (''artifact_root'', (case files of Inl _ \<Rightarrow> JNull | Inr (dir, _) \<Rightarrow> JStr dir)),
                (''artifact_bytes'', (case files of Inl _ \<Rightarrow> JInt 0 | Inr (_, n) \<Rightarrow> JInt n)),
                (''artifact_validation_error'', (case files of Inl x \<Rightarrow> JStr (describe_exn x) | Inr _ \<Rightarrow> JNull))])
               (runtime_metadata e),
             network := map (\<lambda>(i, ev). normalized_event i ev) (enumerate 0 (network_events r)),
             browser_receipt := browser_receipt_obj r,
             browser_events := map (\<lambda>ev. obj_items (event_json ev)) (br_events r),
             dom_snapshot := dom, accessibility_snapshot := aria,
             network_trace := network_events r, screenshots := shots, downloads := downs,
             browser_assertions := br_assertions r\<rparr>)
             (receipt_evidence_kinds
               @ (if ok \<and> dom \<noteq> [] then [''dom_snapshot''] else [])
               @ (if ok \<and> aria \<noteq> [] then [''accessibility_snapshot''] else [])
               @ (if ok \<and> shots \<noteq> [] then [''screenshots''] else [])
               @ (if ok \<and> downs \<noteq> [] then [''downloads''] else [])) None))))"

definition browser_normalize ::
  "adapter_env \<Rightarrow> harness_manifest \<Rightarrow> harness_plan \<Rightarrow> evidence_bundle \<Rightarrow> evidence_bundle res" where
  "browser_normalize env m p e = (case accept_browser_receipt env m p e of
     Inl exc \<Rightarrow> Inr (failed_receipt browser_failure_names ''browser'' exc e)
   | Inr (c, r) \<Rightarrow> accepted_browser c r
       (validate_artifacts env c (hp_run_id p) (artifacts r) (runtime_metadata e) (br_outcome r = ''pass'')) e)"

definition browser_kinds :: "string list" where
  "browser_kinds = [''network'', ''browser_receipt'', ''browser_events'', ''dom_snapshot'',
     ''accessibility_snapshot'', ''network_trace'', ''screenshots'', ''downloads'', ''browser_assertions'']"

definition browser_checks :: "(string \<times> string \<times> string) list" where
  "browser_checks =
     [(''domain:browser-receipt-continuity'', ''browser_receipt_valid'',
       ''browser receipt is valid and preserves the compiled plan''),
      (''domain:browser-outcome'', ''browser_outcome_pass'', ''browser actions and final assertions passed''),
      (''domain:browser-policy'', ''browser_policy_pass'',
       ''origin, page, event, artifact, and side-effect policies passed''),
      (''domain:browser-artifacts'', ''browser_artifacts_valid'',
       ''browser artifacts remain inside the trusted root and match their digests''),
      (''domain:browser-wrapper-exit'', ''browser_wrapper_exit_consistent'',
       ''wrapper exit status is consistent with the browser receipt'')]"

definition browser_adapter :: "adapter_env \<Rightarrow> domain_adapter" where
  "browser_adapter env = \<lparr>da_id = ''browser.playwright.v1'', da_domain = DBrowser,
     da_evidence = browser_kinds, da_command = browser_command, da_stdin = browser_stdin,
     da_normalize = browser_normalize env,
     da_verify = (\<lambda>_ _ e. map (assertion_check ''browser_playwright'' e) browser_checks)\<rparr>"

section \<open>The registry\<close>

type_synonym registry = "domain_adapter dict"

definition register :: "domain_adapter \<Rightarrow> registry \<Rightarrow> registry res" where
  "register a reg = guards
     [(da_id a = [], HarnessContractError ''domain adapter id must not be empty''),
      (da_id a \<in> set (dict_keys reg), HarnessContractError (''duplicate domain adapter: '' @ da_id a))]
     (dict_set (da_id a) a reg)"

fun register_all :: "domain_adapter list \<Rightarrow> registry \<Rightarrow> registry res" where
  "register_all [] reg = Inr reg"
| "register_all (a # as) reg = rbind (register a reg) (register_all as)"

definition require :: "registry \<Rightarrow> string \<Rightarrow> domain_adapter res" where
  "require reg i = (case map_of reg i of
     None \<Rightarrow> Inl (HarnessContractError (''unknown domain adapter: '' @ i))
   | Some a \<Rightarrow> Inr a)"

definition default_registry :: "adapter_env \<Rightarrow> registry res" where
  "default_registry env =
     register_all [coding_command_adapter, coding_agent_adapter env, browser_adapter env] []"

lemma default_registry_Inr: "default_registry env = Inr
    [(''coding.command.v1'', coding_command_adapter), (''coding.agent.v1'', coding_agent_adapter env),
     (''browser.playwright.v1'', browser_adapter env)]"
  by (simp add: default_registry_def register_def guards.simps dict_keys_def coding_command_adapter_def
      coding_agent_adapter_def browser_adapter_def base_adapter_def)

text \<open>A registry maps every identifier to an adapter of that identifier.\<close>

definition registry_ok :: "registry \<Rightarrow> bool" where
  "registry_ok reg \<longleftrightarrow> (\<forall>i a. map_of reg i = Some a \<longrightarrow> da_id a = i \<and> i \<noteq> [])"

lemma register_ok: "\<lbrakk>registry_ok reg; register a reg = Inr reg'\<rbrakk> \<Longrightarrow> registry_ok reg'"
  by (fastforce simp: registry_ok_def register_def guard_simps split: if_splits)

lemma register_all_ok: "\<lbrakk>registry_ok reg; register_all as reg = Inr reg'\<rbrakk> \<Longrightarrow> registry_ok reg'"
  by (induction as arbitrary: reg) (auto simp: rbind_Inr_iff dest: register_ok)

end
