(* ===== verification/Runtime.thy ===== *)
theory Runtime
  imports HarnessContract
begin

text \<open>
  \<open>runtime.py\<close>: the capability and evidence profiles of the runtime backends, the interface every
  runtime adapter offers to the kernel (a record of state-passing operations, each of which may raise),
  and the deterministic \<open>FakeRuntime\<close>. The contract the kernel relies on is the locale
  \<open>faithful_runtime\<close>; the fake runtime is interpreted in it.
\<close>

section \<open>Capabilities\<close>

record capability_set =
  kernel_or_vm_isolation :: bool
  network_deny_by_default :: bool
  l7_http_policy :: bool
  filesystem_policy :: bool
  brokered_secrets :: bool
  process_telemetry :: bool
  snapshot_restore :: bool
  persistent_filesystem :: bool
  cap_gpu :: bool
  network_telemetry :: bool
  stdin_stream :: bool

text \<open>\<open>dataclasses.asdict\<close>, and \<open>getattr(capabilities, name)\<close>.\<close>

definition capabilities_dict :: "capability_set \<Rightarrow> bool dict" where
  "capabilities_dict c = [(''kernel_or_vm_isolation'', kernel_or_vm_isolation c),
     (''network_deny_by_default'', network_deny_by_default c), (''l7_http_policy'', l7_http_policy c),
     (''filesystem_policy'', filesystem_policy c), (''brokered_secrets'', brokered_secrets c),
     (''process_telemetry'', process_telemetry c), (''snapshot_restore'', snapshot_restore c),
     (''persistent_filesystem'', persistent_filesystem c), (''gpu'', cap_gpu c),
     (''network_telemetry'', network_telemetry c), (''stdin_stream'', stdin_stream c)]"

definition has_capability :: "capability_set \<Rightarrow> runtime_capability \<Rightarrow> bool" where
  "has_capability c k = (case map_of (capabilities_dict c) (capability_value k) of
     None \<Rightarrow> False | Some b \<Rightarrow> b)"

definition fake_capabilities :: capability_set where
  "fake_capabilities = \<lparr>kernel_or_vm_isolation = False, network_deny_by_default = True,
     l7_http_policy = False, filesystem_policy = True, brokered_secrets = True,
     process_telemetry = False, snapshot_restore = False, persistent_filesystem = False,
     cap_gpu = False, network_telemetry = False, stdin_stream = True\<rparr>"

definition openshell_capabilities :: capability_set where
  "openshell_capabilities = \<lparr>kernel_or_vm_isolation = True, network_deny_by_default = True,
     l7_http_policy = True, filesystem_policy = True, brokered_secrets = True,
     process_telemetry = True, snapshot_restore = False, persistent_filesystem = True,
     cap_gpu = True, network_telemetry = True, stdin_stream = True\<rparr>"

definition cloudflare_capabilities :: capability_set where
  "cloudflare_capabilities = \<lparr>kernel_or_vm_isolation = True, network_deny_by_default = True,
     l7_http_policy = True, filesystem_policy = True, brokered_secrets = True,
     process_telemetry = False, snapshot_restore = False, persistent_filesystem = True,
     cap_gpu = False, network_telemetry = True, stdin_stream = False\<rparr>"

definition fake_evidence :: "string list" where
  "fake_evidence = [''exit_code'', ''stdout'', ''stderr'', ''commands'', ''assertions'', ''runtime_metadata'']"

definition openshell_evidence :: "string list" where
  "openshell_evidence = [''exit_code'', ''stdout'', ''stderr'', ''commands'', ''processes'', ''network'',
     ''filesystem_before'', ''filesystem_after'', ''assertions'', ''findings'', ''runtime_metadata'',
     ''policy'', ''ocsf_events'']"

definition cloudflare_evidence :: "string list" where
  "cloudflare_evidence = [''exit_code'', ''stdout'', ''stderr'', ''commands'', ''network'',
     ''filesystem_before'', ''filesystem_after'', ''assertions'', ''runtime_metadata'']"

fun runtime_capabilities_for :: "runtime_backend \<Rightarrow> capability_set res" where
  "runtime_capabilities_for Fake = Inr fake_capabilities"
| "runtime_capabilities_for Openshell = Inr openshell_capabilities"
| "runtime_capabilities_for Cloudflare = Inr cloudflare_capabilities"
| "runtime_capabilities_for Enroot =
     Inl (ValueError (''no capability profile for runtime backend: '' @ backend_value Enroot))"

fun runtime_evidence_for :: "runtime_backend \<Rightarrow> string list res" where
  "runtime_evidence_for Fake = Inr fake_evidence"
| "runtime_evidence_for Openshell = Inr openshell_evidence"
| "runtime_evidence_for Cloudflare = Inr cloudflare_evidence"
| "runtime_evidence_for Enroot =
     Inl (ValueError (''no evidence profile for runtime backend: '' @ backend_value Enroot))"

section \<open>The adapter interface\<close>

type_synonym ('s, 'a) step = "'s \<Rightarrow> 'a res \<times> 's"

record 's runtime_adapter =
  ra_backend :: runtime_backend
  ra_capabilities :: capability_set
  ra_evidence :: "string list"
  ra_prepare :: "run_spec \<Rightarrow> ('s, string) step"
  ra_execute :: "string \<Rightarrow> string list \<Rightarrow> string option \<Rightarrow> ('s, string) step"
  ra_collect :: "string \<Rightarrow> string \<Rightarrow> ('s, evidence_bundle) step"
  ra_destroy :: "string \<Rightarrow> ('s, unit) step"

section \<open>FakeRuntime\<close>

record fake_run =
  fr_spec :: run_spec
  fr_commands :: "json dict list"

type_synonym fake_state = "fake_run dict"

definition fake_sandbox_id :: "run_spec \<Rightarrow> string" where
  "fake_sandbox_id s = ''fake:'' @ spec_run_id s"

definition fake_prepare :: "run_spec \<Rightarrow> (fake_state, string) step" where
  "fake_prepare s st =
     (Inr (fake_sandbox_id s), dict_set (fake_sandbox_id s) \<lparr>fr_spec = s, fr_commands = []\<rparr> st)"

definition command_record :: "string \<Rightarrow> string list \<Rightarrow> string option \<Rightarrow> json dict" where
  "command_record eid argv stdin = [(''execution_id'', JStr eid), (''argv'', strs argv),
     (''requested_argv'', strs argv), (''stdin_digest'', opt_str (map_option text_digest stdin)),
     (''exit_code'', JInt 0)]"

definition fake_execute :: "string \<Rightarrow> string list \<Rightarrow> string option \<Rightarrow> (fake_state, string) step" where
  "fake_execute sid argv stdin st = (case map_of st sid of
     None \<Rightarrow> (Inl (KeyError sid), st)
   | Some run \<Rightarrow>
       (let eid = sid @ '':exec:'' @ show_nat (length (fr_commands run))
        in (Inr eid, dict_set sid (run\<lparr>fr_commands := fr_commands run @ [command_record eid argv stdin]\<rparr>) st)))"

text \<open>\<open>s.split(sep, 1)[0]\<close>: the text before the first occurrence of the separator.\<close>

fun before_first :: "string \<Rightarrow> string \<Rightarrow> string" where
  "before_first sep [] = []"
| "before_first sep (c # cs) = (if starts_with (c # cs) sep then [] else c # before_first sep cs)"

definition fake_bundle :: "string \<Rightarrow> fake_run \<Rightarrow> evidence_bundle" where
  "fake_bundle rid run = (empty_evidence rid)\<lparr>
     ev_provenance_digest := provenance_digest (skill (fr_spec run)), exit_code := Some 0,
     ev_stdout := ''fake runtime execution'' @ [CHR 0x0A], commands := fr_commands run,
     assertions := [(''runtime_completed'', True)],
     runtime_metadata := [(''backend'', JStr ''fake''), (''verification_state'', JStr ''deterministic-mock'')]\<rparr>"

definition fake_collect :: "string \<Rightarrow> string \<Rightarrow> (fake_state, evidence_bundle) step" where
  "fake_collect rid eid st = (case map_of st (before_first '':exec:'' eid) of
     None \<Rightarrow> (Inl (KeyError (before_first '':exec:'' eid)), st)
   | Some run \<Rightarrow> (Inr (mark_evidence_captured (fake_bundle rid run) fake_evidence
       (Some (backend_value Fake))), st))"

definition fake_destroy :: "string \<Rightarrow> (fake_state, unit) step" where
  "fake_destroy sid st = (Inr (), dict_pop sid st)"

definition fake_runtime :: "fake_state runtime_adapter" where
  "fake_runtime = \<lparr>ra_backend = Fake, ra_capabilities = fake_capabilities, ra_evidence = fake_evidence,
     ra_prepare = fake_prepare, ra_execute = fake_execute, ra_collect = fake_collect,
     ra_destroy = fake_destroy\<rparr>"

section \<open>Controllers\<close>

text \<open>
  \<open>OpenShellRuntime\<close> and \<open>CloudflareRuntime\<close> delegate to a controller; they mark the evidence they
  collect and, for Cloudflare, refuse an input stream. A \<open>TypeError\<close> of an OpenShell controller that
  takes no input becomes a \<open>ValueError\<close>.
\<close>

record 's controller =
  ct_prepare :: "run_spec \<Rightarrow> ('s, string) step"
  ct_execute :: "string \<Rightarrow> string list \<Rightarrow> string option \<Rightarrow> ('s, string) step"
  ct_collect :: "string \<Rightarrow> string \<Rightarrow> ('s, evidence_bundle) step"
  ct_destroy :: "string \<Rightarrow> ('s, unit) step"

definition marked_collect ::
  "'s controller \<Rightarrow> string list \<Rightarrow> runtime_backend \<Rightarrow> string \<Rightarrow> string \<Rightarrow> ('s, evidence_bundle) step" where
  "marked_collect c kinds b rid eid st = (case ct_collect c rid eid st of
     (Inl e, st') \<Rightarrow> (Inl e, st')
   | (Inr ev, st') \<Rightarrow> (Inr (mark_evidence_captured ev kinds (Some (backend_value b))), st'))"

definition openshell_execute ::
  "'s controller \<Rightarrow> string \<Rightarrow> string list \<Rightarrow> string option \<Rightarrow> ('s, string) step" where
  "openshell_execute c sid argv stdin st = (case ct_execute c sid argv stdin st of
     (Inl (TypeError m), st') \<Rightarrow>
       (Inl (if stdin = None then TypeError m
             else ValueError ''configured OpenShell controller does not support stdin streaming''), st')
   | r \<Rightarrow> r)"

definition openshell_runtime :: "'s controller \<Rightarrow> 's runtime_adapter" where
  "openshell_runtime c = \<lparr>ra_backend = Openshell, ra_capabilities = openshell_capabilities,
     ra_evidence = openshell_evidence, ra_prepare = ct_prepare c, ra_execute = openshell_execute c,
     ra_collect = marked_collect c openshell_evidence Openshell, ra_destroy = ct_destroy c\<rparr>"

definition cloudflare_execute ::
  "'s controller \<Rightarrow> string \<Rightarrow> string list \<Rightarrow> string option \<Rightarrow> ('s, string) step" where
  "cloudflare_execute c sid argv stdin st =
     (if stdin \<noteq> None
      then (Inl (ValueError ''Cloudflare runtime bridge does not support stdin streaming''), st)
      else ct_execute c sid argv None st)"

definition cloudflare_runtime :: "'s controller \<Rightarrow> 's runtime_adapter" where
  "cloudflare_runtime c = \<lparr>ra_backend = Cloudflare, ra_capabilities = cloudflare_capabilities,
     ra_evidence = cloudflare_evidence, ra_prepare = ct_prepare c, ra_execute = cloudflare_execute c,
     ra_collect = marked_collect c cloudflare_evidence Cloudflare, ra_destroy = ct_destroy c\<rparr>"

section \<open>What the kernel relies on\<close>

definition records_command :: "string list \<Rightarrow> string option \<Rightarrow> json dict \<Rightarrow> bool" where
  "records_command argv stdin r \<longleftrightarrow>
     jget_default r ''requested_argv'' (jget_null r ''argv'') = strs argv
     \<and> jget_null r ''stdin_digest'' = opt_str (map_option text_digest stdin)"

text \<open>
  A faithful runtime: for an accepted specification, a prepared sandbox executes a command and the
  evidence collected for it carries the run id, the provenance digest, the backend and a record of
  the command and its input; destroying the sandbox leaves a state that \<open>leaves\<close> relates to the one
  before \<open>prepare\<close>.
\<close>

locale faithful_runtime =
  fixes rt :: "'s runtime_adapter" and accepts :: "run_spec \<Rightarrow> 's \<Rightarrow> bool" and leaves :: "'s \<Rightarrow> 's \<Rightarrow> bool"
  assumes leaves_refl: "leaves st st"
    and round: "accepts spec st \<Longrightarrow> \<exists>sid st1 eid st2 ev st3 st4.
      ra_prepare rt spec st = (Inr sid, st1) \<and>
      ra_execute rt sid argv stdin st1 = (Inr eid, st2) \<and>
      ra_collect rt (spec_run_id spec) eid st2 = (Inr ev, st3) \<and>
      ra_destroy rt sid st3 = (Inr (), st4) \<and> leaves st st4 \<and>
      ev_run_id ev = spec_run_id spec \<and>
      ev_provenance_digest ev = provenance_digest (skill spec) \<and>
      map_of (runtime_metadata ev) ''runtime_backend'' = Some (JStr (backend_value (ra_backend rt))) \<and>
      (\<exists>r \<in> set (commands ev). records_command argv stdin r) \<and>
      set (ra_evidence rt) \<subseteq> set (captured_evidence ev)"
begin

lemma destroys: "accepts spec st \<Longrightarrow> \<exists>sid st1 eid st2 ev st3 st4.
    ra_prepare rt spec st = (Inr sid, st1) \<and> ra_execute rt sid argv stdin st1 = (Inr eid, st2) \<and>
    ra_collect rt (spec_run_id spec) eid st2 = (Inr ev, st3) \<and> ra_destroy rt sid st3 = (Inr (), st4) \<and> leaves st st4"
  using round by blast

end

lemma before_first_append:
  "\<not> contains (s @ butlast sep) sep \<Longrightarrow> sep \<noteq> [] \<Longrightarrow> before_first sep (s @ sep @ t) = s"
proof (induction s)
  case Nil
  then show ?case by (cases sep) (auto simp: starts_with_def)
next
  case (Cons c s)
  have "\<not> starts_with (c # s @ sep @ t) sep"
  proof
    assume "starts_with (c # s @ sep @ t) sep"
    then have eq: "take (length sep) (c # s @ sep @ t) = sep" by (simp add: starts_with_def)
    have "length sep \<le> length (c # s @ butlast sep)" using Cons.prems(2) by simp
    moreover have "c # s @ sep @ t = (c # s @ butlast sep) @ [last sep] @ t"
      using Cons.prems(2) by simp
    ultimately have "take (length sep) (c # s @ butlast sep) = sep"
      using eq by (metis take_append diff_is_0_eq' append_Nil2 take_0)
    then have "starts_with (c # s @ butlast sep) sep" by (simp add: starts_with_def)
    with Cons.prems(1) show False by simp
  qed
  with Cons show ?case by simp
qed

text \<open>
  The fake runtime accepts a fresh specification whose run id does not end up being cut by
  \<open>split(":exec:", 1)\<close>.
\<close>

definition fake_accepts :: "run_spec \<Rightarrow> fake_state \<Rightarrow> bool" where
  "fake_accepts s st \<longleftrightarrow> fake_sandbox_id s \<notin> set (dict_keys st)
     \<and> \<not> contains (fake_sandbox_id s @ butlast '':exec:'') '':exec:''"

lemma dict_pop_set_fresh: "k \<notin> set (dict_keys d) \<Longrightarrow> dict_pop k (dict_set k v (dict_set k w d)) = d"
proof -
  assume k: "k \<notin> set (dict_keys d)"
  then have "dict_set k w d = d @ [(k, w)]"
    by (induction k w d rule: dict_set.induct) (auto simp: dict_keys_def)
  moreover have "dict_set k v (d @ [(k, w)]) = d @ [(k, v)]"
    using k by (induction d) (auto simp: dict_keys_def)
  ultimately show ?thesis using k dict_pop_absent [OF k] by (simp add: dict_pop_def)
qed

lemma fake_round:
  assumes "fake_accepts spec st"
  shows "\<exists>sid st1 eid st2 ev st3 st4.
      ra_prepare fake_runtime spec st = (Inr sid, st1) \<and>
      ra_execute fake_runtime sid argv stdin st1 = (Inr eid, st2) \<and>
      ra_collect fake_runtime (spec_run_id spec) eid st2 = (Inr ev, st3) \<and>
      ra_destroy fake_runtime sid st3 = (Inr (), st4) \<and> st4 = st \<and>
      ev_run_id ev = spec_run_id spec \<and>
      ev_provenance_digest ev = provenance_digest (skill spec) \<and>
      map_of (runtime_metadata ev) ''runtime_backend'' = Some (JStr (backend_value (ra_backend fake_runtime))) \<and>
      (\<exists>r \<in> set (commands ev). records_command argv stdin r) \<and>
      set (ra_evidence fake_runtime) \<subseteq> set (captured_evidence ev)"
proof -
  let ?sid = "fake_sandbox_id spec"
  let ?eid = "?sid @ '':exec:'' @ show_nat 0"
  have cut: "before_first '':exec:'' ?eid = ?sid"
    using assms by (intro before_first_append) (auto simp: fake_accepts_def)
  have fresh: "?sid \<notin> set (dict_keys st)" using assms by (simp add: fake_accepts_def)
  show ?thesis
    by (simp add: fake_runtime_def fake_prepare_def fake_execute_def fake_collect_def fake_destroy_def
        Let_def cut dict_pop_set_fresh [OF fresh] mark_runtime_backend fake_bundle_def empty_evidence_def
        records_command_def command_record_def jget_default_def jget_null_def del: append.simps)
qed

interpretation fake: faithful_runtime fake_runtime fake_accepts "\<lambda>st st'. st' = st"
  by unfold_locales (rule refl, rule fake_round)

end
