(* ===== verification/Kernel.thy ===== *)
theory Kernel
  imports Adapters Runtime
begin

text \<open>
  \<open>harness_kernel_impl.py\<close>: compiling a manifest and a run specification into a plan, running the plan
  on a runtime adapter, verifying the evidence into a verdict, and the content-addressed verdict store.
\<close>

section \<open>Compilation\<close>

definition mutable_refs :: "string list" where
  "mutable_refs = [''main'', ''master'', ''head'', ''latest'', ''pin_me'', ''none'']"

definition as_contract_error :: "'a res \<Rightarrow> 'a res" where
  "as_contract_error m = (case m of Inl (ValueError s) \<Rightarrow> Inl (HarnessContractError s) | _ \<Rightarrow> m)"

definition limit_pairs :: "limits \<Rightarrow> budget_contract \<Rightarrow> (string \<times> int \<times> int) list" where
  "limit_pairs l b =
     [(''timeout_seconds'', timeout_seconds l, b_timeout_seconds b),
      (''max_model_calls'', max_model_calls l, b_max_model_calls b),
      (''max_output_tokens'', max_output_tokens l, b_max_output_tokens b),
      (''max_network_requests'', max_network_requests l, b_max_network_requests b)]"

definition exceeded_limits :: "limits \<Rightarrow> budget_contract \<Rightarrow> (string \<times> int \<times> int) list" where
  "exceeded_limits l b = filter (\<lambda>(n, a, mx). mx < a) (limit_pairs l b)"

definition validate_limits :: "limits \<Rightarrow> budget_contract \<Rightarrow> unit res" where
  "validate_limits l b =
     (let ex = sort_key fst (exceeded_limits l b) in guards
       [(ex \<noteq> [], HarnessContractError (''RunSpec exceeds manifest budgets: '' @
          join '', '' (map (\<lambda>(n, a, mx). n @ ''='' @ show_int a @ ''>'' @ show_int mx) ex)))] ())"

definition missing_capabilities :: "harness_manifest \<Rightarrow> capability_set \<Rightarrow> string list" where
  "missing_capabilities m caps = map capability_value
     (filter (\<lambda>k. \<not> has_capability caps k) (required_capabilities (hm_environment m)))"

definition unsupported_evidence :: "harness_manifest \<Rightarrow> string list \<Rightarrow> domain_adapter \<Rightarrow> string list" where
  "unsupported_evidence m profile ad =
     sorted_set (filter (\<lambda>k. k \<notin> set (profile @ [''inference''] @ da_evidence ad))
       (map kind_value (capture (hm_evidence m))))"

definition entry_guards :: "harness_manifest \<Rightarrow> run_spec \<Rightarrow> domain_adapter \<Rightarrow> (bool \<times> exn) list" where
  "entry_guards m spec ad =
     [(da_domain ad \<noteq> hi_domain (hm_identity m), HarnessContractError (''adapter '' @ repr_str (da_id ad)
         @ '' serves '' @ repr_str (domain_value (da_domain ad)) @ '', not ''
         @ repr_str (domain_value (hi_domain (hm_identity m))))),
      (backend (runtime spec) \<notin> set (allowed_runtimes (hm_environment m)),
        HarnessContractError (''runtime '' @ repr_str (backend_value (backend (runtime spec)))
         @ '' is outside the manifest allowlist'')),
      (provenance_digest (skill spec) \<in> {None, Some []},
        HarnessContractError ''RunSpec.skill.provenance_digest is required for harness execution''),
      (lower (strip (commit_or_digest (skill spec))) \<in> set mutable_refs,
        HarnessContractError ''RunSpec.skill.commit_or_digest must be immutable'')]"

definition profile_guards ::
  "harness_manifest \<Rightarrow> run_spec \<Rightarrow> domain_adapter \<Rightarrow> capability_set \<Rightarrow> string list \<Rightarrow> (bool \<times> exn) list" where
  "profile_guards m spec ad caps profile =
     (let pol = policy spec; env = hm_environment m in
     [(missing_capabilities m caps \<noteq> [], HarnessContractError
        (''runtime is missing required capabilities: '' @ join '', '' (sort (missing_capabilities m caps)))),
      (snapshot_required (hm_replay m) \<and> \<not> snapshot_restore caps, HarnessContractError
        ''manifest requires snapshot replay but the runtime cannot snapshot/restore''),
      (unsupported_evidence m profile ad \<noteq> [], HarnessContractError
        (''runtime/harness cannot collect declared evidence: ''
          @ join '', '' (unsupported_evidence m profile ad))),
      (policy_network pol \<noteq> ''deny-by-default'', HarnessContractError (''RunSpec network policy ''
        @ repr_str (policy_network pol) @ '' does not satisfy '' @ repr_str ''deny-by-default'')),
      (policy_secrets pol \<noteq> ''brokered'', HarnessContractError (''RunSpec secret policy ''
        @ repr_str (policy_secrets pol) @ '' does not satisfy '' @ repr_str ''brokered'')),
      (policy_filesystem pol \<noteq> env_filesystem env, HarnessContractError (''RunSpec filesystem policy ''
        @ repr_str (policy_filesystem pol) @ '' does not satisfy '' @ repr_str (env_filesystem env)))])"

definition make_plan ::
  "harness_manifest \<Rightarrow> run_spec \<Rightarrow> domain_adapter \<Rightarrow> capability_set \<Rightarrow> string list \<Rightarrow> string option
    \<Rightarrow> harness_plan" where
  "make_plan m spec ad caps cmd stdin =
     (let p = \<lparr>hp_run_id = spec_run_id spec, manifest_id = hi_id (hm_identity m),
           manifest_version = hi_version (hm_identity m),
           hp_manifest_digest = canonical_digest (manifest_json m),
           hp_provenance_digest = the (provenance_digest (skill spec)),
           hp_domain = hi_domain (hm_identity m), hp_adapter = da_id ad,
           hp_runtime_backend = backend (runtime spec),
           runtime_capabilities = capabilities_dict caps, hp_run_spec = spec, hp_command = cmd,
           hp_stdin_digest = map_option text_digest stdin,
           required_evidence = required (hm_evidence m), hp_checks = hm_checks m,
           policy_digest = canonical_digest (policy_json (policy spec)),
           effective_limits = limits spec, hp_plan_digest = []\<rparr>
      in p\<lparr>hp_plan_digest := canonical_digest (JObj (plan_payload p))\<rparr>)"

definition compile_plan ::
  "registry \<Rightarrow> harness_manifest \<Rightarrow> run_spec \<Rightarrow> capability_set option \<Rightarrow> string list option
    \<Rightarrow> harness_plan res" where
  "compile_plan reg m spec caps_arg evidence_arg =
     rbind (require reg (adapter_name (hm_execution m))) (\<lambda>ad.
     rbind (guards (entry_guards m spec ad) ()) (\<lambda>_.
     rbind (as_contract_error (case caps_arg of Some c \<Rightarrow> Inr c
        | None \<Rightarrow> runtime_capabilities_for (backend (runtime spec)))) (\<lambda>caps.
     rbind (as_contract_error (case evidence_arg of Some ks \<Rightarrow> Inr ks
        | None \<Rightarrow> runtime_evidence_for (backend (runtime spec)))) (\<lambda>profile.
     rbind (guards (profile_guards m spec ad caps profile) ()) (\<lambda>_.
     rbind (validate_limits (limits spec) (hm_budgets m)) (\<lambda>_.
     rbind (da_command ad m spec) (\<lambda>cmd.
     if cmd = [] then Inl (HarnessContractError ''domain adapter compiled an empty command'')
     else rbind (da_stdin ad m spec) (\<lambda>stdin.
       if stdin \<noteq> None \<and> \<not> stdin_stream caps
       then Inl (HarnessContractError
         ''domain adapter requires stdin streaming but the runtime does not support it'')
       else validate_plan (make_plan m spec ad caps cmd stdin)))))))))"

section \<open>Verification\<close>

definition provenance_check :: "harness_plan \<Rightarrow> evidence_bundle \<Rightarrow> verification_result" where
  "provenance_check p e =
     (let ok = ev_provenance_digest e = Some (hp_provenance_digest p)
      in vresult ''provenance-continuity'' ''provenance'' ok
        (if ok then ''evidence preserves the planned provenance digest''
         else ''evidence provenance digest does not match the execution plan'')
        [(''planned'', JStr (hp_provenance_digest p)), (''observed'', opt_str (ev_provenance_digest e))])"

definition runtime_check :: "harness_plan \<Rightarrow> evidence_bundle \<Rightarrow> verification_result" where
  "runtime_check p e =
     (let seen = jget_null (runtime_metadata e) ''runtime_backend'';
          planned = JStr (backend_value (hp_runtime_backend p)); ok = py_eq seen planned
      in vresult ''runtime-continuity'' ''runtime'' ok
        (if ok then ''evidence preserves the planned runtime backend''
         else ''evidence runtime backend does not match the execution plan'')
        [(''planned'', planned), (''observed'', seen)])"

definition preserves_command :: "harness_plan \<Rightarrow> json dict \<Rightarrow> bool" where
  "preserves_command p r \<longleftrightarrow>
     py_eq (jget_default r ''requested_argv'' (jget_null r ''argv'')) (strs (hp_command p))"

definition command_check :: "harness_plan \<Rightarrow> evidence_bundle \<Rightarrow> verification_result" where
  "command_check p e =
     (let ok = list_ex (preserves_command p) (commands e)
      in vresult ''command-continuity'' ''command'' ok
        (if ok then ''runtime evidence preserves the planned command''
         else ''runtime evidence does not preserve the planned command'')
        [(''planned_command_digest'', JStr (canonical_digest (strs (hp_command p))))])"

definition input_check :: "harness_plan \<Rightarrow> evidence_bundle \<Rightarrow> verification_result list" where
  "input_check p e = (case hp_stdin_digest p of None \<Rightarrow> []
   | Some d \<Rightarrow>
     (let ok = list_ex (\<lambda>r. py_eq (jget_null r ''stdin_digest'') (JStr d)) (commands e)
      in [vresult ''input-continuity'' ''input'' ok
        (if ok then ''runtime evidence preserves the planned stdin digest''
         else ''runtime evidence does not preserve the planned stdin digest'')
        [(''planned_stdin_digest'', JStr d)]]))"

definition evidence_check :: "evidence_bundle \<Rightarrow> evidence_kind \<Rightarrow> verification_result" where
  "evidence_check e k =
     (let ok = evidence_present e k
      in vresult (''evidence:'' @ kind_value k) ''required_evidence'' ok
        (''required evidence '' @ repr_str (kind_value k) @ (if ok then '' is present'' else '' is missing''))
        [(''evidence'', JStr (kind_value k))])"

definition security_check :: "security_evaluation \<Rightarrow> verification_result" where
  "security_check s =
     (let ok = sec_gate s = ''pass''
      in (vresult ''security-gate'' ''security_gate'' ok
        (if ok then ''no High/Critical security finding''
         else ''High/Critical security finding forces a failed verdict'')
        [(''finding_count'', JInt (int (length (sec_findings s))))])
        \<lparr>vr_evidence_ids := map (\<lambda>f. py_str (jget_null f ''evidence_id''))
           (filter (\<lambda>f. truthy (jget_null f ''evidence_id'')) (sec_findings s))\<rparr>)"

definition all_results ::
  "harness_manifest \<Rightarrow> harness_plan \<Rightarrow> evidence_bundle \<Rightarrow> domain_adapter \<Rightarrow> security_evaluation
    \<Rightarrow> verification_result list" where
  "all_results m p e ad s =
     [provenance_check p e, runtime_check p e, command_check p e] @ input_check p e
     @ map (evidence_check e) (required (hm_evidence m)) @ da_verify ad m p e
     @ map (\<lambda>v. evaluate_verifier v e) (hm_checks m) @ [security_check s]"

definition make_verdict ::
  "harness_plan \<Rightarrow> evidence_bundle \<Rightarrow> verification_result list \<Rightarrow> security_evaluation \<Rightarrow> harness_verdict" where
  "make_verdict p e checks s =
     (let failed = failed_ids checks;
          v = \<lparr>hv_run_id = hp_run_id p, hv_manifest_digest = hp_manifest_digest p,
               hv_provenance_digest = hp_provenance_digest p, hv_plan_digest = hp_plan_digest p,
               hv_evidence_digest = canonical_digest (evidence_json e),
               hv_runtime_backend = hp_runtime_backend p,
               hv_status = (if failed \<noteq> [] then VFail else VPass),
               hv_security_gate = sec_gate s, hv_checks = checks, failed_check_ids = failed,
               security_findings = sec_findings s, verdict_digest = []\<rparr>
      in v\<lparr>verdict_digest := canonical_digest (JObj (verdict_payload v))\<rparr>)"

definition verify_evidence ::
  "registry \<Rightarrow> harness_manifest \<Rightarrow> harness_plan \<Rightarrow> evidence_bundle \<Rightarrow> harness_verdict res" where
  "verify_evidence reg m p e =
     rbind (guards
       [(canonical_digest (manifest_json m) \<noteq> hp_manifest_digest p, HarnessContractError
          ''manifest digest does not match the manifest compiled into the plan''),
        (ev_run_id e \<noteq> hp_run_id p, HarnessContractError (''evidence run_id '' @ repr_str (ev_run_id e)
          @ '' does not match plan run_id '' @ repr_str (hp_run_id p)))] ()) (\<lambda>_.
     rbind (require reg (hp_adapter p)) (\<lambda>ad.
     rbind (evaluate_security e) (\<lambda>s.
       validate_verdict (make_verdict p e (all_results m p e ad s) s))))"

section \<open>The verdict store\<close>

definition verdict_store_persist ::
  "(string \<rightharpoonup> json) \<Rightarrow> harness_verdict \<Rightarrow> (string \<times> (string \<rightharpoonup> json)) res" where
  "verdict_store_persist store v =
     (let digest = canonical_digest (JObj (verdict_payload v)) in guards
       [(digest \<noteq> verdict_digest v, HarnessContractError ''verdict digest does not match verdict payload'')]
       (digest, if store digest = None then store(digest \<mapsto> verdict_json v) else store))"

section \<open>A run\<close>

record 's kernel_state =
  ks_runtime :: 's
  ks_evidence :: "string \<rightharpoonup> json"
  ks_verdicts :: "string \<rightharpoonup> json"

text \<open>Sequencing of steps that may raise.\<close>

definition sbind :: "('s, 'a) step \<Rightarrow> ('a \<Rightarrow> ('s, 'b) step) \<Rightarrow> ('s, 'b) step" where
  "sbind m f s = (case m s of (Inl e, s') \<Rightarrow> (Inl e, s') | (Inr x, s') \<Rightarrow> f x s')"

definition sreturn :: "'a res \<Rightarrow> ('s, 'a) step" where
  "sreturn r s = (r, s)"

text \<open>\<open>try: body finally: cleanup\<close>; an exception of the cleanup replaces the body's result.\<close>

definition finally_do :: "('s, 'a) step \<Rightarrow> ('s, unit) step \<Rightarrow> ('s, 'a) step" where
  "finally_do body cleanup s = (case body s of (r, s1) \<Rightarrow>
     (case cleanup s1 of (Inl e, s2) \<Rightarrow> (Inl e, s2) | (Inr _, s2) \<Rightarrow> (r, s2)))"

definition sandboxed ::
  "'s runtime_adapter \<Rightarrow> domain_adapter \<Rightarrow> harness_manifest \<Rightarrow> harness_plan \<Rightarrow> run_spec \<Rightarrow> string option
    \<Rightarrow> (string \<Rightarrow> inference_receipt list) option \<Rightarrow> string \<Rightarrow> ('s, evidence_bundle) step" where
  "sandboxed rt ad m p spec stdin ledger sid = finally_do
     (sbind (ra_execute rt sid (hp_command p) stdin) (\<lambda>eid.
      sbind (ra_collect rt (spec_run_id spec) eid) (\<lambda>raw.
        sreturn (rbind (da_normalize ad m p raw) (\<lambda>n. Inr (attach_run_receipts n ledger))))))
     (ra_destroy rt sid)"

definition execute_plan ::
  "'s runtime_adapter \<Rightarrow> domain_adapter \<Rightarrow> harness_manifest \<Rightarrow> harness_plan \<Rightarrow> run_spec \<Rightarrow> string option
    \<Rightarrow> (string \<Rightarrow> inference_receipt list) option \<Rightarrow> ('s, evidence_bundle) step" where
  "execute_plan rt ad m p spec stdin ledger =
     sbind (ra_prepare rt spec) (sandboxed rt ad m p spec stdin ledger)"

definition persist_results ::
  "string option \<Rightarrow> string option \<Rightarrow> harness_plan \<Rightarrow> evidence_bundle \<Rightarrow> harness_verdict
    \<Rightarrow> ('s kernel_state, harness_run_result) step" where
  "persist_results ev_root vd_root p e v ks =
     (let (ev_path, ks1) = (case ev_root of None \<Rightarrow> (None, ks)
            | Some r \<Rightarrow> (case evidence_store_persist (ks_evidence ks) e of (d, store) \<Rightarrow>
                (Some (r @ ''/'' @ d @ ''.json''), ks\<lparr>ks_evidence := store\<rparr>)))
      in case vd_root of
           None \<Rightarrow> (Inr \<lparr>rr_plan = p, rr_evidence = e, rr_verdict = v, evidence_path = ev_path,
                          verdict_path = None\<rparr>, ks1)
         | Some r \<Rightarrow> (case verdict_store_persist (ks_verdicts ks1) v of
               Inl x \<Rightarrow> (Inl x, ks1)
             | Inr (d, store) \<Rightarrow>
                 (Inr \<lparr>rr_plan = p, rr_evidence = e, rr_verdict = v, evidence_path = ev_path,
                        verdict_path = Some (r @ ''/'' @ d @ ''.json'')\<rparr>, ks1\<lparr>ks_verdicts := store\<rparr>)))"

definition run_harness ::
  "registry \<Rightarrow> harness_manifest \<Rightarrow> run_spec \<Rightarrow> 's runtime_adapter
    \<Rightarrow> (string \<Rightarrow> inference_receipt list) option \<Rightarrow> string option \<Rightarrow> string option
    \<Rightarrow> ('s kernel_state, harness_run_result) step" where
  "run_harness reg m spec rt ledger ev_root vd_root ks =
     (if ra_backend rt \<noteq> backend (runtime spec)
      then (Inl (HarnessContractError (''runtime adapter backend '' @ repr_str (backend_value (ra_backend rt))
        @ '' does not match RunSpec backend '' @ repr_str (backend_value (backend (runtime spec))))), ks)
      else case require reg (adapter_name (hm_execution m)) of
        Inl x \<Rightarrow> (Inl x, ks)
      | Inr ad \<Rightarrow> (case compile_plan reg m spec (Some (ra_capabilities rt)) (Some (ra_evidence rt)) of
          Inl x \<Rightarrow> (Inl x, ks)
        | Inr p \<Rightarrow> (case da_stdin ad m spec of
            Inl x \<Rightarrow> (Inl x, ks)
          | Inr stdin \<Rightarrow>
              if map_option text_digest stdin \<noteq> hp_stdin_digest p
              then (Inl (HarnessContractError ''domain adapter stdin changed after plan compilation''), ks)
              else (case execute_plan rt ad m p spec stdin ledger (ks_runtime ks) of
                (Inl x, s') \<Rightarrow> (Inl x, ks\<lparr>ks_runtime := s'\<rparr>)
              | (Inr e, s') \<Rightarrow> (case verify_evidence reg m p e of
                  Inl x \<Rightarrow> (Inl x, ks\<lparr>ks_runtime := s'\<rparr>)
                | Inr v \<Rightarrow> persist_results ev_root vd_root p e v (ks\<lparr>ks_runtime := s'\<rparr>))))))"


section \<open>Facts\<close>

lemma validate_limits_Inr [simp]:
  "validate_limits l b = Inr () \<longleftrightarrow> timeout_seconds l \<le> b_timeout_seconds b
     \<and> max_model_calls l \<le> b_max_model_calls b \<and> max_output_tokens l \<le> b_max_output_tokens b
     \<and> max_network_requests l \<le> b_max_network_requests b"
proof -
  have "sort_key fst xs = [] \<longleftrightarrow> xs = []" for xs :: "(string \<times> int \<times> int) list"
    by (metis length_0_conv length_sort)
  then show ?thesis
    by (auto simp: validate_limits_def Let_def guard_simps exceeded_limits_def limit_pairs_def)
qed

lemma as_contract_error_Inr [simp]: "as_contract_error m = Inr x \<longleftrightarrow> m = Inr x"
  by (auto simp: as_contract_error_def split: sum.splits exn.splits)

lemma validate_plan_Inr:
  "validate_plan p = Inr q \<longleftrightarrow> q = p \<and> (\<exists>vs. traverse validate_verifier (hp_checks p) = Inr vs)
     \<and> is_hex64 (hp_manifest_digest p) \<and> is_hex64 (hp_provenance_digest p) \<and> opt_hex64 (hp_stdin_digest p)
     \<and> is_hex64 (policy_digest p) \<and> is_hex64 (hp_plan_digest p)
     \<and> spec_run_id (hp_run_spec p) = hp_run_id p
     \<and> provenance_digest (skill (hp_run_spec p)) = Some (hp_provenance_digest p)
     \<and> backend (runtime (hp_run_spec p)) = hp_runtime_backend p
     \<and> canonical_digest (JObj (plan_payload p)) = hp_plan_digest p"
  by (auto simp: validate_plan_def rbind_Inr_iff guard_simps)

lemma make_plan_simps [simp]:
  "hp_run_id (make_plan m spec ad caps cmd stdin) = spec_run_id spec"
  "hp_manifest_digest (make_plan m spec ad caps cmd stdin) = canonical_digest (manifest_json m)"
  "hp_provenance_digest (make_plan m spec ad caps cmd stdin) = the (provenance_digest (skill spec))"
  "hp_adapter (make_plan m spec ad caps cmd stdin) = da_id ad"
  "hp_runtime_backend (make_plan m spec ad caps cmd stdin) = backend (runtime spec)"
  "hp_run_spec (make_plan m spec ad caps cmd stdin) = spec"
  "hp_command (make_plan m spec ad caps cmd stdin) = cmd"
  "hp_stdin_digest (make_plan m spec ad caps cmd stdin) = map_option text_digest stdin"
  "hp_checks (make_plan m spec ad caps cmd stdin) = hm_checks m"
  "required_evidence (make_plan m spec ad caps cmd stdin) = required (hm_evidence m)"
  "effective_limits (make_plan m spec ad caps cmd stdin) = limits spec"
  "policy_digest (make_plan m spec ad caps cmd stdin) = canonical_digest (policy_json (policy spec))"
  by (simp_all add: make_plan_def Let_def)

lemma make_plan_digest:
  "hp_plan_digest (make_plan m spec ad caps cmd stdin)
     = canonical_digest (JObj (plan_payload (make_plan m spec ad caps cmd stdin)))"
  by (simp add: make_plan_def Let_def plan_payload_def)

lemma make_plan_valid:
  assumes "provenance_digest (skill spec) = Some d" and "is_hex64 d"
    and "traverse validate_verifier (hm_checks m) = Inr vs"
  shows "validate_plan (make_plan m spec ad caps cmd stdin) = Inr (make_plan m spec ad caps cmd stdin)"
  using assms by (simp add: validate_plan_Inr make_plan_digest opt_hex64_def split: option.splits)

text \<open>A compiled plan, in terms of the choices of the compilation.\<close>

lemma compile_plan_Inr:
  assumes "compile_plan reg m spec ca ea = Inr p"
  obtains ad caps profile cmd stdin where
    "require reg (adapter_name (hm_execution m)) = Inr ad"
    and "list_all (\<lambda>g. \<not> fst g) (entry_guards m spec ad)"
    and "(case ca of Some c \<Rightarrow> Inr c | None \<Rightarrow> runtime_capabilities_for (backend (runtime spec))) = Inr caps"
    and "(case ea of Some c \<Rightarrow> Inr c | None \<Rightarrow> runtime_evidence_for (backend (runtime spec))) = Inr profile"
    and "list_all (\<lambda>g. \<not> fst g) (profile_guards m spec ad caps profile)"
    and "validate_limits (limits spec) (hm_budgets m) = Inr ()"
    and "da_command ad m spec = Inr cmd" and "cmd \<noteq> []"
    and "da_stdin ad m spec = Inr stdin" and "stdin \<noteq> None \<Longrightarrow> stdin_stream caps"
    and "p = make_plan m spec ad caps cmd stdin" and "validate_plan p = Inr p"
  using assms that unfolding compile_plan_def rbind_Inr_iff guard_simps as_contract_error_Inr
  by (fastforce simp: validate_plan_Inr rbind_Inr_iff split: if_splits)

lemma make_verdict_simps [simp]:
  "hv_checks (make_verdict p e cs s) = cs"
  "failed_check_ids (make_verdict p e cs s) = failed_ids cs"
  "hv_status (make_verdict p e cs s) = (if failed_ids cs \<noteq> [] then VFail else VPass)"
  "hv_security_gate (make_verdict p e cs s) = sec_gate s"
  "hv_manifest_digest (make_verdict p e cs s) = hp_manifest_digest p"
  "hv_provenance_digest (make_verdict p e cs s) = hp_provenance_digest p"
  "hv_plan_digest (make_verdict p e cs s) = hp_plan_digest p"
  "hv_run_id (make_verdict p e cs s) = hp_run_id p"
  "hv_evidence_digest (make_verdict p e cs s) = canonical_digest (evidence_json e)"
  "security_findings (make_verdict p e cs s) = sec_findings s"
  by (simp_all add: make_verdict_def Let_def)

lemma make_verdict_digest:
  "verdict_digest (make_verdict p e cs s) = canonical_digest (JObj (verdict_payload (make_verdict p e cs s)))"
  by (simp add: make_verdict_def Let_def verdict_payload_def)

lemma security_check_simps [simp]:
  "vr_id (security_check s) = ''security-gate''" "vr_passed (security_check s) = (sec_gate s = ''pass'')"
  by (simp_all add: security_check_def Let_def)

lemma failed_ids_append [simp]: "failed_ids (xs @ ys) = failed_ids xs @ failed_ids ys"
  by (simp add: failed_ids_def)

lemma failed_ids_Cons [simp]:
  "failed_ids (x # xs) = (if vr_passed x then failed_ids xs else vr_id x # failed_ids xs)"
  by (simp add: failed_ids_def)

lemma failed_ids_Nil [simp]: "failed_ids [] = []"
  by (simp add: failed_ids_def)

lemma failed_ids_empty_iff: "failed_ids cs = [] \<longleftrightarrow> list_all vr_passed cs"
  by (auto simp: failed_ids_def filter_empty_conv list_all_iff)

lemma gate_in_failed:
  "sec_gate s \<noteq> ''pass'' \<Longrightarrow> ''security-gate'' \<in> set (failed_ids (all_results m p e ad s))"
  by (simp add: all_results_def)

text \<open>The verdict the kernel builds always validates.\<close>

lemma make_verdict_valid:
  assumes "is_hex64 (hp_manifest_digest p)" "is_hex64 (hp_provenance_digest p)" "is_hex64 (hp_plan_digest p)"
    and "sec_gate s \<in> {''pass'', ''fail''}"
  shows "validate_verdict (make_verdict p e (all_results m p e ad s) s)
    = Inr (make_verdict p e (all_results m p e ad s) s)"
  using assms gate_in_failed [of s m p e ad]
  by (auto simp: validate_verdict_def guard_simps verdict_guards_def make_verdict_digest)

lemma verify_evidence_Inr:
  assumes "verify_evidence reg m p e = Inr v"
  obtains ad s where "require reg (hp_adapter p) = Inr ad" and "evaluate_security e = Inr s"
    and "v = make_verdict p e (all_results m p e ad s) s"
    and "canonical_digest (manifest_json m) = hp_manifest_digest p" and "ev_run_id e = hp_run_id p"
  using assms that by (auto simp: verify_evidence_def rbind_Inr_iff guard_simps validate_verdict_def)

section \<open>The abstract verdict\<close>

text \<open>
  What a verdict promises, without digests, messages or the order of checks: the evidence continues
  the plan, the mandatory evidence is present, the domain checks and the verifiers hold, and no
  finding is severe.
\<close>

definition evidence_satisfies ::
  "harness_manifest \<Rightarrow> harness_plan \<Rightarrow> domain_adapter \<Rightarrow> evidence_bundle \<Rightarrow> json list \<Rightarrow> bool" where
  "evidence_satisfies m p ad e changed \<longleftrightarrow>
     ev_provenance_digest e = Some (hp_provenance_digest p)
     \<and> map_of (runtime_metadata e) ''runtime_backend'' = Some (JStr (backend_value (hp_runtime_backend p)))
     \<and> (\<exists>r \<in> set (commands e).
          jget_default r ''requested_argv'' (jget_null r ''argv'') = strs (hp_command p))
     \<and> (\<forall>d. hp_stdin_digest p = Some d \<longrightarrow>
          (\<exists>r \<in> set (commands e). map_of r ''stdin_digest'' = Some (JStr d)))
     \<and> (\<forall>k \<in> set (required (hm_evidence m)). evidence_present e k)
     \<and> list_all vr_passed (da_verify ad m p e)
     \<and> (\<forall>v \<in> set (hm_checks m). verifier_holds v e)
     \<and> \<not> list_ex severe (findings e) \<and> \<not> list_ex denied (network e)
     \<and> \<not> list_ex is_control_path changed \<and> \<not> list_ex (contains (output_text e)) secret_markers"

lemma jget_null_JStr: "jget_null d k = JStr s \<longleftrightarrow> map_of d k = Some (JStr s)"
  by (simp add: jget_null_def split: option.splits)

lemma all_results_pass:
  assumes "changed_paths e = Inr changed" and "evaluate_security e = Inr s"
  shows "list_all vr_passed (all_results m p e ad s) \<longleftrightarrow> evidence_satisfies m p ad e changed"
proof -
  have inp: "list_all vr_passed (input_check p e) \<longleftrightarrow> (\<forall>d. hp_stdin_digest p = Some d \<longrightarrow>
      (\<exists>r \<in> set (commands e). map_of r ''stdin_digest'' = Some (JStr d)))"
    by (auto simp: input_check_def Let_def list_ex_iff jget_null_JStr split: option.splits)
  have cmd: "vr_passed (command_check p e) \<longleftrightarrow> (\<exists>r \<in> set (commands e).
      jget_default r ''requested_argv'' (jget_null r ''argv'') = strs (hp_command p))"
    by (simp add: command_check_def Let_def list_ex_iff preserves_command_def)
  have prov: "vr_passed (provenance_check p e) \<longleftrightarrow> ev_provenance_digest e = Some (hp_provenance_digest p)"
    by (simp add: provenance_check_def Let_def)
  have run: "vr_passed (runtime_check p e) \<longleftrightarrow>
      map_of (runtime_metadata e) ''runtime_backend'' = Some (JStr (backend_value (hp_runtime_backend p)))"
    by (simp add: runtime_check_def Let_def jget_null_JStr)
  have ev: "list_all vr_passed (map (evidence_check e) ks) \<longleftrightarrow> (\<forall>k \<in> set ks. evidence_present e k)" for ks
    by (auto simp: list_all_iff evidence_check_def Let_def)
  have vs: "list_all vr_passed (map (\<lambda>v. evaluate_verifier v e) cs) \<longleftrightarrow> (\<forall>v \<in> set cs. verifier_holds v e)" for cs
    by (auto simp: list_all_iff evaluate_verifier_passed)
  have sec: "sec_gate s = ''pass'' \<longleftrightarrow> \<not> list_ex severe (findings e) \<and> \<not> list_ex denied (network e)
      \<and> \<not> list_ex is_control_path changed \<and> \<not> list_ex (contains (output_text e)) secret_markers"
    using security_gate_fail_iff [OF assms] security_gate_values [OF assms(2)] by auto
  show ?thesis
    unfolding all_results_def evidence_satisfies_def
    by (simp add: inp cmd prov run ev vs sec del: map_map)
qed


section \<open>Runs on a faithful runtime\<close>

lemma finally_do_last: "\<exists>s1. snd (finally_do body cleanup s) = snd (cleanup s1)"
  by (rule exI [of _ "snd (body s)"]) (simp add: finally_do_def case_prod_unfold split: sum.splits)

lemma sandboxed_destroys: "\<exists>s1. snd (sandboxed rt ad m p spec stdin ledger sid s) = snd (ra_destroy rt sid s1)"
  unfolding sandboxed_def by (rule finally_do_last)

lemma persist_runtime [simp]: "ks_runtime (snd (persist_results er vr p e v ks)) = ks_runtime ks"
  by (auto simp: persist_results_def split: option.splits prod.splits sum.splits)

lemma persist_results_Inr:
  "fst (persist_results er vr p e v ks) = Inr r \<Longrightarrow> rr_plan r = p \<and> rr_evidence r = e \<and> rr_verdict r = v"
  by (auto simp: persist_results_def split: option.splits prod.splits sum.splits)

context faithful_runtime
begin

lemma execute_plan_eq:
  assumes "accepts spec st"
  obtains ev st' where "execute_plan rt ad m p spec stdin ledger st
      = (rbind (da_normalize ad m p ev) (\<lambda>n. Inr (attach_run_receipts n ledger)), st')"
    and "leaves st st'" and "ev_run_id ev = spec_run_id spec"
    and "ev_provenance_digest ev = provenance_digest (skill spec)"
    and "map_of (runtime_metadata ev) ''runtime_backend'' = Some (JStr (backend_value (ra_backend rt)))"
    and "\<exists>r \<in> set (commands ev). records_command (hp_command p) stdin r"
proof -
  from round [OF assms, where argv = "hp_command p" and stdin = stdin] obtain sid st1 eid st2 ev st3 st4 where
    s: "ra_prepare rt spec st = (Inr sid, st1)" "ra_execute rt sid (hp_command p) stdin st1 = (Inr eid, st2)"
    "ra_collect rt (spec_run_id spec) eid st2 = (Inr ev, st3)" "ra_destroy rt sid st3 = (Inr (), st4)"
    and l: "leaves st st4" and e: "ev_run_id ev = spec_run_id spec" "ev_provenance_digest ev = provenance_digest (skill spec)"
    "map_of (runtime_metadata ev) ''runtime_backend'' = Some (JStr (backend_value (ra_backend rt)))"
    "\<exists>r \<in> set (commands ev). records_command (hp_command p) stdin r" by blast
  have "execute_plan rt ad m p spec stdin ledger st
      = (rbind (da_normalize ad m p ev) (\<lambda>n. Inr (attach_run_receipts n ledger)), st4)"
    by (simp add: execute_plan_def sandboxed_def sbind_def sreturn_def finally_do_def s)
  with l e that show ?thesis by blast
qed

text \<open>Whatever the adapter and the verifiers make of it, a run leaves the runtime as its contract says.\<close>

lemma run_restores:
  assumes "accepts spec (ks_runtime ks)"
  shows "leaves (ks_runtime ks) (ks_runtime (snd (run_harness reg m spec rt ledger er vr ks)))"
proof -
  have "execute_plan rt ad m p spec stdin ledger (ks_runtime ks) = (x, s') \<Longrightarrow> leaves (ks_runtime ks) s'"
    for ad p stdin x s'
    by (rule execute_plan_eq [OF assms, of ad m p stdin ledger]) simp
  then show ?thesis
    by (auto simp: run_harness_def leaves_refl split: sum.splits prod.splits)
qed

text \<open>With an adapter that leaves the evidence alone, the continuity checks of the run all pass.\<close>

lemma run_continuity:
  assumes "accepts spec (ks_runtime ks)" and "run_harness reg m spec rt ledger er vr ks = (Inr r, ks')"
    and "require reg (adapter_name (hm_execution m)) = Inr ad" and "\<And>p e. da_normalize ad m p e = Inr e"
  shows "vr_passed (provenance_check (rr_plan r) (rr_evidence r))"
    and "vr_passed (runtime_check (rr_plan r) (rr_evidence r))"
    and "vr_passed (command_check (rr_plan r) (rr_evidence r))"
    and "list_all vr_passed (input_check (rr_plan r) (rr_evidence r))"
proof -
  from assms(2,3) obtain p stdin e s' v where
    b: "ra_backend rt = backend (runtime spec)"
    and c: "compile_plan reg m spec (Some (ra_capabilities rt)) (Some (ra_evidence rt)) = Inr p"
    and i: "map_option text_digest stdin = hp_stdin_digest p"
    and x: "execute_plan rt ad m p spec stdin ledger (ks_runtime ks) = (Inr e, s')"
    and pr: "persist_results er vr p e v (ks\<lparr>ks_runtime := s'\<rparr>) = (Inr r, ks')"
    by (auto simp: run_harness_def split: sum.splits prod.splits if_splits)
  have r: "rr_plan r = p" "rr_evidence r = e" using pr persist_results_Inr [of er vr p e v] by (metis fst_conv)+
  obtain ev s2 where ev: "execute_plan rt ad m p spec stdin ledger (ks_runtime ks)
      = (rbind (da_normalize ad m p ev) (\<lambda>n. Inr (attach_run_receipts n ledger)), s2)"
    "ev_provenance_digest ev = provenance_digest (skill spec)"
    "map_of (runtime_metadata ev) ''runtime_backend'' = Some (JStr (backend_value (ra_backend rt)))"
    "\<exists>r \<in> set (commands ev). records_command (hp_command p) stdin r"
    by (rule execute_plan_eq [OF assms(1), of ad m p stdin ledger]) (rule that; assumption)
  then have e: "e = attach_run_receipts ev ledger" using x assms(4) by simp
  from compile_plan_Inr [OF c] have p: "provenance_digest (skill spec) = Some (hp_provenance_digest p)"
    "hp_runtime_backend p = backend (runtime spec)"
    by (metis make_plan_simps(5,6) validate_plan_Inr)+
  have meta: "map_of (runtime_metadata e) ''runtime_backend'' = map_of (runtime_metadata ev) ''runtime_backend''"
    by (simp add: e attach_run_receipts_def Let_def mark_runtime_backend_none split: option.splits)
  show "vr_passed (provenance_check (rr_plan r) (rr_evidence r))"
    using ev(2) p by (simp add: r e provenance_check_def Let_def)
  show "vr_passed (runtime_check (rr_plan r) (rr_evidence r))"
    using ev(3) p b meta by (simp add: r runtime_check_def Let_def jget_null_def)
  show "vr_passed (command_check (rr_plan r) (rr_evidence r))"
    using ev(4) by (auto simp: r e command_check_def Let_def list_ex_iff preserves_command_def records_command_def)
  show "list_all vr_passed (input_check (rr_plan r) (rr_evidence r))"
    using ev(4) i by (cases stdin) (auto simp: r e input_check_def Let_def list_ex_iff records_command_def
        split: option.splits)
qed

end

end
