(* ===== verification/KernelProperties.thy ===== *)
theory KernelProperties
  imports Kernel
begin

text \<open>
  The properties of the harness kernel: what a plan and a verdict promise, that a run leaves no
  sandbox behind, and that the coding adapter accepts exactly the receipts that continue the plan.
\<close>

section \<open>Concrete inputs for the witnesses\<close>

definition sample_env :: adapter_env where
  "sample_env = \<lparr>decode_coding = (\<lambda>_. Inl (ValidationError ''schema'')),
     decode_browser = (\<lambda>_. Inl (ValidationError ''schema'')), dump_json = dumps,
     probe_root = (\<lambda>ws rel rid. \<lparr>rp_path = ws, rp_inside = True, rp_usable = True\<rparr>),
     probe_file = (\<lambda>_ _. FileBytes [])\<rparr>"

definition sample_registry :: "adapter_env \<Rightarrow> registry" where
  "sample_registry env = [(''coding.command.v1'', coding_command_adapter),
     (''coding.agent.v1'', coding_agent_adapter env), (''browser.playwright.v1'', browser_adapter env)]"

definition sample_spec :: run_spec where
  "sample_spec = \<lparr>spec_run_id = ''run-1'',
     skill = \<lparr>source_url = ''https://example.org/skill'', commit_or_digest = ''0123456789abcdef0123456789abcdef01234567'',
       entrypoint = ''SKILL.md'', provenance_digest = Some (text_digest ''skill'')\<rparr>,
     agent = \<lparr>harness = ''demo'', agent_version = ''1''\<rparr>,
     model = \<lparr>provider = ''local'', model_name = ''m'', quota = QuotaFree\<rparr>,
     runtime = \<lparr>backend = Fake, runtime_version = ''1'', image_digest = ''d''\<rparr>,
     policy = default_policy, scenario = \<lparr>scenario_id = ''s'', task = ''t'', scenario_assertions = []\<rparr>,
     limits = default_limits\<rparr>"

definition sample_manifest :: harness_manifest where
  "sample_manifest = \<lparr>
     hm_identity = \<lparr>hi_id = ''demo'', hi_version = ''1'', hi_domain = DCoding, hi_description = []\<rparr>,
     hm_licensing = \<lparr>lic_code = ''MIT'', lic_models = [], lic_datasets = [], lic_dependencies = []\<rparr>,
     hm_environment = \<lparr>allowed_runtimes = [Fake], required_capabilities = [CapFilesystemPolicy],
       env_filesystem = ''ephemeral''\<rparr>,
     hm_interfaces = \<lparr>action_schema = ''a'', observation_schema = ''o'', protocols = []\<rparr>,
     hm_execution = \<lparr>adapter_name = ''coding.command.v1'', command = [''run'', ''{entrypoint}'']\<rparr>,
     hm_coding = None, hm_browser = None,
     hm_evidence = \<lparr>capture = [KExitCode, KStdout], required = [KExitCode]\<rparr>,
     hm_checks = [ExitCodeZeroVerifier ''exit''],
     hm_budgets = \<lparr>b_timeout_seconds = 300, b_max_model_calls = 20, b_max_output_tokens = 20000,
       b_max_network_requests = 100\<rparr>,
     hm_replay = \<lparr>supported = False, snapshot_required = False\<rparr>, hm_failure_taxonomy = []\<rparr>"

definition sample_plan :: harness_plan where
  "sample_plan = make_plan sample_manifest sample_spec coding_command_adapter fake_capabilities
     [''run'', ''SKILL.md''] None"

definition sample_state :: "fake_state kernel_state" where
  "sample_state = \<lparr>ks_runtime = [], ks_evidence = Map.empty, ks_verdicts = Map.empty\<rparr>"

lemma sample_template: "template_pieces command_fields ''run'' = Inr [Inl ''run'']"
  "template_pieces command_fields ''{entrypoint}'' = Inr [Inl [], Inr ''entrypoint'']"
  by code_simp+

lemma sample_require: "require (sample_registry env) ''coding.command.v1'' = Inr coding_command_adapter"
  "require (sample_registry env) ''coding.agent.v1'' = Inr (coding_agent_adapter env)"
  by (simp_all add: require_def sample_registry_def)

lemma sample_manifest_valid: "validate_manifest sample_manifest = Inr sample_manifest"
  by code_simp

lemma sample_compiles:
  "compile_plan (sample_registry env) sample_manifest sample_spec (Some fake_capabilities) (Some fake_evidence)
     = Inr sample_plan"
proof -
  have cmd: "da_command coding_command_adapter sample_manifest sample_spec = Inr [''run'', ''SKILL.md'']"
    by (simp add: coding_command_adapter_def sample_manifest_def sample_spec_def render_command_def render_def
        sample_template command_context_def render_piece_def)
  have g1: "guards (entry_guards sample_manifest sample_spec coding_command_adapter) () = Inr ()"
    unfolding guards_Inr_iff entry_guards_def
    by (simp add: coding_command_adapter_def base_adapter_def sample_manifest_def sample_spec_def
        strip_def strip_set_def is_space_def lower_def lower_char_def mutable_refs_def)
  have g2: "guards (profile_guards sample_manifest sample_spec coding_command_adapter fake_capabilities fake_evidence) () = Inr ()"
    unfolding guards_Inr_iff profile_guards_def
    by (simp add: Let_def missing_capabilities_def unsupported_evidence_def sorted_set_def
        coding_command_adapter_def base_adapter_def sample_manifest_def sample_spec_def default_policy_def
        fake_evidence_def has_capability_def capabilities_dict_def fake_capabilities_def)
  have v: "validate_plan sample_plan = Inr sample_plan"
    unfolding sample_plan_def
    by (rule make_plan_valid [of _ "text_digest ''skill''"])
       (simp_all add: sample_spec_def sample_manifest_def validate_verifier_def guards.simps)
  have st: "da_stdin coding_command_adapter sample_manifest sample_spec = Inr None"
    by (simp add: coding_command_adapter_def base_adapter_def)
  have lim: "validate_limits (limits sample_spec) (hm_budgets sample_manifest) = Inr ()"
    by (simp add: sample_spec_def sample_manifest_def default_limits_def)
  have ad: "adapter_name (hm_execution sample_manifest) = ''coding.command.v1''"
    by (simp add: sample_manifest_def)
  show ?thesis
    using v by (simp add: compile_plan_def ad sample_require g1 g2 cmd st lim as_contract_error_def sample_plan_def)
qed


definition sample_bundle :: evidence_bundle where
  "sample_bundle = mark_evidence_captured (fake_bundle ''run-1'' \<lparr>fr_spec = sample_spec,
     fr_commands = [command_record ''fake:run-1:exec:0'' [''run'', ''SKILL.md''] None]\<rparr>)
     fake_evidence (Some (backend_value Fake))"

lemma sample_accepts: "fake_accepts sample_spec []"
proof -
  have "\<not> contains (''fake:run-1'' @ butlast '':exec:'') '':exec:''" by code_simp
  then show ?thesis by (simp add: fake_accepts_def fake_sandbox_id_def dict_keys_def sample_spec_def)
qed

lemma sample_execute:
  "execute_plan fake_runtime coding_command_adapter sample_manifest sample_plan sample_spec None None []
     = (Inr sample_bundle, [])"
proof -
  have "before_first '':exec:'' ''fake:run-1:exec:0'' = ''fake:run-1''" by code_simp
  moreover have "show_nat 0 = ''0''" by code_simp
  ultimately show ?thesis
    by (simp add: execute_plan_def sandboxed_def sbind_def sreturn_def finally_do_def fake_runtime_def
        fake_prepare_def fake_execute_def fake_collect_def fake_destroy_def fake_sandbox_id_def Let_def
        sample_spec_def sample_bundle_def coding_command_adapter_def base_adapter_def
        attach_run_receipts_def sample_plan_def dict_pop_def)
qed

lemma sample_bundle_fields [simp]:
  "ev_run_id sample_bundle = ''run-1''" "findings sample_bundle = []" "network sample_bundle = []"
  "filesystem_after sample_bundle = []" "exit_code sample_bundle = Some 0"
  "ev_stdout sample_bundle = ''fake runtime execution'' @ [CHR 0x0A]" "ev_stderr sample_bundle = []"
  by (simp_all add: sample_bundle_def fake_bundle_def empty_evidence_def)

lemma sample_changed: "changed_paths sample_bundle = Inr []"
  by (simp add: changed_paths_def jget_default_def)

lemma sample_plan_fields [simp]:
  "hp_run_id sample_plan = ''run-1''" "hp_adapter sample_plan = ''coding.command.v1''"
  "hp_command sample_plan = [''run'', ''SKILL.md'']" "hp_stdin_digest sample_plan = None"
  "hp_provenance_digest sample_plan = text_digest ''skill''" "hp_runtime_backend sample_plan = Fake"
  "hp_manifest_digest sample_plan = canonical_digest (manifest_json sample_manifest)"
  by (simp_all add: sample_plan_def sample_spec_def coding_command_adapter_def base_adapter_def)

lemma sample_satisfies:
  "evidence_satisfies sample_manifest sample_plan coding_command_adapter sample_bundle []"
proof -
  have out: "\<not> list_ex (contains (output_text sample_bundle)) secret_markers"
    unfolding output_text_def by simp code_simp
  have "records_command [''run'', ''SKILL.md''] None (command_record ''fake:run-1:exec:0'' [''run'', ''SKILL.md''] None)"
    by (simp add: records_command_def command_record_def jget_default_def jget_null_def)
  then show ?thesis
    unfolding evidence_satisfies_def using out mark_runtime_backend
    by (simp add: sample_manifest_def coding_command_adapter_def base_adapter_def evidence_present_def)
       (simp add: sample_bundle_def fake_bundle_def empty_evidence_def sample_spec_def records_command_def)
qed

lemma sample_plan_valid: "validate_plan sample_plan = Inr sample_plan"
  using sample_compiles by (rule compile_plan_Inr) simp

section \<open>Compilation\<close>

text \<open>C7: A plan is only compiled for a run specification that the manifest admits: the backend is on
  the allowlist, every limit is within its budget, every required capability is there, the declared
  evidence can be collected, the sandbox policy is the manifest's, and the plan binds the manifest by
  digest, carries a non-empty command, and streams an input only to a runtime that supports it.\<close>

theorem compile_respects_contract:
  assumes "compile_plan reg m spec (Some caps) (Some profile) = Inr p"
  shows "backend (runtime spec) \<in> set (allowed_runtimes (hm_environment m))
    \<and> timeout_seconds (limits spec) \<le> b_timeout_seconds (hm_budgets m)
    \<and> max_model_calls (limits spec) \<le> b_max_model_calls (hm_budgets m)
    \<and> max_output_tokens (limits spec) \<le> b_max_output_tokens (hm_budgets m)
    \<and> max_network_requests (limits spec) \<le> b_max_network_requests (hm_budgets m)
    \<and> (\<forall>k \<in> set (required_capabilities (hm_environment m)). has_capability caps k)
    \<and> (\<exists>ad. require reg (adapter_name (hm_execution m)) = Inr ad \<and> da_domain ad = hi_domain (hm_identity m)
         \<and> (\<forall>k \<in> set (capture (hm_evidence m)).
              kind_value k \<in> set profile \<union> {''inference''} \<union> set (da_evidence ad)))
    \<and> policy_network (policy spec) = ''deny-by-default'' \<and> policy_secrets (policy spec) = ''brokered''
    \<and> policy_filesystem (policy spec) = env_filesystem (hm_environment m)
    \<and> hp_command p \<noteq> [] \<and> (hp_stdin_digest p \<noteq> None \<longrightarrow> stdin_stream caps)
    \<and> hp_manifest_digest p = canonical_digest (manifest_json m) \<and> hp_run_spec p = spec
    \<and> validate_plan p = Inr p"
proof -
  from assms obtain ad cmd stdin where
    r: "require reg (adapter_name (hm_execution m)) = Inr ad"
    and g: "list_all (\<lambda>g. \<not> fst g) (entry_guards m spec ad)"
    "list_all (\<lambda>g. \<not> fst g) (profile_guards m spec ad caps profile)"
    and l: "validate_limits (limits spec) (hm_budgets m) = Inr ()"
    and c: "cmd \<noteq> []" "stdin \<noteq> None \<Longrightarrow> stdin_stream caps"
    and p: "p = make_plan m spec ad caps cmd stdin" "validate_plan p = Inr p"
    by (rule compile_plan_Inr) auto
  from g(1) have e: "backend (runtime spec) \<in> set (allowed_runtimes (hm_environment m))"
    "da_domain ad = hi_domain (hm_identity m)" by (simp_all add: entry_guards_def)
  from g(2) have f: "missing_capabilities m caps = []" "unsupported_evidence m profile ad = []"
    "policy_network (policy spec) = ''deny-by-default''" "policy_secrets (policy spec) = ''brokered''"
    "policy_filesystem (policy spec) = env_filesystem (hm_environment m)"
    by (simp_all add: profile_guards_def Let_def)
  from f(1) have cap: "\<forall>k \<in> set (required_capabilities (hm_environment m)). has_capability caps k"
    by (simp add: missing_capabilities_def filter_empty_conv)
  from f(2) have ev: "\<forall>k \<in> set (capture (hm_evidence m)).
      kind_value k \<in> set profile \<union> {''inference''} \<union> set (da_evidence ad)"
    by (auto simp: unsupported_evidence_def filter_empty_conv)
  have "hp_stdin_digest p \<noteq> None \<longrightarrow> stdin_stream caps" using c(2) p(1) by simp
  moreover have "hp_command p \<noteq> []" "hp_run_spec p = spec"
    "hp_manifest_digest p = canonical_digest (manifest_json m)" using c(1) p(1) by simp_all
  ultimately show ?thesis using r l e f cap ev p(2) unfolding validate_limits_Inr by blast
qed

theorem compile_respects_contract_witness:
  "Fake \<in> set (allowed_runtimes (hm_environment sample_manifest)) \<and> validate_plan sample_plan = Inr sample_plan"
  using compile_respects_contract [OF sample_compiles] by (simp add: sample_spec_def)

section \<open>Verdicts\<close>

text \<open>C1: A verdict passes exactly when the evidence satisfies the abstract specification: it continues
  the plan's provenance, backend, command and input, contains every mandatory kind of evidence, passes
  every domain check and every verifier of the manifest, and gives rise to no severe finding.\<close>

theorem verdict_pass_iff:
  assumes "verify_evidence reg m p e = Inr v" and "require reg (hp_adapter p) = Inr ad"
    and "changed_paths e = Inr changed"
  shows "hv_status v = VPass \<longleftrightarrow> evidence_satisfies m p ad e changed"
proof -
  from assms(1,2) obtain s where s: "evaluate_security e = Inr s"
    and v: "v = make_verdict p e (all_results m p e ad s) s"
    by (elim verify_evidence_Inr) simp
  have "hv_status v = VPass \<longleftrightarrow> failed_ids (all_results m p e ad s) = []" by (simp add: v)
  then show ?thesis using all_results_pass [OF assms(3) s] by (simp add: failed_ids_empty_iff)
qed

lemma sample_verdict: "\<exists>v. verify_evidence (sample_registry env) sample_manifest sample_plan sample_bundle = Inr v"
proof -
  obtain s where s: "evaluate_security sample_bundle = Inr s"
    by (simp add: evaluate_security_def sample_changed Let_def)
  have p: "is_hex64 (hp_manifest_digest sample_plan)" "is_hex64 (hp_provenance_digest sample_plan)"
    "is_hex64 (hp_plan_digest sample_plan)"
    using sample_plan_valid by (simp_all add: validate_plan_Inr)
  show ?thesis
    using make_verdict_valid [OF p, of s] security_gate_values [OF s]
    by (simp add: verify_evidence_def guards.simps sample_require s)
qed

theorem verdict_pass_iff_witness:
  "\<exists>v. verify_evidence (sample_registry sample_env) sample_manifest sample_plan sample_bundle = Inr v
     \<and> hv_status v = VPass"
proof -
  obtain v where v: "verify_evidence (sample_registry sample_env) sample_manifest sample_plan sample_bundle = Inr v"
    using sample_verdict by blast
  have "require (sample_registry sample_env) (hp_adapter sample_plan) = Inr coding_command_adapter"
    by (simp add: sample_require)
  from verdict_pass_iff [OF v this sample_changed] sample_satisfies v show ?thesis by blast
qed

text \<open>The security gate cannot be overruled: a severe finding of the runtime, a denied network event,
  a mutated agent control file or an exposed credential fails the verdict, closes the gate and puts
  \<open>security-gate\<close> among the failed checks, whatever the other checks say.\<close>

theorem severe_evidence_fails:
  assumes "verify_evidence reg m p e = Inr v" and "changed_paths e = Inr changed"
    and "list_ex severe (findings e) \<or> list_ex denied (network e) \<or> list_ex is_control_path changed
      \<or> list_ex (contains (output_text e)) secret_markers"
  shows "hv_status v = VFail \<and> hv_security_gate v = ''fail'' \<and> ''security-gate'' \<in> set (failed_check_ids v)
    \<and> list_ex severe (security_findings v)"
proof -
  from assms(1) obtain ad s where s: "evaluate_security e = Inr s"
    and v: "v = make_verdict p e (all_results m p e ad s) s"
    by (elim verify_evidence_Inr) simp
  have g: "sec_gate s = ''fail''" using security_gate_fail_iff [OF assms(2) s] assms(3) by blast
  then have "''security-gate'' \<in> set (failed_ids (all_results m p e ad s))"
    using gate_in_failed by simp
  then show ?thesis using g security_gate_findings [OF s] by (auto simp: v)
qed

definition leaky_bundle :: evidence_bundle where
  "leaky_bundle = sample_bundle\<lparr>ev_stdout := ''GROQ_API_KEY=x''\<rparr>"

lemma leaky_output: "contains (output_text leaky_bundle) ''groq_api_key=''"
proof -
  have "output_text leaky_bundle = ''groq_api_key=x'' @ [CHR 0x0A]"
    unfolding output_text_def leaky_bundle_def by simp code_simp
  moreover have "contains (''groq_api_key=x'' @ [CHR 0x0A]) ''groq_api_key=''" by code_simp
  ultimately show ?thesis by simp
qed

lemma leaky_changed: "changed_paths leaky_bundle = Inr []"
  by (simp add: changed_paths_def jget_default_def leaky_bundle_def)

lemma leaky_verdict:
  "\<exists>v. verify_evidence (sample_registry env) sample_manifest sample_plan leaky_bundle = Inr v
     \<and> security_findings v = combined_findings leaky_bundle []"
proof -
  obtain s where s: "evaluate_security leaky_bundle = Inr s" "sec_findings s = combined_findings leaky_bundle []"
    by (simp add: evaluate_security_def Let_def leaky_changed)
  have p: "is_hex64 (hp_manifest_digest sample_plan)" "is_hex64 (hp_provenance_digest sample_plan)"
    "is_hex64 (hp_plan_digest sample_plan)"
    using sample_plan_valid by (simp_all add: validate_plan_Inr)
  have "ev_run_id leaky_bundle = ''run-1''" by (simp add: leaky_bundle_def)
  then show ?thesis
    using make_verdict_valid [OF p, of s] security_gate_values [OF s(1)] s(2)
    by (simp add: verify_evidence_def guards.simps sample_require s(1) make_verdict_def Let_def)
qed

theorem severe_evidence_fails_witness:
  "\<exists>v. verify_evidence (sample_registry sample_env) sample_manifest sample_plan leaky_bundle = Inr v
     \<and> hv_status v = VFail"
proof -
  obtain v where v: "verify_evidence (sample_registry sample_env) sample_manifest sample_plan leaky_bundle = Inr v"
    using leaky_verdict by blast
  have "list_ex (contains (output_text leaky_bundle)) secret_markers"
    using leaky_output by (simp add: secret_markers_def)
  then show ?thesis using severe_evidence_fails [OF v leaky_changed] v by blast
qed




section \<open>Check identifiers\<close>

definition all_kinds :: "evidence_kind list" where
  "all_kinds = [KExitCode, KStdout, KStderr, KCommands, KProcesses, KNetwork, KFilesystemBefore,
     KFilesystemAfter, KInference, KAssertions, KFindings, KRuntimeMetadata, KPolicy, KOcsfEvents,
     KCodingReceipt, KAgentEvents, KWorkspaceDiff, KTestResults, KBrowserReceipt, KBrowserEvents,
     KDomSnapshot, KAccessibilitySnapshot, KNetworkTrace, KScreenshots, KDownloads, KBrowserAssertions]"

lemma set_all_kinds: "k \<in> set all_kinds"
  by (cases k) (simp_all add: all_kinds_def)

lemma inj_kind_value: "inj kind_value"
proof -
  have "distinct (map kind_value all_kinds)" by code_simp
  then have "inj_on kind_value (set all_kinds)" by (simp add: distinct_map)
  moreover have "set all_kinds = UNIV" using set_all_kinds by blast
  ultimately show ?thesis by simp
qed

lemma valid_manifest_checks:
  assumes "validate_manifest m = Inr m'"
  shows "distinct (map check_id (hm_checks m))" and "\<forall>i \<in> set (map check_id (hm_checks m)). \<not> reserved_id i"
    and "distinct (required (hm_evidence m))" and "set (required (hm_evidence m)) \<subseteq> set (capture (hm_evidence m))"
    and "\<forall>v \<in> set (hm_checks m). verifier_evidence v \<in> set (required (hm_evidence m))"
proof -
  from assms have v: "validate_verification (hm_checks m) = Inr (hm_checks m)"
    and e: "validate_evidence_contract (hm_evidence m) = Inr (hm_evidence m)"
    and g: "list_all (\<lambda>g. \<not> fst g) (manifest_guards m)"
    by (auto simp: validate_manifest_def rbind_Inr_iff guard_simps validate_verification_def
        validate_evidence_contract_def Let_def)
  from v show "distinct (map check_id (hm_checks m))" "\<forall>i \<in> set (map check_id (hm_checks m)). \<not> reserved_id i"
    by (auto simp: validate_verification_def rbind_Inr_iff guard_simps Let_def filter_empty_conv)
  from e show "distinct (required (hm_evidence m))" "set (required (hm_evidence m)) \<subseteq> set (capture (hm_evidence m))"
    by (auto simp: validate_evidence_contract_def guard_simps)
  from g show "\<forall>v \<in> set (hm_checks m). verifier_evidence v \<in> set (required (hm_evidence m))"
    by (auto simp: manifest_guards_def Let_def list_ex_iff unmet_check_def)
qed

text \<open>The identifiers of the domain checks: distinct, and all with the reserved prefix.\<close>

definition domain_ids_ok :: "domain_adapter \<Rightarrow> bool" where
  "domain_ids_ok ad \<longleftrightarrow> (\<forall>m p e. distinct (map vr_id (da_verify ad m p e))
     \<and> (\<forall>r \<in> set (da_verify ad m p e). starts_with (vr_id r) ''domain:''))"

lemma domain_ids_builtin: "domain_ids_ok coding_command_adapter" "domain_ids_ok (coding_agent_adapter env)"
  "domain_ids_ok (browser_adapter env)"
proof -
  have ids: "vr_id (assertion_check k e c) = fst c" for k e c
    by (cases c) (simp add: assertion_check_def Let_def)
  have "distinct (map fst agent_checks)" "distinct (map fst browser_checks)"
    "\<forall>c \<in> set agent_checks. starts_with (fst c) ''domain:''"
    "\<forall>c \<in> set browser_checks. starts_with (fst c) ''domain:''" by code_simp+
  then show "domain_ids_ok coding_command_adapter" "domain_ids_ok (coding_agent_adapter env)"
    "domain_ids_ok (browser_adapter env)"
    by (simp_all add: domain_ids_ok_def coding_command_adapter_def base_adapter_def
        coding_agent_adapter_def browser_adapter_def ids comp_def)
qed

lemma input_check_ids: "set (map vr_id (input_check p e)) \<subseteq> {''input-continuity''}"
  "distinct (map vr_id (input_check p e))"
  by (auto simp: input_check_def Let_def split: option.splits)

lemma result_ids: "map vr_id (all_results m p e ad s) =
    [''provenance-continuity'', ''runtime-continuity'', ''command-continuity''] @ map vr_id (input_check p e)
    @ map (\<lambda>k. ''evidence:'' @ kind_value k) (required (hm_evidence m))
    @ map vr_id (da_verify ad m p e) @ map check_id (hm_checks m) @ [''security-gate'']"
  by (simp add: all_results_def provenance_check_def runtime_check_def command_check_def Let_def
      evidence_check_def comp_def)

lemma reserved_prefixed: "starts_with i ''domain:'' \<Longrightarrow> reserved_id i" "reserved_id (''evidence:'' @ k)"
  by (simp_all add: reserved_id_def reserved_check_prefixes_def starts_with_def)

lemma distinct_blocks:
  "\<lbrakk>distinct A; distinct E; distinct D; distinct M; g \<notin> set A;
    \<forall>i \<in> insert g (set A). \<not> pe i \<and> \<not> pd i \<and> res i; \<forall>i \<in> set E. pe i \<and> \<not> pd i \<and> res i;
    \<forall>i \<in> set D. pd i \<and> res i; \<forall>i \<in> set M. \<not> res i\<rbrakk> \<Longrightarrow> distinct (A @ E @ D @ M @ [g])"
  by (auto simp: disjoint_iff)

text \<open>A verdict never has two checks of the same identifier: for a valid manifest and a built-in
  domain adapter the identifiers of the continuity checks, the evidence checks, the domain checks, the
  manifest's own checks and the security gate are pairwise distinct, so a manifest cannot shadow a
  kernel check and a failed identifier names one failed check.\<close>

theorem verdict_ids_distinct:
  assumes "verify_evidence reg m p e = Inr v" and "validate_manifest m = Inr m'"
    and "require reg (hp_adapter p) = Inr ad" and "domain_ids_ok ad"
  shows "distinct (map vr_id (hv_checks v))"
proof -
  from assms(1,3) obtain s where v: "v = make_verdict p e (all_results m p e ad s) s"
    by (elim verify_evidence_Inr) simp
  note c = valid_manifest_checks [OF assms(2)]
  have ev: "distinct (map (\<lambda>k. ''evidence:'' @ kind_value k) (required (hm_evidence m)))"
    using c(3) inj_kind_value by (simp add: distinct_map inj_on_def inj_def)
  have dom: "distinct (map vr_id (da_verify ad m p e))"
    "\<forall>i \<in> set (map vr_id (da_verify ad m p e)). starts_with i ''domain:''"
    using assms(4) by (auto simp: domain_ids_ok_def)
  let ?A = "[''provenance-continuity'', ''runtime-continuity'', ''command-continuity''] @ map vr_id (input_check p e)"
  have sub: "insert ''security-gate'' (set ?A) \<subseteq> {''provenance-continuity'', ''runtime-continuity'',
      ''command-continuity'', ''input-continuity'', ''security-gate''}"
    using input_check_ids(1) [of p e] by auto
  have all: "\<forall>i \<in> {''provenance-continuity'', ''runtime-continuity'', ''command-continuity'',
      ''input-continuity'', ''security-gate''}.
      \<not> starts_with i ''evidence:'' \<and> \<not> starts_with i ''domain:'' \<and> reserved_id i"
    by (simp add: reserved_id_def reserved_check_ids_def starts_with_def)
  have kernel: "\<forall>i \<in> insert ''security-gate'' (set ?A).
      \<not> starts_with i ''evidence:'' \<and> \<not> starts_with i ''domain:'' \<and> reserved_id i"
    by (rule ballI) (rule bspec [OF all subsetD [OF sub]])
  have E: "\<forall>i \<in> set (map (\<lambda>k. ''evidence:'' @ kind_value k) (required (hm_evidence m))).
      starts_with i ''evidence:'' \<and> \<not> starts_with i ''domain:'' \<and> reserved_id i"
    using reserved_prefixed(2) by (auto simp: starts_with_def)
  have A: "distinct ?A" "''security-gate'' \<notin> set ?A"
    using input_check_ids [of p e] by auto
  have D: "\<forall>i \<in> set (map vr_id (da_verify ad m p e)). starts_with i ''domain:'' \<and> reserved_id i"
    using dom(2) reserved_prefixed(1) by blast
  from distinct_blocks [OF A(1) ev dom(1) c(1) A(2) kernel E D c(2)] show ?thesis
    unfolding v make_verdict_simps result_ids by (simp only: append_assoc)
qed

theorem verdict_ids_distinct_witness:
  "\<exists>v. verify_evidence (sample_registry sample_env) sample_manifest sample_plan sample_bundle = Inr v
     \<and> distinct (map vr_id (hv_checks v))"
proof -
  obtain v where v: "verify_evidence (sample_registry sample_env) sample_manifest sample_plan sample_bundle = Inr v"
    using sample_verdict by blast
  have "require (sample_registry sample_env) (hp_adapter sample_plan) = Inr coding_command_adapter"
    by (simp add: sample_require)
  from verdict_ids_distinct [OF v sample_manifest_valid this domain_ids_builtin(1)] v show ?thesis by blast
qed

section \<open>Runs\<close>

text \<open>C39: A run always destroys its sandbox: once \<open>prepare\<close> has returned a sandbox, the last thing done to
  the runtime is \<open>destroy\<close> of that sandbox, whether the execution, the collection or the adapter's
  normalisation succeeded or raised.\<close>

theorem run_destroys_sandbox:
  assumes "ra_prepare rt spec s = (Inr sid, s1)"
  shows "\<exists>s2. snd (execute_plan rt ad m p spec stdin ledger s) = snd (ra_destroy rt sid s2)"
  using sandboxed_destroys by (simp add: execute_plan_def sbind_def assms)

theorem run_destroys_sandbox_witness:
  "\<exists>s2. snd (execute_plan fake_runtime coding_command_adapter sample_manifest sample_plan sample_spec None None [])
     = snd (ra_destroy fake_runtime ''fake:run-1'' s2)"
  by (rule run_destroys_sandbox [of _ _ _ _ "[(''fake:run-1'', \<lparr>fr_spec = sample_spec, fr_commands = []\<rparr>)]"])
     (simp add: fake_runtime_def fake_prepare_def fake_sandbox_id_def sample_spec_def)

text \<open>On the deterministic runtime a run leaves no trace in the runtime state, for every manifest,
  every adapter and every outcome, errors included.\<close>

theorem fake_run_restores_state:
  assumes "fake_accepts spec (ks_runtime ks)"
  shows "ks_runtime (snd (run_harness reg m spec fake_runtime ledger er vr ks)) = ks_runtime ks"
  by (rule fake.run_restores [OF assms])

theorem fake_run_restores_state_witness:
  "ks_runtime (snd (run_harness (sample_registry sample_env) sample_manifest sample_spec fake_runtime None
     None None sample_state)) = []"
  using fake_run_restores_state [of sample_spec sample_state] sample_accepts by (simp add: sample_state_def)

text \<open>A coding-command run on the deterministic runtime keeps the plan: none of the provenance, runtime,
  command and input continuity checks of its verdict fails.\<close>

theorem fake_run_continuity:
  assumes "fake_accepts spec (ks_runtime ks)"
    and "run_harness reg m spec fake_runtime ledger er vr ks = (Inr r, ks')"
    and "require reg (adapter_name (hm_execution m)) = Inr coding_command_adapter"
  shows "vr_passed (provenance_check (rr_plan r) (rr_evidence r))
    \<and> vr_passed (runtime_check (rr_plan r) (rr_evidence r))
    \<and> vr_passed (command_check (rr_plan r) (rr_evidence r))
    \<and> list_all vr_passed (input_check (rr_plan r) (rr_evidence r))"
proof -
  have "da_normalize coding_command_adapter m p e = Inr e" for p e
    by (simp add: coding_command_adapter_def base_adapter_def)
  from fake.run_continuity [OF assms this] show ?thesis by blast
qed

lemma sample_runs: "\<exists>r ks'. run_harness (sample_registry env) sample_manifest sample_spec fake_runtime None
    None None sample_state = (Inr r, ks')"
proof -
  obtain v where v: "verify_evidence (sample_registry env) sample_manifest sample_plan sample_bundle = Inr v"
    using sample_verdict by blast
  have ad: "adapter_name (hm_execution sample_manifest) = ''coding.command.v1''"
    "da_stdin coding_command_adapter sample_manifest sample_spec = Inr None" "backend (runtime sample_spec) = Fake"
    by (simp_all add: sample_manifest_def coding_command_adapter_def base_adapter_def sample_spec_def)
  have rt: "ra_backend fake_runtime = Fake" "ra_capabilities fake_runtime = fake_capabilities"
    "ra_evidence fake_runtime = fake_evidence" by (simp_all add: fake_runtime_def)
  show ?thesis
    by (simp add: run_harness_def ad rt sample_require sample_compiles sample_state_def sample_execute v
        persist_results_def)
qed

theorem fake_run_continuity_witness:
  "\<exists>r ks'. run_harness (sample_registry sample_env) sample_manifest sample_spec fake_runtime None None None
     sample_state = (Inr r, ks') \<and> vr_passed (command_check (rr_plan r) (rr_evidence r))"
proof -
  obtain r ks' where r: "run_harness (sample_registry sample_env) sample_manifest sample_spec fake_runtime None
    None None sample_state = (Inr r, ks')" using sample_runs by blast
  have "fake_accepts sample_spec (ks_runtime sample_state)" using sample_accepts by (simp add: sample_state_def)
  moreover have "require (sample_registry sample_env) (adapter_name (hm_execution sample_manifest)) = Inr coding_command_adapter"
    by (simp add: sample_manifest_def sample_require)
  ultimately have "vr_passed (command_check (rr_plan r) (rr_evidence r))"
    using fake_run_continuity [OF _ r] by blast
  with r show ?thesis by blast
qed

end
