(* ===== verification/AdapterProperties.thy ===== *)
theory AdapterProperties
  imports KernelProperties
begin

text \<open>
  Properties that span the coding runner, its adapter and the kernel: the receipt the runner writes is
  the receipt the adapter accepts, the adapter accepts no other, and a passing verdict of a
  \<open>coding.agent.v1\<close> manifest goes back to a passing receipt bound to the plan; and the template
  renderer and the registry the adapters rest on.
\<close>

lemma mismatches_empty_iff [simp]: "mismatches cs = [] \<longleftrightarrow> list_all (\<lambda>c. \<not> fst c) cs"
  by (simp add: mismatches_def filter_empty_conv list_all_iff)

lemma make_receipt_fields:
  "rr_run_id (make_receipt cfg vp ap ev d ts base pv pt) = rc_run_id cfg"
  "rr_driver (make_receipt cfg vp ap ev d ts base pv pt) = cc_driver (rc_contract cfg)"
  "rr_driver_version (make_receipt cfg vp ap ev d ts base pv pt) = cc_driver_version (rc_contract cfg)"
  "rr_task_digest (make_receipt cfg vp ap ev d ts base pv pt) = rc_task_digest cfg"
  "rr_child_command_digest (make_receipt cfg vp ap ev d ts base pv pt) = rc_child_command_digest cfg"
  "rr_contract_digest (make_receipt cfg vp ap ev d ts base pv pt) = rc_contract_digest cfg"
  by (simp_all add: make_receipt_def Let_def)

lemma build_runner_config_Inr:
  "build_runner_config rid t child c = Inr cfg \<Longrightarrow>
     cfg = \<lparr>rc_run_id = rid, rc_task_digest = task_digest t, rc_child_command_digest = child_command_digest child,
       rc_contract_digest = contract_digest c, rc_contract = c\<rparr>"
  by (auto simp: build_runner_config_def validate_config_def rbind_Inr_iff guard_simps)

section \<open>Concrete inputs for the witnesses\<close>

definition agent_manifest :: harness_manifest where
  "agent_manifest = sample_manifest\<lparr>hm_coding := Some sample_contract,
     hm_execution := \<lparr>adapter_name = ''coding.agent.v1'', command = [''agent'', ''run'']\<rparr>\<rparr>"

definition agent_spec :: run_spec where
  "agent_spec = sample_spec\<lparr>scenario := \<lparr>scenario_id = ''s'', task = ''fix'', scenario_assertions = []\<rparr>\<rparr>"

definition agent_env :: "agent_receipt \<Rightarrow> adapter_env" where
  "agent_env r = sample_env\<lparr>decode_coding := (\<lambda>_. Inr r)\<rparr>"

definition agent_plan :: "adapter_env \<Rightarrow> harness_plan" where
  "agent_plan env = make_plan agent_manifest agent_spec (coding_agent_adapter env) fake_capabilities
     [''runner''] (Some ''fix'')"

definition agent_raw :: evidence_bundle where
  "agent_raw = (mark_evidence_captured (fake_bundle ''run-1'' \<lparr>fr_spec = agent_spec,
     fr_commands = [command_record ''fake:run-1:exec:0'' [''runner''] (Some ''fix'')]\<rparr>)
     fake_evidence (Some (backend_value Fake)))\<lparr>ev_stdout := ''{}''\<rparr>"

lemma agent_plan_fields [simp]:
  "hp_run_id (agent_plan env) = ''run-1''" "hp_stdin_digest (agent_plan env) = Some (text_digest ''fix'')"
  "hp_run_spec (agent_plan env) = agent_spec" "hp_adapter (agent_plan env) = ''coding.agent.v1''"
  "hp_command (agent_plan env) = [''runner'']" "hp_runtime_backend (agent_plan env) = Fake"
  "hp_provenance_digest (agent_plan env) = text_digest ''skill''"
  "hp_manifest_digest (agent_plan env) = canonical_digest (manifest_json agent_manifest)"
  by (simp_all add: agent_plan_def agent_spec_def sample_spec_def coding_agent_adapter_def)

lemma sample_config_built:
  "build_runner_config ''run-1'' ''fix'' [''agent'', ''run''] sample_contract = Inr sample_config"
  using sample_config_valid by (simp add: build_runner_config_def sample_config_def)

lemma agent_child: "child_command agent_manifest agent_spec = Inr [''agent'', ''run'']"
proof -
  have "template_pieces agent_fields ''agent'' = Inr [Inl ''agent'']"
    "template_pieces agent_fields ''run'' = Inr [Inl ''run'']" by code_simp+
  then show ?thesis
    by (simp add: child_command_def agent_manifest_def render_command_def render_def render_piece_def)
qed

lemma agent_contract: "coding_of agent_manifest = Inr sample_contract"
  by (simp add: coding_of_def agent_manifest_def)

lemma agent_stdout: "ev_stdout agent_raw = ''{}''"
  by (simp add: agent_raw_def)

lemma agent_parse:
  "validate_receipt r = Inr r \<Longrightarrow> parse_coding_receipt (decode_coding (agent_env r)) ''{}'' = Inr r"
proof -
  assume "validate_receipt r = Inr r"
  moreover have "loads ''{}'' = Some (JObj [])" "strip ''{}'' = ''{}''" by code_simp+
  ultimately show ?thesis by (simp add: parse_coding_receipt_def agent_env_def)
qed

text \<open>C6: The runner and the adapter agree: a receipt that the runner writes for the configuration the
  adapter compiled into the plan shows no mismatch with that plan, so a run is never rejected for a
  receipt its own runner produced.\<close>

theorem runner_receipt_matches_plan:
  assumes "build_runner_config (hp_run_id p) t child c = Inr cfg"
    and "hp_stdin_digest p = Some (text_digest t)"
    and "execute_coding_agent os cfg child t w = Inr r"
  shows "coding_mismatches c p child r = []"
proof -
  note cfg = build_runner_config_Inr [OF assms(1)]
  from assms(3) obtain vp ap ev ts d base pv pt where
    r: "r = make_receipt cfg vp ap ev d ts base pv pt"
    and vp: "captured_result (version_capture os cfg w)
       (Some (version_ok (rc_contract cfg) (version_capture os cfg w)))
       (max_output_excerpt_chars (rc_contract cfg)) = Inr vp"
    and ap: "captured_result (agent_capture os cfg child t w) None
       (if capture_agent_output_excerpts (rc_contract cfg)
        then max_output_excerpt_chars (rc_contract cfg) else 0) = Inr ap"
    and ts: "\<exists>w3. run_tests os (rc_contract cfg) (test_commands (rc_contract cfg)) (agent_world os cfg child t w) = (Inr ts, w3)"
    by (rule execute_pieces) blast
  have argv: "pr_argv vp = version_command c" "pr_argv ap = child" "map pr_argv ts = test_commands c"
    using captured_result_facts(2) [OF vp] captured_result_facts(2) [OF ap] ts
    by (auto simp: version_capture_def agent_capture_def cfg dest!: run_tests_facts)
  show ?thesis
    using argv assms(2) by (simp add: coding_mismatches_def r make_receipt_fields all_checks_def)
      (simp add: cfg task_digest_def)
qed

theorem runner_receipt_matches_plan_witness:
  "\<exists>r. sample_run ''src'' ''a'' = Inr r
     \<and> coding_mismatches sample_contract (agent_plan sample_env) [''agent'', ''run''] r = []"
proof -
  obtain r where r: "sample_run ''src'' ''a'' = Inr r" using sample_returns by blast
  have "build_runner_config (hp_run_id (agent_plan sample_env)) ''fix'' [''agent'', ''run''] sample_contract
      = Inr sample_config" by (simp add: sample_config_built)
  from runner_receipt_matches_plan [OF this _ r] r show ?thesis by simp
qed

text \<open>A passing receipt of the runner that the sample plan accepts.\<close>

lemma agent_receipt_exists:
  "\<exists>r. validate_receipt r = Inr r \<and> outcome r = ''pass''
     \<and> coding_mismatches sample_contract (agent_plan (agent_env r)) [''agent'', ''run''] r = []"
proof -
  obtain r where r: "sample_run ''src'' ''a'' = Inr r" "outcome r = ''pass''" using sample_pass by blast
  obtain vp ap ev ts d base pv pt where
    eq: "r = make_receipt sample_config vp ap ev d ts base pv pt" and v: "validate_receipt r = Inr r"
    and vp: "captured_result (version_capture (sample_os ''src'' ''a'') sample_config False)
       (Some (version_ok sample_contract (version_capture (sample_os ''src'' ''a'') sample_config False))) 50 = Inr vp"
    and ap: "captured_result (agent_capture (sample_os ''src'' ''a'') sample_config [''agent'', ''run''] ''fix'' False) None 0 = Inr ap"
    and ex: "\<exists>w. run_tests (sample_os ''src'' ''a'') sample_contract [[''pytest'']] True = (Inr ts, w)"
    using r(1) by (rule execute_pieces) auto
  from ex obtain w where ts: "run_tests (sample_os ''src'' ''a'') sample_contract [[''pytest'']] True = (Inr ts, w)" ..
  have "pr_argv vp = version_command sample_contract" "pr_argv ap = [''agent'', ''run'']" "map pr_argv ts = [[''pytest'']]"
    using captured_result_facts(2) [OF vp] captured_result_facts(2) [OF ap] run_tests_facts [OF ts]
    by (simp_all add: version_capture_def agent_capture_def)
  then have "coding_mismatches sample_contract (agent_plan (agent_env r)) [''agent'', ''run''] r = []"
    by (simp add: coding_mismatches_def eq make_receipt_fields all_checks_def)
      (simp add: sample_config_def task_digest_def sample_contract_def)
  with v r(2) show ?thesis by blast
qed

section \<open>The adapter accepts only bound receipts\<close>

lemma accept_coding_receipt_Inr:
  assumes "accept_coding_receipt env m p e = Inr r"
  obtains c child where "coding_of m = Inr c" and "child_command m (hp_run_spec p) = Inr child"
    and "parse_coding_receipt (decode_coding env) (ev_stdout e) = Inr r" and "validate_receipt r = Inr r"
    and "coding_mismatches c p child r = []"
proof -
  from assms obtain c child where c: "coding_of m = Inr c" "child_command m (hp_run_spec p) = Inr child"
    "parse_coding_receipt (decode_coding env) (ev_stdout e) = Inr r" "coding_mismatches c p child r = []"
    by (auto simp: accept_coding_receipt_def rbind_Inr_iff Let_def simp del: mismatches_empty_iff split: if_splits)
  from c(3) have "validate_receipt r = Inr r"
    by (auto simp: parse_coding_receipt_def Let_def rbind_Inr_iff validate_receipt_Inr
        split: if_splits option.splits json.splits)
  with c that show ?thesis by blast
qed

lemma map_of_update_False: "n \<in> set names \<Longrightarrow> map_of (dict_update d (map (\<lambda>n. (n, False)) names)) n = Some False"
  by (simp add: map_of_dict_update rev_map map_of_map_restrict split: option.splits)

lemma failed_receipt_assertions:
  "n \<in> set names \<Longrightarrow> map_of (assertions (failed_receipt names key exc e)) n = Some False"
  by (simp add: failed_receipt_def map_of_update_False)

lemma accepted_coding_assertions [simp]:
  "map_of (assertions (accepted_coding r e)) ''coding_receipt_valid'' = Some True"
  "map_of (assertions (accepted_coding r e)) ''coding_outcome_pass'' = Some (outcome r = ''pass'')"
  "map_of (assertions (accepted_coding r e)) ''coding_policy_pass'' = Some (list_all snd (policy_checks r))"
  "map_of (assertions (accepted_coding r e)) ''coding_wrapper_exit_consistent''
     = Some ((outcome r = ''pass'') = (exit_code e = Some 0))"
  by (simp_all add: accepted_coding_def Let_def map_of_dict_update)

text \<open>The adapter never trusts the runtime's own assertions: after normalisation
  \<open>coding_receipt_valid\<close> is true exactly when the output of the runner parses into a receipt that
  validates and matches the plan in run id, driver, version, contract, task and command digests, argument
  vectors and budgets, and then the receipt put into the evidence is that receipt.\<close>

theorem adapter_accepts_bound_receipts:
  assumes "agent_normalize env m p e = Inr e'"
  shows "map_of (assertions e') ''coding_receipt_valid'' = Some True \<longleftrightarrow>
    (\<exists>r c child. coding_of m = Inr c \<and> child_command m (hp_run_spec p) = Inr child
       \<and> parse_coding_receipt (decode_coding env) (ev_stdout e) = Inr r \<and> validate_receipt r = Inr r
       \<and> coding_mismatches c p child r = [] \<and> coding_receipt e' = receipt_obj r)"
proof (cases "accept_coding_receipt env m p e")
  case (Inl exc)
  then have "e' = failed_receipt coding_failure_names ''coding_agent'' exc e"
    using assms by (simp add: agent_normalize_def)
  then have "map_of (assertions e') ''coding_receipt_valid'' = Some False"
    using failed_receipt_assertions [of "''coding_receipt_valid''"] by (simp add: coding_failure_names_def)
  moreover have "\<not> (\<exists>r c child. coding_of m = Inr c \<and> child_command m (hp_run_spec p) = Inr child
       \<and> parse_coding_receipt (decode_coding env) (ev_stdout e) = Inr r \<and> coding_mismatches c p child r = [])"
    using Inl by (auto simp: accept_coding_receipt_def Let_def simp del: mismatches_empty_iff)
  ultimately show ?thesis by auto
next
  case (Inr r)
  then have e': "e' = accepted_coding r e" using assms by (simp add: agent_normalize_def)
  have "coding_receipt (mark_evidence_captured b ks rb) = coding_receipt b" for b ks rb
    using mark_frame [of b ks rb] by auto
  then have "coding_receipt e' = receipt_obj r" by (simp add: e' accepted_coding_def Let_def)
  with Inr show ?thesis
    by (simp add: e' del: mismatches_empty_iff) (elim accept_coding_receipt_Inr, blast)
qed

theorem adapter_accepts_bound_receipts_witness:
  "\<exists>r e'. agent_normalize (agent_env r) agent_manifest (agent_plan (agent_env r)) agent_raw = Inr e'
     \<and> map_of (assertions e') ''coding_receipt_valid'' = Some True"
proof -
  obtain r where r: "validate_receipt r = Inr r"
    "coding_mismatches sample_contract (agent_plan (agent_env r)) [''agent'', ''run''] r = []"
    using agent_receipt_exists by blast
  have acc: "accept_coding_receipt (agent_env r) agent_manifest (agent_plan (agent_env r)) agent_raw = Inr r"
    using r agent_parse [OF r(1)]
    by (simp add: accept_coding_receipt_def agent_contract agent_child agent_stdout del: mismatches_empty_iff)
  then have n: "agent_normalize (agent_env r) agent_manifest (agent_plan (agent_env r)) agent_raw
      = Inr (accepted_coding r agent_raw)" by (simp add: agent_normalize_def)
  have "coding_receipt (mark_evidence_captured b ks rb) = coding_receipt b" for b ks rb
    using mark_frame [of b ks rb] by auto
  then have "coding_receipt (accepted_coding r agent_raw) = receipt_obj r" by (simp add: accepted_coding_def Let_def)
  with adapter_accepts_bound_receipts [OF n] r agent_contract agent_child agent_stdout agent_parse [OF r(1)] n
  show ?thesis by (metis agent_plan_fields(3))
qed

text \<open>C3: A passing verdict of the kernel on a \<open>coding.agent.v1\<close> plan, for evidence that the adapter
  normalised, goes back to a receipt bound to the plan whose outcome is \<open>pass\<close>, whose thirteen policy
  checks all hold, and whose wrapper process exited with 0: no verifier, and nothing a runtime puts into
  the raw evidence, can replace it.\<close>

theorem coding_verdict_needs_receipt:
  assumes "verify_evidence reg m p e' = Inr v" and "hv_status v = VPass"
    and "require reg (hp_adapter p) = Inr (coding_agent_adapter env)"
    and "agent_normalize env m p e = Inr e'"
  shows "\<exists>r c child. coding_of m = Inr c \<and> child_command m (hp_run_spec p) = Inr child
    \<and> parse_coding_receipt (decode_coding env) (ev_stdout e) = Inr r
    \<and> coding_mismatches c p child r = [] \<and> validate_receipt r = Inr r \<and> outcome r = ''pass''
    \<and> (\<forall>k \<in> set policy_check_ids. map_of (policy_checks r) k = Some True) \<and> exit_code e = Some 0"
proof -
  from assms(1,3) obtain s where v: "v = make_verdict p e' (all_results m p e' (coding_agent_adapter env) s) s"
    by (elim verify_evidence_Inr) simp
  with assms(2) have "list_all vr_passed (all_results m p e' (coding_agent_adapter env) s)"
    by (simp add: failed_ids_empty_iff split: if_splits)
  then have chk: "\<forall>a \<in> {''coding_receipt_valid'', ''coding_outcome_pass'', ''coding_policy_pass'',
      ''coding_wrapper_exit_consistent''}. map_of (assertions e') a = Some True"
    by (simp add: all_results_def coding_agent_adapter_def agent_checks_def assertion_check_def Let_def)
  show ?thesis
  proof (cases "accept_coding_receipt env m p e")
    case (Inl exc)
    then have "e' = failed_receipt coding_failure_names ''coding_agent'' exc e"
      using assms(4) by (simp add: agent_normalize_def)
    with chk show ?thesis
      using failed_receipt_assertions [of "''coding_receipt_valid''"] by (simp add: coding_failure_names_def)
  next
    case (Inr r)
    then have e': "e' = accepted_coding r e" using assms(4) by (simp add: agent_normalize_def)
    from chk have "outcome r = ''pass'' \<and> list_all snd (policy_checks r)
        \<and> (outcome r = ''pass'') = (exit_code e = Some 0)"
      by (auto simp: e')
    then have r: "outcome r = ''pass''" "list_all snd (policy_checks r)" and eq: "(outcome r = ''pass'') = (exit_code e = Some 0)"
      by blast+
    have x: "exit_code e = Some 0" using eq [THEN iffD1, OF r(1)] .
    from Inr obtain c child where c: "coding_of m = Inr c" "child_command m (hp_run_spec p) = Inr child"
      "parse_coding_receipt (decode_coding env) (ev_stdout e) = Inr r" "validate_receipt r = Inr r"
      "coding_mismatches c p child r = []" by (rule accept_coding_receipt_Inr)
    have "set (map fst (policy_checks r)) = set policy_check_ids"
      using c(4) by (simp add: validate_receipt_Inr receipt_guards_def dict_keys_def)
    moreover have "map_of (policy_checks r) k = Some True" if "k \<in> set (map fst (policy_checks r))" for k
    proof -
      from that obtain b where b: "map_of (policy_checks r) k = Some b"
        by (metis map_of_eq_None_iff list.set_map not_None_eq)
      with r(2) show ?thesis by (auto simp: list_all_iff dest!: map_of_SomeD)
    qed
    ultimately have "\<forall>k \<in> set policy_check_ids. map_of (policy_checks r) k = Some True" by simp
    then show ?thesis
      by (intro exI [of _ r] exI [of _ c] exI [of _ child] conjI c r(1) x)
  qed
qed


lemma accepted_coding_frame [simp]:
  "ev_run_id (accepted_coding r e) = ev_run_id e" "ev_stdout (accepted_coding r e) = ev_stdout e"
  "ev_provenance_digest (accepted_coding r e) = ev_provenance_digest e" "exit_code (accepted_coding r e) = exit_code e"
  "commands (accepted_coding r e) = commands e" "findings (accepted_coding r e) = findings e"
  "network (accepted_coding r e) = network e" "filesystem_after (accepted_coding r e) = filesystem_after e"
  "ev_stderr (accepted_coding r e) = ev_stderr e"
  "map_of (runtime_metadata (accepted_coding r e)) ''runtime_backend'' = map_of (runtime_metadata e) ''runtime_backend''"
  by (simp_all add: accepted_coding_def Let_def mark_runtime_backend_none)

lemma agent_raw_fields [simp]:
  "ev_run_id agent_raw = ''run-1''" "findings agent_raw = []" "network agent_raw = []"
  "filesystem_after agent_raw = []" "exit_code agent_raw = Some 0" "ev_stdout agent_raw = ''{}''"
  "ev_stderr agent_raw = []" "ev_provenance_digest agent_raw = Some (text_digest ''skill'')"
  "commands agent_raw = [command_record ''fake:run-1:exec:0'' [''runner''] (Some ''fix'')]"
  "map_of (runtime_metadata agent_raw) ''runtime_backend'' = Some (JStr ''fake'')"
  by (simp_all add: agent_raw_def fake_bundle_def empty_evidence_def agent_spec_def sample_spec_def
      mark_runtime_backend)

lemma agent_verdict:
  assumes "outcome r = ''pass''" and "list_all snd (policy_checks r)"
  shows "\<exists>v. verify_evidence (sample_registry (agent_env r)) agent_manifest (agent_plan (agent_env r))
      (accepted_coding r agent_raw) = Inr v \<and> hv_status v = VPass"
proof -
  let ?e = "accepted_coding r agent_raw" and ?p = "agent_plan (agent_env r)"
  let ?ad = "coding_agent_adapter (agent_env r)"
  have ch: "changed_paths ?e = Inr []" by (simp add: changed_paths_def jget_default_def)
  then obtain s where s: "evaluate_security ?e = Inr s" by (simp add: evaluate_security_def Let_def)
  have v: "validate_plan ?p = Inr ?p"
    unfolding agent_plan_def
    by (rule make_plan_valid [of _ "text_digest ''skill''"])
       (simp_all add: agent_spec_def sample_spec_def agent_manifest_def sample_manifest_def validate_verifier_def guards.simps)
  then have p: "is_hex64 (hp_manifest_digest ?p)" "is_hex64 (hp_provenance_digest ?p)" "is_hex64 (hp_plan_digest ?p)"
    by (simp_all add: validate_plan_Inr)
  have out: "\<not> list_ex (contains (output_text ?e)) secret_markers"
    unfolding output_text_def by simp code_simp
  have "evidence_satisfies agent_manifest ?p ?ad ?e []"
    unfolding evidence_satisfies_def using out assms
    by (simp add: agent_manifest_def sample_manifest_def coding_agent_adapter_def agent_checks_def assertion_check_def
        Let_def evidence_present_def command_record_def jget_default_def jget_null_def)
  then have "list_all vr_passed (all_results agent_manifest ?p ?e ?ad s)"
    using all_results_pass [OF ch s] by blast
  then have "hv_status (make_verdict ?p ?e (all_results agent_manifest ?p ?e ?ad s) s) = VPass"
    by (simp add: failed_ids_empty_iff)
  then show ?thesis
    using make_verdict_valid [OF p, of s] security_gate_values [OF s]
    by (simp add: verify_evidence_def guards.simps sample_require s)
qed

theorem coding_verdict_needs_receipt_witness:
  "\<exists>r. exit_code agent_raw = Some 0 \<and> outcome r = ''pass''
     \<and> parse_coding_receipt (decode_coding (agent_env r)) (ev_stdout agent_raw) = Inr r
     \<and> (\<forall>k \<in> set policy_check_ids. map_of (policy_checks r) k = Some True)"
proof -
  obtain r where r: "validate_receipt r = Inr r" "outcome r = ''pass''"
    "coding_mismatches sample_contract (agent_plan (agent_env r)) [''agent'', ''run''] r = []"
    using agent_receipt_exists by blast
  have acc: "accept_coding_receipt (agent_env r) agent_manifest (agent_plan (agent_env r)) agent_raw = Inr r"
    using r agent_parse [OF r(1)]
    by (simp add: accept_coding_receipt_def agent_contract agent_child del: mismatches_empty_iff)
  then have n: "agent_normalize (agent_env r) agent_manifest (agent_plan (agent_env r)) agent_raw
      = Inr (accepted_coding r agent_raw)" by (simp add: agent_normalize_def)
  have "list_all snd (policy_checks r)" using receipt_pass_checks(1) [OF r(1,2)] .
  then obtain v where v: "verify_evidence (sample_registry (agent_env r)) agent_manifest (agent_plan (agent_env r))
      (accepted_coding r agent_raw) = Inr v" "hv_status v = VPass"
    using agent_verdict r(2) by blast
  have "require (sample_registry (agent_env r)) (hp_adapter (agent_plan (agent_env r))) = Inr (coding_agent_adapter (agent_env r))"
    by (simp add: sample_require)
  from coding_verdict_needs_receipt [OF v this n] obtain r' where
    "parse_coding_receipt (decode_coding (agent_env r)) (ev_stdout agent_raw) = Inr r'"
    "outcome r' = ''pass''" "\<forall>k \<in> set policy_check_ids. map_of (policy_checks r') k = Some True"
    "exit_code agent_raw = Some 0" by blast
  moreover have "r' = r" using calculation(1) agent_parse [OF r(1)] by simp
  ultimately show ?thesis by blast
qed

end
