(* ===== verification/RunArtifacts.thy ===== *)
theory RunArtifacts
  imports HarnessContract
begin

text \<open>
  \<open>run_artifact_common.py\<close>, \<open>run_artifact_contract.py\<close> and \<open>run_artifact_bundle.py\<close>: the artifacts
  derived from a run (evaluator authority, evidence graph, replay manifest, logical trace, outcome
  scorecard and the bundle of all five) with their validators, and the content-addressed store.
\<close>

section \<open>Common\<close>

definition ra_mutable_refs :: "string list" where
  "ra_mutable_refs = [''main'', ''master'', ''head'', ''latest'', ''*'', ''unknown'', ''none'', ''pin_me'']"

definition digest_ref :: "string \<Rightarrow> string" where
  "digest_ref d = ''sha256:'' @ d"

text \<open>The pattern \<open>^sha256:[0-9a-f]{64}$\<close>.\<close>

definition is_node_id :: "string \<Rightarrow> bool" where
  "is_node_id s \<longleftrightarrow> starts_with s ''sha256:'' \<and> is_hex64 (drop 7 s)"

definition is_git_ref :: "string \<Rightarrow> bool" where
  "is_git_ref s \<longleftrightarrow> starts_with s ''git:'' \<and> is_hex 40 (drop 4 s)"

definition is_immutable_reference :: "string \<Rightarrow> bool" where
  "is_immutable_reference v = (let n = lower (strip v) in
     if n = [] \<or> n \<in> set ra_mutable_refs then False
     else is_hex 40 n \<or> is_hex64 n \<or> is_node_id n \<or> is_git_ref n)"

definition is_sha256_reference :: "string option \<Rightarrow> bool" where
  "is_sha256_reference v = (case v of None \<Rightarrow> False
     | Some s \<Rightarrow> (let n = lower (strip s) in is_hex64 n \<or> is_node_id n))"

fun json_mapping :: "json \<Rightarrow> string \<Rightarrow> json dict res" where
  "json_mapping (JObj d) name = Inr d"
| "json_mapping _ name = Inl (RunArtifactError (name @ '' must be a JSON object''))"

definition require_str :: "json dict \<Rightarrow> string \<Rightarrow> string \<Rightarrow> string res" where
  "require_str d k name = (case jget_null d k of
     JStr s \<Rightarrow> if s = [] then Inl (RunArtifactError (name @ ''.'' @ k @ '' must be a non-empty string''))
               else Inr s
   | _ \<Rightarrow> Inl (RunArtifactError (name @ ''.'' @ k @ '' must be a non-empty string'')))"

definition validate_content_digest :: "json dict \<Rightarrow> string \<Rightarrow> string \<Rightarrow> string res" where
  "validate_content_digest d field name = rbind (require_str d field name) (\<lambda>seen. guards
     [(\<not> is_hex64 seen, RunArtifactError (name @ ''.'' @ field @ '' must be a lowercase SHA-256 digest'')),
      (canonical_digest (JObj (filter (\<lambda>kv. fst kv \<noteq> field) d)) \<noteq> seen,
        RunArtifactError (name @ ''.'' @ field @ '' does not match the payload''))] seen)"

section \<open>The evaluator authority\<close>

datatype authority_kind = AuthorityOperator | AuthorityRepository | AuthorityRegistry

fun authority_kind_value :: "authority_kind \<Rightarrow> string" where
  "authority_kind_value AuthorityOperator = ''operator''"
| "authority_kind_value AuthorityRepository = ''repository''"
| "authority_kind_value AuthorityRegistry = ''registry''"

datatype trust_basis = OperatorApproved | RepositoryPinned | RegistryAttested

fun trust_basis_value :: "trust_basis \<Rightarrow> string" where
  "trust_basis_value OperatorApproved = ''operator-approved''"
| "trust_basis_value RepositoryPinned = ''repository-pinned''"
| "trust_basis_value RegistryAttested = ''registry-attested''"

record evaluator_authority =
  authority_id :: string
  ea_kind :: authority_kind
  ea_basis :: trust_basis
  ea_source_url :: string
  ea_commit :: string
  ea_manifest_digest :: string
  ea_evaluator_digest :: string
  authority_digest :: string

definition authority_payload :: "evaluator_authority \<Rightarrow> json dict" where
  "authority_payload a = [(''schema_version'', JStr ''1.0''), (''authority_id'', JStr (authority_id a)),
     (''kind'', JStr (authority_kind_value (ea_kind a))),
     (''trust_basis'', JStr (trust_basis_value (ea_basis a))),
     (''source_url'', JStr (ea_source_url a)), (''commit_or_digest'', JStr (ea_commit a)),
     (''manifest_digest'', JStr (ea_manifest_digest a)),
     (''evaluator_digest'', JStr (ea_evaluator_digest a))]"

definition authority_json :: "evaluator_authority \<Rightarrow> json" where
  "authority_json a = JObj (authority_payload a @ [(''authority_digest'', JStr (authority_digest a))])"

definition validate_authority :: "evaluator_authority \<Rightarrow> evaluator_authority res" where
  "validate_authority a = guards
     [(\<not> is_identity_id (authority_id a), ValidationError ''authority_id''),
      (ea_source_url a = [], ValidationError ''source_url''),
      (ea_commit a = [], ValidationError ''commit_or_digest''),
      (\<not> is_hex64 (ea_manifest_digest a), ValidationError ''manifest_digest''),
      (\<not> is_hex64 (ea_evaluator_digest a), ValidationError ''evaluator_digest''),
      (\<not> is_hex64 (authority_digest a), ValidationError ''authority_digest''),
      (\<not> is_immutable_reference (ea_commit a),
        ValidationError ''evaluator authority requires an immutable commit or digest''),
      (canonical_digest (JObj (authority_payload a)) \<noteq> authority_digest a,
        ValidationError ''authority digest does not match authority payload'')] a"

definition build_evaluator_authority ::
  "string \<Rightarrow> authority_kind \<Rightarrow> trust_basis \<Rightarrow> string \<Rightarrow> string \<Rightarrow> string \<Rightarrow> string \<Rightarrow> evaluator_authority res" where
  "build_evaluator_authority aid k b url commit md ed =
     (let a = \<lparr>authority_id = aid, ea_kind = k, ea_basis = b, ea_source_url = url, ea_commit = commit,
               ea_manifest_digest = md, ea_evaluator_digest = ed, authority_digest = []\<rparr>
      in validate_authority (a\<lparr>authority_digest := canonical_digest (JObj (authority_payload a))\<rparr>))"

section \<open>The evidence graph\<close>

record graph_node =
  gn_id :: string
  gn_kind :: string
  gn_payload_digest :: string
  gn_attributes :: "json dict"

record graph_edge =
  ge_id :: string
  ge_source :: string
  ge_target :: string
  ge_relation :: string
  ge_attributes :: "json dict"

record evidence_graph =
  eg_run_id :: string
  eg_nodes :: "graph_node list"
  eg_edges :: "graph_edge list"
  graph_digest :: string

definition node_payload :: "string \<Rightarrow> string \<Rightarrow> json dict \<Rightarrow> json" where
  "node_payload k d attrs = JObj [(''kind'', JStr k), (''payload_digest'', JStr d), (''attributes'', JObj attrs)]"

definition edge_payload :: "string \<Rightarrow> string \<Rightarrow> string \<Rightarrow> json dict \<Rightarrow> json" where
  "edge_payload s t r attrs = JObj [(''source'', JStr s), (''target'', JStr t), (''relation'', JStr r),
     (''attributes'', JObj attrs)]"

definition node_json :: "graph_node \<Rightarrow> json" where
  "node_json n = JObj [(''id'', JStr (gn_id n)), (''kind'', JStr (gn_kind n)),
     (''payload_digest'', JStr (gn_payload_digest n)), (''attributes'', JObj (gn_attributes n))]"

definition edge_json :: "graph_edge \<Rightarrow> json" where
  "edge_json e = JObj [(''id'', JStr (ge_id e)), (''source'', JStr (ge_source e)),
     (''target'', JStr (ge_target e)), (''relation'', JStr (ge_relation e)),
     (''attributes'', JObj (ge_attributes e))]"

definition graph_payload :: "evidence_graph \<Rightarrow> json dict" where
  "graph_payload g = [(''schema_version'', JStr ''1.0''), (''run_id'', JStr (eg_run_id g)),
     (''nodes'', JArr (map node_json (eg_nodes g))), (''edges'', JArr (map edge_json (eg_edges g)))]"

definition graph_json :: "evidence_graph \<Rightarrow> json" where
  "graph_json g = JObj (graph_payload g @ [(''graph_digest'', JStr (graph_digest g))])"

definition validate_node :: "graph_node \<Rightarrow> graph_node res" where
  "validate_node n = guards
     [(\<not> is_node_id (gn_id n), ValidationError ''id''),
      (gn_kind n = [], ValidationError ''kind''),
      (\<not> is_hex64 (gn_payload_digest n), ValidationError ''payload_digest''),
      (digest_ref (canonical_digest (node_payload (gn_kind n) (gn_payload_digest n) (gn_attributes n))) \<noteq> gn_id n,
        ValidationError ''evidence graph node id does not match node payload'')] n"

definition validate_edge :: "graph_edge \<Rightarrow> graph_edge res" where
  "validate_edge e = guards
     [(\<not> is_node_id (ge_id e), ValidationError ''id''),
      (\<not> is_node_id (ge_source e), ValidationError ''source''),
      (\<not> is_node_id (ge_target e), ValidationError ''target''),
      (ge_relation e = [], ValidationError ''relation''),
      (digest_ref (canonical_digest (edge_payload (ge_source e) (ge_target e) (ge_relation e) (ge_attributes e)))
         \<noteq> ge_id e, ValidationError ''evidence graph edge id does not match edge payload'')] e"

definition dangling_edges :: "evidence_graph \<Rightarrow> string list" where
  "dangling_edges g = map ge_id (filter (\<lambda>e. ge_source e \<notin> set (map gn_id (eg_nodes g))
     \<or> ge_target e \<notin> set (map gn_id (eg_nodes g))) (eg_edges g))"

definition validate_graph :: "evidence_graph \<Rightarrow> evidence_graph res" where
  "validate_graph g = rbind (traverse validate_node (eg_nodes g)) (\<lambda>_.
     rbind (traverse validate_edge (eg_edges g)) (\<lambda>_. guards
     [(eg_run_id g = [], ValidationError ''run_id''),
      (\<not> is_hex64 (graph_digest g), ValidationError ''graph_digest''),
      (\<not> distinct (map gn_id (eg_nodes g)), ValidationError ''evidence graph node ids must be unique''),
      (\<not> distinct (map ge_id (eg_edges g)), ValidationError ''evidence graph edge ids must be unique''),
      (dangling_edges g \<noteq> [], ValidationError ''evidence graph contains dangling edges''),
      (canonical_digest (JObj (graph_payload g)) \<noteq> graph_digest g,
        ValidationError ''evidence graph digest does not match graph payload'')] g))"

section \<open>The replay manifest\<close>

datatype replay_class = ReplayExact | ReplayPartial | ReplayNone

fun replay_value :: "replay_class \<Rightarrow> string" where
  "replay_value ReplayExact = ''exact''"
| "replay_value ReplayPartial = ''partial''"
| "replay_value ReplayNone = ''none''"

record replay_manifest =
  rm_run_id :: string
  rm_plan_digest :: string
  rm_authority_digest :: string
  rm_provenance_digest :: string
  rm_policy_digest :: string
  rm_command_digest :: string
  rm_stdin_digest :: "string option"
  rm_backend :: string
  rm_version :: string
  rm_image_digest :: string
  snapshot_capable :: bool
  rm_snapshot_digest :: "string option"
  rm_class :: replay_class
  reasons :: "string list"
  replay_digest :: string

definition replay_payload :: "replay_manifest \<Rightarrow> json dict" where
  "replay_payload r = [(''schema_version'', JStr ''1.0''), (''run_id'', JStr (rm_run_id r)),
     (''plan_digest'', JStr (rm_plan_digest r)), (''authority_digest'', JStr (rm_authority_digest r)),
     (''provenance_digest'', JStr (rm_provenance_digest r)),
     (''policy_digest'', JStr (rm_policy_digest r)), (''command_digest'', JStr (rm_command_digest r)),
     (''stdin_digest'', opt_str (rm_stdin_digest r)), (''runtime_backend'', JStr (rm_backend r)),
     (''runtime_version'', JStr (rm_version r)), (''runtime_image_digest'', JStr (rm_image_digest r)),
     (''snapshot_capable'', JBool (snapshot_capable r)),
     (''snapshot_digest'', opt_str (rm_snapshot_digest r)),
     (''replay_class'', JStr (replay_value (rm_class r))), (''reasons'', strs (reasons r))]"

definition replay_manifest_json :: "replay_manifest \<Rightarrow> json" where
  "replay_manifest_json r = JObj (replay_payload r @ [(''replay_digest'', JStr (replay_digest r))])"

definition validate_replay_manifest :: "replay_manifest \<Rightarrow> replay_manifest res" where
  "validate_replay_manifest r = guards
     [(rm_run_id r = [], ValidationError ''run_id''),
      (\<not> is_hex64 (rm_plan_digest r), ValidationError ''plan_digest''),
      (\<not> is_hex64 (rm_authority_digest r), ValidationError ''authority_digest''),
      (\<not> is_hex64 (rm_provenance_digest r), ValidationError ''provenance_digest''),
      (\<not> is_hex64 (rm_policy_digest r), ValidationError ''policy_digest''),
      (\<not> is_hex64 (rm_command_digest r), ValidationError ''command_digest''),
      (\<not> opt_hex64 (rm_stdin_digest r), ValidationError ''stdin_digest''),
      (rm_backend r = [], ValidationError ''runtime_backend''),
      (rm_version r = [], ValidationError ''runtime_version''),
      (rm_image_digest r = [], ValidationError ''runtime_image_digest''),
      (\<not> opt_hex64 (rm_snapshot_digest r), ValidationError ''snapshot_digest''),
      (\<not> is_hex64 (replay_digest r), ValidationError ''replay_digest''),
      (reasons r \<noteq> sorted_set (reasons r), ValidationError ''replay reasons must be sorted and unique''),
      (rm_class r = ReplayExact \<and> (\<not> snapshot_capable r \<or> rm_snapshot_digest r = None),
        ValidationError ''exact replay requires a captured snapshot and capability''),
      (rm_class r = ReplayExact \<and> \<not> is_sha256_reference (Some (rm_image_digest r)),
        ValidationError ''exact replay requires an immutable runtime image digest''),
      (canonical_digest (JObj (replay_payload r)) \<noteq> replay_digest r,
        ValidationError ''replay digest does not match replay payload'')] r"

section \<open>The logical trace\<close>

datatype span_status = SpanOk | SpanError | SpanUnset

fun span_status_value :: "span_status \<Rightarrow> string" where
  "span_status_value SpanOk = ''ok''"
| "span_status_value SpanError = ''error''"
| "span_status_value SpanUnset = ''unset''"

record trace_span =
  span_id :: string
  parent_span_id :: "string option"
  span_name :: string
  span_status :: span_status
  span_attributes :: "json dict"

record logical_trace =
  lt_run_id :: string
  lt_plan_digest :: string
  trace_id :: string
  semantic_targets :: "string list"
  spans :: "trace_span list"
  trace_digest :: string

definition span_payload :: "string option \<Rightarrow> string \<Rightarrow> span_status \<Rightarrow> json dict \<Rightarrow> json" where
  "span_payload parent name st attrs = JObj [(''parent_span_id'', opt_str parent), (''name'', JStr name),
     (''kind'', JStr ''internal''), (''status'', JStr (span_status_value st)), (''attributes'', JObj attrs)]"

definition span_json :: "trace_span \<Rightarrow> json" where
  "span_json s = JObj [(''span_id'', JStr (span_id s)), (''parent_span_id'', opt_str (parent_span_id s)),
     (''name'', JStr (span_name s)), (''kind'', JStr ''internal''),
     (''status'', JStr (span_status_value (span_status s))), (''attributes'', JObj (span_attributes s))]"

definition trace_payload :: "logical_trace \<Rightarrow> json dict" where
  "trace_payload t = [(''schema_version'', JStr ''1.0''), (''run_id'', JStr (lt_run_id t)),
     (''plan_digest'', JStr (lt_plan_digest t)), (''trace_id'', JStr (trace_id t)),
     (''timing_state'', JStr ''not-captured''),
     (''semantic_convention_targets'', strs (semantic_targets t)),
     (''spans'', JArr (map span_json (spans t)))]"

definition trace_json :: "logical_trace \<Rightarrow> json" where
  "trace_json t = JObj (trace_payload t @ [(''trace_digest'', JStr (trace_digest t))])"

definition validate_span :: "trace_span \<Rightarrow> trace_span res" where
  "validate_span s = guards
     [(\<not> is_hex 16 (span_id s), ValidationError ''span_id''),
      (case parent_span_id s of None \<Rightarrow> False | Some p \<Rightarrow> \<not> is_hex 16 p, ValidationError ''parent_span_id''),
      (span_name s = [], ValidationError ''name''),
      (take 16 (canonical_digest (span_payload (parent_span_id s) (span_name s) (span_status s) (span_attributes s)))
         \<noteq> span_id s, ValidationError ''logical span id does not match span payload'')] s"

definition trace_id_of :: "string \<Rightarrow> string" where
  "trace_id_of plan_digest = take 32 (canonical_digest (strs [''logical-trace'', plan_digest]))"

definition unknown_parent :: "logical_trace \<Rightarrow> bool" where
  "unknown_parent t \<longleftrightarrow> list_ex (\<lambda>s. parent_span_id s \<noteq> None
     \<and> parent_span_id s \<notin> Some ` set (map span_id (spans t))) (spans t)"

definition validate_trace :: "logical_trace \<Rightarrow> logical_trace res" where
  "validate_trace t = rbind (traverse validate_span (spans t)) (\<lambda>_. guards
     [(lt_run_id t = [], ValidationError ''run_id''),
      (\<not> is_hex64 (lt_plan_digest t), ValidationError ''plan_digest''),
      (\<not> is_hex 32 (trace_id t), ValidationError ''trace_id''),
      (\<not> is_hex64 (trace_digest t), ValidationError ''trace_digest''),
      (trace_id t \<noteq> trace_id_of (lt_plan_digest t),
        ValidationError ''logical trace id does not match the plan digest''),
      (\<not> distinct (map span_id (spans t)), ValidationError ''logical trace span ids must be unique''),
      (unknown_parent t, ValidationError ''logical trace contains an unknown parent span''),
      (semantic_targets t \<noteq> sorted_set (semantic_targets t),
        ValidationError ''semantic convention targets must be sorted and unique''),
      (canonical_digest (JObj (trace_payload t)) \<noteq> trace_digest t,
        ValidationError ''logical trace digest does not match trace payload'')] t)"

section \<open>The outcome scorecard\<close>

datatype scorecard_tier = Rankable | Provisional | Rejected

fun tier_value :: "scorecard_tier \<Rightarrow> string" where
  "tier_value Rankable = ''rankable''"
| "tier_value Provisional = ''provisional''"
| "tier_value Rejected = ''rejected''"

record scorecard =
  sc_run_id :: string
  sc_authority_digest :: string
  sc_plan_digest :: string
  sc_evidence_digest :: string
  sc_verdict_digest :: string
  outcome_status :: string
  sc_security_gate :: string
  evidence_total :: int
  evidence_captured :: int
  evidence_coverage :: rat
  verifier_total :: int
  verifier_passed :: int
  verifier_pass_rate :: rat
  sc_replay_class :: replay_class
  rank_eligible :: bool
  tier :: scorecard_tier
  diagnostic_score :: rat
  non_compensable_failures :: "string list"
  confounders :: "json dict"
  scorecard_digest :: string

definition scorecard_payload :: "scorecard \<Rightarrow> json dict" where
  "scorecard_payload s = [(''schema_version'', JStr ''1.0''),
     (''policy_version'', JStr ''evidence-first-v1''), (''run_id'', JStr (sc_run_id s)),
     (''authority_digest'', JStr (sc_authority_digest s)), (''plan_digest'', JStr (sc_plan_digest s)),
     (''evidence_digest'', JStr (sc_evidence_digest s)),
     (''verdict_digest'', JStr (sc_verdict_digest s)),
     (''outcome_status'', JStr (outcome_status s)), (''security_gate'', JStr (sc_security_gate s)),
     (''mandatory_evidence_total'', JInt (evidence_total s)),
     (''mandatory_evidence_captured'', JInt (evidence_captured s)),
     (''mandatory_evidence_coverage'', JFloat (evidence_coverage s)),
     (''verifier_total'', JInt (verifier_total s)), (''verifier_passed'', JInt (verifier_passed s)),
     (''verifier_pass_rate'', JFloat (verifier_pass_rate s)),
     (''replay_class'', JStr (replay_value (sc_replay_class s))),
     (''rank_eligible'', JBool (rank_eligible s)), (''tier'', JStr (tier_value (tier s))),
     (''diagnostic_score'', JFloat (diagnostic_score s)),
     (''non_compensable_failures'', strs (non_compensable_failures s)),
     (''confounders'', JObj (confounders s))]"

definition scorecard_json :: "scorecard \<Rightarrow> json" where
  "scorecard_json s = JObj (scorecard_payload s @ [(''scorecard_digest'', JStr (scorecard_digest s))])"

text \<open>\<open>1.0 if total == 0 else count / total\<close>\<close>

definition rate_of :: "int \<Rightarrow> int \<Rightarrow> rat" where
  "rate_of count n = (if n = 0 then 1 else fdiv (of_int count) (of_int n))"

fun replay_points :: "replay_class \<Rightarrow> rat" where
  "replay_points ReplayExact = 10"
| "replay_points ReplayPartial = 5"
| "replay_points ReplayNone = 0"

definition score_of :: "rat \<Rightarrow> rat \<Rightarrow> string \<Rightarrow> replay_class \<Rightarrow> string \<Rightarrow> rat" where
  "score_of coverage rate status rc gate =
     (let score = py_round2 (fadd (fadd (fadd (fmul 35 coverage) (fmul 35 rate))
                    (if status = ''pass'' then 20 else 0)) (replay_points rc))
      in if gate = ''fail'' then 0 else score)"

definition eligible :: "string \<Rightarrow> string \<Rightarrow> rat \<Rightarrow> rat \<Rightarrow> string list \<Rightarrow> bool" where
  "eligible status gate coverage rate failures \<longleftrightarrow> status = ''pass'' \<and> gate = ''pass'' \<and> coverage = 1
     \<and> rate = 1 \<and> failures = []"

definition tier_of :: "bool \<Rightarrow> string list \<Rightarrow> scorecard_tier" where
  "tier_of el failures = (if el then Rankable else if failures \<noteq> [] then Rejected else Provisional)"

definition scorecard_field_guards :: "scorecard \<Rightarrow> (bool \<times> exn) list" where
  "scorecard_field_guards s =
     [(sc_run_id s = [], ValidationError ''run_id''),
      (\<not> is_hex64 (sc_authority_digest s), ValidationError ''authority_digest''),
      (\<not> is_hex64 (sc_plan_digest s), ValidationError ''plan_digest''),
      (\<not> is_hex64 (sc_evidence_digest s), ValidationError ''evidence_digest''),
      (\<not> is_hex64 (sc_verdict_digest s), ValidationError ''verdict_digest''),
      (outcome_status s \<notin> {''pass'', ''fail''}, ValidationError ''outcome_status''),
      (sc_security_gate s \<notin> {''pass'', ''fail''}, ValidationError ''security_gate''),
      (evidence_total s < 0, ValidationError ''mandatory_evidence_total''),
      (evidence_captured s < 0, ValidationError ''mandatory_evidence_captured''),
      (evidence_coverage s < 0 \<or> 1 < evidence_coverage s, ValidationError ''mandatory_evidence_coverage''),
      (verifier_total s < 0, ValidationError ''verifier_total''),
      (verifier_passed s < 0, ValidationError ''verifier_passed''),
      (verifier_pass_rate s < 0 \<or> 1 < verifier_pass_rate s, ValidationError ''verifier_pass_rate''),
      (diagnostic_score s < 0 \<or> 100 < diagnostic_score s, ValidationError ''diagnostic_score''),
      (\<not> is_hex64 (scorecard_digest s), ValidationError ''scorecard_digest'')]"

definition scorecard_guards :: "scorecard \<Rightarrow> (bool \<times> exn) list" where
  "scorecard_guards s =
     (let el = eligible (outcome_status s) (sc_security_gate s) (evidence_coverage s)
                 (verifier_pass_rate s) (non_compensable_failures s) in
     [(evidence_captured s > evidence_total s, ValidationError ''captured mandatory evidence exceeds total''),
      (verifier_passed s > verifier_total s, ValidationError ''passed verifier count exceeds total''),
      (non_compensable_failures s \<noteq> sorted_set (non_compensable_failures s),
        ValidationError ''non-compensable failures must be sorted and unique''),
      (rank_eligible s \<noteq> el, ValidationError ''rank eligibility does not match non-compensable policy''),
      (tier s \<noteq> tier_of el (non_compensable_failures s),
        ValidationError ''scorecard tier does not match scorecard state''),
      (evidence_coverage s \<noteq> rate_of (evidence_captured s) (evidence_total s),
        ValidationError ''mandatory evidence coverage does not match evidence counts''),
      (verifier_pass_rate s \<noteq> rate_of (verifier_passed s) (verifier_total s),
        ValidationError ''verifier pass rate does not match verifier counts''),
      (diagnostic_score s \<noteq> score_of (evidence_coverage s) (verifier_pass_rate s) (outcome_status s)
         (sc_replay_class s) (sc_security_gate s),
        ValidationError ''diagnostic score does not match evidence-first-v1 policy''),
      (canonical_digest (JObj (scorecard_payload s)) \<noteq> scorecard_digest s,
        ValidationError ''scorecard digest does not match scorecard payload'')])"

definition validate_scorecard :: "scorecard \<Rightarrow> scorecard res" where
  "validate_scorecard s = guards (scorecard_field_guards s @ scorecard_guards s) s"

section \<open>The bundle\<close>

record artifact_bundle =
  ab_run_id :: string
  ab_authority :: evaluator_authority
  ab_graph :: evidence_graph
  ab_replay :: replay_manifest
  ab_trace :: logical_trace
  ab_scorecard :: scorecard
  ab_plan_digest :: string
  ab_evidence_digest :: string
  ab_verdict_digest :: string
  bundle_digest :: string

definition bundle_payload :: "artifact_bundle \<Rightarrow> json dict" where
  "bundle_payload b = [(''schema_version'', JStr ''1.0''), (''run_id'', JStr (ab_run_id b)),
     (''authority'', authority_json (ab_authority b)), (''evidence_graph'', graph_json (ab_graph b)),
     (''replay_manifest'', replay_manifest_json (ab_replay b)),
     (''logical_trace'', trace_json (ab_trace b)), (''scorecard'', scorecard_json (ab_scorecard b)),
     (''plan_digest'', JStr (ab_plan_digest b)), (''evidence_digest'', JStr (ab_evidence_digest b)),
     (''verdict_digest'', JStr (ab_verdict_digest b))]"

definition bundle_json :: "artifact_bundle \<Rightarrow> json" where
  "bundle_json b = JObj (bundle_payload b @ [(''bundle_digest'', JStr (bundle_digest b))])"

definition base_bundle_guards :: "artifact_bundle \<Rightarrow> (bool \<times> exn) list" where
  "base_bundle_guards b =
     (let g = ab_graph b; r = ab_replay b; t = ab_trace b; s = ab_scorecard b in
     [(ab_run_id b = [], ValidationError ''run_id''),
      (\<not> is_hex64 (ab_plan_digest b), ValidationError ''plan_digest''),
      (\<not> is_hex64 (ab_evidence_digest b), ValidationError ''evidence_digest''),
      (\<not> is_hex64 (ab_verdict_digest b), ValidationError ''verdict_digest''),
      (\<not> is_hex64 (bundle_digest b), ValidationError ''bundle_digest''),
      (length (remdups [ab_run_id b, eg_run_id g, rm_run_id r, lt_run_id t, sc_run_id s]) \<noteq> 1,
        ValidationError ''run artifact bundle contains multiple run ids''),
      (authority_digest (ab_authority b) \<noteq> sc_authority_digest s,
        ValidationError ''scorecard authority digest does not match authority''),
      (\<not> (ab_plan_digest b = rm_plan_digest r \<and> rm_plan_digest r = lt_plan_digest t
          \<and> lt_plan_digest t = sc_plan_digest s), ValidationError ''bundle plan digest continuity failed''),
      (ab_evidence_digest b \<noteq> sc_evidence_digest s,
        ValidationError ''bundle evidence digest continuity failed''),
      (ab_verdict_digest b \<noteq> sc_verdict_digest s,
        ValidationError ''bundle verdict digest continuity failed''),
      (canonical_digest (JObj (bundle_payload b)) \<noteq> bundle_digest b,
        ValidationError ''bundle digest does not match bundle payload'')])"

definition replay_runtime :: "replay_manifest \<Rightarrow> json" where
  "replay_runtime r = JObj [(''backend'', JStr (rm_backend r)), (''version'', JStr (rm_version r)),
     (''image_digest'', JStr (rm_image_digest r))]"

definition required_graph_nodes :: "artifact_bundle \<Rightarrow> (string \<times> string) list" where
  "required_graph_nodes b =
     [(''evaluator_authority'', authority_digest (ab_authority b)), (''harness_plan'', ab_plan_digest b),
      (''skill_provenance'', rm_provenance_digest (ab_replay b)),
      (''evidence_bundle'', ab_evidence_digest b), (''harness_verdict'', ab_verdict_digest b),
      (''runtime'', canonical_digest (replay_runtime (ab_replay b)))]"

definition missing_graph_nodes :: "artifact_bundle \<Rightarrow> (string \<times> string) list" where
  "missing_graph_nodes b = sort_key fst (filter
     (\<lambda>n. n \<notin> set (map (\<lambda>n. (gn_kind n, gn_payload_digest n)) (eg_nodes (ab_graph b))))
     (required_graph_nodes b))"

definition required_trace_attributes :: "artifact_bundle \<Rightarrow> string dict" where
  "required_trace_attributes b =
     [(''skill.native.authority_digest'', authority_digest (ab_authority b)),
      (''skill.native.plan_digest'', ab_plan_digest b),
      (''skill.native.evidence_digest'', ab_evidence_digest b),
      (''skill.native.verdict_digest'', ab_verdict_digest b)]"

definition missing_trace_attributes :: "artifact_bundle \<Rightarrow> string list" where
  "missing_trace_attributes b = map fst (filter (\<lambda>(k, v). \<not> list_ex
     (\<lambda>s. py_eq (jget_null (span_attributes s) k) (JStr v)) (spans (ab_trace b)))
     (required_trace_attributes b))"

definition cross_bundle_guards :: "artifact_bundle \<Rightarrow> (bool \<times> exn) list" where
  "cross_bundle_guards b =
     [(rm_authority_digest (ab_replay b) \<noteq> authority_digest (ab_authority b),
        ValidationError ''replay authority digest does not match bundle authority''),
      (sc_replay_class (ab_scorecard b) \<noteq> rm_class (ab_replay b),
        ValidationError ''scorecard replay class does not match replay manifest''),
      (\<not> py_eq (jget_null (confounders (ab_scorecard b)) ''runtime'') (replay_runtime (ab_replay b)),
        ValidationError ''scorecard runtime confounder does not match replay manifest''),
      (missing_graph_nodes b \<noteq> [], ValidationError
        (''evidence graph is missing bundle continuity nodes: ''
          @ join '', '' (map (\<lambda>(k, d). k @ '':'' @ d) (missing_graph_nodes b)))),
      (missing_trace_attributes b \<noteq> [], ValidationError
        (''logical trace is missing bundle continuity attributes: ''
          @ join '', '' (sort (missing_trace_attributes b))))]"

definition validate_bundle :: "artifact_bundle \<Rightarrow> artifact_bundle res" where
  "validate_bundle b =
     rbind (validate_authority (ab_authority b)) (\<lambda>_.
     rbind (validate_graph (ab_graph b)) (\<lambda>_.
     rbind (validate_replay_manifest (ab_replay b)) (\<lambda>_.
     rbind (validate_trace (ab_trace b)) (\<lambda>_.
     rbind (validate_scorecard (ab_scorecard b)) (\<lambda>_.
       guards (base_bundle_guards b @ cross_bundle_guards b) b)))))"

section \<open>The store\<close>

text \<open>\<open>json.dumps(v, sort_keys=True, indent=2)\<close>, the layout at nesting depth \<open>n\<close>.\<close>

definition indent_line :: "nat \<Rightarrow> string" where
  "indent_line n = CHR 0x0A # replicate (2 * n) CHR 0x20"

fun dumps_indent :: "nat \<Rightarrow> json \<Rightarrow> string" where
  "dumps_indent n (JArr xs) = (if xs = [] then ''[]'' else
     ''['' @ indent_line (Suc n) @ join ('','' @ indent_line (Suc n)) (map (dumps_indent (Suc n)) xs)
       @ indent_line n @ '']'')"
| "dumps_indent n (JObj kvs) = (if kvs = [] then ''{}'' else
     ''{'' @ indent_line (Suc n) @ join ('','' @ indent_line (Suc n)) (map (\<lambda>(k, t). quote k @ '': '' @ t)
       (sort_key fst (map (\<lambda>(k, v). (k, dumps_indent (Suc n) v)) kvs))) @ indent_line n @ ''}'')"
| "dumps_indent n v = dumps v"

definition artifact_files :: "artifact_bundle \<Rightarrow> (string \<times> json) list" where
  "artifact_files b = [(''authority.json'', authority_json (ab_authority b)),
     (''evidence-graph.json'', graph_json (ab_graph b)),
     (''replay-manifest.json'', replay_manifest_json (ab_replay b)),
     (''logical-trace.json'', trace_json (ab_trace b)),
     (''outcome-scorecard.json'', scorecard_json (ab_scorecard b)),
     (''run-artifact-bundle.json'', bundle_json b)]"

type_synonym artifact_store = "string \<times> string \<rightharpoonup> string"

fun persist_files :: "string \<Rightarrow> (string \<times> json) list \<Rightarrow> artifact_store \<Rightarrow> unit res \<times> artifact_store" where
  "persist_files d [] st = (Inr (), st)"
| "persist_files d ((name, v) # rest) st =
     (let encoded = dumps_indent 0 v @ [CHR 0x0A] in
      if st (d, name) \<notin> {None, Some encoded}
      then (Inl (RunArtifactError (''content-addressed artifact collision: '' @ d @ ''/'' @ name)), st)
      else persist_files d rest (st((d, name) \<mapsto> encoded)))"

definition artifact_persist ::
  "artifact_bundle \<Rightarrow> artifact_store \<Rightarrow> (string \<times> string) res \<times> artifact_store" where
  "artifact_persist b st = (case persist_files (bundle_digest b) (artifact_files b) st of
     (Inl e, st') \<Rightarrow> (Inl e, st')
   | (Inr _, st') \<Rightarrow> (Inr (bundle_digest b, bundle_digest b @ ''/run-artifact-bundle.json''), st'))"

end
