(* ===== verification/RunArtifactBuilder.thy ===== *)
theory RunArtifactBuilder
  imports RunArtifacts Evidence
begin

text \<open>
  \<open>run_artifact_graph.py\<close>, \<open>run_artifact_derived.py\<close> and \<open>run_artifact_builder.py\<close>: the artifacts of a
  run computed from the JSON of its plan, evidence and verdict.
\<close>

section \<open>Reading evidence\<close>

text \<open>\<open>_captured_evidence\<close>, as the list the frozen set is built from.\<close>

definition captured_names :: "json dict \<Rightarrow> string list" where
  "captured_names ev = (case jget_default ev ''runtime_metadata'' (JObj []) of
     JObj md \<Rightarrow> (case jget_default md ''evidence_contract'' (JObj []) of
        JObj contract \<Rightarrow> (case jget_default contract ''captured'' (JArr []) of
            JArr xs \<Rightarrow> map py_str xs | _ \<Rightarrow> [])
      | _ \<Rightarrow> [])
   | _ \<Rightarrow> [])"

definition channel_count :: "json dict \<Rightarrow> int" where
  "channel_count ev = int (length (remdups (captured_names ev)))"

definition list_channels :: "string list" where
  "list_channels = [''commands'', ''processes'', ''network'', ''inference'', ''findings'', ''ocsf_events'',
     ''agent_events'', ''test_results'', ''browser_events'', ''network_trace'', ''screenshots'', ''downloads'']"

definition singular_channels :: "string list" where
  "singular_channels = [''exit_code'', ''stdout'', ''stderr'', ''filesystem_before'', ''filesystem_after'',
     ''assertions'', ''runtime_metadata'', ''policy'', ''coding_receipt'', ''workspace_diff'',
     ''browser_receipt'', ''dom_snapshot'', ''accessibility_snapshot'', ''browser_assertions'']"

type_synonym evidence_item = "string \<times> nat option \<times> json"

definition list_items :: "json dict \<Rightarrow> string \<Rightarrow> evidence_item list" where
  "list_items ev c = (case jget_default ev c (JArr []) of
     JArr xs \<Rightarrow> map (\<lambda>(i, v). (c, Some i, v)) (enumerate 0 xs)
   | v \<Rightarrow> if c \<in> set (captured_names ev) then [(c, None, v)] else [])"

definition stream_summary :: "string \<Rightarrow> json" where
  "stream_summary s = JObj [(''sha256'', JStr (text_digest s)), (''bytes'', JInt (int (length (utf8 s)))),
     (''empty'', JBool (s = []))]"

definition singular_items :: "json dict \<Rightarrow> string \<Rightarrow> evidence_item list" where
  "singular_items ev c =
     (if map_of ev c = None \<and> c \<notin> set (captured_names ev) then []
      else let v = jget_null ev c in
        if c \<in> set (captured_names ev) \<or> v \<notin> {JNull, JStr [], JArr [], JObj []}
        then [(c, None, if c \<in> {''stdout'', ''stderr''} then (case v of JStr s \<Rightarrow> stream_summary s | _ \<Rightarrow> v) else v)]
        else [])"

definition evidence_items :: "json dict \<Rightarrow> evidence_item list" where
  "evidence_items ev = concat (map (list_items ev) list_channels) @ concat (map (singular_items ev) singular_channels)"

section \<open>Building the graph\<close>

record graph_state =
  gs_nodes :: "graph_node list"
  gs_edges :: "graph_edge list"
  gs_sources :: "string dict"

type_synonym 'a builder = "graph_state \<Rightarrow> ('a \<times> graph_state) res"

definition bbind :: "'a builder \<Rightarrow> ('a \<Rightarrow> 'b builder) \<Rightarrow> 'b builder" where
  "bbind m f st = rbind (m st) (\<lambda>(x, st'). f x st')"

definition blift :: "'a res \<Rightarrow> 'a builder" where
  "blift r st = rbind r (\<lambda>x. Inr (x, st))"

fun bfor :: "'a list \<Rightarrow> ('a \<Rightarrow> unit builder) \<Rightarrow> unit builder" where
  "bfor [] f st = Inr ((), st)"
| "bfor (x # xs) f st = bbind (f x) (\<lambda>_. bfor xs f) st"

definition mk_node :: "string \<Rightarrow> string \<Rightarrow> json dict \<Rightarrow> graph_node" where
  "mk_node k d attrs = \<lparr>gn_id = digest_ref (canonical_digest (node_payload k d attrs)), gn_kind = k,
     gn_payload_digest = d, gn_attributes = attrs\<rparr>"

definition mk_edge :: "string \<Rightarrow> string \<Rightarrow> string \<Rightarrow> json dict \<Rightarrow> graph_edge" where
  "mk_edge s t r attrs = \<lparr>ge_id = digest_ref (canonical_digest (edge_payload s t r attrs)), ge_source = s,
     ge_target = t, ge_relation = r, ge_attributes = attrs\<rparr>"

definition add_node :: "string \<Rightarrow> string \<Rightarrow> json dict \<Rightarrow> string builder" where
  "add_node k d attrs st = rbind (validate_node (mk_node k d attrs)) (\<lambda>n.
     Inr (gn_id n, st\<lparr>gs_nodes := gs_nodes st @ [n]\<rparr>))"

definition add_edge :: "string \<Rightarrow> string \<Rightarrow> string \<Rightarrow> json dict \<Rightarrow> unit builder" where
  "add_edge s t r attrs st = rbind (validate_edge (mk_edge s t r attrs)) (\<lambda>e.
     Inr ((), st\<lparr>gs_edges := gs_edges st @ [e]\<rparr>))"

definition register_source :: "string \<Rightarrow> string \<Rightarrow> unit builder" where
  "register_source raw node st = (if map_of (gs_sources st) raw \<noteq> None
     then Inl (RunArtifactError (''duplicate source evidence id creates an ambiguous graph: '' @ raw))
     else Inr ((), st\<lparr>gs_sources := dict_set raw node (gs_sources st)\<rparr>))"

definition require_source :: "json \<Rightarrow> string \<Rightarrow> string builder" where
  "require_source raw ctx st = (case raw of
     JStr s \<Rightarrow> if s = [] then Inl (RunArtifactError (ctx @ '' must contain a non-empty evidence id''))
       else (case map_of (gs_sources st) s of
           None \<Rightarrow> Inl (RunArtifactError (ctx @ '' references unknown source evidence id: '' @ s))
         | Some n \<Rightarrow> Inr (n, st))
   | _ \<Rightarrow> Inl (RunArtifactError (ctx @ '' must contain a non-empty evidence id'')))"

text \<open>The attributes of an evidence object, and its source evidence id when it has one.\<close>

definition source_id_of :: "json \<Rightarrow> string option" where
  "source_id_of v = (case v of JObj d \<Rightarrow> (case jget_null d ''evidence_id'' of
       JStr s \<Rightarrow> if s = [] then None else Some s | _ \<Rightarrow> None) | _ \<Rightarrow> None)"

definition item_attributes :: "evidence_item \<Rightarrow> json dict" where
  "item_attributes it = (case it of (c, i, v) \<Rightarrow> (''channel'', JStr c)
     # (case i of None \<Rightarrow> [] | Some n \<Rightarrow> [(''index'', JInt (int n))])
     @ (case source_id_of v of None \<Rightarrow> [] | Some s \<Rightarrow> [(''source_evidence_id'', JStr s)]))"

definition add_item :: "string \<Rightarrow> evidence_item \<Rightarrow> unit builder" where
  "add_item evidence_node it = (case it of (c, i, v) \<Rightarrow>
     bbind (add_node ''evidence_object'' (canonical_digest v) (item_attributes it)) (\<lambda>obj.
     bbind (add_edge obj evidence_node ''contained_in'' (item_attributes it)) (\<lambda>_.
       case source_id_of v of None \<Rightarrow> blift (Inr ()) | Some s \<Rightarrow> register_source s obj)))"

definition check_attributes :: "json dict \<Rightarrow> json dict" where
  "check_attributes check = [(''check_id'', jget_null check ''id''), (''kind'', jget_null check ''kind''),
     (''passed'', JBool (jget_null check ''passed'' = JBool True))]"

definition add_check :: "string \<Rightarrow> string \<Rightarrow> nat \<times> json \<Rightarrow> unit builder" where
  "add_check authority_node verdict_node ic = (case ic of (i, raw) \<Rightarrow>
     let name = ''verdict.checks['' @ show_nat i @ '']'' in
     bbind (blift (json_mapping raw name)) (\<lambda>check.
     bbind (add_node ''verification_check'' (canonical_digest (JObj check)) (check_attributes check)) (\<lambda>node.
     bbind (add_edge node verdict_node ''supports'' []) (\<lambda>_.
     bbind (add_edge authority_node node ''authorizes'' []) (\<lambda>_.
       case jget_default check ''evidence_ids'' (JArr []) of
         JArr ids \<Rightarrow> if \<not> distinct (map py_str ids)
           then blift (Inl (RunArtifactError (name @ ''.evidence_ids contains duplicates'')))
           else bfor ids (\<lambda>raw_id. bbind (require_source raw_id (name @ ''.evidence_ids''))
                  (\<lambda>target. add_edge node target ''references'' []))
       | _ \<Rightarrow> blift (Inl (RunArtifactError (name @ ''.evidence_ids must be a list''))))))))"

definition unresolved_attributes :: "string \<Rightarrow> json dict" where
  "unresolved_attributes s = [(''source_evidence_id'', JStr s), (''resolved'', JBool False)]"

definition add_finding :: "json dict \<Rightarrow> string \<Rightarrow> nat \<times> json \<Rightarrow> unit builder" where
  "add_finding verdict verdict_node ir = (case ir of (i, raw) \<Rightarrow>
     bbind (blift (json_mapping raw (''verdict.security_findings['' @ show_nat i @ '']''))) (\<lambda>f.
     bbind (add_node ''security_finding'' (canonical_digest (JObj f))
       [(''severity'', jget_null f ''severity''), (''rule'', jget_null f ''rule'')]) (\<lambda>node.
     bbind (add_edge node verdict_node ''constrains'' []) (\<lambda>_.
       if jget_null f ''evidence_id'' \<in> {JNull, JStr []} then blift (Inr ())
       else (\<lambda>st. let s = py_str (jget_null f ''evidence_id'') in
         case map_of (gs_sources st) s of
           Some target \<Rightarrow> add_edge node target ''derived_from'' [] st
         | None \<Rightarrow> if jget_null verdict ''status'' = JStr ''pass'' \<or> jget_null verdict ''security_gate'' = JStr ''pass''
             then Inl (RunArtifactError (''passing verdict contains a security finding with an unknown source evidence id: '' @ s))
             else bbind (add_node ''unresolved_evidence_reference''
                    (canonical_digest (JObj [(''source_evidence_id'', JStr s)])) (unresolved_attributes s))
                  (\<lambda>un. add_edge node un ''references_missing'' []) st)))))"

text \<open>The eight fixed nodes, in the order of the code, and the eight edges between them.\<close>

record run_parts =
  rp_skill :: "json dict"
  rp_agent :: "json dict"
  rp_model :: "json dict"
  rp_runtime :: "json dict"

definition run_parts_of :: "json dict \<Rightarrow> run_parts res" where
  "run_parts_of plan =
     rbind (json_mapping (jget_null plan ''run_spec'') ''plan.run_spec'') (\<lambda>spec.
     rbind (json_mapping (jget_null spec ''skill'') ''plan.run_spec.skill'') (\<lambda>s.
     rbind (json_mapping (jget_null spec ''agent'') ''plan.run_spec.agent'') (\<lambda>a.
     rbind (json_mapping (jget_null spec ''model'') ''plan.run_spec.model'') (\<lambda>m.
     rbind (json_mapping (jget_null spec ''runtime'') ''plan.run_spec.runtime'') (\<lambda>r.
       Inr \<lparr>rp_skill = s, rp_agent = a, rp_model = m, rp_runtime = r\<rparr>)))))"

definition pick :: "json dict \<Rightarrow> string list \<Rightarrow> json dict" where
  "pick d ks = map (\<lambda>k. (k, jget_null d k)) ks"

definition authority_attributes :: "evaluator_authority \<Rightarrow> json dict" where
  "authority_attributes a = [(''authority_id'', JStr (authority_id a)),
     (''kind'', JStr (authority_kind_value (ea_kind a))),
     (''trust_basis'', JStr (trust_basis_value (ea_basis a))),
     (''source_url'', JStr (ea_source_url a)), (''commit_or_digest'', JStr (ea_commit a))]"

definition evidence_attributes :: "json dict \<Rightarrow> json dict" where
  "evidence_attributes ev = [(''captured'', strs (sorted_set (captured_names ev))),
     (''channel_count'', JInt (channel_count ev))]"

definition verdict_attributes :: "json dict \<Rightarrow> json dict" where
  "verdict_attributes v = pick v [''status'', ''security_gate'']
     @ [(''failed_check_ids'', jget_default v ''failed_check_ids'' (JArr []))]"

definition add_roots ::
  "evaluator_authority \<Rightarrow> json dict \<Rightarrow> string \<Rightarrow> json dict \<Rightarrow> string \<Rightarrow> json dict \<Rightarrow> string \<Rightarrow> run_parts
    \<Rightarrow> (string \<times> string \<times> string) builder" where
  "add_roots a plan pd ev ed v vd parts =
     bbind (add_node ''evaluator_authority'' (authority_digest a) (authority_attributes a)) (\<lambda>an.
     bbind (add_node ''harness_plan'' pd (pick plan [''manifest_id'', ''manifest_version'', ''domain'', ''adapter''])) (\<lambda>pn.
     bbind (blift (require_str plan ''provenance_digest'' ''plan'')) (\<lambda>prov.
     bbind (add_node ''skill_provenance'' prov (pick (rp_skill parts) [''source_url'', ''commit_or_digest'', ''entrypoint''])) (\<lambda>sn.
     bbind (add_node ''runtime'' (canonical_digest (JObj (rp_runtime parts)))
       (pick (rp_runtime parts) [''backend'', ''version'', ''image_digest''])) (\<lambda>rn.
     bbind (add_node ''agent'' (canonical_digest (JObj (rp_agent parts))) (pick (rp_agent parts) [''harness'', ''version''])) (\<lambda>gn.
     bbind (add_node ''model'' (canonical_digest (JObj (rp_model parts)))
       (pick (rp_model parts) [''provider'', ''model'', ''quota_class''])) (\<lambda>mn.
     bbind (add_node ''evidence_bundle'' ed (evidence_attributes ev)) (\<lambda>en.
     bbind (add_node ''harness_verdict'' vd (verdict_attributes v)) (\<lambda>vn.
     bbind (add_edge an pn ''authorizes'' []) (\<lambda>_.
     bbind (add_edge sn pn ''input_to'' []) (\<lambda>_.
     bbind (add_edge rn pn ''configures'' []) (\<lambda>_.
     bbind (add_edge gn pn ''configures'' []) (\<lambda>_.
     bbind (add_edge mn pn ''configures'' []) (\<lambda>_.
     bbind (add_edge pn en ''produces'' []) (\<lambda>_.
     bbind (add_edge en vn ''evaluated_by'' []) (\<lambda>_.
     bbind (add_edge an vn ''authorizes_evaluation'' []) (\<lambda>_.
       blift (Inr (an, en, vn)))))))))))))))))))"

definition empty_graph_state :: graph_state where
  "empty_graph_state = \<lparr>gs_nodes = [], gs_edges = [], gs_sources = []\<rparr>"

definition populate_graph ::
  "evaluator_authority \<Rightarrow> json dict \<Rightarrow> string \<Rightarrow> json dict \<Rightarrow> string \<Rightarrow> json dict \<Rightarrow> string \<Rightarrow> run_parts \<Rightarrow> unit builder" where
  "populate_graph a plan pd ev ed v vd parts =
     bbind (add_roots a plan pd ev ed v vd parts) (\<lambda>(an, en, vn).
     bbind (bfor (evidence_items ev) (add_item en)) (\<lambda>_.
     bbind (blift (py_list (jget_default v ''checks'' (JArr [])))) (\<lambda>cs.
     bbind (bfor (enumerate 0 cs) (add_check an vn)) (\<lambda>_.
       case jget_default v ''security_findings'' (JArr []) of
         JArr fs \<Rightarrow> bfor (enumerate 0 fs) (add_finding v vn)
       | _ \<Rightarrow> blift (Inl (RunArtifactError ''verdict.security_findings must be a list''))))))"

definition build_graph ::
  "evaluator_authority \<Rightarrow> json dict \<Rightarrow> string \<Rightarrow> json dict \<Rightarrow> string \<Rightarrow> json dict \<Rightarrow> string \<Rightarrow> evidence_graph res" where
  "build_graph a plan pd ev ed v vd =
     rbind (run_parts_of plan) (\<lambda>parts.
     rbind (populate_graph a plan pd ev ed v vd parts empty_graph_state) (\<lambda>(_, st).
     rbind (require_str plan ''run_id'' ''plan'') (\<lambda>rid.
       let g = \<lparr>eg_run_id = rid, eg_nodes = sort_key gn_id (gs_nodes st),
                eg_edges = sort_key ge_id (gs_edges st), graph_digest = []\<rparr>
       in validate_graph (g\<lparr>graph_digest := canonical_digest (JObj (graph_payload g))\<rparr>))))"

section \<open>The replay manifest\<close>

fun json_nodes :: "json \<Rightarrow> nat" where
  "json_nodes (JArr xs) = 1 + sum_list (map json_nodes xs)"
| "json_nodes (JObj kvs) = 1 + sum_list (map (\<lambda>(k, v). json_nodes v) kvs)"
| "json_nodes _ = 1"

definition snapshot_key :: "string \<Rightarrow> bool" where
  "snapshot_key k \<longleftrightarrow> lower (map (\<lambda>c. if c = CHR ''-'' then CHR ''_'' else c) k)
     \<in> {''snapshot_digest'', ''snapshot_sha256'', ''snapshotdigest''}"

definition remove_prefix :: "string \<Rightarrow> string \<Rightarrow> string" where
  "remove_prefix s p = (if starts_with s p then drop (length p) s else s)"

definition snapshot_hit :: "string \<times> json \<Rightarrow> string option" where
  "snapshot_hit kv = (case kv of (k, JStr s) \<Rightarrow>
       if snapshot_key k \<and> is_hex64 (remove_prefix s ''sha256:'') then Some (remove_prefix s ''sha256:'') else None
     | _ \<Rightarrow> None)"

lemma json_nodes_obj: "sum_list (map (json_nodes \<circ> snd) kvs) = sum_list (map (\<lambda>(k, v). json_nodes v) kvs)"
  by (simp add: comp_def case_prod_unfold)

text \<open>\<open>_find_snapshot_digest\<close>: the stack is kept with its top first.\<close>

function find_snapshot :: "json list \<Rightarrow> string option" where
  "find_snapshot [] = None"
| "find_snapshot (JObj kvs # st) = (case List.find (\<lambda>kv. snapshot_hit kv \<noteq> None) kvs of
     Some kv \<Rightarrow> snapshot_hit kv
   | None \<Rightarrow> find_snapshot (rev (map snd kvs) @ st))"
| "find_snapshot (JArr xs # st) = find_snapshot (rev xs @ st)"
| "find_snapshot (JNull # st) = find_snapshot st"
| "find_snapshot (JBool b # st) = find_snapshot st"
| "find_snapshot (JInt i # st) = find_snapshot st"
| "find_snapshot (JFloat x # st) = find_snapshot st"
| "find_snapshot (JStr s # st) = find_snapshot st"
  by pat_completeness auto

termination
  by (relation "measure (\<lambda>st. sum_list (map json_nodes st))")
     (simp_all add: rev_map [symmetric] json_nodes_obj)

definition opt_string :: "json \<Rightarrow> string \<Rightarrow> string option res" where
  "opt_string v field = (case v of JNull \<Rightarrow> Inr None | JStr s \<Rightarrow> Inr (Some s) | _ \<Rightarrow> Inl (ValidationError field))"

definition is_true :: "json \<Rightarrow> bool" where
  "is_true v \<longleftrightarrow> v = JBool True"

definition replay_class_of :: "bool \<Rightarrow> string option \<Rightarrow> string \<Rightarrow> string \<Rightarrow> replay_class" where
  "replay_class_of capable snap img version =
     (if capable \<and> snap \<noteq> None \<and> is_sha256_reference (Some img) then ReplayExact
      else if lower (strip version) \<in> set ra_mutable_refs then ReplayNone else ReplayPartial)"

definition replay_reasons_of :: "bool \<Rightarrow> string option \<Rightarrow> string \<Rightarrow> string \<Rightarrow> string list" where
  "replay_reasons_of capable snap img version =
     (if capable \<and> snap \<noteq> None \<and> is_sha256_reference (Some img) then []
      else (if \<not> capable then [''runtime-does-not-support-snapshot-restore''] else [])
        @ (if snap = None then [''snapshot-digest-not-captured''] else [])
        @ (if \<not> is_sha256_reference (Some img) then [''runtime-image-is-not-a-sha256-pin''] else [])
        @ (if lower (strip version) \<in> set ra_mutable_refs then [''runtime-version-is-mutable''] else []))"

definition build_replay :: "evaluator_authority \<Rightarrow> json dict \<Rightarrow> json dict \<Rightarrow> replay_manifest res" where
  "build_replay a plan ev =
     rbind (json_mapping (jget_null plan ''run_spec'') ''plan.run_spec'') (\<lambda>spec.
     rbind (json_mapping (jget_null spec ''runtime'') ''plan.run_spec.runtime'') (\<lambda>rt.
     rbind (json_mapping (jget_default plan ''runtime_capabilities'' (JObj [])) ''plan.runtime_capabilities'') (\<lambda>caps.
     rbind (json_mapping (jget_default ev ''runtime_metadata'' (JObj [])) ''evidence.runtime_metadata'') (\<lambda>md.
     rbind (require_str rt ''image_digest'' ''plan.run_spec.runtime'') (\<lambda>img.
     rbind (require_str rt ''version'' ''plan.run_spec.runtime'') (\<lambda>version.
     rbind (require_str plan ''run_id'' ''plan'') (\<lambda>rid.
     rbind (require_str plan ''plan_digest'' ''plan'') (\<lambda>pd.
     rbind (require_str plan ''provenance_digest'' ''plan'') (\<lambda>prov.
     rbind (require_str plan ''policy_digest'' ''plan'') (\<lambda>pol.
     rbind (require_str plan ''runtime_backend'' ''plan'') (\<lambda>be.
     rbind (opt_string (jget_null plan ''stdin_digest'') ''stdin_digest'') (\<lambda>stdin.
       let capable = is_true (jget_null caps ''snapshot_restore''); snap = find_snapshot [JObj md];
           r = \<lparr>rm_run_id = rid, rm_plan_digest = pd, rm_authority_digest = authority_digest a,
                rm_provenance_digest = prov, rm_policy_digest = pol,
                rm_command_digest = canonical_digest (jget_default plan ''command'' (JArr [])),
                rm_stdin_digest = stdin, rm_backend = be, rm_version = version, rm_image_digest = img,
                snapshot_capable = capable, rm_snapshot_digest = snap,
                rm_class = replay_class_of capable snap img version,
                reasons = sorted_set (replay_reasons_of capable snap img version), replay_digest = []\<rparr>
       in validate_replay_manifest (r\<lparr>replay_digest := canonical_digest (JObj (replay_payload r))\<rparr>)))))))))))))"

section \<open>The logical trace\<close>

definition mk_span :: "string option \<Rightarrow> string \<Rightarrow> span_status \<Rightarrow> json dict \<Rightarrow> trace_span" where
  "mk_span parent name st attrs = \<lparr>span_id = take 16 (canonical_digest (span_payload parent name st attrs)),
     parent_span_id = parent, span_name = name, span_status = st, span_attributes = attrs\<rparr>"

definition status_of :: "bool \<Rightarrow> span_status" where
  "status_of ok = (if ok then SpanOk else SpanError)"

definition trace_spans ::
  "evaluator_authority \<Rightarrow> json dict \<Rightarrow> string \<Rightarrow> json dict \<Rightarrow> string \<Rightarrow> json dict \<Rightarrow> string \<Rightarrow> trace_span list" where
  "trace_spans a plan pd ev ed v vd =
     (let authority = mk_span None ''skill-native.authority.resolve'' SpanOk
            [(''skill.native.authority_id'', JStr (authority_id a)),
             (''skill.native.authority_digest'', JStr (authority_digest a))];
          planned = mk_span (Some (span_id authority)) ''skill-native.harness.plan'' SpanOk
            [(''skill.native.plan_digest'', JStr pd),
             (''skill.native.manifest_digest'', jget_null plan ''manifest_digest''),
             (''skill.native.provenance_digest'', jget_null plan ''provenance_digest''),
             (''skill.native.domain'', jget_null plan ''domain''),
             (''skill.native.adapter'', jget_null plan ''adapter'')];
          executed = mk_span (Some (span_id planned)) ''skill-native.harness.execute''
            (status_of (py_eq (jget_null ev ''exit_code'') (JInt 0)))
            [(''skill.native.evidence_digest'', JStr ed),
             (''skill.native.runtime_backend'', jget_null plan ''runtime_backend''),
             (''skill.native.exit_code'', jget_null ev ''exit_code''),
             (''skill.native.captured_evidence'', strs (sorted_set (captured_names ev)))];
          verified = mk_span (Some (span_id executed)) ''skill-native.harness.verify''
            (status_of (jget_null v ''status'' = JStr ''pass''))
            [(''skill.native.verdict_digest'', JStr vd),
             (''skill.native.verdict_status'', jget_null v ''status''),
             (''skill.native.security_gate'', jget_null v ''security_gate'')];
          built = mk_span (Some (span_id verified)) ''skill-native.run-artifacts.build'' SpanOk
            [(''skill.native.timing_state'', JStr ''not-captured''),
             (''skill.native.trace_kind'', JStr ''deterministic-logical-envelope'')]
      in [authority, planned, executed, verified, built])"

definition convention_targets :: "string list" where
  "convention_targets = [''openinference.span.kind'', ''otel.trace_id'', ''skill.native.run_id'',
     ''skill.native.plan_digest'', ''skill.native.evidence_digest'', ''skill.native.verdict_digest'']"

definition build_trace ::
  "evaluator_authority \<Rightarrow> json dict \<Rightarrow> string \<Rightarrow> json dict \<Rightarrow> string \<Rightarrow> json dict \<Rightarrow> string \<Rightarrow> logical_trace res" where
  "build_trace a plan pd ev ed v vd =
     rbind (traverse validate_span (trace_spans a plan pd ev ed v vd)) (\<lambda>ss.
     rbind (require_str plan ''run_id'' ''plan'') (\<lambda>rid.
       let t = \<lparr>lt_run_id = rid, lt_plan_digest = pd, trace_id = trace_id_of pd,
                semantic_targets = sorted_set convention_targets, spans = ss, trace_digest = []\<rparr>
       in validate_trace (t\<lparr>trace_digest := canonical_digest (JObj (trace_payload t))\<rparr>)))"

section \<open>The outcome scorecard\<close>

definition severe_item :: "json \<Rightarrow> bool" where
  "severe_item v = (case v of JObj d \<Rightarrow>
     lower (strip (py_str (jget_default d ''severity'' (JStr [])))) \<in> {''high'', ''critical''} | _ \<Rightarrow> False)"

definition severe_findings :: "json \<Rightarrow> json list" where
  "severe_findings v = (case v of JArr xs \<Rightarrow> filter severe_item xs | _ \<Rightarrow> [])"

definition check_passed :: "json \<Rightarrow> bool" where
  "check_passed c = (case c of JObj d \<Rightarrow> is_true (jget_null d ''passed'') | _ \<Rightarrow> False)"

definition failure_list :: "string list \<Rightarrow> json dict \<Rightarrow> json dict \<Rightarrow> string list" where
  "failure_list needed ev v = sorted_set (
     map (\<lambda>k. ''missing-evidence:'' @ k) (sorted_set (filter (\<lambda>k. k \<notin> set (captured_names ev)) needed))
     @ (if py_str (jget_null v ''security_gate'') = ''fail'' then [''security-gate-failed''] else [])
     @ (if py_str (jget_null v ''status'') \<noteq> ''pass'' then [''verdict-failed''] else [])
     @ (if severe_findings (jget_default v ''security_findings'' (JArr [])) \<noteq> []
        then [''high-or-critical-security-finding''] else []))"

definition confounders_of :: "json dict \<Rightarrow> run_parts \<Rightarrow> json dict" where
  "confounders_of plan parts =
     [(''skill'', JObj (pick (rp_skill parts) [''source_url'', ''commit_or_digest''])),
      (''agent'', JObj (pick (rp_agent parts) [''harness'', ''version''])),
      (''model'', JObj (pick (rp_model parts) [''provider'', ''model'', ''quota_class''])),
      (''runtime'', JObj (pick (rp_runtime parts) [''backend'', ''version'', ''image_digest''])),
      (''harness'', JObj (pick plan [''domain'', ''adapter'', ''manifest_id'', ''manifest_version'']))]"

definition make_scorecard ::
  "evaluator_authority \<Rightarrow> string \<Rightarrow> string list \<Rightarrow> string \<Rightarrow> json dict \<Rightarrow> string \<Rightarrow> json dict \<Rightarrow> string \<Rightarrow> json list
    \<Rightarrow> replay_class \<Rightarrow> json dict \<Rightarrow> scorecard" where
  "make_scorecard a rid needed pd ev ed v vd cs rc conf =
     (let total = int (length needed);
          count = int (length (filter (\<lambda>k. k \<in> set (captured_names ev)) needed));
          coverage = rate_of count total;
          vtotal = int (length cs); vpassed = int (length (filter check_passed cs));
          rate = rate_of vpassed vtotal;
          status = py_str (jget_null v ''status''); gate = py_str (jget_null v ''security_gate'');
          failures = failure_list needed ev v; el = eligible status gate coverage rate failures;
          s = \<lparr>sc_run_id = rid, sc_authority_digest = authority_digest a, sc_plan_digest = pd,
               sc_evidence_digest = ed, sc_verdict_digest = vd, outcome_status = status,
               sc_security_gate = gate, evidence_total = total, evidence_captured = count,
               evidence_coverage = coverage, verifier_total = vtotal, verifier_passed = vpassed,
               verifier_pass_rate = rate, sc_replay_class = rc, rank_eligible = el,
               tier = tier_of el failures, diagnostic_score = score_of coverage rate status rc gate,
               non_compensable_failures = failures, confounders = conf, scorecard_digest = []\<rparr>
      in s\<lparr>scorecard_digest := canonical_digest (JObj (scorecard_payload s))\<rparr>)"

definition build_scorecard ::
  "evaluator_authority \<Rightarrow> json dict \<Rightarrow> string \<Rightarrow> json dict \<Rightarrow> string \<Rightarrow> json dict \<Rightarrow> string \<Rightarrow> replay_manifest
    \<Rightarrow> scorecard res" where
  "build_scorecard a plan pd ev ed v vd r =
     rbind (py_list (jget_default plan ''required_evidence'' (JArr []))) (\<lambda>needed.
     case jget_default v ''checks'' (JArr []) of
       JArr cs \<Rightarrow>
         rbind (run_parts_of plan) (\<lambda>parts.
         rbind (require_str plan ''run_id'' ''plan'') (\<lambda>rid.
           validate_scorecard (make_scorecard a rid (map py_str needed) pd ev ed v vd cs (rm_class r)
             (confounders_of plan parts))))
     | _ \<Rightarrow> Inl (RunArtifactError ''verdict.checks must be a list''))"

section \<open>Continuity\<close>

definition failed_checks :: "json list \<Rightarrow> string list" where
  "failed_checks cs = concat (map (\<lambda>c. case c of
     JObj d \<Rightarrow> if is_true (jget_null d ''passed'') then [] else [py_str (jget_null d ''id'')]
   | _ \<Rightarrow> []) cs)"

fun hashable :: "json \<Rightarrow> bool" where
  "hashable (JArr _) = False"
| "hashable (JObj _) = False"
| "hashable _ = True"

definition verdict_continuity :: "json dict \<Rightarrow> string dict \<Rightarrow> (bool \<times> exn) list" where
  "verdict_continuity v expected = map (\<lambda>(k, s). (\<not> py_eq (jget_null v k) (JStr s),
     RunArtifactError (''verdict '' @ k @ '' does not preserve continuity''))) expected"

definition verdict_consistency :: "json dict \<Rightarrow> json list \<Rightarrow> (bool \<times> exn) list" where
  "verdict_consistency v cs =
     (let failed = failed_checks cs; gate = jget_null v ''security_gate'' in
     [(\<not> py_eq (jget_null v ''failed_check_ids'') (strs failed),
        RunArtifactError ''verdict failed_check_ids do not match checks''),
      (jget_null v ''status'' \<noteq> JStr (if failed \<noteq> [] then ''fail'' else ''pass''),
        RunArtifactError ''verdict status does not match failed checks''),
      (\<not> hashable gate, TypeError ''unhashable type''),
      (gate \<notin> {JStr ''pass'', JStr ''fail''}, RunArtifactError ''verdict security_gate is invalid''),
      (gate = JStr ''fail'' \<and> ''security-gate'' \<notin> set failed,
        RunArtifactError ''failed security gate is missing from failed checks''),
      (severe_findings (jget_default v ''security_findings'' (JArr [])) \<noteq> [] \<and> gate \<noteq> JStr ''fail'',
        RunArtifactError ''High/Critical security findings cannot be compensated by a passing gate'')])"

definition validate_continuity ::
  "evaluator_authority \<Rightarrow> json dict \<Rightarrow> string \<Rightarrow> json dict \<Rightarrow> string \<Rightarrow> json dict \<Rightarrow> string res" where
  "validate_continuity a plan pd ev ed v =
     rbind (require_str plan ''run_id'' ''plan'') (\<lambda>rid.
     rbind (require_str plan ''manifest_digest'' ''plan'') (\<lambda>md.
     rbind (require_str plan ''provenance_digest'' ''plan'') (\<lambda>prov.
     rbind (require_str plan ''runtime_backend'' ''plan'') (\<lambda>be.
     rbind (guards [(ea_manifest_digest a \<noteq> md, RunArtifactError
       ''evaluator authority manifest digest does not match the plan'')] ()) (\<lambda>_.
     rbind (json_mapping (jget_null plan ''run_spec'') ''plan.run_spec'') (\<lambda>spec.
     rbind (json_mapping (jget_null spec ''skill'') ''plan.run_spec.skill'') (\<lambda>sk.
     rbind (require_str sk ''commit_or_digest'' ''plan.run_spec.skill'') (\<lambda>ref.
     rbind (guards [(\<not> is_immutable_reference ref, RunArtifactError ''plan skill reference is mutable'')] ()) (\<lambda>_.
     rbind (json_mapping (jget_null spec ''runtime'') ''plan.run_spec.runtime'') (\<lambda>rt.
     rbind (require_str rt ''backend'' ''plan.run_spec.runtime'') (\<lambda>rb.
     rbind (guards [(rb \<noteq> be, RunArtifactError ''plan runtime backend is internally inconsistent'')] ()) (\<lambda>_.
     rbind (require_str ev ''run_id'' ''evidence'') (\<lambda>erid.
     rbind (guards [(erid \<noteq> rid, RunArtifactError ''evidence run id does not match plan''),
       (jget_null ev ''provenance_digest'' \<noteq> JStr prov,
          RunArtifactError ''evidence provenance digest does not match plan'')] ()) (\<lambda>_.
     rbind (json_mapping (jget_default ev ''runtime_metadata'' (JObj [])) ''evidence.runtime_metadata'') (\<lambda>meta.
     rbind (guards ((jget_null meta ''runtime_backend'' \<noteq> JStr be,
         RunArtifactError ''evidence runtime backend does not match plan'')
       # verdict_continuity v [(''run_id'', rid), (''manifest_digest'', md), (''provenance_digest'', prov),
           (''plan_digest'', pd), (''evidence_digest'', ed), (''runtime_backend'', be)]) ()) (\<lambda>_.
       case jget_null v ''checks'' of
         JArr cs \<Rightarrow> guards (verdict_consistency v cs) rid
       | _ \<Rightarrow> Inl (RunArtifactError ''verdict.checks must be a list'')))))))))))))))))"

section \<open>The builder\<close>

definition build_artifacts ::
  "evaluator_authority \<Rightarrow> json dict \<Rightarrow> json dict \<Rightarrow> json dict \<Rightarrow> artifact_bundle res" where
  "build_artifacts a plan ev v =
     rbind (validate_content_digest plan ''plan_digest'' ''plan'') (\<lambda>pd.
     rbind (validate_content_digest v ''verdict_digest'' ''verdict'') (\<lambda>vd.
     let ed = canonical_digest (JObj ev) in
     rbind (validate_continuity a plan pd ev ed v) (\<lambda>rid.
     rbind (build_graph a plan pd ev ed v vd) (\<lambda>g.
     rbind (build_replay a plan ev) (\<lambda>r.
     rbind (build_trace a plan pd ev ed v vd) (\<lambda>t.
     rbind (build_scorecard a plan pd ev ed v vd r) (\<lambda>s.
       let b = \<lparr>ab_run_id = rid, ab_authority = a, ab_graph = g, ab_replay = r, ab_trace = t,
                ab_scorecard = s, ab_plan_digest = pd, ab_evidence_digest = ed,
                ab_verdict_digest = vd, bundle_digest = []\<rparr>
       in validate_bundle (b\<lparr>bundle_digest := canonical_digest (JObj (bundle_payload b))\<rparr>))))))))"

end
