(* ===== verification/GraphProperties.thy ===== *)
theory GraphProperties
  imports RunArtifactBuilder
begin

text \<open>
  The evidence graph under construction: a small calculus of triples for the builder's state
  passing, the invariant that every edge and every registered source id points to a node of the
  graph, and what a successful construction says of the references of the verdict's checks.
\<close>

section \<open>Triples\<close>

definition triple :: "(graph_state \<Rightarrow> bool) \<Rightarrow> 'a builder \<Rightarrow> ('a \<Rightarrow> graph_state \<Rightarrow> bool) \<Rightarrow> bool" where
  "triple P m Q \<longleftrightarrow> (\<forall>st x st'. P st \<longrightarrow> m st = Inr (x, st') \<longrightarrow> Q x st')"

lemma tripleD: "\<lbrakk>triple P m Q; P st; m st = Inr (x, st')\<rbrakk> \<Longrightarrow> Q x st'"
  by (auto simp: triple_def)

lemma triple_bind: "\<lbrakk>triple P m Q; \<And>x. triple (Q x) (f x) R\<rbrakk> \<Longrightarrow> triple P (bbind m f) R"
  unfolding triple_def bbind_def by (auto simp: rbind_Inr_iff)

lemma triple_weaken: "\<lbrakk>triple P m Q; \<And>st. P' st \<Longrightarrow> P st; \<And>x st. Q x st \<Longrightarrow> Q' x st\<rbrakk> \<Longrightarrow> triple P' m Q'"
  unfolding triple_def by blast

lemma triple_fail [simp]: "triple P (blift (Inl e)) Q"
  by (simp add: triple_def blift_def)

lemma triple_return: "(\<And>st. P st \<Longrightarrow> Q x st) \<Longrightarrow> triple P (blift (Inr x)) Q"
  by (simp add: triple_def blift_def)

lemma triple_lift_bind: "(\<And>x. r = Inr x \<Longrightarrow> triple P (f x) Q) \<Longrightarrow> triple P (bbind (blift r) f) Q"
  unfolding triple_def bbind_def blift_def by (auto simp: rbind_Inr_iff)

lemma triple_for: "(\<And>x. x \<in> set xs \<Longrightarrow> triple I (f x) (\<lambda>_. I)) \<Longrightarrow> triple I (bfor xs f) (\<lambda>_. I)"
proof (induction xs)
  case Nil
  then show ?case by (simp add: triple_def)
next
  case (Cons x xs)
  then have "triple I (bbind (f x) (\<lambda>_. bfor xs f)) (\<lambda>_. I)" by (intro triple_bind) auto
  then show ?case by (simp add: triple_def)
qed

lemma bfor_inv:
  assumes "bfor xs f st = Inr ((), st')" "I st" "\<And>x. triple I (f x) (\<lambda>_. I)"
  shows "I st'"
proof -
  have "triple I (bfor xs f) (\<lambda>_. I)" by (rule triple_for) (rule assms(3))
  from tripleD [OF this assms(2,1)] show ?thesis .
qed

section \<open>The invariant\<close>

definition node_ids :: "graph_state \<Rightarrow> string set" where
  "node_ids st = set (map gn_id (gs_nodes st))"

definition graph_inv :: "graph_state \<Rightarrow> bool" where
  "graph_inv st \<longleftrightarrow> (\<forall>n \<in> set (gs_nodes st). validate_node n = Inr n)
     \<and> (\<forall>e \<in> set (gs_edges st). validate_edge e = Inr e \<and> ge_source e \<in> node_ids st \<and> ge_target e \<in> node_ids st)
     \<and> snd ` set (gs_sources st) \<subseteq> node_ids st \<and> distinct (dict_keys (gs_sources st))"

definition knows :: "string set \<Rightarrow> graph_state \<Rightarrow> bool" where
  "knows S st \<longleftrightarrow> graph_inv st \<and> S \<subseteq> node_ids st"

lemma knows_mono: "knows T st \<Longrightarrow> S \<subseteq> T \<Longrightarrow> knows S st"
  by (auto simp: knows_def)

lemma snd_dict_set: "snd ` set (dict_set k v d) \<subseteq> insert v (snd ` set d)"
  by (induction k v d rule: dict_set.induct) auto

lemma triple_add_node:
  "triple (knows S) (add_node k d attrs) (\<lambda>x. knows (insert x S))"
  by (auto simp: triple_def add_node_def rbind_Inr_iff knows_def graph_inv_def node_ids_def
      validate_node_def guards_Inr_iff)

lemma triple_add_edge: "s \<in> S \<Longrightarrow> t \<in> S \<Longrightarrow>
    triple (knows S) (add_edge s t r attrs) (\<lambda>_. knows S)"
  by (auto simp: triple_def add_edge_def rbind_Inr_iff knows_def graph_inv_def node_ids_def
      validate_edge_def guards_Inr_iff mk_edge_def)

lemma triple_register: "n \<in> S \<Longrightarrow> triple (knows S) (register_source raw n) (\<lambda>_. knows S)"
proof -
  assume n: "n \<in> S"
  have "graph_inv (st\<lparr>gs_sources := dict_set raw n (gs_sources st)\<rparr>)" if k: "knows S st" for st
  proof -
    have "n \<in> node_ids st" using k n by (auto simp: knows_def)
    then have "insert n (snd ` set (gs_sources st)) \<subseteq> node_ids st"
      using k by (simp add: knows_def graph_inv_def)
    then have "snd ` set (dict_set raw n (gs_sources st)) \<subseteq> node_ids st"
      by (rule subset_trans [OF snd_dict_set])
    then show ?thesis using k distinct_dict_set [of "gs_sources st" raw n]
      by (simp add: knows_def graph_inv_def node_ids_def)
  qed
  then have "knows S (st\<lparr>gs_sources := dict_set raw n (gs_sources st)\<rparr>)" if "knows S st" for st
    using that by (simp add: knows_def node_ids_def)
  then show ?thesis by (simp add: triple_def register_source_def)
qed

lemma source_known:
  assumes "graph_inv st" "map_of (gs_sources st) s = Some t"
  shows "t \<in> node_ids st"
proof -
  have "snd (s, t) \<in> snd ` set (gs_sources st)" using map_of_SomeD [OF assms(2)] by (rule imageI)
  then show ?thesis using assms(1) unfolding graph_inv_def snd_conv by blast
qed

lemma triple_require: "triple (knows S) (require_source raw ctx) (\<lambda>x. knows (insert x S))"
proof -
  note source_known [intro]
  show ?thesis
    by (auto simp: triple_def require_source_def knows_def split: json.splits if_splits option.splits)
qed

lemma triple_node_bind:
  "(\<And>x. triple (knows (insert x S)) (f x) R) \<Longrightarrow> triple (knows S) (bbind (add_node k d attrs) f) R"
  by (rule triple_bind [OF triple_add_node])

lemma triple_edge_bind:
  "\<lbrakk>s \<in> S; t \<in> S; triple (knows S) (f ()) R\<rbrakk> \<Longrightarrow> triple (knows S) (bbind (add_edge s t r attrs) f) R"
  by (rule triple_bind [OF triple_add_edge]) simp_all

lemma triple_drop: "triple (knows S) m (\<lambda>_. knows T) \<Longrightarrow> S' \<subseteq> T \<Longrightarrow> triple (knows S) m (\<lambda>_. knows S')"
  by (erule triple_weaken) (auto intro: knows_mono)

lemma triple_add_item: "en \<in> S \<Longrightarrow> triple (knows S) (add_item en it) (\<lambda>_. knows S)"
proof -
  assume en: "en \<in> S"
  obtain c i v where it: "it = (c, i, v)" by (cases it)
  have "triple (knows (insert x S)) (case source_id_of v of None \<Rightarrow> blift (Inr ()) | Some s \<Rightarrow> register_source s x)
      (\<lambda>_. knows S)" for x
    by (cases "source_id_of v")
       (simp_all add: triple_drop [OF triple_register] triple_return knows_mono [of "insert x S"] subset_insertI)
  then show ?thesis unfolding it add_item_def prod.case using en
    by (intro triple_node_bind triple_edge_bind) simp_all
qed

lemma triple_references:
  "node \<in> S \<Longrightarrow> triple (knows S) (bfor ids (\<lambda>raw_id. bbind (require_source raw_id ctx)
      (\<lambda>target. add_edge node target ''references'' []))) (\<lambda>_. knows S)"
  by (rule triple_for) (rule triple_bind [OF triple_require], rule triple_drop [OF triple_add_edge], auto)

lemma triple_add_check: "\<lbrakk>an \<in> S; vn \<in> S\<rbrakk> \<Longrightarrow> triple (knows S) (add_check an vn ic) (\<lambda>_. knows S)"
proof -
  assume S: "an \<in> S" "vn \<in> S"
  obtain i raw where ic: "ic = (i, raw)" by (cases ic)
  have "triple (knows (insert node S)) (case v of
         JArr ids \<Rightarrow> if \<not> distinct (map py_str ids) then blift (Inl e1)
           else bfor ids (\<lambda>raw_id. bbind (require_source raw_id ctx) (\<lambda>target. add_edge node target ''references'' []))
       | _ \<Rightarrow> blift (Inl e2)) (\<lambda>_. knows S)" for v node ctx e1 e2
    by (cases v) (simp_all add: triple_drop [OF triple_references] subset_insertI)
  then show ?thesis unfolding ic add_check_def prod.case Let_def using S
    by (intro triple_lift_bind triple_node_bind triple_edge_bind) simp_all
qed

lemma triple_case_finding:
  "node \<in> S \<Longrightarrow> triple (knows S) (\<lambda>st. let s = s0 in
         case map_of (gs_sources st) s of
           Some target \<Rightarrow> add_edge node target ''derived_from'' [] st
         | None \<Rightarrow> if cnd then Inl (err s)
             else bbind (add_node ''unresolved_evidence_reference'' (dg s) (atts s))
                  (\<lambda>un. add_edge node un ''references_missing'' []) st) (\<lambda>_. knows S)"
proof -
  assume n: "node \<in> S"
  have a: "triple (knows S) (bbind (add_node ''unresolved_evidence_reference'' (dg s0) (atts s0))
                  (\<lambda>un. add_edge node un ''references_missing'' [])) (\<lambda>_. knows S)"
    using n by (intro triple_node_bind triple_drop [OF triple_add_edge]) auto
  have "knows S st'" if k: "knows S st" and t: "map_of (gs_sources st) s0 = Some t"
    and e: "add_edge node t ''derived_from'' [] st = Inr ((), st')" for st st' t
  proof -
    have "t \<in> node_ids st" using k source_known [OF _ t] by (simp add: knows_def)
    with k have "knows (insert t S) st" by (simp add: knows_def)
    from tripleD [OF triple_add_edge this e] n have "knows (insert t S) st'" by simp
    then show ?thesis by (rule knows_mono) blast
  qed
  note found = this
  show ?thesis
    unfolding triple_def Let_def
  proof (intro allI impI)
    fix st x st'
    assume k: "knows S st" and m: "(case map_of (gs_sources st) s0 of
           Some target \<Rightarrow> add_edge node target ''derived_from'' [] st
         | None \<Rightarrow> if cnd then Inl (err s0)
             else bbind (add_node ''unresolved_evidence_reference'' (dg s0) (atts s0))
                  (\<lambda>un. add_edge node un ''references_missing'' []) st) = Inr (x, st')"
    show "knows S st'"
    proof (cases "map_of (gs_sources st) s0")
      case None
      with m have "bbind (add_node ''unresolved_evidence_reference'' (dg s0) (atts s0))
                  (\<lambda>un. add_edge node un ''references_missing'' []) st = Inr (x, st')"
        by (simp split: if_splits)
      from tripleD [OF a k this] show ?thesis .
    next
      case (Some t)
      with m found [OF k Some] show ?thesis by simp
    qed
  qed
qed

lemma triple_add_finding: "vn \<in> S \<Longrightarrow> triple (knows S) (add_finding v vn ir) (\<lambda>_. knows S)"
proof -
  assume S: "vn \<in> S"
  obtain i raw where ir: "ir = (i, raw)" by (cases ir)
  have ret: "triple (knows (insert node S)) (blift (Inr ())) (\<lambda>_. knows S)" for node
    by (rule triple_return) (erule knows_mono, rule subset_insertI)
  show ?thesis unfolding ir add_finding_def prod.case using S
    by (intro triple_lift_bind triple_node_bind triple_edge_bind)
       (simp_all add: ret triple_drop [OF triple_case_finding] subset_insertI)
qed

lemma triple_add_roots:
  "triple (knows {}) (add_roots a plan pd ev ed v vd parts) (\<lambda>(an, en, vn). knows {an, en, vn})"
  unfolding add_roots_def
  by (intro triple_lift_bind triple_node_bind triple_edge_bind triple_return)
     (simp_all add: knows_mono)

lemma bbind_elim:
  assumes "bbind m f st = Inr r"
  obtains x st' where "m st = Inr (x, st')" "f x st' = Inr r"
  using assms by (auto simp: bbind_def rbind_Inr_iff)

lemma blift_Inr: "blift r st = Inr (x, st') \<longleftrightarrow> r = Inr x \<and> st' = st"
  by (cases r) (auto simp: blift_def)

lemma bfor_each:
  assumes "bfor xs f st = Inr ((), st')" "I st" "\<And>x. x \<in> set xs \<Longrightarrow> triple I (f x) (\<lambda>_. I)"
  shows "\<forall>x \<in> set xs. \<exists>s r. I s \<and> f x s = Inr r"
  using assms
proof (induction xs arbitrary: st)
  case (Cons x xs)
  from Cons.prems(1) have "bbind (f x) (\<lambda>_. bfor xs f) st = Inr ((), st')" by simp
  then obtain s1 where f: "f x st = Inr ((), s1)" and r: "bfor xs f s1 = Inr ((), st')"
    by (rule bbind_elim) simp
  have "I s1" using tripleD [OF Cons.prems(3) Cons.prems(2) f] by simp
  from Cons.IH [OF r this Cons.prems(3)] f Cons.prems(2) show ?case by auto
qed simp

lemma enumerate_member: "x \<in> set xs \<Longrightarrow> \<exists>i. (i, x) \<in> set (enumerate 0 xs)"
proof -
  assume "x \<in> set xs"
  then obtain i where "i < length xs" "xs ! i = x" by (auto simp: in_set_conv_nth)
  then have "enumerate 0 xs ! i = (i, x)" "i < length (enumerate 0 xs)" by (simp_all add: nth_enumerate_eq)
  then show ?thesis by (metis nth_mem)
qed

text \<open>The stages of a successful construction.\<close>

lemma populate_stages:
  assumes "populate_graph a plan pd ev ed v vd parts st0 = Inr ((), st)"
  obtains an en vn s1 s2 cs s3 fs where
    "add_roots a plan pd ev ed v vd parts st0 = Inr ((an, en, vn), s1)"
    "bfor (evidence_items ev) (add_item en) s1 = Inr ((), s2)"
    "py_list (jget_default v ''checks'' (JArr [])) = Inr cs"
    "bfor (enumerate 0 cs) (add_check an vn) s2 = Inr ((), s3)"
    "jget_default v ''security_findings'' (JArr []) = JArr fs"
    "bfor (enumerate 0 fs) (add_finding v vn) s3 = Inr ((), st)"
proof -
  from assms obtain y s1 where r: "add_roots a plan pd ev ed v vd parts st0 = Inr (y, s1)"
    and rest: "(case y of (an, en, vn) \<Rightarrow> bbind (bfor (evidence_items ev) (add_item en)) (\<lambda>_.
      bbind (blift (py_list (jget_default v ''checks'' (JArr [])))) (\<lambda>cs.
      bbind (bfor (enumerate 0 cs) (add_check an vn)) (\<lambda>_.
        case jget_default v ''security_findings'' (JArr []) of
         JArr fs \<Rightarrow> bfor (enumerate 0 fs) (add_finding v vn)
       | _ \<Rightarrow> blift (Inl (RunArtifactError ''verdict.security_findings must be a list'')))))) s1 = Inr ((), st)"
    unfolding populate_graph_def by (rule bbind_elim)
  obtain an en vn where y: "y = (an, en, vn)" by (cases y)
  from rest obtain s2 where i: "bfor (evidence_items ev) (add_item en) s1 = Inr ((), s2)"
    and rest: "bbind (blift (py_list (jget_default v ''checks'' (JArr [])))) (\<lambda>cs.
      bbind (bfor (enumerate 0 cs) (add_check an vn)) (\<lambda>_.
        case jget_default v ''security_findings'' (JArr []) of
         JArr fs \<Rightarrow> bfor (enumerate 0 fs) (add_finding v vn)
       | _ \<Rightarrow> blift (Inl (RunArtifactError ''verdict.security_findings must be a list''))))
       s2 = Inr ((), st)"
    unfolding y prod.case by (rule bbind_elim) simp
  from rest obtain cs where c: "py_list (jget_default v ''checks'' (JArr [])) = Inr cs"
    and rest: "bbind (bfor (enumerate 0 cs) (add_check an vn)) (\<lambda>_.
        case jget_default v ''security_findings'' (JArr []) of
         JArr fs \<Rightarrow> bfor (enumerate 0 fs) (add_finding v vn)
       | _ \<Rightarrow> blift (Inl (RunArtifactError ''verdict.security_findings must be a list'')))
       s2 = Inr ((), st)"
    by (rule bbind_elim) (simp add: blift_Inr)
  from rest obtain s3 where k: "bfor (enumerate 0 cs) (add_check an vn) s2 = Inr ((), s3)"
    and rest: "(case jget_default v ''security_findings'' (JArr []) of
         JArr fs \<Rightarrow> bfor (enumerate 0 fs) (add_finding v vn)
       | _ \<Rightarrow> blift (Inl (RunArtifactError ''verdict.security_findings must be a list'')))
       s3 = Inr ((), st)"
    by (rule bbind_elim) simp
  show thesis
  proof (cases "jget_default v ''security_findings'' (JArr [])")
    case (JArr fs)
    with rest r y i c k show ?thesis by (intro that) simp_all
  qed (use rest in \<open>simp_all add: blift_Inr\<close>)
qed

section \<open>Source evidence ids\<close>

definition item_source :: "evidence_item \<Rightarrow> string list" where
  "item_source it = (case source_id_of (snd (snd it)) of None \<Rightarrow> [] | Some s \<Rightarrow> [s])"

definition source_ids :: "json dict \<Rightarrow> string list" where
  "source_ids ev = concat (map item_source (evidence_items ev))"

abbreviation sources_are :: "string list \<Rightarrow> graph_state \<Rightarrow> bool" where
  "sources_are ks st \<equiv> dict_keys (gs_sources st) = ks"

lemma frame_node: "triple (sources_are ks) (add_node k d attrs) (\<lambda>_. sources_are ks)"
  by (auto simp: triple_def add_node_def rbind_Inr_iff)

lemma frame_edge: "triple (sources_are ks) (add_edge s t r attrs) (\<lambda>_. sources_are ks)"
  by (auto simp: triple_def add_edge_def rbind_Inr_iff)

lemma frame_require: "triple (sources_are ks) (require_source raw ctx) (\<lambda>_. sources_are ks)"
  by (auto simp: triple_def require_source_def split: json.splits if_splits option.splits)

lemma frame_roots: "triple (sources_are ks) (add_roots a plan pd ev ed v vd parts) (\<lambda>_. sources_are ks)"
  unfolding add_roots_def
  by (intro triple_lift_bind triple_bind [OF frame_node] triple_bind [OF frame_edge] triple_return)

lemma dict_keys_fresh: "map_of d k = None \<Longrightarrow> dict_keys (dict_set k v d) = dict_keys d @ [k]"
  by (induction k v d rule: dict_set.induct) (auto simp: dict_keys_def split: if_splits)

lemma frame_item: "triple (sources_are ks) (add_item en it) (\<lambda>_. sources_are (ks @ item_source it))"
proof -
  obtain c i v where it: "it = (c, i, v)" by (cases it)
  have "triple (sources_are ks) (case source_id_of v of None \<Rightarrow> blift (Inr ()) | Some s \<Rightarrow> register_source s x)
      (\<lambda>_. sources_are (ks @ item_source it))" for x
    by (cases "source_id_of v")
       (auto simp: it item_source_def triple_def register_source_def dict_keys_fresh blift_def)
  then show ?thesis unfolding it add_item_def prod.case
    by (intro triple_bind [OF frame_node] triple_bind [OF frame_edge])
qed

lemma frame_items: "triple (sources_are ks) (bfor its (add_item en))
    (\<lambda>_. sources_are (ks @ concat (map item_source its)))"
proof (induction its arbitrary: ks)
  case Nil
  then show ?case by (simp add: triple_def)
next
  case (Cons it its)
  have "triple (sources_are ks) (bbind (add_item en it) (\<lambda>_. bfor its (add_item en)))
      (\<lambda>_. sources_are ((ks @ item_source it) @ concat (map item_source its)))"
    by (rule triple_bind [OF frame_item Cons.IH])
  then show ?case by (simp add: triple_def)
qed

lemma frame_check: "triple (sources_are ks) (add_check an vn ic) (\<lambda>_. sources_are ks)"
proof -
  obtain i raw where ic: "ic = (i, raw)" by (cases ic)
  have refs: "triple (sources_are ks) (bfor ids (\<lambda>raw_id. bbind (require_source raw_id ctx)
      (\<lambda>target. add_edge node target ''references'' []))) (\<lambda>_. sources_are ks)" for ids ctx node
    by (intro triple_for triple_bind [OF frame_require] frame_edge)
  have "triple (sources_are ks) (case v of
         JArr ids \<Rightarrow> if \<not> distinct (map py_str ids) then blift (Inl e1)
           else bfor ids (\<lambda>raw_id. bbind (require_source raw_id ctx) (\<lambda>target. add_edge node target ''references'' []))
       | _ \<Rightarrow> blift (Inl e2)) (\<lambda>_. sources_are ks)" for v node ctx e1 e2
    by (cases v) (simp_all add: refs)
  then show ?thesis unfolding ic add_check_def prod.case Let_def
    by (intro triple_lift_bind triple_bind [OF frame_node] triple_bind [OF frame_edge])
qed

text \<open>A successful check had all its references among the sources.\<close>

definition check_refs :: "json \<Rightarrow> json list" where
  "check_refs c = (case jget_default (obj_items c) ''evidence_ids'' (JArr []) of JArr ids \<Rightarrow> ids | _ \<Rightarrow> [])"

lemma require_source_Inr: "require_source raw ctx st = Inr r \<Longrightarrow> \<exists>s \<in> set (dict_keys (gs_sources st)). raw = JStr s"
proof (cases raw)
  case (JStr s)
  assume "require_source raw ctx st = Inr r"
  then have "map_of (gs_sources st) s \<noteq> None"
    by (auto simp: require_source_def JStr split: if_splits option.splits)
  then have "s \<in> set (dict_keys (gs_sources st))" by (simp add: map_of_eq_None_iff dict_keys_def)
  then show ?thesis using JStr by blast
qed (simp_all add: require_source_def)

lemma check_refs_known:
  assumes "add_check an vn (i, c) st = Inr r" "sources_are ks st"
  shows "is_obj c \<and> (\<forall>raw \<in> set (check_refs c). \<exists>s \<in> set ks. raw = JStr s)"
proof -
  let ?nm = "''verdict.checks['' @ show_nat i @ '']''"
  let ?tail = "\<lambda>check node. case jget_default check ''evidence_ids'' (JArr []) of
         JArr ids \<Rightarrow> if \<not> distinct (map py_str ids)
           then blift (Inl (RunArtifactError (?nm @ ''.evidence_ids contains duplicates'')))
           else bfor ids (\<lambda>raw_id. bbind (require_source raw_id (?nm @ ''.evidence_ids''))
                  (\<lambda>target. add_edge node target ''references'' []))
       | _ \<Rightarrow> blift (Inl (RunArtifactError (?nm @ ''.evidence_ids must be a list'')))"
  from assms(1) obtain check where c: "json_mapping c ?nm = Inr check"
    and r: "bbind (add_node ''verification_check'' (canonical_digest (JObj check)) (check_attributes check))
      (\<lambda>node. bbind (add_edge node vn ''supports'' []) (\<lambda>_. bbind (add_edge an node ''authorizes'' [])
        (\<lambda>_. ?tail check node))) st = Inr r"
    unfolding add_check_def prod.case Let_def by (rule bbind_elim) (simp add: blift_Inr)
  then have obj: "c = JObj check" by (cases c) simp_all
  from r obtain node s1 where n: "add_node ''verification_check'' (canonical_digest (JObj check))
      (check_attributes check) st = Inr (node, s1)"
    and r: "bbind (add_edge node vn ''supports'' []) (\<lambda>_. bbind (add_edge an node ''authorizes'' [])
        (\<lambda>_. ?tail check node)) s1 = Inr r" by (rule bbind_elim)
  have k1: "sources_are ks s1" by (rule tripleD [OF frame_node assms(2) n])
  from r obtain u s2 where e: "add_edge node vn ''supports'' [] s1 = Inr (u, s2)"
    and r: "bbind (add_edge an node ''authorizes'' []) (\<lambda>_. ?tail check node) s2 = Inr r" by (rule bbind_elim)
  have k2: "sources_are ks s2" by (rule tripleD [OF frame_edge k1 e])
  from r obtain u' s3 where e: "add_edge an node ''authorizes'' [] s2 = Inr (u', s3)"
    and r: "?tail check node s3 = Inr r" by (rule bbind_elim)
  have k3: "sources_are ks s3" by (rule tripleD [OF frame_edge k2 e])
  have "\<forall>raw \<in> set (check_refs c). \<exists>s \<in> set ks. raw = JStr s"
  proof (cases "jget_default check ''evidence_ids'' (JArr [])")
    case (JArr ids)
    from r have "bfor ids (\<lambda>raw_id. bbind (require_source raw_id (?nm @ ''.evidence_ids''))
        (\<lambda>target. add_edge node target ''references'' [])) s3 = Inr r"
      by (simp add: JArr blift_def split: if_splits)
    then obtain s4 where f: "bfor ids (\<lambda>raw_id. bbind (require_source raw_id (?nm @ ''.evidence_ids''))
        (\<lambda>target. add_edge node target ''references'' [])) s3 = Inr ((), s4)" by (cases r) simp
    have tr: "triple (sources_are ks) (bbind (require_source raw ctx)
        (\<lambda>target. add_edge node target ''references'' [])) (\<lambda>_. sources_are ks)" for raw ctx
      by (intro triple_bind [OF frame_require] frame_edge)
    show ?thesis
    proof
      fix raw assume "raw \<in> set (check_refs c)"
      then have "raw \<in> set ids" by (simp add: check_refs_def obj JArr)
      with bfor_each [OF f k3 tr] obtain s r' where "sources_are ks s"
        and "bbind (require_source raw (?nm @ ''.evidence_ids'')) (\<lambda>target. add_edge node target ''references'' []) s
          = Inr r'" by blast
      then show "\<exists>s \<in> set ks. raw = JStr s" using require_source_Inr
        by (elim bbind_elim) blast
    qed
  qed (simp_all add: check_refs_def obj)
  then show ?thesis by (simp add: obj)
qed

section \<open>What a constructed graph guarantees\<close>

lemma knows_empty: "knows {} empty_graph_state"
  by (simp add: knows_def graph_inv_def empty_graph_state_def dict_keys_def)

text \<open>The state after each stage, for any verdict.\<close>

lemma populate_facts:
  assumes "populate_graph a plan pd ev ed v vd parts empty_graph_state = Inr ((), st)"
  obtains an vn s2 cs s3 fs where "graph_inv st" "sources_are (source_ids ev) s2" "graph_inv s2"
    "py_list (jget_default v ''checks'' (JArr [])) = Inr cs"
    "bfor (enumerate 0 cs) (add_check an vn) s2 = Inr ((), s3)" "sources_are (source_ids ev) s3"
    "jget_default v ''security_findings'' (JArr []) = JArr fs"
    "bfor (enumerate 0 fs) (add_finding v vn) s3 = Inr ((), st)"
proof -
  from assms obtain an en vn s1 s2 cs s3 fs where
    r: "add_roots a plan pd ev ed v vd parts empty_graph_state = Inr ((an, en, vn), s1)"
    and i: "bfor (evidence_items ev) (add_item en) s1 = Inr ((), s2)"
    and c: "py_list (jget_default v ''checks'' (JArr [])) = Inr cs"
    and k: "bfor (enumerate 0 cs) (add_check an vn) s2 = Inr ((), s3)"
    and f: "jget_default v ''security_findings'' (JArr []) = JArr fs"
    and b: "bfor (enumerate 0 fs) (add_finding v vn) s3 = Inr ((), st)" by (rule populate_stages)
  have k1: "knows {an, en, vn} s1" using tripleD [OF triple_add_roots knows_empty r] by simp
  have k2: "knows {an, en, vn} s2" by (rule bfor_inv [where I = "knows {an, en, vn}", OF i k1]) (simp add: triple_add_item)
  have k3: "knows {an, en, vn} s3" by (rule bfor_inv [where I = "knows {an, en, vn}", OF k k2]) (simp add: triple_add_check)
  have k4: "knows {an, en, vn} st" by (rule bfor_inv [where I = "knows {an, en, vn}", OF b k3]) (simp add: triple_add_finding)
  have "sources_are [] empty_graph_state" by (simp add: empty_graph_state_def dict_keys_def)
  from tripleD [OF frame_roots this r] have n1: "sources_are [] s1" .
  from tripleD [OF frame_items n1 i] have n2: "sources_are (source_ids ev) s2"
    by (simp add: source_ids_def)
  have n3: "sources_are (source_ids ev) s3" by (rule bfor_inv [where I = "sources_are (source_ids ev)", OF k n2 frame_check])
  show thesis
    using k2 k4 by (intro that [OF _ n2 _ c k n3 f b]) (simp_all add: knows_def)
qed

lemma references_resolve:
  assumes "populate_graph a plan pd ev ed v vd parts empty_graph_state = Inr ((), st)"
    and "py_list (jget_default v ''checks'' (JArr [])) = Inr cs" and "c \<in> set cs" and "raw \<in> set (check_refs c)"
  shows "\<exists>s \<in> set (source_ids ev). raw = JStr s"
proof -
  from assms(1) obtain an vn s2 s3 where n: "sources_are (source_ids ev) s2"
    and k: "bfor (enumerate 0 cs) (add_check an vn) s2 = Inr ((), s3)"
    by (rule populate_facts) (simp add: assms(2))
  obtain i where "(i, c) \<in> set (enumerate 0 cs)" using enumerate_member [OF assms(3)] by (rule exE)
  from bspec [OF bfor_each [where I = "sources_are (source_ids ev)", OF k n frame_check] this] obtain s r where
    "sources_are (source_ids ev) s" "add_check an vn (i, c) s = Inr r" by (elim exE conjE)
  from check_refs_known [OF this(2,1)] assms(4) show ?thesis by blast
qed

lemma graph_closed:
  assumes "populate_graph a plan pd ev ed v vd parts empty_graph_state = Inr ((), st)"
  shows "graph_inv st" and "distinct (source_ids ev)"
proof -
  from assms obtain s2 where "graph_inv st" "sources_are (source_ids ev) s2" "graph_inv s2"
    by (rule populate_facts)
  then show "graph_inv st" "distinct (source_ids ev)" by (auto simp: graph_inv_def)
qed

end
