(* ===== verification/GraphEquivalence.thy ===== *)
theory GraphEquivalence
  imports GraphProperties JsonParser
begin

text \<open>
  The evidence graph as a declarative list of nodes and edges, and the proof that the stateful
  construction computes it whenever the verdict's checks make no references and there is no finding;
  then the graph passes its own validator unless two different payloads have the same digest.
\<close>

section \<open>Collisions\<close>

text \<open>Two values of a list with different canonical encodings and the same first \<open>k\<close> digits.\<close>

definition digest_clash :: "nat \<Rightarrow> json list \<Rightarrow> bool" where
  "digest_clash k xs \<longleftrightarrow> (\<exists>x \<in> set xs. \<exists>y \<in> set xs. dumps x \<noteq> dumps y
     \<and> take k (canonical_digest x) = take k (canonical_digest y))"

lemma no_clash_distinct:
  "\<lbrakk>\<not> digest_clash k xs; distinct (map dumps xs)\<rbrakk> \<Longrightarrow> distinct (map (\<lambda>x. take k (canonical_digest x)) xs)"
  unfolding distinct_map by (auto simp: inj_on_def digest_clash_def)

lemma canonical_digest_length [simp]: "take 64 (canonical_digest v) = canonical_digest v"
  using is_hex64_canonical_digest [of v] by (simp add: is_hex_def)

text \<open>Equal encodings of plain objects agree on every key.\<close>

lemma map_of_insort: "k \<notin> fst ` set xs \<Longrightarrow> map_of (insort_key fst (k, v) xs) = (map_of xs)(k \<mapsto> v)"
  by (induction xs) (auto simp: fun_eq_iff)

lemma map_of_sort: "distinct (map fst xs) \<Longrightarrow> map_of (sort_key fst xs) = map_of xs"
proof (induction xs)
  case (Cons x xs)
  obtain k v where x: "x = (k, v)" by (cases x)
  have "k \<notin> fst ` set (sort_key fst xs)" using Cons.prems by (simp add: x)
  from map_of_insort [OF this] Cons show ?case by (simp add: x)
qed simp

lemma canon_agree:
  assumes "plain (JObj a)" "plain (JObj b)" "canon (JObj a) = canon (JObj b)"
  shows "map_option canon (map_of a k) = map_option canon (map_of b k)"
proof -
  from assms(3) have "map_of (sort_key fst (map (\<lambda>(k, v). (k, canon v)) a)) k
      = map_of (sort_key fst (map (\<lambda>(k, v). (k, canon v)) b)) k" by simp
  moreover have "distinct (map fst (map (\<lambda>(k, v). (k, canon v)) a))" "distinct (map fst (map (\<lambda>(k, v). (k, canon v)) b))"
    using assms(1,2) by (simp_all add: comp_def case_prod_unfold)
  ultimately have "map_of (map (\<lambda>(k, v). (k, canon v)) a) k = map_of (map (\<lambda>(k, v). (k, canon v)) b) k"
    by (simp add: map_of_sort)
  then show ?thesis by (simp add: map_of_map)
qed

lemma dumps_canon: "\<lbrakk>plain x; plain y; dumps x = dumps y\<rbrakk> \<Longrightarrow> canon x = canon y"
  using loads_dumps [of x] loads_dumps [of y] by simp

section \<open>The declarative graph\<close>

definition item_node :: "evidence_item \<Rightarrow> graph_node" where
  "item_node it = mk_node ''evidence_object'' (canonical_digest (snd (snd it))) (item_attributes it)"

definition item_edge :: "string \<Rightarrow> evidence_item \<Rightarrow> graph_edge" where
  "item_edge en it = mk_edge (gn_id (item_node it)) en ''contained_in'' (item_attributes it)"

definition check_node :: "json \<Rightarrow> graph_node" where
  "check_node c = mk_node ''verification_check'' (canonical_digest c) (check_attributes (obj_items c))"

definition check_edges :: "string \<Rightarrow> string \<Rightarrow> json \<Rightarrow> graph_edge list" where
  "check_edges an vn c = [mk_edge (gn_id (check_node c)) vn ''supports'' [],
     mk_edge an (gn_id (check_node c)) ''authorizes'' []]"

definition root_nodes ::
  "evaluator_authority \<Rightarrow> json dict \<Rightarrow> string \<Rightarrow> json dict \<Rightarrow> string \<Rightarrow> json dict \<Rightarrow> string \<Rightarrow> run_parts
    \<Rightarrow> string \<Rightarrow> graph_node list" where
  "root_nodes a plan pd ev ed v vd parts prov =
     [mk_node ''evaluator_authority'' (authority_digest a) (authority_attributes a),
      mk_node ''harness_plan'' pd (pick plan [''manifest_id'', ''manifest_version'', ''domain'', ''adapter'']),
      mk_node ''skill_provenance'' prov (pick (rp_skill parts) [''source_url'', ''commit_or_digest'', ''entrypoint'']),
      mk_node ''runtime'' (canonical_digest (JObj (rp_runtime parts)))
        (pick (rp_runtime parts) [''backend'', ''version'', ''image_digest'']),
      mk_node ''agent'' (canonical_digest (JObj (rp_agent parts))) (pick (rp_agent parts) [''harness'', ''version'']),
      mk_node ''model'' (canonical_digest (JObj (rp_model parts)))
        (pick (rp_model parts) [''provider'', ''model'', ''quota_class'']),
      mk_node ''evidence_bundle'' ed (evidence_attributes ev),
      mk_node ''harness_verdict'' vd (verdict_attributes v)]"

text \<open>The edges between the roots, given their identifiers in the order of \<open>root_nodes\<close>.\<close>

definition root_edges :: "string list \<Rightarrow> graph_edge list" where
  "root_edges i = [mk_edge (i ! 0) (i ! 1) ''authorizes'' [], mk_edge (i ! 2) (i ! 1) ''input_to'' [],
     mk_edge (i ! 3) (i ! 1) ''configures'' [], mk_edge (i ! 4) (i ! 1) ''configures'' [],
     mk_edge (i ! 5) (i ! 1) ''configures'' [], mk_edge (i ! 1) (i ! 6) ''produces'' [],
     mk_edge (i ! 6) (i ! 7) ''evaluated_by'' [], mk_edge (i ! 0) (i ! 7) ''authorizes_evaluation'' []]"

definition declared_nodes :: "graph_node list \<Rightarrow> json dict \<Rightarrow> json list \<Rightarrow> graph_node list" where
  "declared_nodes roots ev cs = roots @ map item_node (evidence_items ev) @ map check_node cs"

definition declared_edges :: "graph_node list \<Rightarrow> json dict \<Rightarrow> json list \<Rightarrow> graph_edge list" where
  "declared_edges roots ev cs = (let i = map gn_id roots in
     root_edges i @ map (item_edge (i ! 6)) (evidence_items ev) @ concat (map (check_edges (i ! 0) (i ! 7)) cs))"

section \<open>The construction computes it\<close>

lemma mk_node_simps [simp]: "gn_kind (mk_node k d ats) = k" "gn_payload_digest (mk_node k d ats) = d"
  "gn_attributes (mk_node k d ats) = ats"
  "gn_id (mk_node k d ats) = digest_ref (canonical_digest (node_payload k d ats))"
  by (simp_all add: mk_node_def)

lemma mk_edge_simps [simp]: "ge_source (mk_edge s t r ats) = s" "ge_target (mk_edge s t r ats) = t"
  "ge_relation (mk_edge s t r ats) = r" "ge_attributes (mk_edge s t r ats) = ats"
  "ge_id (mk_edge s t r ats) = digest_ref (canonical_digest (edge_payload s t r ats))"
  by (simp_all add: mk_edge_def)

lemma is_node_id_ref [simp]: "is_node_id (digest_ref (canonical_digest v))"
  by (simp add: is_node_id_def digest_ref_def starts_with_def)

lemma valid_mk_node: "\<lbrakk>is_hex64 d; k \<noteq> []\<rbrakk> \<Longrightarrow> validate_node (mk_node k d ats) = Inr (mk_node k d ats)"
  by (simp add: validate_node_def guards_Inr_iff)

lemma valid_mk_edge: "\<lbrakk>is_node_id s; is_node_id t; r \<noteq> []\<rbrakk> \<Longrightarrow>
    validate_edge (mk_edge s t r ats) = Inr (mk_edge s t r ats)"
  by (simp add: validate_edge_def guards_Inr_iff)

lemma add_node_ok: "\<lbrakk>is_hex64 d; k \<noteq> []\<rbrakk> \<Longrightarrow>
    add_node k d ats st = Inr (gn_id (mk_node k d ats), st\<lparr>gs_nodes := gs_nodes st @ [mk_node k d ats]\<rparr>)"
  by (simp add: add_node_def valid_mk_node)

lemma add_edge_ok: "\<lbrakk>is_node_id s; is_node_id t; r \<noteq> []\<rbrakk> \<Longrightarrow>
    add_edge s t r ats st = Inr ((), st\<lparr>gs_edges := gs_edges st @ [mk_edge s t r ats]\<rparr>)"
  by (simp add: add_edge_def valid_mk_edge)

lemmas step_simps = bbind_def blift_def add_node_ok add_edge_ok

text \<open>One update of the state: nodes, edges and sources appended.\<close>

definition grown :: "graph_state \<Rightarrow> graph_node list \<Rightarrow> graph_edge list \<Rightarrow> string dict \<Rightarrow> graph_state" where
  "grown st ns es ss = \<lparr>gs_nodes = gs_nodes st @ ns, gs_edges = gs_edges st @ es, gs_sources = gs_sources st @ ss\<rparr>"

lemma grown_fields [simp]: "gs_nodes (grown st ns es ss) = gs_nodes st @ ns"
  "gs_edges (grown st ns es ss) = gs_edges st @ es" "gs_sources (grown st ns es ss) = gs_sources st @ ss"
  by (simp_all add: grown_def)

lemma grown_grown [simp]: "grown (grown st ns es ss) ns' es' ss' = grown st (ns @ ns') (es @ es') (ss @ ss')"
  by (simp add: grown_def)

lemma grown_nil [simp]: "grown st [] [] [] = st"
  by (simp add: grown_def)

lemma roots_ok:
  assumes "is_hex64 (authority_digest a)" "is_hex64 pd" "is_hex64 ed" "is_hex64 vd" "is_hex64 prov"
    and "require_str plan ''provenance_digest'' ''plan'' = Inr prov"
    and rs: "rs = root_nodes a plan pd ev ed v vd parts prov" and i: "i = map gn_id rs"
  shows "add_roots a plan pd ev ed v vd parts st = Inr ((i ! 0, i ! 6, i ! 7), grown st rs (root_edges i) [])"
  using assms(1-6) unfolding i rs add_roots_def root_nodes_def root_edges_def grown_def
  by (simp add: step_simps)

lemma item_ok:
  assumes "is_node_id en" "set (item_source it) \<inter> set (dict_keys (gs_sources st)) = {}"
  shows "add_item en it st = Inr ((), grown st [item_node it] [item_edge en it]
      (map (\<lambda>s. (s, gn_id (item_node it))) (item_source it)))"
proof -
  obtain c i v where it: "it = (c, i, v)" by (cases it)
  have fresh: "map_of d k = None \<Longrightarrow> dict_set k w d = d @ [(k, w)]" for d :: "string dict" and k w
    by (induction k w d rule: dict_set.induct) (auto split: if_splits)
  show ?thesis
    using assms
    by (cases "source_id_of v")
       (simp_all add: it add_item_def step_simps item_node_def item_edge_def item_source_def grown_def
         register_source_def fresh map_of_eq_None_iff dict_keys_def)
qed

lemma items_ok:
  assumes "is_node_id en" "distinct (dict_keys (gs_sources st) @ concat (map item_source its))"
  shows "bfor its (add_item en) st = Inr ((), grown st (map item_node its) (map (item_edge en) its)
      (concat (map (\<lambda>it. map (\<lambda>s. (s, gn_id (item_node it))) (item_source it)) its)))"
  using assms(2)
proof (induction its arbitrary: st)
  case (Cons it its)
  let ?st = "grown st [item_node it] [item_edge en it] (map (\<lambda>s. (s, gn_id (item_node it))) (item_source it))"
  have "dict_keys (gs_sources ?st) = dict_keys (gs_sources st) @ item_source it"
    by (simp add: dict_keys_def comp_def)
  with Cons.prems have d: "distinct (dict_keys (gs_sources ?st) @ concat (map item_source its))" by simp
  have "set (item_source it) \<inter> set (dict_keys (gs_sources st)) = {}" using Cons.prems by auto
  then show ?case by (simp add: bbind_def item_ok [OF assms(1)] Cons.IH [OF d])
qed simp

lemma check_ok:
  assumes "is_node_id an" "is_node_id vn" "is_obj c" "jget_default (obj_items c) ''evidence_ids'' (JArr []) = JArr []"
  shows "add_check an vn (n, c) st = Inr ((), grown st [check_node c] (check_edges an vn c) [])"
proof -
  from assms(3) obtain d where c: "c = JObj d" by (cases c) auto
  with assms show ?thesis
    by (simp add: add_check_def Let_def step_simps check_node_def check_edges_def grown_def)
qed

lemma checks_ok:
  assumes "is_node_id an" "is_node_id vn"
    and "\<forall>c \<in> set cs. is_obj c \<and> jget_default (obj_items c) ''evidence_ids'' (JArr []) = JArr []"
  shows "bfor (enumerate n cs) (add_check an vn) st
     = Inr ((), grown st (map check_node cs) (concat (map (check_edges an vn) cs)) [])"
  using assms(3)
proof (induction cs arbitrary: st n)
  case (Cons c cs)
  then show ?case by (simp add: bbind_def check_ok [OF assms(1,2)])
qed simp

lemma populate_declared:
  assumes "is_hex64 (authority_digest a)" "is_hex64 pd" "is_hex64 ed" "is_hex64 vd" "is_hex64 prov"
    and "require_str plan ''provenance_digest'' ''plan'' = Inr prov"
    and "jget_default v ''checks'' (JArr []) = JArr cs"
    and "jget_default v ''security_findings'' (JArr []) = JArr []"
    and "\<forall>c \<in> set cs. is_obj c \<and> jget_default (obj_items c) ''evidence_ids'' (JArr []) = JArr []"
    and "distinct (source_ids ev)"
    and "rs = root_nodes a plan pd ev ed v vd parts prov"
  shows "\<exists>st. populate_graph a plan pd ev ed v vd parts empty_graph_state = Inr ((), st)
     \<and> gs_nodes st = declared_nodes rs ev cs \<and> gs_edges st = declared_edges rs ev cs
     \<and> dict_keys (gs_sources st) = source_ids ev"
proof -
  define i where "i = map gn_id rs"
  have ids: "is_node_id (i ! 0)" "is_node_id (i ! 6)" "is_node_id (i ! 7)"
    by (simp_all add: i_def assms(11) root_nodes_def)
  have src: "distinct (dict_keys (gs_sources (grown empty_graph_state rs (root_edges i) []))
      @ concat (map item_source (evidence_items ev)))"
    using assms(10) by (simp add: source_ids_def dict_keys_def empty_graph_state_def)
  note r = roots_ok [OF assms(1-6,11) i_def, where st = empty_graph_state]
  have "populate_graph a plan pd ev ed v vd parts empty_graph_state = Inr ((), grown empty_graph_state
      (declared_nodes rs ev cs) (declared_edges rs ev cs)
      (concat (map (\<lambda>it. map (\<lambda>s. (s, gn_id (item_node it))) (item_source it)) (evidence_items ev))))"
    by (simp add: populate_graph_def bbind_def r items_ok [OF ids(2) src] assms(7,8) blift_def
        checks_ok [OF ids(1,3) assms(9)] declared_nodes_def declared_edges_def i_def [symmetric])
  then show ?thesis
    by (simp add: empty_graph_state_def source_ids_def dict_keys_def map_concat comp_def)
qed

section \<open>Distinct identifiers\<close>

definition payload_of_node :: "graph_node \<Rightarrow> json" where
  "payload_of_node n = node_payload (gn_kind n) (gn_payload_digest n) (gn_attributes n)"

definition payload_of_edge :: "graph_edge \<Rightarrow> json" where
  "payload_of_edge e = edge_payload (ge_source e) (ge_target e) (ge_relation e) (ge_attributes e)"

text \<open>What distinguishes two nodes, and two edges, of the declarative graph.\<close>

definition node_key :: "graph_node \<Rightarrow> string \<times> json option \<times> json option \<times> json option" where
  "node_key n = (let f = (\<lambda>k. map_option canon (map_of (gn_attributes n) k))
     in (gn_kind n, f ''channel'', f ''index'', f ''check_id''))"

definition edge_key :: "graph_edge \<Rightarrow> string \<times> string \<times> string" where
  "edge_key e = (ge_relation e, ge_source e, ge_target e)"

lemma distinct_by_key:
  assumes "distinct (map key xs)" "\<And>x y. \<lbrakk>x \<in> set xs; y \<in> set xs; f x = f y\<rbrakk> \<Longrightarrow> key x = key y"
  shows "distinct (map f xs)"
  using assms unfolding distinct_map inj_on_def by blast

lemma node_key_dumps:
  assumes "plain (payload_of_node n)" "plain (payload_of_node n')"
    and "dumps (payload_of_node n) = dumps (payload_of_node n')"
  shows "node_key n = node_key n'"
proof -
  note c = dumps_canon [OF assms, unfolded payload_of_node_def node_payload_def]
  note p = assms(1,2) [unfolded payload_of_node_def node_payload_def]
  have k: "gn_kind n = gn_kind n'" using canon_agree [OF p c, of "''kind''"] by simp
  have ats: "canon (JObj (gn_attributes n)) = canon (JObj (gn_attributes n'))"
    using canon_agree [OF p c, of "''attributes''"] by simp
  have "plain (JObj (gn_attributes n))" "plain (JObj (gn_attributes n'))" using p by simp_all
  from canon_agree [OF this ats] k show ?thesis by (simp add: node_key_def)
qed

lemma edge_key_dumps:
  assumes "plain (payload_of_edge e)" "plain (payload_of_edge e')"
    and "dumps (payload_of_edge e) = dumps (payload_of_edge e')"
  shows "edge_key e = edge_key e'"
proof -
  note c = dumps_canon [OF assms, unfolded payload_of_edge_def edge_payload_def]
  note p = assms(1,2) [unfolded payload_of_edge_def edge_payload_def]
  show ?thesis
    using canon_agree [OF p c, of "''source''"] canon_agree [OF p c, of "''target''"]
      canon_agree [OF p c, of "''relation''"] by (simp add: edge_key_def)
qed

lemma distinct_concat_map:
  "\<lbrakk>distinct cs; \<And>c. c \<in> set cs \<Longrightarrow> distinct (f c) \<and> fst ` set (f c) \<subseteq> {c}\<rbrakk> \<Longrightarrow> distinct (concat (map f cs))"
proof (induction cs)
  case (Cons c cs)
  have "set (f c) \<inter> set (concat (map f cs)) = {}"
  proof (rule ccontr)
    assume "set (f c) \<inter> set (concat (map f cs)) \<noteq> {}"
    then obtain x d where x: "x \<in> set (f c)" "x \<in> set (f d)" "d \<in> set cs" by auto
    then have "fst x = c" "fst x = d" using Cons.prems(2) [of c] Cons.prems(2) [of d] by auto
    with x(3) Cons.prems(1) show False by auto
  qed
  with Cons show ?case by simp
qed simp

lemma concat_keys: "(\<And>c. fst ` set (f c) \<subseteq> {c}) \<Longrightarrow> fst ` set (concat (map f cs)) \<subseteq> set cs"
  by (induction cs) (simp_all add: image_Un subset_insertI2 subset_trans [OF _ insert_mono [OF empty_subsetI]])

lemma disjoint_keys: "\<lbrakk>fst ` A \<subseteq> S; fst ` B \<subseteq> T; S \<inter> T = {}\<rbrakk> \<Longrightarrow> A \<inter> B = {}"
  by blast

definition item_key :: "evidence_item \<Rightarrow> string \<times> nat option" where
  "item_key it = (fst it, fst (snd it))"

lemma list_item_keys: "distinct (map item_key (list_items ev c)) \<and> fst ` set (map item_key (list_items ev c)) \<subseteq> {c}"
proof (cases "jget_default ev c (JArr [])")
  case (JArr xs)
  have "map item_key (list_items ev c) = map (\<lambda>i. (c, Some i)) [0..<length xs]"
    by (rule nth_equalityI) (simp_all add: list_items_def JArr item_key_def nth_enumerate_eq)
  then show ?thesis by (simp add: distinct_map inj_on_def image_subset_iff)
qed (simp_all add: list_items_def item_key_def)

lemma singular_items_one: "singular_items ev c = [] \<or> (\<exists>w. singular_items ev c = [(c, None, w)])"
proof (cases "map_of ev c = None \<and> c \<notin> set (captured_names ev)")
  case False
  then show ?thesis
    by (cases "c \<in> set (captured_names ev) \<or> jget_null ev c \<notin> {JNull, JStr [], JArr [], JObj []}")
       (simp_all add: singular_items_def Let_def)
qed (simp add: singular_items_def)

lemma singular_item_keys:
  "distinct (map item_key (singular_items ev c)) \<and> fst ` set (map item_key (singular_items ev c)) \<subseteq> {c}"
  using singular_items_one [of ev c] by (auto simp: item_key_def)

lemma distinct_items: "distinct (map item_key (evidence_items ev))"
proof -
  have d: "distinct list_channels" "distinct singular_channels" "set list_channels \<inter> set singular_channels = {}"
    by (simp_all add: list_channels_def singular_channels_def)
  let ?l = "concat (map (\<lambda>c. map item_key (list_items ev c)) list_channels)"
  let ?s = "concat (map (\<lambda>c. map item_key (singular_items ev c)) singular_channels)"
  have "distinct ?l" by (rule distinct_concat_map [OF d(1) list_item_keys])
  moreover have "distinct ?s" by (rule distinct_concat_map [OF d(2) singular_item_keys])
  moreover have "fst ` set ?l \<subseteq> set list_channels" "fst ` set ?s \<subseteq> set singular_channels"
    by (rule concat_keys, simp only: list_item_keys singular_item_keys)+
  then have "set ?l \<inter> set ?s = {}" using d(3) by (rule disjoint_keys)
  ultimately show ?thesis by (simp add: evidence_items_def map_concat comp_def)
qed

lemma item_node_key: "node_key (item_node it) =
    (''evidence_object'', Some (JStr (fst it)), map_option (\<lambda>i. JInt (int i)) (fst (snd it)), None)"
proof -
  obtain c i v where it: "it = (c, i, v)" by (cases it)
  show ?thesis
    by (cases i; cases "source_id_of v") (simp_all add: it node_key_def item_node_def item_attributes_def)
qed

lemma distinct_item_nodes: "distinct (map node_key (map item_node (evidence_items ev)))"
proof -
  have inj: "inj_on (\<lambda>(c, i). (''evidence_object'', Some (JStr c), map_option (\<lambda>i. JInt (int i)) i, None :: json option)) A" for A
    by (auto simp: inj_on_def dest!: option.inj_map_strong [rotated])
  have "map node_key (map item_node (evidence_items ev)) =
      map (\<lambda>(c, i). (''evidence_object'', Some (JStr c), map_option (\<lambda>i. JInt (int i)) i, None))
        (map item_key (evidence_items ev))"
    by (simp add: item_node_key item_key_def)
  then show ?thesis by (simp only: distinct_map [of "\<lambda>(c, i). _ c i"] distinct_items inj)
qed

lemma check_node_key: "node_key (check_node c) =
    (''verification_check'', None, None, Some (canon (jget_null (obj_items c) ''id'')))"
  by (simp add: node_key_def check_node_def check_attributes_def)

lemma root_node_keys: "map (fst \<circ> node_key) (root_nodes a plan pd ev ed v vd parts prov) =
    [''evaluator_authority'', ''harness_plan'', ''skill_provenance'', ''runtime'', ''agent'', ''model'',
     ''evidence_bundle'', ''harness_verdict'']"
  by (simp add: root_nodes_def node_key_def)

lemma distinct_declared_nodes:
  assumes "distinct (map (\<lambda>c. canon (jget_null (obj_items c) ''id'')) cs)"
  shows "distinct (map node_key (declared_nodes (root_nodes a plan pd ev ed v vd parts prov) ev cs))"
proof -
  let ?rs = "root_nodes a plan pd ev ed v vd parts prov"
  have "distinct (map fst (map node_key ?rs))" by (simp add: root_node_keys)
  then have r: "distinct (map node_key ?rs)" by (simp only: distinct_map [of fst])
  have c: "distinct (map node_key (map check_node cs))"
    using assms by (simp add: distinct_map comp_def check_node_key inj_on_def)
  have kr: "fst ` set (map node_key ?rs) \<subseteq> set (map (fst \<circ> node_key) ?rs)" by (simp add: image_image)
  have ki: "fst ` set (map node_key (map item_node (evidence_items ev))) \<subseteq> {''evidence_object''}"
    by (auto simp: item_node_key)
  have kc: "fst ` set (map node_key (map check_node cs)) \<subseteq> {''verification_check''}"
    by (auto simp: check_node_key)
  have "set (map node_key ?rs) \<inter> set (map node_key (map item_node (evidence_items ev))) = {}"
    by (rule disjoint_keys [OF kr ki]) (simp only: root_node_keys, simp)
  moreover have "set (map node_key ?rs) \<inter> set (map node_key (map check_node cs)) = {}"
    by (rule disjoint_keys [OF kr kc]) (simp only: root_node_keys, simp)
  moreover have "set (map node_key (map item_node (evidence_items ev))) \<inter> set (map node_key (map check_node cs)) = {}"
    by (rule disjoint_keys [OF ki kc]) simp
  ultimately show ?thesis
    using r c distinct_item_nodes [of ev]
    unfolding declared_nodes_def map_append distinct_append set_append by blast
qed

lemma distinct_declared_edges:
  assumes d: "distinct (map gn_id (declared_nodes rs ev cs))" and l: "length rs = 8"
  shows "distinct (map edge_key (declared_edges rs ev cs))"
proof -
  define i where "i = map gn_id rs"
  have nn: "distinct (i @ map (gn_id \<circ> item_node) (evidence_items ev) @ map (gn_id \<circ> check_node) cs)"
    using d by (simp add: declared_nodes_def i_def)
  then have di: "distinct i" and li: "length i = 8" using l by (simp_all add: i_def)
  have ne: "i ! x \<noteq> i ! y" if "x < 8" "y < 8" "x \<noteq> y" for x y
    using di li that by (simp add: nth_eq_iff_index_eq)
  have r: "distinct (map edge_key (root_edges i))" by (simp add: root_edges_def edge_key_def ne)
  have it: "distinct (map edge_key (map (item_edge (i ! 6)) (evidence_items ev)))"
    using nn by (auto simp: distinct_map comp_def inj_on_def edge_key_def item_edge_def)
  have ck: "map edge_key (concat (map (check_edges (i ! 0) (i ! 7)) cs)) =
      concat (map (\<lambda>x. [(''supports'', x, i ! 7), (''authorizes'', i ! 0, x)]) (map (gn_id \<circ> check_node) cs))"
    by (simp add: map_concat comp_def check_edges_def edge_key_def)
  have pairs: "distinct xs \<Longrightarrow> distinct (concat (map (\<lambda>x. [(''supports'', x, t), (''authorizes'', s, x)]) xs))"
    for xs :: "string list" and s t
    by (induction xs) auto
  have k: "distinct (map edge_key (concat (map (check_edges (i ! 0) (i ! 7)) cs)))"
    unfolding ck using nn by (intro pairs) simp
  have "set i \<inter> set (map (gn_id \<circ> check_node) cs) = {}" using nn by auto
  moreover have "i ! 1 \<in> set i" using li by simp
  ultimately have fresh: "i ! 1 \<notin> set (map (gn_id \<circ> check_node) cs)" by blast
  have r_rel: "\<forall>e \<in> set (map edge_key (root_edges i)). fst e \<noteq> ''contained_in'' \<and> fst e \<noteq> ''supports''
      \<and> (fst e = ''authorizes'' \<longrightarrow> snd (snd e) = i ! 1)" by (simp add: root_edges_def edge_key_def)
  have k_rel: "\<forall>e \<in> set (map edge_key (concat (map (check_edges (i ! 0) (i ! 7)) cs))).
      fst e = ''supports'' \<or> fst e = ''authorizes'' \<and> snd (snd e) \<in> set (map (gn_id \<circ> check_node) cs)"
    unfolding ck by auto
  have i_rel: "\<forall>e \<in> set (map edge_key (map (item_edge (i ! 6)) (evidence_items ev))). fst e = ''contained_in''"
    by (auto simp: edge_key_def item_edge_def)
  have "set (map edge_key (root_edges i)) \<inter> set (map edge_key (concat (map (check_edges (i ! 0) (i ! 7)) cs))) = {}"
    using r_rel k_rel fresh by fastforce
  moreover have "set (map edge_key (root_edges i)) \<inter> set (map edge_key (map (item_edge (i ! 6)) (evidence_items ev))) = {}"
    using r_rel i_rel by fastforce
  moreover have "set (map edge_key (map (item_edge (i ! 6)) (evidence_items ev)))
      \<inter> set (map edge_key (concat (map (check_edges (i ! 0) (i ! 7)) cs))) = {}"
    using i_rel k_rel by fastforce
  ultimately show ?thesis
    using r it k unfolding declared_edges_def Let_def i_def [symmetric] map_append distinct_append set_append
    by blast
qed

end
