(* ===== verification/FloatBounds.thy ===== *)
theory FloatBounds
  imports Floats
begin

text \<open>
  Bounds of rounded arithmetic: rounding to a double never crosses a small integer, so a rate stays
  in the unit interval and a score between 0 and 100.
\<close>

lemma round_half_even_le: "x \<le> of_int k \<Longrightarrow> round_half_even x \<le> k"
proof -
  assume le: "x \<le> of_int k"
  have fl: "\<lfloor>x\<rfloor> \<le> k" using le by (simp add: floor_le_iff)
  show ?thesis
  proof (cases "\<lfloor>x\<rfloor> = k")
    case True
    with le have "x - of_int \<lfloor>x\<rfloor> \<le> 0" by simp
    then have "x - of_int \<lfloor>x\<rfloor> < 1 / 2" by simp
    then show ?thesis using fl by (simp add: round_half_even_def Let_def)
  next
    case False
    with fl have "\<lfloor>x\<rfloor> + 1 \<le> k" by simp
    then show ?thesis using fl by (simp add: round_half_even_def Let_def)
  qed
qed

lemma round_half_even_nonneg: "0 \<le> x \<Longrightarrow> 0 \<le> round_half_even x"
  by (simp add: round_half_even_def Let_def)

lemma pow2_pos: "0 < pow2 e"
  by (simp add: pow2_def)

lemma double_exp_nonpos:
  assumes "0 < x" "x \<le> 100"
  shows "double_exp x \<le> 0"
proof -
  obtain n d where q: "quotient_of x = (n, d)" by (cases "quotient_of x")
  have d: "0 < d" using quotient_of_denom_pos [OF q] .
  have x: "x = of_int n / of_int d" using quotient_of_div [OF q] .
  have n: "0 < n"
    using assms(1) d x by (simp add: zero_less_divide_iff)
  have "of_int n \<le> (100 * of_int d :: rat)"
    using assms(2) d x by (simp add: divide_le_eq mult.commute)
  then have "n \<le> 100 * d" using of_int_le_iff [of n "100 * d"] by simp
  also have "100 * d < 100 * 2 ^ nat (bitlen d)" using bitlen_bounds [OF d] by simp
  also have "\<dots> \<le> 2 ^ nat (bitlen d + 7)"
    by (simp add: nat_add_distrib bitlen_nonneg power_add)
  finally have "n < 2 ^ nat (bitlen d + 7)" .
  moreover have "2 ^ nat (bitlen n - 1) \<le> n" using bitlen_bounds [OF n] by simp
  ultimately have "(2::int) ^ nat (bitlen n - 1) < 2 ^ nat (bitlen d + 7)" by linarith
  then have "nat (bitlen n - 1) < nat (bitlen d + 7)" by simp
  then have "bitlen n \<le> bitlen d + 7" by linarith
  then show ?thesis by (simp add: double_exp_def q Let_def)
qed

lemma double_of_bounds:
  assumes "0 \<le> x" "x \<le> of_int k" "k \<le> 100"
  shows "0 \<le> double_of x \<and> double_of x \<le> of_int k"
proof (cases "x = 0")
  case True
  then show ?thesis using assms by simp
next
  case False
  with assms have pos: "0 < x" by simp
  have "x \<le> 100" using assms(2,3) by (metis of_int_le_iff of_int_numeral order_trans)
  then have e: "double_exp x \<le> 0" using pos by (rule double_exp_nonpos [rotated])
  define N where "N = (2::int) ^ nat (- double_exp x)"
  have p: "pow2 (double_exp x) = 1 / of_int N"
    using e by (auto simp: pow2_def N_def)
  have N: "0 < N" by (simp add: N_def)
  have "x / pow2 (double_exp x) \<le> of_int (k * N)"
    using assms(2) N by (simp add: p)
  then have le: "round_half_even (x / pow2 (double_exp x)) \<le> k * N" by (rule round_half_even_le)
  have ge: "0 \<le> round_half_even (x / pow2 (double_exp x))"
    using pos pow2_pos [of "double_exp x"] by (intro round_half_even_nonneg) simp
  have val: "double_of x = of_int (round_half_even (x / pow2 (double_exp x))) / of_int N"
    using pos by (simp add: double_of_def Let_def p)
  have "of_int (round_half_even (x / pow2 (double_exp x))) \<le> (of_int k * of_int N :: rat)"
    using le by (metis of_int_le_iff of_int_mult)
  then show ?thesis unfolding val using ge N by (simp add: divide_le_eq)
qed

lemma fadd_bounds: "\<lbrakk>0 \<le> a; a \<le> of_int i; 0 \<le> b; b \<le> of_int j; i + j \<le> 100\<rbrakk> \<Longrightarrow>
    0 \<le> fadd a b \<and> fadd a b \<le> of_int (i + j)"
  unfolding fadd_def by (rule double_of_bounds) simp_all

lemma fmul_bounds: "\<lbrakk>0 \<le> b; b \<le> 1; 0 \<le> k; k \<le> 100\<rbrakk> \<Longrightarrow>
    0 \<le> fmul (of_int k) b \<and> fmul (of_int k) b \<le> of_int k"
  unfolding fmul_def by (rule double_of_bounds) (simp_all add: mult_left_le)

lemma fdiv_unit: "\<lbrakk>0 \<le> a; a \<le> b; 0 < b\<rbrakk> \<Longrightarrow> 0 \<le> fdiv a b \<and> fdiv a b \<le> 1"
  unfolding fdiv_def using double_of_bounds [of "a / b" 1] by simp

lemma py_round2_bounds: "\<lbrakk>0 \<le> x; x \<le> of_int k; k \<le> 100\<rbrakk> \<Longrightarrow> 0 \<le> py_round2 x \<and> py_round2 x \<le> of_int k"
proof -
  assume x: "0 \<le> x" "x \<le> of_int k" "k \<le> 100"
  have r: "0 \<le> round_half_even (x * 100)" "round_half_even (x * 100) \<le> k * 100"
    using x round_half_even_le [of "x * 100" "k * 100"] round_half_even_nonneg [of "x * 100"] by simp_all
  have "of_int (round_half_even (x * 100)) \<le> (of_int k * 100 :: rat)"
    using r(2) by (metis of_int_le_iff of_int_mult of_int_numeral)
  then show ?thesis unfolding py_round2_def using r(1) x(3) by (intro double_of_bounds) simp_all
qed

end
