(* ===== verification/BundleProperties.thy ===== *)
theory BundleProperties
  imports GraphProperties FloatBounds AdapterProperties
begin

text \<open>
  Properties of the run artifacts: when a bundle is rank eligible, that the derived artifacts of a
  consistent run are never rejected by their own validators, when a replay is exact, and how the
  builder treats the verdicts of the kernel.
\<close>

section \<open>Scores\<close>

lemma rate_bounds: "\<lbrakk>0 \<le> c; c \<le> n\<rbrakk> \<Longrightarrow> 0 \<le> rate_of c n \<and> rate_of c n \<le> 1"
  using fdiv_unit [of "of_int c" "of_int n"] by (auto simp: rate_of_def)

lemma rate_full [simp]: "rate_of n n = 1"
  by (simp add: rate_of_def)

lemma replay_points_bounds: "0 \<le> replay_points rc \<and> replay_points rc \<le> of_int 10"
  by (cases rc) simp_all

lemma score_bounds:
  assumes "0 \<le> c" "c \<le> 1" "0 \<le> r" "r \<le> 1"
  shows "0 \<le> score_of c r st rc g \<and> score_of c r st rc g \<le> 100"
proof -
  let ?p = "if st = ''pass'' then 20 else 0 :: rat"
  have a: "0 \<le> fmul 35 c \<and> fmul 35 c \<le> of_int 35" "0 \<le> fmul 35 r \<and> fmul 35 r \<le> of_int 35"
    using fmul_bounds [of _ 35] assms by simp_all
  have "0 \<le> ?p \<and> ?p \<le> of_int 20" by simp
  then have "0 \<le> fadd (fadd (fmul 35 c) (fmul 35 r)) ?p
      \<and> fadd (fadd (fmul 35 c) (fmul 35 r)) ?p \<le> of_int (35 + 35 + 20)"
    using a fadd_bounds [of "fmul 35 c" 35 "fmul 35 r" 35]
    by (intro fadd_bounds) (simp_all del: of_int_numeral)
  then have "0 \<le> fadd (fadd (fadd (fmul 35 c) (fmul 35 r)) ?p) (replay_points rc)
      \<and> fadd (fadd (fadd (fmul 35 c) (fmul 35 r)) ?p) (replay_points rc) \<le> of_int (35 + 35 + 20 + 10)"
    using replay_points_bounds [of rc] by (intro fadd_bounds) (simp_all del: of_int_numeral)
  then show ?thesis using py_round2_bounds [of _ 100] by (simp add: score_of_def Let_def)
qed

section \<open>Inversion of the builder\<close>

lemma validate_Inr [simp]:
  "validate_authority a = Inr a' \<Longrightarrow> a' = a" "validate_replay_manifest r = Inr r' \<Longrightarrow> r' = r"
  "validate_scorecard s = Inr s' \<Longrightarrow> s' = s" "validate_node n = Inr n' \<Longrightarrow> n' = n"
  "validate_edge e = Inr e' \<Longrightarrow> e' = e" "validate_span sp = Inr sp' \<Longrightarrow> sp' = sp"
  by (simp_all add: validate_authority_def validate_replay_manifest_def validate_scorecard_def
      validate_node_def validate_edge_def validate_span_def guards_Inr_iff)

lemma validate_graph_Inr: "validate_graph g = Inr g' \<Longrightarrow> g' = g"
  by (auto simp: validate_graph_def rbind_Inr_iff guards_Inr_iff)

lemma validate_trace_Inr: "validate_trace t = Inr t' \<Longrightarrow> t' = t"
  by (auto simp: validate_trace_def rbind_Inr_iff guards_Inr_iff)

lemma validate_bundle_Inr: "validate_bundle b = Inr b' \<Longrightarrow> b' = b"
  by (auto simp: validate_bundle_def rbind_Inr_iff guards_Inr_iff)

lemma content_digest_Inr: "validate_content_digest d f n = Inr s \<Longrightarrow>
    is_hex64 s \<and> map_of d f = Some (JStr s) \<and> canonical_digest (JObj (filter (\<lambda>kv. fst kv \<noteq> f) d)) = s"
  by (auto simp: validate_content_digest_def rbind_Inr_iff guards_Inr_iff require_str_def jget_null_def
      split: json.splits if_splits option.splits)

lemma build_scorecard_Inr:
  assumes "build_scorecard a plan pd ev ed v vd r = Inr s"
  obtains needed cs parts rid where
    "py_list (jget_default plan ''required_evidence'' (JArr [])) = Inr needed"
    "jget_default v ''checks'' (JArr []) = JArr cs"
    "run_parts_of plan = Inr parts" "require_str plan ''run_id'' ''plan'' = Inr rid"
    "s = make_scorecard a rid (map py_str needed) pd ev ed v vd cs (rm_class r) (confounders_of plan parts)"
    "validate_scorecard s = Inr s"
  using assms
  by (cases "jget_default v ''checks'' (JArr [])")
     (auto simp: build_scorecard_def rbind_Inr_iff dest: validate_Inr(3))

lemma build_artifacts_Inr:
  assumes "build_artifacts a plan ev v = Inr b"
  obtains pd vd rid g r t s where
    "validate_content_digest plan ''plan_digest'' ''plan'' = Inr pd"
    "validate_content_digest v ''verdict_digest'' ''verdict'' = Inr vd"
    "validate_continuity a plan pd ev (canonical_digest (JObj ev)) v = Inr rid"
    "build_graph a plan pd ev (canonical_digest (JObj ev)) v vd = Inr g"
    "build_replay a plan ev = Inr r"
    "build_trace a plan pd ev (canonical_digest (JObj ev)) v vd = Inr t"
    "build_scorecard a plan pd ev (canonical_digest (JObj ev)) v vd r = Inr s"
    "validate_bundle b = Inr b" "ab_graph b = g" "ab_replay b = r" "ab_trace b = t" "ab_scorecard b = s"
    "ab_authority b = a" "ab_run_id b = rid" "ab_plan_digest b = pd" "ab_verdict_digest b = vd"
    "ab_evidence_digest b = canonical_digest (JObj ev)"
proof -
  let ?ed = "canonical_digest (JObj ev)"
  from assms obtain pd vd rid g r t s b' where
    x: "validate_content_digest plan ''plan_digest'' ''plan'' = Inr pd"
    "validate_content_digest v ''verdict_digest'' ''verdict'' = Inr vd"
    "validate_continuity a plan pd ev ?ed v = Inr rid" "build_graph a plan pd ev ?ed v vd = Inr g"
    "build_replay a plan ev = Inr r" "build_trace a plan pd ev ?ed v vd = Inr t"
    "build_scorecard a plan pd ev ?ed v vd r = Inr s"
    and b': "b' = \<lparr>ab_run_id = rid, ab_authority = a, ab_graph = g, ab_replay = r, ab_trace = t,
                ab_scorecard = s, ab_plan_digest = pd, ab_evidence_digest = ?ed,
                ab_verdict_digest = vd, bundle_digest = []\<rparr>"
    and v: "validate_bundle (b'\<lparr>bundle_digest := canonical_digest (JObj (bundle_payload b'))\<rparr>) = Inr b"
    by (auto simp: build_artifacts_def rbind_Inr_iff Let_def)
  from validate_bundle_Inr [OF v] have "b = b'\<lparr>bundle_digest := canonical_digest (JObj (bundle_payload b'))\<rparr>" .
  then show thesis using x v by (intro that) (simp_all add: b')
qed

section \<open>Continuity\<close>

lemma continuity_Inr:
  assumes "validate_continuity a plan pd ev ed v = Inr rid"
  obtains cs where "jget_null v ''checks'' = JArr cs"
    "list_all (\<lambda>g. \<not> fst g) (verdict_consistency v cs)"
    "require_str plan ''run_id'' ''plan'' = Inr rid"
    "jget_null v ''plan_digest'' = JStr pd" "jget_null v ''evidence_digest'' = JStr ed"
  using assms
  by (cases "jget_null v ''checks''")
     (auto simp: validate_continuity_def rbind_Inr_iff guards_Inr_iff verdict_continuity_def)

lemma consistency_facts:
  assumes "list_all (\<lambda>g. \<not> fst g) (verdict_consistency v cs)"
  shows "jget_null v ''failed_check_ids'' = strs (failed_checks cs)"
    and "jget_null v ''status'' = JStr (if failed_checks cs \<noteq> [] then ''fail'' else ''pass'')"
    and "jget_null v ''security_gate'' \<in> {JStr ''pass'', JStr ''fail''}"
    and "jget_null v ''security_gate'' = JStr ''fail'' \<Longrightarrow> failed_checks cs \<noteq> []"
    and "severe_findings (jget_default v ''security_findings'' (JArr [])) \<noteq> [] \<Longrightarrow>
      jget_null v ''security_gate'' = JStr ''fail''"
  using assms by (auto simp: verdict_consistency_def Let_def)

lemma null_default: "jget_null v k = JArr cs \<Longrightarrow> jget_default v k d = JArr cs"
  by (auto simp: jget_null_def jget_default_def split: option.splits)

lemma failed_none_iff: "\<forall>c \<in> set cs. is_obj c \<Longrightarrow> failed_checks cs = [] \<longleftrightarrow> list_all check_passed cs"
proof (induction cs)
  case (Cons c cs)
  then show ?case by (cases c) (auto simp: failed_checks_def check_passed_def)
qed (simp add: failed_checks_def)

text \<open>A consistent verdict has no failure entry exactly when nothing is missing and nothing failed.\<close>

lemma gate_strings:
  assumes "jget_null v ''status'' = JStr (if f then ''fail'' else ''pass'')"
    and "jget_null v ''security_gate'' \<in> {JStr ''pass'', JStr ''fail''}"
  shows "py_str (jget_null v ''status'') = ''pass'' \<longleftrightarrow> jget_null v ''status'' = JStr ''pass''"
    and "py_str (jget_null v ''security_gate'') = ''pass'' \<longleftrightarrow> jget_null v ''security_gate'' = JStr ''pass''"
    and "py_str (jget_null v ''security_gate'') = ''fail'' \<longleftrightarrow> jget_null v ''security_gate'' = JStr ''fail''"
  using assms by auto

lemma failure_list_empty:
  assumes "jget_null v ''status'' = JStr (if f then ''fail'' else ''pass'')"
    and "jget_null v ''security_gate'' \<in> {JStr ''pass'', JStr ''fail''}"
  shows "failure_list needed ev v = [] \<longleftrightarrow> set needed \<subseteq> set (captured_names ev)
      \<and> jget_null v ''security_gate'' \<noteq> JStr ''fail'' \<and> jget_null v ''status'' = JStr ''pass''
      \<and> severe_findings (jget_default v ''security_findings'' (JArr [])) = []"
  by (simp add: failure_list_def gate_strings [OF assms] filter_empty_conv subset_code(1))

definition required_names :: "json dict \<Rightarrow> string list" where
  "required_names plan = (case py_list (jget_default plan ''required_evidence'' (JArr [])) of
     Inl _ \<Rightarrow> [] | Inr xs \<Rightarrow> map py_str xs)"

lemma rank_eligible_facts:
  assumes "validate_continuity a plan pd ev ed v = Inr rid"
    and "build_scorecard a plan pd ev ed v vd r = Inr s"
    and "jget_null v ''checks'' = JArr cs" and "list_all is_obj cs"
  shows "(rank_eligible s \<longleftrightarrow> jget_null v ''status'' = JStr ''pass''
       \<and> set (required_names plan) \<subseteq> set (captured_names ev))
    \<and> (rank_eligible s \<longrightarrow> list_all check_passed cs \<and> jget_null v ''security_gate'' = JStr ''pass''
         \<and> severe_findings (jget_default v ''security_findings'' (JArr [])) = [])
    \<and> (tier s = Rankable \<longleftrightarrow> rank_eligible s)
    \<and> 0 \<le> diagnostic_score s \<and> diagnostic_score s \<le> 100
    \<and> (jget_null v ''security_gate'' = JStr ''fail'' \<longrightarrow> diagnostic_score s = 0)"
proof -
  from assms(1,3) have ok: "list_all (\<lambda>g. \<not> fst g) (verdict_consistency v cs)"
    by (elim continuity_Inr) simp
  note k = consistency_facts [OF ok]
  from assms(2) obtain needed cs' parts rid' where
    n: "py_list (jget_default plan ''required_evidence'' (JArr [])) = Inr needed"
    and cs': "jget_default v ''checks'' (JArr []) = JArr cs'"
    and mk: "s = make_scorecard a rid' (map py_str needed) pd ev ed v vd cs'
      (rm_class r) (confounders_of plan parts)" and sv: "validate_scorecard s = Inr s"
    by (rule build_scorecard_Inr)
  have cc: "cs' = cs" using assms(3) cs' null_default by fastforce
  have req: "required_names plan = map py_str needed" by (simp add: required_names_def n)
  note st = gate_strings [OF k(2,3)]
  note fail = failure_list_empty [OF k(2,3), of "map py_str needed" ev, folded req]
  have el: "rank_eligible s = eligible (py_str (jget_null v ''status'')) (py_str (jget_null v ''security_gate''))
     (rate_of (int (length (filter (\<lambda>k. k \<in> set (captured_names ev)) (required_names plan)))) (int (length (required_names plan))))
     (rate_of (int (length (filter check_passed cs))) (int (length cs))) (failure_list (required_names plan) ev v)"
    "tier s = tier_of (rank_eligible s) (failure_list (required_names plan) ev v)"
    "jget_null v ''security_gate'' = JStr ''fail'' \<Longrightarrow> diagnostic_score s = 0"
    by (simp_all add: mk cc req make_scorecard_def Let_def score_of_def)
  have pass: "jget_null v ''status'' = JStr ''pass'' \<Longrightarrow> list_all check_passed cs
      \<and> jget_null v ''security_gate'' = JStr ''pass''"
    using k(2-4) failed_none_iff assms(4) by (auto simp: list_all_iff split: if_splits)
  have one: "jget_null v ''status'' = JStr ''pass'' \<and> set (required_names plan) \<subseteq> set (captured_names ev)"
    if "rank_eligible s" using that fail unfolding el(1) eligible_def by blast
  have two: "rank_eligible s"
    if r: "jget_null v ''status'' = JStr ''pass''" "set (required_names plan) \<subseteq> set (captured_names ev)"
  proof -
    have "filter (\<lambda>k. k \<in> set (captured_names ev)) (required_names plan) = required_names plan"
      "filter check_passed cs = cs"
      using r(2) pass [OF r(1)] by (auto intro!: filter_True simp: list_all_iff)
    moreover have "failure_list (required_names plan) ev v = []"
      using fail r pass [OF r(1)] k(5) by auto
    ultimately show ?thesis unfolding el(1) eligible_def using r(1) pass [OF r(1)] st by simp
  qed
  have bounds: "0 \<le> diagnostic_score s \<and> diagnostic_score s \<le> 100"
    using sv by (simp add: validate_scorecard_def guards_Inr_iff scorecard_field_guards_def)
  have sev: "severe_findings (jget_default v ''security_findings'' (JArr [])) = []" if "rank_eligible s"
    using pass one [OF that] k(5) by auto
  show ?thesis using one two pass sev bounds el(3) by (auto simp: el(2) tier_of_def)
qed

section \<open>The derived artifacts pass their validators\<close>

lemma make_scorecard_valid:
  assumes "rid \<noteq> []" "is_hex64 (authority_digest a)" "is_hex64 pd" "is_hex64 ed" "is_hex64 vd"
    and "py_str (jget_null v ''status'') \<in> {''pass'', ''fail''}"
    and "py_str (jget_null v ''security_gate'') \<in> {''pass'', ''fail''}"
  shows "validate_scorecard (make_scorecard a rid needed pd ev ed v vd cs rc conf)
     = Inr (make_scorecard a rid needed pd ev ed v vd cs rc conf)"
proof -
  let ?c = "rate_of (int (length (filter (\<lambda>k. k \<in> set (captured_names ev)) needed))) (int (length needed))"
  let ?r = "rate_of (int (length (filter check_passed cs))) (int (length cs))"
  have c: "0 \<le> ?c \<and> ?c \<le> 1" and r: "0 \<le> ?r \<and> ?r \<le> 1"
    by (rule rate_bounds; simp)+
  have sc: "0 \<le> score_of ?c ?r st rc g \<and> score_of ?c ?r st rc g \<le> 100" for st g
    using score_bounds c r by blast
  have f: "failure_list needed ev v = sorted_set (failure_list needed ev v)"
    by (simp add: failure_list_def)
  show ?thesis
    using assms c r sc f
    by (simp add: validate_scorecard_def guards_Inr_iff scorecard_field_guards_def scorecard_guards_def
        make_scorecard_def Let_def not_less scorecard_payload_def)
qed

lemma build_scorecard_ok:
  assumes "py_list (jget_default plan ''required_evidence'' (JArr [])) = Inr needed"
    and "jget_default v ''checks'' (JArr []) = JArr cs" "run_parts_of plan = Inr parts"
    and "require_str plan ''run_id'' ''plan'' = Inr rid"
    and "is_hex64 (authority_digest a)" "is_hex64 pd" "is_hex64 ed" "is_hex64 vd"
    and "py_str (jget_null v ''status'') \<in> {''pass'', ''fail''}"
    and "py_str (jget_null v ''security_gate'') \<in> {''pass'', ''fail''}"
  shows "build_scorecard a plan pd ev ed v vd r
     = Inr (make_scorecard a rid (map py_str needed) pd ev ed v vd cs (rm_class r) (confounders_of plan parts))"
proof -
  have "rid \<noteq> []" using assms(4) by (auto simp: require_str_def split: json.splits if_splits)
  from make_scorecard_valid [OF this assms(5-10)] show ?thesis by (simp add: build_scorecard_def assms(1-4))
qed

lemma find_snapshot_hex: "find_snapshot st = Some d \<Longrightarrow> is_hex64 d"
proof (induction st rule: find_snapshot.induct)
  case (2 kvs st)
  show ?case
  proof (cases "List.find (\<lambda>kv. snapshot_hit kv \<noteq> None) kvs")
    case None
    then show ?thesis using 2 by simp
  next
    case (Some kv)
    then have "snapshot_hit kv = Some d" using 2(2) by simp
    then show ?thesis by (auto simp: snapshot_hit_def split: prod.splits json.splits if_splits)
  qed
qed simp_all

text \<open>The replay manifest built for given inputs.\<close>

definition make_replay ::
  "evaluator_authority \<Rightarrow> string \<Rightarrow> string \<Rightarrow> string \<Rightarrow> string \<Rightarrow> json \<Rightarrow> string option \<Rightarrow> string \<Rightarrow> string \<Rightarrow> string
    \<Rightarrow> bool \<Rightarrow> string option \<Rightarrow> replay_manifest" where
  "make_replay a rid pd prov pol cmd stdin be version img capable snap =
     (let r = \<lparr>rm_run_id = rid, rm_plan_digest = pd, rm_authority_digest = authority_digest a,
                rm_provenance_digest = prov, rm_policy_digest = pol,
                rm_command_digest = canonical_digest cmd,
                rm_stdin_digest = stdin, rm_backend = be, rm_version = version, rm_image_digest = img,
                snapshot_capable = capable, rm_snapshot_digest = snap,
                rm_class = replay_class_of capable snap img version,
                reasons = sorted_set (replay_reasons_of capable snap img version), replay_digest = []\<rparr>
      in r\<lparr>replay_digest := canonical_digest (JObj (replay_payload r))\<rparr>)"

lemma make_replay_valid:
  assumes "rid \<noteq> []" "is_hex64 pd" "is_hex64 (authority_digest a)" "is_hex64 prov" "is_hex64 pol"
    and "opt_hex64 stdin" "be \<noteq> []" "version \<noteq> []" "img \<noteq> []" "opt_hex64 snap"
  shows "validate_replay_manifest (make_replay a rid pd prov pol cmd stdin be version img capable snap)
     = Inr (make_replay a rid pd prov pol cmd stdin be version img capable snap)"
  using assms
  by (simp add: validate_replay_manifest_def guards_Inr_iff make_replay_def Let_def replay_payload_def
      replay_class_of_def)

lemma build_replay_eq:
  assumes "jget_null plan ''run_spec'' = JObj spec" "jget_null spec ''runtime'' = JObj rt"
    and "jget_default plan ''runtime_capabilities'' (JObj []) = JObj caps"
    and "jget_default ev ''runtime_metadata'' (JObj []) = JObj md"
    and "require_str rt ''image_digest'' ''plan.run_spec.runtime'' = Inr img"
    and "require_str rt ''version'' ''plan.run_spec.runtime'' = Inr version"
    and "require_str plan ''run_id'' ''plan'' = Inr rid" "require_str plan ''plan_digest'' ''plan'' = Inr pd"
    and "require_str plan ''provenance_digest'' ''plan'' = Inr prov"
    and "require_str plan ''policy_digest'' ''plan'' = Inr pol"
    and "require_str plan ''runtime_backend'' ''plan'' = Inr be"
    and "opt_string (jget_null plan ''stdin_digest'') ''stdin_digest'' = Inr stdin"
  shows "build_replay a plan ev = validate_replay_manifest (make_replay a rid pd prov pol
     (jget_default plan ''command'' (JArr [])) stdin be version img
     (is_true (jget_null caps ''snapshot_restore'')) (find_snapshot [JObj md]))"
  by (simp add: build_replay_def assms make_replay_def Let_def)

text \<open>The trace: five spans in a chain.\<close>

definition payload_of_span :: "trace_span \<Rightarrow> json" where
  "payload_of_span s = span_payload (parent_span_id s) (span_name s) (span_status s) (span_attributes s)"

lemma mk_span_simps [simp]: "span_name (mk_span p n st ats) = n" "parent_span_id (mk_span p n st ats) = p"
  "span_attributes (mk_span p n st ats) = ats" "span_status (mk_span p n st ats) = st"
  "is_hex 16 (span_id (mk_span p n st ats))"
  by (simp_all add: mk_span_def is_hex_take [of 64])

lemma mk_span_valid: "\<lbrakk>n \<noteq> []; case p of None \<Rightarrow> True | Some q \<Rightarrow> is_hex 16 q\<rbrakk> \<Longrightarrow>
    validate_span (mk_span p n st ats) = Inr (mk_span p n st ats)"
  by (cases p) (simp_all add: validate_span_def guards_Inr_iff, simp_all add: mk_span_def)

lemma trace_spans_valid:
  "traverse validate_span (trace_spans a plan pd ev ed v vd) = Inr (trace_spans a plan pd ev ed v vd)"
  by (simp add: trace_spans_def Let_def mk_span_valid)

definition make_trace :: "string \<Rightarrow> string \<Rightarrow> trace_span list \<Rightarrow> logical_trace" where
  "make_trace rid pd ss = (let t = \<lparr>lt_run_id = rid, lt_plan_digest = pd, trace_id = trace_id_of pd,
        semantic_targets = sorted_set convention_targets, spans = ss, trace_digest = []\<rparr>
     in t\<lparr>trace_digest := canonical_digest (JObj (trace_payload t))\<rparr>)"

lemma span_ids: "map span_id (trace_spans a plan pd ev ed v vd)
    = map (\<lambda>x. take 16 (canonical_digest x)) (map payload_of_span (trace_spans a plan pd ev ed v vd))"
  by (simp add: trace_spans_def Let_def payload_of_span_def) (simp add: mk_span_def)

lemma build_trace_ok:
  assumes "require_str plan ''run_id'' ''plan'' = Inr rid" "is_hex64 pd"
    and "distinct (map span_id (trace_spans a plan pd ev ed v vd))"
  shows "build_trace a plan pd ev ed v vd = Inr (make_trace rid pd (trace_spans a plan pd ev ed v vd))"
proof -
  have rid: "rid \<noteq> []" using assms(1) by (auto simp: require_str_def split: json.splits if_splits)
  have tid: "is_hex 32 (trace_id_of pd)" by (simp add: trace_id_of_def is_hex_take [of 64])
  have par: "\<not> unknown_parent (make_trace rid pd (trace_spans a plan pd ev ed v vd))"
    by (simp add: unknown_parent_def make_trace_def Let_def trace_spans_def)
  have "validate_trace (make_trace rid pd (trace_spans a plan pd ev ed v vd))
      = Inr (make_trace rid pd (trace_spans a plan pd ev ed v vd))"
    using rid tid par assms(2,3)
    by (simp add: validate_trace_def guards_Inr_iff trace_spans_valid make_trace_def Let_def trace_payload_def)
  then show ?thesis by (simp add: build_trace_def assms(1) trace_spans_valid make_trace_def Let_def)
qed

end
