(* ===== verification/KernelBundle.thy ===== *)
theory KernelBundle
  imports GraphEquivalence BundleProperties
begin

text \<open>
  From a run of the kernel to its artifact bundle: which verdicts the builder accepts, and the
  end-to-end statement that a passing run is bundled.
\<close>

section \<open>The JSON of the kernel's plan, evidence and verdict\<close>

abbreviation plan_dict :: "harness_plan \<Rightarrow> json dict" where
  "plan_dict p \<equiv> obj_items (plan_json p)"

abbreviation evidence_dict :: "evidence_bundle \<Rightarrow> json dict" where
  "evidence_dict e \<equiv> obj_items (evidence_json e)"

abbreviation verdict_dict :: "harness_verdict \<Rightarrow> json dict" where
  "verdict_dict v \<equiv> obj_items (verdict_json v)"

lemma plan_fields [simp]:
  "jget_null (plan_dict p) ''run_id'' = JStr (hp_run_id p)"
  "jget_null (plan_dict p) ''manifest_digest'' = JStr (hp_manifest_digest p)"
  "jget_null (plan_dict p) ''provenance_digest'' = JStr (hp_provenance_digest p)"
  "jget_null (plan_dict p) ''plan_digest'' = JStr (hp_plan_digest p)"
  "jget_null (plan_dict p) ''policy_digest'' = JStr (policy_digest p)"
  "jget_null (plan_dict p) ''runtime_backend'' = JStr (backend_value (hp_runtime_backend p))"
  "jget_null (plan_dict p) ''stdin_digest'' = opt_str (hp_stdin_digest p)"
  "jget_null (plan_dict p) ''run_spec'' = run_spec_json (hp_run_spec p)"
  "jget_null (plan_dict p) ''manifest_id'' = JStr (manifest_id p)"
  "jget_null (plan_dict p) ''manifest_version'' = JStr (manifest_version p)"
  "jget_null (plan_dict p) ''domain'' = JStr (domain_value (hp_domain p))"
  "jget_null (plan_dict p) ''adapter'' = JStr (hp_adapter p)"
  "jget_default (plan_dict p) ''runtime_capabilities'' d = bools (runtime_capabilities p)"
  "jget_default (plan_dict p) ''required_evidence'' d = strs (map kind_value (required_evidence p))"
  by (simp_all add: plan_json_def plan_payload_def jget_null_def jget_default_def)

lemma verdict_fields [simp]:
  "jget_null (verdict_dict v) ''run_id'' = JStr (hv_run_id v)"
  "jget_null (verdict_dict v) ''manifest_digest'' = JStr (hv_manifest_digest v)"
  "jget_null (verdict_dict v) ''provenance_digest'' = JStr (hv_provenance_digest v)"
  "jget_null (verdict_dict v) ''plan_digest'' = JStr (hv_plan_digest v)"
  "jget_null (verdict_dict v) ''evidence_digest'' = JStr (hv_evidence_digest v)"
  "jget_null (verdict_dict v) ''verdict_digest'' = JStr (verdict_digest v)"
  "jget_null (verdict_dict v) ''runtime_backend'' = JStr (backend_value (hv_runtime_backend v))"
  "jget_null (verdict_dict v) ''status'' = JStr (status_value (hv_status v))"
  "jget_null (verdict_dict v) ''security_gate'' = JStr (hv_security_gate v)"
  "jget_null (verdict_dict v) ''checks'' = JArr (map result_json (hv_checks v))"
  "jget_default (verdict_dict v) ''checks'' d = JArr (map result_json (hv_checks v))"
  "jget_null (verdict_dict v) ''failed_check_ids'' = strs (failed_check_ids v)"
  "jget_default (verdict_dict v) ''failed_check_ids'' d = strs (failed_check_ids v)"
  "jget_default (verdict_dict v) ''security_findings'' d = objs (security_findings v)"
  by (simp_all add: verdict_json_def verdict_payload_def jget_null_def jget_default_def)

lemma evidence_fields [simp]:
  "jget_null (evidence_dict e) ''run_id'' = JStr (ev_run_id e)"
  "jget_null (evidence_dict e) ''provenance_digest'' = opt_str (ev_provenance_digest e)"
  "jget_null (evidence_dict e) ''exit_code'' = opt_int (exit_code e)"
  "jget_default (evidence_dict e) ''runtime_metadata'' d = JObj (runtime_metadata e)"
  "JObj (evidence_dict e) = evidence_json e"
  by (simp_all add: evidence_json_def jget_null_def jget_default_def)

lemma spec_fields [simp]:
  "jget_null (obj_items (run_spec_json s)) ''skill'' = skill_json (skill s)"
  "jget_null (obj_items (run_spec_json s)) ''agent'' = agent_json (agent s)"
  "jget_null (obj_items (run_spec_json s)) ''model'' = model_json (model s)"
  "jget_null (obj_items (run_spec_json s)) ''runtime'' = runtime_json (runtime s)"
  "jget_null (obj_items (skill_json k)) ''commit_or_digest'' = JStr (commit_or_digest k)"
  "jget_null (obj_items (runtime_json r)) ''backend'' = JStr (backend_value (backend r))"
  "jget_null (obj_items (runtime_json r)) ''version'' = JStr (runtime_version r)"
  "jget_null (obj_items (runtime_json r)) ''image_digest'' = JStr (image_digest r)"
  by (simp_all add: run_spec_json_def skill_json_def runtime_json_def jget_null_def)

lemma mapping_fields [simp]:
  "json_mapping (run_spec_json s) n = Inr (obj_items (run_spec_json s))"
  "json_mapping (skill_json k) n = Inr (obj_items (skill_json k))"
  "json_mapping (agent_json ag) n = Inr (obj_items (agent_json ag))"
  "json_mapping (model_json md) n = Inr (obj_items (model_json md))"
  "json_mapping (runtime_json r) n = Inr (obj_items (runtime_json r))"
  by (simp_all add: run_spec_json_def skill_json_def agent_json_def model_json_def runtime_json_def)

lemma require_str_JStr: "\<lbrakk>jget_null d k = JStr s; s \<noteq> []\<rbrakk> \<Longrightarrow> require_str d k n = Inr s"
  by (simp add: require_str_def)

lemma backend_value_nonempty [simp]: "backend_value b \<noteq> []"
  by (cases b) simp_all

lemma captured_names_evidence [simp]: "captured_names (evidence_dict e) = captured_evidence e"
  unfolding captured_names_def captured_evidence_def evidence_fields json.case
  by (auto split: json.splits elim: py_set.elims)

lemma failed_checks_results [simp]: "failed_checks (map result_json cs) = failed_ids cs"
proof -
  have "failed_checks [result_json c] = (if vr_passed c then [] else [vr_id c])" for c
    by (simp add: failed_checks_def result_json_def jget_null_def is_true_def)
  then show ?thesis
    by (induction cs) (simp_all add: failed_checks_def)
qed

section \<open>Findings\<close>

lemma plan_content:
  "validate_plan p = Inr p \<Longrightarrow>
     validate_content_digest (plan_dict p) ''plan_digest'' ''plan'' = Inr (hp_plan_digest p)"
  using is_hex64_nonempty [of "hp_plan_digest p"]
  by (simp add: validate_content_digest_def require_str_def guards_Inr_iff validate_plan_Inr)
     (simp add: plan_json_def plan_payload_def)

lemma verdict_content:
  assumes "validate_verdict v = Inr v"
  shows "validate_content_digest (verdict_dict v) ''verdict_digest'' ''verdict'' = Inr (verdict_digest v)"
proof -
  have "filter (\<lambda>kv. fst kv \<noteq> ''verdict_digest'') (verdict_dict v) = verdict_payload v"
    by (simp add: verdict_json_def verdict_payload_def)
  moreover have "is_hex64 (verdict_digest v)" "canonical_digest (JObj (verdict_payload v)) = verdict_digest v"
    using assms by (simp_all add: validate_verdict_def guards_Inr_iff verdict_guards_def)
  ultimately show ?thesis
    using is_hex64_nonempty [of "verdict_digest v"]
    by (simp add: validate_content_digest_def require_str_def guards_Inr_iff)
qed

lemma build_graph_Inr:
  assumes "build_graph a plan pd ev ed v vd = Inr g"
  obtains parts st rid where "run_parts_of plan = Inr parts"
    "populate_graph a plan pd ev ed v vd parts empty_graph_state = Inr ((), st)"
    "require_str plan ''run_id'' ''plan'' = Inr rid" "validate_graph g = Inr g"
    "eg_nodes g = sort_key gn_id (gs_nodes st)" "eg_edges g = sort_key ge_id (gs_edges st)" "eg_run_id g = rid"
proof -
  from assms obtain parts st rid g' where x: "run_parts_of plan = Inr parts"
    "populate_graph a plan pd ev ed v vd parts empty_graph_state = Inr ((), st)"
    "require_str plan ''run_id'' ''plan'' = Inr rid"
    and g': "g' = \<lparr>eg_run_id = rid, eg_nodes = sort_key gn_id (gs_nodes st),
                eg_edges = sort_key ge_id (gs_edges st), graph_digest = []\<rparr>"
    and v: "validate_graph (g'\<lparr>graph_digest := canonical_digest (JObj (graph_payload g'))\<rparr>) = Inr g"
    by (auto simp: build_graph_def rbind_Inr_iff Let_def)
  from validate_graph_Inr [OF v] have "g = g'\<lparr>graph_digest := canonical_digest (JObj (graph_payload g'))\<rparr>" .
  then show thesis using x v by (intro that) (simp_all add: g')
qed

lemma result_refs [simp]: "check_refs (result_json c) = map JStr (vr_evidence_ids c)"
  by (simp add: check_refs_def result_json_def jget_default_def strs_def)

text \<open>The security check of a kernel verdict refers to every finding that carries an evidence id.\<close>

lemma gate_refers:
  assumes "verify_evidence reg m p e = Inr v" "f \<in> set (security_findings v)"
    and "jget_null f ''evidence_id'' = JStr i" "i \<noteq> []"
  shows "\<exists>c \<in> set (hv_checks v). i \<in> set (vr_evidence_ids c)"
proof -
  from assms(1) obtain ad s where v: "v = make_verdict p e (all_results m p e ad s) s"
    by (rule verify_evidence_Inr)
  have "security_findings v = sec_findings s" by (simp add: v make_verdict_def Let_def)
  then have "i \<in> set (vr_evidence_ids (security_check s))"
    using assms(2-4) by (auto simp: security_check_def Let_def image_iff intro!: bexI [of _ f])
  moreover have "security_check s \<in> set (hv_checks v)" by (simp add: v all_results_def)
  ultimately show ?thesis by blast
qed

text \<open>A verdict that a security finding of the kernel failed cannot be turned into a bundle, whatever
  the authority and the plan: the gate's check lists the finding's own evidence id, which no object
  of the evidence carries, and the builder rejects a check with an unknown reference. The document
  \<open>RUN_ARTIFACTS.md\<close> says that failed security runs retain an unresolved reference instead.\<close>

theorem kernel_findings_not_bundled:
  assumes "verify_evidence reg m p e = Inr v" and "f \<in> set (security_findings v)"
    and "jget_null f ''evidence_id'' = JStr i" and "i \<noteq> []" and "i \<notin> set (source_ids (evidence_dict e))"
  shows "\<nexists>b. build_artifacts a plan (evidence_dict e) (verdict_dict v) = Inr b"
proof
  assume "\<exists>b. build_artifacts a plan (evidence_dict e) (verdict_dict v) = Inr b"
  then obtain b where "build_artifacts a plan (evidence_dict e) (verdict_dict v) = Inr b" by (rule exE)
  then obtain pd ed vd g where "build_graph a plan pd (evidence_dict e) ed (verdict_dict v) vd = Inr g"
    by (rule build_artifacts_Inr)
  then obtain parts st where "populate_graph a plan pd (evidence_dict e) ed (verdict_dict v) vd parts
      empty_graph_state = Inr ((), st)" by (rule build_graph_Inr)
  note refs = references_resolve [OF this, unfolded verdict_fields py_list.simps, OF refl]
  from gate_refers [OF assms(1-4)] obtain c where c: "c \<in> set (hv_checks v)" "i \<in> set (vr_evidence_ids c)" ..
  from refs [of "result_json c" "JStr i"] c assms(5) show False by auto
qed

text \<open>Evidence without objects that carry an id of their own.\<close>

lemma source_ids_none:
  assumes "\<forall>c \<in> set list_channels. \<exists>xs. jget_default ev c (JArr []) = JArr xs \<and> list_all (\<lambda>x. source_id_of x = None) xs"
    and "\<forall>c \<in> set singular_channels. source_id_of (jget_null ev c) = None"
  shows "source_ids ev = []"
proof -
  have "item_source it = []" if "c \<in> set list_channels" "it \<in> set (list_items ev c)" for c it
  proof -
    from assms(1) that(1) obtain xs where xs: "jget_default ev c (JArr []) = JArr xs"
      "list_all (\<lambda>x. source_id_of x = None) xs" by blast
    from that(2) have "snd (snd it) \<in> set xs"
      by (auto simp: list_items_def xs(1) in_set_enumerate_eq)
    with xs(2) show ?thesis by (auto simp: list_all_iff item_source_def)
  qed
  moreover have "item_source it = []" if c: "c \<in> set singular_channels" and it: "it \<in> set (singular_items ev c)" for c it
  proof -
    have "source_id_of (stream_summary s) = None" for s
      by (simp add: source_id_of_def stream_summary_def jget_null_def)
    moreover have n: "source_id_of (jget_null ev c) = None" using assms(2) c by blast
    ultimately have "source_id_of (case jget_null ev c of JStr s \<Rightarrow> stream_summary s | _ \<Rightarrow> jget_null ev c) = None"
      by (cases "jget_null ev c") simp_all
    then show ?thesis using it n
      by (auto simp: singular_items_def Let_def item_source_def split: if_splits)
  qed
  ultimately show ?thesis by (auto simp: source_ids_def evidence_items_def)
qed

lemma sample_no_sources: "source_ids (evidence_dict (sample_bundle\<lparr>ev_stdout := out\<rparr>)) = []"
proof (rule source_ids_none)
  have m: "map_of (runtime_metadata sample_bundle) ''evidence_id'' = None"
    by (simp add: sample_bundle_def mark_metadata_other fake_bundle_def)
  show "\<forall>c \<in> set list_channels. \<exists>xs. jget_default (evidence_dict (sample_bundle\<lparr>ev_stdout := out\<rparr>)) c (JArr []) = JArr xs
      \<and> list_all (\<lambda>x. source_id_of x = None) xs"
    by (simp add: list_channels_def evidence_json_def jget_default_def objs_def)
       (simp add: sample_bundle_def fake_bundle_def empty_evidence_def mark_evidence_captured_def Let_def source_id_of_def
         command_record_def jget_null_def)
  show "\<forall>c \<in> set singular_channels. source_id_of (jget_null (evidence_dict (sample_bundle\<lparr>ev_stdout := out\<rparr>)) c) = None"
    by (simp add: singular_channels_def evidence_json_def jget_null_def source_id_of_def opt_int_def m bools_def)
       (simp add: sample_bundle_def fake_bundle_def empty_evidence_def mark_evidence_captured_def Let_def)
qed

theorem kernel_findings_not_bundled_witness:
  "\<exists>v. verify_evidence (sample_registry sample_env) sample_manifest sample_plan leaky_bundle = Inr v
     \<and> (\<forall>a. \<nexists>b. build_artifacts a (plan_dict sample_plan) (evidence_dict leaky_bundle) (verdict_dict v) = Inr b)"
proof -
  obtain v where v: "verify_evidence (sample_registry sample_env) sample_manifest sample_plan leaky_bundle = Inr v"
    and f: "security_findings v = combined_findings leaky_bundle []" using leaky_verdict by blast
  let ?f = "finding ''credential_exposure'' ''critical'' ''output_marker'' [(''marker'', JStr ''groq_api_key='')]"
  have "?f \<in> set (security_findings v)"
    using leaky_output by (simp add: f combined_findings_def secret_markers_def)
  moreover have "jget_null ?f ''evidence_id'' = JStr (evidence_id_of ''output_marker'' [(''marker'', JStr ''groq_api_key='')])"
    by (simp add: finding_def jget_null_def)
  moreover have "evidence_id_of k x \<noteq> []" for k x by (simp add: evidence_id_of_def)
  moreover have "source_ids (evidence_dict leaky_bundle) = []" using sample_no_sources by (simp add: leaky_bundle_def)
  ultimately have "\<forall>a. \<nexists>b. build_artifacts a (plan_dict sample_plan) (evidence_dict leaky_bundle) (verdict_dict v) = Inr b"
    using kernel_findings_not_bundled [OF v] by (metis empty_iff list.set(1))
  with v show ?thesis by blast
qed

section \<open>A passing run is bundled\<close>

definition kernel_parts :: "run_spec \<Rightarrow> run_parts" where
  "kernel_parts s = \<lparr>rp_skill = obj_items (skill_json (skill s)), rp_agent = obj_items (agent_json (agent s)),
     rp_model = obj_items (model_json (model s)), rp_runtime = obj_items (runtime_json (runtime s))\<rparr>"

lemma kernel_parts_of [simp]: "run_parts_of (plan_dict p) = Inr (kernel_parts (hp_run_spec p))"
proof -
  have "json_mapping (jget_null (plan_dict p) ''run_spec'') n = Inr (obj_items (run_spec_json (hp_run_spec p)))" for n
    by simp
  then show ?thesis by (simp add: run_parts_of_def kernel_parts_def)
qed

text \<open>What the authority and the run specification have to fulfil.\<close>

definition authority_covers :: "evaluator_authority \<Rightarrow> harness_plan \<Rightarrow> bool" where
  "authority_covers a p \<longleftrightarrow> validate_authority a = Inr a \<and> ea_manifest_digest a = hp_manifest_digest p
     \<and> hp_run_id p \<noteq> [] \<and> is_immutable_reference (commit_or_digest (skill (hp_run_spec p)))
     \<and> runtime_version (runtime (hp_run_spec p)) \<noteq> [] \<and> image_digest (runtime (hp_run_spec p)) \<noteq> []"

definition clean_pass :: "harness_verdict \<Rightarrow> bool" where
  "clean_pass v \<longleftrightarrow> hv_status v = VPass \<and> security_findings v = []
     \<and> (\<forall>c \<in> set (hv_checks v). vr_evidence_ids c = []) \<and> distinct (map vr_id (hv_checks v))"

lemma immutable_nonempty: "is_immutable_reference r \<Longrightarrow> r \<noteq> []"
  by (auto simp: is_immutable_reference_def Let_def strip_def strip_set_def lower_def)

lemma pass_facts:
  assumes "verify_evidence reg m p e = Inr v" "hv_status v = VPass"
  shows "ev_provenance_digest e = Some (hp_provenance_digest p)"
    and "jget_null (runtime_metadata e) ''runtime_backend'' = JStr (backend_value (hp_runtime_backend p))"
    and "hv_security_gate v = ''pass''" "failed_ids (hv_checks v) = []" "failed_check_ids v = []"
    and "hv_run_id v = hp_run_id p" "hv_manifest_digest v = hp_manifest_digest p"
    and "hv_provenance_digest v = hp_provenance_digest p" "hv_plan_digest v = hp_plan_digest p"
    and "hv_evidence_digest v = canonical_digest (evidence_json e)" "hv_runtime_backend v = hp_runtime_backend p"
    and "ev_run_id e = hp_run_id p" "validate_verdict v = Inr v"
proof -
  from assms(1) obtain ad s where v: "v = make_verdict p e (all_results m p e ad s) s"
    and r: "ev_run_id e = hp_run_id p" by (rule verify_evidence_Inr)
  have f: "failed_ids (hv_checks v) = []" using assms(2) by (simp add: v split: if_splits)
  then have ok: "list_all vr_passed (all_results m p e ad s)" by (simp add: v failed_ids_empty_iff)
  then show "ev_provenance_digest e = Some (hp_provenance_digest p)"
    "jget_null (runtime_metadata e) ''runtime_backend'' = JStr (backend_value (hp_runtime_backend p))"
    "hv_security_gate v = ''pass''"
    by (simp_all add: v all_results_def provenance_check_def runtime_check_def security_check_def Let_def)
  show "failed_ids (hv_checks v) = []" "failed_check_ids v = []" using f by (simp_all add: v)
  show "hv_run_id v = hp_run_id p" "hv_manifest_digest v = hp_manifest_digest p"
    "hv_provenance_digest v = hp_provenance_digest p" "hv_plan_digest v = hp_plan_digest p"
    "hv_evidence_digest v = canonical_digest (evidence_json e)" "hv_runtime_backend v = hp_runtime_backend p"
    by (simp_all add: v make_verdict_def Let_def)
  show "ev_run_id e = hp_run_id p" by (rule r)
  show "validate_verdict v = Inr v" using assms(1)
    by (auto simp: verify_evidence_def rbind_Inr_iff validate_verdict_def guards_Inr_iff)
qed

lemma pass_continuity:
  assumes "verify_evidence reg m p e = Inr v" "clean_pass v" "validate_plan p = Inr p" "authority_covers a p"
  shows "validate_continuity a (plan_dict p) (hp_plan_digest p) (evidence_dict e)
     (canonical_digest (evidence_json e)) (verdict_dict v) = Inr (hp_run_id p)"
proof -
  note f = pass_facts [OF assms(1)]
  have st: "hv_status v = VPass" "security_findings v = []" using assms(2) by (simp_all add: clean_pass_def)
  have pl: "hp_manifest_digest p \<noteq> []" "hp_provenance_digest p \<noteq> []"
    "backend (runtime (hp_run_spec p)) = hp_runtime_backend p"
    using assms(3) is_hex64_nonempty by (auto simp: validate_plan_Inr)
  have au: "ea_manifest_digest a = hp_manifest_digest p" "hp_run_id p \<noteq> []"
    "is_immutable_reference (commit_or_digest (skill (hp_run_spec p)))"
    using assms(4) by (simp_all add: authority_covers_def)
  show ?thesis
    using f [OF st(1)] st pl au immutable_nonempty [OF au(3)]
    by (simp add: validate_continuity_def require_str_def guards.simps verdict_continuity_def
        verdict_consistency_def Let_def severe_findings_def objs_def)
qed

lemma pass_replay:
  assumes "validate_plan p = Inr p" "authority_covers a p"
  shows "\<exists>r. build_replay a (plan_dict p) (evidence_dict e) = Inr r \<and> rm_run_id r = hp_run_id p
     \<and> rm_plan_digest r = hp_plan_digest p \<and> rm_authority_digest r = authority_digest a
     \<and> rm_provenance_digest r = hp_provenance_digest p
     \<and> replay_runtime r = runtime_json (runtime (hp_run_spec p)) \<and> validate_replay_manifest r = Inr r"
proof -
  have pl: "is_hex64 (hp_plan_digest p)" "is_hex64 (hp_provenance_digest p)" "is_hex64 (policy_digest p)"
    "opt_hex64 (hp_stdin_digest p)" "backend (runtime (hp_run_spec p)) = hp_runtime_backend p"
    using assms(1) by (simp_all add: validate_plan_Inr)
  have au: "hp_run_id p \<noteq> []" "runtime_version (runtime (hp_run_spec p)) \<noteq> []"
    "image_digest (runtime (hp_run_spec p)) \<noteq> []" "is_hex64 (authority_digest a)"
    using assms(2) by (simp_all add: authority_covers_def validate_authority_def guards_Inr_iff)
  have spec: "run_spec_json s = JObj (obj_items (run_spec_json s))" "runtime_json x = JObj (obj_items (runtime_json x))"
    for s x by (simp_all add: run_spec_json_def runtime_json_def)
  have bs: "bools (runtime_capabilities p) = JObj (map (\<lambda>(k, b). (k, JBool b)) (runtime_capabilities p))"
    by (simp add: bools_def)
  define r where "r = make_replay a (hp_run_id p) (hp_plan_digest p) (hp_provenance_digest p) (policy_digest p)
      (jget_default (plan_dict p) ''command'' (JArr [])) (hp_stdin_digest p) (backend_value (hp_runtime_backend p))
      (runtime_version (runtime (hp_run_spec p))) (image_digest (runtime (hp_run_spec p)))
      (is_true (jget_null (map (\<lambda>(k, b). (k, JBool b)) (runtime_capabilities p)) ''snapshot_restore''))
      (find_snapshot [JObj (runtime_metadata e)])"
  have "opt_string (opt_str (hp_stdin_digest p)) f = Inr (hp_stdin_digest p)" for f
    by (cases "hp_stdin_digest p") (simp_all add: opt_string_def)
  then have "build_replay a (plan_dict p) (evidence_dict e) = validate_replay_manifest r"
    unfolding r_def
    by (intro build_replay_eq [where spec = "obj_items (run_spec_json (hp_run_spec p))"
          and rt = "obj_items (runtime_json (runtime (hp_run_spec p)))"])
       (simp_all add: spec [symmetric] bs require_str_JStr au pl is_hex64_nonempty)
  moreover have "opt_hex64 (find_snapshot st)" for st using find_snapshot_hex [of st]
    by (cases "find_snapshot st") simp_all
  then have "validate_replay_manifest r = Inr r"
    unfolding r_def using pl au by (intro make_replay_valid) (simp_all del: find_snapshot.simps)
  ultimately show ?thesis
    using pl(5) by (simp add: r_def make_replay_def Let_def replay_runtime_def runtime_json_def)
qed

text \<open>The payloads whose digests name the nodes, edges and spans of the run's artifacts.\<close>

definition kernel_roots :: "evaluator_authority \<Rightarrow> harness_plan \<Rightarrow> evidence_bundle \<Rightarrow> harness_verdict \<Rightarrow> graph_node list" where
  "kernel_roots a p e v = root_nodes a (plan_dict p) (hp_plan_digest p) (evidence_dict e)
     (canonical_digest (evidence_json e)) (verdict_dict v) (verdict_digest v)
     (kernel_parts (hp_run_spec p)) (hp_provenance_digest p)"

definition kernel_nodes :: "evaluator_authority \<Rightarrow> harness_plan \<Rightarrow> evidence_bundle \<Rightarrow> harness_verdict \<Rightarrow> graph_node list" where
  "kernel_nodes a p e v = declared_nodes (kernel_roots a p e v) (evidence_dict e) (map result_json (hv_checks v))"

definition kernel_edges :: "evaluator_authority \<Rightarrow> harness_plan \<Rightarrow> evidence_bundle \<Rightarrow> harness_verdict \<Rightarrow> graph_edge list" where
  "kernel_edges a p e v = declared_edges (kernel_roots a p e v) (evidence_dict e) (map result_json (hv_checks v))"

definition kernel_spans :: "evaluator_authority \<Rightarrow> harness_plan \<Rightarrow> evidence_bundle \<Rightarrow> harness_verdict \<Rightarrow> trace_span list" where
  "kernel_spans a p e v = trace_spans a (plan_dict p) (hp_plan_digest p) (evidence_dict e)
     (canonical_digest (evidence_json e)) (verdict_dict v) (verdict_digest v)"

definition artifact_collision :: "evaluator_authority \<Rightarrow> harness_plan \<Rightarrow> evidence_bundle \<Rightarrow> harness_verdict \<Rightarrow> bool" where
  "artifact_collision a p e v \<longleftrightarrow> digest_clash 64 (map payload_of_node (kernel_nodes a p e v))
     \<or> digest_clash 64 (map payload_of_edge (kernel_edges a p e v))
     \<or> digest_clash 16 (map payload_of_span (kernel_spans a p e v))"

lemma plain_opt [simp]: "plain (opt_str s)" "plain (opt_int n)"
  by (cases s, simp_all, cases n, simp_all add: opt_int_def)

lemma plain_items: "plain (payload_of_node (item_node it))" "plain (payload_of_edge (item_edge en it))"
proof -
  obtain c i w where it: "it = (c, i, w)" by (cases it)
  show "plain (payload_of_node (item_node it))" "plain (payload_of_edge (item_edge en it))"
    by (cases i; cases "source_id_of w"; simp add: it payload_of_node_def payload_of_edge_def node_payload_def
        edge_payload_def item_node_def item_edge_def item_attributes_def)+
qed

lemma plain_kernel_nodes: "\<forall>n \<in> set (kernel_nodes a p e v). plain (payload_of_node n)"
proof -
  have roots: "\<forall>n \<in> set (kernel_roots a p e v). plain (payload_of_node n)"
    by (simp add: kernel_roots_def root_nodes_def payload_of_node_def node_payload_def pick_def
        authority_attributes_def evidence_attributes_def verdict_attributes_def kernel_parts_def)
       (simp add: skill_json_def agent_json_def model_json_def runtime_json_def jget_null_def)
  have checks: "plain (payload_of_node (check_node (result_json c)))" for c
    by (simp add: payload_of_node_def node_payload_def check_node_def check_attributes_def result_json_def
        jget_null_def)
  show ?thesis using roots checks plain_items by (auto simp: kernel_nodes_def declared_nodes_def)
qed

lemma plain_kernel_edges: "\<forall>d \<in> set (kernel_edges a p e v). plain (payload_of_edge d)"
proof -
  have "\<forall>d \<in> set (root_edges i). plain (payload_of_edge d)" for i
    by (simp add: root_edges_def payload_of_edge_def edge_payload_def)
  moreover have "\<forall>d \<in> set (check_edges an vn c). plain (payload_of_edge d)" for an vn c
    by (simp add: check_edges_def payload_of_edge_def edge_payload_def)
  ultimately show ?thesis using plain_items by (auto simp: kernel_edges_def declared_edges_def Let_def)
qed

lemma ids_of_payloads:
  assumes "\<And>x. x \<in> set xs \<Longrightarrow> f x = digest_ref (canonical_digest (g x))"
    and "\<not> digest_clash 64 (map g xs)" "distinct (map dumps (map g xs))"
  shows "distinct (map f xs)"
proof -
  have "distinct (map (\<lambda>x. take 64 (canonical_digest x)) (map g xs))" by (rule no_clash_distinct [OF assms(2,3)])
  moreover have "map f xs = map digest_ref (map (\<lambda>x. take 64 (canonical_digest x)) (map g xs))"
    using assms(1) by simp
  moreover have "inj_on digest_ref A" for A by (simp add: inj_on_def digest_ref_def)
  ultimately show ?thesis by (simp only: distinct_map [of digest_ref])
qed

lemma kernel_node_ids:
  assumes "distinct (map vr_id (hv_checks v))" "\<not> digest_clash 64 (map payload_of_node (kernel_nodes a p e v))"
  shows "distinct (map gn_id (kernel_nodes a p e v))"
proof (rule ids_of_payloads [OF _ assms(2)])
  have "map (\<lambda>c. canon (jget_null (obj_items c) ''id'')) (map result_json cs) = map JStr (map vr_id cs)" for cs
    by (simp add: result_json_def jget_null_def)
  then have "distinct (map (\<lambda>c. canon (jget_null (obj_items c) ''id'')) (map result_json (hv_checks v)))"
    using assms(1) by (simp only: distinct_map [of JStr]) (simp add: inj_on_def)
  then have k: "distinct (map node_key (kernel_nodes a p e v))"
    unfolding kernel_nodes_def kernel_roots_def by (rule distinct_declared_nodes)
  show "distinct (map dumps (map payload_of_node (kernel_nodes a p e v)))"
    unfolding map_map comp_def
    by (rule distinct_by_key [OF k]) (use plain_kernel_nodes node_key_dumps in blast)
  show "gn_id n = digest_ref (canonical_digest (payload_of_node n))" if "n \<in> set (kernel_nodes a p e v)" for n
    using that by (auto simp: kernel_nodes_def kernel_roots_def declared_nodes_def root_nodes_def item_node_def
        check_node_def payload_of_node_def)
qed

lemma kernel_edge_ids:
  assumes "distinct (map gn_id (kernel_nodes a p e v))" "\<not> digest_clash 64 (map payload_of_edge (kernel_edges a p e v))"
  shows "distinct (map ge_id (kernel_edges a p e v))"
proof (rule ids_of_payloads [OF _ assms(2)])
  have "length (kernel_roots a p e v) = 8" by (simp add: kernel_roots_def root_nodes_def)
  with assms(1) have k: "distinct (map edge_key (kernel_edges a p e v))"
    unfolding kernel_edges_def kernel_nodes_def by (rule distinct_declared_edges)
  show "distinct (map dumps (map payload_of_edge (kernel_edges a p e v)))"
    unfolding map_map comp_def
    by (rule distinct_by_key [OF k]) (use plain_kernel_edges edge_key_dumps in blast)
  show "ge_id d = digest_ref (canonical_digest (payload_of_edge d))" if "d \<in> set (kernel_edges a p e v)" for d
    using that by (auto simp: kernel_edges_def declared_edges_def Let_def root_edges_def item_edge_def
        check_edges_def payload_of_edge_def)
qed

lemma kernel_span_ids:
  assumes "\<not> digest_clash 16 (map payload_of_span (kernel_spans a p e v))"
  shows "distinct (map span_id (kernel_spans a p e v))"
proof -
  have names: "distinct (map span_name (kernel_spans a p e v))"
    by (simp add: kernel_spans_def trace_spans_def Let_def)
  have plain: "\<forall>s \<in> set (kernel_spans a p e v). plain (payload_of_span s)"
    by (simp add: kernel_spans_def trace_spans_def Let_def payload_of_span_def span_payload_def)
  have "span_name s = span_name t" if "plain (payload_of_span s)" "plain (payload_of_span t)"
    "dumps (payload_of_span s) = dumps (payload_of_span t)" for s t
    using canon_agree [OF that(1,2) [unfolded payload_of_span_def span_payload_def]
        dumps_canon [OF that, unfolded payload_of_span_def span_payload_def], of "''name''"] by simp
  with plain have "distinct (map dumps (map payload_of_span (kernel_spans a p e v)))"
    unfolding map_map comp_def by (intro distinct_by_key [OF names]) blast
  from no_clash_distinct [OF assms this] show ?thesis unfolding kernel_spans_def span_ids .
qed

lemma traverse_ok: "\<forall>x \<in> set xs. f x = Inr x \<Longrightarrow> traverse f xs = Inr xs"
  using traverse_all_Inr [of xs f "\<lambda>x. x"] by simp

lemma pass_graph:
  assumes "verify_evidence reg m p e = Inr v" "clean_pass v" "validate_plan p = Inr p" "authority_covers a p"
    and "distinct (source_ids (evidence_dict e))" "\<not> artifact_collision a p e v"
  shows "\<exists>g. build_graph a (plan_dict p) (hp_plan_digest p) (evidence_dict e) (canonical_digest (evidence_json e))
     (verdict_dict v) (verdict_digest v) = Inr g \<and> eg_run_id g = hp_run_id p \<and> validate_graph g = Inr g
     \<and> set (eg_nodes g) = set (kernel_nodes a p e v)"
proof -
  have hex: "is_hex64 (authority_digest a)" "is_hex64 (hp_plan_digest p)" "is_hex64 (verdict_digest v)"
    "is_hex64 (hp_provenance_digest p)" "hp_run_id p \<noteq> []"
    using assms(3,4) pass_facts(13) [OF assms(1)] assms(2)
    by (simp_all add: authority_covers_def validate_authority_def guards_Inr_iff validate_plan_Inr
        validate_verdict_def verdict_guards_def clean_pass_def)
  have cs: "\<forall>c \<in> set (map result_json (hv_checks v)). is_obj c
      \<and> jget_default (obj_items c) ''evidence_ids'' (JArr []) = JArr []"
    using assms(2) by (simp add: clean_pass_def result_json_def jget_default_def strs_def)
  have fs: "jget_default (verdict_dict v) ''security_findings'' (JArr []) = JArr []"
    using assms(2) by (simp add: clean_pass_def objs_def)
  have prov: "require_str (plan_dict p) ''provenance_digest'' ''plan'' = Inr (hp_provenance_digest p)"
    using is_hex64_nonempty [OF hex(4)] by (simp add: require_str_JStr)
  from populate_declared [OF hex(1,2) is_hex64_canonical_digest hex(3,4) prov verdict_fields(11) fs cs assms(5)
      kernel_roots_def]
  obtain st where st: "populate_graph a (plan_dict p) (hp_plan_digest p) (evidence_dict e)
      (canonical_digest (evidence_json e)) (verdict_dict v) (verdict_digest v) (kernel_parts (hp_run_spec p))
      empty_graph_state = Inr ((), st)"
    and n: "gs_nodes st = kernel_nodes a p e v" and ed: "gs_edges st = kernel_edges a p e v"
    unfolding kernel_nodes_def kernel_edges_def by blast
  have inv: "graph_inv st" by (rule graph_closed(1) [OF st])
  have clash: "\<not> digest_clash 64 (map payload_of_node (kernel_nodes a p e v))"
    "\<not> digest_clash 64 (map payload_of_edge (kernel_edges a p e v))"
    using assms(6) by (simp_all add: artifact_collision_def)
  have dn: "distinct (map gn_id (kernel_nodes a p e v))"
    using assms(2) clash(1) by (intro kernel_node_ids) (simp_all add: clean_pass_def)
  have de: "distinct (map ge_id (kernel_edges a p e v))" by (rule kernel_edge_ids [OF dn clash(2)])
  define g where "g = \<lparr>eg_run_id = hp_run_id p, eg_nodes = sort_key gn_id (gs_nodes st),
      eg_edges = sort_key ge_id (gs_edges st), graph_digest = []\<rparr>"
  define g' where "g' = g\<lparr>graph_digest := canonical_digest (JObj (graph_payload g))\<rparr>"
  have srt: "distinct (map f (sort_key f xs)) \<longleftrightarrow> distinct (map f xs)" for f :: "'b \<Rightarrow> string" and xs
    by (simp add: distinct_map)
  have "traverse validate_node (eg_nodes g') = Inr (eg_nodes g')" "traverse validate_edge (eg_edges g') = Inr (eg_edges g')"
    using inv by (simp_all add: g'_def g_def graph_inv_def traverse_ok)
  moreover have "dangling_edges g' = []"
    using inv by (auto simp: dangling_edges_def g'_def g_def graph_inv_def node_ids_def filter_empty_conv)
  moreover have "distinct (map gn_id (eg_nodes g'))" "distinct (map ge_id (eg_edges g'))"
    using dn de n ed by (simp_all add: g'_def g_def srt)
  ultimately have v: "validate_graph g' = Inr g'"
    using hex(5) by (simp add: validate_graph_def guards_Inr_iff) (simp add: g'_def g_def graph_payload_def)
  have "build_graph a (plan_dict p) (hp_plan_digest p) (evidence_dict e) (canonical_digest (evidence_json e))
     (verdict_dict v) (verdict_digest v) = validate_graph g'"
    using hex(5) by (simp add: build_graph_def st require_str_JStr g'_def g_def Let_def)
  then show ?thesis using v n by (simp add: g'_def g_def)
qed

lemma make_scorecard_fields [simp]:
  "sc_run_id (make_scorecard a rid needed pd ev ed v vd cs rc conf) = rid"
  "sc_authority_digest (make_scorecard a rid needed pd ev ed v vd cs rc conf) = authority_digest a"
  "sc_plan_digest (make_scorecard a rid needed pd ev ed v vd cs rc conf) = pd"
  "sc_evidence_digest (make_scorecard a rid needed pd ev ed v vd cs rc conf) = ed"
  "sc_verdict_digest (make_scorecard a rid needed pd ev ed v vd cs rc conf) = vd"
  "sc_replay_class (make_scorecard a rid needed pd ev ed v vd cs rc conf) = rc"
  "confounders (make_scorecard a rid needed pd ev ed v vd cs rc conf) = conf"
  by (simp_all add: make_scorecard_def Let_def)

lemma make_trace_fields [simp]: "lt_run_id (make_trace rid pd ss) = rid" "lt_plan_digest (make_trace rid pd ss) = pd"
  "spans (make_trace rid pd ss) = ss"
  by (simp_all add: make_trace_def Let_def)

lemma pass_bundled:
  assumes "verify_evidence reg m p e = Inr v" and "clean_pass v" and "validate_plan p = Inr p"
    and "authority_covers a p" and "distinct (source_ids (evidence_dict e))"
  shows "(\<exists>b. build_artifacts a (plan_dict p) (evidence_dict e) (verdict_dict v) = Inr b
       \<and> validate_bundle b = Inr b \<and> ab_run_id b = hp_run_id p \<and> ab_plan_digest b = hp_plan_digest p
       \<and> ab_evidence_digest b = canonical_digest (evidence_json e) \<and> ab_verdict_digest b = verdict_digest v
       \<and> (rank_eligible (ab_scorecard b) \<longleftrightarrow>
            set (map kind_value (required_evidence p)) \<subseteq> set (captured_evidence e)))
    \<or> artifact_collision a p e v"
proof (cases "artifact_collision a p e v")
  case False
  let ?ed = "canonical_digest (evidence_json e)"
  note f = pass_facts [OF assms(1)]
  have st: "hv_status v = VPass" "security_findings v = []" using assms(2) by (simp_all add: clean_pass_def)
  note cont = pass_continuity [OF assms(1-4)]
  obtain g where g: "build_graph a (plan_dict p) (hp_plan_digest p) (evidence_dict e) ?ed
     (verdict_dict v) (verdict_digest v) = Inr g" "eg_run_id g = hp_run_id p" "validate_graph g = Inr g"
    "set (eg_nodes g) = set (kernel_nodes a p e v)" using pass_graph [OF assms False] by blast
  obtain r where r: "build_replay a (plan_dict p) (evidence_dict e) = Inr r" "rm_run_id r = hp_run_id p"
    "rm_plan_digest r = hp_plan_digest p" "rm_authority_digest r = authority_digest a"
    "rm_provenance_digest r = hp_provenance_digest p"
    "replay_runtime r = runtime_json (runtime (hp_run_spec p))" "validate_replay_manifest r = Inr r"
    using pass_replay [OF assms(3,4)] by blast
  have hex: "is_hex64 (authority_digest a)" "is_hex64 (hp_plan_digest p)" "is_hex64 (verdict_digest v)"
    "hp_run_id p \<noteq> []" "validate_authority a = Inr a"
    using assms(3,4) f(13) [OF st(1)]
    by (simp_all add: authority_covers_def validate_authority_def guards_Inr_iff validate_plan_Inr
        validate_verdict_def verdict_guards_def)
  have rid: "require_str (plan_dict p) ''run_id'' ''plan'' = Inr (hp_run_id p)" using hex(4) by (simp add: require_str_JStr)
  define t where "t = make_trace (hp_run_id p) (hp_plan_digest p) (kernel_spans a p e v)"
  have t: "build_trace a (plan_dict p) (hp_plan_digest p) (evidence_dict e) ?ed (verdict_dict v) (verdict_digest v) = Inr t"
    unfolding t_def kernel_spans_def
    using kernel_span_ids [of a p e v] False
    by (intro build_trace_ok [OF rid hex(2)]) (simp add: artifact_collision_def kernel_spans_def)
  define s where "s = make_scorecard a (hp_run_id p) (map py_str (map JStr (map kind_value (required_evidence p))))
     (hp_plan_digest p) (evidence_dict e) ?ed (verdict_dict v) (verdict_digest v) (map result_json (hv_checks v))
     (rm_class r) (confounders_of (plan_dict p) (kernel_parts (hp_run_spec p)))"
  have s: "build_scorecard a (plan_dict p) (hp_plan_digest p) (evidence_dict e) ?ed (verdict_dict v) (verdict_digest v) r = Inr s"
    unfolding s_def using st(1) f(3) [OF st(1)]
    by (intro build_scorecard_ok [OF _ _ kernel_parts_of rid hex(1,2) _ hex(3)]) (simp_all add: strs_def)
  have tv: "validate_trace t = Inr t" using t by (auto simp: build_trace_def rbind_Inr_iff Let_def dest: validate_trace_Inr)
  have sv: "validate_scorecard s = Inr s" using s by (auto elim!: build_scorecard_Inr)
  define b where "b = \<lparr>ab_run_id = hp_run_id p, ab_authority = a, ab_graph = g, ab_replay = r, ab_trace = t,
      ab_scorecard = s, ab_plan_digest = hp_plan_digest p, ab_evidence_digest = ?ed,
      ab_verdict_digest = verdict_digest v, bundle_digest = []\<rparr>"
  define b' where "b' = b\<lparr>bundle_digest := canonical_digest (JObj (bundle_payload b))\<rparr>"
  have bf: "ab_run_id b' = hp_run_id p" "ab_authority b' = a" "ab_graph b' = g" "ab_replay b' = r" "ab_trace b' = t"
    "ab_scorecard b' = s" "ab_plan_digest b' = hp_plan_digest p" "ab_evidence_digest b' = ?ed"
    "ab_verdict_digest b' = verdict_digest v" "bundle_digest b' = canonical_digest (JObj (bundle_payload b'))"
    by (simp_all add: b'_def b_def bundle_payload_def)
  have base: "list_all (\<lambda>g. \<not> fst g) (base_bundle_guards b')"
    using hex r(2,3) g(2) by (simp add: base_bundle_guards_def Let_def bf s_def t_def)
  have conf: "jget_null (confounders s) ''runtime'' = runtime_json (runtime (hp_run_spec p))"
    by (simp add: s_def confounders_of_def jget_null_def kernel_parts_def pick_def runtime_json_def)
  have "set (required_graph_nodes b') \<subseteq> (\<lambda>n. (gn_kind n, gn_payload_digest n)) ` set (kernel_nodes a p e v)"
    using r(5,6) by (simp add: required_graph_nodes_def bf kernel_nodes_def declared_nodes_def kernel_roots_def
        root_nodes_def kernel_parts_def runtime_json_def)
  then have "filter (\<lambda>n. n \<notin> set (map (\<lambda>n. (gn_kind n, gn_payload_digest n)) (eg_nodes (ab_graph b'))))
      (required_graph_nodes b') = []"
    by (auto simp: bf g(4) filter_empty_conv)
  then have nodes: "missing_graph_nodes b' = []" by (simp only: missing_graph_nodes_def sort_key_simps)
  have spans: "missing_trace_attributes b' = []"
    by (simp add: missing_trace_attributes_def required_trace_attributes_def bf t_def kernel_spans_def
        trace_spans_def Let_def jget_null_def)
  have cross: "list_all (\<lambda>g. \<not> fst g) (cross_bundle_guards b')"
    using nodes spans by (simp add: cross_bundle_guards_def bf r(4,6) conf s_def [symmetric]) (simp add: s_def)
  have bv: "validate_bundle b' = Inr b'"
    using base cross by (simp add: validate_bundle_def guards_Inr_iff bf hex(5) g(3) r(7) tv sv)
  have b'_eq: "b' = \<lparr>ab_run_id = hp_run_id p, ab_authority = a, ab_graph = g, ab_replay = r, ab_trace = t,
      ab_scorecard = s, ab_plan_digest = hp_plan_digest p, ab_evidence_digest = ?ed,
      ab_verdict_digest = verdict_digest v, bundle_digest = canonical_digest (JObj (bundle_payload b))\<rparr>"
    by (simp add: b'_def b_def)
  have built: "build_artifacts a (plan_dict p) (evidence_dict e) (verdict_dict v) = Inr b'"
    using bv [unfolded b'_eq] unfolding b'_eq by (simp add: build_artifacts_def plan_content [OF assms(3)] verdict_content [OF f(13) [OF st(1)]]
        cont g(1) r(1) t s b_def [symmetric])
  have objs: "list_all is_obj (map result_json (hv_checks v))" by (simp add: list_all_iff result_json_def)
  have "required_names (plan_dict p) = map kind_value (required_evidence p)"
    by (simp add: required_names_def strs_def)
  then have "rank_eligible s \<longleftrightarrow> set (map kind_value (required_evidence p)) \<subseteq> set (captured_evidence e)"
    using rank_eligible_facts [OF cont s verdict_fields(10) objs] st(1) by simp
  with built bv show ?thesis by (auto simp: bf)
qed simp

definition sample_authority :: evaluator_authority where
  "sample_authority = (let a = \<lparr>authority_id = ''ci'', ea_kind = AuthorityRepository, ea_basis = RepositoryPinned,
     ea_source_url = ''https://example.org/harness'', ea_commit = ''0123456789abcdef0123456789abcdef01234567'',
     ea_manifest_digest = hp_manifest_digest sample_plan, ea_evaluator_digest = text_digest ''evaluator'',
     authority_digest = []\<rparr> in a\<lparr>authority_digest := canonical_digest (JObj (authority_payload a))\<rparr>)"

lemma sample_commit: "is_immutable_reference ''0123456789abcdef0123456789abcdef01234567''" "is_identity_id ''ci''"
  by code_simp+

lemma sample_authority_covers: "authority_covers sample_authority sample_plan"
proof -
  have "is_hex64 (hp_manifest_digest sample_plan)" using sample_plan_valid by (simp add: validate_plan_Inr)
  then show ?thesis
    by (simp add: authority_covers_def validate_authority_def guards_Inr_iff sample_authority_def Let_def
        sample_commit authority_payload_def)
       (simp add: sample_plan_def sample_spec_def sample_commit)
qed

lemma sample_clean_pass:
  "\<exists>v. verify_evidence (sample_registry env) sample_manifest sample_plan sample_bundle = Inr v \<and> clean_pass v
     \<and> hv_checks v = all_results sample_manifest sample_plan sample_bundle coding_command_adapter
         \<lparr>sec_findings = [], sec_gate = ''pass''\<rparr>"
proof -
  obtain v where v: "verify_evidence (sample_registry env) sample_manifest sample_plan sample_bundle = Inr v"
    using sample_verdict by blast
  then obtain ad s where r: "require (sample_registry env) (hp_adapter sample_plan) = Inr ad"
    and s: "evaluate_security sample_bundle = Inr s"
    and mk: "v = make_verdict sample_plan sample_bundle (all_results sample_manifest sample_plan sample_bundle ad s) s"
    by (rule verify_evidence_Inr)
  have ad: "ad = coding_command_adapter" using r by (simp add: sample_require)
  have sat: "evidence_satisfies sample_manifest sample_plan coding_command_adapter sample_bundle []"
    by (rule sample_satisfies)
  have pass: "list_all vr_passed (all_results sample_manifest sample_plan sample_bundle ad s)"
    using all_results_pass [OF sample_changed s] sat ad by simp
  have comb: "combined_findings sample_bundle [] = []"
  proof -
    have "\<not> list_ex (contains (output_text sample_bundle)) secret_markers"
      using sat by (simp add: evidence_satisfies_def)
    then have "filter (contains (output_text sample_bundle)) secret_markers = []"
      by (simp add: list_ex_iff filter_empty_conv)
    then show ?thesis by (simp add: combined_findings_def)
  qed
  have s': "s = \<lparr>sec_findings = [], sec_gate = ''pass''\<rparr>" using s by (simp add: evaluate_security_Inr_iff sample_changed comb)
  have ids: "\<forall>c \<in> set (hv_checks v). vr_evidence_ids c = []"
    by (simp add: mk s' ad all_results_def provenance_check_def runtime_check_def command_check_def Let_def
        input_check_def evidence_check_def security_check_def coding_command_adapter_def base_adapter_def
        sample_manifest_def split: option.splits)
  have "distinct (map vr_id (hv_checks v))"
    by (simp add: mk s' ad all_results_def provenance_check_def runtime_check_def command_check_def Let_def
        input_check_def evidence_check_def security_check_def coding_command_adapter_def base_adapter_def
        sample_manifest_def)
  then have "clean_pass v"
    using pass ids by (simp add: clean_pass_def mk failed_ids_empty_iff) (simp add: make_verdict_def Let_def s')
  then show ?thesis using v by (auto simp: mk ad s')
qed

lemma sample_distinct: "distinct (source_ids (evidence_dict sample_bundle))"
proof -
  have "sample_bundle = sample_bundle\<lparr>ev_stdout := ev_stdout sample_bundle\<rparr>" by simp
  then have "source_ids (evidence_dict sample_bundle) = []" using sample_no_sources by metis
  then show ?thesis by simp
qed

lemma sample_captured: "set (map kind_value (required_evidence sample_plan)) \<subseteq> set (captured_evidence sample_bundle)"
  by (simp add: sample_plan_def make_plan_def Let_def sample_manifest_def sample_bundle_def fake_evidence_def)

lemma sample_bundled:
  "\<exists>v. verify_evidence (sample_registry sample_env) sample_manifest sample_plan sample_bundle = Inr v
     \<and> ((\<exists>b. build_artifacts sample_authority (plan_dict sample_plan) (evidence_dict sample_bundle) (verdict_dict v) = Inr b
           \<and> validate_bundle b = Inr b \<and> rank_eligible (ab_scorecard b))
         \<or> artifact_collision sample_authority sample_plan sample_bundle v)"
proof -
  obtain v where v: "verify_evidence (sample_registry sample_env) sample_manifest sample_plan sample_bundle = Inr v"
    "clean_pass v" using sample_clean_pass by blast
  from pass_bundled [OF v sample_plan_valid sample_authority_covers sample_distinct] sample_captured v(1)
  show ?thesis by blast
qed

text \<open>C9: A passing run is bundled: for an authority that covers the plan, a clean passing verdict of the
  kernel and evidence whose object ids are unambiguous, the builder returns a bundle that passes all
  validators, continues the plan, the evidence and the verdict by digest, and is rank eligible exactly
  when the trusted collector captured every required kind of evidence; otherwise two different
  payloads of the run have the same digest.\<close>

theorem passing_run_bundled:
  assumes "verify_evidence reg m p e = Inr v" and "clean_pass v" and "validate_plan p = Inr p"
    and "authority_covers a p" and "distinct (source_ids (evidence_dict e))"
  shows "(\<exists>b. build_artifacts a (plan_dict p) (evidence_dict e) (verdict_dict v) = Inr b
       \<and> validate_bundle b = Inr b \<and> ab_run_id b = hp_run_id p \<and> ab_plan_digest b = hp_plan_digest p
       \<and> ab_evidence_digest b = canonical_digest (evidence_json e) \<and> ab_verdict_digest b = verdict_digest v
       \<and> (rank_eligible (ab_scorecard b) \<longleftrightarrow>
            set (map kind_value (required_evidence p)) \<subseteq> set (captured_evidence e)))
    \<or> artifact_collision a p e v"
  by (rule pass_bundled [OF assms])

theorem passing_run_bundled_witness:
  "\<exists>v. verify_evidence (sample_registry sample_env) sample_manifest sample_plan sample_bundle = Inr v
     \<and> ((\<exists>b. build_artifacts sample_authority (plan_dict sample_plan) (evidence_dict sample_bundle) (verdict_dict v) = Inr b
           \<and> rank_eligible (ab_scorecard b)) \<or> artifact_collision sample_authority sample_plan sample_bundle v)"
proof -
  obtain v where v: "verify_evidence (sample_registry sample_env) sample_manifest sample_plan sample_bundle = Inr v"
    "clean_pass v" using sample_clean_pass by blast
  from passing_run_bundled [OF v sample_plan_valid sample_authority_covers sample_distinct] sample_captured v(1)
  show ?thesis by blast
qed

end
