(* ===== verification/ArtifactProperties.thy ===== *)
theory ArtifactProperties
  imports KernelBundle
begin

text \<open>
  Properties of the run artifacts at the level of their JSON inputs: rank eligibility, the references
  of the evidence graph, the replay class, the search for a snapshot digest, and the store.
\<close>

section \<open>Rank eligibility\<close>

text \<open>C8: A run is rank eligible exactly when its verdict passed and every required kind of evidence was
  captured by the trusted collector; no score compensates: in an eligible run every check passed, the
  gate passed and there is no severe finding, the tier is the top one, the diagnostic score stays
  between 0 and 100, and it is 0 when the gate failed.\<close>

theorem rank_eligible_iff:
  assumes "validate_continuity a plan pd ev ed v = Inr rid"
    and "build_scorecard a plan pd ev ed v vd r = Inr s"
    and "jget_null v ''checks'' = JArr cs" and "list_all is_obj cs"
  shows "(rank_eligible s \<longleftrightarrow> jget_null v ''status'' = JStr ''pass''
       \<and> set (required_names plan) \<subseteq> set (captured_names ev))
    \<and> (rank_eligible s \<longrightarrow> list_all check_passed cs \<and> jget_null v ''security_gate'' = JStr ''pass''
         \<and> severe_findings (jget_default v ''security_findings'' (JArr [])) = [])
    \<and> (tier s = Rankable \<longleftrightarrow> rank_eligible s)
    \<and> 0 \<le> diagnostic_score s \<and> diagnostic_score s \<le> 100
    \<and> (jget_null v ''security_gate'' = JStr ''fail'' \<longrightarrow> diagnostic_score s = 0)"
  by (rule rank_eligible_facts [OF assms])

lemma sample_scorecard:
  "\<exists>v r s. hv_status v = VPass \<and> validate_continuity sample_authority (plan_dict sample_plan) (hp_plan_digest sample_plan)
      (evidence_dict sample_bundle) (canonical_digest (evidence_json sample_bundle)) (verdict_dict v)
      = Inr (hp_run_id sample_plan)
    \<and> build_scorecard sample_authority (plan_dict sample_plan) (hp_plan_digest sample_plan)
      (evidence_dict sample_bundle) (canonical_digest (evidence_json sample_bundle)) (verdict_dict v)
      (verdict_digest v) r = Inr s"
proof -
  obtain v where v: "verify_evidence (sample_registry sample_env) sample_manifest sample_plan sample_bundle = Inr v"
    "clean_pass v" using sample_clean_pass by blast
  then have st: "hv_status v = VPass" by (simp add: clean_pass_def)
  obtain r where "build_replay sample_authority (plan_dict sample_plan) (evidence_dict sample_bundle) = Inr r"
    using pass_replay [OF sample_plan_valid sample_authority_covers] by blast
  note c = pass_continuity [OF v sample_plan_valid sample_authority_covers]
  have hex: "is_hex64 (authority_digest sample_authority)" "is_hex64 (hp_plan_digest sample_plan)"
    "is_hex64 (verdict_digest v)"
    using sample_authority_covers sample_plan_valid pass_facts(13) [OF v(1) st]
    by (simp_all add: authority_covers_def validate_authority_def guards_Inr_iff validate_plan_Inr
        validate_verdict_def verdict_guards_def)
  have rid: "require_str (plan_dict sample_plan) ''run_id'' ''plan'' = Inr (hp_run_id sample_plan)"
    by (simp add: require_str_JStr)
  have "\<exists>s. build_scorecard sample_authority (plan_dict sample_plan) (hp_plan_digest sample_plan)
      (evidence_dict sample_bundle) (canonical_digest (evidence_json sample_bundle)) (verdict_dict v)
      (verdict_digest v) r = Inr s"
  proof (rule exI, rule build_scorecard_ok)
    show "py_list (jget_default (plan_dict sample_plan) ''required_evidence'' (JArr []))
       = Inr (map (JStr \<circ> kind_value) (required_evidence sample_plan))"
      by (simp add: strs_def)
    show "jget_default (verdict_dict v) ''checks'' (JArr []) = JArr (map result_json (hv_checks v))" by simp
    show "run_parts_of (plan_dict sample_plan) = Inr (kernel_parts (hp_run_spec sample_plan))" by (rule kernel_parts_of)
    show "require_str (plan_dict sample_plan) ''run_id'' ''plan'' = Inr (hp_run_id sample_plan)" by (rule rid)
    show "is_hex64 (authority_digest sample_authority)" "is_hex64 (hp_plan_digest sample_plan)"
      "is_hex64 (verdict_digest v)" by (rule hex)+
    show "is_hex64 (canonical_digest (evidence_json sample_bundle))" by simp
    show "py_str (jget_null (verdict_dict v) ''status'') \<in> {''pass'', ''fail''}" by (simp add: st)
    show "py_str (jget_null (verdict_dict v) ''security_gate'') \<in> {''pass'', ''fail''}"
      using pass_facts(3) [OF v(1) st] by simp
  qed
  with c st show ?thesis by blast
qed

theorem rank_eligible_iff_witness:
  "\<exists>v r s. build_scorecard sample_authority (plan_dict sample_plan) (hp_plan_digest sample_plan)
      (evidence_dict sample_bundle) (canonical_digest (evidence_json sample_bundle)) (verdict_dict v)
      (verdict_digest v) r = Inr s \<and> rank_eligible s"
proof -
  obtain v r s where st: "hv_status v = VPass"
    and c: "validate_continuity sample_authority (plan_dict sample_plan) (hp_plan_digest sample_plan)
      (evidence_dict sample_bundle) (canonical_digest (evidence_json sample_bundle)) (verdict_dict v)
      = Inr (hp_run_id sample_plan)"
    and s: "build_scorecard sample_authority (plan_dict sample_plan) (hp_plan_digest sample_plan)
      (evidence_dict sample_bundle) (canonical_digest (evidence_json sample_bundle)) (verdict_dict v)
      (verdict_digest v) r = Inr s" using sample_scorecard by blast
  have "list_all is_obj (map result_json (hv_checks v))" by (simp add: list_all_iff result_json_def)
  moreover have "set (required_names (plan_dict sample_plan)) \<subseteq> set (captured_names (evidence_dict sample_bundle))"
    by (simp add: required_names_def strs_def sample_plan_def make_plan_def Let_def sample_manifest_def
        sample_bundle_def fake_evidence_def)
  ultimately have "rank_eligible s" using rank_eligible_iff [OF c s verdict_fields(10)] st by simp
  with s show ?thesis by blast
qed

section \<open>The evidence graph\<close>

text \<open>C10: A constructed evidence graph is closed and unambiguous: every edge joins nodes of the graph, every
  node is named by the digest of its payload, the evidence carries no source id twice, and every
  reference of every check names a source id of the evidence.\<close>

theorem graph_references_resolve:
  assumes "populate_graph a plan pd ev ed v vd parts empty_graph_state = Inr ((), st)"
    and "jget_default v ''checks'' (JArr []) = JArr cs"
  shows "(\<forall>d \<in> set (gs_edges st). ge_source d \<in> gn_id ` set (gs_nodes st) \<and> ge_target d \<in> gn_id ` set (gs_nodes st))
    \<and> (\<forall>n \<in> set (gs_nodes st). gn_id n = digest_ref (canonical_digest (payload_of_node n)))
    \<and> distinct (source_ids ev)
    \<and> (\<forall>c \<in> set cs. \<forall>raw \<in> set (check_refs c). \<exists>s \<in> set (source_ids ev). raw = JStr s)"
proof -
  have inv: "graph_inv st" "distinct (source_ids ev)" by (rule graph_closed [OF assms(1)])+
  have "py_list (jget_default v ''checks'' (JArr [])) = Inr cs" by (simp add: assms(2))
  then have "\<forall>c \<in> set cs. \<forall>raw \<in> set (check_refs c). \<exists>s \<in> set (source_ids ev). raw = JStr s"
    using references_resolve [OF assms(1)] by blast
  moreover have "\<forall>n \<in> set (gs_nodes st). gn_id n = digest_ref (canonical_digest (payload_of_node n))"
    using inv(1) by (auto simp: graph_inv_def validate_node_def guards_Inr_iff payload_of_node_def)
  ultimately show ?thesis using inv by (simp add: graph_inv_def node_ids_def)
qed

text \<open>Without references and findings the stateful construction equals the declarative graph: the
  eight roots with their eight edges, one node and one containment edge per evidence object, and one
  node with two edges per check, in the order of the code.\<close>

theorem populate_graph_declared:
  assumes "is_hex64 (authority_digest a)" "is_hex64 pd" "is_hex64 ed" "is_hex64 vd" "is_hex64 prov"
    and "require_str plan ''provenance_digest'' ''plan'' = Inr prov"
    and "jget_default v ''checks'' (JArr []) = JArr cs"
    and "jget_default v ''security_findings'' (JArr []) = JArr []"
    and "\<forall>c \<in> set cs. is_obj c \<and> jget_default (obj_items c) ''evidence_ids'' (JArr []) = JArr []"
    and "distinct (source_ids ev)"
    and "rs = root_nodes a plan pd ev ed v vd parts prov"
  shows "\<exists>st. populate_graph a plan pd ev ed v vd parts empty_graph_state = Inr ((), st)
     \<and> gs_nodes st = declared_nodes rs ev cs \<and> gs_edges st = declared_edges rs ev cs
     \<and> dict_keys (gs_sources st) = source_ids ev"
  by (rule populate_declared [OF assms])

text \<open>A small input: an authority, a plan, evidence and a verdict with one check.\<close>

definition tiny_plan :: "json dict" where
  "tiny_plan = [(''provenance_digest'', JStr (text_digest ''skill''))]"

definition tiny_parts :: run_parts where
  "tiny_parts = \<lparr>rp_skill = [], rp_agent = [], rp_model = [], rp_runtime = []\<rparr>"

definition tiny_evidence :: "json dict" where
  "tiny_evidence = [(''commands'', JArr [JObj [(''evidence_id'', JStr ''e1'')], JObj []]), (''exit_code'', JInt 0)]"

definition tiny_check :: json where
  "tiny_check = JObj [(''id'', JStr ''c''), (''passed'', JBool True), (''evidence_ids'', JArr [])]"

definition tiny_verdict :: "json dict" where
  "tiny_verdict = [(''checks'', JArr [tiny_check])]"

lemma tiny_facts:
  "is_hex64 (authority_digest sample_authority)"
  "require_str tiny_plan ''provenance_digest'' ''plan'' = Inr (text_digest ''skill'')"
  "jget_default tiny_verdict ''checks'' (JArr []) = JArr [tiny_check]"
  "jget_default tiny_verdict ''security_findings'' (JArr []) = JArr []"
  "\<forall>c \<in> set [tiny_check]. is_obj c \<and> jget_default (obj_items c) ''evidence_ids'' (JArr []) = JArr []"
  by (simp_all add: sample_authority_def Let_def require_str_def jget_null_def tiny_plan_def tiny_verdict_def
      tiny_check_def jget_default_def)

lemma tiny_sources: "source_ids tiny_evidence = [''e1'']"
  by code_simp

theorem populate_graph_declared_witness:
  "\<exists>st. populate_graph sample_authority tiny_plan (text_digest ''p'') tiny_evidence (text_digest ''e'')
       tiny_verdict (text_digest ''v'') tiny_parts empty_graph_state = Inr ((), st)
     \<and> length (gs_nodes st) = 12 \<and> length (gs_edges st) = 13"
proof -
  have "distinct (source_ids tiny_evidence)" by (simp add: tiny_sources)
  from populate_graph_declared [OF tiny_facts(1) is_hex64_text_digest is_hex64_text_digest is_hex64_text_digest
      is_hex64_text_digest tiny_facts(2-5) this refl, of "''p''" "''e''" "''v''" tiny_parts]
  obtain st where st: "populate_graph sample_authority tiny_plan (text_digest ''p'') tiny_evidence (text_digest ''e'')
       tiny_verdict (text_digest ''v'') tiny_parts empty_graph_state = Inr ((), st)"
    and n: "gs_nodes st = declared_nodes (root_nodes sample_authority tiny_plan (text_digest ''p'') tiny_evidence
       (text_digest ''e'') tiny_verdict (text_digest ''v'') tiny_parts (text_digest ''skill'')) tiny_evidence [tiny_check]"
    and d: "gs_edges st = declared_edges (root_nodes sample_authority tiny_plan (text_digest ''p'') tiny_evidence
       (text_digest ''e'') tiny_verdict (text_digest ''v'') tiny_parts (text_digest ''skill'')) tiny_evidence [tiny_check]"
    by blast
  have "length (evidence_items tiny_evidence) = 3" by code_simp
  then have "length (gs_nodes st) = 12" "length (gs_edges st) = 13"
    by (simp_all add: n d declared_nodes_def declared_edges_def Let_def root_nodes_def root_edges_def check_edges_def)
  with st show ?thesis by blast
qed

theorem graph_references_resolve_witness:
  "\<exists>st. populate_graph sample_authority tiny_plan (text_digest ''p'') tiny_evidence (text_digest ''e'')
       tiny_verdict (text_digest ''v'') tiny_parts empty_graph_state = Inr ((), st)
     \<and> (\<forall>d \<in> set (gs_edges st). ge_source d \<in> gn_id ` set (gs_nodes st))"
proof -
  have "distinct (source_ids tiny_evidence)" by (simp add: tiny_sources)
  from populate_declared [OF tiny_facts(1) is_hex64_text_digest is_hex64_text_digest is_hex64_text_digest
      is_hex64_text_digest tiny_facts(2-5) this refl, of "''p''" "''e''" "''v''" tiny_parts]
  obtain st where st: "populate_graph sample_authority tiny_plan (text_digest ''p'') tiny_evidence (text_digest ''e'')
       tiny_verdict (text_digest ''v'') tiny_parts empty_graph_state = Inr ((), st)" by blast
  with graph_references_resolve [OF st tiny_facts(3)] show ?thesis by blast
qed

section \<open>Replay\<close>

text \<open>A replay manifest is exact only when the runtime can restore snapshots, a snapshot digest was
  captured and the image is pinned by SHA-256; every other manifest names at least one reason, and a
  manifest of class none has a mutable runtime version.\<close>

theorem replay_exact_iff:
  assumes "build_replay a plan ev = Inr r"
  shows "(rm_class r = ReplayExact \<longleftrightarrow> snapshot_capable r \<and> rm_snapshot_digest r \<noteq> None
       \<and> is_sha256_reference (Some (rm_image_digest r)))
    \<and> (rm_class r = ReplayExact \<longleftrightarrow> reasons r = [])
    \<and> (rm_class r = ReplayNone \<longleftrightarrow> ''runtime-version-is-mutable'' \<in> set (reasons r))
    \<and> (rm_class r = ReplayNone \<longrightarrow> lower (strip (rm_version r)) \<in> set ra_mutable_refs)
    \<and> opt_hex64 (rm_snapshot_digest r)"
proof -
  from assms obtain rid pd prov pol cmd stdin be version img capable md where
    v: "validate_replay_manifest (make_replay a rid pd prov pol cmd stdin be version img capable (find_snapshot [JObj md])) = Inr r"
    by (auto simp: build_replay_def make_replay_def Let_def rbind_Inr_iff)
  then have r: "r = make_replay a rid pd prov pol cmd stdin be version img capable (find_snapshot [JObj md])"
    by (rule validate_Inr(2))
  define snap where "snap = find_snapshot [JObj md]"
  have "opt_hex64 snap"
    using find_snapshot_hex [of "[JObj md]"] by (cases "find_snapshot [JObj md]") (simp_all add: snap_def)
  then show ?thesis
    unfolding r snap_def [symmetric]
    by (cases snap) (simp_all add: make_replay_def Let_def replay_class_of_def replay_reasons_of_def)
qed

theorem replay_exact_iff_witness:
  "\<exists>r. build_replay sample_authority (plan_dict sample_plan) (evidence_dict sample_bundle) = Inr r
     \<and> (rm_class r = ReplayExact \<longleftrightarrow> reasons r = [])"
proof -
  obtain r where r: "build_replay sample_authority (plan_dict sample_plan) (evidence_dict sample_bundle) = Inr r"
    using pass_replay [OF sample_plan_valid sample_authority_covers] by blast
  with replay_exact_iff [OF r] show ?thesis by blast
qed

text \<open>The reference for the search: a snapshot entry occurs somewhere in the tree.\<close>

fun has_snapshot :: "json \<Rightarrow> bool" where
  "has_snapshot (JObj kvs) = list_ex (\<lambda>(k, v). snapshot_hit (k, v) \<noteq> None \<or> has_snapshot v) kvs"
| "has_snapshot (JArr xs) = list_ex has_snapshot xs"
| "has_snapshot _ = False"

lemma list_ex_pairs:
  "list_ex (\<lambda>(k, v). snapshot_hit (k, v) \<noteq> None \<or> has_snapshot v) kvs
     \<longleftrightarrow> List.find (\<lambda>kv. snapshot_hit kv \<noteq> None) kvs \<noteq> None \<or> list_ex has_snapshot (map snd kvs)"
  by (induction kvs) (auto split: if_splits)

lemma list_ex_rev_pairs: "list_ex P (rev xs @ st) \<longleftrightarrow> list_ex P xs \<or> list_ex P st"
  by (auto simp: list_ex_iff)

lemma find_snapshot_iff: "find_snapshot st \<noteq> None \<longleftrightarrow> list_ex has_snapshot st"
proof (induction st rule: find_snapshot.induct)
  case (2 kvs st)
  show ?case
  proof (cases "List.find (\<lambda>kv. snapshot_hit kv \<noteq> None) kvs")
    case None
    then have e: "has_snapshot (JObj kvs) = list_ex has_snapshot (map snd kvs)"
      unfolding has_snapshot.simps list_ex_pairs by simp
    show ?thesis
      using "2.IH" [OF None] unfolding list_ex_rev_pairs list_ex_Cons_iff find_snapshot.simps None option.case e .
  next
    case (Some kv)
    then have "snapshot_hit kv \<noteq> None" by (auto simp: find_Some_iff)
    moreover have "has_snapshot (JObj kvs)" unfolding has_snapshot.simps list_ex_pairs Some by simp
    ultimately show ?thesis using Some by simp
  qed
next
  case (3 xs st)
  then show ?case by (simp only: find_snapshot.simps list_ex_rev_pairs list_ex_Cons_iff has_snapshot.simps)
qed simp_all

text \<open>C40: The iterative search for a snapshot digest terminates on every value and is complete: it finds a
  digest exactly when some object nested anywhere in the runtime metadata has a snapshot key with a
  SHA-256 value, and what it returns is a bare SHA-256 digest.\<close>

theorem find_snapshot_complete:
  "(find_snapshot [v] \<noteq> None \<longleftrightarrow> has_snapshot v) \<and> opt_hex64 (find_snapshot [v])"
proof -
  have "opt_hex64 (find_snapshot [v])"
    using find_snapshot_hex [of "[v]"] by (cases "find_snapshot [v]") simp_all
  then show ?thesis using find_snapshot_iff [of "[v]"] by simp
qed

section \<open>The store\<close>

abbreviation stored_text :: "json \<Rightarrow> string" where
  "stored_text v \<equiv> dumps_indent 0 v @ [CHR 0x0A]"

lemma persist_files_grows:
  "persist_files d fs st = (res, st') \<Longrightarrow> st \<subseteq>\<^sub>m st'"
proof (induction fs arbitrary: st)
  case (Cons f fs)
  obtain n v where f: "f = (n, v)" by (cases f)
  show ?case
  proof (cases "st (d, n) \<in> {None, Some (stored_text v)}")
    case True
    then have "\<not> st (d, n) \<notin> {None, Some (stored_text v)}" by blast
    then have "persist_files d fs (st((d, n) \<mapsto> stored_text v)) = (res, st')"
      using Cons.prems unfolding f persist_files.simps Let_def by (simp only: simp_thms if_False)
    from Cons.IH [OF this] have "st((d, n) \<mapsto> stored_text v) \<subseteq>\<^sub>m st'" .
    moreover have "st \<subseteq>\<^sub>m st((d, n) \<mapsto> stored_text v)" using True by (auto simp: map_le_def)
    ultimately show ?thesis by (rule map_le_trans [rotated])
  next
    case False
    then show ?thesis using Cons.prems by (simp add: f Let_def)
  qed
qed simp

lemma persist_files_frame:
  "persist_files d fs st = (res, st') \<Longrightarrow> (e, m) \<notin> Pair d ` fst ` set fs \<Longrightarrow> st' (e, m) = st (e, m)"
  by (induction fs arbitrary: st) (auto simp: Let_def split: if_splits)

lemma persist_files_outcome:
  assumes "distinct (map fst fs)"
  shows "fst (persist_files d fs st) = Inr () \<longleftrightarrow> (\<forall>(n, v) \<in> set fs. st (d, n) \<in> {None, Some (stored_text v)})"
  using assms
proof (induction fs arbitrary: st)
  case (Cons f fs)
  obtain n v where f: "f = (n, v)" by (cases f)
  have n: "n \<notin> fst ` set fs" and d: "distinct (map fst fs)" using Cons.prems by (simp_all add: f)
  show ?case
  proof (cases "st (d, n) \<in> {None, Some (stored_text v)}")
    case True
    define st2 where "st2 = st((d, n) \<mapsto> stored_text v)"
    have "st2 (d, m) = st (d, m)" if "(m, w) \<in> set fs" for m w
      using n that by (auto simp: st2_def image_iff)
    then have "(\<forall>(m, w) \<in> set fs. st2 (d, m) \<in> {None, Some (stored_text w)})
       \<longleftrightarrow> (\<forall>(m, w) \<in> set fs. st (d, m) \<in> {None, Some (stored_text w)})"
      by (intro ball_cong refl) auto
    moreover have "persist_files d (f # fs) st = persist_files d fs st2"
      unfolding f persist_files.simps Let_def st2_def using True by (simp only: simp_thms if_False)
    ultimately show ?thesis using Cons.IH [OF d, of st2] True by (simp add: f)
  next
    case False
    then show ?thesis by (simp add: f Let_def)
  qed
qed simp

lemma persist_files_stored:
  assumes "distinct (map fst fs)" "persist_files d fs st = (Inr (), st')" "(n, v) \<in> set fs"
  shows "st' (d, n) = Some (stored_text v)"
  using assms
proof (induction fs arbitrary: st)
  case (Cons f fs)
  obtain m w where f: "f = (m, w)" by (cases f)
  have run: "persist_files d fs (st((d, m) \<mapsto> stored_text w)) = (Inr (), st')"
    using Cons.prems(2) by (simp add: f Let_def split: if_splits)
  show ?case
  proof (cases "(n, v) = (m, w)")
    case True
    have "(st((d, m) \<mapsto> stored_text w)) \<subseteq>\<^sub>m st'" by (rule persist_files_grows [OF run])
    then show ?thesis using True by (simp add: map_le_def)
  next
    case False
    then have "(n, v) \<in> set fs" using Cons.prems(3) by (auto simp: f)
    with Cons.IH [OF _ run] Cons.prems(1) show ?thesis by simp
  qed
qed simp

lemma persist_files_known:
  assumes "\<forall>(n, v) \<in> set fs. st (d, n) = Some (stored_text v)"
  shows "persist_files d fs st = (Inr (), st)"
  using assms
proof (induction fs)
  case (Cons f fs)
  obtain n v where f: "f = (n, v)" by (cases f)
  have "st (d, n) = Some (stored_text v)" using Cons.prems by (simp add: f)
  moreover from this have "st((d, n) \<mapsto> stored_text v) = st" by (rule map_upd_triv)
  ultimately show ?case using Cons by (simp add: f Let_def)
qed simp

lemma artifact_files_distinct: "distinct (map fst (artifact_files b))"
  by (simp add: artifact_files_def)

lemma artifact_persist_cases:
  "artifact_persist b st = (res, st') \<Longrightarrow>
     (\<exists>e. res = Inl e \<and> persist_files (bundle_digest b) (artifact_files b) st = (Inl e, st'))
   \<or> (res = Inr (bundle_digest b, bundle_digest b @ ''/run-artifact-bundle.json'')
       \<and> persist_files (bundle_digest b) (artifact_files b) st = (Inr (), st'))"
  by (auto simp: artifact_persist_def split: prod.splits sum.splits)


text \<open>A small bundle: an empty graph, the replay manifest and the scorecard of the small input.\<close>

definition sample_stored :: artifact_bundle where
  "sample_stored = \<lparr>ab_run_id = ''r'', ab_authority = sample_authority,
     ab_graph = \<lparr>eg_run_id = ''r'', eg_nodes = [], eg_edges = [], graph_digest = text_digest ''g''\<rparr>,
     ab_replay = make_replay sample_authority ''r'' (text_digest ''p'') (text_digest ''skill'') (text_digest ''policy'')
       (JArr []) None ''fake'' ''1'' ''image'' False None,
     ab_trace = make_trace ''r'' (text_digest ''p'') [],
     ab_scorecard = make_scorecard sample_authority ''r'' [] (text_digest ''p'') tiny_evidence (text_digest ''e'')
       tiny_verdict (text_digest ''v'') [tiny_check] ReplayPartial [],
     ab_plan_digest = text_digest ''p'', ab_evidence_digest = text_digest ''e'',
     ab_verdict_digest = text_digest ''v'', bundle_digest = text_digest ''b''\<rparr>"


end
