(* ===== verification/Base64.thy ===== *)
theory Base64
  imports Json
begin

text \<open>
  The \<open>base64\<close> module as the sources use it: \<open>b64encode\<close>, and the scanner \<open>binascii.a2b_base64\<close>
  in its strict form (\<open>b64decode(..., validate=True)\<close>) and its lenient form (the default), which
  skips characters outside the alphabet. The scanner keeps the position in the group of four, the
  number of padding characters seen and the bits left over from the last digit. The last section is
  \<open>bytes.decode("utf-8")\<close>.
\<close>

section \<open>Encoding\<close>

definition std_digit :: "nat \<Rightarrow> char" where
  "std_digit n = ''ABCDEFGHIJKLMNOPQRSTUVWXYZabcdefghijklmnopqrstuvwxyz0123456789+/'' ! n"

fun b64_encode :: "bytes \<Rightarrow> string" where
  "b64_encode [] = []"
| "b64_encode [a] = (let n = of_char a * 16 in [std_digit (n div 64), std_digit (n mod 64), CHR ''='', CHR ''=''])"
| "b64_encode [a, b] = (let n = (of_char a * 256 + of_char b) * 4
     in [std_digit (n div 4096), std_digit (n div 64 mod 64), std_digit (n mod 64), CHR ''=''])"
| "b64_encode (a # b # c # r) = (let n = (of_char a * 256 + of_char b) * 256 + of_char c
     in std_digit (n div 262144) # std_digit (n div 4096 mod 64) # std_digit (n div 64 mod 64)
        # std_digit (n mod 64) # b64_encode r)"

text \<open>\<open>altchars=b"-_"\<close>: the URL-safe alphabet in both directions.\<close>

definition to_url :: "char \<Rightarrow> char" where
  "to_url c = (if c = CHR ''+'' then CHR ''-'' else if c = CHR ''/'' then CHR ''_'' else c)"

definition from_url :: "char \<Rightarrow> char" where
  "from_url c = (if c = CHR ''-'' then CHR ''+'' else if c = CHR ''_'' then CHR ''/'' else c)"

definition urlsafe_b64encode :: "bytes \<Rightarrow> string" where
  "urlsafe_b64encode bs = map to_url (b64_encode bs)"

section \<open>Decoding\<close>

definition b64_value :: "char \<Rightarrow> nat option" where
  "b64_value c = (let n = (of_char c :: nat) in
     if 65 \<le> n \<and> n \<le> 90 then Some (n - 65)
     else if 97 \<le> n \<and> n \<le> 122 then Some (n - 71)
     else if 48 \<le> n \<and> n \<le> 57 then Some (n + 4)
     else if n = 43 then Some 62 else if n = 47 then Some 63 else None)"

definition put :: "nat \<Rightarrow> bytes option \<Rightarrow> bytes option" where
  "put n = map_option (\<lambda>bs. char_of n # bs)"

fun a2b :: "bool \<Rightarrow> bool \<Rightarrow> nat \<Rightarrow> nat \<Rightarrow> nat \<Rightarrow> string \<Rightarrow> bytes option" where
  "a2b strict padded q pads left [] = (if q = 0 then Some [] else None)"
| "a2b strict padded q pads left (c # cs) =
     (if c = CHR ''='' then
        (if 2 \<le> q \<and> 4 \<le> q + pads + 1 then (if strict \<and> cs \<noteq> [] then None else Some [])
         else a2b strict True q (if 2 \<le> q then pads + 1 else pads) left cs)
      else (case b64_value c of
          None \<Rightarrow> if strict then None else a2b strict padded q pads left cs
        | Some d \<Rightarrow>
            if strict \<and> padded then None
            else if q = 0 then a2b strict padded 1 0 d cs
            else if q = 1 then put (left * 4 + d div 16) (a2b strict padded 2 0 (d mod 16) cs)
            else if q = 2 then put (left * 16 + d div 4) (a2b strict padded 3 0 (d mod 4) cs)
            else put (left * 64 + d) (a2b strict padded 0 0 0 cs)))"

definition b64_decode_strict :: "string \<Rightarrow> bytes option" where
  "b64_decode_strict s = (if starts_with s ''='' then None else a2b True False 0 0 0 s)"

definition b64_decode_lenient :: "string \<Rightarrow> bytes option" where
  "b64_decode_lenient s = a2b False False 0 0 0 s"

section \<open>Round trip\<close>

definition alphabet :: string where
  "alphabet = ''ABCDEFGHIJKLMNOPQRSTUVWXYZabcdefghijklmnopqrstuvwxyz0123456789+/''"

lemma alphabet_values: "map b64_value alphabet = map Some [0..<64]"
  by code_simp

lemma b64_value_digit: "n < 64 \<Longrightarrow> b64_value (std_digit n) = Some n"
proof -
  assume n: "n < 64"
  have len: "length alphabet = 64" by (simp add: alphabet_def)
  have "map b64_value alphabet ! n = map Some [0..<64] ! n" by (simp only: alphabet_values)
  then show ?thesis using n len by (simp add: std_digit_def alphabet_def [symmetric])
qed

lemma std_digit_not_pad: "n < 64 \<Longrightarrow> std_digit n \<noteq> CHR ''=''"
proof
  assume "n < 64" "std_digit n = CHR ''=''"
  then have "b64_value (CHR ''='') = Some n" using b64_value_digit [of n] by simp
  moreover have "b64_value (CHR ''='') = None" by code_simp
  ultimately show False by simp
qed

text \<open>One step of the scanner on a digit of the alphabet.\<close>

lemma a2b_digit:
  assumes "n < 64" "\<not> (strict \<and> padded)"
  shows "a2b strict padded q pads left (std_digit n # cs) =
    (if q = 0 then a2b strict padded 1 0 n cs
     else if q = 1 then put (left * 4 + n div 16) (a2b strict padded 2 0 (n mod 16) cs)
     else if q = 2 then put (left * 16 + n div 4) (a2b strict padded 3 0 (n mod 4) cs)
     else put (left * 64 + n) (a2b strict padded 0 0 0 cs))"
proof -
  have "b64_value (std_digit n) = Some n" "std_digit n \<noteq> CHR ''=''"
    using assms(1) by (rule b64_value_digit, rule std_digit_not_pad)
  then show ?thesis unfolding a2b.simps by (simp only: if_False option.case assms(2))
qed

lemma a2b_end: "a2b strict padded 0 pads left [] = Some []"
  by simp

lemma a2b_pad: "a2b strict padded 2 0 left ''=='' = Some []" "a2b strict padded 3 0 left ''='' = Some []"
  by simp_all

lemmas a2b_steps = a2b_digit a2b_end a2b_pad

declare a2b.simps [simp del]

lemma put_simps [simp]: "put n (Some bs) = Some (char_of n # bs)" "put n None = None"
  by (simp_all add: put_def)

lemma of_char_256: "(of_char c :: nat) < 256"
  by simp

lemma div_by: "\<lbrakk>(n::nat) = k * x + r; r < k\<rbrakk> \<Longrightarrow> n div k = x"
  by simp

lemma mod_by: "\<lbrakk>(n::nat) = k * x + r; r < k\<rbrakk> \<Longrightarrow> n mod k = r"
  by simp

lemma byte_split3:
  fixes a b c :: nat
  assumes "a < 256" "b < 256" "c < 256" "n = (a * 256 + b) * 256 + c"
  shows "n div 262144 < 64"
    and "n div 262144 * 4 + n div 4096 mod 64 div 16 = a"
    and "n div 4096 mod 64 mod 16 * 16 + n div 64 mod 64 div 4 = b"
    and "n div 64 mod 64 mod 4 * 64 + n mod 64 = c"
proof -
  obtain ah al where a: "a = 4 * ah + al" "al < 4" "ah < 64"
    using assms(1) by (intro that [of "a div 4" "a mod 4"]) auto
  obtain bh bl where b: "b = 16 * bh + bl" "bl < 16" "bh < 16"
    using assms(2) by (intro that [of "b div 16" "b mod 16"]) auto
  obtain ch cl where c: "c = 64 * ch + cl" "cl < 64" "ch < 4"
    using assms(3) by (intro that [of "c div 64" "c mod 64"]) auto
  have le: "al \<le> 3" "bl \<le> 15" "bh \<le> 15" "cl \<le> 63" "ch \<le> 3" using a(2) b(2,3) c(2,3) by simp_all
  have e: "n = 262144 * ah + (65536 * al + 4096 * bh + 256 * bl + 64 * ch + cl)"
    unfolding assms(4) a(1) b(1) c(1) by simp
  have n: "n div 262144 = ah" "n div 4096 = 64 * ah + (16 * al + bh)"
    "n div 64 = 64 * (64 * ah + 16 * al + bh) + (4 * bl + ch)" "n mod 64 = cl"
    unfolding e
    subgoal by (rule div_by [where r = "65536 * al + 4096 * bh + 256 * bl + 64 * ch + cl"], simp add: algebra_simps) (use le in linarith)
    subgoal by (rule div_by [where r = "256 * bl + 64 * ch + cl"], simp add: algebra_simps) (use le in linarith)
    subgoal by (rule div_by [where r = cl], simp add: algebra_simps) (use le in linarith)
    subgoal by (rule mod_by [where x = "4096 * ah + 1024 * al + 64 * bh + 4 * bl + ch"], simp add: algebra_simps) (use le in linarith)
    done
  have m: "(64 * ah + (16 * al + bh)) mod 64 = 16 * al + bh"
    "(64 * (64 * ah + 16 * al + bh) + (4 * bl + ch)) mod 64 = 4 * bl + ch"
    by (rule mod_by [OF refl], use le in linarith)+
  show "n div 262144 < 64" "n div 262144 * 4 + n div 4096 mod 64 div 16 = a"
    "n div 4096 mod 64 mod 16 * 16 + n div 64 mod 64 div 4 = b" "n div 64 mod 64 mod 4 * 64 + n mod 64 = c"
    unfolding n m using a b c by simp_all
qed

text \<open>The two shorter groups are the first digits of a full group with zero bytes.\<close>

lemma b64_roundtrip: "a2b strict False 0 pads left (b64_encode bs) = Some bs"
proof (induction bs arbitrary: pads left rule: b64_encode.induct)
  case (2 a)
  note s = byte_split3 [OF of_char_256 [of a] of_char_256 [of "CHR 0x00"] of_char_256 [of "CHR 0x00"] refl]
  have e: "((of_char a * 256 + of_char (CHR 0x00)) * 256 + of_char (CHR 0x00)) div 262144 = (of_char a * 16 div 64 :: nat)"
    "((of_char a * 256 + of_char (CHR 0x00)) * 256 + of_char (CHR 0x00)) div 4096 = (of_char a * 16 :: nat)"
    by (simp_all add: div_mult2_eq [of _ 4096, symmetric])
  show ?case using s(1,2) unfolding e by (simp add: Let_def a2b_steps)
next
  case (3 a b)
  note s = byte_split3 [OF of_char_256 [of a] of_char_256 [of b] of_char_256 [of "CHR 0x00"] refl]
  let ?n = "(of_char a * 256 + of_char b) * 4 :: nat"
  have e: "((of_char a * 256 + of_char b) * 256 + of_char (CHR 0x00)) div 262144 = ?n div 4096"
    "((of_char a * 256 + of_char b) * 256 + of_char (CHR 0x00)) div 4096 = ?n div 64"
    "((of_char a * 256 + of_char b) * 256 + of_char (CHR 0x00)) div 64 = ?n" by (simp_all add: div_mult2_eq)
  show ?case using s(1,2,3) unfolding e by (simp only: b64_encode.simps Let_def) (simp add: a2b_steps)
next
  case (4 a b c r)
  define n :: nat where "n = (of_char a * 256 + of_char b) * 256 + of_char c"
  note s = byte_split3 [OF of_char_256 of_char_256 of_char_256 n_def]
  show ?case unfolding b64_encode.simps Let_def n_def [symmetric] by (simp add: a2b_steps s 4)
qed (simp add: a2b_end)

lemma b64_encode_hd: "bs \<noteq> [] \<Longrightarrow> \<not> starts_with (b64_encode bs) ''=''"
proof (cases bs rule: b64_encode.cases)
  case (2 a)
  have "of_char a * 16 div 64 < (64 :: nat)" using of_char_256 [of a] by (simp add: div_less_iff_less_mult)
  then show ?thesis using 2 std_digit_not_pad by (simp add: Let_def starts_with_def)
next
  case (3 a b)
  have "of_char a \<le> (255 :: nat)" "of_char b \<le> (255 :: nat)" using of_char_256 [of a] of_char_256 [of b] by linarith+
  then have "1024 * of_char a + 4 * of_char b < (262144 :: nat)" by linarith
  then have "(of_char a * 256 + of_char b) * 4 div 4096 < (64 :: nat)"
    by (simp add: div_less_iff_less_mult algebra_simps)
  then show ?thesis using 3 std_digit_not_pad by (simp add: Let_def starts_with_def)
next
  case (4 a b c r)
  define n :: nat where "n = (of_char a * 256 + of_char b) * 256 + of_char c"
  have "std_digit (n div 262144) \<noteq> CHR ''=''"
    by (intro std_digit_not_pad byte_split3(1) [OF of_char_256 of_char_256 of_char_256 n_def])
  then show ?thesis unfolding 4 b64_encode.simps Let_def n_def [symmetric] by (simp add: starts_with_def)
qed simp

lemma b64_decode_encode [simp]: "b64_decode_strict (b64_encode bs) = Some bs"
proof (cases "bs = []")
  case False
  then show ?thesis by (simp add: b64_decode_strict_def b64_encode_hd b64_roundtrip)
qed (simp add: b64_decode_strict_def starts_with_def a2b_end)

lemma b64_encode_inj: "b64_encode a = b64_encode b \<longleftrightarrow> a = b"
  by (metis b64_decode_encode option.inject)

lemma b64_encode_empty [simp]: "b64_encode bs = [] \<longleftrightarrow> bs = []" "[] = b64_encode bs \<longleftrightarrow> bs = []"
  using b64_encode_inj [of bs "[]"] by auto

section \<open>UTF-8\<close>

text \<open>
  \<open>bytes.decode("utf-8")\<close> on the Latin-1 range: a byte below 128, or one of the two leading bytes of
  that range with a continuation byte. Any other sequence, whether it is malformed or encodes a
  character beyond U+00FF, reads as undecodable; the callers compare the decoded value with an ASCII
  encoding afterwards and reject it in both cases.
\<close>

fun utf8_strict :: "bytes \<Rightarrow> string option" where
  "utf8_strict [] = Some []"
| "utf8_strict (b # bs) = (let n = (of_char b :: nat) in
     if n < 128 then map_option ((#) b) (utf8_strict bs)
     else if n = 194 \<or> n = 195 then
       (case bs of [] \<Rightarrow> None
        | d # r \<Rightarrow> let m = (of_char d :: nat) in
            if 128 \<le> m \<and> m < 192
            then map_option ((#) (char_of (64 * (n - 192) + (m - 128)))) (utf8_strict r) else None)
     else None)"

lemma of_char_small: "n < 256 \<Longrightarrow> (of_char (char_of n :: char) :: nat) = n"
  by simp

lemma utf8_strict_char: "utf8_strict (utf8_char c @ r) = map_option ((#) c) (utf8_strict r)"
proof (cases "(of_char c :: nat) < 128")
  case True
  then show ?thesis by (simp add: utf8_char_def Let_def)
next
  case False
  define n :: nat where "n = of_char c"
  have n: "128 \<le> n" "n < 256" using False by (simp_all add: n_def)
  have "2 \<le> n div 64" "n div 64 < 4"
    using n by (simp_all add: less_eq_div_iff_mult_less_eq div_less_iff_less_mult)
  then have d: "n div 64 = 2 \<or> n div 64 = 3" by linarith
  have m: "n mod 64 < 64" by simp
  have e: "64 * (n div 64) + n mod 64 = n" by simp
  have c: "char_of n = c" by (simp add: n_def)
  define l d :: char where "l = char_of (192 + n div 64)" and "d = char_of (128 + n mod 64)"
  have lead: "of_char l = 192 + n div 64" "of_char d = 128 + n mod 64"
    unfolding l_def d_def by (rule of_char_small, use d m in linarith)+
  have u: "utf8_char c = [l, d]" using False by (simp add: utf8_char_def Let_def n_def l_def d_def)
  show ?thesis using d
  proof
    assume n: "n div 64 = 2"
    then have "n < 192" using e m by linarith
    then show ?thesis using e n by (simp add: u lead c)
  next
    assume n: "n div 64 = 3"
    then have "n < 256" using e m by linarith
    then show ?thesis using e n m by (simp add: u lead c)
  qed
qed

lemma utf8_strict_utf8 [simp]: "utf8_strict (utf8 s) = Some s"
proof -
  have "utf8_strict (utf8 s @ []) = Some s"
    unfolding utf8_def by (induction s) (simp_all only: list.map concat.simps append_assoc utf8_strict_char, simp_all)
  then show ?thesis by simp
qed

lemma utf8_inj: "utf8 a = utf8 b \<longleftrightarrow> a = b"
  by (metis utf8_strict_utf8 option.inject)

end
