(* ===== verification/Attestation.thy ===== *)
theory Attestation
  imports RunArtifacts JsonParser Base64
begin

text \<open>
  Signed attestations of run artifact bundles: the contracts of \<open>attestation_contract.py\<close> (identity,
  statement, DSSE envelope, trust policy, verification receipt) with their validators, and
  \<open>attestation_crypto.py\<close> (pre-authentication encoding, statements, signing, verification and key
  files).

  Ed25519 and PEM belong to the package \<open>cryptography\<close> and are the record \<open>ed25519\<close> of functions;
  pydantic's reading of a JSON value into a statement is the argument \<open>dec\<close>. What the code relies on
  is stated by \<open>ed25519_laws\<close> and \<open>statement_decoder\<close>.
\<close>

section \<open>Identity\<close>

definition is_slug_char :: "char \<Rightarrow> bool" where
  "is_slug_char c \<longleftrightarrow> (let n = (of_char c :: nat) in (65 \<le> n \<and> n \<le> 90) \<or> (97 \<le> n \<and> n \<le> 122)
     \<or> (48 \<le> n \<and> n \<le> 57)) \<or> c \<in> set ''_.-''"

definition is_slug :: "string \<Rightarrow> bool" where
  "is_slug s \<longleftrightarrow> s \<noteq> [] \<and> list_all is_slug_char s"

text \<open>The pattern \<open>slug/slug\<close>.\<close>

definition is_repository :: "string \<Rightarrow> bool" where
  "is_repository s = (case split_on CHR ''/'' s of [a, b] \<Rightarrow> is_slug a \<and> is_slug b | _ \<Rightarrow> False)"

text \<open>The pattern \<open>slug/slug/path@commit\<close>, where the path may contain slashes.\<close>

definition is_workflow_ref :: "string \<Rightarrow> bool" where
  "is_workflow_ref s = (case split_on CHR ''@'' s of
     [w, h] \<Rightarrow> is_hex 40 h \<and> (case split_on CHR ''/'' w of
         a # b # rest \<Rightarrow> is_slug a \<and> is_slug b \<and> rest \<noteq> [] \<and> rest \<noteq> [[]] \<and> list_all (list_all is_slug_char) rest
       | _ \<Rightarrow> False)
   | _ \<Rightarrow> False)"

record attester_identity =
  at_issuer :: string
  at_subject :: string
  at_repository :: string
  at_workflow_ref :: string
  at_commit :: string
  at_environment :: "string option"

definition attester_json :: "attester_identity \<Rightarrow> json" where
  "attester_json i = JObj [(''issuer'', JStr (at_issuer i)), (''subject'', JStr (at_subject i)),
     (''repository'', JStr (at_repository i)), (''workflow_ref'', JStr (at_workflow_ref i)),
     (''commit_sha'', JStr (at_commit i)), (''environment'', opt_str (at_environment i))]"

definition validate_attester :: "attester_identity \<Rightarrow> attester_identity res" where
  "validate_attester i = guards
     [(at_issuer i = [], ValidationError ''issuer''), (at_subject i = [], ValidationError ''subject''),
      (length (at_repository i) < 3 \<or> \<not> is_repository (at_repository i), ValidationError ''repository''),
      (\<not> is_workflow_ref (at_workflow_ref i), ValidationError ''workflow_ref''),
      (\<not> is_hex 40 (at_commit i), ValidationError ''commit_sha''),
      (at_environment i = Some [], ValidationError ''environment''),
      (\<not> starts_with (at_workflow_ref i) (at_repository i @ ''/.github/workflows/''),
        ValidationError ''workflow_ref must name an immutable workflow in identity.repository''),
      (last (split_on CHR ''@'' (at_workflow_ref i)) \<noteq> at_commit i,
        ValidationError ''workflow_ref commit must match identity.commit_sha'')] i"

section \<open>The statement\<close>

record statement_subject =
  ss_digest :: "string dict"

definition subject_json :: "statement_subject \<Rightarrow> json" where
  "subject_json s = JObj [(''name'', JStr ''run-artifact-bundle''),
     (''digest'', JObj (map (\<lambda>(k, v). (k, JStr v)) (ss_digest s)))]"

definition subject_sha256 :: "statement_subject \<Rightarrow> string" where
  "subject_sha256 s = (case map_of (ss_digest s) ''sha256'' of None \<Rightarrow> [] | Some d \<Rightarrow> d)"

definition validate_subject :: "statement_subject \<Rightarrow> statement_subject res" where
  "validate_subject s = guards
     [(dict_keys (ss_digest s) \<noteq> [''sha256''],
        ValidationError ''statement subject must contain exactly one sha256 digest''),
      (\<not> is_hex64 (subject_sha256 s), ValidationError ''statement subject digest must be lowercase SHA-256'')] s"

record artifact_predicate =
  ap_bundle_digest :: string
  ap_authority_digest :: string
  ap_plan_digest :: string
  ap_evidence_digest :: string
  ap_verdict_digest :: string
  ap_graph_digest :: string
  ap_replay_digest :: string
  ap_trace_digest :: string
  ap_scorecard_digest :: string
  ap_rank_eligible :: bool
  ap_outcome :: string
  ap_gate :: string
  ap_identity :: attester_identity

definition predicate_digests :: "artifact_predicate \<Rightarrow> (string \<times> string) list" where
  "predicate_digests p = [(''bundle_digest'', ap_bundle_digest p), (''authority_digest'', ap_authority_digest p),
     (''plan_digest'', ap_plan_digest p), (''evidence_digest'', ap_evidence_digest p),
     (''verdict_digest'', ap_verdict_digest p), (''graph_digest'', ap_graph_digest p),
     (''replay_digest'', ap_replay_digest p), (''trace_digest'', ap_trace_digest p),
     (''scorecard_digest'', ap_scorecard_digest p)]"

definition predicate_json :: "artifact_predicate \<Rightarrow> json" where
  "predicate_json p = JObj ([(''schema_version'', JStr ''1.0'')] @ map (\<lambda>(k, d). (k, JStr d)) (predicate_digests p)
     @ [(''rank_eligible'', JBool (ap_rank_eligible p)), (''outcome_status'', JStr (ap_outcome p)),
        (''security_gate'', JStr (ap_gate p)), (''identity'', attester_json (ap_identity p))])"

definition validate_predicate :: "artifact_predicate \<Rightarrow> artifact_predicate res" where
  "validate_predicate p = rbind (validate_attester (ap_identity p)) (\<lambda>_. guards
     (map (\<lambda>(k, d). (\<not> is_hex64 d, ValidationError k)) (predicate_digests p) @
     [(ap_outcome p \<notin> {''pass'', ''fail''}, ValidationError ''outcome_status''),
      (ap_gate p \<notin> {''pass'', ''fail''}, ValidationError ''security_gate''),
      (ap_rank_eligible p \<and> (ap_outcome p \<noteq> ''pass'' \<or> ap_gate p \<noteq> ''pass''),
        ValidationError ''rank-eligible predicate must preserve a passing bundle state'')]) p)"

record artifact_statement =
  as_subjects :: "statement_subject list"
  as_predicate :: artifact_predicate

definition statement_json :: "artifact_statement \<Rightarrow> json" where
  "statement_json s = JObj [(''_type'', JStr ''https://in-toto.io/Statement/v1''),
     (''subject'', JArr (map subject_json (as_subjects s))),
     (''predicateType'', JStr ''https://skill-native.dev/attestation/run-artifact/v1''),
     (''predicate'', predicate_json (as_predicate s))]"

definition validate_statement :: "artifact_statement \<Rightarrow> artifact_statement res" where
  "validate_statement s = rbind (traverse validate_subject (as_subjects s)) (\<lambda>_.
     rbind (validate_predicate (as_predicate s)) (\<lambda>_. guards
     [(length (as_subjects s) \<noteq> 1, ValidationError ''subject''),
      (subject_sha256 (hd (as_subjects s)) \<noteq> ap_bundle_digest (as_predicate s),
        ValidationError ''statement subject does not match predicate bundle digest'')] s))"

definition canonical_statement_bytes :: "artifact_statement \<Rightarrow> bytes" where
  "canonical_statement_bytes s = utf8 (dumps (statement_json s))"

definition statement_digest :: "artifact_statement \<Rightarrow> string" where
  "statement_digest s = sha256 (canonical_statement_bytes s)"

section \<open>The envelope\<close>

text \<open>\<open>_decode_canonical_base64\<close>; inside a pydantic validator its error becomes a validation error.\<close>

definition decode_canonical_base64 :: "string \<Rightarrow> string \<Rightarrow> bytes res" where
  "decode_canonical_base64 v name = (case b64_decode_strict v of
     None \<Rightarrow> Inl (ValidationError (name @ '' must be canonical base64''))
   | Some raw \<Rightarrow> if b64_encode raw \<noteq> v
       then Inl (ValidationError (name @ '' must use canonical padded base64'')) else Inr raw)"

record dsse_signature =
  sg_keyid :: string
  sg_sig :: string

definition signature_json :: "dsse_signature \<Rightarrow> json" where
  "signature_json g = JObj [(''keyid'', JStr (sg_keyid g)), (''sig'', JStr (sg_sig g))]"

definition validate_signature :: "dsse_signature \<Rightarrow> dsse_signature res" where
  "validate_signature g = rbind (guards [(\<not> is_hex64 (sg_keyid g), ValidationError ''keyid''),
       (sg_sig g = [], ValidationError ''sig'')] ()) (\<lambda>_.
     rbind (decode_canonical_base64 (sg_sig g) ''signature'') (\<lambda>raw. guards
       [(length raw \<noteq> 64, ValidationError ''Ed25519 signature must be exactly 64 bytes'')] g))"

record dsse_envelope =
  de_payload :: string
  de_signatures :: "dsse_signature list"

definition dsse_payload_type :: string where
  "dsse_payload_type = ''application/vnd.in-toto+json''"

definition envelope_json :: "dsse_envelope \<Rightarrow> json" where
  "envelope_json e = JObj [(''payloadType'', JStr dsse_payload_type), (''payload'', JStr (de_payload e)),
     (''signatures'', JArr (map signature_json (de_signatures e)))]"

definition validate_envelope ::
  "(json \<Rightarrow> artifact_statement res) \<Rightarrow> dsse_envelope \<Rightarrow> dsse_envelope res" where
  "validate_envelope dec e = rbind (traverse validate_signature (de_signatures e)) (\<lambda>_.
     rbind (guards [(de_payload e = [], ValidationError ''payload''),
       (length (de_signatures e) \<noteq> 1, ValidationError ''signatures'')] ()) (\<lambda>_.
     rbind (decode_canonical_base64 (de_payload e) ''payload'') (\<lambda>raw.
       case Option.bind (utf8_strict raw) loads of
         None \<Rightarrow> Inl (ValidationError ''DSSE payload must be UTF-8 JSON'')
       | Some v \<Rightarrow> rbind (dec v) (\<lambda>s. guards
           [(raw \<noteq> canonical_statement_bytes s,
             ValidationError ''DSSE statement payload must use canonical JSON encoding'')] e))))"

definition envelope_digest :: "dsse_envelope \<Rightarrow> string" where
  "envelope_digest e = canonical_digest (envelope_json e)"

text \<open>\<open>parse_statement\<close> on an envelope: the payload is decoded again without the canonical check.\<close>

definition parse_statement ::
  "(json \<Rightarrow> artifact_statement res) \<Rightarrow> dsse_envelope \<Rightarrow> artifact_statement res" where
  "parse_statement dec e = (case b64_decode_strict (de_payload e) of
     None \<Rightarrow> Inl (ValueError ''Incorrect padding'')
   | Some raw \<Rightarrow> (case Option.bind (utf8_strict raw) loads of
         None \<Rightarrow> Inl (AttestationError ''DSSE payload is not a valid statement'')
       | Some v \<Rightarrow> dec v))"

text \<open>Decoding of a statement: it reads what \<open>model_dump\<close> wrote, and returns validated statements.\<close>

definition statement_decoder :: "(json \<Rightarrow> artifact_statement res) \<Rightarrow> bool" where
  "statement_decoder dec \<longleftrightarrow> (\<forall>s. validate_statement s = Inr s \<longrightarrow> dec (canon (statement_json s)) = Inr s)
     \<and> (\<forall>v s. dec v = Inr s \<longrightarrow> validate_statement s = Inr s)"

section \<open>Trust policies\<close>

record trust_policy =
  tp_id :: string
  tp_keys :: "string list"
  tp_issuer :: "string option"
  tp_subject :: "string option"
  tp_repository :: "string option"
  tp_workflow_ref :: "string option"
  tp_commit :: "string option"
  tp_require_rank :: bool
  tp_digest :: string

definition trust_payload :: "trust_policy \<Rightarrow> json dict" where
  "trust_payload p = [(''schema_version'', JStr ''1.0''), (''policy_id'', JStr (tp_id p)),
     (''allowed_key_ids'', strs (tp_keys p)), (''expected_issuer'', opt_str (tp_issuer p)),
     (''expected_subject'', opt_str (tp_subject p)), (''expected_repository'', opt_str (tp_repository p)),
     (''expected_workflow_ref'', opt_str (tp_workflow_ref p)), (''expected_commit_sha'', opt_str (tp_commit p)),
     (''require_rank_eligible'', JBool (tp_require_rank p))]"

definition validate_trust_policy :: "trust_policy \<Rightarrow> trust_policy res" where
  "validate_trust_policy p = guards
     [(\<not> is_identity_id (tp_id p), ValidationError ''policy_id''),
      (tp_keys p = [], ValidationError ''allowed_key_ids''),
      (tp_issuer p = Some [], ValidationError ''expected_issuer''),
      (tp_subject p = Some [], ValidationError ''expected_subject''),
      (case tp_repository p of None \<Rightarrow> False | Some r \<Rightarrow> length r < 3, ValidationError ''expected_repository''),
      (tp_workflow_ref p = Some [], ValidationError ''expected_workflow_ref''),
      (case tp_commit p of None \<Rightarrow> False | Some c \<Rightarrow> \<not> is_hex 40 c, ValidationError ''expected_commit_sha''),
      (\<not> is_hex64 (tp_digest p), ValidationError ''policy_digest''),
      (tp_keys p \<noteq> sorted_set (tp_keys p), ValidationError ''allowed_key_ids must be sorted and unique''),
      (\<not> list_all is_hex64 (tp_keys p), ValidationError ''allowed key IDs must be lowercase SHA-256 digests''),
      (canonical_digest (JObj (trust_payload p)) \<noteq> tp_digest p,
        ValidationError ''policy digest does not match policy payload'')] p"

definition build_trust_policy ::
  "string \<Rightarrow> string list \<Rightarrow> string option \<Rightarrow> string option \<Rightarrow> string option \<Rightarrow> string option \<Rightarrow> string option
    \<Rightarrow> bool \<Rightarrow> trust_policy res" where
  "build_trust_policy pid keys iss sub repo wref com rank =
     (let p = \<lparr>tp_id = pid, tp_keys = sorted_set keys, tp_issuer = iss, tp_subject = sub, tp_repository = repo,
               tp_workflow_ref = wref, tp_commit = com, tp_require_rank = rank, tp_digest = []\<rparr>
      in validate_trust_policy (p\<lparr>tp_digest := canonical_digest (JObj (trust_payload p))\<rparr>))"

section \<open>Verification receipts\<close>

record attestation_receipt =
  av_bundle_digest :: string
  av_statement_digest :: string
  av_envelope_digest :: string
  av_key_id :: string
  av_policy_digest :: string
  av_identity :: attester_identity
  av_rank_eligible :: bool
  av_outcome :: string
  av_gate :: string
  av_checks :: "string list"
  av_digest :: string

definition attestation_payload :: "attestation_receipt \<Rightarrow> json dict" where
  "attestation_payload r = [(''schema_version'', JStr ''1.0''), (''bundle_digest'', JStr (av_bundle_digest r)),
     (''statement_digest'', JStr (av_statement_digest r)), (''envelope_digest'', JStr (av_envelope_digest r)),
     (''key_id'', JStr (av_key_id r)), (''policy_digest'', JStr (av_policy_digest r)),
     (''identity'', attester_json (av_identity r)), (''rank_eligible'', JBool (av_rank_eligible r)),
     (''outcome_status'', JStr (av_outcome r)), (''security_gate'', JStr (av_gate r)),
     (''checks'', strs (av_checks r)), (''passed'', JBool True)]"

definition validate_attestation_receipt :: "attestation_receipt \<Rightarrow> attestation_receipt res" where
  "validate_attestation_receipt r = rbind (validate_attester (av_identity r)) (\<lambda>_. guards
     [(\<not> is_hex64 (av_bundle_digest r), ValidationError ''bundle_digest''),
      (\<not> is_hex64 (av_statement_digest r), ValidationError ''statement_digest''),
      (\<not> is_hex64 (av_envelope_digest r), ValidationError ''envelope_digest''),
      (\<not> is_hex64 (av_key_id r), ValidationError ''key_id''),
      (\<not> is_hex64 (av_policy_digest r), ValidationError ''policy_digest''),
      (av_outcome r \<notin> {''pass'', ''fail''}, ValidationError ''outcome_status''),
      (av_gate r \<notin> {''pass'', ''fail''}, ValidationError ''security_gate''),
      (av_checks r = [], ValidationError ''checks''),
      (\<not> is_hex64 (av_digest r), ValidationError ''receipt_digest''),
      (av_checks r \<noteq> sorted_set (av_checks r), ValidationError ''verification checks must be sorted and unique''),
      (canonical_digest (JObj (attestation_payload r)) \<noteq> av_digest r,
        ValidationError ''verification receipt digest does not match receipt payload'')] r)"

section \<open>Signing\<close>

text \<open>The operations of \<open>cryptography\<close> on Ed25519 keys and their PEM files.\<close>

record ('sk, 'pk) ed25519 =
  ed_public :: "'sk \<Rightarrow> 'pk"
  ed_raw :: "'pk \<Rightarrow> bytes"
  ed_sign :: "'sk \<Rightarrow> bytes \<Rightarrow> bytes"
  ed_verify :: "'pk \<Rightarrow> bytes \<Rightarrow> bytes \<Rightarrow> bool"

definition ed25519_laws :: "('sk, 'pk) ed25519 \<Rightarrow> bool" where
  "ed25519_laws c \<longleftrightarrow> (\<forall>sk m. length (ed_sign c sk m) = 64 \<and> ed_verify c (ed_public c sk) (ed_sign c sk m) m)"

definition dsse_pae :: "string \<Rightarrow> bytes \<Rightarrow> bytes" where
  "dsse_pae t p = join '' '' [''DSSEv1'', show_nat (length (utf8 t)), utf8 t, show_nat (length p), p]"

definition key_id_for_public_key :: "('sk, 'pk) ed25519 \<Rightarrow> 'pk \<Rightarrow> string" where
  "key_id_for_public_key c pk = sha256 (ed_raw c pk)"

text \<open>\<open>_validate_bundle\<close> validates the bundle's own dump again and hides the error.\<close>

definition checked_bundle :: "artifact_bundle \<Rightarrow> artifact_bundle res" where
  "checked_bundle b = (case validate_bundle b of
     Inl _ \<Rightarrow> Inl (AttestationError ''Run Artifact Bundle failed digest/continuity validation'')
   | Inr b' \<Rightarrow> Inr b')"

definition predicate_of :: "artifact_bundle \<Rightarrow> attester_identity \<Rightarrow> artifact_predicate" where
  "predicate_of b i = \<lparr>ap_bundle_digest = bundle_digest b, ap_authority_digest = authority_digest (ab_authority b),
     ap_plan_digest = ab_plan_digest b, ap_evidence_digest = ab_evidence_digest b,
     ap_verdict_digest = ab_verdict_digest b, ap_graph_digest = graph_digest (ab_graph b),
     ap_replay_digest = replay_digest (ab_replay b), ap_trace_digest = trace_digest (ab_trace b),
     ap_scorecard_digest = scorecard_digest (ab_scorecard b), ap_rank_eligible = rank_eligible (ab_scorecard b),
     ap_outcome = outcome_status (ab_scorecard b), ap_gate = sc_security_gate (ab_scorecard b), ap_identity = i\<rparr>"

definition build_statement :: "artifact_bundle \<Rightarrow> attester_identity \<Rightarrow> artifact_statement res" where
  "build_statement b i = rbind (checked_bundle b) (\<lambda>b'. rbind (validate_attester i) (\<lambda>i'.
     rbind (validate_predicate (predicate_of b' i')) (\<lambda>p.
     rbind (validate_subject \<lparr>ss_digest = [(''sha256'', bundle_digest b')]\<rparr>) (\<lambda>s.
       validate_statement \<lparr>as_subjects = [s], as_predicate = p\<rparr>))))"

definition sign_bundle ::
  "('sk, 'pk) ed25519 \<Rightarrow> (json \<Rightarrow> artifact_statement res) \<Rightarrow> artifact_bundle \<Rightarrow> attester_identity \<Rightarrow> 'sk
    \<Rightarrow> dsse_envelope res" where
  "sign_bundle c dec b i sk = rbind (build_statement b i) (\<lambda>s.
     let payload = canonical_statement_bytes s;
         sig = ed_sign c sk (dsse_pae dsse_payload_type payload) in
     rbind (validate_signature \<lparr>sg_keyid = key_id_for_public_key c (ed_public c sk), sg_sig = b64_encode sig\<rparr>)
       (\<lambda>g. validate_envelope dec \<lparr>de_payload = b64_encode payload, de_signatures = [g]\<rparr>))"

section \<open>Verification\<close>

text \<open>\<open>_validate_statement_bundle_continuity\<close>: the fields in order, then the subject.\<close>

definition continuity_fields :: "artifact_predicate \<Rightarrow> artifact_predicate \<Rightarrow> (string \<times> bool) list" where
  "continuity_fields p q = map (\<lambda>((k, d), (_, e)). (k, d = e)) (zip (predicate_digests p) (predicate_digests q))
     @ [(''rank_eligible'', ap_rank_eligible p = ap_rank_eligible q), (''outcome_status'', ap_outcome p = ap_outcome q),
        (''security_gate'', ap_gate p = ap_gate q)]"

definition statement_continuity :: "artifact_statement \<Rightarrow> artifact_bundle \<Rightarrow> (bool \<times> exn) list" where
  "statement_continuity s b =
     map (\<lambda>(k, ok). (\<not> ok, AttestationError (''statement predicate '' @ k @ '' does not match Run Artifact Bundle'')))
       (continuity_fields (as_predicate s) (predicate_of b (ap_identity (as_predicate s))))
     @ [(subject_sha256 (hd (as_subjects s)) \<noteq> bundle_digest b,
          AttestationError ''statement subject does not match Run Artifact Bundle'')]"

text \<open>The identity the policy expects: a field it leaves open is not checked.\<close>

definition identity_fields :: "trust_policy \<Rightarrow> attester_identity \<Rightarrow> (string \<times> string option \<times> string) list" where
  "identity_fields p i = [(''issuer'', tp_issuer p, at_issuer i), (''subject'', tp_subject p, at_subject i),
     (''repository'', tp_repository p, at_repository i), (''workflow_ref'', tp_workflow_ref p, at_workflow_ref i),
     (''commit_sha'', tp_commit p, at_commit i)]"

fun check_identity :: "(string \<times> string option \<times> string) list \<Rightarrow> string list res" where
  "check_identity [] = Inr []"
| "check_identity ((f, expected, observed) # rest) = (case expected of
     None \<Rightarrow> check_identity rest
   | Some x \<Rightarrow> if observed \<noteq> x then Inl (AttestationError (''signed identity '' @ f @ '' does not match trust policy''))
       else rbind (check_identity rest) (\<lambda>cs. Inr ((''identity:'' @ f) # cs)))"

definition base_checks :: "string list" where
  "base_checks = [''bundle-continuity'', ''dsse-signature'', ''key-id-derived'', ''policy-key-authorized'',
     ''statement-predicate-continuity'']"

definition make_attestation_receipt ::
  "artifact_bundle \<Rightarrow> artifact_statement \<Rightarrow> dsse_envelope \<Rightarrow> string \<Rightarrow> trust_policy \<Rightarrow> string list \<Rightarrow> attestation_receipt" where
  "make_attestation_receipt b s e kid p checks =
     (let r = \<lparr>av_bundle_digest = bundle_digest b, av_statement_digest = statement_digest s,
               av_envelope_digest = envelope_digest e, av_key_id = kid, av_policy_digest = tp_digest p,
               av_identity = ap_identity (as_predicate s), av_rank_eligible = ap_rank_eligible (as_predicate s),
               av_outcome = ap_outcome (as_predicate s), av_gate = ap_gate (as_predicate s),
               av_checks = sorted_set checks, av_digest = []\<rparr>
      in r\<lparr>av_digest := canonical_digest (JObj (attestation_payload r))\<rparr>)"

definition verify_signature ::
  "('sk, 'pk) ed25519 \<Rightarrow> dsse_envelope \<Rightarrow> 'pk \<Rightarrow> unit res" where
  "verify_signature c e pk = (case (b64_decode_strict (de_payload e), b64_decode_strict (sg_sig (hd (de_signatures e)))) of
     (Some payload, Some sig) \<Rightarrow> guards [(\<not> ed_verify c pk sig (dsse_pae dsse_payload_type payload),
       AttestationError ''DSSE signature verification failed'')] ()
   | _ \<Rightarrow> Inl (ValueError ''Incorrect padding''))"

definition verify_attestation ::
  "('sk, 'pk) ed25519 \<Rightarrow> (json \<Rightarrow> artifact_statement res) \<Rightarrow> artifact_bundle \<Rightarrow> dsse_envelope \<Rightarrow> 'pk \<Rightarrow> trust_policy
    \<Rightarrow> attestation_receipt res" where
  "verify_attestation c dec b e pk p =
     rbind (checked_bundle b) (\<lambda>b'.
     rbind (parse_statement dec e) (\<lambda>s.
     rbind (guards (statement_continuity s b') ()) (\<lambda>_.
     let kid = key_id_for_public_key c pk in
     rbind (guards
       [(sg_keyid (hd (de_signatures e)) \<noteq> kid,
          AttestationError ''DSSE signature key ID does not match the public key''),
        (kid \<notin> set (tp_keys p), AttestationError ''signing key is not authorized by the trust policy'')] ()) (\<lambda>_.
     rbind (verify_signature c e pk) (\<lambda>_.
     rbind (check_identity (identity_fields p (ap_identity (as_predicate s)))) (\<lambda>ids.
     rbind (guards [(tp_require_rank p \<and> \<not> ap_rank_eligible (as_predicate s),
          AttestationError ''trust policy requires a rank-eligible bundle'')] ()) (\<lambda>_.
       validate_attestation_receipt (make_attestation_receipt b' s e kid p
         (base_checks @ ids @ (if tp_require_rank p then [''rank-eligible-required''] else []))))))))))"

section \<open>Key files\<close>

text \<open>
  The file system as \<open>generate_keypair\<close>, \<open>load_private_key\<close> and \<open>load_public_key\<close> see it: a file has
  its bytes and permission bits, a symbolic link its target. Following links gives up after forty
  steps, as the operating system does. The PEM codecs are arguments; loading tells text that is no
  key (\<open>None\<close>) from a key of another algorithm (\<open>Some None\<close>). \<open>resolve\<close> is \<open>Path.resolve\<close>.
\<close>

datatype key_entry = KeyFile bytes nat | KeyLink string

type_synonym key_files = "string \<rightharpoonup> key_entry"

record ('sk, 'pk) pem_codec =
  pem_private :: "'sk \<Rightarrow> bytes"
  pem_public :: "'pk \<Rightarrow> bytes"
  load_pem_private :: "bytes \<Rightarrow> 'sk option option"
  load_pem_public :: "bytes \<Rightarrow> 'pk option option"

fun follow :: "nat \<Rightarrow> key_files \<Rightarrow> string \<Rightarrow> (bytes \<times> nat) option" where
  "follow 0 fs path = None"
| "follow (Suc n) fs path = (case fs path of
     None \<Rightarrow> None
   | Some (KeyFile b mode) \<Rightarrow> Some (b, mode)
   | Some (KeyLink target) \<Rightarrow> follow n fs target)"

definition path_exists :: "key_files \<Rightarrow> string \<Rightarrow> bool" where
  "path_exists fs path \<longleftrightarrow> follow 41 fs path \<noteq> None"

text \<open>
  \<open>_write_key\<close> in its three steps: opening (creating the file with the mode, or truncating an existing
  one, which keeps its mode), writing, and setting the mode.
\<close>

definition open_key :: "string \<Rightarrow> nat \<Rightarrow> bool \<Rightarrow> key_files \<Rightarrow> key_files res" where
  "open_key path mode overwrite fs = (case fs path of
     Some (KeyLink _) \<Rightarrow> Inl (AttestationError ''refusing to write a key through a symlink'')
   | Some (KeyFile _ old) \<Rightarrow> if overwrite then Inr (fs(path \<mapsto> KeyFile [] old))
       else Inl (AttestationError (''cannot create key file: '' @ path))
   | None \<Rightarrow> Inr (fs(path \<mapsto> KeyFile [] mode)))"

definition write_bytes :: "string \<Rightarrow> bytes \<Rightarrow> key_files \<Rightarrow> key_files" where
  "write_bytes path payload fs = (case fs path of
     Some (KeyFile _ mode) \<Rightarrow> fs(path \<mapsto> KeyFile payload mode) | _ \<Rightarrow> fs)"

definition change_mode :: "string \<Rightarrow> nat \<Rightarrow> key_files \<Rightarrow> key_files" where
  "change_mode path mode fs = (case fs path of
     Some (KeyFile b _) \<Rightarrow> fs(path \<mapsto> KeyFile b mode) | _ \<Rightarrow> fs)"

definition write_key :: "string \<Rightarrow> bytes \<Rightarrow> nat \<Rightarrow> bool \<Rightarrow> key_files \<Rightarrow> unit res \<times> key_files" where
  "write_key path payload mode overwrite fs = (case open_key path mode overwrite fs of
     Inl e \<Rightarrow> (Inl e, fs)
   | Inr fs' \<Rightarrow> (Inr (), change_mode path mode (write_bytes path payload fs')))"

text \<open>The modes \<open>0o600\<close> and \<open>0o644\<close>; \<open>mode & 0o077\<close> keeps the six low bits.\<close>

definition generate_keypair ::
  "('sk, 'pk) ed25519 \<Rightarrow> ('sk, 'pk) pem_codec \<Rightarrow> (string \<Rightarrow> string) \<Rightarrow> 'sk \<Rightarrow> string \<Rightarrow> string \<Rightarrow> bool \<Rightarrow> key_files
    \<Rightarrow> string res \<times> key_files" where
  "generate_keypair c pem resolve sk priv pub overwrite fs =
     (if resolve priv = resolve pub
      then (Inl (AttestationError ''private and public key paths must be different''), fs)
      else if \<not> overwrite \<and> (path_exists fs priv \<or> path_exists fs pub)
      then (Inl (AttestationError ''refusing to overwrite an existing key file''), fs)
      else case write_key priv (pem_private pem sk) 384 overwrite fs of
          (Inl e, fs1) \<Rightarrow> (Inl e, fs1)
        | (Inr _, fs1) \<Rightarrow> (case write_key pub (pem_public pem (ed_public c sk)) 420 overwrite fs1 of
            (Inl e, fs2) \<Rightarrow> (Inl e, fs2)
          | (Inr _, fs2) \<Rightarrow> (Inr (key_id_for_public_key c (ed_public c sk)), fs2)))"

definition load_private_key :: "('sk, 'pk) pem_codec \<Rightarrow> key_files \<Rightarrow> string \<Rightarrow> 'sk res" where
  "load_private_key pem fs path = (case fs path of
     Some (KeyFile b mode) \<Rightarrow>
       if mode mod 64 \<noteq> 0
       then Inl (AttestationError ''private key permissions must not grant group or other access'')
       else (case load_pem_private pem b of
           None \<Rightarrow> Inl (AttestationError (''cannot load Ed25519 private key: '' @ path))
         | Some None \<Rightarrow> Inl (AttestationError ''private key is not Ed25519'')
         | Some (Some sk) \<Rightarrow> Inr sk)
   | _ \<Rightarrow> Inl (AttestationError (''cannot open Ed25519 private key: '' @ path)))"

definition load_public_key :: "('sk, 'pk) pem_codec \<Rightarrow> key_files \<Rightarrow> string \<Rightarrow> 'pk res" where
  "load_public_key pem fs path = (case follow 41 fs path of
     None \<Rightarrow> Inl (AttestationError (''cannot load Ed25519 public key: '' @ path))
   | Some (b, mode) \<Rightarrow> (case load_pem_public pem b of
         None \<Rightarrow> Inl (AttestationError (''cannot load Ed25519 public key: '' @ path))
       | Some None \<Rightarrow> Inl (AttestationError ''public key is not Ed25519'')
       | Some (Some pk) \<Rightarrow> Inr pk))"

end
