(* ===== verification/AttestationProperties.thy ===== *)
theory AttestationProperties
  imports Attestation KernelBundle
begin

text \<open>
  What an accepted attestation means: the trusted statement as an abstract specification that the
  verifier decides, the round trip from signing to verification, the injectivity of the encodings that
  are signed, and the key files.
\<close>

section \<open>Statements and their encoding\<close>

lemma validate_attester_Inr: "validate_attester i = Inr j \<Longrightarrow> j = i"
  by (simp add: validate_attester_def guards_Inr_iff)

lemma validate_subject_Inr: "validate_subject s = Inr t \<Longrightarrow> t = s \<and> dict_keys (ss_digest s) = [''sha256'']"
  by (auto simp: validate_subject_def guards_Inr_iff)

lemma validate_predicate_Inr:
  "validate_predicate p = Inr q \<Longrightarrow> q = p \<and> validate_attester (ap_identity p) = Inr (ap_identity p)"
  by (auto simp: validate_predicate_def guards_Inr_iff rbind_Inr_iff dest: validate_attester_Inr)

lemma validate_predicate_fields:
  assumes "validate_predicate p = Inr q"
  shows "list_all (is_hex64 \<circ> snd) (predicate_digests p)" "ap_outcome p \<in> {''pass'', ''fail''}"
    "ap_gate p \<in> {''pass'', ''fail''}" "ap_rank_eligible p \<Longrightarrow> ap_outcome p = ''pass'' \<and> ap_gate p = ''pass''"
proof -
  have "q = p" using validate_predicate_Inr [OF assms] by simp
  note a = assms [unfolded this validate_predicate_def rbind_Inr_iff guards_Inr_iff list_all_append list.pred_map]
  show "list_all (is_hex64 \<circ> snd) (predicate_digests p)" using a by (simp add: comp_def case_prod_unfold)
  show "ap_outcome p \<in> {''pass'', ''fail''}" "ap_gate p \<in> {''pass'', ''fail''}" using a by simp_all
  show "ap_rank_eligible p \<Longrightarrow> ap_outcome p = ''pass'' \<and> ap_gate p = ''pass''" using a by simp
qed

lemma traverse_Inr_nth: "traverse f xs = Inr ys \<Longrightarrow> x \<in> set xs \<Longrightarrow> \<exists>y. f x = Inr y"
  by (induction xs arbitrary: ys) (auto simp: rbind_Inr_iff)

lemma validate_statement_Inr:
  assumes "validate_statement s = Inr t"
  shows "t = s" and "\<exists>sub. as_subjects s = [sub] \<and> validate_subject sub = Inr sub"
    and "validate_predicate (as_predicate s) = Inr (as_predicate s)"
    and "subject_sha256 (hd (as_subjects s)) = ap_bundle_digest (as_predicate s)"
proof -
  from assms obtain ss p where a: "traverse validate_subject (as_subjects s) = Inr ss"
    "validate_predicate (as_predicate s) = Inr p"
    and g: "guards [(length (as_subjects s) \<noteq> 1, ValidationError ''subject''),
      (subject_sha256 (hd (as_subjects s)) \<noteq> ap_bundle_digest (as_predicate s),
        ValidationError ''statement subject does not match predicate bundle digest'')] s = Inr t"
    unfolding validate_statement_def rbind_Inr_iff by blast
  from g show "t = s" "subject_sha256 (hd (as_subjects s)) = ap_bundle_digest (as_predicate s)"
    by (auto simp: guards_Inr_iff)
  show "validate_predicate (as_predicate s) = Inr (as_predicate s)" using a(2) validate_predicate_Inr by metis
  obtain sub where sub: "as_subjects s = [sub]" using g by (auto simp: guards_Inr_iff length_Suc_conv)
  then obtain sub' where "validate_subject sub = Inr sub'" using traverse_Inr_nth [OF a(1)] by auto
  then show "\<exists>sub. as_subjects s = [sub] \<and> validate_subject sub = Inr sub" using sub validate_subject_Inr by metis
qed

lemma plain_attester: "plain (attester_json i)"
  by (simp add: attester_json_def)

lemma plain_predicate: "plain (predicate_json p)"
  by (simp add: predicate_json_def predicate_digests_def plain_attester)

lemma plain_subject: "dict_keys (ss_digest s) = [''sha256''] \<Longrightarrow> plain (subject_json s)"
proof -
  assume "dict_keys (ss_digest s) = [''sha256'']"
  then obtain d where "ss_digest s = [(''sha256'', d)]" by (auto simp: dict_keys_def)
  then show ?thesis by (simp add: subject_json_def)
qed

lemma plain_statement: "validate_statement s = Inr t \<Longrightarrow> plain (statement_json s)"
  using validate_statement_Inr(2) [of s t] validate_subject_Inr plain_subject plain_predicate
  by (auto simp: statement_json_def)

lemma loads_statement:
  "validate_statement s = Inr t \<Longrightarrow>
     Option.bind (utf8_strict (canonical_statement_bytes s)) loads = Some (canon (statement_json s))"
  by (simp add: canonical_statement_bytes_def loads_dumps [OF plain_statement])

section \<open>Envelopes\<close>

lemma decode_canonical_Inr: "decode_canonical_base64 v name = Inr raw \<longleftrightarrow> v = b64_encode raw"
  by (auto simp: decode_canonical_base64_def split: option.splits if_splits)

lemma validate_signature_Inr:
  "validate_signature g = Inr h \<longleftrightarrow> h = g \<and> is_hex64 (sg_keyid g) \<and> (\<exists>sig. sg_sig g = b64_encode sig \<and> length sig = 64)"
  by (auto simp: validate_signature_def rbind_Inr_iff guards_Inr_iff decode_canonical_Inr)

text \<open>A valid envelope carries the canonical bytes of one valid statement, and one 64-byte signature.\<close>

lemma validate_envelope_Inr:
  assumes "statement_decoder dec" "validate_envelope dec e = Inr f"
  obtains s g sig where "f = e" "validate_statement s = Inr s" "de_payload e = b64_encode (canonical_statement_bytes s)"
    "parse_statement dec e = Inr s" "de_signatures e = [g]" "is_hex64 (sg_keyid g)" "sg_sig g = b64_encode sig" "length sig = 64"
proof -
  from assms(2) obtain raw gs where a: "traverse validate_signature (de_signatures e) = Inr gs"
    "length (de_signatures e) = 1" "de_payload e = b64_encode raw"
    and b: "(case Option.bind (utf8_strict raw) loads of
         None \<Rightarrow> Inl (ValidationError ''DSSE payload must be UTF-8 JSON'')
       | Some v \<Rightarrow> rbind (dec v) (\<lambda>s. guards [(raw \<noteq> canonical_statement_bytes s,
             ValidationError ''DSSE statement payload must use canonical JSON encoding'')] e)) = Inr f"
    by (auto simp: validate_envelope_def rbind_Inr_iff guards_Inr_iff decode_canonical_Inr)
  then obtain v s where v: "Option.bind (utf8_strict raw) loads = Some v" and s: "dec v = Inr s"
    "raw = canonical_statement_bytes s" "f = e"
    by (auto simp: rbind_Inr_iff guards_Inr_iff split: option.splits)
  have vs: "validate_statement s = Inr s" using assms(1) s(1) by (simp add: statement_decoder_def)
  obtain g where g: "de_signatures e = [g]" using a(2) by (auto simp: length_Suc_conv)
  then have "\<exists>h. validate_signature g = Inr h" using a(1) by (auto simp: rbind_Inr_iff)
  then obtain sig where "is_hex64 (sg_keyid g)" "sg_sig g = b64_encode sig" "length sig = 64"
    by (auto simp: validate_signature_Inr)
  moreover have "parse_statement dec e = Inr s" using a(3) v s(1) by (simp add: parse_statement_def)
  ultimately show ?thesis using that [of s g sig] vs s a(3) g by simp
qed

lemma validate_envelope_ok:
  assumes "statement_decoder dec" "validate_statement s = Inr s" "is_hex64 kid" "length sig = 64"
  shows "validate_envelope dec \<lparr>de_payload = b64_encode (canonical_statement_bytes s),
      de_signatures = [\<lparr>sg_keyid = kid, sg_sig = b64_encode sig\<rparr>]\<rparr> =
    Inr \<lparr>de_payload = b64_encode (canonical_statement_bytes s), de_signatures = [\<lparr>sg_keyid = kid, sg_sig = b64_encode sig\<rparr>]\<rparr>"
proof -
  have v: "validate_signature \<lparr>sg_keyid = kid, sg_sig = b64_encode sig\<rparr> = Inr \<lparr>sg_keyid = kid, sg_sig = b64_encode sig\<rparr>"
    using assms(3,4) by (auto simp: validate_signature_Inr)
  have ne: "canonical_statement_bytes s \<noteq> []"
    using loads_statement [OF assms(2)] by (auto simp: loads_def skip_ws_def)
  have "decode_canonical_base64 (b64_encode (canonical_statement_bytes s)) ''payload'' = Inr (canonical_statement_bytes s)"
    by (simp add: decode_canonical_Inr)
  moreover have "dec (canon (statement_json s)) = Inr s" using assms(1,2) by (simp add: statement_decoder_def)
  ultimately show ?thesis
    using v ne by (simp add: validate_envelope_def loads_statement [OF assms(2)] guards.simps)
qed

section \<open>What the verifier decides\<close>

text \<open>The expectations of a policy on the identity.\<close>

definition identity_trusted :: "trust_policy \<Rightarrow> attester_identity \<Rightarrow> bool" where
  "identity_trusted p i \<longleftrightarrow> (tp_issuer p = None \<or> tp_issuer p = Some (at_issuer i))
     \<and> (tp_subject p = None \<or> tp_subject p = Some (at_subject i))
     \<and> (tp_repository p = None \<or> tp_repository p = Some (at_repository i))
     \<and> (tp_workflow_ref p = None \<or> tp_workflow_ref p = Some (at_workflow_ref i))
     \<and> (tp_commit p = None \<or> tp_commit p = Some (at_commit i))"

text \<open>
  A statement is trusted for a bundle, an envelope, a key and a policy: it repeats every digest and the
  outcome of the valid bundle, the envelope carries its canonical bytes, the key's signature over
  their pre-authentication encoding is good, and the policy allows the key, the identity and the rank.
\<close>

definition trusted_statement ::
  "('sk, 'pk) ed25519 \<Rightarrow> artifact_bundle \<Rightarrow> dsse_envelope \<Rightarrow> 'pk \<Rightarrow> trust_policy \<Rightarrow> artifact_statement \<Rightarrow> bool" where
  "trusted_statement c b e pk p s \<longleftrightarrow> validate_bundle b = Inr b \<and> validate_statement s = Inr s
     \<and> as_predicate s = predicate_of b (ap_identity (as_predicate s))
     \<and> de_payload e = b64_encode (canonical_statement_bytes s)
     \<and> (\<exists>g sig. de_signatures e = [g] \<and> sg_keyid g = key_id_for_public_key c pk \<and> sg_sig g = b64_encode sig
          \<and> ed_verify c pk sig (dsse_pae dsse_payload_type (canonical_statement_bytes s)))
     \<and> key_id_for_public_key c pk \<in> set (tp_keys p) \<and> identity_trusted p (ap_identity (as_predicate s))
     \<and> (tp_require_rank p \<longrightarrow> rank_eligible (ab_scorecard b))"

lemma check_identity_Inr:
  "check_identity xs = Inr ys \<longleftrightarrow> list_all (\<lambda>(f, ex, ob). ex = None \<or> ex = Some ob) xs
     \<and> ys = map (\<lambda>(f, _). ''identity:'' @ f) (filter (\<lambda>(f, ex, ob). ex \<noteq> None) xs)"
  by (induction xs arbitrary: ys rule: check_identity.induct) (auto simp: rbind_Inr_iff split: option.splits)

lemma identity_checked:
  "(\<exists>ids. check_identity (identity_fields p i) = Inr ids) \<longleftrightarrow> identity_trusted p i"
  unfolding check_identity_Inr identity_fields_def identity_trusted_def by simp

lemma predicate_continuity:
  "list_all (\<lambda>(k, ok). ok) (continuity_fields p (predicate_of b (ap_identity p))) \<longleftrightarrow> p = predicate_of b (ap_identity p)"
proof -
  have "list_all (\<lambda>(k, ok). ok) (continuity_fields p q) \<longleftrightarrow> p = q" if "ap_identity p = ap_identity q" for q
    using that by (cases p; cases q) (simp add: continuity_fields_def predicate_digests_def)
  then show ?thesis by (simp add: predicate_of_def)
qed

lemma checks_pass:
  "list_all (\<lambda>g. \<not> fst g) (map (\<lambda>(k, ok). (\<not> ok, f k)) xs) \<longleftrightarrow> list_all (\<lambda>(k, ok). ok) xs"
  by (induction xs) auto

lemma statement_continuity_Inr:
  "guards (statement_continuity s b) () = Inr () \<longleftrightarrow>
     as_predicate s = predicate_of b (ap_identity (as_predicate s)) \<and> subject_sha256 (hd (as_subjects s)) = bundle_digest b"
  unfolding guards_Inr_iff statement_continuity_def list_all_append checks_pass predicate_continuity by simp

lemma ex_unit: "(\<exists>x. P x) \<longleftrightarrow> P ()"
  by auto

lemma checked_bundle_Inr: "checked_bundle b = Inr b' \<longleftrightarrow> validate_bundle b = Inr b \<and> b' = b"
  using validate_bundle_Inr [of b] by (auto simp: checked_bundle_def split: sum.splits)

lemma verify_signature_Inr:
  assumes "de_payload e = b64_encode payload" "de_signatures e = [g]" "sg_sig g = b64_encode sig"
  shows "verify_signature c e pk = Inr () \<longleftrightarrow> ed_verify c pk sig (dsse_pae dsse_payload_type payload)"
  by (simp add: verify_signature_def assms guards_Inr_iff)

lemma receipt_valid:
  assumes "validate_bundle b = Inr b" "validate_statement s = Inr s" "is_hex64 kid" "validate_trust_policy p = Inr p"
    and "checks \<noteq> []" "ap_bundle_digest (as_predicate s) = bundle_digest b"
  shows "validate_attestation_receipt (make_attestation_receipt b s e kid p checks) = Inr (make_attestation_receipt b s e kid p checks)"
proof -
  note v = validate_statement_Inr(3) [OF assms(2)]
  have "is_hex64 (bundle_digest b)"
    using validate_predicate_fields(1) [OF v] assms(6) by (simp add: predicate_digests_def)
  moreover have "is_hex64 (tp_digest p)"
    using assms(4) unfolding validate_trust_policy_def guards_Inr_iff by simp
  ultimately show ?thesis
    using validate_predicate_Inr [OF v] validate_predicate_fields(2,3) [OF v] assms(3,5)
    unfolding validate_attestation_receipt_def
    by (simp add: make_attestation_receipt_def Let_def guards_Inr_iff attestation_payload_def statement_digest_def
        envelope_digest_def)
qed

lemma trusted_digest: "trusted_statement c b e pk p s \<Longrightarrow> ap_bundle_digest (as_predicate s) = bundle_digest b"
  by (metis artifact_predicate.select_convs(1) predicate_of_def trusted_statement_def)

lemma trusted_unique:
  assumes "statement_decoder dec" "validate_envelope dec e = Inr e"
  obtains s where "parse_statement dec e = Inr s" "validate_statement s = Inr s"
    "\<And>c b pk p s'. trusted_statement c b e pk p s' \<Longrightarrow> s' = s"
proof -
  obtain s where env: "validate_statement s = Inr s" "de_payload e = b64_encode (canonical_statement_bytes s)"
    "parse_statement dec e = Inr s" using validate_envelope_Inr [OF assms] by metis
  have "s' = s" if "trusted_statement c b e pk p s'" for c :: "('a, 'b) ed25519" and b pk p s'
  proof -
    have "canonical_statement_bytes s' = canonical_statement_bytes s" "validate_statement s' = Inr s'"
      using that env(2) by (simp_all add: trusted_statement_def b64_encode_inj)
    then show ?thesis
      using loads_statement [of s' s'] loads_statement [OF env(1)] assms(1) env(1)
      by (metis statement_decoder_def option.inject sum.inject(2))
  qed
  with env that show ?thesis by blast
qed

lemma verify_attestation_spec:
  assumes "statement_decoder dec" "validate_envelope dec e = Inr e" "validate_trust_policy p = Inr p"
  shows "verify_attestation c dec b e pk p = Inr r \<longleftrightarrow>
    (\<exists>s. trusted_statement c b e pk p s \<and> r = make_attestation_receipt b s e (key_id_for_public_key c pk) p
       (base_checks @ map (\<lambda>(f, _). ''identity:'' @ f)
          (filter (\<lambda>(f, ex, ob). ex \<noteq> None) (identity_fields p (ap_identity (as_predicate s))))
        @ (if tp_require_rank p then [''rank-eligible-required''] else [])))"
proof -
  obtain s g sig where env: "validate_statement s = Inr s" "de_payload e = b64_encode (canonical_statement_bytes s)"
    "parse_statement dec e = Inr s" "de_signatures e = [g]" "sg_sig g = b64_encode sig"
    using validate_envelope_Inr [OF assms(1,2)] by metis
  let ?kid = "key_id_for_public_key c pk"
  let ?checks = "\<lambda>s. base_checks @ map (\<lambda>(f, _). ''identity:'' @ f)
          (filter (\<lambda>(f, ex, ob). ex \<noteq> None) (identity_fields p (ap_identity (as_predicate s))))
        @ (if tp_require_rank p then [''rank-eligible-required''] else [])"
  have one: "s' = s" if "trusted_statement c b e pk p s'" for s'
    using trusted_unique [OF assms(1,2)] env(3) that by (metis sum.inject(2))
  have t: "trusted_statement c b e pk p s \<longleftrightarrow> validate_bundle b = Inr b
     \<and> as_predicate s = predicate_of b (ap_identity (as_predicate s)) \<and> sg_keyid g = ?kid
     \<and> ed_verify c pk sig (dsse_pae dsse_payload_type (canonical_statement_bytes s))
     \<and> ?kid \<in> set (tp_keys p) \<and> identity_trusted p (ap_identity (as_predicate s))
     \<and> (tp_require_rank p \<longrightarrow> rank_eligible (ab_scorecard b))"
    by (auto simp: trusted_statement_def env b64_encode_inj)
  have step: "verify_attestation c dec b e pk p = Inr r \<longleftrightarrow> validate_bundle b = Inr b
     \<and> as_predicate s = predicate_of b (ap_identity (as_predicate s)) \<and> subject_sha256 (hd (as_subjects s)) = bundle_digest b
     \<and> sg_keyid g = ?kid \<and> ?kid \<in> set (tp_keys p)
     \<and> ed_verify c pk sig (dsse_pae dsse_payload_type (canonical_statement_bytes s))
     \<and> (\<exists>ids. check_identity (identity_fields p (ap_identity (as_predicate s))) = Inr ids
         \<and> (tp_require_rank p \<longrightarrow> ap_rank_eligible (as_predicate s))
         \<and> validate_attestation_receipt (make_attestation_receipt b s e ?kid p
              (base_checks @ ids @ (if tp_require_rank p then [''rank-eligible-required''] else []))) = Inr r)"
    unfolding verify_attestation_def Let_def rbind_Inr_iff checked_bundle_Inr env(3) verify_signature_Inr [OF env(2,4,5)]
      ex_unit
    by (simp add: env(4) guards_Inr_iff statement_continuity_Inr [unfolded guards_Inr_iff, simplified])
  show ?thesis
  proof (cases "as_predicate s = predicate_of b (ap_identity (as_predicate s))")
    case True
    then have d: "ap_bundle_digest (as_predicate s) = bundle_digest b"
      "ap_rank_eligible (as_predicate s) = rank_eligible (ab_scorecard b)"
      by (metis artifact_predicate.select_convs(1) predicate_of_def, metis artifact_predicate.select_convs(10) predicate_of_def)
    have sub: "subject_sha256 (hd (as_subjects s)) = bundle_digest b" using validate_statement_Inr(4) [OF env(1)] d by simp
    have kid: "is_hex64 ?kid" by (simp add: key_id_for_public_key_def)
    have v: "validate_attestation_receipt (make_attestation_receipt b s e ?kid p (base_checks @ xs))
      = Inr (make_attestation_receipt b s e ?kid p (base_checks @ xs))" if "validate_bundle b = Inr b" for xs
      by (rule receipt_valid [OF that env(1) kid assms(3) _ d(1)]) (simp add: base_checks_def)
    have "verify_attestation c dec b e pk p = Inr r \<longleftrightarrow> trusted_statement c b e pk p s \<and>
       r = make_attestation_receipt b s e ?kid p (?checks s)"
      unfolding step t using True sub d(2) v identity_checked [of p "ap_identity (as_predicate s)"]
      by (auto simp: check_identity_Inr)
    then show ?thesis using one by blast
  next
    case False
    then show ?thesis using step t one by blast
  qed
qed

lemma verify_iff_trusted:
  assumes "statement_decoder dec" "validate_envelope dec e = Inr e" "validate_trust_policy p = Inr p"
  shows "(\<exists>r. verify_attestation c dec b e pk p = Inr r) \<longleftrightarrow> (\<exists>s. trusted_statement c b e pk p s)"
  unfolding verify_attestation_spec [OF assms] by blast

lemma verified_receipt:
  assumes "statement_decoder dec" "validate_envelope dec e = Inr e" "validate_trust_policy p = Inr p"
  shows "\<forall>r. verify_attestation c dec b e pk p = Inr r \<longrightarrow> validate_attestation_receipt r = Inr r
        \<and> av_bundle_digest r = bundle_digest b \<and> av_envelope_digest r = envelope_digest e
        \<and> av_key_id r = key_id_for_public_key c pk \<and> av_policy_digest r = tp_digest p
        \<and> av_rank_eligible r = rank_eligible (ab_scorecard b) \<and> identity_trusted p (av_identity r)"
proof (intro allI impI)
  fix r assume "verify_attestation c dec b e pk p = Inr r"
  then obtain s xs where t: "trusted_statement c b e pk p s"
    and r: "r = make_attestation_receipt b s e (key_id_for_public_key c pk) p (base_checks @ xs)"
    unfolding verify_attestation_spec [OF assms] by blast
  then have v: "validate_bundle b = Inr b" "validate_statement s = Inr s" "identity_trusted p (ap_identity (as_predicate s))"
    and q: "as_predicate s = predicate_of b (ap_identity (as_predicate s))"
    unfolding trusted_statement_def by blast+
  have d: "ap_bundle_digest (as_predicate s) = bundle_digest b" "ap_rank_eligible (as_predicate s) = rank_eligible (ab_scorecard b)"
    by (subst q, simp add: predicate_of_def)+
  have "is_hex64 (key_id_for_public_key c pk)" by (simp add: key_id_for_public_key_def)
  from receipt_valid [OF v(1,2) this assms(3) _ d(1), of "base_checks @ xs" e]
  have "validate_attestation_receipt r = Inr r" by (simp add: r base_checks_def)
  moreover have "av_bundle_digest r = bundle_digest b" "av_envelope_digest r = envelope_digest e"
    "av_key_id r = key_id_for_public_key c pk" "av_policy_digest r = tp_digest p"
    "av_identity r = ap_identity (as_predicate s)" "av_rank_eligible r = rank_eligible (ab_scorecard b)"
    by (simp_all add: r make_attestation_receipt_def Let_def d(2))
  ultimately show "validate_attestation_receipt r = Inr r \<and> av_bundle_digest r = bundle_digest b
    \<and> av_envelope_digest r = envelope_digest e \<and> av_key_id r = key_id_for_public_key c pk \<and> av_policy_digest r = tp_digest p
    \<and> av_rank_eligible r = rank_eligible (ab_scorecard b) \<and> identity_trusted p (av_identity r)"
    using v(3) by simp
qed

text \<open>C12: The verifier decides trust: on a validated envelope and policy it returns a receipt exactly when
  the envelope carries a statement trusted for the bundle, the key and the policy, and the receipt is
  the validated one that repeats this statement, the key id, the policy and the checks performed.\<close>

theorem verifier_decides_trust:
  assumes "statement_decoder dec" "validate_envelope dec e = Inr e" "validate_trust_policy p = Inr p"
  shows "((\<exists>r. verify_attestation c dec b e pk p = Inr r) \<longleftrightarrow> (\<exists>s. trusted_statement c b e pk p s))
    \<and> (\<forall>r. verify_attestation c dec b e pk p = Inr r \<longrightarrow> validate_attestation_receipt r = Inr r
        \<and> av_bundle_digest r = bundle_digest b \<and> av_envelope_digest r = envelope_digest e
        \<and> av_key_id r = key_id_for_public_key c pk \<and> av_policy_digest r = tp_digest p
        \<and> av_rank_eligible r = rank_eligible (ab_scorecard b) \<and> identity_trusted p (av_identity r))"
  by (rule conjI [OF verify_iff_trusted [OF assms] verified_receipt [OF assms]])

section \<open>Signing and verifying\<close>

definition statement_of :: "artifact_bundle \<Rightarrow> attester_identity \<Rightarrow> artifact_statement" where
  "statement_of b i = \<lparr>as_subjects = [\<lparr>ss_digest = [(''sha256'', bundle_digest b)]\<rparr>], as_predicate = predicate_of b i\<rparr>"

lemma validate_bundle_parts:
  assumes "validate_bundle b = Inr b'"
  shows "validate_authority (ab_authority b) = Inr (ab_authority b)" "validate_graph (ab_graph b) = Inr (ab_graph b)"
    "validate_replay_manifest (ab_replay b) = Inr (ab_replay b)" "validate_trace (ab_trace b) = Inr (ab_trace b)"
    "validate_scorecard (ab_scorecard b) = Inr (ab_scorecard b)" "list_all (\<lambda>g. \<not> fst g) (base_bundle_guards b)"
proof -
  from assms obtain a g r t s where p: "validate_authority (ab_authority b) = Inr a" "validate_graph (ab_graph b) = Inr g"
    "validate_replay_manifest (ab_replay b) = Inr r" "validate_trace (ab_trace b) = Inr t"
    "validate_scorecard (ab_scorecard b) = Inr s"
    and gs: "guards (base_bundle_guards b @ cross_bundle_guards b) b = Inr b'"
    unfolding validate_bundle_def rbind_Inr_iff by blast
  show "validate_authority (ab_authority b) = Inr (ab_authority b)" using p(1) validate_Inr(1) by metis
  show "validate_graph (ab_graph b) = Inr (ab_graph b)" using p(2) validate_graph_Inr by metis
  show "validate_replay_manifest (ab_replay b) = Inr (ab_replay b)" using p(3) validate_Inr(2) by metis
  show "validate_trace (ab_trace b) = Inr (ab_trace b)" using p(4) validate_trace_Inr by metis
  show "validate_scorecard (ab_scorecard b) = Inr (ab_scorecard b)" using p(5) validate_Inr(3) by metis
  show "list_all (\<lambda>g. \<not> fst g) (base_bundle_guards b)" using gs unfolding guards_Inr_iff list_all_append by blast
qed

lemma bundle_digests:
  assumes "validate_bundle b = Inr b"
  shows "list_all (is_hex64 \<circ> snd) (predicate_digests (predicate_of b i))"
    "outcome_status (ab_scorecard b) \<in> {''pass'', ''fail''}" "sc_security_gate (ab_scorecard b) \<in> {''pass'', ''fail''}"
    "rank_eligible (ab_scorecard b) \<Longrightarrow> outcome_status (ab_scorecard b) = ''pass'' \<and> sc_security_gate (ab_scorecard b) = ''pass''"
    "canonical_digest (JObj (bundle_payload b)) = bundle_digest b"
proof -
  note v = validate_bundle_parts [OF assms]
  have hex: "is_hex64 (authority_digest (ab_authority b))" "is_hex64 (graph_digest (ab_graph b))"
    "is_hex64 (replay_digest (ab_replay b))" "is_hex64 (trace_digest (ab_trace b))" "is_hex64 (scorecard_digest (ab_scorecard b))"
    subgoal using v(1) unfolding validate_authority_def guards_Inr_iff by simp
    subgoal using v(2) unfolding validate_graph_def rbind_Inr_iff guards_Inr_iff by auto
    subgoal using v(3) unfolding validate_replay_manifest_def guards_Inr_iff by simp
    subgoal using v(4) unfolding validate_trace_def rbind_Inr_iff guards_Inr_iff by auto
    subgoal using v(5) unfolding validate_scorecard_def guards_Inr_iff scorecard_field_guards_def by simp
    done
  have base: "is_hex64 (ab_plan_digest b)" "is_hex64 (ab_evidence_digest b)" "is_hex64 (ab_verdict_digest b)"
    "is_hex64 (bundle_digest b)" "canonical_digest (JObj (bundle_payload b)) = bundle_digest b"
    using v(6) unfolding base_bundle_guards_def Let_def list_all_Cons_iff fst_conv not_not by blast+
  then show "canonical_digest (JObj (bundle_payload b)) = bundle_digest b" by blast
  show "list_all (is_hex64 \<circ> snd) (predicate_digests (predicate_of b i))"
    by (simp add: predicate_digests_def predicate_of_def hex base)
  show "outcome_status (ab_scorecard b) \<in> {''pass'', ''fail''}" "sc_security_gate (ab_scorecard b) \<in> {''pass'', ''fail''}"
    using v(5) unfolding validate_scorecard_def guards_Inr_iff scorecard_field_guards_def by simp_all
  show "rank_eligible (ab_scorecard b) \<Longrightarrow> outcome_status (ab_scorecard b) = ''pass'' \<and> sc_security_gate (ab_scorecard b) = ''pass''"
    using v(5) unfolding validate_scorecard_def guards_Inr_iff scorecard_guards_def Let_def eligible_def by simp
qed

lemma build_statement_ok:
  assumes "validate_bundle b = Inr b" "validate_attester i = Inr i"
  shows "build_statement b i = Inr (statement_of b i) \<and> validate_statement (statement_of b i) = Inr (statement_of b i)"
proof -
  note d = bundle_digests [OF assms(1)]
  have hex: "is_hex64 (bundle_digest b)" using d(1) by (simp add: predicate_digests_def predicate_of_def)
  have p: "validate_predicate (predicate_of b i) = Inr (predicate_of b i)"
    using d(2-4) assms(2) unfolding validate_predicate_def
    by (simp add: predicate_of_def) (use d(1) [of i] in \<open>simp add: guards_Inr_iff list.pred_map comp_def case_prod_unfold predicate_of_def\<close>)
  have s: "validate_subject \<lparr>ss_digest = [(''sha256'', bundle_digest b)]\<rparr> = Inr \<lparr>ss_digest = [(''sha256'', bundle_digest b)]\<rparr>"
    by (simp add: validate_subject_def guards_Inr_iff dict_keys_def subject_sha256_def hex)
  have "validate_statement (statement_of b i) = Inr (statement_of b i)"
    by (simp add: validate_statement_def statement_of_def s p guards_Inr_iff subject_sha256_def)
       (simp add: predicate_of_def)
  moreover from this have "build_statement b i = Inr (statement_of b i)"
    by (simp add: build_statement_def checked_bundle_def assms p s statement_of_def)
  ultimately show ?thesis by simp
qed

definition signed_envelope :: "('sk, 'pk) ed25519 \<Rightarrow> artifact_statement \<Rightarrow> 'sk \<Rightarrow> dsse_envelope" where
  "signed_envelope c s sk = \<lparr>de_payload = b64_encode (canonical_statement_bytes s), de_signatures =
     [\<lparr>sg_keyid = key_id_for_public_key c (ed_public c sk),
       sg_sig = b64_encode (ed_sign c sk (dsse_pae dsse_payload_type (canonical_statement_bytes s)))\<rparr>]\<rparr>"

lemma signed_envelope_valid:
  assumes "ed25519_laws c" "statement_decoder dec" "validate_statement s = Inr s"
  shows "validate_envelope dec (signed_envelope c s sk) = Inr (signed_envelope c s sk)"
  unfolding signed_envelope_def
  by (rule validate_envelope_ok [OF assms(2,3)])
     (use assms(1) in \<open>simp_all add: ed25519_laws_def key_id_for_public_key_def\<close>)

lemma sign_bundle_ok:
  assumes "ed25519_laws c" "statement_decoder dec" "validate_bundle b = Inr b" "validate_attester i = Inr i"
  shows "sign_bundle c dec b i sk = Inr (signed_envelope c (statement_of b i) sk)"
proof -
  note s = build_statement_ok [OF assms(3,4)]
  have g: "validate_signature \<lparr>sg_keyid = key_id_for_public_key c (ed_public c sk), sg_sig = b64_encode sig\<rparr>
     = Inr \<lparr>sg_keyid = key_id_for_public_key c (ed_public c sk), sg_sig = b64_encode sig\<rparr>" if "length sig = 64" for sig
    using that by (auto simp: validate_signature_Inr key_id_for_public_key_def)
  have len: "length (ed_sign c sk m) = 64" for m using assms(1) by (simp add: ed25519_laws_def)
  show ?thesis
    using signed_envelope_valid [OF assms(1,2) conjunct2 [OF s], of sk] s
    by (simp add: sign_bundle_def Let_def g len signed_envelope_def)
qed

lemma sign_then_verify:
  assumes "ed25519_laws c" "statement_decoder dec" "validate_bundle b = Inr b" "validate_attester i = Inr i"
    and "validate_trust_policy p = Inr p" "key_id_for_public_key c (ed_public c sk) \<in> set (tp_keys p)"
    and "identity_trusted p i" "tp_require_rank p \<longrightarrow> rank_eligible (ab_scorecard b)"
  shows "\<exists>e r. sign_bundle c dec b i sk = Inr e \<and> validate_envelope dec e = Inr e
     \<and> parse_statement dec e = Inr (statement_of b i) \<and> verify_attestation c dec b e (ed_public c sk) p = Inr r
     \<and> av_identity r = i"
proof -
  let ?s = "statement_of b i" let ?e = "signed_envelope c ?s sk"
  have s: "validate_statement ?s = Inr ?s" using build_statement_ok [OF assms(3,4)] by simp
  note env = signed_envelope_valid [OF assms(1,2) s, of sk]
  have t: "trusted_statement c b ?e (ed_public c sk) p ?s"
    using assms s
    by (simp add: trusted_statement_def signed_envelope_def ed25519_laws_def b64_encode_inj)
       (simp add: statement_of_def predicate_of_def)
  obtain r where r: "verify_attestation c dec b ?e (ed_public c sk) p = Inr r" "av_identity r = ap_identity (as_predicate ?s)"
    using t unfolding verify_attestation_spec [OF assms(2) env assms(5)]
    by (fastforce simp: make_attestation_receipt_def Let_def)
  have "parse_statement dec ?e = Inr ?s"
    using assms(2) s by (simp add: parse_statement_def signed_envelope_def loads_statement [OF s] statement_decoder_def)
  with r env sign_bundle_ok [OF assms(1-4)] show ?thesis by (auto simp: statement_of_def predicate_of_def)
qed

text \<open>Signing and verification agree: for lawful Ed25519 operations, a valid bundle, a valid identity and
  a policy that allows the key, the identity and the rank, signing succeeds, its envelope passes the
  validators and parses back to the statement of the bundle, and the verifier accepts it.\<close>

theorem sign_verify_roundtrip:
  assumes "ed25519_laws c" "statement_decoder dec" "validate_bundle b = Inr b" "validate_attester i = Inr i"
    and "validate_trust_policy p = Inr p" "key_id_for_public_key c (ed_public c sk) \<in> set (tp_keys p)"
    and "identity_trusted p i" "tp_require_rank p \<longrightarrow> rank_eligible (ab_scorecard b)"
  shows "\<exists>e r. sign_bundle c dec b i sk = Inr e \<and> validate_envelope dec e = Inr e
     \<and> parse_statement dec e = Inr (statement_of b i) \<and> verify_attestation c dec b e (ed_public c sk) p = Inr r
     \<and> av_identity r = i"
  by (rule sign_then_verify [OF assms])

section \<open>What a signature binds\<close>

text \<open>C14: An envelope binds one bundle: two bundles accepted with the same envelope, under any keys and
  policies, have the same digest, and so the same canonical encoding unless this pair is a collision
  of SHA-256.\<close>

theorem envelope_binds_bundle:
  assumes "statement_decoder dec" "validate_envelope dec e = Inr e"
    and "validate_trust_policy p1 = Inr p1" "validate_trust_policy p2 = Inr p2"
    and "verify_attestation c dec b1 e pk1 p1 = Inr r1" "verify_attestation c dec b2 e pk2 p2 = Inr r2"
  shows "bundle_digest b1 = bundle_digest b2 \<and> (dumps (JObj (bundle_payload b1)) = dumps (JObj (bundle_payload b2))
     \<or> digest_clash 64 [JObj (bundle_payload b1), JObj (bundle_payload b2)])"
proof -
  obtain s1 s2 where s: "trusted_statement c b1 e pk1 p1 s1" "trusted_statement c b2 e pk2 p2 s2"
    using assms(5,6) unfolding verify_attestation_spec [OF assms(1,2,3)] verify_attestation_spec [OF assms(1,2,4)] by blast
  then have "s1 = s2" using trusted_unique [OF assms(1,2)] by metis
  moreover have "ap_bundle_digest (as_predicate s1) = bundle_digest b1" "ap_bundle_digest (as_predicate s2) = bundle_digest b2"
    using trusted_digest [OF s(1)] trusted_digest [OF s(2)] .
  ultimately have eq: "bundle_digest b1 = bundle_digest b2" by simp
  have "canonical_digest (JObj (bundle_payload b1)) = bundle_digest b1" "canonical_digest (JObj (bundle_payload b2)) = bundle_digest b2"
    using s bundle_digests(5) by (auto simp: trusted_statement_def)
  with eq show ?thesis by (auto simp: digest_clash_def)
qed

text \<open>Decimal numerals contain no space and determine the number.\<close>

lemma show_nat_no_space: "CHR '' '' \<notin> set (show_nat n)"
proof
  assume "CHR '' '' \<in> set (show_nat n)"
  then have "is_digit_char (CHR '' '')" using show_nat_digits [of n] by (simp add: list_all_iff)
  moreover have "\<not> is_digit_char (CHR '' '')" by code_simp
  ultimately show False by blast
qed

lemma show_nat_inj: "show_nat m = show_nat n \<longleftrightarrow> m = n"
  by (metis show_nat_digits)

lemma append_sep_iff: "\<lbrakk>x \<notin> set a; x \<notin> set b\<rbrakk> \<Longrightarrow> a @ x # r = b @ x # t \<longleftrightarrow> a = b \<and> r = t"
proof (induction a arbitrary: b)
  case Nil
  then show ?case by (cases b) auto
next
  case (Cons y ys)
  then show ?case by (cases b) auto
qed

lemma dsse_pae_eq: "dsse_pae t p = ''DSSEv1 '' @ show_nat (length (utf8 t)) @ CHR '' '' # utf8 t @ CHR '' ''
    # show_nat (length p) @ CHR '' '' # p"
  by (simp add: dsse_pae_def)

text \<open>The pre-authentication encoding is injective: no two pairs of payload type and payload are signed
  as the same bytes, whatever characters they contain.\<close>

theorem dsse_pae_injective: "dsse_pae t p = dsse_pae t' p' \<longleftrightarrow> t = t' \<and> p = p'"
proof
  assume eq: "dsse_pae t p = dsse_pae t' p'"
  note n = append_sep_iff [OF show_nat_no_space show_nat_no_space]
  from eq have len: "length (utf8 t) = length (utf8 t')"
    and rest: "utf8 t @ CHR '' '' # show_nat (length p) @ CHR '' '' # p = utf8 t' @ CHR '' '' # show_nat (length p') @ CHR '' '' # p'"
    unfolding dsse_pae_eq same_append_eq n show_nat_inj by blast+
  from rest len have "utf8 t = utf8 t'" "show_nat (length p) @ CHR '' '' # p = show_nat (length p') @ CHR '' '' # p'"
    by simp_all
  then show "t = t' \<and> p = p'" by (simp add: utf8_inj n)
qed simp

section \<open>A decoder, a key pair and a policy\<close>

text \<open>A decoder that satisfies its law: it reads the fields and checks that they encode the value again.\<close>

definition field_of :: "json \<Rightarrow> string \<Rightarrow> json" where
  "field_of v k = jget_null (obj_items v) k"

fun text_in :: "json \<Rightarrow> string" where
  "text_in (JStr s) = s"
| "text_in _ = []"

definition opt_text_of :: "json \<Rightarrow> string option" where
  "opt_text_of v = (if v = JNull then None else Some (text_in v))"

fun items_of :: "json \<Rightarrow> json list" where
  "items_of (JArr xs) = xs"
| "items_of _ = []"

definition read_attester :: "json \<Rightarrow> attester_identity" where
  "read_attester v = \<lparr>at_issuer = text_in (field_of v ''issuer''), at_subject = text_in (field_of v ''subject''),
     at_repository = text_in (field_of v ''repository''), at_workflow_ref = text_in (field_of v ''workflow_ref''),
     at_commit = text_in (field_of v ''commit_sha''), at_environment = opt_text_of (field_of v ''environment'')\<rparr>"

definition read_predicate :: "json \<Rightarrow> artifact_predicate" where
  "read_predicate v = (let t = (\<lambda>k. text_in (field_of v k)) in
     \<lparr>ap_bundle_digest = t ''bundle_digest'', ap_authority_digest = t ''authority_digest'',
      ap_plan_digest = t ''plan_digest'', ap_evidence_digest = t ''evidence_digest'',
      ap_verdict_digest = t ''verdict_digest'', ap_graph_digest = t ''graph_digest'',
      ap_replay_digest = t ''replay_digest'', ap_trace_digest = t ''trace_digest'',
      ap_scorecard_digest = t ''scorecard_digest'', ap_rank_eligible = (field_of v ''rank_eligible'' = JBool True),
      ap_outcome = t ''outcome_status'', ap_gate = t ''security_gate'',
      ap_identity = read_attester (field_of v ''identity'')\<rparr>)"

definition read_subject :: "json \<Rightarrow> statement_subject" where
  "read_subject v = \<lparr>ss_digest = map (\<lambda>(k, d). (k, text_in d)) (obj_items (field_of v ''digest''))\<rparr>"

definition read_statement :: "json \<Rightarrow> artifact_statement res" where
  "read_statement v = (let s = \<lparr>as_subjects = map read_subject (items_of (field_of v ''subject'')),
       as_predicate = read_predicate (field_of v ''predicate'')\<rparr> in
     rbind (validate_statement s) (\<lambda>_. guards [(canon (statement_json s) \<noteq> v, ValidationError ''statement'')] s))"

lemma field_of_canon:
  assumes "distinct (map fst kvs)"
  shows "field_of (canon (JObj kvs)) k = (case map_of kvs k of None \<Rightarrow> JNull | Some v \<Rightarrow> canon v)"
proof -
  have "distinct (map fst (map (\<lambda>(k, v). (k, canon v)) kvs))" using assms by (simp add: comp_def case_prod_unfold)
  from map_of_sort [OF this] show ?thesis
    by (simp add: field_of_def jget_null_def map_of_map split: option.splits)
qed

lemma canon_text [simp]: "canon (JStr s) = JStr s" "opt_text_of (canon (opt_str t)) = t"
  by (cases t; simp add: opt_text_of_def)+

lemma read_attester_json: "read_attester (canon (attester_json i)) = i"
  unfolding read_attester_def attester_json_def by (simp add: field_of_canon del: canon.simps(2))

lemma read_predicate_json: "read_predicate (canon (predicate_json p)) = p"
  unfolding read_predicate_def predicate_json_def predicate_digests_def Let_def
  by (simp add: field_of_canon read_attester_json del: canon.simps(2))

lemma read_subject_json:
  assumes "dict_keys (ss_digest s) = [''sha256'']"
  shows "read_subject (canon (subject_json s)) = s"
proof -
  obtain d where d: "ss_digest s = [(''sha256'', d)]" using assms by (auto simp: dict_keys_def)
  have "field_of (canon (subject_json s)) ''digest'' = canon (JObj [(''sha256'', JStr d)])"
    unfolding subject_json_def d by (simp add: field_of_canon del: canon.simps(2))
  then show ?thesis by (simp add: read_subject_def d)
qed

lemma read_statement_law: "statement_decoder read_statement"
  unfolding statement_decoder_def
proof (intro conjI allI impI)
  fix s assume v: "validate_statement s = Inr s"
  then obtain sub where sub: "as_subjects s = [sub]" "read_subject (canon (subject_json sub)) = sub"
    using validate_statement_Inr(2) [OF v] validate_subject_Inr read_subject_json by metis
  have "field_of (canon (statement_json s)) ''subject'' = JArr [canon (subject_json sub)]"
    "field_of (canon (statement_json s)) ''predicate'' = canon (predicate_json (as_predicate s))"
    unfolding statement_json_def by (simp_all add: field_of_canon sub del: canon.simps(2))
  then have "\<lparr>as_subjects = map read_subject (items_of (field_of (canon (statement_json s)) ''subject'')),
       as_predicate = read_predicate (field_of (canon (statement_json s)) ''predicate'')\<rparr> = s"
    using sub by (simp add: read_predicate_json)
  then show "read_statement (canon (statement_json s)) = Inr s"
    unfolding read_statement_def Let_def by (simp add: v guards.simps)
next
  fix v s assume "read_statement v = Inr s"
  then show "validate_statement s = Inr s"
    unfolding read_statement_def Let_def by (auto simp: rbind_Inr_iff guards_Inr_iff dest: validate_statement_Inr(1))
qed

text \<open>A keyed digest in the place of Ed25519, and an identity with a policy that expects it.\<close>

definition toy_ed25519 :: "(bytes, bytes) ed25519" where
  "toy_ed25519 = \<lparr>ed_public = id, ed_raw = id, ed_sign = (\<lambda>sk m. sha256 (sk @ m)),
     ed_verify = (\<lambda>pk s m. s = sha256 (pk @ m))\<rparr>"

lemma toy_laws: "ed25519_laws toy_ed25519"
  using is_hex64_sha256 by (simp add: ed25519_laws_def toy_ed25519_def is_hex_def)

definition sample_attester :: attester_identity where
  "sample_attester = \<lparr>at_issuer = ''ci'', at_subject = ''repo'', at_repository = ''o/r'',
     at_workflow_ref = ''o/r/.github/workflows/ci.yml@'' @ replicate 40 CHR ''a'',
     at_commit = replicate 40 CHR ''a'', at_environment = None\<rparr>"

lemma sample_attester_valid: "validate_attester sample_attester = Inr sample_attester"
  by code_simp

definition sample_trust :: trust_policy where
  "sample_trust = (let p = \<lparr>tp_id = ''p'', tp_keys = [key_id_for_public_key toy_ed25519 ''k''], tp_issuer = Some ''ci'',
     tp_subject = None, tp_repository = Some ''o/r'', tp_workflow_ref = None, tp_commit = None,
     tp_require_rank = True, tp_digest = []\<rparr> in p\<lparr>tp_digest := canonical_digest (JObj (trust_payload p))\<rparr>)"

lemma sample_trust_facts:
  "validate_trust_policy sample_trust = Inr sample_trust" "tp_keys sample_trust = [key_id_for_public_key toy_ed25519 ''k'']"
  "identity_trusted sample_trust sample_attester"
proof -
  have id: "is_identity_id ''p''" by code_simp
  show "validate_trust_policy sample_trust = Inr sample_trust"
    unfolding validate_trust_policy_def guards_Inr_iff
    by (simp add: sample_trust_def Let_def id key_id_for_public_key_def trust_payload_def sorted_set_def)
  show "tp_keys sample_trust = [key_id_for_public_key toy_ed25519 ''k'']" "identity_trusted sample_trust sample_attester"
    by (simp_all add: sample_trust_def Let_def identity_trusted_def sample_attester_def)
qed

text \<open>A bundle of the kernel's sample run, signed with the key of the sample policy.\<close>

lemma sample_signed:
  assumes "validate_bundle b = Inr b" "rank_eligible (ab_scorecard b)"
  shows "\<exists>e r. sign_bundle toy_ed25519 read_statement b sample_attester ''k'' = Inr e
     \<and> validate_envelope read_statement e = Inr e
     \<and> verify_attestation toy_ed25519 read_statement b e ''k'' sample_trust = Inr r"
  using sign_then_verify [OF toy_laws read_statement_law assms(1) sample_attester_valid sample_trust_facts(1) _ sample_trust_facts(3),
      of "''k''"] assms(2)
  by (auto simp: sample_trust_facts(2) toy_ed25519_def)

theorem sign_verify_roundtrip_witness:
  "\<exists>v. verify_evidence (sample_registry sample_env) sample_manifest sample_plan sample_bundle = Inr v
     \<and> ((\<exists>b e r. build_artifacts sample_authority (plan_dict sample_plan) (evidence_dict sample_bundle) (verdict_dict v) = Inr b
           \<and> sign_bundle toy_ed25519 read_statement b sample_attester ''k'' = Inr e
           \<and> verify_attestation toy_ed25519 read_statement b e ''k'' sample_trust = Inr r)
         \<or> artifact_collision sample_authority sample_plan sample_bundle v)"
proof -
  have "\<exists>e r. sign_bundle toy_ed25519 read_statement b sample_attester ''k'' = Inr e
     \<and> verify_attestation toy_ed25519 read_statement b e ''k'' sample_trust = Inr r"
    if "validate_bundle b = Inr b" "rank_eligible (ab_scorecard b)" for b
    using sign_verify_roundtrip [OF toy_laws read_statement_law that(1) sample_attester_valid sample_trust_facts(1) _
        sample_trust_facts(3), of "''k''"] that(2)
    by (auto simp: sample_trust_facts(2) toy_ed25519_def)
  with sample_bundled show ?thesis by blast
qed

theorem verifier_decides_trust_witness:
  "\<exists>v. verify_evidence (sample_registry sample_env) sample_manifest sample_plan sample_bundle = Inr v
     \<and> ((\<exists>b e s. build_artifacts sample_authority (plan_dict sample_plan) (evidence_dict sample_bundle) (verdict_dict v) = Inr b
           \<and> trusted_statement toy_ed25519 b e ''k'' sample_trust s)
         \<or> artifact_collision sample_authority sample_plan sample_bundle v)"
proof -
  have "\<exists>e s. trusted_statement toy_ed25519 b e ''k'' sample_trust s"
    if bv: "validate_bundle b = Inr b" "rank_eligible (ab_scorecard b)" for b
  proof -
    obtain e r where e: "validate_envelope read_statement e = Inr e"
      "verify_attestation toy_ed25519 read_statement b e ''k'' sample_trust = Inr r" using sample_signed [OF bv] by blast
    from verifier_decides_trust [OF read_statement_law e(1) sample_trust_facts(1), of toy_ed25519 b "''k''"] e(2)
    show ?thesis by blast
  qed
  with sample_bundled show ?thesis by blast
qed

theorem envelope_binds_bundle_witness:
  "\<exists>v. verify_evidence (sample_registry sample_env) sample_manifest sample_plan sample_bundle = Inr v
     \<and> ((\<exists>b e r. build_artifacts sample_authority (plan_dict sample_plan) (evidence_dict sample_bundle) (verdict_dict v) = Inr b
           \<and> verify_attestation toy_ed25519 read_statement b e ''k'' sample_trust = Inr r
           \<and> (\<forall>b' r'. verify_attestation toy_ed25519 read_statement b' e ''k'' sample_trust = Inr r'
                \<longrightarrow> bundle_digest b' = bundle_digest b))
         \<or> artifact_collision sample_authority sample_plan sample_bundle v)"
proof -
  have "\<exists>e r. verify_attestation toy_ed25519 read_statement b e ''k'' sample_trust = Inr r
      \<and> (\<forall>b' r'. verify_attestation toy_ed25519 read_statement b' e ''k'' sample_trust = Inr r' \<longrightarrow> bundle_digest b' = bundle_digest b)"
    if bv: "validate_bundle b = Inr b" "rank_eligible (ab_scorecard b)" for b
  proof -
    obtain e r where e: "validate_envelope read_statement e = Inr e"
      "verify_attestation toy_ed25519 read_statement b e ''k'' sample_trust = Inr r" using sample_signed [OF bv] by blast
    from envelope_binds_bundle [OF read_statement_law e(1) sample_trust_facts(1) sample_trust_facts(1) _ e(2)] e(2)
    show ?thesis by blast
  qed
  with sample_bundled show ?thesis by blast
qed

section \<open>Key files\<close>

lemma write_key_Inr:
  assumes "write_key path payload mode overwrite fs = (Inr u, fs')"
  shows "fs' = fs(path \<mapsto> KeyFile payload mode) \<and> (\<forall>t. fs path \<noteq> Some (KeyLink t)) \<and> (\<not> overwrite \<longrightarrow> fs path = None)"
  using assms
  by (auto simp: write_key_def open_key_def write_bytes_def change_mode_def split: sum.splits option.splits key_entry.splits if_splits)

lemma follow_file: "fs path = Some (KeyFile b mode) \<Longrightarrow> follow 41 fs path = Some (b, mode)"
  using follow.simps(2) [of 40 fs path] by simp

lemma follow_absent: "fs path = None \<Longrightarrow> follow 41 fs path = None"
  using follow.simps(2) [of 40 fs path] by simp

text \<open>Between the opening and the change of the mode the new bytes have the mode of the overwritten file.\<close>

lemma overwritten_key_keeps_mode:
  assumes "fs path = Some (KeyFile old mode)" "open_key path 384 True fs = Inr fs1"
  shows "write_bytes path payload fs1 path = Some (KeyFile payload mode)"
  using assms by (auto simp: open_key_def write_bytes_def)

text \<open>A generated key pair can be loaded again: after a successful generation the private file, readable
  by its owner only, loads as the private key and the public file as its public key, the returned id
  is the key's, no other file has changed, and without the overwrite flag neither file existed.\<close>

theorem generated_keys_load:
  assumes "generate_keypair c pem resolve sk priv pub overwrite fs = (Inr kid, fs')"
    and "load_pem_private pem (pem_private pem sk) = Some (Some sk)"
    and "load_pem_public pem (pem_public pem (ed_public c sk)) = Some (Some (ed_public c sk))"
  shows "load_private_key pem fs' priv = Inr sk \<and> load_public_key pem fs' pub = Inr (ed_public c sk)
     \<and> kid = key_id_for_public_key c (ed_public c sk) \<and> (\<forall>q. q \<noteq> priv \<longrightarrow> q \<noteq> pub \<longrightarrow> fs' q = fs q)
     \<and> (\<not> overwrite \<longrightarrow> fs priv = None \<and> fs pub = None)"
proof -
  from assms(1) have ne: "resolve priv \<noteq> resolve pub" by (auto simp: generate_keypair_def split: if_splits)
  then have ne': "priv \<noteq> pub" by blast
  from assms(1) ne obtain fs1 where w: "write_key priv (pem_private pem sk) 384 overwrite fs = (Inr (), fs1)"
    "write_key pub (pem_public pem (ed_public c sk)) 420 overwrite fs1 = (Inr (), fs')"
    and kid: "kid = key_id_for_public_key c (ed_public c sk)"
    by (auto simp: generate_keypair_def split: if_splits prod.splits sum.splits)
  note p = write_key_Inr [OF w(1)] and q = write_key_Inr [OF w(2)]
  have "fs' priv = Some (KeyFile (pem_private pem sk) 384)" "fs' pub = Some (KeyFile (pem_public pem (ed_public c sk)) 420)"
    using p q ne' by simp_all
  then have "load_private_key pem fs' priv = Inr sk" "load_public_key pem fs' pub = Inr (ed_public c sk)"
    using assms(2,3) by (simp_all add: load_private_key_def load_public_key_def follow_file)
  moreover have "\<not> overwrite \<longrightarrow> fs priv = None \<and> fs pub = None" using p q ne' by auto
  ultimately show ?thesis using kid p q by simp
qed

definition toy_pem :: "(bytes, bytes) pem_codec" where
  "toy_pem = \<lparr>pem_private = (\<lambda>sk. ''S'' @ sk), pem_public = (\<lambda>pk. ''P'' @ pk),
     load_pem_private = (\<lambda>b. case b of [] \<Rightarrow> None | c # k \<Rightarrow> Some (if c = CHR ''S'' then Some k else None)),
     load_pem_public = (\<lambda>b. case b of [] \<Rightarrow> None | c # k \<Rightarrow> Some (if c = CHR ''P'' then Some k else None))\<rparr>"

theorem generated_keys_load_witness:
  "\<exists>kid fs. generate_keypair toy_ed25519 toy_pem id ''k'' ''key.pem'' ''pub.pem'' False Map.empty = (Inr kid, fs)
     \<and> load_private_key toy_pem fs ''key.pem'' = Inr ''k'' \<and> load_public_key toy_pem fs ''pub.pem'' = Inr ''k''"
proof -
  have "path_exists Map.empty q = False" for q by (simp add: path_exists_def follow_absent)
  then obtain kid fs where g: "generate_keypair toy_ed25519 toy_pem id ''k'' ''key.pem'' ''pub.pem'' False Map.empty = (Inr kid, fs)"
    by (simp add: generate_keypair_def write_key_def open_key_def write_bytes_def change_mode_def)
  have "load_pem_private toy_pem (pem_private toy_pem ''k'') = Some (Some ''k'')"
    "load_pem_public toy_pem (pem_public toy_pem (ed_public toy_ed25519 ''k'')) = Some (Some (ed_public toy_ed25519 ''k''))"
    by (simp_all add: toy_pem_def)
  note l = generated_keys_load [OF g this]
  have pub: "ed_public toy_ed25519 ''k'' = ''k''" by (simp add: toy_ed25519_def)
  have "load_private_key toy_pem fs ''key.pem'' = Inr ''k''" "load_public_key toy_pem fs ''pub.pem'' = Inr ''k''"
    using l unfolding pub by blast+
  with g show ?thesis by blast
qed

end
