(* ===== verification/Transparency.thy ===== *)
theory Transparency
  imports Attestation
begin

text \<open>
  The append-only transparency log of \<open>transparency_log.py\<close>: entries, checkpoints and inclusion
  receipts with their validators, the Merkle tree over the entry digests, and the log on its two files.
  Reading a JSON value into a typed entry or checkpoint is pydantic's, an argument. The log and the
  checkpoint file are byte strings; every operation runs under the file lock and is one step, except
  that \<open>append\<close> writes the log before the checkpoint, and the state in between is \<open>write_log\<close>.
\<close>

section \<open>Entries\<close>

record log_entry =
  le_log_id :: string
  le_sequence :: nat
  le_previous :: "string option"
  le_envelope :: string
  le_statement :: string
  le_bundle :: string
  le_keys :: "string list"
  le_receipt :: string
  le_digest :: string

definition entry_payload :: "log_entry \<Rightarrow> json dict" where
  "entry_payload e = [(''schema_version'', JStr ''1.0''), (''log_id'', JStr (le_log_id e)),
     (''sequence'', JInt (int (le_sequence e))), (''previous_entry_digest'', opt_str (le_previous e)),
     (''envelope_digest'', JStr (le_envelope e)), (''statement_digest'', JStr (le_statement e)),
     (''bundle_digest'', JStr (le_bundle e)), (''key_ids'', strs (le_keys e)),
     (''verification_receipt_digest'', JStr (le_receipt e))]"

definition entry_json :: "log_entry \<Rightarrow> json" where
  "entry_json e = JObj (entry_payload e @ [(''entry_digest'', JStr (le_digest e))])"

definition validate_entry :: "log_entry \<Rightarrow> log_entry res" where
  "validate_entry e = guards
     [(\<not> is_identity_id (le_log_id e), ValidationError ''log_id''),
      (\<not> opt_hex64 (le_previous e), ValidationError ''previous_entry_digest''),
      (\<not> is_hex64 (le_envelope e), ValidationError ''envelope_digest''),
      (\<not> is_hex64 (le_statement e), ValidationError ''statement_digest''),
      (\<not> is_hex64 (le_bundle e), ValidationError ''bundle_digest''),
      (le_keys e = [], ValidationError ''key_ids''),
      (\<not> is_hex64 (le_receipt e), ValidationError ''verification_receipt_digest''),
      (\<not> is_hex64 (le_digest e), ValidationError ''entry_digest''),
      (le_sequence e = 0 \<and> le_previous e \<noteq> None,
        ValidationError ''first transparency entry must not have a previous digest''),
      (0 < le_sequence e \<and> le_previous e = None,
        ValidationError ''non-first transparency entry requires a previous digest''),
      (le_keys e \<noteq> sorted_set (le_keys e), ValidationError ''transparency entry key IDs must be sorted and unique''),
      (\<not> list_all is_hex64 (le_keys e), ValidationError ''transparency entry key IDs must be SHA-256 digests''),
      (canonical_digest (JObj (entry_payload e)) \<noteq> le_digest e,
        ValidationError ''transparency entry digest does not match entry payload'')] e"

definition canonical_line :: "log_entry \<Rightarrow> bytes" where
  "canonical_line e = utf8 (dumps (entry_json e) @ [CHR 0x0A])"

section \<open>Checkpoints\<close>

record log_checkpoint =
  cp_log_id :: string
  cp_size :: nat
  cp_root :: string
  cp_head :: "string option"
  cp_digest :: string

definition checkpoint_payload :: "log_checkpoint \<Rightarrow> json dict" where
  "checkpoint_payload c = [(''schema_version'', JStr ''1.0''), (''log_id'', JStr (cp_log_id c)),
     (''tree_size'', JInt (int (cp_size c))), (''root_hash'', JStr (cp_root c)),
     (''head_entry_digest'', opt_str (cp_head c))]"

definition checkpoint_json :: "log_checkpoint \<Rightarrow> json" where
  "checkpoint_json c = JObj (checkpoint_payload c @ [(''checkpoint_digest'', JStr (cp_digest c))])"

definition validate_checkpoint :: "log_checkpoint \<Rightarrow> log_checkpoint res" where
  "validate_checkpoint c = guards
     [(\<not> is_identity_id (cp_log_id c), ValidationError ''log_id''),
      (\<not> is_hex64 (cp_root c), ValidationError ''root_hash''),
      (\<not> opt_hex64 (cp_head c), ValidationError ''head_entry_digest''),
      (\<not> is_hex64 (cp_digest c), ValidationError ''checkpoint_digest''),
      (cp_size c = 0 \<and> cp_head c \<noteq> None, ValidationError ''empty checkpoint must not have a head entry''),
      (0 < cp_size c \<and> cp_head c = None, ValidationError ''non-empty checkpoint requires a head entry''),
      (canonical_digest (JObj (checkpoint_payload c)) \<noteq> cp_digest c,
        ValidationError ''checkpoint digest does not match checkpoint payload'')] c"

section \<open>The Merkle tree\<close>

text \<open>\<open>bytes.fromhex\<close> on the digests the validators accept.\<close>

definition nibble :: "char \<Rightarrow> nat" where
  "nibble c = (case hex_value c of None \<Rightarrow> 0 | Some n \<Rightarrow> n)"

fun unhex :: "string \<Rightarrow> bytes" where
  "unhex (a # b # r) = char_of (16 * nibble a + nibble b) # unhex r"
| "unhex _ = []"

definition leaf_hash :: "string \<Rightarrow> string" where
  "leaf_hash d = sha256 (CHR 0x00 # unhex d)"

definition node_hash :: "string \<Rightarrow> string \<Rightarrow> string" where
  "node_hash l r = sha256 (CHR 0x01 # unhex l @ unhex r)"

text \<open>\<open>1 << ((value - 1).bit_length() - 1)\<close>\<close>

fun bit_length :: "nat \<Rightarrow> nat" where
  "bit_length n = (if n = 0 then 0 else Suc (bit_length (n div 2)))"

declare bit_length.simps [simp del]

definition split_point :: "nat \<Rightarrow> nat" where
  "split_point v = push_bit (bit_length (v - 1) - 1) 1"

definition largest_power_of_two_less_than :: "nat \<Rightarrow> nat res" where
  "largest_power_of_two_less_than v =
     (if v \<le> 1 then Inl (ValueError ''Merkle split requires at least two leaves'') else Inr (split_point v))"

lemma bit_length_bounds: "0 < n \<Longrightarrow> 0 < bit_length n \<and> 2 ^ (bit_length n - 1) \<le> n \<and> n < 2 ^ bit_length n"
proof (induction n rule: bit_length.induct)
  case (1 n)
  show ?case
  proof (cases "n div 2 = 0")
    case True
    then have "n = 1" using 1(2) by linarith
    then show ?thesis by (simp add: bit_length.simps)
  next
    case False
    then have ih: "0 < bit_length (n div 2)" "2 ^ (bit_length (n div 2) - 1) \<le> n div 2" "n div 2 < 2 ^ bit_length (n div 2)"
      using 1 by simp_all
    have e: "bit_length n = Suc (bit_length (n div 2))" using 1(2) by (subst bit_length.simps) simp
    obtain k where k: "bit_length (n div 2) = Suc k" using ih(1) gr0_implies_Suc by blast
    have "n = 2 * (n div 2) + n mod 2" "n mod 2 < 2" by simp_all
    then have "2 * 2 ^ k \<le> n \<and> n < 2 * (2 * 2 ^ k)" using ih(2,3) unfolding k diff_Suc_1 power_Suc by linarith
    then show ?thesis unfolding e k by simp
  qed
qed

lemma split_point_bounds: "2 \<le> n \<Longrightarrow> 0 < split_point n \<and> split_point n < n \<and> n \<le> 2 * split_point n"
proof -
  assume "2 \<le> n"
  then have b: "0 < bit_length (n - 1)" "2 ^ (bit_length (n - 1) - 1) \<le> n - 1" "n - 1 < 2 ^ bit_length (n - 1)"
    using bit_length_bounds [of "n - 1"] by simp_all
  obtain k where k: "bit_length (n - 1) = Suc k" using b(1) gr0_implies_Suc by blast
  show ?thesis using b(2,3) \<open>2 \<le> n\<close> unfolding split_point_def k push_bit_eq_mult by auto
qed

function merkle_root :: "string list \<Rightarrow> string" where
  "merkle_root ds =
     (if ds = [] then sha256 []
      else if length ds = 1 then leaf_hash (hd ds)
      else let k = split_point (length ds) in node_hash (merkle_root (take k ds)) (merkle_root (drop k ds)))"
  by pat_completeness auto

termination
proof (relation "measure length")
  fix ds :: "string list" and k
  assume "ds \<noteq> []" "length ds \<noteq> 1" "k = split_point (length ds)"
  moreover from this have "2 \<le> length ds" by (cases ds) (auto simp: Suc_le_eq)
  ultimately show "(take k ds, ds) \<in> measure length" "(drop k ds, ds) \<in> measure length"
    using split_point_bounds [of "length ds"] by auto
qed simp

declare merkle_root.simps [simp del]

datatype path_side = LeftSide | RightSide

fun side_value :: "path_side \<Rightarrow> string" where
  "side_value LeftSide = ''left''"
| "side_value RightSide = ''right''"

record path_node =
  pn_side :: path_side
  pn_digest :: string

definition path_json :: "path_node \<Rightarrow> json" where
  "path_json n = JObj [(''side'', JStr (side_value (pn_side n))), (''digest'', JStr (pn_digest n))]"

function merkle_path :: "string list \<Rightarrow> nat \<Rightarrow> path_node list res" where
  "merkle_path ds i =
     (if \<not> i < length ds then Inl (AttestationError ''Merkle leaf index is outside the tree'')
      else if length ds = 1 then Inr []
      else let k = split_point (length ds) in
        if i < k
        then rbind (merkle_path (take k ds) i) (\<lambda>p.
          Inr (p @ [\<lparr>pn_side = RightSide, pn_digest = merkle_root (drop k ds)\<rparr>]))
        else rbind (merkle_path (drop k ds) (i - k)) (\<lambda>p.
          Inr (p @ [\<lparr>pn_side = LeftSide, pn_digest = merkle_root (take k ds)\<rparr>])))"
  by pat_completeness auto

termination
proof (relation "measure (\<lambda>(ds, i). length ds)")
  fix ds :: "string list" and i k
  assume a: "\<not> \<not> i < length ds" "length ds \<noteq> 1" "k = split_point (length ds)"
  then have "2 \<le> length ds" by linarith
  from split_point_bounds [OF this] a(3)
  show "((take k ds, i), ds, i) \<in> measure (\<lambda>(ds, i). length ds)"
    "((drop k ds, i - k), ds, i) \<in> measure (\<lambda>(ds, i). length ds)" by auto
qed simp

declare merkle_path.simps [simp del]

text \<open>The loop of the receipt validator: from the leaf hash up to the root.\<close>

definition fold_path :: "string \<Rightarrow> path_node list \<Rightarrow> string" where
  "fold_path h path = fold (\<lambda>n r. case pn_side n of
     LeftSide \<Rightarrow> node_hash (pn_digest n) r | RightSide \<Rightarrow> node_hash r (pn_digest n)) path h"

section \<open>Inclusion receipts\<close>

record inclusion_receipt =
  ir_log_id :: string
  ir_index :: nat
  ir_entry :: string
  ir_leaf :: string
  ir_path :: "path_node list"
  ir_checkpoint :: log_checkpoint
  ir_digest :: string

definition inclusion_payload :: "inclusion_receipt \<Rightarrow> json dict" where
  "inclusion_payload r = [(''schema_version'', JStr ''1.0''), (''log_id'', JStr (ir_log_id r)),
     (''leaf_index'', JInt (int (ir_index r))), (''entry_digest'', JStr (ir_entry r)),
     (''leaf_hash'', JStr (ir_leaf r)), (''path'', JArr (map path_json (ir_path r))),
     (''checkpoint'', checkpoint_json (ir_checkpoint r))]"

definition validate_inclusion :: "inclusion_receipt \<Rightarrow> inclusion_receipt res" where
  "validate_inclusion r = rbind (validate_checkpoint (ir_checkpoint r)) (\<lambda>_. guards
     [(\<not> is_identity_id (ir_log_id r), ValidationError ''log_id''),
      (\<not> is_hex64 (ir_entry r), ValidationError ''entry_digest''),
      (\<not> is_hex64 (ir_leaf r), ValidationError ''leaf_hash''),
      (\<not> list_all (\<lambda>n. is_hex64 (pn_digest n)) (ir_path r), ValidationError ''path''),
      (\<not> is_hex64 (ir_digest r), ValidationError ''receipt_digest''),
      (ir_log_id r \<noteq> cp_log_id (ir_checkpoint r), ValidationError ''receipt log ID does not match checkpoint''),
      (cp_size (ir_checkpoint r) \<le> ir_index r, ValidationError ''receipt leaf index is outside the checkpoint tree''),
      (ir_leaf r \<noteq> leaf_hash (ir_entry r), ValidationError ''receipt leaf hash does not match entry digest''),
      (fold_path (ir_leaf r) (ir_path r) \<noteq> cp_root (ir_checkpoint r),
        ValidationError ''receipt path does not reach checkpoint root''),
      (canonical_digest (JObj (inclusion_payload r)) \<noteq> ir_digest r,
        ValidationError ''inclusion receipt digest does not match receipt payload'')] r)"

section \<open>Chain, checkpoint and receipt of a list of entries\<close>

fun chain_from :: "string \<Rightarrow> nat \<Rightarrow> string option \<Rightarrow> string list \<Rightarrow> log_entry list \<Rightarrow> unit res" where
  "chain_from lid n prev seen [] = Inr ()"
| "chain_from lid n prev seen (e # es) = rbind (guards
     [(le_log_id e \<noteq> lid, AttestationError ''transparency entry belongs to a different log''),
      (le_sequence e \<noteq> n, AttestationError ''transparency sequence is missing or reordered''),
      (le_previous e \<noteq> prev, AttestationError ''transparency previous-entry chain is broken''),
      (le_envelope e \<in> set seen, AttestationError ''transparency log contains a duplicate envelope'')] ())
     (\<lambda>_. chain_from lid (Suc n) (Some (le_digest e)) (le_envelope e # seen) es)"

definition validate_entry_chain :: "string \<Rightarrow> log_entry list \<Rightarrow> unit res" where
  "validate_entry_chain lid es = chain_from lid 0 None [] es"

definition make_checkpoint :: "string \<Rightarrow> log_entry list \<Rightarrow> log_checkpoint" where
  "make_checkpoint lid es = (let c = \<lparr>cp_log_id = lid, cp_size = length es, cp_root = merkle_root (map le_digest es),
       cp_head = (if es = [] then None else Some (le_digest (last es))), cp_digest = []\<rparr>
     in c\<lparr>cp_digest := canonical_digest (JObj (checkpoint_payload c))\<rparr>)"

definition build_checkpoint :: "string \<Rightarrow> log_entry list \<Rightarrow> log_checkpoint res" where
  "build_checkpoint lid es = validate_checkpoint (make_checkpoint lid es)"

definition make_inclusion :: "log_entry list \<Rightarrow> nat \<Rightarrow> log_checkpoint \<Rightarrow> path_node list \<Rightarrow> inclusion_receipt" where
  "make_inclusion es i c path = (let r = \<lparr>ir_log_id = cp_log_id c, ir_index = i, ir_entry = le_digest (es ! i),
       ir_leaf = leaf_hash (le_digest (es ! i)), ir_path = path, ir_checkpoint = c, ir_digest = []\<rparr>
     in r\<lparr>ir_digest := canonical_digest (JObj (inclusion_payload r))\<rparr>)"

definition build_inclusion_receipt :: "log_entry list \<Rightarrow> nat \<Rightarrow> log_checkpoint \<Rightarrow> inclusion_receipt res" where
  "build_inclusion_receipt es i c = rbind (merkle_path (map le_digest es) i) (\<lambda>path.
     validate_inclusion (make_inclusion es i c path))"

section \<open>The log files\<close>

record log_files =
  lf_log :: "bytes option"
  lf_checkpoint :: "bytes option"
  lf_linked :: bool

text \<open>pydantic's decoders of the statement, the log entry and the checkpoint.\<close>

record log_decoders =
  ld_statement :: "json \<Rightarrow> artifact_statement res"
  ld_entry :: "json \<Rightarrow> log_entry res"
  ld_checkpoint :: "json \<Rightarrow> log_checkpoint res"

definition log_decoders_ok :: "log_decoders \<Rightarrow> bool" where
  "log_decoders_ok d \<longleftrightarrow> statement_decoder (ld_statement d)
     \<and> (\<forall>e. validate_entry e = Inr e \<longrightarrow> ld_entry d (canon (entry_json e)) = Inr e)
     \<and> (\<forall>v e. ld_entry d v = Inr e \<longrightarrow> validate_entry e = Inr e)
     \<and> (\<forall>c. validate_checkpoint c = Inr c \<longrightarrow> ld_checkpoint d (canon (checkpoint_json c)) = Inr c)"

text \<open>Text mode translates line ends before the lines are split off, each with its newline.\<close>

fun universal_newlines :: "string \<Rightarrow> string" where
  "universal_newlines [] = []"
| "universal_newlines (c # cs) =
     (if c = CHR 0x0D
      then CHR 0x0A # (case cs of [] \<Rightarrow> [] | d # r \<Rightarrow> if d = CHR 0x0A then universal_newlines r else universal_newlines cs)
      else c # universal_newlines cs)"

fun file_lines :: "string \<Rightarrow> string list" where
  "file_lines [] = []"
| "file_lines (c # cs) = (if c = CHR 0x0A then [c] # file_lines cs
     else case file_lines cs of [] \<Rightarrow> [[c]] | l # ls \<Rightarrow> (c # l) # ls)"

definition read_entry :: "log_decoders \<Rightarrow> nat \<times> string \<Rightarrow> log_entry res" where
  "read_entry d = (\<lambda>(n, line).
     if \<not> ends_with line [CHR 0x0A]
     then Inl (AttestationError (''transparency line '' @ show_nat n @ '' is truncated''))
     else if strip line = [] then Inl (AttestationError (''transparency line '' @ show_nat n @ '' is empty''))
     else case loads line of
         None \<Rightarrow> Inl (AttestationError ''transparency log contains an invalid entry'')
       | Some v \<Rightarrow> (case ld_entry d v of
           Inl _ \<Rightarrow> Inl (AttestationError ''transparency log contains an invalid entry'')
         | Inr e \<Rightarrow> if utf8 line \<noteq> canonical_line e
             then Inl (AttestationError (''transparency line '' @ show_nat n @ '' is not canonical JSON''))
             else Inr e))"

definition read_entries :: "log_decoders \<Rightarrow> log_files \<Rightarrow> log_entry list res" where
  "read_entries d st = (case lf_log st of
     None \<Rightarrow> Inr []
   | Some raw \<Rightarrow> (case utf8_strict raw of
         None \<Rightarrow> Inl (AttestationError ''transparency log contains an invalid entry'')
       | Some text \<Rightarrow> let lines = file_lines (universal_newlines text) in
           traverse (read_entry d) (zip [1..<Suc (length lines)] lines)))"

definition read_checkpoint :: "log_decoders \<Rightarrow> bytes \<Rightarrow> log_checkpoint res" where
  "read_checkpoint d raw = (case Option.bind (utf8_strict raw) loads of
     None \<Rightarrow> Inl (AttestationError ''transparency checkpoint is invalid'')
   | Some v \<Rightarrow> (case ld_checkpoint d v of
         Inl _ \<Rightarrow> Inl (AttestationError ''transparency checkpoint is invalid'')
       | Inr c \<Rightarrow> Inr c))"

text \<open>\<open>_verify_unlocked\<close>\<close>

definition verify_unlocked ::
  "log_decoders \<Rightarrow> string \<Rightarrow> bool \<Rightarrow> log_files \<Rightarrow> (log_entry list \<times> log_checkpoint) res" where
  "verify_unlocked d lid allow st =
     rbind (read_entries d st) (\<lambda>es.
     rbind (validate_entry_chain lid es) (\<lambda>_.
     rbind (build_checkpoint lid es) (\<lambda>expected.
     case lf_checkpoint st of
       None \<Rightarrow> if es \<noteq> [] \<or> \<not> allow then Inl (AttestationError ''transparency checkpoint is missing'')
               else Inr (es, expected)
     | Some raw \<Rightarrow> rbind (read_checkpoint d raw) (\<lambda>observed.
         if observed \<noteq> expected
         then Inl (AttestationError ''transparency log does not match checkpoint; mutation or truncation detected'')
         else Inr (es, observed)))))"

definition reject_links :: "log_files \<Rightarrow> unit res" where
  "reject_links st = guards [(lf_linked st, AttestationError ''transparency state path must not be a symlink'')] ()"

section \<open>Appending\<close>

definition make_entry ::
  "string \<Rightarrow> log_entry list \<Rightarrow> dsse_envelope \<Rightarrow> artifact_statement \<Rightarrow> attestation_receipt \<Rightarrow> log_entry" where
  "make_entry lid es e s v = (let x = \<lparr>le_log_id = lid, le_sequence = length es,
       le_previous = (if es = [] then None else Some (le_digest (last es))), le_envelope = envelope_digest e,
       le_statement = statement_digest s, le_bundle = av_bundle_digest v,
       le_keys = sort (map sg_keyid (de_signatures e)), le_receipt = av_digest v, le_digest = []\<rparr>
     in x\<lparr>le_digest := canonical_digest (JObj (entry_payload x))\<rparr>)"

text \<open>Everything \<open>append\<close> checks before it writes: the entries so far and the new one.\<close>

definition prepare_append ::
  "('sk, 'pk) ed25519 \<Rightarrow> log_decoders \<Rightarrow> string \<Rightarrow> dsse_envelope \<Rightarrow> artifact_bundle \<Rightarrow> 'pk \<Rightarrow> trust_policy \<Rightarrow> log_files
    \<Rightarrow> (log_entry list \<times> log_entry) res" where
  "prepare_append c d lid e b pk p st =
     rbind (reject_links st) (\<lambda>_.
     rbind (validate_envelope (ld_statement d) e) (\<lambda>e.
     rbind (verify_attestation c (ld_statement d) b e pk p) (\<lambda>v.
     rbind (parse_statement (ld_statement d) e) (\<lambda>s.
     rbind (guards
       [(av_envelope_digest v \<noteq> envelope_digest e,
          AttestationError ''verification receipt does not match DSSE envelope''),
        (av_statement_digest v \<noteq> statement_digest s, AttestationError ''verification receipt does not match statement''),
        (av_bundle_digest v \<noteq> ap_bundle_digest (as_predicate s),
          AttestationError ''verification receipt does not match bundle predicate'')] ()) (\<lambda>_.
     rbind (verify_unlocked d lid True st) (\<lambda>(es, _).
     rbind (guards [(envelope_digest e \<in> set (map le_envelope es),
          AttestationError ''duplicate DSSE envelope publication is rejected'')] ()) (\<lambda>_.
     rbind (validate_entry (make_entry lid es e s v)) (\<lambda>x. Inr (es, x)))))))))"

definition write_log :: "log_entry \<Rightarrow> log_files \<Rightarrow> log_files" where
  "write_log x st = st\<lparr>lf_log := Some ((case lf_log st of None \<Rightarrow> [] | Some raw \<Rightarrow> raw) @ canonical_line x)\<rparr>"

definition write_checkpoint :: "log_checkpoint \<Rightarrow> log_files \<Rightarrow> log_files" where
  "write_checkpoint c st = st\<lparr>lf_checkpoint := Some (utf8 (dumps (checkpoint_json c) @ [CHR 0x0A]))\<rparr>"

definition log_append ::
  "('sk, 'pk) ed25519 \<Rightarrow> log_decoders \<Rightarrow> string \<Rightarrow> dsse_envelope \<Rightarrow> artifact_bundle \<Rightarrow> 'pk \<Rightarrow> trust_policy \<Rightarrow> log_files
    \<Rightarrow> inclusion_receipt res \<times> log_files" where
  "log_append c d lid e b pk p st = (case prepare_append c d lid e b pk p st of
     Inl err \<Rightarrow> (Inl err, st)
   | Inr (es, x) \<Rightarrow> let st1 = write_log x st in
       (case build_checkpoint lid (es @ [x]) of
          Inl err \<Rightarrow> (Inl err, st1)
        | Inr cp \<Rightarrow> (build_inclusion_receipt (es @ [x]) (le_sequence x) cp, write_checkpoint cp st1)))"

section \<open>Verifying\<close>

record log_verification =
  lv_log_id :: string
  lv_size :: nat
  lv_root :: string
  lv_head :: "string option"
  lv_checkpoint_digest :: string

definition log_verify :: "log_decoders \<Rightarrow> string \<Rightarrow> log_files \<Rightarrow> log_verification res" where
  "log_verify d lid st = rbind (reject_links st) (\<lambda>_. rbind (verify_unlocked d lid False st) (\<lambda>(es, c).
     Inr \<lparr>lv_log_id = lid, lv_size = length es, lv_root = cp_root c, lv_head = cp_head c,
          lv_checkpoint_digest = cp_digest c\<rparr>))"

text \<open>A receipt is a validated model, so its leaf index lies inside the checkpoint's tree.\<close>

definition verify_receipt :: "log_decoders \<Rightarrow> string \<Rightarrow> inclusion_receipt \<Rightarrow> log_files \<Rightarrow> bool res" where
  "verify_receipt d lid r st =
     rbind (validate_inclusion r) (\<lambda>r.
     rbind (guards [(ir_log_id r \<noteq> lid, AttestationError ''inclusion receipt belongs to a different log'')] ()) (\<lambda>_.
     rbind (reject_links st) (\<lambda>_.
     rbind (read_entries d st) (\<lambda>es.
     rbind (guards [(length es < cp_size (ir_checkpoint r),
          AttestationError ''receipt checkpoint exceeds available log entries'')] ()) (\<lambda>_.
     let prefix = take (cp_size (ir_checkpoint r)) es in
     rbind (validate_entry_chain lid prefix) (\<lambda>_.
     rbind (build_checkpoint lid prefix) (\<lambda>cp.
     rbind (guards
       [(cp \<noteq> ir_checkpoint r, AttestationError ''receipt checkpoint does not match log prefix''),
        (le_digest (prefix ! ir_index r) \<noteq> ir_entry r,
          AttestationError ''receipt entry digest does not match log entry'')] ()) (\<lambda>_.
     rbind (build_inclusion_receipt prefix (ir_index r) cp) (\<lambda>expected.
       guards [(expected \<noteq> r, AttestationError ''receipt Merkle path does not match log prefix'')] True)))))))))"

end
