(* ===== verification/Merkle.thy ===== *)
theory Merkle
  imports Transparency
begin

text \<open>
  The Merkle tree of the log: every leaf has a path and the path leads to the root, and a root
  determines the list of leaves of its length unless two of the hashed messages collide.
\<close>

section \<open>Digests as bytes\<close>

lemma nibble_lhex:
  assumes "is_lhex c"
  shows "nibble c < 16" "(of_char c :: nat) = (if nibble c < 10 then 48 + nibble c else 87 + nibble c)"
  using assms unfolding is_lhex_def nibble_def hex_value_def Let_def by (elim disjE conjE; simp)+

lemma nibble_inj: "\<lbrakk>is_lhex c; is_lhex d; nibble c = nibble d\<rbrakk> \<Longrightarrow> c = d"
  using nibble_lhex(2) [of c] nibble_lhex(2) [of d] by (metis of_char_eq_iff)

lemma length_unhex: "even (length s) \<Longrightarrow> 2 * length (unhex s) = length s"
  by (induction s rule: unhex.induct) auto

lemma unhex_inj:
  "\<lbrakk>list_all is_lhex s; list_all is_lhex t; even (length s); length t = length s; unhex s = unhex t\<rbrakk> \<Longrightarrow> s = t"
proof (induction s arbitrary: t rule: unhex.induct)
  case (1 a b r)
  from "1.prems"(4) obtain a' b' r' where t: "t = a' # b' # r'" by (auto simp: length_Suc_conv)
  have lhex: "is_lhex a" "is_lhex b" "is_lhex a'" "is_lhex b'" using "1.prems" by (simp_all add: t)
  have eq: "char_of (16 * nibble a + nibble b) = (char_of (16 * nibble a' + nibble b') :: char)" "unhex r = unhex r'"
    using "1.prems"(5) by (simp_all only: t unhex.simps list.inject)
  have "16 * nibble a + nibble b < 256" "16 * nibble a' + nibble b' < 256"
    using lhex [THEN nibble_lhex(1)] by linarith+
  then have "16 * nibble a + nibble b = 16 * nibble a' + nibble b'" using eq(1) of_char_small by metis
  moreover from this have na: "nibble a = nibble a'" using lhex [THEN nibble_lhex(1)] by linarith
  ultimately have "nibble b = nibble b'" by linarith
  with na have "nibble a = nibble a'" "nibble b = nibble b'" by blast+
  then have "a = a'" "b = b'" using nibble_inj [OF lhex(1,3)] nibble_inj [OF lhex(2,4)] by simp_all
  moreover have "r = r'"
    using "1.prems"(1-4) by (intro "1.IH" eq(2)) (simp_all add: t)
  ultimately show ?case by (simp add: t)
qed (auto simp: length_Suc_conv)

lemma unhex_hex64:
  assumes "is_hex64 s" "is_hex64 t"
  shows "unhex s = unhex t \<longleftrightarrow> s = t" and "length (unhex s) = 32"
  using assms unhex_inj [of s t] length_unhex [of s] by (auto simp: is_hex_def)

section \<open>Paths\<close>

lemma merkle_root_hex: "is_hex64 (merkle_root ds)"
  by (subst merkle_root.simps) (simp add: leaf_hash_def node_hash_def Let_def)

lemma fold_path_snoc: "fold_path h (p @ [n]) = (case pn_side n of
     LeftSide \<Rightarrow> node_hash (pn_digest n) (fold_path h p) | RightSide \<Rightarrow> node_hash (fold_path h p) (pn_digest n))"
  by (cases "pn_side n") (simp_all add: fold_path_def)

lemma merkle_path_reaches:
  "i < length ds \<Longrightarrow> \<exists>p. merkle_path ds i = Inr p \<and> fold_path (leaf_hash (ds ! i)) p = merkle_root ds
     \<and> list_all (\<lambda>n. is_hex64 (pn_digest n)) p"
proof (induction ds i rule: merkle_path.induct)
  case (1 ds i)
  let ?k = "split_point (length ds)"
  consider (one) "length ds = 1" | (two) "2 \<le> length ds" using "1.prems" by linarith
  then show ?case
  proof cases
    case one
    then obtain d where "ds = [d]" by (auto simp: length_Suc_conv)
    then show ?thesis using "1.prems"
      by (simp add: merkle_path.simps [of "[d]"] merkle_root.simps [of "[d]"] fold_path_def)
  next
    case two
    note k = split_point_bounds [OF two]
    have ne: "ds \<noteq> []" "length ds \<noteq> 1" using two by auto
    have root: "merkle_root ds = node_hash (merkle_root (take ?k ds)) (merkle_root (drop ?k ds))"
      using ne by (subst merkle_root.simps) (simp add: Let_def)
    show ?thesis
    proof (cases "i < ?k")
      case True
      obtain p where p: "merkle_path (take ?k ds) i = Inr p" "fold_path (leaf_hash (take ?k ds ! i)) p = merkle_root (take ?k ds)"
        "list_all (\<lambda>n. is_hex64 (pn_digest n)) p"
        using "1.IH"(1) [OF _ ne(2) refl True] "1.prems" True k by auto
      have "merkle_path ds i = Inr (p @ [\<lparr>pn_side = RightSide, pn_digest = merkle_root (drop ?k ds)\<rparr>])"
        using "1.prems" ne True p(1) by (subst merkle_path.simps) (simp add: Let_def)
      then show ?thesis using p True by (simp add: fold_path_snoc root merkle_root_hex)
    next
      case False
      then have lt: "i - ?k < length (drop ?k ds)" using "1.prems" k by (simp add: diff_less_mono)
      have "drop ?k ds ! (i - ?k) = ds ! i" using "1.prems" False by simp
      moreover obtain p where p: "merkle_path (drop ?k ds) (i - ?k) = Inr p"
        "fold_path (leaf_hash (drop ?k ds ! (i - ?k))) p = merkle_root (drop ?k ds)"
        "list_all (\<lambda>n. is_hex64 (pn_digest n)) p"
        using "1.IH"(2) [OF _ ne(2) refl False lt] "1.prems" by auto
      moreover have "merkle_path ds i = Inr (p @ [\<lparr>pn_side = LeftSide, pn_digest = merkle_root (take ?k ds)\<rparr>])"
        using "1.prems" ne False p(1) by (subst merkle_path.simps) (simp add: Let_def)
      ultimately show ?thesis by (simp add: fold_path_snoc root merkle_root_hex)
    qed
  qed
qed

section \<open>Binding\<close>

text \<open>The messages that are hashed to compute a root, and a collision between two lists of messages.\<close>

function merkle_messages :: "string list \<Rightarrow> bytes list" where
  "merkle_messages ds =
     (if ds = [] then [[]]
      else if length ds = 1 then [CHR 0x00 # unhex (hd ds)]
      else let k = split_point (length ds) in
        (CHR 0x01 # unhex (merkle_root (take k ds)) @ unhex (merkle_root (drop k ds)))
        # merkle_messages (take k ds) @ merkle_messages (drop k ds))"
  by pat_completeness auto

termination
proof (relation "measure length")
  fix ds :: "string list" and k
  assume "ds \<noteq> []" "length ds \<noteq> 1" "k = split_point (length ds)"
  moreover from this have "2 \<le> length ds" by (cases ds) (auto simp: Suc_le_eq)
  ultimately show "(take k ds, ds) \<in> measure length" "(drop k ds, ds) \<in> measure length"
    using split_point_bounds [of "length ds"] by auto
qed simp

declare merkle_messages.simps [simp del]

definition message_clash :: "bytes list \<Rightarrow> bytes list \<Rightarrow> bool" where
  "message_clash xs ys \<longleftrightarrow> (\<exists>x \<in> set xs. \<exists>y \<in> set ys. x \<noteq> y \<and> sha256 x = sha256 y)"

lemma message_clash_mono:
  "\<lbrakk>message_clash xs ys; set xs \<subseteq> set xs'; set ys \<subseteq> set ys'\<rbrakk> \<Longrightarrow> message_clash xs' ys'"
  unfolding message_clash_def by blast

lemma merkle_root_binds:
  "\<lbrakk>length es = length ds; list_all is_hex64 ds; list_all is_hex64 es; merkle_root ds = merkle_root es\<rbrakk>
     \<Longrightarrow> ds = es \<or> message_clash (merkle_messages ds) (merkle_messages es)"
proof (induction ds arbitrary: es rule: merkle_root.induct)
  case (1 ds)
  let ?k = "split_point (length ds)"
  consider (none) "ds = []" | (one) "length ds = 1" | (two) "2 \<le> length ds" by (cases ds) (auto simp: Suc_le_eq)
  then show ?case
  proof cases
    case none
    then show ?thesis using "1.prems" by simp
  next
    case one
    then obtain d where d: "ds = [d]" by (auto simp: length_Suc_conv)
    then obtain e where e: "es = [e]" using "1.prems"(1) by (auto simp: length_Suc_conv)
    have "sha256 (CHR 0x00 # unhex d) = sha256 (CHR 0x00 # unhex e)"
      using "1.prems"(4) by (simp add: d e merkle_root.simps [of "[d]"] merkle_root.simps [of "[e]"] leaf_hash_def)
    then show ?thesis using "1.prems"(2,3) unhex_hex64(1) [of d e]
      by (auto simp: d e message_clash_def merkle_messages.simps [of "[d]"] merkle_messages.simps [of "[e]"])
  next
    case two
    have ne: "ds \<noteq> []" "length ds \<noteq> 1" "es \<noteq> []" "length es \<noteq> 1" using two "1.prems"(1) by auto
    let ?l = "take ?k ds" and ?r = "drop ?k ds" and ?l' = "take ?k es" and ?r' = "drop ?k es"
    let ?m = "CHR 0x01 # unhex (merkle_root ?l) @ unhex (merkle_root ?r)"
    let ?m' = "CHR 0x01 # unhex (merkle_root ?l') @ unhex (merkle_root ?r')"
    have msgs: "merkle_messages ds = ?m # merkle_messages ?l @ merkle_messages ?r"
      "merkle_messages es = ?m' # merkle_messages ?l' @ merkle_messages ?r'"
      using ne "1.prems"(1) by (subst merkle_messages.simps, simp add: Let_def)+
    have "merkle_root ds = sha256 ?m" "merkle_root es = sha256 ?m'"
      using ne "1.prems"(1) by (subst merkle_root.simps, simp add: Let_def node_hash_def)+
    then have eq: "sha256 ?m = sha256 ?m'" using "1.prems"(4) by simp
    show ?thesis
    proof (cases "?m = ?m'")
      case False
      then have "message_clash (merkle_messages ds) (merkle_messages es)"
        unfolding message_clash_def msgs using eq by (meson list.set_intros(1))
      then show ?thesis ..
    next
      case True
      have "length (unhex (merkle_root ?l)) = length (unhex (merkle_root ?l'))"
        using unhex_hex64(2) [OF merkle_root_hex merkle_root_hex] by simp
      then have roots: "merkle_root ?l = merkle_root ?l'" "merkle_root ?r = merkle_root ?r'"
        using True unhex_hex64(1) [OF merkle_root_hex merkle_root_hex] by auto
      have hex: "list_all is_hex64 ?l" "list_all is_hex64 ?r" "list_all is_hex64 ?l'" "list_all is_hex64 ?r'"
        using "1.prems"(2,3) by (auto simp: list_all_iff dest: in_set_takeD in_set_dropD)
      have len: "length ?l' = length ?l" "length ?r' = length ?r" using "1.prems"(1) by simp_all
      note ihl = "1.IH"(1) [OF ne(1,2) refl len(1) hex(1,3) roots(1)]
      note ihr = "1.IH"(2) [OF ne(1,2) refl len(2) hex(2,4) roots(2)]
      have "message_clash (merkle_messages ds) (merkle_messages es)"
        if "message_clash (merkle_messages ?l) (merkle_messages ?l') \<or> message_clash (merkle_messages ?r) (merkle_messages ?r')"
        using that by (elim disjE) (erule message_clash_mono; simp add: msgs; blast)+
      moreover have "ds = es" if "?l = ?l'" "?r = ?r'" using that append_take_drop_id by metis
      ultimately show ?thesis using ihl ihr by blast
    qed
  qed
qed

text \<open>The split of the Merkle tree is the largest power of two below the number of leaves: both
  parts are smaller than the tree, and the left part is at least as large as the right one.\<close>

theorem split_point_largest:
  assumes "2 \<le> n"
  shows "(\<exists>k. split_point n = 2 ^ k) \<and> 0 < split_point n \<and> split_point n < n \<and> n \<le> 2 * split_point n"
  using split_point_bounds [OF assms] by (auto simp: split_point_def push_bit_eq_mult)

theorem split_point_largest_witness: "split_point 5 = 4 \<and> split_point 5 < 5"
proof -
  have "split_point 5 < 5" using split_point_largest [of 5] by simp
  moreover have "split_point 5 = 4" by code_simp
  ultimately show ?thesis by blast
qed

end
