(* ===== verification/LogEncoding.thy ===== *)
theory LogEncoding
  imports Merkle AttestationProperties
begin

text \<open>
  The text of the log file: canonical encodings are printable ASCII, so an entry is one line; reading
  the log accepts exactly the concatenation of the canonical lines of valid entries, up to the
  translation of line ends.
\<close>

section \<open>Printable text\<close>

definition printable :: "char \<Rightarrow> bool" where
  "printable c \<longleftrightarrow> (let n = (of_char c :: nat) in 32 \<le> n \<and> n < 127)"

lemma printable_hex_digit: "n < 16 \<Longrightarrow> printable (hex_digit n)"
  using is_lhex_hex_digit [of n] unfolding is_lhex_def printable_def Let_def by linarith

lemma printable_hex4: "list_all printable (hex4 n)"
  unfolding hex4_list by (simp add: printable_hex_digit)

lemma printable_escape: "list_all printable (escape_char c)"
proof -
  have lit: "list_all printable [CHR 0x5C, CHR 0x22, CHR ''n'', CHR ''r'', CHR ''t'', CHR ''f'', CHR ''b'', CHR ''u'']"
    by code_simp
  show ?thesis
    using lit printable_hex4 unfolding escape_char_def Let_def by (simp add: printable_def Let_def)
qed

lemma printable_quote: "list_all printable (quote s)"
proof -
  have "list_all printable (concat (map escape_char s))" by (induction s) (simp_all add: printable_escape)
  moreover have "printable (CHR 0x22)" by code_simp
  ultimately show ?thesis by (simp add: quote_def)
qed

lemma printable_show_int: "list_all printable (show_int i)"
proof -
  have "list_all printable s" if "list_all is_digit_char s" for s
    using that by (rule list.pred_mono_strong) (auto simp: is_digit_char_def printable_def less_eq_char_def Let_def)
  then have "list_all printable (show_nat n)" for n using show_nat_digits by blast
  moreover have "printable (CHR ''-'')" by code_simp
  ultimately show ?thesis by (simp add: show_int_def)
qed

lemma printable_join: "\<lbrakk>\<forall>x \<in> set xs. list_all printable x; list_all printable sep\<rbrakk> \<Longrightarrow> list_all printable (join sep xs)"
  by (induction sep xs rule: join.induct) auto

lemma printable_dumps: "plain v \<Longrightarrow> list_all printable (dumps v)"
proof (induction v)
  case JNull
  show ?case by code_simp
next
  case (JBool b)
  have "list_all printable ''true''" "list_all printable ''false''" by code_simp+
  then show ?case by simp
next
  case (JArr xs)
  have "list_all printable ''['' " "list_all printable '']''" "list_all printable '',''" by code_simp+
  moreover have "\<forall>t \<in> set (map dumps xs). list_all printable t" using JArr by (auto simp: list_all_iff)
  ultimately show ?case using printable_join by simp
next
  case (JObj kvs)
  have lit: "list_all printable ''{''" "list_all printable ''}''" "list_all printable '',''" "list_all printable '':''"
    by code_simp+
  have "list_all printable (entry_text kv)" if "kv \<in> set kvs" for kv
  proof -
    have "list_all printable (dumps (snd kv))" using JObj that by (fastforce simp: list_all_iff snds.simps)
    then show ?thesis using lit printable_quote by (simp add: entry_text_def)
  qed
  then have "\<forall>t \<in> set (map entry_text (sort_key fst kvs)). list_all printable t" by simp
  from printable_join [OF this lit(3)] lit show ?case unfolding dumps_obj by simp
qed (simp_all add: printable_show_int printable_quote)

lemma utf8_printable: "list_all printable s \<Longrightarrow> utf8 s = s"
  by (induction s) (auto simp: utf8_def utf8_char_def printable_def Let_def)

section \<open>Lines\<close>

lemma plain_entry: "plain (entry_json e)"
  by (simp add: entry_json_def entry_payload_def strs_def list_all_iff)

lemma plain_checkpoint: "plain (checkpoint_json c)"
  by (simp add: checkpoint_json_def checkpoint_payload_def)

definition line_of :: "log_entry \<Rightarrow> string" where
  "line_of e = dumps (entry_json e) @ [CHR 0x0A]"

lemma canonical_line_of: "canonical_line e = utf8 (line_of e)"
  by (simp add: canonical_line_def line_of_def)

lemma utf8_append: "utf8 (a @ b) = utf8 a @ utf8 b"
  by (simp add: utf8_def)

lemma canonical_line_text: "canonical_line e = line_of e"
proof -
  have "utf8 [CHR 0x0A] = [CHR 0x0A]" by code_simp
  then show ?thesis
    by (simp add: canonical_line_of line_of_def utf8_append utf8_printable printable_dumps plain_entry)
qed

lemma loads_line: "plain v \<Longrightarrow> loads (dumps v @ [CHR 0x0A]) = Some (canon v)"
proof -
  assume v: "plain v"
  let ?r = "[CHR 0x0A]"
  have nl: "stops ?r" "skip_ws ?r = []" by code_simp+
  have "fuel_of v \<le> 2 * length (dumps v @ ?r) + 2" using fuel_enough [OF v] by simp
  then have "pval (2 * length (dumps v @ ?r) + 2) (dumps v @ ?r) = Some (canon v, ?r)"
    using parses_plain [OF v] nl(1) unfolding parses_def by blast
  then show ?thesis using skip_ws_dumps [OF v, of ?r] nl(2) by (simp add: loads_def del: pval.simps)
qed

lemma strip_empty:
  assumes "strip s = []" "c \<in> set s"
  shows "is_space c"
proof -
  let ?d = "dropWhile is_space s"
  have "\<forall>x \<in> set ?d. is_space x" using assms(1) by (simp add: strip_def strip_set_def)
  moreover have "c \<in> set (takeWhile is_space s) \<union> set ?d"
    using assms(2) by (metis set_append takeWhile_dropWhile_id)
  ultimately show ?thesis by (auto dest: set_takeWhileD)
qed

lemma strip_line: "strip (line_of e) \<noteq> []"
proof
  assume "strip (line_of e) = []"
  moreover have "CHR ''{'' \<in> set (line_of e)" by (simp add: line_of_def entry_json_def)
  ultimately have "is_space (CHR ''{'')" by (rule strip_empty)
  moreover have "\<not> is_space (CHR ''{'')" by code_simp
  ultimately show False by blast
qed

lemma read_entry_iff:
  assumes "log_decoders_ok d"
  shows "read_entry d (n, line) = Inr e \<longleftrightarrow> line = line_of e \<and> validate_entry e = Inr e"
proof
  assume r: "read_entry d (n, line) = Inr e"
  then obtain v where v: "loads line = Some v" "ld_entry d v = Inr e" and u: "utf8 line = canonical_line e"
    by (auto simp: read_entry_def split: if_splits option.splits sum.splits)
  have "validate_entry e = Inr e" using assms v(2) by (simp add: log_decoders_ok_def)
  then show "line = line_of e \<and> validate_entry e = Inr e" using u by (simp add: canonical_line_of utf8_inj)
next
  assume a: "line = line_of e \<and> validate_entry e = Inr e"
  then have "loads line = Some (canon (entry_json e))" by (simp add: line_of_def loads_line plain_entry)
  moreover have "ld_entry d (canon (entry_json e)) = Inr e" using assms a by (simp add: log_decoders_ok_def)
  moreover have "ends_with line [CHR 0x0A]" using a by (simp add: line_of_def)
  ultimately show "read_entry d (n, line) = Inr e"
    using a strip_line [of e] by (simp add: read_entry_def canonical_line_of)
qed

section \<open>Line splitting and line ends\<close>

lemma concat_file_lines: "concat (file_lines s) = s"
  by (induction s) (auto split: list.splits)

lemma file_lines_cons: "CHR 0x0A \<notin> set l \<Longrightarrow> file_lines (l @ CHR 0x0A # r) = (l @ [CHR 0x0A]) # file_lines r"
  by (induction l) auto

lemma line_no_newline: "CHR 0x0A \<notin> set (dumps (entry_json e))" "CHR 0x0D \<notin> set (dumps (entry_json e))"
proof -
  have "\<not> printable (CHR 0x0A)" "\<not> printable (CHR 0x0D)" by code_simp+
  then show "CHR 0x0A \<notin> set (dumps (entry_json e))" "CHR 0x0D \<notin> set (dumps (entry_json e))"
    using printable_dumps [OF plain_entry [of e]] by (auto simp: list_all_iff)
qed

definition log_text :: "log_entry list \<Rightarrow> string" where
  "log_text es = concat (map line_of es)"

lemma file_lines_log_text: "file_lines (log_text es) = map line_of es"
  by (induction es) (simp_all add: log_text_def line_of_def file_lines_cons line_no_newline)

lemma no_return: "CHR 0x0D \<notin> set s \<Longrightarrow> universal_newlines s = s"
  by (induction s rule: universal_newlines.induct) auto

lemma universal_newlines_append:
  "b = [] \<or> hd b \<noteq> CHR 0x0A \<Longrightarrow> universal_newlines (a @ b) = universal_newlines a @ universal_newlines b"
proof (induction a rule: universal_newlines.induct)
  case (2 c cs)
  then show ?case by (cases cs; cases b) auto
qed simp

lemma line_of_first: "line_of e = CHR ''{'' # tl (line_of e)"
  by (simp add: line_of_def entry_json_def)

lemma newlines_line: "universal_newlines (line_of e) = line_of e"
  by (rule no_return) (simp add: line_of_def line_no_newline)

lemma newlines_append_line: "universal_newlines (s @ line_of e) = universal_newlines s @ line_of e"
proof -
  have "hd (line_of e) \<noteq> CHR 0x0A" by (subst line_of_first) simp
  then show ?thesis using universal_newlines_append [of "line_of e" s] newlines_line by simp
qed

lemma utf8_strict_append:
  "utf8_strict a = Some s \<Longrightarrow> utf8_strict (a @ b) = map_option ((@) s) (utf8_strict b)"
proof (induction a arbitrary: s rule: utf8_strict.induct)
  case 1
  then show ?case by (simp add: option.map_ident)
next
  case (2 c cs)
  then show ?case
    by (cases "utf8_strict b") (auto simp: Let_def split: if_splits list.splits)
qed

lemma utf8_strict_append_line: "utf8_strict a = Some s \<Longrightarrow> utf8_strict (a @ canonical_line e) = Some (s @ line_of e)"
  by (simp add: utf8_strict_append canonical_line_of)

section \<open>Reading\<close>

lemma traverse_read:
  assumes "log_decoders_ok d"
  shows "length ls = length ns \<Longrightarrow> traverse (read_entry d) (zip ns ls) = Inr es \<longleftrightarrow>
     ls = map line_of es \<and> (\<forall>e \<in> set es. validate_entry e = Inr e)"
proof (induction ls arbitrary: ns es)
  case (Cons l ls)
  then obtain n ns' where ns: "ns = n # ns'" "length ls = length ns'" by (cases ns) auto
  show ?case
    unfolding ns(1) zip_Cons_Cons traverse.simps rbind_Inr_iff read_entry_iff [OF assms] Cons.IH [OF ns(2)]
    by (cases es) auto
qed auto

text \<open>The log file reads as the entries whose lines it is, up to line ends.\<close>

lemma read_entries_iff:
  assumes "log_decoders_ok d"
  shows "read_entries d st = Inr es \<longleftrightarrow> (\<forall>e \<in> set es. validate_entry e = Inr e)
     \<and> (case lf_log st of None \<Rightarrow> es = []
        | Some raw \<Rightarrow> \<exists>content. utf8_strict raw = Some content \<and> universal_newlines content = log_text es)"
proof (cases "lf_log st")
  case None
  then show ?thesis by (auto simp: read_entries_def)
next
  case (Some raw)
  show ?thesis
  proof (cases "utf8_strict raw")
    case None
    then show ?thesis using Some by (simp add: read_entries_def)
  next
    case t: (Some content)
    let ?ls = "file_lines (universal_newlines content)"
    have "read_entries d st = Inr es \<longleftrightarrow> ?ls = map line_of es \<and> (\<forall>e \<in> set es. validate_entry e = Inr e)"
      unfolding read_entries_def Some t option.case Let_def
      by (rule traverse_read [OF assms]) (simp del: upt_Suc)
    moreover have "?ls = map line_of es \<longleftrightarrow> universal_newlines content = log_text es"
      using concat_file_lines [of "universal_newlines content"] file_lines_log_text [of es] by (metis log_text_def)
    ultimately show ?thesis using Some t by auto
  qed
qed

lemma read_entries_write:
  assumes "log_decoders_ok d" "read_entries d st = Inr es" "validate_entry x = Inr x"
  shows "read_entries d (write_log x st) = Inr (es @ [x])"
proof -
  have v: "\<forall>e \<in> set (es @ [x]). validate_entry e = Inr e" and
    t: "case lf_log st of None \<Rightarrow> es = [] | Some raw \<Rightarrow> \<exists>content. utf8_strict raw = Some content \<and> universal_newlines content = log_text es"
    using assms unfolding read_entries_iff [OF assms(1)] by auto
  show ?thesis
  proof (cases "lf_log st")
    case None
    then have "es = []" using t by simp
    then show ?thesis using None v
      by (simp add: read_entries_iff [OF assms(1)] write_log_def canonical_line_of log_text_def newlines_line)
  next
    case (Some raw)
    then obtain content where content: "utf8_strict raw = Some content" "universal_newlines content = log_text es" using t by auto
    then show ?thesis using Some v
      by (simp add: read_entries_iff [OF assms(1)] write_log_def utf8_strict_append_line newlines_append_line)
         (simp add: log_text_def)
  qed
qed

lemma read_checkpoint_written:
  assumes "log_decoders_ok d" "validate_checkpoint c = Inr c"
  shows "read_checkpoint d (utf8 (dumps (checkpoint_json c) @ [CHR 0x0A])) = Inr c"
proof -
  have "ld_checkpoint d (canon (checkpoint_json c)) = Inr c" using assms by (simp add: log_decoders_ok_def)
  then show ?thesis by (simp add: read_checkpoint_def loads_line plain_checkpoint)
qed

end
