(* ===== verification/TransparencyProperties.thy ===== *)
theory TransparencyProperties
  imports LogEncoding
begin

text \<open>
  The log as an append-only structure: what a successful append leaves, that receipts stay valid, that
  the log of a reachable state holds verified attestations only, what a checkpoint binds, and what a
  crash between the two writes does.
\<close>

section \<open>Chains, checkpoints and receipts\<close>

lemma chain_snoc:
  "chain_from lid n prev seen (es @ [x]) = Inr () \<longleftrightarrow> chain_from lid n prev seen es = Inr ()
     \<and> le_log_id x = lid \<and> le_sequence x = n + length es
     \<and> le_previous x = (if es = [] then prev else Some (le_digest (last es)))
     \<and> le_envelope x \<notin> set seen \<and> le_envelope x \<notin> set (map le_envelope es)"
proof (induction es arbitrary: n prev seen)
  case Nil
  show ?case by (auto simp: rbind_Inr_iff guards_Inr_iff)
next
  case (Cons e es)
  show ?case unfolding append_Cons chain_from.simps rbind_Inr_iff Cons.IH by (auto simp: guards_Inr_iff)
qed

lemma chain_take:
  "chain_from lid n prev seen es = Inr () \<Longrightarrow> chain_from lid n prev seen (take k es) = Inr ()"
proof (induction es arbitrary: n prev seen k)
  case (Cons e es)
  then show ?case by (cases k) (auto simp: rbind_Inr_iff guards_Inr_iff)
qed simp

lemma chain_distinct:
  "chain_from lid n prev seen es = Inr () \<Longrightarrow> distinct (map le_envelope es) \<and> set seen \<inter> set (map le_envelope es) = {}"
proof (induction es arbitrary: n prev seen)
  case (Cons e es)
  then have c: "chain_from lid (Suc n) (Some (le_digest e)) (le_envelope e # seen) es = Inr ()" "le_envelope e \<notin> set seen"
    by (auto simp: rbind_Inr_iff guards_Inr_iff)
  from Cons.IH [OF c(1)] c(2) show ?case by auto
qed simp

lemma validate_entry_digest: "validate_entry e = Inr e \<Longrightarrow> is_hex64 (le_digest e)"
  unfolding validate_entry_def guards_Inr_iff by simp

lemma validate_entry_Inr: "validate_entry e = Inr f \<Longrightarrow> f = e"
  unfolding validate_entry_def guards_Inr_iff by simp

lemma validate_checkpoint_Inr: "validate_checkpoint c = Inr c' \<Longrightarrow> c' = c \<and> is_identity_id (cp_log_id c)"
  unfolding validate_checkpoint_def guards_Inr_iff by auto

lemma make_checkpoint_fields [simp]:
  "cp_log_id (make_checkpoint lid es) = lid" "cp_size (make_checkpoint lid es) = length es"
  "cp_root (make_checkpoint lid es) = merkle_root (map le_digest es)"
  "cp_head (make_checkpoint lid es) = (if es = [] then None else Some (le_digest (last es)))"
  by (simp_all add: make_checkpoint_def Let_def)

lemma checkpoint_valid:
  assumes "is_identity_id lid" "\<forall>e \<in> set es. validate_entry e = Inr e"
  shows "build_checkpoint lid es = Inr (make_checkpoint lid es)"
proof -
  have "is_hex64 (le_digest (last es))" if "es \<noteq> []" using assms(2) that validate_entry_digest by simp
  then show ?thesis
    using assms(1) unfolding build_checkpoint_def validate_checkpoint_def
    by (simp add: guards_Inr_iff make_checkpoint_def Let_def merkle_root_hex checkpoint_payload_def)
qed

lemma build_checkpoint_Inr: "build_checkpoint lid es = Inr c \<Longrightarrow> c = make_checkpoint lid es \<and> is_identity_id lid
    \<and> validate_checkpoint c = Inr c"
  unfolding build_checkpoint_def using validate_checkpoint_Inr [of "make_checkpoint lid es" c] by auto

lemma inclusion_valid:
  assumes "validate_checkpoint (make_checkpoint lid es) = Inr (make_checkpoint lid es)"
    and "\<forall>e \<in> set es. validate_entry e = Inr e" "i < length es"
  obtains p where "build_inclusion_receipt es i (make_checkpoint lid es) = Inr (make_inclusion es i (make_checkpoint lid es) p)"
    "validate_inclusion (make_inclusion es i (make_checkpoint lid es) p) = Inr (make_inclusion es i (make_checkpoint lid es) p)"
proof -
  obtain p where p: "merkle_path (map le_digest es) i = Inr p" "list_all (\<lambda>n. is_hex64 (pn_digest n)) p"
    "fold_path (leaf_hash (map le_digest es ! i)) p = merkle_root (map le_digest es)"
    using merkle_path_reaches [of i "map le_digest es"] assms(3) by auto
  have "is_hex64 (le_digest (es ! i))" "is_identity_id lid"
    using assms validate_entry_digest validate_checkpoint_Inr [OF assms(1)] by simp_all
  then have "validate_inclusion (make_inclusion es i (make_checkpoint lid es) p) = Inr (make_inclusion es i (make_checkpoint lid es) p)"
    using p assms(3) unfolding validate_inclusion_def
    by (simp add: make_inclusion_def Let_def assms(1) guards_Inr_iff leaf_hash_def inclusion_payload_def)
  with that p(1) show ?thesis by (simp add: build_inclusion_receipt_def)
qed

lemma make_inclusion_fields [simp]:
  "ir_log_id (make_inclusion es i c p) = cp_log_id c" "ir_index (make_inclusion es i c p) = i"
  "ir_entry (make_inclusion es i c p) = le_digest (es ! i)" "ir_checkpoint (make_inclusion es i c p) = c"
  by (simp_all add: make_inclusion_def Let_def)

section \<open>Verification of the files\<close>

lemma verify_unlocked_iff:
  "verify_unlocked d lid allow st = Inr (es, c) \<longleftrightarrow> read_entries d st = Inr es
     \<and> validate_entry_chain lid es = Inr () \<and> build_checkpoint lid es = Inr c
     \<and> (case lf_checkpoint st of None \<Rightarrow> es = [] \<and> allow | Some raw \<Rightarrow> read_checkpoint d raw = Inr c)"
  by (auto simp: verify_unlocked_def rbind_Inr_iff split: option.splits if_splits)

lemma verify_unlocked_allow: "verify_unlocked d lid False st = Inr x \<Longrightarrow> verify_unlocked d lid True st = Inr x"
  by (cases x) (auto simp: verify_unlocked_iff split: option.splits)

lemma read_valid: "\<lbrakk>log_decoders_ok d; read_entries d st = Inr es\<rbrakk> \<Longrightarrow> \<forall>e \<in> set es. validate_entry e = Inr e"
  by (simp add: read_entries_iff)

lemma reject_links_Inr: "reject_links st = Inr () \<longleftrightarrow> \<not> lf_linked st"
  by (simp add: reject_links_def guards_Inr_iff)

section \<open>Appending\<close>

lemma validate_envelope_same: "validate_envelope dec e = Inr f \<Longrightarrow> f = e"
  unfolding validate_envelope_def rbind_Inr_iff by (auto simp: guards_Inr_iff rbind_Inr_iff split: option.splits)

lemma prepare_facts:
  assumes "prepare_append c d lid e b pk p st = Inr (es, x)"
  obtains s v where "\<not> lf_linked st" "validate_envelope (ld_statement d) e = Inr e"
    "verify_attestation c (ld_statement d) b e pk p = Inr v" "parse_statement (ld_statement d) e = Inr s"
    "verify_unlocked d lid True st = Inr (es, make_checkpoint lid es)" "envelope_digest e \<notin> set (map le_envelope es)"
    "x = make_entry lid es e s v" "validate_entry x = Inr x" "is_identity_id lid"
proof -
  from assms obtain e' v s y where a: "reject_links st = Inr ()" "validate_envelope (ld_statement d) e = Inr e'"
    "verify_attestation c (ld_statement d) b e' pk p = Inr v" "parse_statement (ld_statement d) e' = Inr s"
    "verify_unlocked d lid True st = Inr y"
    and rest: "(case y of (es, uu) \<Rightarrow>
       rbind (guards [(envelope_digest e' \<in> set (map le_envelope es),
          AttestationError ''duplicate DSSE envelope publication is rejected'')] ()) (\<lambda>_.
       rbind (validate_entry (make_entry lid es e' s v)) (\<lambda>x. Inr (es, x)))) = Inr (es, x)"
    unfolding prepare_append_def rbind_Inr_iff ex_unit by blast
  obtain es' cp where y: "y = (es', cp)" by (cases y)
  obtain x' where x': "validate_entry (make_entry lid es' e' s v) = Inr x'" "es' = es" "x' = x"
    and g: "guards [(envelope_digest e' \<in> set (map le_envelope es'),
          AttestationError ''duplicate DSSE envelope publication is rejected'')] () = Inr ()"
    using rest unfolding y prod.case rbind_Inr_iff ex_unit by blast
  note a = a [unfolded y] x'
  have e: "e' = e" using a(2) validate_envelope_same by blast
  have x: "x = make_entry lid es e s v" using validate_entry_Inr [OF a(6)] a(7,8) e by simp
  have cp: "cp = make_checkpoint lid es" "is_identity_id lid"
    using a(5,7) build_checkpoint_Inr [of lid es cp] by (auto simp: verify_unlocked_iff)
  have n: "envelope_digest e \<notin> set (map le_envelope es)" using g unfolding guards_Inr_iff e a(7) by simp
  show ?thesis using that [of v s] a e x cp n by (simp add: reject_links_Inr)
qed

lemma make_entry_fields [simp]:
  "le_log_id (make_entry lid es e s v) = lid" "le_sequence (make_entry lid es e s v) = length es"
  "le_previous (make_entry lid es e s v) = (if es = [] then None else Some (le_digest (last es)))"
  "le_envelope (make_entry lid es e s v) = envelope_digest e" "le_receipt (make_entry lid es e s v) = av_digest v"
  "le_bundle (make_entry lid es e s v) = av_bundle_digest v"
  by (simp_all add: make_entry_def Let_def)

text \<open>What a prepared append writes: both files verify for one entry more, and the receipt is genuine.\<close>

lemma append_steps:
  assumes "log_decoders_ok d" "prepare_append c d lid e b pk p st = Inr (es, x)"
    and "st' = write_checkpoint (make_checkpoint lid (es @ [x])) (write_log x st)"
  obtains r where "log_append c d lid e b pk p st = (Inr r, st')"
    "verify_unlocked d lid False st' = Inr (es @ [x], make_checkpoint lid (es @ [x]))"
    "build_inclusion_receipt (es @ [x]) (length es) (make_checkpoint lid (es @ [x])) = Inr r"
    "validate_inclusion r = Inr r" "\<not> lf_linked st'"
proof -
  obtain s v where f: "\<not> lf_linked st" "verify_unlocked d lid True st = Inr (es, make_checkpoint lid es)"
    "envelope_digest e \<notin> set (map le_envelope es)" "x = make_entry lid es e s v" "validate_entry x = Inr x" "is_identity_id lid"
    using prepare_facts [OF assms(2)] by metis
  have rd: "read_entries d st = Inr es" "validate_entry_chain lid es = Inr ()" using f(2) by (simp_all add: verify_unlocked_iff)
  have ok: "\<forall>e \<in> set (es @ [x]). validate_entry e = Inr e" using read_valid [OF assms(1) rd(1)] f(5) by auto
  note cp = checkpoint_valid [OF f(6) ok]
  have cv: "validate_checkpoint (make_checkpoint lid (es @ [x])) = Inr (make_checkpoint lid (es @ [x]))"
    using build_checkpoint_Inr [OF cp] by simp
  have "read_entries d st' = Inr (es @ [x])"
    using read_entries_write [OF assms(1) rd(1) f(5)] by (simp add: assms(3) read_entries_def write_checkpoint_def)
  moreover have "validate_entry_chain lid (es @ [x]) = Inr ()"
    using rd(2) f(3) unfolding validate_entry_chain_def chain_snoc by (simp add: f(4))
  moreover have "lf_checkpoint st' = Some (utf8 (dumps (checkpoint_json (make_checkpoint lid (es @ [x]))) @ [CHR 0x0A]))"
    by (simp add: assms(3) write_checkpoint_def)
  ultimately have vu: "verify_unlocked d lid False st' = Inr (es @ [x], make_checkpoint lid (es @ [x]))"
    using cp read_checkpoint_written [OF assms(1) cv] by (simp add: verify_unlocked_iff)
  obtain q where q: "build_inclusion_receipt (es @ [x]) (length es) (make_checkpoint lid (es @ [x]))
      = Inr (make_inclusion (es @ [x]) (length es) (make_checkpoint lid (es @ [x])) q)"
    "validate_inclusion (make_inclusion (es @ [x]) (length es) (make_checkpoint lid (es @ [x])) q)
      = Inr (make_inclusion (es @ [x]) (length es) (make_checkpoint lid (es @ [x])) q)"
    using inclusion_valid [OF cv ok, of "length es"] by auto
  have "log_append c d lid e b pk p st = (Inr (make_inclusion (es @ [x]) (length es) (make_checkpoint lid (es @ [x])) q), st')"
    using q(1) by (simp add: log_append_def assms(2,3) cp Let_def) (simp add: f(4))
  with that vu q f(1) show ?thesis by (simp add: assms(3) write_checkpoint_def write_log_def)
qed

lemma append_cases:
  assumes "log_decoders_ok d" "log_append c d lid e b pk p st = (res, st')"
  obtains (fail) err where "res = Inl err" "st' = st" "prepare_append c d lid e b pk p st = Inl err"
  | (ok) es x r where "prepare_append c d lid e b pk p st = Inr (es, x)" "res = Inr r"
     "st' = write_checkpoint (make_checkpoint lid (es @ [x])) (write_log x st)"
     "verify_unlocked d lid False st' = Inr (es @ [x], make_checkpoint lid (es @ [x]))"
     "build_inclusion_receipt (es @ [x]) (length es) (make_checkpoint lid (es @ [x])) = Inr r"
     "validate_inclusion r = Inr r" "\<not> lf_linked st'"
proof (cases "prepare_append c d lid e b pk p st")
  case (Inl err)
  then have "res = Inl err" "st' = st" using assms(2) by (simp_all add: log_append_def)
  then show ?thesis using fail Inl by blast
next
  case (Inr y)
  obtain es x where y: "y = (es, x)" by (cases y)
  obtain r where "log_append c d lid e b pk p st = (Inr r, write_checkpoint (make_checkpoint lid (es @ [x])) (write_log x st))"
    "verify_unlocked d lid False (write_checkpoint (make_checkpoint lid (es @ [x])) (write_log x st))
       = Inr (es @ [x], make_checkpoint lid (es @ [x]))"
    "build_inclusion_receipt (es @ [x]) (length es) (make_checkpoint lid (es @ [x])) = Inr r"
    "validate_inclusion r = Inr r" "\<not> lf_linked (write_checkpoint (make_checkpoint lid (es @ [x])) (write_log x st))"
    using append_steps [OF assms(1) Inr [unfolded y] refl] by metis
  then show ?thesis using assms(2) by (intro ok [OF Inr [unfolded y]]) auto
qed

section \<open>Receipts\<close>

lemma validate_inclusion_Inr: "validate_inclusion r = Inr s \<Longrightarrow> s = r"
  unfolding validate_inclusion_def rbind_Inr_iff guards_Inr_iff by blast

text \<open>A receipt verifies exactly when it is the receipt the log's own prefix gives for its index.\<close>

definition genuine_receipt :: "string \<Rightarrow> inclusion_receipt \<Rightarrow> log_entry list \<Rightarrow> bool" where
  "genuine_receipt lid r es \<longleftrightarrow> cp_size (ir_checkpoint r) \<le> length es
     \<and> (let pre = take (cp_size (ir_checkpoint r)) es in validate_entry_chain lid pre = Inr ()
         \<and> build_checkpoint lid pre = Inr (ir_checkpoint r) \<and> le_digest (pre ! ir_index r) = ir_entry r
         \<and> build_inclusion_receipt pre (ir_index r) (ir_checkpoint r) = Inr r)"

lemma verify_receipt_iff:
  "verify_receipt d lid r st = Inr t \<longleftrightarrow> t \<and> validate_inclusion r = Inr r \<and> ir_log_id r = lid \<and> \<not> lf_linked st
     \<and> (\<exists>es. read_entries d st = Inr es \<and> genuine_receipt lid r es)"
proof -
  have v: "(\<exists>x. validate_inclusion r = Inr x \<and> P x) \<longleftrightarrow> validate_inclusion r = Inr r \<and> P r" for P
    using validate_inclusion_Inr by blast
  show ?thesis
    unfolding verify_receipt_def rbind_Inr_iff v ex_unit Let_def reject_links_Inr genuine_receipt_def
    by (auto simp: guards_Inr_iff)
qed

section \<open>When an append succeeds\<close>

text \<open>The three comparisons \<open>append\<close> makes after the verification never fail.\<close>

lemma verified_digests:
  assumes "statement_decoder dec" "validate_envelope dec e = Inr e" "validate_trust_policy p = Inr p"
    and "verify_attestation c dec b e pk p = Inr v"
  obtains s where "parse_statement dec e = Inr s" "av_statement_digest v = statement_digest s"
    "av_envelope_digest v = envelope_digest e" "av_bundle_digest v = ap_bundle_digest (as_predicate s)"
    "is_hex64 (av_digest v)" "is_hex64 (av_bundle_digest v)"
proof -
  obtain s xs where t: "trusted_statement c b e pk p s"
    and v: "v = make_attestation_receipt b s e (key_id_for_public_key c pk) p xs"
    using assms(4) unfolding verify_attestation_spec [OF assms(1-3)] by blast
  have "parse_statement dec e = Inr s" using trusted_unique [OF assms(1,2)] t by metis
  moreover have "validate_attestation_receipt v = Inr v" using verified_receipt [OF assms(1-3), of c b pk] assms(4) by blast
  then have "is_hex64 (av_digest v)" "is_hex64 (av_bundle_digest v)"
    unfolding validate_attestation_receipt_def rbind_Inr_iff guards_Inr_iff by auto
  ultimately show ?thesis
    using that [of s] trusted_digest [OF t] by (simp add: v make_attestation_receipt_def Let_def)
qed

lemma make_entry_valid:
  assumes "is_identity_id lid" "\<forall>x \<in> set es. validate_entry x = Inr x" "de_signatures e = [g]" "is_hex64 (sg_keyid g)"
    and "is_hex64 (av_bundle_digest v)" "is_hex64 (av_digest v)"
  shows "validate_entry (make_entry lid es e s v) = Inr (make_entry lid es e s v)"
proof -
  have "opt_hex64 (if es = [] then None else Some (le_digest (last es)))"
    using assms(2) validate_entry_digest [of "last es"] by simp
  then show ?thesis using assms unfolding validate_entry_def
    by (simp add: guards_Inr_iff make_entry_def Let_def envelope_digest_def statement_digest_def sorted_set_def
        entry_payload_def)
qed

lemma prepare_ok:
  assumes "log_decoders_ok d" "validate_envelope (ld_statement d) e = Inr e" "validate_trust_policy p = Inr p"
    and "verify_attestation c (ld_statement d) b e pk p = Inr v" "verify_unlocked d lid True st = Inr (es, cp)"
    and "envelope_digest e \<notin> set (map le_envelope es)" "\<not> lf_linked st"
  shows "\<exists>x. prepare_append c d lid e b pk p st = Inr (es, x)"
proof -
  have dec: "statement_decoder (ld_statement d)" using assms(1) by (simp add: log_decoders_ok_def)
  obtain s where s: "parse_statement (ld_statement d) e = Inr s" "av_statement_digest v = statement_digest s"
    "av_envelope_digest v = envelope_digest e" "av_bundle_digest v = ap_bundle_digest (as_predicate s)"
    "is_hex64 (av_digest v)" "is_hex64 (av_bundle_digest v)" by (rule verified_digests [OF dec assms(2-4)])
  obtain g where g: "de_signatures e = [g]" "is_hex64 (sg_keyid g)" using validate_envelope_Inr [OF dec assms(2)] by metis
  have "read_entries d st = Inr es" "is_identity_id lid"
    using assms(5) build_checkpoint_Inr by (auto simp: verify_unlocked_iff)
  then have "validate_entry (make_entry lid es e s v) = Inr (make_entry lid es e s v)"
    using make_entry_valid [OF _ read_valid [OF assms(1)] g s(6,5)] by blast
  moreover have "reject_links st = Inr ()" using assms(7) by (simp add: reject_links_Inr)
  ultimately show ?thesis using s assms(2,4-6) by (simp add: prepare_append_def guards.simps)
qed

lemma append_success:
  assumes "log_decoders_ok d" "validate_envelope (ld_statement d) e = Inr e" "validate_trust_policy p = Inr p"
  shows "(\<exists>r st'. log_append c d lid e b pk p st = (Inr r, st')) \<longleftrightarrow> \<not> lf_linked st
       \<and> (\<exists>v. verify_attestation c (ld_statement d) b e pk p = Inr v)
       \<and> (\<exists>es cp. verify_unlocked d lid True st = Inr (es, cp) \<and> envelope_digest e \<notin> set (map le_envelope es))"
    (is "?L \<longleftrightarrow> ?R")
proof
  assume ?L
  then obtain es x where p: "prepare_append c d lid e b pk p st = Inr (es, x)"
    by (auto simp: log_append_def split: sum.splits)
  show ?R by (rule prepare_facts [OF p]) blast
next
  assume ?R
  then obtain es x where "prepare_append c d lid e b pk p st = Inr (es, x)" using prepare_ok [OF assms, of c b pk _ lid st] by blast
  from append_steps [OF assms(1) this refl] show ?L by metis
qed

lemma append_error:
  "\<lbrakk>log_decoders_ok d; log_append c d lid e b pk p st = (Inl err, st')\<rbrakk> \<Longrightarrow> st' = st"
  by (erule append_cases) auto


section \<open>What an append leaves\<close>

lemma append_effect:
  assumes "log_decoders_ok d" "log_append c d lid e b pk p st = (Inr r, st')"
  shows "\<exists>es x. verify_unlocked d lid True st = Inr (es, make_checkpoint lid es)
     \<and> log_verify d lid st' = Inr \<lparr>lv_log_id = lid, lv_size = length es + 1, lv_root = merkle_root (map le_digest (es @ [x])),
          lv_head = Some (le_digest x), lv_checkpoint_digest = cp_digest (make_checkpoint lid (es @ [x]))\<rparr>
     \<and> le_envelope x = envelope_digest e \<and> ir_index r = length es \<and> ir_entry r = le_digest x
     \<and> verify_receipt d lid r st' = Inr True \<and> read_entries d st' = Inr (es @ [x])"
  using assms
proof (cases rule: append_cases)
  case (ok es x r')
  have r: "r' = r" using ok by simp
  obtain s v where f: "verify_unlocked d lid True st = Inr (es, make_checkpoint lid es)" "x = make_entry lid es e s v"
    using prepare_facts [OF ok(1)] by metis
  have rd: "read_entries d st' = Inr (es @ [x])" "validate_entry_chain lid (es @ [x]) = Inr ()"
    "build_checkpoint lid (es @ [x]) = Inr (make_checkpoint lid (es @ [x]))"
    using ok(4) by (simp_all add: verify_unlocked_iff)
  obtain path where path: "r = make_inclusion (es @ [x]) (length es) (make_checkpoint lid (es @ [x])) path"
    using ok(5) validate_inclusion_Inr unfolding build_inclusion_receipt_def rbind_Inr_iff r by metis
  have "genuine_receipt lid r (es @ [x])"
    using rd ok(5) by (simp add: genuine_receipt_def path [symmetric] r) (simp add: path)
  then have "verify_receipt d lid r st' = Inr True"
    using rd(1) ok(6,7) unfolding verify_receipt_iff r by (simp add: path)
  moreover have "log_verify d lid st' = Inr \<lparr>lv_log_id = lid, lv_size = length es + 1,
      lv_root = merkle_root (map le_digest (es @ [x])), lv_head = Some (le_digest x),
      lv_checkpoint_digest = cp_digest (make_checkpoint lid (es @ [x]))\<rparr>"
    using ok(4,7) by (simp add: log_verify_def reject_links_def guards.simps)
  ultimately show ?thesis using f rd(1) by (intro exI [of _ es] exI [of _ x]) (simp add: path)
qed simp

text \<open>After a successful append the log verifies with one entry more, its head is the new entry, which
  names the envelope, and the returned receipt verifies against the log.\<close>

theorem append_then_verify:
  assumes "log_decoders_ok d" "log_append c d lid e b pk p st = (Inr r, st')"
  shows "\<exists>es x. verify_unlocked d lid True st = Inr (es, make_checkpoint lid es)
     \<and> log_verify d lid st' = Inr \<lparr>lv_log_id = lid, lv_size = length es + 1, lv_root = merkle_root (map le_digest (es @ [x])),
          lv_head = Some (le_digest x), lv_checkpoint_digest = cp_digest (make_checkpoint lid (es @ [x]))\<rparr>
     \<and> le_envelope x = envelope_digest e \<and> ir_index r = length es \<and> ir_entry r = le_digest x
     \<and> verify_receipt d lid r st' = Inr True \<and> read_entries d st' = Inr (es @ [x])"
  by (rule append_effect [OF assms])

lemma genuine_append:
  assumes "genuine_receipt lid r es"
  shows "genuine_receipt lid r (es @ [x])"
proof -
  have "take (cp_size (ir_checkpoint r)) (es @ [x]) = take (cp_size (ir_checkpoint r)) es"
    using assms by (simp add: genuine_receipt_def)
  then show ?thesis using assms by (simp add: genuine_receipt_def)
qed

text \<open>The log is append-only for its clients: a receipt that verifies against the log still verifies
  after any further append, successful or not.\<close>

theorem receipts_stay_valid:
  assumes "log_decoders_ok d" "verify_receipt d lid r st = Inr True" "log_append c d lid e b pk p st = (res, st')"
  shows "verify_receipt d lid r st' = Inr True"
  using assms(1,3)
proof (cases rule: append_cases)
  case fail
  then show ?thesis using assms(2) by simp
next
  case (ok es x r')
  have "verify_unlocked d lid True st = Inr (es, make_checkpoint lid es)" using prepare_facts [OF ok(1)] by metis
  then have "read_entries d st = Inr es" by (simp add: verify_unlocked_iff)
  then have "validate_inclusion r = Inr r" "ir_log_id r = lid" "genuine_receipt lid r es"
    using assms(2) unfolding verify_receipt_iff by auto
  moreover have "read_entries d st' = Inr (es @ [x])" using ok(4) by (simp add: verify_unlocked_iff)
  ultimately show ?thesis using ok(7) genuine_append [of lid r es x] unfolding verify_receipt_iff by blast
qed

lemma entry_provable:
  assumes "log_decoders_ok d" "verify_unlocked d lid a st = Inr (es, c)" "\<not> lf_linked st" "i < length es"
  shows "\<exists>r. build_inclusion_receipt es i c = Inr r \<and> verify_receipt d lid r st = Inr True
     \<and> ir_index r = i \<and> ir_entry r = le_digest (es ! i)"
proof -
  have v: "read_entries d st = Inr es" "validate_entry_chain lid es = Inr ()" "build_checkpoint lid es = Inr c"
    using assms(2) by (simp_all add: verify_unlocked_iff)
  have c: "c = make_checkpoint lid es" "validate_checkpoint c = Inr c" using build_checkpoint_Inr [OF v(3)] by blast+
  obtain p where p: "build_inclusion_receipt es i c = Inr (make_inclusion es i c p)"
    "validate_inclusion (make_inclusion es i c p) = Inr (make_inclusion es i c p)"
    using inclusion_valid [OF c(2) [unfolded c(1)] read_valid [OF assms(1) v(1)] assms(4)] c(1) by metis
  have "genuine_receipt lid (make_inclusion es i c p) es"
    unfolding genuine_receipt_def Let_def make_inclusion_fields using v p by (simp add: c(1))
  then have "verify_receipt d lid (make_inclusion es i c p) st = Inr True"
    using p(2) v(1) assms(3) unfolding verify_receipt_iff by (simp add: c(1))
  with p(1) show ?thesis by (intro exI [of _ "make_inclusion es i c p"]) simp
qed

text \<open>Inclusion proofs are complete: for every entry of a log that verifies a receipt can be built, it
  passes its validator, names the entry at its index, and verifies against the log.\<close>

theorem every_entry_provable:
  assumes "log_decoders_ok d" "verify_unlocked d lid a st = Inr (es, c)" "\<not> lf_linked st" "i < length es"
  shows "\<exists>r. build_inclusion_receipt es i c = Inr r \<and> verify_receipt d lid r st = Inr True
     \<and> ir_index r = i \<and> ir_entry r = le_digest (es ! i)"
  by (rule entry_provable [OF assms])

section \<open>Reachable logs\<close>

inductive log_reach :: "('sk, 'pk) ed25519 \<Rightarrow> log_decoders \<Rightarrow> string \<Rightarrow> log_files \<Rightarrow> bool"
  for c :: "('sk, 'pk) ed25519" and d :: log_decoders and lid :: string where
  fresh: "log_reach c d lid \<lparr>lf_log = None, lf_checkpoint = None, lf_linked = False\<rparr>"
| append: "\<lbrakk>log_reach c d lid st; validate_trust_policy p = Inr p; log_append c d lid e b pk p st = (res, st')\<rbrakk>
    \<Longrightarrow> log_reach c d lid st'"

definition attested_entry :: "('sk, 'pk) ed25519 \<Rightarrow> log_decoders \<Rightarrow> log_entry \<Rightarrow> bool" where
  "attested_entry c d x \<longleftrightarrow> (\<exists>b e pk p v. validate_trust_policy p = Inr p
     \<and> verify_attestation c (ld_statement d) b e pk p = Inr v \<and> le_envelope x = envelope_digest e
     \<and> le_bundle x = bundle_digest b \<and> le_receipt x = av_digest v)"

text \<open>C16: In every state reached from the empty log by appends the log verifies, no envelope occurs twice,
  and every entry goes back to an attestation the verifier accepted, whose envelope, bundle and
  verification receipt it names.\<close>

theorem reachable_log_attested:
  assumes "log_decoders_ok d" "is_identity_id lid" "log_reach c d lid st"
  shows "\<exists>es. verify_unlocked d lid True st = Inr (es, make_checkpoint lid es)
     \<and> distinct (map le_envelope es) \<and> list_all (attested_entry c d) es"
  using assms(3)
proof (induction rule: log_reach.induct)
  case fresh
  have "build_checkpoint lid [] = Inr (make_checkpoint lid [])" by (rule checkpoint_valid) (use assms(2) in simp_all)
  then have "verify_unlocked d lid True \<lparr>lf_log = None, lf_checkpoint = None, lf_linked = False\<rparr>
      = Inr ([], make_checkpoint lid [])"
    by (simp add: verify_unlocked_iff read_entries_def validate_entry_chain_def)
  then show ?case by (intro exI [of _ "[]"]) simp
next
  case (append st p e b pk res st')
  from append.IH obtain es where es: "verify_unlocked d lid True st = Inr (es, make_checkpoint lid es)"
    "list_all (attested_entry c d) es" by blast
  show ?case using assms(1) append.hyps(3)
  proof (cases rule: append_cases)
    case fail
    then show ?thesis using append.IH by blast
  next
    case (ok es' x r)
    obtain s v where f: "verify_unlocked d lid True st = Inr (es', make_checkpoint lid es')" "x = make_entry lid es' e s v"
      "validate_envelope (ld_statement d) e = Inr e" "verify_attestation c (ld_statement d) b e pk p = Inr v"
      using prepare_facts [OF ok(1)] by metis
    have "es' = es" using f(1) es(1) by simp
    moreover have "statement_decoder (ld_statement d)" using assms(1) by (simp add: log_decoders_ok_def)
    then have "av_bundle_digest v = bundle_digest b" using verified_receipt [OF _ f(3) append.hyps(2), of c b pk] f(4) by blast
    then have "attested_entry c d x" unfolding attested_entry_def
      by (intro exI [of _ b] exI [of _ e] exI [of _ pk] exI [of _ p] exI [of _ v]) (simp add: f(2,4) append.hyps(2))
    moreover have "verify_unlocked d lid True st' = Inr (es' @ [x], make_checkpoint lid (es' @ [x]))"
      by (rule verify_unlocked_allow [OF ok(4)])
    moreover from this have "distinct (map le_envelope (es' @ [x]))"
      using chain_distinct unfolding verify_unlocked_iff validate_entry_chain_def by blast
    ultimately show ?thesis using es(2) by (intro exI [of _ "es' @ [x]"]) simp
  qed
qed

section \<open>What a checkpoint binds\<close>

lemma opt_str_canon [simp]: "canon (opt_str s) = opt_str s"
  by (cases s) simp_all

lemma entry_payload_inj:
  assumes "dumps (JObj (entry_payload x)) = dumps (JObj (entry_payload y))" "le_digest x = le_digest y"
  shows "x = y"
proof -
  have p: "plain (JObj (entry_payload z))" for z by (simp add: entry_payload_def strs_def list_all_iff)
  have "canon (JObj (entry_payload x)) = canon (JObj (entry_payload y))" by (rule dumps_canon [OF p p assms(1)])
  from canon_agree [OF p p this] have k: "map_option canon (map_of (entry_payload x) k) = map_option canon (map_of (entry_payload y) k)" for k .
  have strs: "canon (strs xs) = strs xs" for xs by (simp add: strs_def)
  show ?thesis
    using assms(2) k [of "''log_id''"] k [of "''sequence''"] k [of "''previous_entry_digest''"] k [of "''envelope_digest''"]
      k [of "''statement_digest''"] k [of "''bundle_digest''"] k [of "''key_ids''"] k [of "''verification_receipt_digest''"]
    by (simp add: entry_payload_def strs strs_inj opt_str_inj)
qed

lemma validate_entry_address: "validate_entry e = Inr e \<Longrightarrow> canonical_digest (JObj (entry_payload e)) = le_digest e"
  unfolding validate_entry_def guards_Inr_iff by simp

text \<open>A collision between two lists of entries: of the payloads at one position or in their Merkle trees.\<close>

definition log_collision :: "log_entry list \<Rightarrow> log_entry list \<Rightarrow> bool" where
  "log_collision es fs \<longleftrightarrow> message_clash (merkle_messages (map le_digest es)) (merkle_messages (map le_digest fs))
     \<or> (\<exists>i < length es. digest_clash 64 [JObj (entry_payload (es ! i)), JObj (entry_payload (fs ! i))])"

lemma entries_bound:
  assumes "length fs = length es" "merkle_root (map le_digest es) = merkle_root (map le_digest fs)"
    and "\<forall>e \<in> set es. validate_entry e = Inr e" "\<forall>e \<in> set fs. validate_entry e = Inr e"
  shows "es = fs \<or> log_collision es fs"
proof (cases "log_collision es fs")
  case False
  have hex: "list_all is_hex64 (map le_digest es)" "list_all is_hex64 (map le_digest fs)"
    using assms(3,4) validate_entry_digest by (auto simp: list_all_iff)
  have dig: "map le_digest es = map le_digest fs"
    using merkle_root_binds [OF _ hex assms(2)] assms(1) False by (auto simp: log_collision_def)
  have "es ! i = fs ! i" if i: "i < length es" for i
  proof -
    have d: "le_digest (es ! i) = le_digest (fs ! i)" using dig i assms(1) by (metis nth_map)
    have "canonical_digest (JObj (entry_payload (es ! i))) = canonical_digest (JObj (entry_payload (fs ! i)))"
      using d validate_entry_address assms i by simp
    moreover have "\<not> digest_clash 64 [JObj (entry_payload (es ! i)), JObj (entry_payload (fs ! i))]"
      using False i by (auto simp: log_collision_def)
    ultimately have "dumps (JObj (entry_payload (es ! i))) = dumps (JObj (entry_payload (fs ! i)))"
      by (auto simp: digest_clash_def)
    with entry_payload_inj d show ?thesis by blast
  qed
  then show ?thesis using assms(1) by (simp add: list_eq_iff_nth_eq)
qed simp

text \<open>C15: A checkpoint binds the whole log: two logs that verify against the same checkpoint, whatever the
  bytes of their files, hold the same entries in the same order, unless the two lists exhibit a
  collision of SHA-256. So no entry can be changed, removed, inserted or reordered under a checkpoint.\<close>

theorem checkpoint_binds_log:
  assumes "log_decoders_ok d" "verify_unlocked d lid a st = Inr (es, c)" "verify_unlocked d lid a' st' = Inr (fs, c)"
  shows "es = fs \<or> log_collision es fs"
proof -
  have e: "read_entries d st = Inr es" "c = make_checkpoint lid es" and f: "read_entries d st' = Inr fs" "c = make_checkpoint lid fs"
    using assms(2,3) build_checkpoint_Inr by (auto simp: verify_unlocked_iff)
  have "length fs = length es" "merkle_root (map le_digest es) = merkle_root (map le_digest fs)"
    using e(2) f(2) by (metis make_checkpoint_fields(2), metis make_checkpoint_fields(3))
  then show ?thesis by (rule entries_bound [OF _ _ read_valid [OF assms(1) e(1)] read_valid [OF assms(1) f(1)]])
qed

section \<open>A crash between the two writes\<close>

lemma crashed_rejected:
  assumes "log_decoders_ok d" "prepare_append c d lid e b pk p st = Inr (es, x)"
  shows "verify_unlocked d lid allow (write_log x st) \<noteq> Inr (fs, cp)"
proof
  assume v: "verify_unlocked d lid allow (write_log x st) = Inr (fs, cp)"
  have s: "verify_unlocked d lid True st = Inr (es, make_checkpoint lid es)" "validate_entry x = Inr x"
    using prepare_facts [OF assms(2)] by metis+
  have "read_entries d (write_log x st) = Inr (es @ [x])"
    using read_entries_write [OF assms(1) _ s(2)] s(1) by (simp add: verify_unlocked_iff)
  then have fs: "fs = es @ [x]" "cp = make_checkpoint lid (es @ [x])"
    using v build_checkpoint_Inr by (auto simp: verify_unlocked_iff)
  have "lf_checkpoint (write_log x st) = lf_checkpoint st" by (simp add: write_log_def)
  then have "make_checkpoint lid es = make_checkpoint lid (es @ [x])"
    using v s(1) fs by (auto simp: verify_unlocked_iff split: option.splits)
  then have "cp_size (make_checkpoint lid es) = cp_size (make_checkpoint lid (es @ [x]))" by simp
  then show False by simp
qed

lemma crash_locks:
  assumes "log_decoders_ok d" "prepare_append c d lid e b pk p st = Inr (es, x)"
  shows "(\<exists>err. log_verify d lid (write_log x st) = Inl err)
    \<and> (\<forall>c' e' b' pk' p'. \<exists>err. log_append c' d lid e' b' pk' p' (write_log x st) = (Inl err, write_log x st))
    \<and> (\<forall>r. verify_receipt d lid r st = Inr True \<longrightarrow> verify_receipt d lid r (write_log x st) = Inr True)"
proof (intro conjI allI impI)
  have no: "\<exists>err. verify_unlocked d lid allow (write_log x st) = Inl err" for allow
    using crashed_rejected [OF assms, of allow] by (cases "verify_unlocked d lid allow (write_log x st)") auto
  have links: "reject_links (write_log x st) = Inr ()"
    using prepare_facts [OF assms(2)] by (metis reject_links_Inr write_log_def log_files.select_convs(3) log_files.surjective log_files.update_convs(1))
  show "\<exists>err. log_verify d lid (write_log x st) = Inl err"
    using no [of False] links by (auto simp: log_verify_def)
  show "\<exists>err. log_append c' d lid e' b' pk' p' (write_log x st) = (Inl err, write_log x st)" for c' e' b' pk' p'
  proof (cases "prepare_append c' d lid e' b' pk' p' (write_log x st)")
    case (Inr y)
    obtain es' x' where "y = (es', x')" by (cases y)
    then have "verify_unlocked d lid True (write_log x st) = Inr (es', make_checkpoint lid es')"
      using prepare_facts [OF Inr [unfolded \<open>y = (es', x')\<close>]] by metis
    then show ?thesis using no [of True] by simp
  qed (simp add: log_append_def)
  fix r assume r: "verify_receipt d lid r st = Inr True"
  have s: "verify_unlocked d lid True st = Inr (es, make_checkpoint lid es)" "validate_entry x = Inr x"
    using prepare_facts [OF assms(2)] by metis+
  have "read_entries d (write_log x st) = Inr (es @ [x])" "read_entries d st = Inr es"
    using read_entries_write [OF assms(1) _ s(2)] s(1) by (simp_all add: verify_unlocked_iff)
  moreover have "\<not> lf_linked (write_log x st)" using links by (simp add: reject_links_Inr)
  ultimately show "verify_receipt d lid r (write_log x st) = Inr True"
    using r genuine_append [of lid r es x] unfolding verify_receipt_iff by auto
qed

text \<open>C18: A crash after the log was written and before the checkpoint was replaced fails closed: from then
  on verification and every append are rejected and nothing is written, while receipts issued before
  still verify. Nothing in the code brings such a log back to life.\<close>

theorem crash_fails_closed:
  assumes "log_decoders_ok d" "prepare_append c d lid e b pk p st = Inr (es, x)"
  shows "(\<exists>err. log_verify d lid (write_log x st) = Inl err)
    \<and> (\<forall>c' e' b' pk' p'. \<exists>err. log_append c' d lid e' b' pk' p' (write_log x st) = (Inl err, write_log x st))
    \<and> (\<forall>r. verify_receipt d lid r st = Inr True \<longrightarrow> verify_receipt d lid r (write_log x st) = Inr True)"
  by (rule crash_locks [OF assms])

text \<open>The receipt validator alone does not bind the leaf index: any other index of the tree is accepted.\<close>

lemma receipt_index_unbound:
  assumes "validate_inclusion r = Inr r" "j < cp_size (ir_checkpoint r)"
    and "s = r\<lparr>ir_index := j\<rparr>" "t = s\<lparr>ir_digest := canonical_digest (JObj (inclusion_payload s))\<rparr>"
  shows "validate_inclusion t = Inr t"
  using assms(1,2) unfolding validate_inclusion_def rbind_Inr_iff
  by (auto simp: assms(3,4) guards_Inr_iff inclusion_payload_def)

text \<open>Text mode hides the line ends from the check for canonical lines.\<close>

lemma crlf_accepted:
  assumes "log_decoders_ok d" "validate_entry e = Inr e"
  shows "read_entries d \<lparr>lf_log = Some (dumps (entry_json e) @ [CHR 0x0D, CHR 0x0A]), lf_checkpoint = None, lf_linked = False\<rparr> = Inr [e]"
proof -
  have "utf8_strict (utf8 (dumps (entry_json e) @ [CHR 0x0D, CHR 0x0A])) = Some (dumps (entry_json e) @ [CHR 0x0D, CHR 0x0A])"
    by (rule utf8_strict_utf8)
  moreover have "utf8 [CHR 0x0D, CHR 0x0A] = [CHR 0x0D, CHR 0x0A]" by code_simp
  ultimately have "utf8_strict (dumps (entry_json e) @ [CHR 0x0D, CHR 0x0A]) = Some (dumps (entry_json e) @ [CHR 0x0D, CHR 0x0A])"
    by (simp add: utf8_append utf8_printable printable_dumps plain_entry)
  moreover have "universal_newlines (dumps (entry_json e) @ [CHR 0x0D, CHR 0x0A]) = log_text [e]"
    using universal_newlines_append [of "[CHR 0x0D, CHR 0x0A]" "dumps (entry_json e)"] no_return [OF line_no_newline(2), of e]
    by (simp add: log_text_def line_of_def)
  ultimately show ?thesis using assms(2) by (simp add: read_entries_iff [OF assms(1)])
qed

section \<open>Decoders and a log of one entry\<close>

fun nat_of :: "json \<Rightarrow> nat" where
  "nat_of (JInt i) = nat i"
| "nat_of _ = 0"

definition read_log_entry :: "json \<Rightarrow> log_entry res" where
  "read_log_entry v = (let t = (\<lambda>k. text_in (field_of v k));
       e = \<lparr>le_log_id = t ''log_id'', le_sequence = nat_of (field_of v ''sequence''),
            le_previous = opt_text_of (field_of v ''previous_entry_digest''), le_envelope = t ''envelope_digest'',
            le_statement = t ''statement_digest'', le_bundle = t ''bundle_digest'',
            le_keys = map text_in (items_of (field_of v ''key_ids'')),
            le_receipt = t ''verification_receipt_digest'', le_digest = t ''entry_digest''\<rparr>
     in validate_entry e)"

definition read_log_checkpoint :: "json \<Rightarrow> log_checkpoint res" where
  "read_log_checkpoint v = (let t = (\<lambda>k. text_in (field_of v k));
       c = \<lparr>cp_log_id = t ''log_id'', cp_size = nat_of (field_of v ''tree_size''), cp_root = t ''root_hash'',
            cp_head = opt_text_of (field_of v ''head_entry_digest''), cp_digest = t ''checkpoint_digest''\<rparr>
     in validate_checkpoint c)"

definition sample_decoders :: log_decoders where
  "sample_decoders = \<lparr>ld_statement = read_statement, ld_entry = read_log_entry, ld_checkpoint = read_log_checkpoint\<rparr>"

lemma texts_of_strs: "map text_in (items_of (canon (strs xs))) = xs"
  by (simp add: strs_def comp_def)

lemma opt_text_opt_str: "opt_text_of (opt_str t) = t"
  by (cases t) (simp_all add: opt_text_of_def)

lemma read_log_entry_json: "read_log_entry (canon (entry_json e)) = validate_entry e"
  unfolding read_log_entry_def entry_json_def entry_payload_def Let_def
  by (cases e) (simp add: field_of_canon texts_of_strs opt_text_opt_str del: canon.simps(2))

lemma read_log_checkpoint_json: "read_log_checkpoint (canon (checkpoint_json c)) = validate_checkpoint c"
  unfolding read_log_checkpoint_def checkpoint_json_def checkpoint_payload_def Let_def
  by (cases c) (simp add: field_of_canon opt_text_opt_str del: canon.simps(2))

lemma sample_decoders_ok: "log_decoders_ok sample_decoders"
proof -
  have "validate_entry e = Inr e" if "read_log_entry v = Inr e" for v e
    using that validate_entry_Inr unfolding read_log_entry_def Let_def by metis
  then show ?thesis
    by (simp add: log_decoders_ok_def sample_decoders_def read_statement_law read_log_entry_json read_log_checkpoint_json)
qed

definition empty_files :: log_files where
  "empty_files = \<lparr>lf_log = None, lf_checkpoint = None, lf_linked = False\<rparr>"

lemma sample_log_id: "is_identity_id ''log''"
  by code_simp

lemma empty_verifies: "verify_unlocked sample_decoders ''log'' True empty_files = Inr ([], make_checkpoint ''log'' [])"
proof -
  have "build_checkpoint ''log'' [] = Inr (make_checkpoint ''log'' [])" by (rule checkpoint_valid [OF sample_log_id]) simp
  then show ?thesis by (simp add: verify_unlocked_iff read_entries_def validate_entry_chain_def empty_files_def)
qed

text \<open>A signed envelope of the sample bundle, its prepared append, and the log after it.\<close>

lemma sample_append:
  assumes "validate_bundle b = Inr b" "rank_eligible (ab_scorecard b)"
  obtains e v x r st where "validate_envelope read_statement e = Inr e"
    "verify_attestation toy_ed25519 read_statement b e ''k'' sample_trust = Inr v"
    "prepare_append toy_ed25519 sample_decoders ''log'' e b ''k'' sample_trust empty_files = Inr ([], x)"
    "log_append toy_ed25519 sample_decoders ''log'' e b ''k'' sample_trust empty_files = (Inr r, st)"
    "verify_receipt sample_decoders ''log'' r st = Inr True"
proof -
  obtain e v where e: "validate_envelope read_statement e = Inr e"
    "verify_attestation toy_ed25519 read_statement b e ''k'' sample_trust = Inr v" using sample_signed [OF assms] by blast
  have d: "ld_statement sample_decoders = read_statement" by (simp add: sample_decoders_def)
  have n: "envelope_digest e \<notin> set (map le_envelope [])" "\<not> lf_linked empty_files" by (simp_all add: empty_files_def)
  obtain x where x: "prepare_append toy_ed25519 sample_decoders ''log'' e b ''k'' sample_trust empty_files = Inr ([], x)"
    using prepare_ok [OF sample_decoders_ok _ sample_trust_facts(1) _ empty_verifies n, of toy_ed25519 b "''k''" v] e d by auto
  obtain r st where "log_append toy_ed25519 sample_decoders ''log'' e b ''k'' sample_trust empty_files = (Inr r, st)"
    using append_steps [OF sample_decoders_ok x refl] by metis
  moreover from append_effect [OF sample_decoders_ok this] have "verify_receipt sample_decoders ''log'' r st = Inr True" by blast
  ultimately show ?thesis using that e x by blast
qed

text \<open>
  Every witness below is about the bundle that the sample run of the kernel yields; only a SHA-256
  collision among the run's own payloads could keep it from being built.
\<close>

definition sample_outcome :: "(artifact_bundle \<Rightarrow> bool) \<Rightarrow> bool" where
  "sample_outcome P \<longleftrightarrow> (\<exists>v. verify_evidence (sample_registry sample_env) sample_manifest sample_plan sample_bundle = Inr v
     \<and> ((\<exists>b. build_artifacts sample_authority (plan_dict sample_plan) (evidence_dict sample_bundle) (verdict_dict v) = Inr b
           \<and> P b) \<or> artifact_collision sample_authority sample_plan sample_bundle v))"

lemma sample_outcomeI:
  assumes "\<And>b. \<lbrakk>validate_bundle b = Inr b; rank_eligible (ab_scorecard b)\<rbrakk> \<Longrightarrow> P b"
  shows "sample_outcome P"
  using sample_bundled assms unfolding sample_outcome_def by blast


theorem append_then_verify_witness:
  "sample_outcome (\<lambda>b. \<exists>e r st v. log_append toy_ed25519 sample_decoders ''log'' e b ''k'' sample_trust empty_files = (Inr r, st)
     \<and> log_verify sample_decoders ''log'' st = Inr v \<and> verify_receipt sample_decoders ''log'' r st = Inr True)"
proof (rule sample_outcomeI)
  fix b assume "validate_bundle b = Inr b" "rank_eligible (ab_scorecard b)"
  then obtain e r st where a: "log_append toy_ed25519 sample_decoders ''log'' e b ''k'' sample_trust empty_files = (Inr r, st)"
    by (rule sample_append)
  from append_then_verify [OF sample_decoders_ok a] a
  show "\<exists>e r st v. log_append toy_ed25519 sample_decoders ''log'' e b ''k'' sample_trust empty_files = (Inr r, st)
     \<and> log_verify sample_decoders ''log'' st = Inr v \<and> verify_receipt sample_decoders ''log'' r st = Inr True" by blast
qed

theorem receipts_stay_valid_witness:
  "sample_outcome (\<lambda>b. \<exists>e r st. log_append toy_ed25519 sample_decoders ''log'' e b ''k'' sample_trust empty_files = (Inr r, st)
     \<and> verify_receipt sample_decoders ''log'' r (snd (log_append toy_ed25519 sample_decoders ''log'' e b ''k'' sample_trust st)) = Inr True)"
proof (rule sample_outcomeI)
  fix b assume "validate_bundle b = Inr b" "rank_eligible (ab_scorecard b)"
  then obtain e r st where a: "log_append toy_ed25519 sample_decoders ''log'' e b ''k'' sample_trust empty_files = (Inr r, st)"
    "verify_receipt sample_decoders ''log'' r st = Inr True" by (rule sample_append)
  from receipts_stay_valid [OF sample_decoders_ok a(2) prod.collapse [symmetric], of toy_ed25519 e b "''k''" sample_trust] a(1)
  show "\<exists>e r st. log_append toy_ed25519 sample_decoders ''log'' e b ''k'' sample_trust empty_files = (Inr r, st)
     \<and> verify_receipt sample_decoders ''log'' r (snd (log_append toy_ed25519 sample_decoders ''log'' e b ''k'' sample_trust st)) = Inr True"
    by blast
qed

theorem reachable_log_attested_witness:
  "sample_outcome (\<lambda>b. \<exists>st x. log_reach toy_ed25519 sample_decoders ''log'' st
     \<and> verify_unlocked sample_decoders ''log'' True st = Inr ([x], make_checkpoint ''log'' [x])
     \<and> attested_entry toy_ed25519 sample_decoders x)"
proof (rule sample_outcomeI)
  fix b assume "validate_bundle b = Inr b" "rank_eligible (ab_scorecard b)"
  then obtain e r st x where a: "log_append toy_ed25519 sample_decoders ''log'' e b ''k'' sample_trust empty_files = (Inr r, st)"
    "prepare_append toy_ed25519 sample_decoders ''log'' e b ''k'' sample_trust empty_files = Inr ([], x)" by (rule sample_append)
  have "log_reach toy_ed25519 sample_decoders ''log'' empty_files" unfolding empty_files_def by (rule log_reach.fresh)
  then have reach: "log_reach toy_ed25519 sample_decoders ''log'' st" by (rule log_reach.append [OF _ sample_trust_facts(1) a(1)])
  obtain r' where "verify_unlocked sample_decoders ''log'' False st = Inr ([x], make_checkpoint ''log'' [x])"
    using append_steps [OF sample_decoders_ok a(2) refl] a(1) by (metis append_Nil prod.inject)
  then have v: "verify_unlocked sample_decoders ''log'' True st = Inr ([x], make_checkpoint ''log'' [x])"
    by (rule verify_unlocked_allow)
  from reachable_log_attested [OF sample_decoders_ok sample_log_id reach] v
  have "attested_entry toy_ed25519 sample_decoders x" by auto
  with reach v show "\<exists>st x. log_reach toy_ed25519 sample_decoders ''log'' st
     \<and> verify_unlocked sample_decoders ''log'' True st = Inr ([x], make_checkpoint ''log'' [x])
     \<and> attested_entry toy_ed25519 sample_decoders x" by blast
qed

theorem crash_fails_closed_witness:
  "sample_outcome (\<lambda>b. \<exists>e x. prepare_append toy_ed25519 sample_decoders ''log'' e b ''k'' sample_trust empty_files = Inr ([], x)
     \<and> (\<exists>err. log_verify sample_decoders ''log'' (write_log x empty_files) = Inl err)
     \<and> (\<exists>err. log_append toy_ed25519 sample_decoders ''log'' e b ''k'' sample_trust (write_log x empty_files)
           = (Inl err, write_log x empty_files)))"
proof (rule sample_outcomeI)
  fix b assume "validate_bundle b = Inr b" "rank_eligible (ab_scorecard b)"
  then obtain e x where a: "prepare_append toy_ed25519 sample_decoders ''log'' e b ''k'' sample_trust empty_files = Inr ([], x)"
    by (rule sample_append)
  note cr = crash_fails_closed [OF sample_decoders_ok a]
  have "\<exists>err. log_append toy_ed25519 sample_decoders ''log'' e b ''k'' sample_trust (write_log x empty_files)
           = (Inl err, write_log x empty_files)"
    using conjunct1 [OF conjunct2 [OF cr], rule_format, of toy_ed25519 e b "''k''" sample_trust] .
  with a conjunct1 [OF cr] show "\<exists>e x. prepare_append toy_ed25519 sample_decoders ''log'' e b ''k'' sample_trust empty_files = Inr ([], x)
     \<and> (\<exists>err. log_verify sample_decoders ''log'' (write_log x empty_files) = Inl err)
     \<and> (\<exists>err. log_append toy_ed25519 sample_decoders ''log'' e b ''k'' sample_trust (write_log x empty_files)
           = (Inl err, write_log x empty_files))" by blast
qed

text \<open>Two files with different line ends verify against one checkpoint and hold the same entries.\<close>

theorem checkpoint_binds_log_witness:
  "sample_outcome (\<lambda>b. \<exists>st x. verify_unlocked sample_decoders ''log'' False st = Inr ([x], make_checkpoint ''log'' [x])
     \<and> (\<forall>st' a fs. verify_unlocked sample_decoders ''log'' a st' = Inr (fs, make_checkpoint ''log'' [x])
          \<longrightarrow> [x] = fs \<or> log_collision [x] fs))"
proof (rule sample_outcomeI)
  fix b assume "validate_bundle b = Inr b" "rank_eligible (ab_scorecard b)"
  then obtain e x where a: "prepare_append toy_ed25519 sample_decoders ''log'' e b ''k'' sample_trust empty_files = Inr ([], x)"
    by (rule sample_append)
  then obtain st where v: "verify_unlocked sample_decoders ''log'' False st = Inr ([x], make_checkpoint ''log'' [x])"
    using append_steps [OF sample_decoders_ok a refl] by (metis append_Nil)
  from checkpoint_binds_log [OF sample_decoders_ok v] v
  show "\<exists>st x. verify_unlocked sample_decoders ''log'' False st = Inr ([x], make_checkpoint ''log'' [x])
     \<and> (\<forall>st' a fs. verify_unlocked sample_decoders ''log'' a st' = Inr (fs, make_checkpoint ''log'' [x])
          \<longrightarrow> [x] = fs \<or> log_collision [x] fs)" by blast
qed

theorem every_entry_provable_witness:
  "sample_outcome (\<lambda>b. \<exists>st x r. verify_unlocked sample_decoders ''log'' False st = Inr ([x], make_checkpoint ''log'' [x])
     \<and> build_inclusion_receipt [x] 0 (make_checkpoint ''log'' [x]) = Inr r
     \<and> verify_receipt sample_decoders ''log'' r st = Inr True)"
proof (rule sample_outcomeI)
  fix b assume "validate_bundle b = Inr b" "rank_eligible (ab_scorecard b)"
  then obtain e x where a: "prepare_append toy_ed25519 sample_decoders ''log'' e b ''k'' sample_trust empty_files = Inr ([], x)"
    by (rule sample_append)
  obtain st where v: "verify_unlocked sample_decoders ''log'' False st = Inr ([x], make_checkpoint ''log'' [x])" "\<not> lf_linked st"
    using append_steps [OF sample_decoders_ok a refl] by (metis append_Nil)
  from every_entry_provable [OF sample_decoders_ok v, of 0] v(1)
  show "\<exists>st x r. verify_unlocked sample_decoders ''log'' False st = Inr ([x], make_checkpoint ''log'' [x])
     \<and> build_inclusion_receipt [x] 0 (make_checkpoint ''log'' [x]) = Inr r
     \<and> verify_receipt sample_decoders ''log'' r st = Inr True" by auto
qed

end
