(* ===== verification/PyNumbers.thy ===== *)
theory PyNumbers
  imports JsonParser
begin

text \<open>
  Conversions of the standard library from text and JSON values to numbers: \<open>int(s)\<close>, \<open>float(s)\<close>,
  \<open>int(v)\<close> and \<open>float(v)\<close>, with the exceptions they raise, and the floats that are not finite,
  which reach the sources through response headers and recorded prices.
\<close>

section \<open>Floats with infinities\<close>

datatype pyfloat = PyFinite rat | PyInf bool | PyNan

text \<open>\<open>PyInf True\<close> is minus infinity. A rounded magnitude of \<open>2^1024\<close> or more is infinite.\<close>

definition to_pyfloat :: "rat \<Rightarrow> pyfloat" where
  "to_pyfloat x = (let d = double_of x in if 2 ^ 1024 \<le> \<bar>d\<bar> then PyInf (d < 0) else PyFinite d)"

fun pyfloat_add :: "pyfloat \<Rightarrow> pyfloat \<Rightarrow> pyfloat" where
  "pyfloat_add (PyFinite a) (PyFinite b) = to_pyfloat (a + b)"
| "pyfloat_add PyNan _ = PyNan"
| "pyfloat_add _ PyNan = PyNan"
| "pyfloat_add (PyInf a) (PyInf b) = (if a = b then PyInf a else PyNan)"
| "pyfloat_add (PyInf a) (PyFinite _) = PyInf a"
| "pyfloat_add (PyFinite _) (PyInf b) = PyInf b"

text \<open>\<open>x >= m\<close> for a finite \<open>m\<close>; comparisons with \<open>nan\<close> are false.\<close>

fun pyfloat_ge :: "pyfloat \<Rightarrow> rat \<Rightarrow> bool" where
  "pyfloat_ge (PyFinite a) m \<longleftrightarrow> m \<le> a"
| "pyfloat_ge (PyInf neg) m \<longleftrightarrow> \<not> neg"
| "pyfloat_ge PyNan m \<longleftrightarrow> False"

section \<open>Text to numbers\<close>

text \<open>An underscore is allowed between two digits only.\<close>

fun underscores_ok :: "bool \<Rightarrow> string \<Rightarrow> bool" where
  "underscores_ok p [] = True"
| "underscores_ok p (c # cs) =
     (if c = CHR ''_'' then p \<and> cs \<noteq> [] \<and> is_digit_char (hd cs) \<and> underscores_ok False cs
      else underscores_ok (is_digit_char c) cs)"

definition is_signed :: "string \<Rightarrow> bool" where
  "is_signed s \<longleftrightarrow> starts_with s ''-'' \<or> starts_with s ''+''"

text \<open>\<open>int(s)\<close>, with the interpreter's default limit of 4300 digits.\<close>

definition py_int_str :: "string \<Rightarrow> int res" where
  "py_int_str s =
     (let t = strip s; body = (if is_signed t then tl t else t); ds = filter (\<lambda>c. c \<noteq> CHR ''_'') body
      in if \<not> underscores_ok False body \<or> ds = [] \<or> \<not> list_all is_digit_char ds
         then Inl (ValueError (''invalid literal for int() with base 10: '' @ repr_str s))
         else if 4300 < length ds
         then Inl (ValueError ''Exceeds the limit (4300 digits) for integer string conversion'')
         else Inr (if starts_with t ''-'' then - int (read_nat ds) else int (read_nat ds)))"

definition decimal_value :: "string \<Rightarrow> rat option" where
  "decimal_value b =
     (let ip = takeWhile is_digit_char b; r = drop (length ip) b;
          fp = (if starts_with r ''.'' then takeWhile is_digit_char (tl r) else []);
          r2 = (if starts_with r ''.'' then drop (1 + length fp) r else r);
          m = (\<lambda>k. rat_of_int (int (read_nat (ip @ fp))) * rat_pow10 (k - int (length fp)))
      in if ip @ fp = [] then None
         else if r2 = [] then Some (m 0)
         else (case exp_split r2 of Some (k, []) \<Rightarrow> Some (m k) | _ \<Rightarrow> None))"

definition py_float_str :: "string \<Rightarrow> pyfloat res" where
  "py_float_str s =
     (let t = strip s; u = filter (\<lambda>c. c \<noteq> CHR ''_'') t; neg = starts_with u ''-'';
          b = lower (if is_signed u then tl u else u)
      in if \<not> underscores_ok False t then Inl (ValueError (''could not convert string to float: '' @ repr_str s))
         else if b = ''inf'' \<or> b = ''infinity'' then Inr (PyInf neg)
         else if b = ''nan'' then Inr PyNan
         else (case decimal_value b of
             None \<Rightarrow> Inl (ValueError (''could not convert string to float: '' @ repr_str s))
           | Some x \<Rightarrow> Inr (to_pyfloat (if neg then - x else x))))"

section \<open>JSON values to numbers\<close>

fun type_name :: "json \<Rightarrow> string" where
  "type_name JNull = ''NoneType''"
| "type_name (JBool _) = ''bool''"
| "type_name (JInt _) = ''int''"
| "type_name (JFloat _) = ''float''"
| "type_name (JStr _) = ''str''"
| "type_name (JArr _) = ''list''"
| "type_name (JObj _) = ''dict''"

text \<open>Truncation towards zero.\<close>

definition trunc_int :: "rat \<Rightarrow> int" where
  "trunc_int x = (if x < 0 then \<lceil>x\<rceil> else \<lfloor>x\<rfloor>)"

fun py_int :: "json \<Rightarrow> int res" where
  "py_int (JInt i) = Inr i"
| "py_int (JBool b) = Inr (if b then 1 else 0)"
| "py_int (JFloat x) = Inr (trunc_int x)"
| "py_int (JStr s) = py_int_str s"
| "py_int v = Inl (TypeError (''int() argument must be a string, a bytes-like object or a real number, not ''
     @ repr_str (type_name v)))"

fun py_float :: "json \<Rightarrow> pyfloat res" where
  "py_float (JFloat x) = Inr (PyFinite x)"
| "py_float (JBool b) = Inr (PyFinite (if b then 1 else 0))"
| "py_float (JInt i) = (case to_pyfloat (rat_of_int i) of
     PyFinite x \<Rightarrow> Inr (PyFinite x) | _ \<Rightarrow> Inl (OverflowError ''int too large to convert to float''))"
| "py_float (JStr s) = py_float_str s"
| "py_float v = Inl (TypeError (''float() argument must be a string or a real number, not ''
     @ repr_str (type_name v)))"

text \<open>\<open>int(x)\<close> of a float.\<close>

fun int_of_pyfloat :: "pyfloat \<Rightarrow> int res" where
  "int_of_pyfloat (PyFinite x) = Inr (trunc_int x)"
| "int_of_pyfloat (PyInf _) = Inl (OverflowError ''cannot convert float infinity to integer'')"
| "int_of_pyfloat PyNan = Inl (ValueError ''cannot convert float NaN to integer'')"

end
