(* ===== verification/Providers.thy ===== *)
theory Providers
  imports Models PyNumbers "HOL-Library.Product_Lexorder"
begin

text \<open>
  \<open>providers.py\<close> and \<open>provider_metadata.py\<close>: one chat-completions request to one provider, the router
  that tries the candidates in order, and the quota view of a receipt. \<open>httpx\<close> is third-party code:
  what a request returns is the field \<open>en_http\<close> of the environment, a function of everything sent so
  far. The clocks are fields too, read by a counter. The state records every request that left.
\<close>

section \<open>Configuration\<close>

datatype provider_kind = KindGroq | KindGemini | KindCloudflare | KindLocal

record provider_config =
  pc_name :: string
  pc_kind :: provider_kind
  pc_base_url :: string
  pc_model :: string
  pc_quota :: string
  pc_key_env :: "string option"
  pc_enabled :: bool
  pc_timeout :: rat
  pc_headers :: "string dict"

definition chat_completions_url :: "provider_config \<Rightarrow> string" where
  "chat_completions_url c = rev (dropWhile (\<lambda>x. x = CHR ''/'') (rev (pc_base_url c))) @ ''/chat/completions''"

text \<open>\<open>QuotaClass(value)\<close>.\<close>

definition quota_of :: "string \<Rightarrow> quota_class res" where
  "quota_of q = (if q = ''free'' then Inr QuotaFree else if q = ''paid'' then Inr QuotaPaid
     else if q = ''local'' then Inr QuotaLocal
     else Inl (ValueError (repr_str q @ '' is not a valid QuotaClass'')))"

section \<open>The environment and the broker's state\<close>

datatype http_client = GivenClient string | NewClient rat

record http_request =
  rq_url :: string
  rq_headers :: "string dict"
  rq_json :: json

record http_response =
  rs_status :: int
  rs_headers :: "string dict"
  rs_json :: "json option"

text \<open>A response, an \<open>httpx.HTTPError\<close> (its class name and text), or any other exception.\<close>

datatype http_outcome = HttpResponse http_response | HttpFailed string string | HttpRaised exn

record environment =
  en_var :: "string \<Rightarrow> string option"
  en_http :: "(http_client \<times> http_request) list \<Rightarrow> http_outcome"
  en_perf :: "nat \<Rightarrow> rat"
  en_time :: "nat \<Rightarrow> rat"
  en_now :: "nat \<Rightarrow> string"
  en_uuid :: "nat \<Rightarrow> string"

text \<open>
  What left the process, newest first; how often a clock was read; and the text of the ledger file,
  \<open>None\<close> when there is none.
\<close>

record broker_state =
  sent :: "(http_client \<times> http_request) list"
  ticks :: nat
  ledger_text :: "string option"

section \<open>One request to one provider\<close>

record adapter =
  ad_config :: provider_config
  ad_client :: http_client

record inference_result =
  ir_text :: string
  ir_receipt :: inference_receipt
  ir_raw :: json

datatype attempt_error = ProviderError string inference_receipt bool | OtherError exn

definition provider_receipt ::
  "provider_config \<Rightarrow> string \<Rightarrow> rat \<Rightarrow> int \<Rightarrow> int \<Rightarrow> string dict \<Rightarrow> string option \<Rightarrow> inference_receipt res" where
  "provider_receipt c h lat i k hs err = rbind (quota_of (pc_quota c)) (\<lambda>q.
     Inr \<lparr>rec_provider = pc_name c, rec_model = pc_model c, request_hash = h, input_tokens = i,
       output_tokens = k, latency_ms = lat, price_usd = 0, rec_quota = q, rate_limit_headers = hs,
       rec_error = err, rec_run_id = None\<rparr>)"

text \<open>\<open>raise ProviderError(message, receipt=self._receipt(...), retryable=...)\<close>.\<close>

definition provider_failure :: "string \<Rightarrow> inference_receipt res \<Rightarrow> bool \<Rightarrow> attempt_error" where
  "provider_failure m r retry = (case r of Inl e \<Rightarrow> OtherError e | Inr x \<Rightarrow> ProviderError m x retry)"

definition rate_limit_prefixes :: "string list" where
  "rate_limit_prefixes = [''retry-after'', ''x-ratelimit-'', ''ratelimit-'', ''x-groq-'']"

definition rate_headers :: "string dict \<Rightarrow> string dict" where
  "rate_headers hs = fold (\<lambda>(k, v) d.
     if list_ex (starts_with (lower k)) rate_limit_prefixes then dict_set (lower k) v d else d) hs []"

text \<open>\<open>int(usage.get(a, usage.get(b, 0)) or 0)\<close>.\<close>

definition token_count :: "json dict \<Rightarrow> string \<Rightarrow> string \<Rightarrow> int res" where
  "token_count usage a b = (let v = jget_default usage a (jget_default usage b (JInt 0))
     in py_int (if truthy v then v else JInt 0))"

definition content_missing :: exn where
  "content_missing = ValueError ''provider response missing choices[0].message.content''"

text \<open>\<open>body["choices"][0]["message"]["content"]\<close>; every lookup that fails raises the same error.\<close>

definition response_content :: "json \<Rightarrow> json res" where
  "response_content body = (case jget body ''choices'' of
     Some (JArr (x # _)) \<Rightarrow> (case jget x ''message'' of
         Some m \<Rightarrow> (case jget m ''content'' of Some v \<Rightarrow> Inr v | None \<Rightarrow> Inl content_missing)
       | None \<Rightarrow> Inl content_missing)
   | _ \<Rightarrow> Inl content_missing)"

text \<open>\<open>"".join(parts)\<close> on values that need not be strings; \<open>i\<close> counts the items before.\<close>

fun join_parts :: "nat \<Rightarrow> json list \<Rightarrow> string res" where
  "join_parts i [] = Inr []"
| "join_parts i (v # vs) = (case v of
     JStr s \<Rightarrow> rbind (join_parts (Suc i) vs) (\<lambda>t. Inr (s @ t))
   | _ \<Rightarrow> Inl (TypeError (''sequence item '' @ show_nat i @ '': expected str instance, '' @ type_name v @ '' found'')))"

definition extract_text :: "json \<Rightarrow> string res" where
  "extract_text body = rbind (response_content body) (\<lambda>v. case v of
     JStr s \<Rightarrow> Inr s
   | JArr ps \<Rightarrow> join_parts 0 (map (\<lambda>p. jget_default (obj_items p) ''text'' (JStr [])) (filter is_obj ps))
   | _ \<Rightarrow> Inl (ValueError ''unsupported provider content shape''))"

definition request_payload :: "provider_config \<Rightarrow> json list \<Rightarrow> json \<Rightarrow> json \<Rightarrow> json" where
  "request_payload c msgs max_tokens temperature = JObj ([(''model'', JStr (pc_model c)), (''messages'', JArr msgs)]
     @ (if max_tokens = JNull then [] else [(''max_tokens'', max_tokens)])
     @ (if temperature = JNull then [] else [(''temperature'', temperature)]))"

text \<open>\<open>os.getenv(self.config.api_key_env) if self.config.api_key_env else None\<close>, the empty key as none.\<close>

definition api_key :: "environment \<Rightarrow> provider_config \<Rightarrow> string option" where
  "api_key env c = (case pc_key_env c of
     None \<Rightarrow> None
   | Some v \<Rightarrow> if v = [] then None else (case en_var env v of Some [] \<Rightarrow> None | k \<Rightarrow> k))"

definition needs_key :: "provider_config \<Rightarrow> bool" where
  "needs_key c \<longleftrightarrow> pc_key_env c \<noteq> None \<and> pc_key_env c \<noteq> Some []"

definition http_request_of :: "environment \<Rightarrow> provider_config \<Rightarrow> json \<Rightarrow> http_request" where
  "http_request_of env c payload = \<lparr>rq_url = chat_completions_url c,
     rq_headers = (let hs = dict_update [(''content-type'', ''application/json'')] (pc_headers c) in
       case api_key env c of None \<Rightarrow> hs | Some k \<Rightarrow> dict_set ''authorization'' (''Bearer '' @ k) hs),
     rq_json = payload\<rparr>"

definition elapsed_ms :: "environment \<Rightarrow> nat \<Rightarrow> rat" where
  "elapsed_ms env n = fmul (fadd (en_perf env (Suc n)) (- en_perf env n)) 1000"

text \<open>What the response means: the part of \<open>complete\<close> after the request returned.\<close>

definition read_response ::
  "provider_config \<Rightarrow> string \<Rightarrow> rat \<Rightarrow> http_response \<Rightarrow> attempt_error + inference_result" where
  "read_response c h lat rs =
     (let hs = rate_headers (rs_headers rs);
          body = (case rs_json rs of None \<Rightarrow> JObj [] | Some v \<Rightarrow> v);
          usage = obj_items (jget_default (obj_items body) ''usage'' JNull)
      in case token_count usage ''prompt_tokens'' ''input_tokens'' of Inl e \<Rightarrow> Inl (OtherError e) | Inr i \<Rightarrow>
        (case token_count usage ''completion_tokens'' ''output_tokens'' of Inl e \<Rightarrow> Inl (OtherError e) | Inr k \<Rightarrow>
         if 400 \<le> rs_status rs
         then (let err = ''http_'' @ show_int (rs_status rs) in
           Inl (provider_failure err (provider_receipt c h lat i k hs (Some err))
             (rs_status rs = 429 \<or> 500 \<le> rs_status rs)))
         else (case extract_text body of Inl e \<Rightarrow> Inl (OtherError e) | Inr t \<Rightarrow>
           (case provider_receipt c h lat i k hs None of Inl e \<Rightarrow> Inl (OtherError e) | Inr r \<Rightarrow>
             Inr \<lparr>ir_text = t, ir_receipt = r, ir_raw = body\<rparr>))))"

definition provider_complete ::
  "environment \<Rightarrow> adapter \<Rightarrow> json list \<Rightarrow> json \<Rightarrow> json \<Rightarrow> broker_state
    \<Rightarrow> (attempt_error + inference_result) \<times> broker_state" where
  "provider_complete env a msgs max_tokens temperature st =
     (let c = ad_config a; payload = request_payload c msgs max_tokens temperature; h = canonical_digest payload
      in if needs_key c \<and> api_key env c = None
         then (Inl (provider_failure (''missing credential environment variable '' @ the (pc_key_env c))
                 (provider_receipt c h 0 0 0 [] (Some ''credential_missing'')) False), st)
         else (let hist = (ad_client a, http_request_of env c payload) # sent st;
                   st' = st\<lparr>sent := hist, ticks := ticks st + 2\<rparr>;
                   lat = elapsed_ms env (ticks st)
               in (case en_http env hist of
                     HttpRaised e \<Rightarrow> (Inl (OtherError e), st\<lparr>sent := hist, ticks := ticks st + 1\<rparr>)
                   | HttpFailed name m \<Rightarrow> (Inl (provider_failure m
                       (provider_receipt c h lat 0 0 [] (Some (''transport:'' @ name))) True), st')
                   | HttpResponse rs \<Rightarrow> (read_response c h lat rs, st'))))"

section \<open>The router\<close>

record router =
  rt_providers :: "provider_config list"
  rt_adapters :: "adapter dict"
  rt_attempts :: "inference_receipt list"

definition make_router :: "provider_config list \<Rightarrow> http_client dict \<Rightarrow> router" where
  "make_router ps clients = (let on = filter pc_enabled ps in
     \<lparr>rt_providers = on,
      rt_adapters = dict_update [] (map (\<lambda>p. (pc_name p, \<lparr>ad_config = p,
        ad_client = (case map_of clients (pc_name p) of Some c \<Rightarrow> c | None \<Rightarrow> NewClient (pc_timeout p))\<rparr>)) on),
      rt_attempts = []\<rparr>)"

definition quota_rank :: "string \<Rightarrow> nat" where
  "quota_rank q = (if q = ''local'' then 0 else if q = ''free'' then 1 else 2)"

definition candidates :: "router \<Rightarrow> json \<Rightarrow> provider_config list" where
  "candidates r required = sort_key (\<lambda>p. (quota_rank (pc_quota p), pc_name p))
     (if truthy required then filter (\<lambda>p. py_eq (JStr (pc_name p)) required) (rt_providers r) else rt_providers r)"

definition no_provider :: exn where
  "no_provider = RuntimeError ''no eligible inference provider''"

definition choose_provider :: "router \<Rightarrow> json \<Rightarrow> provider_config res" where
  "choose_provider r required = (case candidates r required of [] \<Rightarrow> Inl no_provider | p # _ \<Rightarrow> Inr p)"

text \<open>
  The loop over the candidates. \<open>ask p st\<close> is the request to the adapter of \<open>p\<close>; \<open>final\<close> is what is
  raised when the candidates are exhausted, the last error.
\<close>

fun try_candidates ::
  "(provider_config \<Rightarrow> 'st \<Rightarrow> (attempt_error + inference_result) \<times> 'st) \<Rightarrow> bool \<Rightarrow> attempt_error
    \<Rightarrow> provider_config list \<Rightarrow> inference_receipt list \<Rightarrow> 'st
    \<Rightarrow> (attempt_error + inference_result) \<times> inference_receipt list \<times> 'st" where
  "try_candidates ask pinned final [] rcs st = (Inl final, rcs, st)"
| "try_candidates ask pinned final (p # ps) rcs st = (case ask p st of
     (Inr res, st') \<Rightarrow> (Inr res, rcs @ [ir_receipt res], st')
   | (Inl (OtherError e), st') \<Rightarrow> (Inl (OtherError e), rcs, st')
   | (Inl (ProviderError m r retry), st') \<Rightarrow>
       if pinned \<or> \<not> retry then (Inl (ProviderError m r retry), rcs @ [r], st')
       else try_candidates ask pinned (ProviderError m r retry) ps (rcs @ [r]) st')"

definition router_complete ::
  "environment \<Rightarrow> json list \<Rightarrow> json \<Rightarrow> json \<Rightarrow> json \<Rightarrow> router \<Rightarrow> broker_state
    \<Rightarrow> (attempt_error + inference_result) \<times> router \<times> broker_state" where
  "router_complete env msgs required max_tokens temperature r st =
     (if candidates r required = [] then (Inl (OtherError no_provider), r, st)
      else (case try_candidates
          (\<lambda>p. provider_complete env (the (map_of (rt_adapters r) (pc_name p))) msgs max_tokens temperature)
          (truthy required) (OtherError (AssertionError [])) (candidates r required) (rt_attempts r) st of
        (out, rcs, st') \<Rightarrow> (out, r\<lparr>rt_attempts := rcs\<rparr>, st')))"

section \<open>Capabilities and quota views\<close>

record provider_capabilities =
  cap_provider :: string
  cap_tool_calling :: "bool option"
  cap_structured_output :: "bool option"
  cap_context_window :: "int option"
  cap_privacy_url :: "string option"
  cap_data_use :: string

definition default_capabilities :: "provider_capabilities dict" where
  "default_capabilities =
    [(''groq'', \<lparr>cap_provider = ''groq'', cap_tool_calling = Some True, cap_structured_output = Some True,
        cap_context_window = None, cap_privacy_url = Some ''https://groq.com/privacy-policy/'',
        cap_data_use = ''provider-policy''\<rparr>),
     (''gemini'', \<lparr>cap_provider = ''gemini'', cap_tool_calling = Some True, cap_structured_output = Some True,
        cap_context_window = None, cap_privacy_url = Some ''https://ai.google.dev/gemini-api/terms'',
        cap_data_use = ''tier-dependent''\<rparr>),
     (''cloudflare'', \<lparr>cap_provider = ''cloudflare'', cap_tool_calling = None, cap_structured_output = None,
        cap_context_window = None, cap_privacy_url = Some ''https://www.cloudflare.com/privacypolicy/'',
        cap_data_use = ''provider-policy''\<rparr>),
     (''local'', \<lparr>cap_provider = ''local'', cap_tool_calling = None, cap_structured_output = None,
        cap_context_window = None, cap_privacy_url = None, cap_data_use = ''operator-controlled''\<rparr>)]"

record quota_view =
  qv_limit_requests :: "int option"
  qv_remaining_requests :: "int option"
  qv_reset_seconds :: "pyfloat option"
  qv_remaining_tokens :: "int option"

fun first_float :: "string dict \<Rightarrow> string list \<Rightarrow> pyfloat option" where
  "first_float hs [] = None"
| "first_float hs (n # ns) = (case map_of hs (lower n) of
     None \<Rightarrow> first_float hs ns
   | Some v \<Rightarrow> (case py_float_str v of Inr x \<Rightarrow> Some x | Inl _ \<Rightarrow> first_float hs ns))"

text \<open>Only \<open>ValueError\<close> moves on to the next header.\<close>

fun first_int :: "string dict \<Rightarrow> string list \<Rightarrow> int option res" where
  "first_int hs [] = Inr None"
| "first_int hs (n # ns) = (case map_of hs (lower n) of
     None \<Rightarrow> first_int hs ns
   | Some v \<Rightarrow> (case rbind (py_float_str v) int_of_pyfloat of
       Inr i \<Rightarrow> Inr (Some i)
     | Inl (ValueError m) \<Rightarrow> first_int hs ns
     | Inl e \<Rightarrow> Inl e))"

definition normalize_quota :: "inference_receipt \<Rightarrow> quota_view res" where
  "normalize_quota r = (let hs = dict_update [] (map (\<lambda>(k, v). (lower k, v)) (rate_limit_headers r)) in
     rbind (first_int hs [''x-ratelimit-limit-requests'', ''x-ratelimit-limit'', ''ratelimit-limit'']) (\<lambda>lim.
     rbind (first_int hs [''x-ratelimit-remaining-requests'', ''x-ratelimit-remaining'', ''ratelimit-remaining'']) (\<lambda>left.
     rbind (first_int hs [''x-ratelimit-remaining-tokens'', ''x-groq-ratelimit-remaining-tokens'']) (\<lambda>toks.
     Inr \<lparr>qv_limit_requests = lim, qv_remaining_requests = left,
       qv_reset_seconds = first_float hs [''retry-after'', ''x-ratelimit-reset-requests'', ''x-ratelimit-reset'', ''ratelimit-reset''],
       qv_remaining_tokens = toks\<rparr>))))"

end
