(* ===== verification/Gateway.thy ===== *)
theory Gateway
  imports Providers
begin

text \<open>
  \<open>policy.py\<close> and \<open>gateway.py\<close>: the provider policy, the receipt ledger with its daily budgets, and
  the broker's answer to one chat-completions request. The ledger is the text of its file. Sums of
  prices add from left to right. The HTTP server around \<open>chat_completions\<close> is I/O; of its handler
  the dispatch on method and path is modelled.
\<close>

section \<open>Provider policy\<close>

record provider_policy =
  pp_local_only :: bool
  pp_max_requests :: "int option"
  pp_max_tokens :: "int option"
  pp_max_cost :: "rat option"

definition default_provider_policy :: provider_policy where
  "default_provider_policy = \<lparr>pp_local_only = False, pp_max_requests = None, pp_max_tokens = None, pp_max_cost = None\<rparr>"

definition policy_filter :: "provider_policy \<Rightarrow> provider_config list \<Rightarrow> provider_config list" where
  "policy_filter p ps = (if pp_local_only p then filter (\<lambda>c. pc_quota c = ''local'') ps else ps)"

section \<open>The ledger\<close>

text \<open>\<open>json.dumps(v, sort_keys=True)\<close>, with the default separators.\<close>

fun dumps_spaced :: "json \<Rightarrow> string" where
  "dumps_spaced (JArr xs) = ''['' @ join '', '' (map dumps_spaced xs) @ '']''"
| "dumps_spaced (JObj kvs) = ''{'' @ join '', ''
     (map (\<lambda>(k, t). quote k @ '': '' @ t) (sort_key fst (map (\<lambda>(k, v). (k, dumps_spaced v)) kvs))) @ ''}''"
| "dumps_spaced v = dumps v"

definition ledger_record :: "inference_receipt \<Rightarrow> string option \<Rightarrow> string \<Rightarrow> json" where
  "ledger_record r run_id now = (let items = obj_items (receipt_json r);
       items = (case run_id of None \<Rightarrow> items | Some i \<Rightarrow> dict_set ''run_id'' (JStr i) items)
     in JObj (dict_set ''recorded_at'' (JStr now) items))"

definition ledger_line :: "inference_receipt \<Rightarrow> string option \<Rightarrow> string \<Rightarrow> string" where
  "ledger_line r run_id now = dumps_spaced (ledger_record r run_id now) @ [CHR 0x0A]"

definition text_of :: "string option \<Rightarrow> string" where
  "text_of t = (case t of None \<Rightarrow> [] | Some s \<Rightarrow> s)"

definition ledger_append ::
  "environment \<Rightarrow> string option \<Rightarrow> inference_receipt \<Rightarrow> broker_state \<Rightarrow> broker_state" where
  "ledger_append env run_id r st = st\<lparr>ticks := Suc (ticks st),
     ledger_text := Some (text_of (ledger_text st) @ ledger_line r run_id (en_now env (ticks st)))\<rparr>"

text \<open>\<open>read_text()\<close> translates line ends, \<open>splitlines()\<close> then splits at these characters.\<close>

fun translate_newlines :: "string \<Rightarrow> string" where
  "translate_newlines [] = []"
| "translate_newlines [c] = [if c = CHR 0x0D then CHR 0x0A else c]"
| "translate_newlines (c # d # cs) =
     (if c = CHR 0x0D then CHR 0x0A # translate_newlines (if d = CHR 0x0A then cs else d # cs)
      else c # translate_newlines (d # cs))"

definition line_end :: "char \<Rightarrow> bool" where
  "line_end c \<longleftrightarrow> (let n = (of_char c :: nat) in (10 \<le> n \<and> n \<le> 13) \<or> (28 \<le> n \<and> n \<le> 30) \<or> n = 133)"

fun split_lines :: "string \<Rightarrow> string \<Rightarrow> string list" where
  "split_lines acc [] = (if acc = [] then [] else [rev acc])"
| "split_lines acc (c # cs) = (if line_end c then rev acc # split_lines [] cs else split_lines (c # acc) cs)"

fun read_records :: "string option \<Rightarrow> string list \<Rightarrow> json list res" where
  "read_records run_id [] = Inr []"
| "read_records run_id (l # ls) =
     (if strip l = [] then read_records run_id ls
      else (case loads l of
          None \<Rightarrow> Inl (ValueError ''JSONDecodeError'')
        | Some v \<Rightarrow> (case run_id of
              None \<Rightarrow> rbind (read_records run_id ls) (\<lambda>vs. Inr (v # vs))
            | Some i \<Rightarrow>
                if \<not> is_obj v then Inl (AttributeError (repr_str (type_name v) @ '' object has no attribute get''))
                else rbind (read_records run_id ls) (\<lambda>vs.
                  Inr (if jget v ''run_id'' = Some (JStr i) then v # vs else vs)))))"

definition ledger_read :: "string option \<Rightarrow> broker_state \<Rightarrow> json list res" where
  "ledger_read run_id st = (case ledger_text st of None \<Rightarrow> Inr []
     | Some t \<Rightarrow> read_records run_id (split_lines [] (translate_newlines t)))"

record usage =
  us_requests :: int
  us_tokens :: int
  us_cost :: pyfloat

fun sum_res :: "('b \<Rightarrow> 'b \<Rightarrow> 'b) \<Rightarrow> ('a \<Rightarrow> 'b res) \<Rightarrow> 'b \<Rightarrow> 'a list \<Rightarrow> 'b res" where
  "sum_res add f s [] = Inr s"
| "sum_res add f s (x # xs) = rbind (f x) (\<lambda>y. sum_res add f (add s y) xs)"

text \<open>\<open>str(r.get("recorded_at", "")).startswith(today)\<close>.\<close>

definition recorded_on :: "string \<Rightarrow> json \<Rightarrow> bool res" where
  "recorded_on day v = (if is_obj v then Inr (starts_with (py_str (jget_default (obj_items v) ''recorded_at'' (JStr []))) day)
     else Inl (AttributeError (repr_str (type_name v) @ '' object has no attribute get'')))"

text \<open>The first ten characters of \<open>isoformat()\<close> are the date.\<close>

definition today_usage :: "environment \<Rightarrow> broker_state \<Rightarrow> usage res \<times> broker_state" where
  "today_usage env st = (let day = take 10 (en_now env (ticks st)) in
     (rbind (ledger_read None st) (\<lambda>vs.
      rbind (traverse (\<lambda>v. rbind (recorded_on day v) (\<lambda>b. Inr (v, b))) vs) (\<lambda>marked.
      let rs = map (\<lambda>(v, _). obj_items v) (filter snd marked) in
      rbind (sum_res (+) (\<lambda>r. rbind (py_int (jget_default r ''input_tokens'' (JInt 0))) (\<lambda>i.
          rbind (py_int (jget_default r ''output_tokens'' (JInt 0))) (\<lambda>k. Inr (i + k)))) 0 rs) (\<lambda>toks.
      rbind (sum_res pyfloat_add (\<lambda>r. py_float (jget_default r ''price_usd'' (JFloat 0))) (PyFinite 0) rs) (\<lambda>cost.
      Inr \<lparr>us_requests = int (length rs), us_tokens = toks, us_cost = cost\<rparr>)))),
      st\<lparr>ticks := Suc (ticks st)\<rparr>))"

definition within_budget :: "provider_policy \<Rightarrow> usage \<Rightarrow> unit res" where
  "within_budget p u = guards
     [(case pp_max_requests p of None \<Rightarrow> False | Some m \<Rightarrow> m \<le> us_requests u,
         RuntimeError ''daily inference request budget exhausted''),
      (case pp_max_tokens p of None \<Rightarrow> False | Some m \<Rightarrow> m \<le> us_tokens u,
         RuntimeError ''daily inference token budget exhausted''),
      (case pp_max_cost p of None \<Rightarrow> False | Some m \<Rightarrow> pyfloat_ge (us_cost u) m,
         RuntimeError ''daily inference cost budget exhausted'')] ()"

definition assert_budget :: "environment \<Rightarrow> provider_policy \<Rightarrow> broker_state \<Rightarrow> unit res \<times> broker_state" where
  "assert_budget env p st = (case today_usage env st of (u, st') \<Rightarrow> (rbind u (within_budget p), st'))"

section \<open>The gateway\<close>

record gateway =
  gw_router :: router
  gw_policy :: provider_policy
  gw_ledger :: bool

record answer =
  an_status :: int
  an_body :: "json dict"
  an_headers :: "string dict"

definition eligible_router :: "gateway \<Rightarrow> router res" where
  "eligible_router g = (let ps = policy_filter (gw_policy g) (rt_providers (gw_router g));
       clients = map (\<lambda>(k, a). (k, ad_client a))
         (filter (\<lambda>(k, _). k \<in> set (map pc_name ps)) (rt_adapters (gw_router g)))
     in if ps = [] then Inl (RuntimeError ''provider policy leaves no eligible inference provider'')
        else Inr (make_router ps clients))"

definition persist_receipts ::
  "environment \<Rightarrow> gateway \<Rightarrow> string option \<Rightarrow> inference_receipt list \<Rightarrow> broker_state \<Rightarrow> broker_state" where
  "persist_receipts env g run_id rs st = (if gw_ledger g then fold (ledger_append env run_id) rs st else st)"

definition error_answer :: "int \<Rightarrow> string \<Rightarrow> json dict \<Rightarrow> answer" where
  "error_answer s m extra = \<lparr>an_status = s,
     an_body = [(''error'', JObj ((''message'', JStr m) # extra))], an_headers = []\<rparr>"

definition upstream_answer :: "string option \<Rightarrow> string \<Rightarrow> inference_receipt \<Rightarrow> answer" where
  "upstream_answer run_id m r = (let r = r\<lparr>rec_run_id := run_id\<rparr> in
     \<lparr>an_status = (if rec_error r = Some ''http_429'' then 429 else 502),
      an_body = [(''error'', JObj [(''message'', JStr m), (''type'', JStr ''skill_native_upstream_error''),
          (''provider'', JStr (rec_provider r))]), (''skill_native_receipt'', receipt_json r)],
      an_headers = [(''x-skill-native-provider'', rec_provider r)]\<rparr>)"

definition completion_answer :: "string option \<Rightarrow> string \<Rightarrow> int \<Rightarrow> inference_result \<Rightarrow> answer" where
  "completion_answer run_id uuid created res = (let r = (ir_receipt res)\<lparr>rec_run_id := run_id\<rparr> in
     \<lparr>an_status = 200,
      an_body = [(''id'', JStr (''chatcmpl-skill-native-'' @ uuid)), (''object'', JStr ''chat.completion''),
        (''created'', JInt created), (''model'', JStr (rec_model r)),
        (''choices'', JArr [JObj [(''index'', JInt 0),
          (''message'', JObj [(''role'', JStr ''assistant''), (''content'', JStr (ir_text res))]),
          (''finish_reason'', JStr ''stop'')]]),
        (''usage'', JObj [(''prompt_tokens'', JInt (input_tokens r)), (''completion_tokens'', JInt (output_tokens r)),
          (''total_tokens'', JInt (input_tokens r + output_tokens r))]),
        (''skill_native_receipt'', receipt_json r)],
      an_headers = [(''x-skill-native-provider'', rec_provider r)]\<rparr>)"

text \<open>The last part of \<open>chat_completions\<close>: the request on the eligible router, and its answer.\<close>

definition broker_call ::
  "environment \<Rightarrow> gateway \<Rightarrow> json dict \<Rightarrow> json list \<Rightarrow> string option \<Rightarrow> rat \<Rightarrow> router \<Rightarrow> broker_state
    \<Rightarrow> answer res \<times> broker_state" where
  "broker_call env g payload msgs run_id started r st =
     (case router_complete env msgs (jget_null payload ''skill_native_provider'') (jget_null payload ''max_tokens'')
         (jget_default payload ''temperature'' (JFloat 0)) r st of
       (out, r', st') \<Rightarrow>
         let news = drop (length (rt_attempts r)) (rt_attempts r');
             st'' = persist_receipts env g run_id news st'
         in (case out of
             Inl (ProviderError m rc _) \<Rightarrow> (Inr (upstream_answer run_id m rc), st'')
           | Inl (OtherError (RuntimeError m)) \<Rightarrow>
               (Inr (error_answer 503 m [(''type'', JStr ''skill_native_policy_error'')]), st'')
           | Inl (OtherError e) \<Rightarrow> (Inl e, st')
           | Inr res \<Rightarrow> (Inr (completion_answer run_id (en_uuid env (ticks st'')) (trunc_int started) res),
               st''\<lparr>ticks := Suc (ticks st'')\<rparr>)))"

definition chat_completions ::
  "environment \<Rightarrow> gateway \<Rightarrow> json dict \<Rightarrow> broker_state \<Rightarrow> answer res \<times> broker_state" where
  "chat_completions env g payload st = (case jget_null payload ''messages'' of
     JArr (m # ms) \<Rightarrow>
       (case (if gw_ledger g then assert_budget env (gw_policy g) st else (Inr (), st)) of
          (Inl (RuntimeError e), st1) \<Rightarrow>
            (Inr (error_answer 429 e [(''type'', JStr ''skill_native_budget_exhausted'')]), st1)
        | (Inl e, st1) \<Rightarrow> (Inl e, st1)
        | (Inr _, st1) \<Rightarrow>
            (let go = (\<lambda>run_id. let started = en_time env (ticks st1); st2 = st1\<lparr>ticks := Suc (ticks st1)\<rparr> in
               (case eligible_router g of
                  Inl e \<Rightarrow> (Inr (error_answer 503 (exn_message e) [(''type'', JStr ''skill_native_policy_error'')]), st2)
                | Inr r \<Rightarrow> broker_call env g payload (m # ms) run_id started r st2))
             in (case jget_null payload ''skill_native_run_id'' of
                JNull \<Rightarrow> go None
              | JStr i \<Rightarrow> go (Some i)
              | _ \<Rightarrow> (Inr (error_answer 400 ''skill_native_run_id must be a string'' []), st1))))
   | _ \<Rightarrow> (Inr (error_answer 400 ''messages must be a non-empty list'' []), st))"

section \<open>The handler's dispatch\<close>

definition do_get :: "string \<Rightarrow> int \<times> json dict" where
  "do_get path = (if path = ''/healthz'' then (200, [(''status'', JStr ''ok'')])
     else (404, [(''error'', JObj [(''message'', JStr ''not found'')])]))"

text \<open>\<open>body\<close> is the request body as \<open>json.loads\<close> reads it, \<open>None\<close> when it raises.\<close>

definition do_post :: "environment \<Rightarrow> gateway \<Rightarrow> string \<Rightarrow> json option \<Rightarrow> broker_state \<Rightarrow> answer res \<times> broker_state" where
  "do_post env g path body st = (if path \<noteq> ''/v1/chat/completions''
     then (Inr (error_answer 404 ''not found'' []), st)
     else (case body of None \<Rightarrow> (Inr (error_answer 400 ''invalid JSON'' []), st)
       | Some (JObj payload) \<Rightarrow> chat_completions env g payload st
       | Some v \<Rightarrow> (Inl (AttributeError (repr_str (type_name v) @ '' object has no attribute get'')), st)))"

end
