(* ===== verification/GatewayProperties.thy ===== *)
theory GatewayProperties
  imports Gateway
begin

text \<open>
  The inference broker: the failover loop as the first outcome that does not retry, what a request
  that leaves the process has passed, and what the ledger holds of it. What the router needs of one
  attempt is the locale \<open>attempts\<close>, interpreted on \<open>provider_complete\<close>.
\<close>

section \<open>The failover loop\<close>

text \<open>The outcomes and states if every candidate were asked in order.\<close>

fun ask_all :: "(provider_config \<Rightarrow> 'st \<Rightarrow> (attempt_error + inference_result) \<times> 'st) \<Rightarrow> provider_config list \<Rightarrow> 'st
    \<Rightarrow> ((attempt_error + inference_result) \<times> 'st) list" where
  "ask_all ask [] st = []"
| "ask_all ask (p # ps) st = ask p st # ask_all ask ps (snd (ask p st))"

definition retries :: "bool \<Rightarrow> attempt_error + inference_result \<Rightarrow> bool" where
  "retries pinned out \<longleftrightarrow> \<not> pinned \<and> (case out of Inl (ProviderError m r b) \<Rightarrow> b | _ \<Rightarrow> False)"

text \<open>The number of candidates asked: up to the first outcome that does not retry.\<close>

definition asked :: "bool \<Rightarrow> ((attempt_error + inference_result) \<times> 'st) list \<Rightarrow> nat" where
  "asked pinned xs = min (Suc (length (takeWhile (\<lambda>x. retries pinned (fst x)) xs))) (length xs)"

fun outcome_receipts :: "attempt_error + inference_result \<Rightarrow> inference_receipt list" where
  "outcome_receipts (Inr res) = [ir_receipt res]"
| "outcome_receipts (Inl (ProviderError m r b)) = [r]"
| "outcome_receipts (Inl (OtherError e)) = []"

lemma length_ask_all [simp]: "length (ask_all ask ps st) = length ps"
  by (induction ps arbitrary: st) auto

lemma asked_Cons: "asked pinned (x # xs) = (if retries pinned (fst x) \<and> xs \<noteq> [] then Suc (asked pinned xs) else 1)"
  by (auto simp: asked_def Suc_le_eq)

lemma asked_pos: "xs \<noteq> [] \<Longrightarrow> 0 < asked pinned xs"
  by (simp add: asked_def)

lemma try_candidates_ask_all:
  "ps \<noteq> [] \<Longrightarrow> try_candidates ask pinned final ps rcs st =
     (let xs = ask_all ask ps st; n = asked pinned xs in
       (fst (xs ! (n - 1)), rcs @ concat (map (outcome_receipts \<circ> fst) (take n xs)), snd (xs ! (n - 1))))"
proof (induction ps arbitrary: final rcs st)
  case (Cons p ps)
  obtain out st' where a: "ask p st = (out, st')" by (cases "ask p st")
  show ?case
  proof (cases "retries pinned out")
    case True
    then obtain m r where out: "out = Inl (ProviderError m r True)" and np: "\<not> pinned"
      by (auto simp: retries_def split: sum.splits attempt_error.splits)
    show ?thesis
    proof (cases ps)
      case Nil
      then show ?thesis by (simp add: a out np asked_Cons retries_def)
    next
      case (Cons q qs)
      have pos: "0 < asked False (ask_all ask ps st')" using Cons by (simp add: asked_pos)
      then show ?thesis
        using Cons.IH [of "ProviderError m r True" "rcs @ [r]" st'] Cons a out np
        by (simp add: asked_Cons retries_def Let_def nth_Cons')
    qed
  next
    case False
    then show ?thesis
      by (cases out rule: outcome_receipts.cases) (auto simp: a asked_Cons retries_def Let_def)
  qed
qed simp

section \<open>The interface of one attempt\<close>

text \<open>
  \<open>requests st\<close> is what the state says was sent, newest first; \<open>allowed p q\<close> that request \<open>q\<close> may be
  made for candidate \<open>p\<close>.
\<close>

locale attempts =
  fixes ask :: "provider_config \<Rightarrow> 'st \<Rightarrow> (attempt_error + inference_result) \<times> 'st"
    and requests :: "'st \<Rightarrow> 'q list"
    and allowed :: "provider_config \<Rightarrow> 'q \<Rightarrow> bool"
  assumes one_request: "ask p st = (out, st') \<Longrightarrow>
      requests st' = requests st \<or> (\<exists>q. allowed p q \<and> requests st' = q # requests st)"
begin

lemma loop_requests:
  "try_candidates ask pinned final ps rcs st = (out, rcs', st') \<Longrightarrow>
    \<exists>new log_new. requests st' = new @ requests st \<and> rcs' = rcs @ log_new
      \<and> (\<forall>q \<in> set new. \<exists>p \<in> set ps. allowed p q)
      \<and> (length new \<le> length log_new \<or> (\<exists>e. out = Inl (OtherError e)))"
proof (induction ps arbitrary: final rcs st)
  case (Cons p ps)
  obtain o1 st1 where a: "ask p st = (o1, st1)" by (cases "ask p st")
  obtain new1 where n1: "requests st1 = new1 @ requests st" "\<forall>q \<in> set new1. allowed p q" "length new1 \<le> 1"
  proof -
    from one_request [OF a] show ?thesis
    proof
      assume "requests st1 = requests st"
      then show ?thesis by (intro that [of "[]"]) auto
    next
      assume "\<exists>q. allowed p q \<and> requests st1 = q # requests st"
      then obtain q where "allowed p q" "requests st1 = [q] @ requests st" by auto
      then show ?thesis by (intro that [of "[q]"]) auto
    qed
  qed
  show ?case
  proof (cases o1 rule: outcome_receipts.cases)
    case (1 res)
    then show ?thesis using Cons.prems a n1 by (intro exI [of _ new1] exI [of _ "[ir_receipt res]"]) auto
  next
    case (2 m r b)
    show ?thesis
    proof (cases "pinned \<or> \<not> b")
      case True
      then show ?thesis using Cons.prems a n1 2 by (intro exI [of _ new1] exI [of _ "[r]"]) auto
    next
      case False
      then have "try_candidates ask pinned (ProviderError m r b) ps (rcs @ [r]) st1 = (out, rcs', st')"
        using Cons.prems a 2 by simp
      from Cons.IH [OF this] obtain new2 log2 where n2: "requests st' = new2 @ requests st1" "rcs' = (rcs @ [r]) @ log2"
        "\<forall>q \<in> set new2. \<exists>p \<in> set ps. allowed p q" "length new2 \<le> length log2 \<or> (\<exists>e. out = Inl (OtherError e))"
        by blast
      show ?thesis
        using n1 n2 by (intro exI [of _ "new2 @ new1"] exI [of _ "r # log2"]) auto
    qed
  next
    case (3 e)
    then show ?thesis using Cons.prems a n1 by (intro exI [of _ new1] exI [of _ "[]"]) auto
  qed
qed auto

end

text \<open>A request for \<open>p\<close> goes to the address of the adapter registered under the name of \<open>p\<close>.\<close>

definition request_for :: "environment \<Rightarrow> router \<Rightarrow> provider_config \<Rightarrow> http_client \<times> http_request \<Rightarrow> bool" where
  "request_for env r p q \<longleftrightarrow> (let c = ad_config (the (map_of (rt_adapters r) (pc_name p))) in
     \<exists>payload. snd q = http_request_of env c payload \<and> (needs_key c \<longrightarrow> api_key env c \<noteq> None))"

interpretation at: attempts "\<lambda>p. provider_complete env (the (map_of (rt_adapters r) (pc_name p))) msgs mt temp" sent
    "request_for env r"
  for env r msgs mt temp
proof
  fix p :: provider_config and st out st'
  assume "provider_complete env (the (map_of (rt_adapters r) (pc_name p))) msgs mt temp st = (out, st')"
  then show "sent st' = sent st \<or> (\<exists>q. request_for env r p q \<and> sent st' = q # sent st)"
    by (auto simp: provider_complete_def request_for_def Let_def split: if_splits http_outcome.splits)
qed

section \<open>Routers\<close>

lemma map_of_dict_update_map:
  "map_of (dict_update [] (map (\<lambda>p. (f p, g p)) ps)) k = map_option g (find (\<lambda>p. f p = k) (rev ps))"
proof -
  have "map_of (map (\<lambda>p. (f p, g p)) xs) k = map_option g (find (\<lambda>p. f p = k) xs)" for xs
    by (induction xs) auto
  then show ?thesis by (simp add: map_of_dict_update rev_map split: option.splits)
qed

lemma adapter_config:
  assumes "p \<in> set (rt_providers (make_router ps clients))"
  shows "\<exists>a c. map_of (rt_adapters (make_router ps clients)) (pc_name p) = Some a \<and> ad_config a = c
    \<and> c \<in> set ps \<and> pc_enabled c \<and> pc_name c = pc_name p"
proof -
  let ?on = "filter pc_enabled ps"
  have "p \<in> set (rev ?on)" using assms by (simp add: make_router_def Let_def)
  then have "find (\<lambda>c. pc_name c = pc_name p) (rev ?on) \<noteq> None" by (auto simp: find_None_iff)
  then obtain c where c: "find (\<lambda>c. pc_name c = pc_name p) (rev ?on) = Some c" by blast
  then have "c \<in> set (rev ?on) \<and> pc_name c = pc_name p" by (metis (mono_tags, lifting) find_Some_iff nth_mem)
  then have "c \<in> set ?on \<and> pc_name c = pc_name p" by simp
  with c show ?thesis
    by (intro exI) (auto simp: make_router_def Let_def map_of_dict_update_map)
qed

lemma set_candidates: "set (candidates r req) \<subseteq> set (rt_providers r)"
  by (auto simp: candidates_def)

lemma candidates_required: "\<lbrakk>p \<in> set (candidates r req); truthy req\<rbrakk> \<Longrightarrow> req = JStr (pc_name p)"
  by (auto simp: candidates_def)

lemma router_requests:
  assumes "router_complete env msgs req mt temp r st = (out, r', st')"
  shows "\<exists>new log_new. sent st' = new @ sent st \<and> rt_attempts r' = rt_attempts r @ log_new
    \<and> (\<forall>q \<in> set new. \<exists>p \<in> set (candidates r req). request_for env r p q)
    \<and> (length new \<le> length log_new \<or> (\<exists>e. out = Inl (OtherError e)))"
proof (cases "candidates r req = []")
  case True
  then show ?thesis using assms by (simp add: router_complete_def)
next
  case False
  then obtain rcs where "try_candidates
      (\<lambda>p. provider_complete env (the (map_of (rt_adapters r) (pc_name p))) msgs mt temp)
      (truthy req) (OtherError (AssertionError [])) (candidates r req) (rt_attempts r) st = (out, rcs, st')"
    and "r' = r\<lparr>rt_attempts := rcs\<rparr>"
    using assms by (auto simp: router_complete_def split: prod.splits)
  then show ?thesis using at.loop_requests by fastforce
qed

lemma loop_last:
  assumes "ps \<noteq> []" "try_candidates ask pinned final ps rcs st = (out, rcs', st')"
  shows "\<exists>l. rcs' = rcs @ l @ outcome_receipts out"
proof -
  let ?xs = "ask_all ask ps st"
  let ?n = "asked pinned ?xs"
  have n: "0 < ?n" "?n \<le> length ?xs"
    using asked_pos [of ?xs pinned] assms(1) length_ask_all [of ask ps st] by (auto simp: asked_def)
  then have "take ?n ?xs = take (?n - 1) ?xs @ [?xs ! (?n - 1)]"
    using take_Suc_conv_app_nth [of "?n - 1" ?xs] by simp
  moreover have "out = fst (?xs ! (?n - 1))"
    "rcs' = rcs @ concat (map (outcome_receipts \<circ> fst) (take ?n ?xs))"
    using assms(2) try_candidates_ask_all [OF assms(1), of ask pinned final rcs st] by (auto simp: Let_def)
  ultimately show ?thesis by (simp add: exI [of _ "concat (map (outcome_receipts \<circ> fst) (take (?n - 1) ?xs))"])
qed

lemma router_last:
  assumes "router_complete env msgs req mt temp r st = (out, r', st')"
  shows "\<exists>l. rt_attempts r' = rt_attempts r @ l @ outcome_receipts out"
proof (cases "candidates r req = []")
  case True
  then show ?thesis using assms by (auto simp: router_complete_def)
next
  case False
  then show ?thesis
    using assms loop_last [OF False] by (fastforce simp: router_complete_def split: prod.splits)
qed

lemma provider_ledger: "ledger_text (snd (provider_complete env a msgs mt temp st)) = ledger_text st"
  by (auto simp: provider_complete_def Let_def split: http_outcome.splits)

lemma loop_keeps:
  assumes "\<And>p s. f (snd (ask p s)) = f s"
  shows "try_candidates ask pinned final ps rcs st = (out, rcs', st') \<Longrightarrow> f st' = f st"
proof (induction ps arbitrary: final rcs st)
  case (Cons p ps)
  obtain o1 st1 where a: "ask p st = (o1, st1)" by (cases "ask p st")
  then have "f st1 = f st" using assms [of p st] by simp
  then show ?case
    using Cons a by (cases o1 rule: outcome_receipts.cases) (auto split: if_splits)
qed simp

lemma router_ledger:
  assumes "router_complete env msgs req mt temp r st = (out, r', st')"
  shows "ledger_text st' = ledger_text st"
  using assms loop_keeps [of ledger_text, OF provider_ledger]
  by (auto simp: router_complete_def split: if_splits prod.splits)

section \<open>The ledger\<close>

definition ledger_lines :: "environment \<Rightarrow> string option \<Rightarrow> nat \<Rightarrow> inference_receipt list \<Rightarrow> string" where
  "ledger_lines env run_id t rs = concat (map (\<lambda>(i, r). ledger_line r run_id (en_now env i)) (enumerate t rs))"

lemma fold_ledger_append:
  "sent (fold (ledger_append env run_id) rs st) = sent st
   \<and> text_of (ledger_text (fold (ledger_append env run_id) rs st))
       = text_of (ledger_text st) @ ledger_lines env run_id (ticks st) rs"
proof (induction rs arbitrary: st)
  case (Cons r rs)
  show ?case using Cons.IH [of "ledger_append env run_id r st"]
    by (simp add: ledger_append_def ledger_lines_def text_of_def)
qed (simp add: ledger_lines_def)

section \<open>One request to the broker\<close>

definition budget_left :: "environment \<Rightarrow> gateway \<Rightarrow> broker_state \<Rightarrow> bool" where
  "budget_left env g st \<longleftrightarrow> (gw_ledger g \<longrightarrow>
     (\<exists>u. fst (today_usage env st) = Inr u \<and> within_budget (gw_policy g) u = Inr ()))"

lemma assert_budget_state:
  "assert_budget env p st = (b, st1) \<Longrightarrow> sent st1 = sent st \<and> ledger_text st1 = ledger_text st
     \<and> (b = Inr () \<longrightarrow> (\<exists>u. fst (today_usage env st) = Inr u \<and> within_budget p u = Inr ()))"
  by (auto simp: assert_budget_def today_usage_def Let_def rbind_Inr_iff)

definition payload_run_id :: "json dict \<Rightarrow> string option" where
  "payload_run_id payload = (case jget_null payload ''skill_native_run_id'' of JStr i \<Rightarrow> Some i | _ \<Rightarrow> None)"

text \<open>Either nothing is sent and nothing written, or the request reaches the eligible router.\<close>

lemma chat_cases:
  assumes "chat_completions env g payload st = (out, st')"
  obtains (answered) "sent st' = sent st" "ledger_text st' = ledger_text st"
      "\<And>a. out = Inr a \<Longrightarrow> an_status a \<in> {400, 429, 503}"
  | (called) msgs started r st2 where "budget_left env g st" "eligible_router g = Inr r"
      "sent st2 = sent st" "ledger_text st2 = ledger_text st"
      "broker_call env g payload msgs (payload_run_id payload) started r st2 = (out, st')"
proof (cases "\<exists>m ms. jget_null payload ''messages'' = JArr (m # ms)")
  case False
  then have "out = Inr (error_answer 400 ''messages must be a non-empty list'' [])" "st' = st"
    using assms by (auto simp: chat_completions_def split: json.splits list.splits)
  then show ?thesis by (intro answered) (auto simp: error_answer_def)
next
  case True
  then obtain m ms where msgs: "jget_null payload ''messages'' = JArr (m # ms)" by blast
  obtain b st1 where b: "(if gw_ledger g then assert_budget env (gw_policy g) st else (Inr (), st)) = (b, st1)"
    by (cases "if gw_ledger g then assert_budget env (gw_policy g) st else (Inr (), st)")
  have st1: "sent st1 = sent st" "ledger_text st1 = ledger_text st" "b = Inr () \<Longrightarrow> budget_left env g st"
    using b assert_budget_state [of env "gw_policy g" st b st1] by (auto simp: budget_left_def split: if_splits)
  note eq = assms [unfolded chat_completions_def msgs, simplified, unfolded b]
  show ?thesis
  proof (cases b)
    case (Inl e)
    then have "st' = st1" "\<And>a. out = Inr a \<Longrightarrow> an_status a = 429"
      using eq by (cases e; simp add: error_answer_def)+
    then show ?thesis using st1 by (intro answered) auto
  next
    case (Inr u)
    show ?thesis
    proof (cases "jget_null payload ''skill_native_run_id'' = JNull \<or> (\<exists>i. jget_null payload ''skill_native_run_id'' = JStr i)")
      case False
      then have "st' = st1" "\<And>a. out = Inr a \<Longrightarrow> an_status a = 400"
        using eq Inr by (cases "jget_null payload ''skill_native_run_id''"; simp add: error_answer_def)+
      then show ?thesis using st1 by (intro answered) auto
    next
      case True
      let ?st2 = "st1\<lparr>ticks := Suc (ticks st1)\<rparr>"
      have eq2: "(case eligible_router g of
            Inl e \<Rightarrow> (Inr (error_answer 503 (exn_message e) [(''type'', JStr ''skill_native_policy_error'')]), ?st2)
          | Inr r \<Rightarrow> broker_call env g payload (m # ms) (payload_run_id payload) (en_time env (ticks st1)) r ?st2) = (out, st')"
        using True
      proof (elim disjE exE)
        assume n: "jget_null payload ''skill_native_run_id'' = JNull"
        then have rid: "payload_run_id payload = None" by (simp add: payload_run_id_def)
        show ?thesis unfolding rid using eq Inr n by (simp add: Let_def)
      next
        fix i assume n: "jget_null payload ''skill_native_run_id'' = JStr i"
        then have rid: "payload_run_id payload = Some i" by (simp add: payload_run_id_def)
        show ?thesis unfolding rid using eq Inr n by (simp add: Let_def)
      qed
      show ?thesis
      proof (cases "eligible_router g")
        case (Inl e)
        then show ?thesis using eq2 st1 by (intro answered) (auto simp: error_answer_def)
      next
        case er: (Inr r)
        then show ?thesis using eq2 st1 Inr by (intro called [of r ?st2]) auto
      qed
    qed
  qed
qed

lemma broker_call_effect:
  assumes "broker_call env g payload msgs run_id started r st = (out, st')"
  obtains new rs t where "sent st' = new @ sent st"
    "\<forall>q \<in> set new. \<exists>p \<in> set (candidates r (jget_null payload ''skill_native_provider'')). request_for env r p q"
    "\<And>a. out = Inr a \<Longrightarrow> gw_ledger g \<Longrightarrow>
       text_of (ledger_text st') = text_of (ledger_text st) @ ledger_lines env run_id t rs"
    "\<And>a. out = Inr a \<Longrightarrow> an_status a \<noteq> 503 \<Longrightarrow> length new \<le> length rs \<and> rs \<noteq> []
       \<and> map_of (an_body a) ''skill_native_receipt'' = Some (receipt_json ((last rs)\<lparr>rec_run_id := run_id\<rparr>))"
    "\<And>e. out = Inl e \<Longrightarrow> ledger_text st' = ledger_text st"
proof -
  let ?req = "jget_null payload ''skill_native_provider''"
  obtain ro r' st1 where rc: "router_complete env msgs ?req (jget_null payload ''max_tokens'')
      (jget_default payload ''temperature'' (JFloat 0)) r st = (ro, r', st1)"
    by (metis prod_cases3)
  obtain new rs where new: "sent st1 = new @ sent st" "rt_attempts r' = rt_attempts r @ rs"
      "\<forall>q \<in> set new. \<exists>p \<in> set (candidates r ?req). request_for env r p q"
      "length new \<le> length rs \<or> (\<exists>e. ro = Inl (OtherError e))"
    using router_requests [OF rc] by blast
  have led1: "ledger_text st1 = ledger_text st" by (rule router_ledger [OF rc])
  obtain l where "rt_attempts r' = rt_attempts r @ l @ outcome_receipts ro" using router_last [OF rc] by blast
  then have rs: "rs = l @ outcome_receipts ro" using new(2) by simp
  let ?st2 = "persist_receipts env g run_id rs st1"
  have st2: "sent ?st2 = sent st1"
    "gw_ledger g \<Longrightarrow> text_of (ledger_text ?st2) = text_of (ledger_text st1) @ ledger_lines env run_id (ticks st1) rs"
    using fold_ledger_append [of env run_id rs st1] by (simp_all add: persist_receipts_def)
  note eq = assms [unfolded broker_call_def rc, simplified new(2), simplified]
  show ?thesis
  proof (cases ro rule: outcome_receipts.cases)
    case (1 res)
    then show ?thesis
      using eq rs new st2 led1
      by (intro that [of new "ticks st1" rs]) (auto simp: completion_answer_def Let_def)
  next
    case (2 m rcp b)
    then show ?thesis
      using eq rs new st2 led1
      by (intro that [of new "ticks st1" rs]) (auto simp: upstream_answer_def Let_def)
  next
    case (3 e)
    then show ?thesis
      using eq rs new st2 led1
      by (intro that [of new "ticks st1" rs]) (cases e; auto simp: error_answer_def Let_def)+
  qed
qed

lemma eligible_config:
  assumes "eligible_router g = Inr r" "p \<in> set (candidates r req)"
  shows "\<exists>c \<in> set (rt_providers (gw_router g)). ad_config (the (map_of (rt_adapters r) (pc_name p))) = c
    \<and> pc_enabled c \<and> pc_name c = pc_name p \<and> (pp_local_only (gw_policy g) \<longrightarrow> pc_quota c = ''local'')"
proof -
  obtain clients where r: "r = make_router (policy_filter (gw_policy g) (rt_providers (gw_router g))) clients"
    using assms(1) by (auto simp: eligible_router_def Let_def split: if_splits)
  then have "p \<in> set (rt_providers (make_router (policy_filter (gw_policy g) (rt_providers (gw_router g))) clients))"
    using assms(2) set_candidates by blast
  from adapter_config [OF this] r show ?thesis
    by (auto simp: policy_filter_def split: if_splits)
qed

section \<open>Concrete inputs for the witnesses\<close>

definition sample_local :: provider_config where
  "sample_local = \<lparr>pc_name = ''local'', pc_kind = KindLocal, pc_base_url = ''http://local.test/v1/'', pc_model = ''m'',
     pc_quota = ''local'', pc_key_env = None, pc_enabled = True, pc_timeout = 60, pc_headers = []\<rparr>"

definition sample_free :: provider_config where
  "sample_free = \<lparr>pc_name = ''free'', pc_kind = KindGroq, pc_base_url = ''https://free.test/v1'', pc_model = ''n'',
     pc_quota = ''free'', pc_key_env = Some ''FREE_KEY'', pc_enabled = True, pc_timeout = 60, pc_headers = []\<rparr>"

definition sample_completion :: json where
  "sample_completion = JObj [(''choices'', JArr [JObj [(''message'', JObj [(''content'', JStr ''ok'')])]])]"

text \<open>The first request is answered 429, every later one with a completion.\<close>

definition sample_net :: environment where
  "sample_net = \<lparr>en_var = (\<lambda>_. Some ''key''),
     en_http = (\<lambda>hist. HttpResponse (if length hist = 1
       then \<lparr>rs_status = 429, rs_headers = [], rs_json = None\<rparr>
       else \<lparr>rs_status = 200, rs_headers = [], rs_json = Some sample_completion\<rparr>)),
     en_perf = (\<lambda>_. 0), en_time = (\<lambda>_. 0), en_now = (\<lambda>_. ''2026-08-15T00:00:00+00:00''), en_uuid = (\<lambda>_. ''u'')\<rparr>"

definition no_traffic :: broker_state where
  "no_traffic = \<lparr>sent = [], ticks = 0, ledger_text = None\<rparr>"

definition sample_router :: router where
  "sample_router = make_router [sample_free, sample_local] []"

definition sample_gateway :: gateway where
  "sample_gateway = \<lparr>gw_router = sample_router,
     gw_policy = default_provider_policy\<lparr>pp_local_only := True, pp_max_requests := Some 1\<rparr>, gw_ledger = True\<rparr>"

definition sample_payload :: "json dict" where
  "sample_payload = [(''messages'', JArr [JStr ''hi''])]"

lemma sample_candidates: "candidates sample_router JNull = [sample_local, sample_free]"
  by code_simp

lemma sample_eligible: "eligible_router sample_gateway = Inr (make_router [sample_local] [(''local'', NewClient 60)])"
  by code_simp

lemma complete_response:
  assumes "\<not> needs_key (ad_config a) \<or> api_key env (ad_config a) \<noteq> None"
    and "\<And>q. en_http env (q # sent st) = HttpResponse rs"
  shows "\<exists>h lat q. provider_complete env a msgs mt temp st =
     (read_response (ad_config a) h lat rs, st\<lparr>sent := q # sent st, ticks := ticks st + 2\<rparr>)"
  using assms by (auto simp: provider_complete_def Let_def)

lemma sample_ask_local:
  assumes "sent st = []"
  shows "\<exists>r st'. provider_complete sample_net \<lparr>ad_config = sample_local, ad_client = NewClient 60\<rparr> msgs JNull JNull st
     = (Inl (ProviderError ''http_429'' r True), st') \<and> rec_error r = Some ''http_429'' \<and> length (sent st') = 1
       \<and> ledger_text st' = ledger_text st"
proof -
  let ?rs = "\<lparr>rs_status = 429, rs_headers = [], rs_json = None\<rparr>"
  have key: "\<not> needs_key sample_local" by code_simp
  have err: "''http_'' @ show_int 429 = ''http_429''" by code_simp
  have quota: "pc_quota sample_local = ''local''" by (simp add: sample_local_def)
  have "\<exists>r. read_response sample_local h lat ?rs = Inl (ProviderError ''http_429'' r True) \<and> rec_error r = Some ''http_429''" for h lat
    using err by (simp add: read_response_def token_count_def jget_default_def provider_failure_def
        provider_receipt_def quota_of_def quota Let_def)
  moreover have "\<exists>h lat q. provider_complete sample_net \<lparr>ad_config = sample_local, ad_client = NewClient 60\<rparr> msgs JNull JNull st
      = (read_response sample_local h lat ?rs, st\<lparr>sent := q # sent st, ticks := ticks st + 2\<rparr>)"
    using complete_response [of "\<lparr>ad_config = sample_local, ad_client = NewClient 60\<rparr>" sample_net st ?rs msgs JNull JNull]
      key assms by (simp add: sample_net_def)
  ultimately show ?thesis using assms by fastforce
qed

lemma sample_read_ok:
  assumes "quota_of (pc_quota c) = Inr q"
  shows "\<exists>res. read_response c h lat \<lparr>rs_status = 200, rs_headers = [], rs_json = Some sample_completion\<rparr> = Inr res
    \<and> rec_error (ir_receipt res) = None"
proof -
  have "obj_items (jget_default (obj_items sample_completion) ''usage'' JNull) = []" by code_simp
  moreover have "extract_text sample_completion = Inr ''ok''" by code_simp
  ultimately show ?thesis
    using assms by (simp add: read_response_def token_count_def jget_default_def provider_receipt_def Let_def)
qed

lemma sample_ask_free:
  assumes "length (sent st) = 1"
  shows "\<exists>res st'. provider_complete sample_net \<lparr>ad_config = sample_free, ad_client = NewClient 60\<rparr> msgs JNull JNull st
     = (Inr res, st') \<and> rec_error (ir_receipt res) = None"
proof -
  let ?rs = "\<lparr>rs_status = 200, rs_headers = [], rs_json = Some sample_completion\<rparr>"
  have key: "api_key sample_net sample_free \<noteq> None" by code_simp
  have quota: "quota_of (pc_quota sample_free) = Inr QuotaFree" by code_simp
  have "\<exists>h lat q. provider_complete sample_net \<lparr>ad_config = sample_free, ad_client = NewClient 60\<rparr> msgs JNull JNull st
      = (read_response sample_free h lat ?rs, st\<lparr>sent := q # sent st, ticks := ticks st + 2\<rparr>)"
    using complete_response [of "\<lparr>ad_config = sample_free, ad_client = NewClient 60\<rparr>" sample_net st ?rs msgs JNull JNull]
      key assms by (simp add: sample_net_def)
  then show ?thesis using sample_read_ok [OF quota] by metis
qed

definition sample_ok :: environment where
  "sample_ok = sample_net\<lparr>en_http := (\<lambda>_. HttpResponse \<lparr>rs_status = 200, rs_headers = [], rs_json = Some sample_completion\<rparr>)\<rparr>"

text \<open>One request, answered: within the budget of one request a day, to the local provider only.\<close>

lemma sample_chat:
  "\<exists>a st'. chat_completions sample_ok sample_gateway sample_payload no_traffic = (Inr a, st') \<and> an_status a = 200
     \<and> length (sent st') = 1"
proof -
  let ?r = "make_router [sample_local] [(''local'', NewClient 60)]"
  let ?ad = "\<lparr>ad_config = sample_local, ad_client = NewClient 60\<rparr>"
  let ?rs = "\<lparr>rs_status = 200, rs_headers = [], rs_json = Some sample_completion\<rparr>"
  have budget: "assert_budget sample_ok (gw_policy sample_gateway) no_traffic = (Inr (), no_traffic\<lparr>ticks := 1\<rparr>)"
    by (simp add: assert_budget_def today_usage_def ledger_read_def no_traffic_def within_budget_def guards.simps
        sample_gateway_def default_provider_policy_def)
  have cands: "candidates ?r JNull = [sample_local]" "the (map_of (rt_adapters ?r) (pc_name sample_local)) = ?ad"
    by code_simp+
  have key: "\<not> needs_key sample_local" and quota: "quota_of (pc_quota sample_local) = Inr QuotaLocal" by code_simp+
  have ask: "\<exists>res st'. provider_complete sample_ok ?ad msgs mt temp st = (Inr res, st') \<and> length (sent st') = Suc (length (sent st))"
    for msgs mt temp st
  proof -
    obtain h lat q where "provider_complete sample_ok ?ad msgs mt temp st
        = (read_response sample_local h lat ?rs, st\<lparr>sent := q # sent st, ticks := ticks st + 2\<rparr>)"
      using complete_response [of ?ad sample_ok st ?rs msgs mt temp] key by (auto simp: sample_ok_def)
    then show ?thesis using sample_read_ok [OF quota, of h lat] by auto
  qed
  have fields: "jget_null sample_payload ''messages'' = JArr [JStr ''hi'']" "jget_null sample_payload ''skill_native_run_id'' = JNull"
    "jget_null sample_payload ''skill_native_provider'' = JNull" "jget_null sample_payload ''max_tokens'' = JNull"
    by code_simp+
  obtain res st' where a: "provider_complete sample_ok ?ad [JStr ''hi''] JNull (jget_default sample_payload ''temperature'' (JFloat 0))
      (no_traffic\<lparr>ticks := 2\<rparr>) = (Inr res, st')" "length (sent st') = 1"
    using ask [of "[JStr ''hi'']" JNull _ "no_traffic\<lparr>ticks := 2\<rparr>"] by (fastforce simp: no_traffic_def)
  then have "router_complete sample_ok [JStr ''hi''] JNull JNull (jget_default sample_payload ''temperature'' (JFloat 0)) ?r
      (no_traffic\<lparr>ticks := 2\<rparr>) = (Inr res, ?r\<lparr>rt_attempts := [ir_receipt res]\<rparr>, st')"
    by (simp add: router_complete_def cands) (simp add: make_router_def Let_def)
  then show ?thesis
    using a(2) fold_ledger_append
    by (simp add: chat_completions_def fields budget sample_eligible broker_call_def Let_def persist_receipts_def
        completion_answer_def numeral_2_eq_2)
      (simp add: sample_gateway_def)
qed

section \<open>Properties\<close>

text \<open>C21: The failover loop is the declarative one: of the candidates in order of quota class and name,
  the first outcome that does not ask for another candidate is the result, and the attempt log grows by
  the receipts of exactly the candidates asked. A pinned provider is asked alone.\<close>

theorem failover_equivalence:
  assumes "candidates r req \<noteq> []"
  shows "(let ps = candidates r req;
           xs = ask_all (\<lambda>p. provider_complete env (the (map_of (rt_adapters r) (pc_name p))) msgs mt temp) ps st;
           n = asked (truthy req) xs
     in router_complete env msgs req mt temp r st =
          (fst (xs ! (n - 1)), r\<lparr>rt_attempts := rt_attempts r @ concat (map (outcome_receipts \<circ> fst) (take n xs))\<rparr>,
           snd (xs ! (n - 1)))
        \<and> 0 < n \<and> n \<le> length ps \<and> (truthy req \<longrightarrow> n = 1)
        \<and> (\<forall>x \<in> set (take (n - 1) xs). \<exists>m rc. fst x = Inl (ProviderError m rc True))
        \<and> sorted (map (\<lambda>p. quota_rank (pc_quota p)) ps))"
proof -
  let ?ask = "\<lambda>p. provider_complete env (the (map_of (rt_adapters r) (pc_name p))) msgs mt temp"
  let ?xs = "ask_all ?ask (candidates r req) st"
  let ?P = "\<lambda>x. retries (truthy req) (fst x)"
  have ne: "?xs \<noteq> []" using assms length_ask_all [of ?ask "candidates r req" st] by (metis length_0_conv)
  have bounds: "0 < asked (truthy req) ?xs" "asked (truthy req) ?xs \<le> length (candidates r req)"
    using asked_pos [OF ne] by (simp_all add: asked_def)
  have pinned: "asked (truthy req) ?xs = 1" if "truthy req"
    using ne that by (cases ?xs) (auto simp: asked_Cons retries_def)
  have before: "\<exists>m rc. fst x = Inl (ProviderError m rc True)" if x: "x \<in> set (take (asked (truthy req) ?xs - 1) ?xs)" for x
  proof -
    have "take (asked (truthy req) ?xs - 1) ?xs = take (asked (truthy req) ?xs - 1) (takeWhile ?P ?xs)"
      by (rule nth_take_lemma [THEN trans]) (auto simp: asked_def takeWhile_nth min_def)
    then have "?P x" using x by (metis in_set_takeD set_takeWhileD)
    then show ?thesis by (auto simp: retries_def split: sum.splits attempt_error.splits)
  qed
  have order: "sorted (map (\<lambda>p. quota_rank (pc_quota p)) (candidates r req))"
  proof -
    have "sorted (map (\<lambda>p. (quota_rank (pc_quota p), pc_name p)) (candidates r req))"
      by (simp add: candidates_def)
    then show ?thesis by (auto simp: sorted_map less_eq_prod_def elim: sorted_wrt_mono_rel [rotated])
  qed
  show ?thesis
    using try_candidates_ask_all [OF assms, of ?ask "truthy req" "OtherError (AssertionError [])" "rt_attempts r" st]
      assms bounds pinned before order
    by (simp add: router_complete_def Let_def)
qed

theorem failover_equivalence_witness:
  "asked False (ask_all (\<lambda>p. provider_complete sample_net (the (map_of (rt_adapters sample_router) (pc_name p)))
       [JStr ''hi''] JNull JNull) [sample_local, sample_free] no_traffic) = 2
   \<and> map rec_error (rt_attempts (fst (snd (router_complete sample_net [JStr ''hi''] JNull JNull JNull
       sample_router no_traffic)))) = [Some ''http_429'', None]"
proof -
  have ad: "the (map_of (rt_adapters sample_router) ''local'') = \<lparr>ad_config = sample_local, ad_client = NewClient 60\<rparr>"
    "the (map_of (rt_adapters sample_router) ''free'') = \<lparr>ad_config = sample_free, ad_client = NewClient 60\<rparr>"
    by code_simp+
  have names: "pc_name sample_local = ''local''" "pc_name sample_free = ''free''"
    by code_simp+
  let ?ask = "\<lambda>p. provider_complete sample_net (the (map_of (rt_adapters sample_router) (pc_name p))) [JStr ''hi''] JNull JNull"
  obtain st1 r1 where a1: "?ask sample_local no_traffic = (Inl (ProviderError ''http_429'' r1 True), st1)"
      "rec_error r1 = Some ''http_429''" "length (sent st1) = 1"
    using sample_ask_local [of no_traffic "[JStr ''hi'']"] by (auto simp: ad names no_traffic_def)
  obtain st2 res where a2: "?ask sample_free st1 = (Inr res, st2)" "rec_error (ir_receipt res) = None"
    using sample_ask_free [of st1 "[JStr ''hi'']"] a1(3) by (auto simp: ad names)
  have n: "asked False (ask_all ?ask [sample_local, sample_free] no_traffic) = 2"
    by (simp add: a1 a2 asked_Cons retries_def)
  have "candidates sample_router JNull \<noteq> []" by (simp add: sample_candidates)
  from failover_equivalence [OF this, of sample_net "[JStr ''hi'']" JNull JNull no_traffic] n
  have "rt_attempts (fst (snd (router_complete sample_net [JStr ''hi''] JNull JNull JNull sample_router no_traffic)))
    = rt_attempts sample_router @ [r1, ir_receipt res]"
    by (simp add: sample_candidates a1 a2 Let_def)
  moreover have "rt_attempts sample_router = []" by code_simp
  ultimately show ?thesis using n by (simp add: a1(2) a2(2))
qed

text \<open>C19: A request leaves the broker only while the ledger's usage of the day is below every budget of
  the policy, only to an enabled configured provider, a local one under a local-only policy and the
  required one when one is required, and with the operator's key where one is configured.\<close>

theorem broker_sends_within_policy:
  assumes "chat_completions env g payload st = (out, st')"
  shows "\<exists>new. sent st' = new @ sent st
    \<and> (new \<noteq> [] \<and> gw_ledger g \<longrightarrow> (\<exists>u. fst (today_usage env st) = Inr u
        \<and> (\<forall>m. pp_max_requests (gw_policy g) = Some m \<longrightarrow> us_requests u < m)
        \<and> (\<forall>m. pp_max_tokens (gw_policy g) = Some m \<longrightarrow> us_tokens u < m)
        \<and> (\<forall>m. pp_max_cost (gw_policy g) = Some m \<longrightarrow> \<not> pyfloat_ge (us_cost u) m)))
    \<and> (\<forall>q \<in> set new. \<exists>c \<in> set (rt_providers (gw_router g)). pc_enabled c
        \<and> (pp_local_only (gw_policy g) \<longrightarrow> pc_quota c = ''local'')
        \<and> (truthy (jget_null payload ''skill_native_provider'') \<longrightarrow>
             jget_null payload ''skill_native_provider'' = JStr (pc_name c))
        \<and> (\<exists>p. snd q = http_request_of env c p) \<and> (needs_key c \<longrightarrow> api_key env c \<noteq> None))"
  using assms
proof (cases rule: chat_cases)
  case answered
  then show ?thesis by (intro exI [of _ "[]"]) simp
next
  case (called msgs started r st2)
  from called(5) obtain new where new: "sent st' = new @ sent st2"
      "\<forall>q \<in> set new. \<exists>p \<in> set (candidates r (jget_null payload ''skill_native_provider'')). request_for env r p q"
    by (rule broker_call_effect) blast
  have budget: "gw_ledger g \<Longrightarrow> \<exists>u. fst (today_usage env st) = Inr u
        \<and> (\<forall>m. pp_max_requests (gw_policy g) = Some m \<longrightarrow> us_requests u < m)
        \<and> (\<forall>m. pp_max_tokens (gw_policy g) = Some m \<longrightarrow> us_tokens u < m)
        \<and> (\<forall>m. pp_max_cost (gw_policy g) = Some m \<longrightarrow> \<not> pyfloat_ge (us_cost u) m)"
    using called(1) by (fastforce simp: budget_left_def within_budget_def guards_Inr_iff not_le)
  have dest: "\<exists>c \<in> set (rt_providers (gw_router g)). pc_enabled c
        \<and> (pp_local_only (gw_policy g) \<longrightarrow> pc_quota c = ''local'')
        \<and> (truthy (jget_null payload ''skill_native_provider'') \<longrightarrow>
             jget_null payload ''skill_native_provider'' = JStr (pc_name c))
        \<and> (\<exists>p. snd q = http_request_of env c p) \<and> (needs_key c \<longrightarrow> api_key env c \<noteq> None)"
    if q: "q \<in> set new" for q
  proof -
    from new(2) q obtain p where p: "p \<in> set (candidates r (jget_null payload ''skill_native_provider''))" "request_for env r p q"
      by blast
    from eligible_config [OF called(2) p(1)] obtain c where c: "c \<in> set (rt_providers (gw_router g))"
      "ad_config (the (map_of (rt_adapters r) (pc_name p))) = c" "pc_enabled c" "pc_name c = pc_name p"
      "pp_local_only (gw_policy g) \<longrightarrow> pc_quota c = ''local''"
      by blast
    with p(2) candidates_required [OF p(1)] show ?thesis
      by (intro bexI [of _ c]) (auto simp: request_for_def Let_def)
  qed
  show ?thesis using new(1) called(3) budget dest by (intro exI [of _ new]) simp
qed

theorem broker_sends_within_policy_witness:
  "\<exists>a st' q. chat_completions sample_ok sample_gateway sample_payload no_traffic = (Inr a, st') \<and> sent st' = [q]
     \<and> (\<exists>p. snd q = http_request_of sample_ok sample_local p)"
proof -
  obtain a st' where a: "chat_completions sample_ok sample_gateway sample_payload no_traffic = (Inr a, st')"
    "length (sent st') = 1" using sample_chat by blast
  then obtain q where q: "sent st' = [q]" by (auto simp: length_Suc_conv)
  have empty: "sent no_traffic = []" by (simp add: no_traffic_def)
  have ps: "rt_providers (gw_router sample_gateway) = [sample_free, sample_local]"
    "pp_local_only (gw_policy sample_gateway)" "pc_quota sample_free \<noteq> ''local''" by code_simp+
  from broker_sends_within_policy [OF a(1)] q empty obtain c where
    "c \<in> set (rt_providers (gw_router sample_gateway))" "pp_local_only (gw_policy sample_gateway) \<longrightarrow> pc_quota c = ''local''"
    "\<exists>p. snd q = http_request_of sample_ok c p" by auto
  with ps have "\<exists>p. snd q = http_request_of sample_ok sample_local p" by auto
  with a(1) q show ?thesis by blast
qed



text \<open>
  An answer that is not a completion ends the request with an exception that nothing catches: whatever
  was sent until then, no attempt of it reaches the ledger, so it counts against no budget.
\<close>

lemma malformed_completion_unrecorded:
  assumes "chat_completions env g payload st = (Inl e, st')"
  shows "ledger_text st' = ledger_text st"
  using assms
proof (cases rule: chat_cases)
  case (called msgs started r st2)
  from called(5) show ?thesis by (rule broker_call_effect) (use called(4) in simp)
qed simp

text \<open>\<open>_first_int\<close> catches \<open>ValueError\<close> only, and an infinite float raises \<open>OverflowError\<close>.\<close>

lemma infinite_limit_raises:
  "first_int [(''ratelimit-limit'', ''inf'')] [''x-ratelimit-limit'', ''ratelimit-limit'']
     = Inl (OverflowError ''cannot convert float infinity to integer'')"
  by code_simp

end
