(* ===== verification/OpenShell.thy ===== *)
theory OpenShell
  imports Kernel RunArtifactBuilder PyNumbers
begin

text \<open>
  \<open>openshell.py\<close> and the OpenShell half of \<open>runtime_harness_controllers.py\<close>: the policy compiler, the
  controller that drives the OpenShell command line, and the harness controller that streams the
  input of one command. The command line, YAML and the names of temporary directories are the
  fields of \<open>shell_env\<close>; the answer of a command is a function of every call made so far. The state
  holds the calls, newest first, the controller's tables and the temporary directories that are
  still there; those that an exception leaves behind go with their Python object.
\<close>

section \<open>The policy compiler\<close>

text \<open>\<open>re.sub("[^...]+", "-", s)\<close>: every maximal run of characters outside the class becomes one dash.\<close>

function sub_runs :: "(char \<Rightarrow> bool) \<Rightarrow> string \<Rightarrow> string" where
  "sub_runs ok [] = []"
| "sub_runs ok (c # cs) = (if ok c then c # sub_runs ok cs else CHR ''-'' # sub_runs ok (dropWhile (\<lambda>x. \<not> ok x) cs))"
  by pat_completeness auto

termination
  by (relation "measure (\<lambda>(_, s). length s)") (auto simp: le_imp_less_Suc length_dropWhile_le)

definition strip_dashes :: "string \<Rightarrow> string" where
  "strip_dashes = strip_set (\<lambda>c. c = CHR ''-'')"

definition safe_name_char :: "char \<Rightarrow> bool" where
  "safe_name_char c \<longleftrightarrow> is_alnum_char c \<or> c \<in> set ''_.-''"

text \<open>\<open>f"{index:03d}"\<close>.\<close>

definition pad3 :: "nat \<Rightarrow> string" where
  "pad3 n = (let s = show_nat n in replicate (3 - length s) CHR ''0'' @ s)"

definition policy_key :: "nat \<Rightarrow> string \<Rightarrow> string" where
  "policy_key i h = (let s = strip_dashes (sub_runs safe_name_char h) in
     take 120 (''allow_'' @ pad3 i @ ''_'' @ (if s = [] then ''host'' else s)))"

definition endpoint_json :: "network_rule \<Rightarrow> json" where
  "endpoint_json r = JObj ([(''host'', JStr (host r)), (''port'', JInt (port r)), (''enforcement'', JStr ''enforce'')]
     @ (if protocol r = [] then [] else [(''protocol'', JStr (protocol r))])
     @ (case rule_path r of None \<Rightarrow> [] | Some [] \<Rightarrow> [] | Some p \<Rightarrow> [(''path'', JStr p)])
     @ [(''access'', JStr (access r))])"

definition network_entry :: "string \<Rightarrow> network_rule \<Rightarrow> json" where
  "network_entry key r = JObj [(''name'', JStr key), (''endpoints'', JArr [endpoint_json r]),
     (''binaries'', JArr (map (\<lambda>p. JObj [(''path'', JStr p)]) (binaries r)))]"

fun compile_rules :: "nat \<Rightarrow> network_rule list \<Rightarrow> json dict \<Rightarrow> json dict res" where
  "compile_rules i [] d = Inr d"
| "compile_rules i (r # rs) d =
     (if protocol r = ''mcp'' \<or> protocol r = ''json-rpc''
      then Inl (ValueError (protocol r @ '' requires explicit method/tool rules; generic access presets are refused''))
      else (let key = policy_key i (host r) in compile_rules (Suc i) rs (dict_set key (network_entry key r) d)))"

definition effective_rules :: "run_spec \<Rightarrow> network_rule list" where
  "effective_rules s = network_rules (policy s) @ map default_network_rule (allowed_hosts (policy s))"

definition compile_policy :: "run_spec \<Rightarrow> json res" where
  "compile_policy s = rbind (guards
     [(policy_network (policy s) \<noteq> ''deny-by-default'',
         ValueError ''OpenShell backend requires network=deny-by-default''),
      (policy_secrets (policy s) \<noteq> ''brokered'', ValueError ''OpenShell backend requires brokered secrets''),
      (landlock_compatibility (policy s) \<notin> {''best_effort'', ''hard_requirement''},
         ValueError ''unsupported landlock compatibility'')] ()) (\<lambda>_.
     rbind (compile_rules 0 (effective_rules s) []) (\<lambda>nets. Inr (JObj
      [(''version'', JInt 1),
       (''filesystem_policy'', JObj [(''include_workdir'', JBool True),
          (''read_only'', strs [''/usr'', ''/lib'', ''/proc'', ''/dev/urandom'', ''/etc'', ''/var/log'']),
          (''read_write'', strs [''/sandbox'', ''/tmp'', ''/dev/null''])]),
       (''landlock'', JObj [(''compatibility'', JStr (landlock_compatibility (policy s)))]),
       (''process'', JObj [(''run_as_user'', JStr ''sandbox''), (''run_as_group'', JStr ''sandbox'')]),
       (''network_policies'', JObj nets)])))"

section \<open>The command line\<close>

record command_result =
  cr_argv :: "string list"
  cr_returncode :: int
  cr_stdout :: string
  cr_stderr :: string

record shell_call =
  sc_argv :: "string list"
  sc_timeout :: int
  sc_input :: "string option"

text \<open>How the delegate of the input-aware runner takes an input: as a parameter, as \<open>SubprocessRunner\<close>, not.\<close>

datatype delegate_kind = TakesInput | Subprocess | NoInput

record shell_env =
  se_run :: "shell_call list \<Rightarrow> command_result res"
  se_delegate :: delegate_kind
  se_tempdir :: "nat \<Rightarrow> string"
  se_yaml_dump :: "json \<Rightarrow> string"
  se_yaml_load :: "string \<Rightarrow> json res"
  se_binary :: string

record shell_run =
  sr_spec :: run_spec
  sr_tempdir :: string
  sr_yaml :: string
  sr_policy_hash :: string
  sr_metadata :: "json dict"
  sr_status :: "json dict"
  sr_gateway :: "json dict"
  sr_attestation :: json
  sr_probe :: json
  sr_before :: "string dict"
  sr_executions :: "command_result dict"

record shell_state =
  ss_calls :: "shell_call list"
  ss_armed :: "string option"
  ss_runs :: "shell_run dict"
  ss_temp :: "string list"
  ss_continuity :: "json dict dict"

text \<open>\<open>_InputAwareRunner\<close>: an armed input goes with exactly one call.\<close>

definition arm :: "string \<Rightarrow> (shell_state, unit) step" where
  "arm input_text st = (if ss_armed st \<noteq> None then (Inl (OpenShellError ''OpenShell stdin runner is already armed''), st)
     else (Inr (), st\<lparr>ss_armed := Some input_text\<rparr>))"

definition clear_input :: "(shell_state, unit) step" where
  "clear_input st = (Inr (), st\<lparr>ss_armed := None\<rparr>)"

definition call :: "shell_env \<Rightarrow> shell_call \<Rightarrow> (shell_state, command_result) step" where
  "call env c st = (let hist = c # ss_calls st in (se_run env hist, st\<lparr>ss_calls := hist\<rparr>))"

definition run_cli :: "shell_env \<Rightarrow> string list \<Rightarrow> int \<Rightarrow> (shell_state, command_result) step" where
  "run_cli env argv t st = (case ss_armed st of
     None \<Rightarrow> call env \<lparr>sc_argv = argv, sc_timeout = t, sc_input = None\<rparr> st
   | Some i \<Rightarrow> (let st1 = st\<lparr>ss_armed := None\<rparr> in
       if se_delegate env = NoInput
       then (Inl (OpenShellError ''configured OpenShell command runner cannot stream stdin''), st1)
       else call env \<lparr>sc_argv = argv, sc_timeout = t, sc_input = Some i\<rparr> st1))"

definition json_object :: "string list \<Rightarrow> command_result \<Rightarrow> json dict res" where
  "json_object argv r =
     (if cr_returncode r \<noteq> 0
      then Inl (OpenShellError (''command failed: '' @ join '' '' argv @ '': '' @ strip (cr_stderr r)))
      else (case loads (cr_stdout r) of
          None \<Rightarrow> Inl (OpenShellError (''expected JSON from '' @ join '' '' argv))
        | Some (JObj d) \<Rightarrow> Inr d
        | Some _ \<Rightarrow> Inl (OpenShellError (''expected JSON object from '' @ join '' '' argv))))"

definition json_command :: "shell_env \<Rightarrow> string list \<Rightarrow> (shell_state, json dict) step" where
  "json_command env argv = sbind (run_cli env argv 30) (\<lambda>r. sreturn (json_object argv r))"

section \<open>Attesting the runtime\<close>

definition value_hit :: "string list \<Rightarrow> string \<times> json \<Rightarrow> bool" where
  "value_hit wanted kv \<longleftrightarrow> lower (fst kv) \<in> set wanted \<and> snd kv \<noteq> JNull \<and> snd kv \<noteq> JStr []"

text \<open>\<open>_recursive_value\<close>: the stack is kept with its top first.\<close>

function recursive_value :: "string list \<Rightarrow> json list \<Rightarrow> json option" where
  "recursive_value ks [] = None"
| "recursive_value ks (JObj kvs # st) = (case List.find (value_hit ks) kvs of
     Some kv \<Rightarrow> Some (snd kv)
   | None \<Rightarrow> recursive_value ks (rev (map snd kvs) @ st))"
| "recursive_value ks (JArr xs # st) = recursive_value ks (rev xs @ st)"
| "recursive_value ks (JNull # st) = recursive_value ks st"
| "recursive_value ks (JBool b # st) = recursive_value ks st"
| "recursive_value ks (JInt i # st) = recursive_value ks st"
| "recursive_value ks (JFloat x # st) = recursive_value ks st"
| "recursive_value ks (JStr s # st) = recursive_value ks st"
  by pat_completeness auto

termination
  by (relation "measure (\<lambda>(_, st). sum_list (map json_nodes st))")
     (simp_all add: rev_map [symmetric] json_nodes_obj)

definition unpinned :: "string list" where
  "unpinned = [''latest'', ''unknown'', ''*'']"

definition opt_value_json :: "json option \<Rightarrow> json" where
  "opt_value_json v = (case v of None \<Rightarrow> JNull | Some j \<Rightarrow> j)"

text \<open>A declared value that is pinned and differs from the observed one.\<close>

definition mismatch :: "string \<Rightarrow> json option \<Rightarrow> bool" where
  "mismatch declared v \<longleftrightarrow> declared \<noteq> [] \<and> declared \<notin> set unpinned \<and> truthy (opt_value_json v)
     \<and> declared \<noteq> py_str (opt_value_json v)"

definition attest_match :: "string \<Rightarrow> json option \<Rightarrow> bool" where
  "attest_match declared v \<longleftrightarrow> v = None \<or> declared \<in> set unpinned \<or> declared = py_str (opt_value_json v)"

definition observed_version :: "json dict \<Rightarrow> json dict \<Rightarrow> json option" where
  "observed_version status gateway =
     recursive_value [''version'', ''gateway_version'', ''openshell_version''] [JObj status, JObj gateway]"

definition observed_image :: "json dict \<Rightarrow> json option" where
  "observed_image metadata = recursive_value (map lower [''image_digest'', ''digest'', ''imageDigest'']) [JObj metadata]"

definition attest_runtime :: "run_spec \<Rightarrow> json dict \<Rightarrow> json dict \<Rightarrow> json dict \<Rightarrow> json res" where
  "attest_runtime s status gateway metadata =
     (let ov = observed_version status gateway; oi = observed_image metadata;
          dv = strip (runtime_version (runtime s)); di = strip (image_digest (runtime s))
      in guards
       [(mismatch dv ov, OpenShellError (''runtime version mismatch: declared='' @ dv @ '' observed='' @ py_str (opt_value_json ov))),
        (mismatch di oi, OpenShellError (''sandbox image digest mismatch: declared='' @ di @ '' observed='' @ py_str (opt_value_json oi)))]
       (JObj [(''declared_version'', JStr dv), (''observed_version'', opt_value_json ov),
         (''declared_image_digest'', JStr di), (''observed_image_digest'', opt_value_json oi),
         (''version_match'', JBool (attest_match dv ov)), (''image_match'', JBool (attest_match di oi))]))"

section \<open>Probing credentials\<close>

definition placeholder_markers :: "string list" where
  "placeholder_markers = [''openshell:resolve:env:'', ''OPENSHELL-RESOLVE-ENV-'']"

definition probe_script :: "string list \<Rightarrow> string" where
  "probe_script names = join [CHR 0x0A] [''import json, os'', ''names='' @ py_repr (strs names),
     ''print(json.dumps({n: os.environ.get(n) for n in names}, sort_keys=True))'']"

definition is_missing :: "json dict \<Rightarrow> string \<Rightarrow> bool" where
  "is_missing vs n \<longleftrightarrow> jget_null vs n = JNull"

definition is_placeholder :: "json dict \<Rightarrow> string \<Rightarrow> bool" where
  "is_placeholder vs n \<longleftrightarrow> \<not> is_missing vs n \<and> list_ex (contains (py_str (jget_null vs n))) placeholder_markers"

definition is_exposed :: "json dict \<Rightarrow> string \<Rightarrow> bool" where
  "is_exposed vs n \<longleftrightarrow> \<not> is_missing vs n \<and> \<not> is_placeholder vs n"

definition probe_result :: "string list \<Rightarrow> command_result \<Rightarrow> json res" where
  "probe_result names r =
     (let out = strip (cr_stdout r); exposed = (\<lambda>vs. filter (is_exposed vs) names) in
      if cr_returncode r \<noteq> 0 then Inl (OpenShellError ''credential isolation probe failed to execute'')
      else (case loads (if out = [] then ''{}'' else out) of
          None \<Rightarrow> Inl (OpenShellError ''credential isolation probe returned invalid JSON'')
        | Some (JObj vs) \<Rightarrow> guards
            [(exposed vs \<noteq> [], OpenShellError (''raw provider credential visible inside sandbox: '' @ join '', '' (exposed vs)))]
            (JObj [(''passed'', JBool True), (''checked'', strs names),
              (''placeholders'', strs (filter (is_placeholder vs) names)),
              (''missing'', strs (filter (is_missing vs) names))])
        | Some v \<Rightarrow> Inl (AttributeError (repr_str (type_name v) @ '' object has no attribute get''))))"

definition credential_probe :: "shell_env \<Rightarrow> string \<Rightarrow> string list \<Rightarrow> (shell_state, json) step" where
  "credential_probe env sid names =
     (if names = []
      then sreturn (Inr (JObj [(''passed'', JBool True), (''checked'', JArr []),
             (''reason'', JStr ''no secret env names declared'')]))
      else sbind (run_cli env [se_binary env, ''sandbox'', ''exec'', ''-n'', sid, ''--no-tty'', ''--'', ''python3'', ''-c'',
             probe_script names] 30)
           (\<lambda>r. sreturn (probe_result names r)))"

section \<open>File manifests\<close>

definition manifest_cmd :: string where
  "manifest_cmd = ''find /sandbox -xdev -type f -exec sha256sum -- {} + 2>/dev/null | sort || true''"

text \<open>\<open>line.split(maxsplit=1)\<close> of a stripped, non-empty line.\<close>

definition split_once :: "string \<Rightarrow> string \<times> string" where
  "split_once s = (takeWhile (\<lambda>c. \<not> is_space c) s, dropWhile is_space (dropWhile (\<lambda>c. \<not> is_space c) s))"

definition manifest_line :: "string \<Rightarrow> string dict \<Rightarrow> string dict" where
  "manifest_line l d = (case split_once (strip l) of (h, r) \<Rightarrow>
     if r = [] \<or> length h \<noteq> 64 then d else dict_set (dropWhile (\<lambda>c. c \<in> set ''* '') r) h d)"

definition parse_manifest :: "string \<Rightarrow> string dict" where
  "parse_manifest t = fold manifest_line (splitlines t) []"

definition filesystem_manifest :: "shell_env \<Rightarrow> string \<Rightarrow> (shell_state, string dict) step" where
  "filesystem_manifest env sid = sbind (run_cli env [se_binary env, ''sandbox'', ''exec'', ''-n'', sid, ''--no-tty'', ''--'',
       ''/bin/sh'', ''-lc'', manifest_cmd] 60)
     (\<lambda>r. sreturn (if cr_returncode r \<noteq> 0 then Inl (OpenShellError ''filesystem manifest collection failed'')
       else Inr (parse_manifest (cr_stdout r))))"

text \<open>A manifest as the code keeps it, \<open>{path: {"sha256": digest}}\<close>.\<close>

definition manifest_dict :: "string dict \<Rightarrow> json dict" where
  "manifest_dict d = map (\<lambda>(p, h). (p, JObj [(''sha256'', JStr h)])) d"

definition added_paths :: "string dict \<Rightarrow> string dict \<Rightarrow> string list" where
  "added_paths a b = sorted_set (filter (\<lambda>p. p \<notin> set (dict_keys a)) (dict_keys b))"

definition modified_paths :: "string dict \<Rightarrow> string dict \<Rightarrow> string list" where
  "modified_paths a b = sorted_set (filter (\<lambda>p. p \<in> set (dict_keys b) \<and> map_of a p \<noteq> map_of b p) (dict_keys a))"

definition manifest_diff_json :: "string dict \<Rightarrow> string dict \<Rightarrow> json" where
  "manifest_diff_json a b = JObj [(''added'', strs (added_paths a b)), (''removed'', strs (added_paths b a)),
     (''modified'', strs (modified_paths a b))]"

section \<open>Preparing a sandbox\<close>

definition name_char :: "char \<Rightarrow> bool" where
  "name_char c \<longleftrightarrow> is_digit_char c \<or> (CHR ''a'' \<le> c \<and> c \<le> CHR ''z'') \<or> c = CHR ''-''"

definition sandbox_name :: "string \<Rightarrow> string" where
  "sandbox_name run_id = (let clean = strip_dashes (sub_runs name_char (lower run_id)) in
     ''skill-native-'' @ take 36 (if clean = [] then ''run'' else clean) @ ''-'' @ take 8 (text_digest run_id))"

definition fail :: "exn \<Rightarrow> ('s, 'a) step" where
  "fail e s = (Inl e, s)"

definition cleanup_dir :: "string \<Rightarrow> shell_state \<Rightarrow> shell_state" where
  "cleanup_dir dir st = st\<lparr>ss_temp := remove1 dir (ss_temp st)\<rparr>"

definition fail_cleanup :: "string \<Rightarrow> exn \<Rightarrow> (shell_state, 'a) step" where
  "fail_cleanup dir e st = (Inl e, cleanup_dir dir st)"

definition create_argv :: "shell_env \<Rightarrow> run_spec \<Rightarrow> string \<Rightarrow> string \<Rightarrow> string list" where
  "create_argv env s name dir = [se_binary env, ''sandbox'', ''create'', ''--name'', name, ''--policy'', dir @ ''/policy.yaml'']
     @ concat (map (\<lambda>p. [''--provider'', p]) (provider_names (policy s)))"

definition delete_argv :: "shell_env \<Rightarrow> string \<Rightarrow> string list" where
  "delete_argv env sid = [se_binary env, ''sandbox'', ''delete'', sid]"

definition ocsf_argv :: "shell_env \<Rightarrow> string \<Rightarrow> string list" where
  "ocsf_argv env name = [se_binary env, ''settings'', ''set'', name, ''--key'', ''ocsf_json_enabled'', ''--value'', ''true'']"

text \<open>\<open>prepare\<close> once OCSF export is on: the probe, the manifest and the record of the run.\<close>

definition register_run ::
  "shell_env \<Rightarrow> run_spec \<Rightarrow> string \<Rightarrow> string \<Rightarrow> string \<Rightarrow> json dict \<Rightarrow> json dict \<Rightarrow> json dict \<Rightarrow> json
    \<Rightarrow> (shell_state, string) step" where
  "register_run env s name dir yaml status gateway metadata att =
     sbind (credential_probe env name (secret_env_names (policy s))) (\<lambda>probe.
     sbind (filesystem_manifest env name) (\<lambda>mf. \<lambda>st.
       (Inr name, st\<lparr>ss_runs := dict_set name \<lparr>sr_spec = s, sr_tempdir = dir, sr_yaml = yaml,
          sr_policy_hash = text_digest yaml, sr_metadata = metadata, sr_status = status, sr_gateway = gateway,
          sr_attestation = att, sr_probe = probe, sr_before = mf, sr_executions = []\<rparr> (ss_runs st)\<rparr>)))"

text \<open>\<open>prepare\<close> once the sandbox exists.\<close>

definition inspect_sandbox ::
  "shell_env \<Rightarrow> run_spec \<Rightarrow> string \<Rightarrow> string \<Rightarrow> string \<Rightarrow> json dict \<Rightarrow> json dict \<Rightarrow> (shell_state, string) step" where
  "inspect_sandbox env s name dir yaml status gateway =
     sbind (json_command env [se_binary env, ''sandbox'', ''get'', name, ''--output'', ''json'']) (\<lambda>metadata.
     sbind (sreturn (attest_runtime s status gateway metadata)) (\<lambda>att.
     sbind (run_cli env (ocsf_argv env name) 30) (\<lambda>ocsf.
       if cr_returncode ocsf \<noteq> 0
       then sbind (run_cli env (delete_argv env name) 60)
              (\<lambda>_. fail_cleanup dir (OpenShellError (''failed to enable OCSF JSON export: '' @ strip (cr_stderr ocsf))))
       else register_run env s name dir yaml status gateway metadata att)))"

definition shell_prepare :: "shell_env \<Rightarrow> run_spec \<Rightarrow> (shell_state, string) step" where
  "shell_prepare env s st = (case compile_policy s of
     Inl e \<Rightarrow> (Inl e, st)
   | Inr pol \<Rightarrow>
      (let name = sandbox_name (spec_run_id s); yaml = se_yaml_dump env pol; dir = se_tempdir env (length (ss_calls st))
       in sbind (json_command env [se_binary env, ''status'', ''--output'', ''json'']) (\<lambda>status.
          sbind (json_command env [se_binary env, ''gateway'', ''info'', ''-o'', ''json'']) (\<lambda>gateway.
          sbind (run_cli env (create_argv env s name dir) (timeout_seconds (limits s))) (\<lambda>create.
            if cr_returncode create \<noteq> 0
            then fail_cleanup dir (OpenShellError (''sandbox create failed: '' @ strip (cr_stderr create)))
            else inspect_sandbox env s name dir yaml status gateway)))
          (st\<lparr>ss_temp := dir # ss_temp st\<rparr>)))"

section \<open>Executing, collecting, destroying\<close>

definition require_run :: "string \<Rightarrow> (shell_state, shell_run) step" where
  "require_run sid st = (case map_of (ss_runs st) sid of
     None \<Rightarrow> (Inl (OpenShellError (''unknown sandbox '' @ sid)), st) | Some r \<Rightarrow> (Inr r, st))"

definition exec_argv :: "shell_env \<Rightarrow> string \<Rightarrow> int \<Rightarrow> string list \<Rightarrow> string list" where
  "exec_argv env sid t argv =
     [se_binary env, ''sandbox'', ''exec'', ''-n'', sid, ''--no-tty'', ''--timeout'', show_int t, ''--''] @ argv"

definition shell_execute :: "shell_env \<Rightarrow> string \<Rightarrow> string list \<Rightarrow> (shell_state, string) step" where
  "shell_execute env sid argv = sbind (require_run sid) (\<lambda>r.
     let t = timeout_seconds (limits (sr_spec r)); eid = sid @ '':exec:'' @ show_nat (length (sr_executions r)) in
     sbind (run_cli env (exec_argv env sid t argv) (t + 15)) (\<lambda>res. \<lambda>st.
       (Inr eid, st\<lparr>ss_runs := dict_set sid (r\<lparr>sr_executions := dict_set eid res (sr_executions r)\<rparr>) (ss_runs st)\<rparr>)))"

fun parse_jsonl :: "string list \<Rightarrow> json dict list" where
  "parse_jsonl [] = []"
| "parse_jsonl (l # ls) = (case (if strip l = [] then None else loads (strip l)) of
     Some (JObj d) \<Rightarrow> d # parse_jsonl ls | _ \<Rightarrow> parse_jsonl ls)"

definition has_class :: "int list \<Rightarrow> json dict \<Rightarrow> bool" where
  "has_class ns e \<longleftrightarrow> list_ex (\<lambda>n. py_eq (jget_null e ''class_uid'') (JInt n)) ns"

text \<open>\<open>value in {4001, 4002}\<close> hashes the value: lists and dictionaries raise.\<close>

fun unhashable :: "json \<Rightarrow> bool" where
  "unhashable (JArr _) = True"
| "unhashable (JObj _) = True"
| "unhashable _ = False"

definition ocsf_network :: "json dict list \<Rightarrow> json dict list res" where
  "ocsf_network es = (case List.find (\<lambda>e. unhashable (jget_null e ''class_uid'')) es of
     Some e \<Rightarrow> Inl (TypeError (''unhashable type: '' @ repr_str (type_name (jget_null e ''class_uid''))))
   | None \<Rightarrow> Inr (filter (has_class [4001, 4002]) es))"

text \<open>\<open>policy get\<close>, or the older form of the command.\<close>

definition effective_policy :: "shell_env \<Rightarrow> string \<Rightarrow> (shell_state, string) step" where
  "effective_policy env sid =
     sbind (run_cli env [se_binary env, ''policy'', ''get'', sid, ''--full''] 30) (\<lambda>a.
       if cr_returncode a = 0 \<and> strip (cr_stdout a) \<noteq> [] then sreturn (Inr (cr_stdout a))
       else sbind (run_cli env [se_binary env, ''sandbox'', ''get'', sid, ''--policy-only''] 30) (\<lambda>b.
         sreturn (if cr_returncode b = 0 \<and> strip (cr_stdout b) \<noteq> [] then Inr (cr_stdout b)
           else Inl (OpenShellError ''effective policy evidence unavailable''))))"

definition sandbox_logs :: "shell_env \<Rightarrow> string \<Rightarrow> (shell_state, string) step" where
  "sandbox_logs env sid = sbind (run_cli env [se_binary env, ''logs'', sid, ''--source'', ''sandbox''] 30) (\<lambda>l.
     sreturn (if cr_returncode l = 0 \<and> strip (cr_stdout l) \<noteq> [] then Inr (cr_stdout l)
       else Inl (OpenShellError ''sandbox log evidence unavailable'')))"

definition ocsf_log_cmd :: string where
  "ocsf_log_cmd = ''cat /var/log/openshell-ocsf.*.log 2>/dev/null || true''"

definition ocsf_evidence :: "shell_env \<Rightarrow> string \<Rightarrow> (shell_state, json dict list) step" where
  "ocsf_evidence env sid = sbind (run_cli env [se_binary env, ''sandbox'', ''exec'', ''-n'', sid, ''--no-tty'', ''--'',
       ''/bin/sh'', ''-lc'', ocsf_log_cmd] 30) (\<lambda>r.
     let es = parse_jsonl (splitlines (cr_stdout r)) in
     sreturn (if es = [] then Inl (OpenShellError ''OCSF evidence unavailable; refusing verified result'') else Inr es))"

definition shell_metadata :: "string \<Rightarrow> shell_run \<Rightarrow> string \<Rightarrow> json dict" where
  "shell_metadata sid r logs = [(''backend'', JStr ''openshell''), (''sandbox_id'', JStr sid),
     (''sandbox'', JObj (sr_metadata r)), (''gateway_status'', JObj (sr_status r)), (''gateway_info'', JObj (sr_gateway r)),
     (''attestation'', sr_attestation r), (''credential_probe'', sr_probe r),
     (''declared_runtime_version'', JStr (runtime_version (runtime (sr_spec r)))),
     (''declared_image_digest'', JStr (image_digest (runtime (sr_spec r)))),
     (''policy_sha256'', JStr (sr_policy_hash r)), (''logs'', JStr logs)]"

definition shell_bundle ::
  "string \<Rightarrow> string \<Rightarrow> shell_run \<Rightarrow> command_result \<Rightarrow> string dict \<Rightarrow> json dict list \<Rightarrow> json dict list \<Rightarrow> string \<Rightarrow> json
    \<Rightarrow> string \<Rightarrow> string \<Rightarrow> evidence_bundle" where
  "shell_bundle rid eid r res mf es nets pol compiled logs sid = (empty_evidence rid)\<lparr>
     ev_provenance_digest := provenance_digest (skill (sr_spec r)), exit_code := Some (cr_returncode res),
     ev_stdout := cr_stdout res, ev_stderr := cr_stderr res,
     commands := [[(''execution_id'', JStr eid), (''argv'', strs (cr_argv res)), (''exit_code'', JInt (cr_returncode res))]],
     processes := filter (has_class [1007]) es, network := nets, findings := filter (has_class [2004]) es,
     filesystem_before := manifest_dict (sr_before r),
     filesystem_after := dict_set ''diff'' (manifest_diff_json (sr_before r) mf) (manifest_dict mf),
     assertions := [(''runtime_completed'', True), (''effective_policy_captured'', True), (''ocsf_captured'', True),
       (''filesystem_manifest_captured'', True), (''runtime_attested'', True),
       (''credential_non_exposure'', jget (sr_probe r) ''passed'' = Some (JBool True))],
     runtime_metadata := shell_metadata sid r logs,
     ev_policy := [(''compiled'', compiled), (''effective'', JStr pol)],
     ocsf_events := es\<rparr>"

definition shell_collect :: "shell_env \<Rightarrow> string \<Rightarrow> string \<Rightarrow> (shell_state, evidence_bundle) step" where
  "shell_collect env rid eid = (let sid = before_first '':exec:'' eid in
     sbind (require_run sid) (\<lambda>r.
     sbind (sreturn (case map_of (sr_executions r) eid of None \<Rightarrow> Inl (KeyError eid) | Some x \<Rightarrow> Inr x)) (\<lambda>res.
     sbind (filesystem_manifest env sid) (\<lambda>mf.
     sbind (effective_policy env sid) (\<lambda>pol.
     sbind (sandbox_logs env sid) (\<lambda>logs.
     sbind (ocsf_evidence env sid) (\<lambda>es.
     sbind (sreturn (ocsf_network es)) (\<lambda>nets.
     sbind (sreturn (se_yaml_load env (sr_yaml r))) (\<lambda>compiled.
       sreturn (Inr (shell_bundle rid eid r res mf es nets pol compiled logs sid)))))))))))"

definition shell_destroy :: "shell_env \<Rightarrow> string \<Rightarrow> (shell_state, unit) step" where
  "shell_destroy env sid st = (let r = map_of (ss_runs st) sid in
     finally_do
       (sbind (run_cli env (delete_argv env sid) 60) (\<lambda>res.
          sreturn (if cr_returncode res \<noteq> 0
            then Inl (OpenShellError (''sandbox delete failed: '' @ strip (cr_stderr res))) else Inr ())))
       (\<lambda>s. (Inr (), case r of None \<Rightarrow> s | Some x \<Rightarrow> cleanup_dir (sr_tempdir x) s))
       (st\<lparr>ss_runs := dict_pop sid (ss_runs st)\<rparr>))"

section \<open>The harness controller\<close>

definition harness_execute :: "shell_env \<Rightarrow> string \<Rightarrow> string list \<Rightarrow> string option \<Rightarrow> (shell_state, string) step" where
  "harness_execute env sid argv stdin =
     sbind (case stdin of None \<Rightarrow> sreturn (Inr ()) | Some i \<Rightarrow> arm i) (\<lambda>_.
     sbind (finally_do (shell_execute env sid argv) clear_input) (\<lambda>eid. \<lambda>st.
       (Inr eid, st\<lparr>ss_continuity := dict_set eid [(''requested_argv'', strs argv),
          (''stdin_digest'', opt_str (map_option text_digest stdin))] (ss_continuity st)\<rparr>)))"

definition harness_collect :: "shell_env \<Rightarrow> string \<Rightarrow> string \<Rightarrow> (shell_state, evidence_bundle) step" where
  "harness_collect env rid eid = sbind (shell_collect env rid eid) (\<lambda>b. \<lambda>st.
     (case map_of (ss_continuity st) eid of
        None \<Rightarrow> (Inl (OpenShellError ''OpenShell command continuity evidence unavailable''), st)
      | Some c \<Rightarrow> (case commands b of
            [] \<Rightarrow> (Inl (OpenShellError ''OpenShell command evidence unavailable''), st)
          | x # xs \<Rightarrow> (Inr (b\<lparr>commands := dict_update x c # xs\<rparr>), st))))"

definition forget_sandbox :: "string \<Rightarrow> 'v dict \<Rightarrow> 'v dict" where
  "forget_sandbox sid d = filter (\<lambda>(k, _). \<not> starts_with k (sid @ '':exec:'')) d"

definition harness_destroy :: "shell_env \<Rightarrow> string \<Rightarrow> (shell_state, unit) step" where
  "harness_destroy env sid = finally_do (shell_destroy env sid)
     (\<lambda>st. (Inr (), st\<lparr>ss_continuity := forget_sandbox sid (ss_continuity st)\<rparr>))"

definition openshell_controller :: "shell_env \<Rightarrow> shell_state controller" where
  "openshell_controller env = \<lparr>ct_prepare = shell_prepare env, ct_execute = harness_execute env,
     ct_collect = harness_collect env, ct_destroy = harness_destroy env\<rparr>"

end
