(* ===== verification/CloudflareRuntime.thy ===== *)
theory CloudflareRuntime
  imports Kernel PyNumbers
begin

text \<open>
  \<open>cloudflare_runtime.py\<close> and the Cloudflare half of \<open>runtime_harness_controllers.py\<close>: the HTTP client
  of the Worker bridge, the controller on a client and the harness controller. A client is a record
  of operations on a state \<open>'w\<close>, the service it talks to; \<open>bridge_client\<close> builds one from the function that
  sends a request and decodes the JSON of its answer, which is \<open>httpx\<close>.
\<close>

section \<open>Clients\<close>

record exec_result =
  xr_stdout :: string
  xr_stderr :: string
  xr_exit_code :: int
  xr_success :: bool
  xr_metadata :: "json dict"

record 'w sandbox_client =
  sb_get_or_create :: "string \<Rightarrow> ('w, json dict) step"
  sb_exec :: "string \<Rightarrow> string \<Rightarrow> int \<Rightarrow> ('w, exec_result) step"
  sb_manifest :: "string \<Rightarrow> ('w, string dict) step"
  sb_events :: "string \<Rightarrow> ('w, json dict list) step"
  sb_destroy :: "string \<Rightarrow> ('w, unit) step"

datatype http_method = GET | POST json | DELETE

text \<open>\<open>value.get(...)\<close> on something that is not an object.\<close>

definition as_object :: "json \<Rightarrow> json dict res" where
  "as_object v = (case v of JObj d \<Rightarrow> Inr d
     | _ \<Rightarrow> Inl (AttributeError (repr_str (type_name v) @ '' object has no attribute get'')))"

text \<open>\<open>dict(v)\<close> of an object or of a list of pairs with string keys; anything else raises.\<close>

fun pair_of :: "json \<Rightarrow> (string \<times> json) option" where
  "pair_of (JArr [JStr k, v]) = Some (k, v)"
| "pair_of _ = None"

definition py_dict :: "json \<Rightarrow> json dict res" where
  "py_dict v = (case v of
     JObj d \<Rightarrow> Inr d
   | JArr xs \<Rightarrow> if list_all (\<lambda>x. pair_of x \<noteq> None) xs then Inr (dict_update [] (map (the \<circ> pair_of) xs))
       else Inl (TypeError ''cannot convert dictionary update sequence'')
   | JStr s \<Rightarrow> if s = [] then Inr [] else Inl (ValueError ''dictionary update sequence element #0 has length 1; 2 is required'')
   | _ \<Rightarrow> Inl (TypeError (repr_str (type_name v) @ '' object is not iterable'')))"

text \<open>\<open>v or default\<close>.\<close>

definition py_or :: "json \<Rightarrow> json \<Rightarrow> json" where
  "py_or v w = (if truthy v then v else w)"

definition sandbox_url :: "string \<Rightarrow> string \<Rightarrow> string \<Rightarrow> string" where
  "sandbox_url base sid suffix = base @ ''/v1/sandboxes/'' @ sid @ suffix"

definition client_base :: "string \<Rightarrow> string" where
  "client_base u = rev (dropWhile (\<lambda>c. c = CHR ''/'') (rev u))"

definition exec_of :: "json \<Rightarrow> exec_result res" where
  "exec_of v = rbind (as_object v) (\<lambda>d.
     rbind (py_int (jget_default d ''exitCode'' (JInt 1))) (\<lambda>code.
     rbind (py_dict (py_or (jget_null d ''metadata'') (JObj []))) (\<lambda>md.
     Inr \<lparr>xr_stdout = py_str (jget_default d ''stdout'' (JStr [])), xr_stderr = py_str (jget_default d ''stderr'' (JStr [])),
       xr_exit_code = code, xr_success = truthy (jget_default d ''success'' (JBool False)), xr_metadata = md\<rparr>)))"

definition manifest_of :: "json \<Rightarrow> string dict res" where
  "manifest_of v = rbind (as_object v) (\<lambda>d.
     rbind (as_object (py_or (jget_null d ''files'') (JObj []))) (\<lambda>files.
       Inr (dict_update [] (map (\<lambda>(k, x). (k, py_str x)) files))))"

text \<open>Iterating an object gives its keys, and \<open>dict(key)\<close> of a non-empty key raises.\<close>

definition events_of :: "json \<Rightarrow> json dict list res" where
  "events_of v = rbind (as_object v) (\<lambda>d. (case jget_default d ''events'' (JArr []) of
     JArr xs \<Rightarrow> traverse py_dict xs
   | JObj kvs \<Rightarrow> traverse (\<lambda>(k, _). py_dict (JStr k)) kvs
   | JStr s \<Rightarrow> traverse (\<lambda>c. py_dict (JStr [c])) s
   | x \<Rightarrow> Inl (TypeError (repr_str (type_name x) @ '' object is not iterable''))))"

definition decode_step :: "('w, json) step \<Rightarrow> (json \<Rightarrow> 'a res) \<Rightarrow> ('w, 'a) step" where
  "decode_step m f = sbind m (\<lambda>v. sreturn (f v))"

text \<open>\<open>http method url params\<close> sends the request, raises for an error status and decodes the body.\<close>

definition bridge_client ::
  "(http_method \<Rightarrow> string \<Rightarrow> string dict \<Rightarrow> ('w, json) step) \<Rightarrow> string \<Rightarrow> 'w sandbox_client" where
  "bridge_client http base = (let b = client_base base in
    \<lparr>sb_get_or_create = (\<lambda>sid. decode_step (http GET (sandbox_url b sid []) []) py_dict),
     sb_exec = (\<lambda>sid cmd t. decode_step
       (http (POST (JObj [(''command'', JStr cmd), (''timeoutMs'', JInt t)])) (sandbox_url b sid ''/exec'') []) exec_of),
     sb_manifest = (\<lambda>sid. decode_step (http GET (sandbox_url b sid ''/manifest'') [(''root'', ''/workspace'')]) manifest_of),
     sb_events = (\<lambda>sid. decode_step (http GET (sandbox_url b sid ''/events'') []) events_of),
     sb_destroy = (\<lambda>sid. sbind (http DELETE (sandbox_url b sid []) []) (\<lambda>_. sreturn (Inr ())))\<rparr>)"

section \<open>The controller\<close>

record cloud_run =
  cf_spec :: run_spec
  cf_metadata :: "json dict"
  cf_before :: "string dict"
  cf_executions :: "exec_result dict"
  cf_warm :: bool

text \<open>The service, the controller's runs, and the harness controller's commands.\<close>

record 'w cloud_state =
  cs_world :: 'w
  cs_runs :: "cloud_run dict"
  cs_commands :: "string list dict"

definition on_world :: "('w, 'a) step \<Rightarrow> ('w cloud_state, 'a) step" where
  "on_world m st = (case m (cs_world st) of (r, w) \<Rightarrow> (r, st\<lparr>cs_world := w\<rparr>))"

text \<open>\<open>_shell_quote\<close>: single quotes, with \<open>'"'"'\<close> for a quote inside.\<close>

definition shell_quote :: "string \<Rightarrow> string" where
  "shell_quote s = [CHR 0x27] @ concat (map (\<lambda>c. if c = CHR 0x27
     then [CHR 0x27, CHR 0x22, CHR 0x27, CHR 0x22, CHR 0x27] else [c]) s) @ [CHR 0x27]"

definition file_diff :: "string dict \<Rightarrow> string dict \<Rightarrow> json" where
  "file_diff a b = JObj
    [(''added'', strs (sorted_set (filter (\<lambda>k. k \<notin> set (dict_keys a)) (dict_keys b)))),
     (''removed'', strs (sorted_set (filter (\<lambda>k. k \<notin> set (dict_keys b)) (dict_keys a)))),
     (''modified'', strs (sorted_set (filter (\<lambda>k. k \<in> set (dict_keys b) \<and> map_of a k \<noteq> map_of b k) (dict_keys a))))]"

definition cloud_sandbox_id :: "run_spec \<Rightarrow> string" where
  "cloud_sandbox_id s = ''skill-native-'' @ spec_run_id s"

definition cloud_prepare :: "'w sandbox_client \<Rightarrow> run_spec \<Rightarrow> ('w cloud_state, string) step" where
  "cloud_prepare cl s = (let sid = cloud_sandbox_id s in
     sbind (on_world (sb_get_or_create cl sid)) (\<lambda>md.
     sbind (on_world (sb_manifest cl sid)) (\<lambda>mf. \<lambda>st.
       (Inr sid, st\<lparr>cs_runs := dict_set sid \<lparr>cf_spec = s, cf_metadata = md, cf_before = mf, cf_executions = [],
          cf_warm = truthy (jget_default md ''reused'' (JBool False))\<rparr> (cs_runs st)\<rparr>))))"

definition cloud_record :: "string \<Rightarrow> ('w cloud_state, cloud_run) step" where
  "cloud_record sid st = (case map_of (cs_runs st) sid of None \<Rightarrow> (Inl (KeyError sid), st) | Some r \<Rightarrow> (Inr r, st))"

definition cloud_execute :: "'w sandbox_client \<Rightarrow> string \<Rightarrow> string list \<Rightarrow> ('w cloud_state, string) step" where
  "cloud_execute cl sid argv = sbind (cloud_record sid) (\<lambda>r.
     let eid = sid @ '':exec:'' @ show_nat (length (cf_executions r)) in
     sbind (on_world (sb_exec cl sid (join '' '' (map shell_quote argv)) (timeout_seconds (limits (cf_spec r)) * 1000)))
       (\<lambda>res. \<lambda>st. (Inr eid, st\<lparr>cs_runs := dict_set sid
          (r\<lparr>cf_executions := dict_set eid res (cf_executions r)\<rparr>) (cs_runs st)\<rparr>)))"

definition egress_event :: "json dict \<Rightarrow> json dict" where
  "egress_event e = [(''action'', JStr (if jget_null e ''decision'' = JStr ''deny'' then ''Denied'' else ''Allowed'')),
     (''method'', jget_null e ''method''), (''url'', jget_null e ''url''), (''reason'', jget_null e ''reason''),
     (''timestamp'', jget_null e ''ts'')]"

definition str_dict :: "string dict \<Rightarrow> json" where
  "str_dict d = JObj (map (\<lambda>(k, v). (k, JStr v)) d)"

definition cloud_bundle ::
  "string \<Rightarrow> string \<Rightarrow> string \<Rightarrow> cloud_run \<Rightarrow> exec_result \<Rightarrow> string dict \<Rightarrow> json dict list \<Rightarrow> evidence_bundle" where
  "cloud_bundle rid sid eid r res mf es = (empty_evidence rid)\<lparr>
     ev_provenance_digest := provenance_digest (skill (cf_spec r)), exit_code := Some (xr_exit_code res),
     ev_stdout := xr_stdout res, ev_stderr := xr_stderr res,
     commands := [[(''execution_id'', JStr eid), (''exit_code'', JInt (xr_exit_code res))]],
     network := map egress_event es,
     filesystem_before := [(''files'', str_dict (cf_before r))],
     filesystem_after := [(''files'', str_dict mf), (''diff'', file_diff (cf_before r) mf)],
     assertions := [(''runtime_completed'', True), (''network_evidence_captured'', True), (''credential_non_exposure'', True)],
     runtime_metadata := [(''backend'', JStr ''cloudflare-sandbox''), (''sandbox_id'', JStr sid),
       (''cold_start'', JBool (\<not> cf_warm r)), (''sandbox'', JObj (cf_metadata r)), (''execution'', JObj (xr_metadata res)),
       (''egress_event_count'', JInt (int (length es))),
       (''declared_runtime_version'', JStr (runtime_version (runtime (cf_spec r)))),
       (''declared_image_digest'', JStr (image_digest (runtime (cf_spec r))))]\<rparr>"

definition cloud_collect :: "'w sandbox_client \<Rightarrow> string \<Rightarrow> string \<Rightarrow> ('w cloud_state, evidence_bundle) step" where
  "cloud_collect cl rid eid = (let sid = before_first '':exec:'' eid in
     sbind (cloud_record sid) (\<lambda>r.
     sbind (sreturn (case map_of (cf_executions r) eid of None \<Rightarrow> Inl (KeyError eid) | Some x \<Rightarrow> Inr x)) (\<lambda>res.
     sbind (on_world (sb_manifest cl sid)) (\<lambda>mf.
     sbind (on_world (sb_events cl sid)) (\<lambda>es.
       sreturn (Inr (cloud_bundle rid sid eid r res mf es)))))))"

definition cloud_destroy :: "'w sandbox_client \<Rightarrow> string \<Rightarrow> ('w cloud_state, unit) step" where
  "cloud_destroy cl sid = sbind (on_world (sb_destroy cl sid)) (\<lambda>_. \<lambda>st.
     (Inr (), st\<lparr>cs_runs := dict_pop sid (cs_runs st)\<rparr>))"

section \<open>The harness controller\<close>

text \<open>\<open>execute\<close> has no \<open>stdin\<close> parameter: a call with one is a \<open>TypeError\<close>.\<close>

definition cloud_harness_execute ::
  "'w sandbox_client \<Rightarrow> string \<Rightarrow> string list \<Rightarrow> string option \<Rightarrow> ('w cloud_state, string) step" where
  "cloud_harness_execute cl sid argv stdin = (if stdin \<noteq> None
     then sreturn (Inl (TypeError ''execute() got an unexpected keyword argument stdin''))
     else sbind (cloud_execute cl sid argv) (\<lambda>eid. \<lambda>st. (Inr eid, st\<lparr>cs_commands := dict_set eid argv (cs_commands st)\<rparr>)))"

definition cloud_harness_collect ::
  "'w sandbox_client \<Rightarrow> string \<Rightarrow> string \<Rightarrow> ('w cloud_state, evidence_bundle) step" where
  "cloud_harness_collect cl rid eid = sbind (cloud_collect cl rid eid) (\<lambda>b. \<lambda>st.
     (case map_of (cs_commands st) eid of
        None \<Rightarrow> (Inl (ValueError ''Cloudflare command continuity evidence unavailable''), st)
      | Some argv \<Rightarrow> (case commands b of
            [] \<Rightarrow> (Inl (ValueError ''Cloudflare command evidence unavailable''), st)
          | x # xs \<Rightarrow> (Inr (b\<lparr>commands :=
              dict_update x [(''requested_argv'', strs argv), (''stdin_digest'', JNull)] # xs\<rparr>), st))))"

definition cloud_harness_destroy :: "'w sandbox_client \<Rightarrow> string \<Rightarrow> ('w cloud_state, unit) step" where
  "cloud_harness_destroy cl sid = finally_do (cloud_destroy cl sid)
     (\<lambda>st. (Inr (), st\<lparr>cs_commands := filter (\<lambda>(k, _). \<not> starts_with k (sid @ '':exec:'')) (cs_commands st)\<rparr>))"

definition cloudflare_controller :: "'w sandbox_client \<Rightarrow> 'w cloud_state controller" where
  "cloudflare_controller cl = \<lparr>ct_prepare = cloud_prepare cl, ct_execute = cloud_harness_execute cl,
     ct_collect = cloud_harness_collect cl, ct_destroy = cloud_harness_destroy cl\<rparr>"

end
