(* ===== verification/Steps.thy ===== *)
theory Steps
  imports Kernel
begin

text \<open>
  A small calculus for the state steps of the controllers and runners: when a step succeeds, which
  fields it leaves alone (\<open>keeps\<close>), and which invariants it preserves, whatever it returns
  (\<open>preserves\<close>). Each operation has one introduction rule; a composed step is proved by \<open>intro\<close>.
\<close>

lemma sbind_Inr_iff: "sbind m f s = (Inr y, s') \<longleftrightarrow> (\<exists>x s1. m s = (Inr x, s1) \<and> f x s1 = (Inr y, s'))"
  by (auto simp: sbind_def split: prod.splits sum.splits)

lemma sreturn_eq [simp]: "sreturn r s = (r, s)"
  by (simp add: sreturn_def)

section \<open>Fields left alone\<close>

definition keeps :: "('s \<Rightarrow> 'b) \<Rightarrow> ('s, 'a) step \<Rightarrow> bool" where
  "keeps f m \<longleftrightarrow> (\<forall>s. f (snd (m s)) = f s)"

lemma keepsD: "\<lbrakk>keeps f m; m s = (r, s')\<rbrakk> \<Longrightarrow> f s' = f s"
  by (metis keeps_def snd_conv)

named_theorems keeps_intros \<open>operations that leave a field of the state alone\<close>

lemma keeps_sreturn [keeps_intros]: "keeps f (sreturn r)"
  by (simp add: keeps_def)

lemma keeps_sbind [keeps_intros]: "\<lbrakk>keeps f m; \<And>x. keeps f (g x)\<rbrakk> \<Longrightarrow> keeps f (sbind m g)"
  by (auto simp: keeps_def sbind_def case_prod_unfold split: sum.splits)

lemma keeps_if [keeps_intros]: "\<lbrakk>keeps f a; keeps f b\<rbrakk> \<Longrightarrow> keeps f (if c then a else b)"
  by simp

section \<open>Invariants\<close>

definition preserves :: "('s \<Rightarrow> bool) \<Rightarrow> ('s, 'a) step \<Rightarrow> bool" where
  "preserves I m \<longleftrightarrow> (\<forall>s. I s \<longrightarrow> I (snd (m s)))"

lemma preservesI: "(\<And>s. I s \<Longrightarrow> I (snd (m s))) \<Longrightarrow> preserves I m"
  by (simp add: preserves_def)

lemma preservesD: "\<lbrakk>preserves I m; I s; m s = (r, s')\<rbrakk> \<Longrightarrow> I s'"
  by (metis preserves_def snd_conv)

named_theorems preserves_intros \<open>operations that preserve an invariant\<close>

lemma preserves_sreturn [preserves_intros]: "preserves I (sreturn r)"
  by (simp add: preserves_def)

lemma preserves_sbind [preserves_intros]: "\<lbrakk>preserves I m; \<And>x. preserves I (g x)\<rbrakk> \<Longrightarrow> preserves I (sbind m g)"
  by (auto simp: preserves_def sbind_def case_prod_unfold split: sum.splits)

lemma preserves_if [preserves_intros]: "\<lbrakk>preserves I a; preserves I b\<rbrakk> \<Longrightarrow> preserves I (if c then a else b)"
  by simp

lemma preserves_finally [preserves_intros]: "\<lbrakk>preserves I m; preserves I k\<rbrakk> \<Longrightarrow> preserves I (finally_do m k)"
  by (simp add: preserves_def finally_do_def case_prod_unfold split: sum.splits)

lemma preserves_conj: "\<lbrakk>preserves I m; preserves J m\<rbrakk> \<Longrightarrow> preserves (\<lambda>s. I s \<and> J s) m"
  by (simp add: preserves_def)

text \<open>A change of the state that cannot fail.\<close>

definition modify :: "('s \<Rightarrow> 's) \<Rightarrow> ('s, unit) step" where
  "modify f s = (Inr (), f s)"

lemma modify_eq [simp]: "modify f s = (Inr (), f s)"
  by (simp add: modify_def)

lemma preserves_modify: "(\<And>s. I s \<Longrightarrow> I (f s)) \<Longrightarrow> preserves I (modify f)"
  by (simp add: preserves_def)

end
