(* ===== verification/ControllerProperties.thy ===== *)
theory ControllerProperties
  imports OpenShell CloudflareRuntime Steps
begin

text \<open>
  The runtime controllers: what a compiled policy grants, what a prepared OpenShell sandbox has passed,
  what becomes of a sandbox whose preparation fails, that an input goes with one command, and that the
  evidence collected is bound to the plan's command.
\<close>

section \<open>Calls of the command line\<close>

lemma run_cli_unarmed: "ss_armed st = None \<Longrightarrow> run_cli env argv t st =
   (let hist = \<lparr>sc_argv = argv, sc_timeout = t, sc_input = None\<rparr> # ss_calls st in (se_run env hist, st\<lparr>ss_calls := hist\<rparr>))"
  by (simp add: run_cli_def call_def)

lemma run_cli_keeps [keeps_intros]:
  "keeps ss_runs (run_cli env argv t)" "keeps ss_temp (run_cli env argv t)" "keeps ss_continuity (run_cli env argv t)"
  by (auto simp: keeps_def run_cli_def call_def Let_def split: option.splits)

text \<open>A step that runs without an armed input: it stays unarmed and its calls carry no input.\<close>

definition quiet :: "(string list \<Rightarrow> bool) \<Rightarrow> (shell_state, 'a) step \<Rightarrow> bool" where
  "quiet P m \<longleftrightarrow> (\<forall>st. ss_armed st = None \<longrightarrow> ss_armed (snd (m st)) = None
     \<and> (\<exists>new. ss_calls (snd (m st)) = new @ ss_calls st \<and> (\<forall>c \<in> set new. sc_input c = None \<and> P (sc_argv c))))"

lemma quietD: "\<lbrakk>quiet P m; m st = (r, st'); ss_armed st = None\<rbrakk> \<Longrightarrow> ss_armed st' = None
    \<and> (\<exists>new. ss_calls st' = new @ ss_calls st \<and> (\<forall>c \<in> set new. sc_input c = None \<and> P (sc_argv c)))"
  unfolding quiet_def by (drule spec [of _ st]) simp

named_theorems quiet_intros \<open>operations whose calls carry no input\<close>

lemma quiet_sreturn [quiet_intros]: "quiet P (sreturn r)"
  by (simp add: quiet_def)

lemma quiet_run_cli [quiet_intros]: "P argv \<Longrightarrow> quiet P (run_cli env argv t)"
  by (simp add: quiet_def run_cli_unarmed Let_def)

lemma quiet_sbind [quiet_intros]:
  assumes "quiet P m" "\<And>x. quiet P (g x)"
  shows "quiet P (sbind m g)"
  unfolding quiet_def
proof (intro allI impI)
  fix st :: shell_state assume a: "ss_armed st = None"
  obtain r s1 where m: "m st = (r, s1)" by (cases "m st")
  with assms(1) a obtain n1 where 1: "ss_armed s1 = None" "ss_calls s1 = n1 @ ss_calls st"
    "\<forall>c \<in> set n1. sc_input c = None \<and> P (sc_argv c)" by (auto simp: quiet_def dest: spec [of _ st])
  show "ss_armed (snd (sbind m g st)) = None \<and> (\<exists>new. ss_calls (snd (sbind m g st)) = new @ ss_calls st
      \<and> (\<forall>c \<in> set new. sc_input c = None \<and> P (sc_argv c)))"
  proof (cases r)
    case (Inl e)
    then show ?thesis using m 1 by (simp add: sbind_def)
  next
    case (Inr x)
    obtain n2 where "ss_armed (snd (g x s1)) = None" "ss_calls (snd (g x s1)) = n2 @ ss_calls s1"
      "\<forall>c \<in> set n2. sc_input c = None \<and> P (sc_argv c)"
      using assms(2) [of x] 1(1) by (auto simp: quiet_def)
    then show ?thesis using m 1 Inr by (auto simp: sbind_def intro!: exI [of _ "n2 @ n1"])
  qed
qed

lemma quiet_if [quiet_intros]: "\<lbrakk>quiet P a; quiet P b\<rbrakk> \<Longrightarrow> quiet P (if c then a else b)"
  by simp

lemma quiet_fail_cleanup [quiet_intros]: "quiet P (fail_cleanup d e)"
  by (simp add: quiet_def fail_cleanup_def cleanup_dir_def)

section \<open>Frames of the controller\<close>

lemma json_command_keeps [keeps_intros]:
  "keeps ss_runs (json_command env argv)" "keeps ss_continuity (json_command env argv)"
  unfolding json_command_def by (intro keeps_intros)+

lemma credential_probe_keeps [keeps_intros]:
  "keeps ss_runs (credential_probe env sid ns)" "keeps ss_continuity (credential_probe env sid ns)"
  unfolding credential_probe_def by (intro keeps_intros)+

lemma filesystem_manifest_keeps [keeps_intros]:
  "keeps ss_runs (filesystem_manifest env sid)" "keeps ss_continuity (filesystem_manifest env sid)"
  unfolding filesystem_manifest_def by (intro keeps_intros)+

lemma fail_cleanup_keeps [keeps_intros]:
  "keeps ss_runs (fail_cleanup d e)" "keeps ss_continuity (fail_cleanup d e)"
  by (simp_all add: keeps_def fail_cleanup_def cleanup_dir_def)

lemma run_cli_Inr: "run_cli env argv t st = (Inr r, st') \<Longrightarrow> \<exists>hist. se_run env hist = Inr r \<and> sc_argv (hd hist) = argv"
  by (auto simp: run_cli_def call_def Let_def split: option.splits if_splits)

lemma quiet_sbind_dep:
  assumes "quiet P m" "\<And>x s s1. m s = (Inr x, s1) \<Longrightarrow> quiet P (g x)"
  shows "quiet P (sbind m g)"
proof -
  have "quiet P (if \<exists>s s1. m s = (Inr x, s1) then g x else sreturn (Inl (KeyError [])))" for x
    using assms(2) quiet_sreturn by auto
  then have "quiet P (sbind m (\<lambda>x. if \<exists>s s1. m s = (Inr x, s1) then g x else sreturn (Inl (KeyError []))))"
    by (rule quiet_sbind [OF assms(1)])
  moreover have "sbind m (\<lambda>x. if \<exists>s s1. m s = (Inr x, s1) then g x else sreturn (Inl (KeyError []))) = sbind m g"
    by (rule ext) (auto simp: sbind_def split: prod.splits sum.splits)
  ultimately show ?thesis by simp
qed

lemma quiet_json_command [quiet_intros]: "P argv \<Longrightarrow> quiet P (json_command env argv)"
  unfolding json_command_def by (intro quiet_intros)

lemma quiet_update:
  "(\<And>st. ss_armed (snd (m st)) = ss_armed st \<and> ss_calls (snd (m st)) = ss_calls st) \<Longrightarrow> quiet P m"
  by (simp add: quiet_def)

section \<open>Failed preparations\<close>

text \<open>The only call that deletes a sandbox in \<open>prepare\<close> follows a failed switch to OCSF.\<close>

definition ocsf_refused :: "shell_env \<Rightarrow> string \<Rightarrow> bool" where
  "ocsf_refused env name \<longleftrightarrow> (\<exists>hist r. se_run env hist = Inr r \<and> sc_argv (hd hist) = ocsf_argv env name \<and> cr_returncode r \<noteq> 0)"

lemma quiet_inspect:
  "quiet (\<lambda>a. a = delete_argv env name \<longrightarrow> ocsf_refused env name) (inspect_sandbox env s name dir yaml status gateway)"
proof -
  let ?P = "\<lambda>a. a = delete_argv env name \<longrightarrow> ocsf_refused env name"
  have reg: "quiet ?P (register_run env s name dir yaml status gateway md att)" for md att
    unfolding register_run_def credential_probe_def filesystem_manifest_def
    by (intro quiet_intros; (rule quiet_update)?) (simp_all add: delete_argv_def)
  have ocsf: "quiet ?P (sbind (run_cli env (ocsf_argv env name) 30) (\<lambda>ocsf.
       if cr_returncode ocsf \<noteq> 0
       then sbind (run_cli env (delete_argv env name) 60)
              (\<lambda>_. fail_cleanup dir (OpenShellError (''failed to enable OCSF JSON export: '' @ strip (cr_stderr ocsf))))
       else register_run env s name dir yaml status gateway md att))" for md att
  proof (rule quiet_sbind_dep)
    fix x s0 s1 assume run: "run_cli env (ocsf_argv env name) 30 s0 = (Inr x, s1)"
    show "quiet ?P (if cr_returncode x \<noteq> 0
       then sbind (run_cli env (delete_argv env name) 60)
              (\<lambda>_. fail_cleanup dir (OpenShellError (''failed to enable OCSF JSON export: '' @ strip (cr_stderr x))))
       else register_run env s name dir yaml status gateway md att)"
    proof (cases "cr_returncode x = 0")
      case True
      then show ?thesis using reg by simp
    next
      case False
      then have "ocsf_refused env name" using run_cli_Inr [OF run] by (auto simp: ocsf_refused_def)
      then show ?thesis using False by (simp add: quiet_sbind quiet_run_cli quiet_fail_cleanup)
    qed
  qed (rule quiet_run_cli, simp add: ocsf_argv_def delete_argv_def)
  show ?thesis
    unfolding inspect_sandbox_def
    by (intro quiet_sbind quiet_json_command quiet_sreturn ocsf) (simp add: delete_argv_def)
qed

text \<open>A step whose failures leave the tables of the controller alone.\<close>

definition clean_failure :: "(shell_state, 'a) step \<Rightarrow> bool" where
  "clean_failure m \<longleftrightarrow> (\<forall>st e st'. m st = (Inl e, st') \<longrightarrow> ss_runs st' = ss_runs st \<and> ss_continuity st' = ss_continuity st)"

lemma clean_bind: "\<lbrakk>keeps ss_runs m; keeps ss_continuity m; \<And>x. clean_failure (g x)\<rbrakk> \<Longrightarrow> clean_failure (sbind m g)"
  by (fastforce simp: clean_failure_def sbind_def split: prod.splits sum.splits dest: keepsD)

lemma clean_keeps: "\<lbrakk>keeps ss_runs m; keeps ss_continuity m\<rbrakk> \<Longrightarrow> clean_failure m"
  by (auto simp: clean_failure_def dest: keepsD)

lemma clean_if: "\<lbrakk>clean_failure a; clean_failure b\<rbrakk> \<Longrightarrow> clean_failure (if c then a else b)"
  by simp

lemma clean_inspect: "clean_failure (inspect_sandbox env s name dir yaml status gateway)"
proof -
  have reg: "clean_failure (register_run env s name dir yaml status gateway md att)" for md att
    unfolding register_run_def by (intro clean_bind keeps_intros) (simp add: clean_failure_def)
  have refused: "clean_failure (sbind (run_cli env a t) (\<lambda>_. fail_cleanup d x :: (shell_state, string) step))" for a t d x
    by (intro clean_keeps keeps_intros)
  show ?thesis
    unfolding inspect_sandbox_def by (intro clean_bind clean_if keeps_intros refused reg)
qed

lemma clean_prepare_steps:
  "clean_failure (sbind (json_command env a) (\<lambda>status. sbind (json_command env b) (\<lambda>gateway.
     sbind (run_cli env c t) (\<lambda>create. if cr_returncode create \<noteq> 0 then fail_cleanup dir (err create)
       else inspect_sandbox env s name dir yaml status gateway))))"
  by (intro clean_bind clean_if keeps_intros clean_inspect clean_keeps)

lemma prepare_steps:
  assumes "shell_prepare env s st = (out, st')" "ss_armed st = None"
  shows "ss_armed st' = None \<and> (\<forall>e. out = Inl e \<longrightarrow> ss_runs st' = ss_runs st \<and> ss_continuity st' = ss_continuity st)
    \<and> (\<exists>new. ss_calls st' = new @ ss_calls st \<and> (\<forall>c \<in> set new. sc_input c = None
        \<and> (sc_argv c = delete_argv env (sandbox_name (spec_run_id s)) \<longrightarrow> ocsf_refused env (sandbox_name (spec_run_id s)))))"
proof (cases "compile_policy s")
  case (Inl e)
  then show ?thesis using assms by (auto simp: shell_prepare_def)
next
  case (Inr pol)
  let ?name = "sandbox_name (spec_run_id s)"
  let ?dir = "se_tempdir env (length (ss_calls st))"
  let ?yaml = "se_yaml_dump env pol"
  let ?P = "\<lambda>a. a = delete_argv env ?name \<longrightarrow> ocsf_refused env ?name"
  let ?steps = "sbind (json_command env [se_binary env, ''status'', ''--output'', ''json'']) (\<lambda>status.
          sbind (json_command env [se_binary env, ''gateway'', ''info'', ''-o'', ''json'']) (\<lambda>gateway.
          sbind (run_cli env (create_argv env s ?name ?dir) (timeout_seconds (limits s))) (\<lambda>create.
            if cr_returncode create \<noteq> 0
            then fail_cleanup ?dir (OpenShellError (''sandbox create failed: '' @ strip (cr_stderr create)))
            else inspect_sandbox env s ?name ?dir ?yaml status gateway)))"
  have run: "?steps (st\<lparr>ss_temp := ?dir # ss_temp st\<rparr>) = (out, st')"
    using assms(1) Inr unfolding shell_prepare_def by (simp only: sum.case Let_def)
  have "clean_failure ?steps" by (rule clean_prepare_steps)
  with run have tables: "\<forall>e. out = Inl e \<longrightarrow> ss_runs st' = ss_runs st \<and> ss_continuity st' = ss_continuity st"
    unfolding clean_failure_def by fastforce
  have "quiet ?P ?steps"
    by (intro quiet_sbind quiet_json_command quiet_run_cli quiet_if quiet_fail_cleanup quiet_inspect)
      (simp_all add: delete_argv_def create_argv_def)
  from quietD [OF this run] assms(2)
  have "ss_armed st' = None \<and> (\<exists>new. ss_calls st' = new @ ss_calls st \<and> (\<forall>c \<in> set new. sc_input c = None \<and> ?P (sc_argv c)))"
    by simp
  with tables show ?thesis by blast
qed

text \<open>A preparation that fails registers nothing, so nobody can destroy its sandbox later; and it
  deletes a sandbox itself only when the switch to OCSF was refused: when the sandbox was created and
  the attestation, the credential probe or the manifest fails, the sandbox stays.\<close>

theorem failed_preparation_leaks:
  assumes "shell_prepare env s st = (Inl e, st')" and "ss_armed st = None"
  shows "ss_runs st' = ss_runs st \<and> ss_continuity st' = ss_continuity st
    \<and> (\<exists>new. ss_calls st' = new @ ss_calls st \<and> (\<forall>c \<in> set new. sc_input c = None)
        \<and> ((\<exists>c \<in> set new. sc_argv c = delete_argv env (sandbox_name (spec_run_id s)))
             \<longrightarrow> ocsf_refused env (sandbox_name (spec_run_id s))))"
  using prepare_steps [OF assms] by blast

section \<open>Successful preparations\<close>

definition probe_argv :: "shell_env \<Rightarrow> string \<Rightarrow> string list \<Rightarrow> string list" where
  "probe_argv env sid names = [se_binary env, ''sandbox'', ''exec'', ''-n'', sid, ''--no-tty'', ''--'', ''python3'', ''-c'',
     probe_script names]"

text \<open>The probe ran in the sandbox and none of the names had a value that is not a placeholder.\<close>

definition no_raw_credential :: "shell_env \<Rightarrow> string \<Rightarrow> string list \<Rightarrow> bool" where
  "no_raw_credential env sid names \<longleftrightarrow> (\<exists>hist r vs. se_run env hist = Inr r \<and> sc_argv (hd hist) = probe_argv env sid names
     \<and> cr_returncode r = 0 \<and> loads (if strip (cr_stdout r) = [] then ''{}'' else strip (cr_stdout r)) = Some (JObj vs)
     \<and> (\<forall>n \<in> set names. jget_null vs n = JNull \<or> (\<exists>m \<in> set placeholder_markers. contains (py_str (jget_null vs n)) m)))"

lemma probe_result_Inr:
  assumes "probe_result names r = Inr v"
  shows "cr_returncode r = 0 \<and> (\<exists>vs. loads (if strip (cr_stdout r) = [] then ''{}'' else strip (cr_stdout r)) = Some (JObj vs)
    \<and> (\<forall>n \<in> set names. jget_null vs n = JNull \<or> (\<exists>m \<in> set placeholder_markers. contains (py_str (jget_null vs n)) m)))"
  using assms
  by (auto simp: probe_result_def Let_def guards_Inr_iff filter_empty_conv is_exposed_def is_placeholder_def is_missing_def
      list_ex_iff split: if_splits option.splits json.splits)

lemma credential_probe_Inr:
  assumes "credential_probe env sid names st = (Inr v, st')" "names \<noteq> []"
  shows "no_raw_credential env sid names"
proof -
  obtain r s1 where r: "run_cli env (probe_argv env sid names) 30 st = (Inr r, s1)" "probe_result names r = Inr v"
    using assms by (auto simp: credential_probe_def probe_argv_def sbind_Inr_iff)
  then show ?thesis
    using run_cli_Inr [OF r(1)] probe_result_Inr [OF r(2)] unfolding no_raw_credential_def by blast
qed

lemma attest_Inr:
  assumes "attest_runtime s status gateway md = Inr v"
  shows "\<not> mismatch (strip (runtime_version (runtime s))) (observed_version status gateway)
    \<and> \<not> mismatch (strip (image_digest (runtime s))) (observed_image md)"
  using assms by (auto simp: attest_runtime_def Let_def guards_Inr_iff)

lemma register_Inr:
  assumes "register_run env s name dir yaml status gateway md att st = (Inr n, st')"
  shows "n = name \<and> (secret_env_names (policy s) \<noteq> [] \<longrightarrow> no_raw_credential env name (secret_env_names (policy s)))
    \<and> (\<exists>r. ss_runs st' = dict_set name r (ss_runs st) \<and> sr_spec r = s \<and> sr_yaml r = yaml \<and> sr_status r = status
        \<and> sr_gateway r = gateway \<and> sr_metadata r = md \<and> sr_attestation r = att \<and> sr_executions r = []
        \<and> jget (sr_probe r) ''passed'' = Some (JBool True))"
proof -
  obtain probe s1 mf s2 where steps: "credential_probe env name (secret_env_names (policy s)) st = (Inr probe, s1)"
      "filesystem_manifest env name s1 = (Inr mf, s2)" "n = name"
      "st' = s2\<lparr>ss_runs := dict_set name \<lparr>sr_spec = s, sr_tempdir = dir, sr_yaml = yaml,
          sr_policy_hash = text_digest yaml, sr_metadata = md, sr_status = status, sr_gateway = gateway,
          sr_attestation = att, sr_probe = probe, sr_before = mf, sr_executions = []\<rparr> (ss_runs s2)\<rparr>"
    using assms by (auto simp: register_run_def sbind_Inr_iff)
  have "ss_runs s2 = ss_runs st"
    using keepsD [OF credential_probe_keeps(1) steps(1)] keepsD [OF filesystem_manifest_keeps(1) steps(2)] by simp
  moreover have "jget probe ''passed'' = Some (JBool True)"
    using steps(1) by (auto simp: credential_probe_def probe_result_def sbind_Inr_iff guards_Inr_iff jget_def Let_def
        split: if_splits option.splits json.splits)
  ultimately show ?thesis using steps credential_probe_Inr [OF steps(1)]
    by (intro conjI exI [of _ "\<lparr>sr_spec = s, sr_tempdir = dir, sr_yaml = yaml,
          sr_policy_hash = text_digest yaml, sr_metadata = md, sr_status = status, sr_gateway = gateway,
          sr_attestation = att, sr_probe = probe, sr_before = mf, sr_executions = []\<rparr>"]) simp_all
qed

text \<open>What \<open>prepare\<close> has established when it returns the name of a sandbox.\<close>

lemma prepare_Inr:
  assumes "shell_prepare env s st = (Inr name, st')"
  obtains pol r where "compile_policy s = Inr pol" "name = sandbox_name (spec_run_id s)"
    "ss_runs st' = dict_set name r (ss_runs st)" "sr_spec r = s" "sr_yaml r = se_yaml_dump env pol"
    "sr_executions r = []" "jget (sr_probe r) ''passed'' = Some (JBool True)"
    "attest_runtime s (sr_status r) (sr_gateway r) (sr_metadata r) = Inr (sr_attestation r)"
    "secret_env_names (policy s) \<noteq> [] \<longrightarrow> no_raw_credential env name (secret_env_names (policy s))"
proof -
  obtain pol where pol: "compile_policy s = Inr pol"
    using assms by (cases "compile_policy s") (auto simp: shell_prepare_def)
  let ?name = "sandbox_name (spec_run_id s)"
  let ?dir = "se_tempdir env (length (ss_calls st))"
  obtain status s1 gateway s2 create s3 where
    a: "json_command env [se_binary env, ''status'', ''--output'', ''json''] (st\<lparr>ss_temp := ?dir # ss_temp st\<rparr>) = (Inr status, s1)"
      "json_command env [se_binary env, ''gateway'', ''info'', ''-o'', ''json''] s1 = (Inr gateway, s2)"
      "run_cli env (create_argv env s ?name ?dir) (timeout_seconds (limits s)) s2 = (Inr create, s3)"
      "(if cr_returncode create \<noteq> 0
            then fail_cleanup ?dir (OpenShellError (''sandbox create failed: '' @ strip (cr_stderr create)))
            else inspect_sandbox env s ?name ?dir (se_yaml_dump env pol) status gateway) s3 = (Inr name, st')"
    using assms unfolding shell_prepare_def pol sum.case Let_def sbind_Inr_iff by blast
  have "inspect_sandbox env s ?name ?dir (se_yaml_dump env pol) status gateway s3 = (Inr name, st')"
    using a(4) by (simp add: fail_cleanup_def split: if_splits)
  then obtain md s4 att ocsf s5 where
    b: "json_command env [se_binary env, ''sandbox'', ''get'', ?name, ''--output'', ''json''] s3 = (Inr md, s4)"
      "attest_runtime s status gateway md = Inr att"
      "run_cli env (ocsf_argv env ?name) 30 s4 = (Inr ocsf, s5)"
      "(if cr_returncode ocsf \<noteq> 0
       then sbind (run_cli env (delete_argv env ?name) 60)
              (\<lambda>_. fail_cleanup ?dir (OpenShellError (''failed to enable OCSF JSON export: '' @ strip (cr_stderr ocsf))))
       else register_run env s ?name ?dir (se_yaml_dump env pol) status gateway md att) s5 = (Inr name, st')"
    unfolding inspect_sandbox_def sbind_Inr_iff sreturn_eq by auto
  have reg: "register_run env s ?name ?dir (se_yaml_dump env pol) status gateway md att s5 = (Inr name, st')"
    using b(4) by (cases "cr_returncode ocsf = 0") (auto simp: sbind_Inr_iff fail_cleanup_def)
  have "ss_runs s5 = ss_runs st"
    using keepsD [OF json_command_keeps(1) a(1)] keepsD [OF json_command_keeps(1) a(2)] keepsD [OF run_cli_keeps(1) a(3)]
      keepsD [OF json_command_keeps(1) b(1)] keepsD [OF run_cli_keeps(1) b(3)] by simp
  from register_Inr [OF reg] obtain r where r: "name = ?name" "ss_runs st' = dict_set ?name r (ss_runs s5)" "sr_spec r = s"
    "sr_yaml r = se_yaml_dump env pol" "sr_status r = status" "sr_gateway r = gateway" "sr_metadata r = md"
    "sr_attestation r = att" "sr_executions r = []" "jget (sr_probe r) ''passed'' = Some (JBool True)"
    "secret_env_names (policy s) \<noteq> [] \<longrightarrow> no_raw_credential env ?name (secret_env_names (policy s))"
    by (elim conjE exE) (rule that; assumption)
  show ?thesis by (rule that [of pol r]) (use r b(2) pol \<open>ss_runs s5 = ss_runs st\<close> in simp_all)
qed


section \<open>The input of a command\<close>

text \<open>Executing a command makes at most one call of the command line, the one that runs the command
  in the sandbox, and exactly that call carries the input; afterwards no input is armed, whatever
  happened.\<close>

theorem input_streamed_once:
  assumes "harness_execute env sid argv stdin st = (out, st')" and "ss_armed st = None"
  shows "ss_armed st' = None
    \<and> (\<exists>new. ss_calls st' = new @ ss_calls st \<and> length new \<le> 1
        \<and> (\<forall>c \<in> set new. sc_input c = stdin \<and> (\<exists>t. sc_argv c = exec_argv env sid t argv))
        \<and> (\<forall>eid. out = Inr eid \<longrightarrow> length new = 1))"
proof (cases "map_of (ss_runs st) sid")
  case None
  then show ?thesis using assms
    by (cases stdin) (auto simp: harness_execute_def sbind_def arm_def finally_do_def shell_execute_def require_run_def
        clear_input_def)
next
  case (Some r)
  then show ?thesis using assms
    by (cases stdin)
      (auto simp: harness_execute_def sbind_def arm_def finally_do_def shell_execute_def require_run_def
        clear_input_def run_cli_def call_def Let_def split: prod.splits sum.splits if_splits)
qed

section \<open>Evidence\<close>

lemma before_first_char:
  assumes "c \<notin> set s"
  shows "before_first (c # t) (s @ (c # t) @ u) = s"
  using assms
proof (induction s)
  case Nil
  then show ?case by (simp add: starts_with_def)
next
  case (Cons x xs)
  then have "\<not> starts_with (x # xs @ (c # t) @ u) (c # t)" by (auto simp: starts_with_def)
  with Cons show ?case by simp
qed

lemma set_sub_runs: "set (sub_runs ok s) \<subseteq> {c. ok c} \<union> {CHR ''-''}"
  by (induction ok s rule: sub_runs.induct) auto

lemma sandbox_name_no_colon: "CHR '':'' \<notin> set (sandbox_name r)"
proof -
  let ?clean = "strip_dashes (sub_runs name_char (lower r))"
  have "set ?clean \<subseteq> set (sub_runs name_char (lower r))"
    by (auto simp: strip_dashes_def strip_set_def dest!: set_dropWhileD)
  then have clean: "CHR '':'' \<notin> set ?clean"
    using set_sub_runs [of name_char "lower r"] by (auto simp: name_char_def is_digit_char_def less_eq_char_def)
  have "is_hex64 (text_digest r)" by (simp add: text_digest_def sha.digest_hex)
  then have "list_all is_lhex (text_digest r)" by (simp add: is_hex_def)
  moreover have "\<not> is_lhex (CHR '':'')" by code_simp
  ultimately have "CHR '':'' \<notin> set (text_digest r)" by (auto simp: list_all_iff)
  then have "CHR '':'' \<notin> set (take 8 (text_digest r))" by (meson in_set_takeD)
  moreover have "CHR '':'' \<notin> set (take 36 (if ?clean = [] then ''run'' else ?clean))"
  proof
    assume "CHR '':'' \<in> set (take 36 (if ?clean = [] then ''run'' else ?clean))"
    then have "CHR '':'' \<in> set (if ?clean = [] then ''run'' else ?clean)" by (rule in_set_takeD)
    then show False using clean by (auto split: if_splits)
  qed
  moreover have "CHR '':'' \<notin> set ''skill-native-''" "CHR '':'' \<notin> set ''-''" by code_simp+
  ultimately show ?thesis unfolding sandbox_name_def Let_def set_append by blast
qed

lemma sandbox_name_cut: "before_first '':exec:'' (sandbox_name r @ '':exec:'' @ n) = sandbox_name r"
  using before_first_char [OF sandbox_name_no_colon, of "''exec:''" r n] by simp

text \<open>A successful execution: the call that ran it and its entry in the tables.\<close>

lemma harness_execute_Inr:
  assumes "harness_execute env sid argv stdin st = (Inr eid, st')" "ss_armed st = None"
  obtains r hist res where "map_of (ss_runs st) sid = Some r" "eid = sid @ '':exec:'' @ show_nat (length (sr_executions r))"
    "se_run env hist = Inr res" "sc_argv (hd hist) = exec_argv env sid (timeout_seconds (limits (sr_spec r))) argv"
    "sc_input (hd hist) = stdin"
    "ss_runs st' = dict_set sid (r\<lparr>sr_executions := dict_set eid res (sr_executions r)\<rparr>) (ss_runs st)"
    "ss_continuity st' = dict_set eid [(''requested_argv'', strs argv),
       (''stdin_digest'', opt_str (map_option text_digest stdin))] (ss_continuity st)"
proof (cases "map_of (ss_runs st) sid")
  case None
  then show ?thesis using assms
    by (cases stdin) (auto simp: harness_execute_def sbind_def arm_def finally_do_def shell_execute_def require_run_def
        clear_input_def)
next
  case (Some r)
  let ?eid = "sid @ '':exec:'' @ show_nat (length (sr_executions r))"
  let ?t = "timeout_seconds (limits (sr_spec r))"
  let ?hist = "\<lparr>sc_argv = exec_argv env sid ?t argv, sc_timeout = ?t + 15, sc_input = stdin\<rparr> # ss_calls st"
  have "\<exists>res. se_run env ?hist = Inr res \<and> eid = ?eid
      \<and> ss_runs st' = dict_set sid (r\<lparr>sr_executions := dict_set eid res (sr_executions r)\<rparr>) (ss_runs st)
      \<and> ss_continuity st' = dict_set eid [(''requested_argv'', strs argv),
          (''stdin_digest'', opt_str (map_option text_digest stdin))] (ss_continuity st)"
    using assms Some
    by (cases stdin)
      (auto simp: harness_execute_def sbind_def arm_def finally_do_def shell_execute_def require_run_def
        clear_input_def run_cli_def call_def Let_def simp del: append.simps split: prod.splits sum.splits if_splits)
  then show ?thesis using Some that [of r ?hist] by auto
qed

lemma shell_collect_Inr:
  assumes "shell_collect env rid eid st = (Inr ev, st')" "before_first '':exec:'' eid = sid"
  obtains r res mf es nets pol compiled logs where "map_of (ss_runs st) sid = Some r" "map_of (sr_executions r) eid = Some res"
    "es \<noteq> []" "ocsf_network es = Inr nets" "ev = shell_bundle rid eid r res mf es nets pol compiled logs sid"
proof -
  from assms(1) obtain r s0 res s00 mf s1 pol s2 logs s3 es s4 nets s5 compiled s6 where
    steps: "require_run sid st = (Inr r, s0)"
      "(case map_of (sr_executions r) eid of None \<Rightarrow> Inl (KeyError eid) | Some x \<Rightarrow> Inr x) = Inr res"
      "filesystem_manifest env sid s00 = (Inr mf, s1)" "effective_policy env sid s1 = (Inr pol, s2)"
      "sandbox_logs env sid s2 = (Inr logs, s3)" "ocsf_evidence env sid s3 = (Inr es, s4)" "ocsf_network es = Inr nets"
      "ev = shell_bundle rid eid r res mf es nets pol compiled logs sid"
    unfolding shell_collect_def Let_def sbind_Inr_iff sreturn_eq assms(2) by blast
  moreover have "map_of (sr_executions r) eid = Some res" using steps(2) by (simp split: option.splits)
  moreover have "es \<noteq> []" using steps(6) by (auto simp: ocsf_evidence_def sbind_Inr_iff Let_def split: if_splits)
  moreover have "map_of (ss_runs st) sid = Some r" using steps(1) by (auto simp: require_run_def split: option.splits)
  ultimately show ?thesis using that by blast
qed

lemma shell_collect_keeps: "keeps ss_continuity (shell_collect env rid eid)"
proof -
  have "keeps ss_continuity (require_run sid)" for sid
    by (auto simp: keeps_def require_run_def split: option.splits)
  then show ?thesis
    unfolding shell_collect_def effective_policy_def sandbox_logs_def ocsf_evidence_def Let_def by (intro keeps_intros)
qed

text \<open>The evidence of a command prepared, executed and collected on the OpenShell controller is bound to
  it: it carries the run id and the provenance, the record of exactly the requested command and input,
  the exit code and streams of the one call that ran it, and the network events of a non-empty OCSF log,
  and every assertion it makes is true.\<close>

theorem openshell_evidence_bound:
  assumes "shell_prepare env s st = (Inr sid, st1)" and "harness_execute env sid argv stdin st1 = (Inr eid, st2)"
    and "harness_collect env (spec_run_id s) eid st2 = (Inr ev, st3)" and "ss_armed st = None"
  shows "ev_run_id ev = spec_run_id s \<and> ev_provenance_digest ev = provenance_digest (skill s)
    \<and> (\<exists>r. commands ev = [r] \<and> records_command argv stdin r \<and> map_of r ''execution_id'' = Some (JStr eid))
    \<and> (\<exists>hist res. se_run env hist = Inr res \<and> sc_argv (hd hist) = exec_argv env sid (timeout_seconds (limits s)) argv
        \<and> sc_input (hd hist) = stdin \<and> exit_code ev = Some (cr_returncode res) \<and> ev_stdout ev = cr_stdout res
        \<and> ev_stderr ev = cr_stderr res)
    \<and> ocsf_events ev \<noteq> [] \<and> network ev = filter (has_class [4001, 4002]) (ocsf_events ev)
    \<and> list_all snd (assertions ev)"
proof -
  obtain pol r where p: "sid = sandbox_name (spec_run_id s)" "ss_runs st1 = dict_set sid r (ss_runs st)" "sr_spec r = s"
    "sr_executions r = []" "jget (sr_probe r) ''passed'' = Some (JBool True)"
    by (rule prepare_Inr [OF assms(1)])
  have unarmed: "ss_armed st1 = None" using prepare_steps [OF assms(1,4)] by simp
  obtain r1 hist res where x: "map_of (ss_runs st1) sid = Some r1" "eid = sid @ '':exec:'' @ show_nat (length (sr_executions r1))"
    "se_run env hist = Inr res" "sc_argv (hd hist) = exec_argv env sid (timeout_seconds (limits (sr_spec r1))) argv"
    "sc_input (hd hist) = stdin"
    "ss_runs st2 = dict_set sid (r1\<lparr>sr_executions := dict_set eid res (sr_executions r1)\<rparr>) (ss_runs st1)"
    "ss_continuity st2 = dict_set eid [(''requested_argv'', strs argv),
       (''stdin_digest'', opt_str (map_option text_digest stdin))] (ss_continuity st1)"
    by (rule harness_execute_Inr [OF assms(2) unarmed])
  have r1: "r1 = r" using x(1) p(2) by simp
  have cut: "before_first '':exec:'' eid = sid" using x(2) p(1) sandbox_name_cut by simp
  obtain b s3 where b: "shell_collect env (spec_run_id s) eid st2 = (Inr b, s3)"
    "(case map_of (ss_continuity s3) eid of
        None \<Rightarrow> (Inl (OpenShellError ''OpenShell command continuity evidence unavailable''), s3)
      | Some c \<Rightarrow> (case commands b of
            [] \<Rightarrow> (Inl (OpenShellError ''OpenShell command evidence unavailable''), s3)
          | y # ys \<Rightarrow> (Inr (b\<lparr>commands := dict_update y c # ys\<rparr>), s3))) = (Inr ev, st3)"
    using assms(3) unfolding harness_collect_def sbind_Inr_iff by blast
  obtain r2 res2 mf es nets pl compiled logs where c: "map_of (ss_runs st2) sid = Some r2" "map_of (sr_executions r2) eid = Some res2"
    "es \<noteq> []" "ocsf_network es = Inr nets" "b = shell_bundle (spec_run_id s) eid r2 res2 mf es nets pl compiled logs sid"
    by (rule shell_collect_Inr [OF b(1) cut])
  have r2: "r2 = r\<lparr>sr_executions := [(eid, res)]\<rparr>" "res2 = res"
    using c(1,2) x(6) r1 p(4) by auto
  have cont: "ss_continuity s3 = ss_continuity st2" by (rule keepsD [OF shell_collect_keeps b(1)])
  have ev: "ev = b\<lparr>commands := dict_update [(''execution_id'', JStr eid), (''argv'', strs (cr_argv res)),
      (''exit_code'', JInt (cr_returncode res))] [(''requested_argv'', strs argv),
       (''stdin_digest'', opt_str (map_option text_digest stdin))] # []\<rparr>"
    using b(2) cont x(7) c(5) r2 by (simp add: shell_bundle_def)
  have nets: "nets = filter (has_class [4001, 4002]) es" using c(4) by (auto simp: ocsf_network_def split: option.splits)
  show ?thesis
    using x(3,4,5) r1 p(3,5) c(3) nets
    unfolding ev c(5) r2
    by (simp add: shell_bundle_def empty_evidence_def records_command_def jget_default_def jget_null_def dict_update_def)
      blast
qed

section \<open>The compiled policy\<close>

lemma length_show_nat: "n < 10 ^ Suc k \<Longrightarrow> length (show_nat n) \<le> Suc k"
proof (induction k arbitrary: n)
  case 0
  then show ?case by (simp add: show_nat.simps [of n])
next
  case (Suc k)
  then have "n div 10 < 10 ^ Suc k" by (simp add: less_mult_imp_div_less)
  from Suc.IH [OF this] show ?case by (simp add: show_nat.simps [of n])
qed

lemma read_nat_zeros: "read_nat (replicate k (CHR ''0'') @ s) = read_nat s"
proof -
  have "digit_value (CHR ''0'') = 0" by code_simp
  then show ?thesis by (induction k) (simp_all add: read_nat_def)
qed

lemma pad3_facts: "list_all is_digit_char (pad3 n)" "read_nat (pad3 n) = n" "n < 10 ^ 113 \<Longrightarrow> length (pad3 n) \<le> 113"
proof -
  have "is_digit_char (CHR ''0'')" by code_simp
  then show "list_all is_digit_char (pad3 n)" using show_nat_digits [of n] by (auto simp: pad3_def Let_def list_all_iff)
  show "read_nat (pad3 n) = n" using show_nat_digits [of n] by (simp add: pad3_def Let_def read_nat_zeros)
  assume "n < 10 ^ 113"
  then have "length (show_nat n) \<le> 113" using length_show_nat [of n 112] by simp
  then show "length (pad3 n) \<le> 113" by (simp add: pad3_def Let_def)
qed

lemma policy_key_index:
  assumes "i < 10 ^ 113"
  shows "read_nat (takeWhile is_digit_char (drop 6 (policy_key i h))) = i"
proof -
  let ?x = "if strip_dashes (sub_runs safe_name_char h) = [] then ''host'' else strip_dashes (sub_runs safe_name_char h)"
  have len: "length (pad3 i) \<le> 113" using pad3_facts(3) [OF assms] .
  have "drop 6 (policy_key i h) = take 114 (pad3 i @ CHR ''_'' # ?x)"
    by (simp add: policy_key_def Let_def drop_take)
  also have "\<dots> = pad3 i @ CHR ''_'' # take (113 - length (pad3 i)) ?x"
    using len by (simp add: take_Cons')
  finally have "takeWhile is_digit_char (drop 6 (policy_key i h)) = pad3 i"
    using pad3_facts(1) [of i] by (simp add: takeWhile_append2 list_all_iff is_digit_char_def less_eq_char_def)
  then show ?thesis by (simp add: pad3_facts(2))
qed

definition rule_entries :: "nat \<Rightarrow> network_rule list \<Rightarrow> json dict" where
  "rule_entries i rs = map (\<lambda>(j, r). (policy_key j (host r), network_entry (policy_key j (host r)) r)) (enumerate i rs)"

lemma distinct_rule_entries:
  assumes "i + length rs \<le> 10 ^ 113"
  shows "distinct (map fst (rule_entries i rs))"
proof -
  have "inj_on (\<lambda>(j, r). policy_key j (host r)) (set (enumerate i rs))"
  proof (rule inj_onI, clarify)
    fix j r k q assume a: "(j, r) \<in> set (enumerate i rs)" "(k, q) \<in> set (enumerate i rs)"
      "policy_key j (host r) = policy_key k (host q)"
    then have "j < i + length rs" "k < i + length rs" by (auto simp: in_set_enumerate_eq)
    with assms have "j < 10 ^ 113" "k < 10 ^ 113" by simp_all
    with a(3) policy_key_index have "j = k" by metis
    moreover have "distinct (map fst (enumerate i rs))" by simp
    ultimately show "j = k \<and> r = q" using a(1,2) by (metis eq_key_imp_eq_value)
  qed
  moreover have "map fst (rule_entries i rs) = map (\<lambda>(j, r). policy_key j (host r)) (enumerate i rs)"
    by (simp add: rule_entries_def comp_def case_prod_unfold)
  ultimately show ?thesis by (simp add: distinct_map)
qed

lemma compile_rules_iff:
  "distinct (map fst (d @ rule_entries i rs)) \<Longrightarrow>
     compile_rules i rs d = Inr nets \<longleftrightarrow> (\<forall>r \<in> set rs. protocol r \<noteq> ''mcp'' \<and> protocol r \<noteq> ''json-rpc'') \<and> nets = d @ rule_entries i rs"
proof (induction rs arbitrary: i d)
  case (Cons r rs)
  have entries: "rule_entries i (r # rs) = (policy_key i (host r), network_entry (policy_key i (host r)) r) # rule_entries (Suc i) rs"
    by (simp add: rule_entries_def)
  from Cons.prems have fresh: "policy_key i (host r) \<notin> set (map fst d)" by (simp add: entries)
  show ?case
    using Cons.IH [of "d @ [(policy_key i (host r), network_entry (policy_key i (host r)) r)]" "Suc i"] Cons.prems
    by (auto simp: entries Let_def dict_set_fresh [unfolded dict_keys_def, OF fresh])
qed (auto simp: rule_entries_def)

text \<open>C23: The policy compiler accepts exactly the specifications that deny the network by default, broker
  their secrets, name a known Landlock mode and use no protocol that needs method rules; and the network
  section of the compiled policy has exactly one entry per rule of the specification, in order, each with
  its own key, so no rule overwrites another and nothing else is granted.\<close>

theorem compiled_policy_exact:
  assumes "length (effective_rules s) \<le> 10 ^ 113"
  shows "((\<exists>p. compile_policy s = Inr p) \<longleftrightarrow> policy_network (policy s) = ''deny-by-default''
      \<and> policy_secrets (policy s) = ''brokered'' \<and> landlock_compatibility (policy s) \<in> {''best_effort'', ''hard_requirement''}
      \<and> (\<forall>r \<in> set (effective_rules s). protocol r \<noteq> ''mcp'' \<and> protocol r \<noteq> ''json-rpc''))
    \<and> (\<forall>p. compile_policy s = Inr p \<longrightarrow> jget p ''network_policies'' = Some (JObj (rule_entries 0 (effective_rules s))))
    \<and> distinct (map fst (rule_entries 0 (effective_rules s)))"
proof -
  have dist: "distinct (map fst (rule_entries 0 (effective_rules s)))"
    using distinct_rule_entries [of 0 "effective_rules s"] assms by simp
  then have rules: "compile_rules 0 (effective_rules s) [] = Inr nets \<longleftrightarrow>
      (\<forall>r \<in> set (effective_rules s). protocol r \<noteq> ''mcp'' \<and> protocol r \<noteq> ''json-rpc'') \<and> nets = rule_entries 0 (effective_rules s)" for nets
    using compile_rules_iff [of "[]" 0 "effective_rules s" nets] by simp
  have accepted: "compile_policy s = Inr p \<longleftrightarrow> policy_network (policy s) = ''deny-by-default''
      \<and> policy_secrets (policy s) = ''brokered'' \<and> landlock_compatibility (policy s) \<in> {''best_effort'', ''hard_requirement''}
      \<and> (\<exists>nets. compile_rules 0 (effective_rules s) [] = Inr nets \<and> p = JObj
      [(''version'', JInt 1),
       (''filesystem_policy'', JObj [(''include_workdir'', JBool True),
          (''read_only'', strs [''/usr'', ''/lib'', ''/proc'', ''/dev/urandom'', ''/etc'', ''/var/log'']),
          (''read_write'', strs [''/sandbox'', ''/tmp'', ''/dev/null''])]),
       (''landlock'', JObj [(''compatibility'', JStr (landlock_compatibility (policy s)))]),
       (''process'', JObj [(''run_as_user'', JStr ''sandbox''), (''run_as_group'', JStr ''sandbox'')]),
       (''network_policies'', JObj nets)])" for p
    unfolding compile_policy_def rbind_Inr_iff guards_Inr_iff by (simp add: conj_assoc eq_commute [of _ p])
  show ?thesis
    using dist by (simp add: accepted rules jget_def ex_simps conj_commute)
qed

section \<open>Concrete inputs for the witnesses\<close>

definition shell_spec :: run_spec where
  "shell_spec = \<lparr>spec_run_id = ''r'',
     skill = \<lparr>source_url = ''u'', commit_or_digest = ''c'', entrypoint = ''SKILL.md'', provenance_digest = None\<rparr>,
     agent = \<lparr>harness = ''h'', agent_version = ''1''\<rparr>,
     model = \<lparr>provider = ''p'', model_name = ''m'', quota = QuotaLocal\<rparr>,
     runtime = \<lparr>backend = Openshell, runtime_version = ''1'', image_digest = ''d''\<rparr>,
     policy = default_policy\<lparr>allowed_hosts := [''api.test''], secret_env_names := [''KEY'']\<rparr>,
     scenario = \<lparr>scenario_id = ''s'', task = ''t'', scenario_assertions = []\<rparr>, limits = default_limits\<rparr>"

text \<open>A command line that answers every call with the same object.\<close>

definition answering :: "string \<Rightarrow> shell_env" where
  "answering out = \<lparr>se_run = (\<lambda>hist. Inr \<lparr>cr_argv = sc_argv (hd hist), cr_returncode = 0, cr_stdout = out, cr_stderr = []\<rparr>),
     se_delegate = TakesInput, se_tempdir = (\<lambda>_. ''/tmp/x''), se_yaml_dump = dumps, se_yaml_load = (\<lambda>_. Inr JNull),
     se_binary = ''openshell''\<rparr>"

definition empty_shell :: shell_state where
  "empty_shell = \<lparr>ss_calls = [], ss_armed = None, ss_runs = [], ss_temp = [], ss_continuity = []\<rparr>"

lemma answering_run [simp]: "ss_armed st = None \<Longrightarrow> run_cli (answering out) argv t st =
   (Inr \<lparr>cr_argv = argv, cr_returncode = 0, cr_stdout = out, cr_stderr = []\<rparr>,
    st\<lparr>ss_calls := \<lparr>sc_argv = argv, sc_timeout = t, sc_input = None\<rparr> # ss_calls st\<rparr>)"
  by (simp add: run_cli_unarmed answering_def Let_def)

definition version_two :: string where
  "version_two = dumps (JObj [(''version'', JStr ''2'')])"

lemma loads_samples: "loads ''{}'' = Some (JObj [])" "loads version_two = Some (JObj [(''version'', JStr ''2'')])"
  "strip ''{}'' = ''{}''"
  by code_simp+

lemma sample_policy: "compile_policy shell_spec \<noteq> Inl e"
  by code_simp

lemma sample_leak:
  "\<exists>e st'. shell_prepare (answering version_two) shell_spec empty_shell = (Inl e, st') \<and>
     map sc_argv (ss_calls st') = [[''openshell'', ''sandbox'', ''get'', sandbox_name ''r'', ''--output'', ''json''],
       create_argv (answering version_two) shell_spec (sandbox_name ''r'') ''/tmp/x'',
       [''openshell'', ''gateway'', ''info'', ''-o'', ''json''], [''openshell'', ''status'', ''--output'', ''json'']]"
proof -
  obtain pol where pol: "compile_policy shell_spec = Inr pol"
    using sample_policy by (cases "compile_policy shell_spec") auto
  have mis: "mismatch (strip (runtime_version (runtime shell_spec)))
      (observed_version [(''version'', JStr ''2'')] [(''version'', JStr ''2'')])" by code_simp
  have fields: "se_binary (answering version_two) = ''openshell''" "se_tempdir (answering version_two) n = ''/tmp/x''"
    "spec_run_id shell_spec = ''r''" for n by (simp_all add: answering_def shell_spec_def)
  show ?thesis
    using mis by (simp add: shell_prepare_def pol Let_def sbind_def json_command_def json_object_def loads_samples
        empty_shell_def inspect_sandbox_def attest_runtime_def guards.simps fields)
qed

theorem failed_preparation_leaks_witness:
  "\<exists>e st'. shell_prepare (answering version_two) shell_spec empty_shell = (Inl e, st')
     \<and> create_argv (answering version_two) shell_spec (sandbox_name ''r'') ''/tmp/x'' \<in> sc_argv ` set (ss_calls st')
     \<and> delete_argv (answering version_two) (sandbox_name ''r'') \<notin> sc_argv ` set (ss_calls st') \<and> ss_runs st' = []"
proof -
  obtain e st' where p: "shell_prepare (answering version_two) shell_spec empty_shell = (Inl e, st')"
    and calls: "map sc_argv (ss_calls st') = [[''openshell'', ''sandbox'', ''get'', sandbox_name ''r'', ''--output'', ''json''],
       create_argv (answering version_two) shell_spec (sandbox_name ''r'') ''/tmp/x'',
       [''openshell'', ''gateway'', ''info'', ''-o'', ''json''], [''openshell'', ''status'', ''--output'', ''json'']]"
    using sample_leak by (elim exE conjE) (rule that; assumption)
  have start: "ss_armed empty_shell = None" "ss_calls empty_shell = []" "ss_runs empty_shell = []" "spec_run_id shell_spec = ''r''"
    by (simp_all add: empty_shell_def shell_spec_def)
  have "\<not> ocsf_refused (answering version_two) (sandbox_name ''r'')" by (simp add: ocsf_refused_def answering_def)
  with failed_preparation_leaks [OF p start(1)] start
  have "delete_argv (answering version_two) (sandbox_name ''r'') \<notin> sc_argv ` set (ss_calls st')" "ss_runs st' = []" by auto
  moreover have "create_argv (answering version_two) shell_spec (sandbox_name ''r'') ''/tmp/x'' \<in> set (map sc_argv (ss_calls st'))"
    unfolding calls by simp
  ultimately show ?thesis using p by auto
qed

text \<open>A run through the controller: prepared, executed with an input, collected.\<close>

lemma sample_prepared: "\<exists>st1. shell_prepare (answering ''{}'') shell_spec empty_shell = (Inr (sandbox_name ''r''), st1)"
proof -
  obtain pol where pol: "compile_policy shell_spec = Inr pol"
    using sample_policy by (cases "compile_policy shell_spec") auto
  have none: "recursive_value ks [JObj [], JObj []] = None" "recursive_value ks [JObj []] = None" for ks by simp_all
  have names: "secret_env_names (policy shell_spec) = [''KEY'']" "spec_run_id shell_spec = ''r''"
    by (simp_all add: shell_spec_def)
  show ?thesis
    by (simp add: shell_prepare_def pol Let_def sbind_def json_command_def json_object_def loads_samples
        empty_shell_def inspect_sandbox_def attest_runtime_def guards.simps observed_version_def observed_image_def none
        mismatch_def opt_value_json_def register_run_def credential_probe_def names probe_result_def is_exposed_def is_missing_def
        jget_null_def filesystem_manifest_def)
qed


lemma sample_collected:
  "\<exists>st1 eid st2 ev st3. shell_prepare (answering ''{}'') shell_spec empty_shell = (Inr (sandbox_name ''r''), st1)
     \<and> harness_execute (answering ''{}'') (sandbox_name ''r'') [''run''] (Some ''input'') st1 = (Inr eid, st2)
     \<and> harness_collect (answering ''{}'') ''r'' eid st2 = (Inr ev, st3)"
proof -
  let ?n = "sandbox_name ''r''"
  obtain st1 where p: "shell_prepare (answering ''{}'') shell_spec empty_shell = (Inr ?n, st1)"
    using sample_prepared by blast
  obtain r where r: "ss_runs st1 = [(?n, r)]" "sr_executions r = []" "sr_spec r = shell_spec"
    by (rule prepare_Inr [OF p]) (simp add: empty_shell_def)
  have armed: "ss_armed st1 = None" using prepare_steps [OF p] by (simp add: empty_shell_def)
  let ?eid = "?n @ '':exec:'' @ show_nat 0"
  have cut: "before_first '':exec:'' ?eid = ?n" by (rule sandbox_name_cut)
  have armed_run: "ss_armed st = Some i \<Longrightarrow> run_cli (answering out) argv t st =
     (Inr \<lparr>cr_argv = argv, cr_returncode = 0, cr_stdout = out, cr_stderr = []\<rparr>,
      st\<lparr>ss_armed := None, ss_calls := \<lparr>sc_argv = argv, sc_timeout = t, sc_input = Some i\<rparr> # ss_calls st\<rparr>)" for st i out argv t
    by (simp add: run_cli_def call_def answering_def Let_def)
  obtain res st2 where x: "harness_execute (answering ''{}'') ?n [''run''] (Some ''input'') st1 = (Inr ?eid, st2)"
    "ss_runs st2 = [(?n, r\<lparr>sr_executions := [(?eid, res)]\<rparr>)]" "ss_armed st2 = None" "map_of (ss_continuity st2) ?eid \<noteq> None"
    by (simp add: harness_execute_def sbind_def finally_do_def arm_def armed shell_execute_def require_run_def r
        armed_run clear_input_def Let_def del: append.simps append_assoc)
  have lines: "splitlines ''{}'' = [''{}'']" by code_simp
  have "\<exists>ev st3. harness_collect (answering ''{}'') ''r'' ?eid st2 = (Inr ev, st3)"
    using x(2,3,4)
    by (auto simp: harness_collect_def shell_collect_def cut sbind_def require_run_def filesystem_manifest_def
        effective_policy_def sandbox_logs_def ocsf_evidence_def loads_samples lines ocsf_network_def jget_null_def
        shell_bundle_def Let_def answering_def [THEN arg_cong [of _ _ se_yaml_load]] simp del: append.simps append_assoc)
  with p x(1) show ?thesis by blast
qed

theorem openshell_evidence_bound_witness:
  "\<exists>st1 eid st2 ev st3 r. shell_prepare (answering ''{}'') shell_spec empty_shell = (Inr (sandbox_name ''r''), st1)
     \<and> harness_execute (answering ''{}'') (sandbox_name ''r'') [''run''] (Some ''input'') st1 = (Inr eid, st2)
     \<and> harness_collect (answering ''{}'') ''r'' eid st2 = (Inr ev, st3)
     \<and> commands ev = [r] \<and> records_command [''run''] (Some ''input'') r \<and> list_all snd (assertions ev)"
proof -
  obtain st1 eid st2 ev st3 where s: "shell_prepare (answering ''{}'') shell_spec empty_shell = (Inr (sandbox_name ''r''), st1)"
    "harness_execute (answering ''{}'') (sandbox_name ''r'') [''run''] (Some ''input'') st1 = (Inr eid, st2)"
    "harness_collect (answering ''{}'') ''r'' eid st2 = (Inr ev, st3)"
    using sample_collected by blast
  have start: "ss_armed empty_shell = None" "spec_run_id shell_spec = ''r''" by (simp_all add: empty_shell_def shell_spec_def)
  from s(3) have c: "harness_collect (answering ''{}'') (spec_run_id shell_spec) eid st2 = (Inr ev, st3)" by (simp only: start)
  from openshell_evidence_bound [OF s(1,2) c start(1)] s show ?thesis by blast
qed

theorem input_streamed_once_witness:
  "\<exists>st1 out st2 c. harness_execute (answering ''{}'') (sandbox_name ''r'') [''run''] (Some ''input'') st1 = (out, st2)
     \<and> ss_calls st2 = c # ss_calls st1 \<and> sc_input c = Some ''input'' \<and> ss_armed st2 = None"
proof -
  obtain st1 eid st2 where s: "shell_prepare (answering ''{}'') shell_spec empty_shell = (Inr (sandbox_name ''r''), st1)"
    "harness_execute (answering ''{}'') (sandbox_name ''r'') [''run''] (Some ''input'') st1 = (Inr eid, st2)"
    using sample_collected by blast
  have armed: "ss_armed st1 = None" using prepare_steps [OF s(1)] by (simp add: empty_shell_def)
  from input_streamed_once [OF s(2) armed] obtain new where n: "ss_calls st2 = new @ ss_calls st1" "length new = 1"
    "\<forall>c \<in> set new. sc_input c = Some ''input''" "ss_armed st2 = None" by auto
  then obtain c where "new = [c]" by (cases new) auto
  with n s(2) show ?thesis by auto
qed

theorem compiled_policy_exact_witness:
  "length (effective_rules shell_spec) \<le> 10 ^ 113 \<and> (\<exists>p. compile_policy shell_spec = Inr p
     \<and> jget p ''network_policies'' = Some (JObj (rule_entries 0 [default_network_rule ''api.test''])))"
proof -
  have rules: "effective_rules shell_spec = [default_network_rule ''api.test'']"
    by (simp add: effective_rules_def shell_spec_def default_policy_def)
  then have len: "length (effective_rules shell_spec) \<le> 10 ^ 113" by simp
  obtain pol where pol: "compile_policy shell_spec = Inr pol"
    using sample_policy by (cases "compile_policy shell_spec") auto
  from compiled_policy_exact [OF len] pol len show ?thesis by (simp add: rules)
qed

section \<open>Cloudflare\<close>

text \<open>
  How a POSIX shell cuts a command line into words, as far as quoting goes: \<open>None\<close> when it would expand
  something or a quote is left open. \<open>w\<close> is the word so far, reversed, if one has begun.
\<close>

datatype sh_mode = Unquoted | Single | Double

fun sh_words :: "string option \<Rightarrow> sh_mode \<Rightarrow> string \<Rightarrow> string list option" where
  "sh_words w Unquoted [] = Some (case w of None \<Rightarrow> [] | Some v \<Rightarrow> [rev v])"
| "sh_words w _ [] = None"
| "sh_words w Unquoted (c # cs) =
     (if c = CHR '' '' then (case w of None \<Rightarrow> sh_words None Unquoted cs
        | Some v \<Rightarrow> map_option (\<lambda>ws. rev v # ws) (sh_words None Unquoted cs))
      else if c = CHR 0x27 then sh_words (Some (case w of None \<Rightarrow> [] | Some v \<Rightarrow> v)) Single cs
      else if c = CHR 0x22 then sh_words (Some (case w of None \<Rightarrow> [] | Some v \<Rightarrow> v)) Double cs
      else if is_alnum_char c then sh_words (Some (c # (case w of None \<Rightarrow> [] | Some v \<Rightarrow> v))) Unquoted cs
      else None)"
| "sh_words w Single (c # cs) = (if c = CHR 0x27 then sh_words w Unquoted cs else sh_words (map_option ((#) c) w) Single cs)"
| "sh_words w Double (c # cs) = (if c = CHR 0x22 then sh_words w Unquoted cs
     else if c \<in> {CHR ''$'', CHR 0x60, CHR 0x5C, CHR ''!''} then None else sh_words (map_option ((#) c) w) Double cs)"

lemma sh_words_single:
  "sh_words (Some v) Single (concat (map (\<lambda>c. if c = CHR 0x27
     then [CHR 0x27, CHR 0x22, CHR 0x27, CHR 0x22, CHR 0x27] else [c]) s) @ CHR 0x27 # r) = sh_words (Some (rev s @ v)) Unquoted r"
  by (induction s arbitrary: v) auto

lemma sh_words_quote: "sh_words None Unquoted (shell_quote s @ r) = sh_words (Some (rev s)) Unquoted r"
  using sh_words_single [of "[]" s r] by (simp add: shell_quote_def)

text \<open>The command line the Cloudflare controller sends is cut by a shell into exactly the requested
  arguments: no argument can be split, dropped, expanded or merged with another, whatever it contains.\<close>

theorem cloud_command_words:
  "sh_words None Unquoted (join '' '' (map shell_quote argv)) = Some argv"
proof (induction argv)
  case (Cons a as)
  then show ?case
    using sh_words_quote [of a "[]"] sh_words_quote [of a "'' '' @ join '' '' (map shell_quote as)"] by (cases as) auto
qed simp

text \<open>Whatever the service answers, the evidence asserts that no credential was exposed: nothing checks it.\<close>

lemma cloud_credential_unchecked:
  assumes "cloud_collect cl rid eid st = (Inr ev, st')"
  shows "map_of (assertions ev) ''credential_non_exposure'' = Some True"
  using assms by (auto simp: cloud_collect_def Let_def sbind_Inr_iff cloud_bundle_def)

end
