(* ===== verification/FloatOrder.thy ===== *)
theory FloatOrder
  imports FloatBounds
begin

text \<open>
  Rounding to a double is monotone, odd and idempotent, and so the rounded operations are monotone; and
  \<open>math.sqrt\<close>, correctly rounded.
\<close>

section \<open>Powers of two\<close>

lemma pow2_powi: "pow2 e = 2 powi e"
  by (auto simp: pow2_def power_int_def power_one_over inverse_eq_divide)

lemma pow2_add: "pow2 (a + b) = pow2 a * pow2 b"
  by (simp add: pow2_powi power_int_add)

lemma pow2_nat: "pow2 (int k) = 2 ^ k"
  by (simp add: pow2_def)

lemma pow2_mono: "a \<le> b \<Longrightarrow> pow2 a \<le> pow2 b"
  by (simp add: pow2_powi power_int_increasing)

lemma pow2_52: "2 ^ 52 * pow2 e = pow2 (e + 52)" and pow2_53: "2 ^ 53 * pow2 e = pow2 (e + 53)"
  using pow2_add [of e 52] pow2_add [of e 53] by (simp_all add: pow2_def)

lemma of_int_bitlen:
  assumes "0 < n"
  shows "pow2 (bitlen n - 1) \<le> of_int n \<and> of_int n < pow2 (bitlen n)"
proof -
  have b: "1 \<le> bitlen n" using assms bitlen_eq_zero_iff [of n] bitlen_nonneg [of n] by linarith
  have "(of_int (2 ^ nat (bitlen n - 1)) :: rat) \<le> of_int n" "(of_int n :: rat) < of_int (2 ^ nat (bitlen n))"
    using bitlen_bounds [OF assms] by (simp_all only: of_int_le_iff of_int_less_iff)
  then show ?thesis using b by (simp add: pow2_def)
qed

section \<open>The exponent\<close>

lemma double_exp_spec:
  assumes "0 < x"
  shows "pow2 (double_exp x + 52) \<le> x \<and> x < pow2 (double_exp x + 53)"
proof -
  obtain n d where q: "quotient_of x = (n, d)" by (cases "quotient_of x")
  have d: "0 < d" using quotient_of_denom_pos [OF q] .
  have x: "x = of_int n / of_int d" using quotient_of_div [OF q] .
  have n: "0 < n" using assms d x by (simp add: zero_less_divide_iff)
  let ?e = "bitlen n - bitlen d - 53"
  note bn = of_int_bitlen [OF n] and bd = of_int_bitlen [OF d]
  have dp: "(0 :: rat) < of_int d" using d by simp
  have "pow2 (?e + 52) * of_int d \<le> pow2 (?e + 52) * pow2 (bitlen d)"
    using bd pow2_pos [of "?e + 52"] by (simp add: less_imp_le)
  also have "\<dots> = pow2 (bitlen n - 1)" using pow2_add [of "?e + 52" "bitlen d"] by (simp add: algebra_simps)
  also have "\<dots> \<le> of_int n" using bn by simp
  finally have lo: "pow2 (?e + 52) \<le> x" using dp by (simp add: x pos_le_divide_eq)
  have "of_int n < pow2 (bitlen n)" using bn by simp
  also have "\<dots> = pow2 (?e + 54) * pow2 (bitlen d - 1)"
    using pow2_add [of "?e + 54" "bitlen d - 1"] by (simp add: algebra_simps)
  also have "\<dots> \<le> pow2 (?e + 54) * of_int d" using bd pow2_pos [of "?e + 54"] by simp
  finally have hi: "x < pow2 (?e + 54)" using dp by (simp add: x pos_divide_less_eq)
  have scale: "2 ^ 53 \<le> x / pow2 ?e \<longleftrightarrow> pow2 (?e + 53) \<le> x" "x / pow2 ?e < 2 ^ 52 \<longleftrightarrow> x < pow2 (?e + 52)"
    using pow2_pos [of ?e] by (simp_all only: pow2_52 [symmetric] pow2_53 [symmetric] pos_le_divide_eq pos_divide_less_eq)
  have "double_exp x = (if pow2 (?e + 53) \<le> x then ?e + 1 else if x < pow2 (?e + 52) then ?e - 1 else ?e)"
    by (simp only: double_exp_def q Let_def prod.case scale)
  with lo hi show ?thesis by (simp add: add.commute add.left_commute)
qed

lemma double_exp_unique:
  assumes "pow2 (e + 52) \<le> x" "x < pow2 (e + 53)"
  shows "double_exp x = e"
proof -
  have pos: "0 < x" using assms(1) pow2_pos [of "e + 52"] by linarith
  note s = double_exp_spec [OF pos]
  have "\<not> double_exp x < e"
  proof
    assume "double_exp x < e"
    then have "pow2 (double_exp x + 53) \<le> pow2 (e + 52)" by (intro pow2_mono) simp
    then show False using s assms by linarith
  qed
  moreover have "\<not> e < double_exp x"
  proof
    assume "e < double_exp x"
    then have "pow2 (e + 53) \<le> pow2 (double_exp x + 52)" by (intro pow2_mono) simp
    then show False using s assms by linarith
  qed
  ultimately show ?thesis by simp
qed

section \<open>Rounding\<close>

lemma round_half_even_near: "\<lfloor>x\<rfloor> \<le> round_half_even x" "round_half_even x \<le> \<lfloor>x\<rfloor> + 1"
  by (auto simp: round_half_even_def Let_def)

lemma round_half_even_mono:
  assumes "x \<le> y"
  shows "round_half_even x \<le> round_half_even y"
proof (cases "\<lfloor>x\<rfloor> = \<lfloor>y\<rfloor>")
  case True
  then show ?thesis using assms by (auto simp: round_half_even_def Let_def)
next
  case False
  then have "\<lfloor>x\<rfloor> + 1 \<le> \<lfloor>y\<rfloor>" using floor_mono [OF assms] by simp
  then show ?thesis using round_half_even_near [of x] round_half_even_near [of y] by linarith
qed

lemma double_of_pos:
  assumes "0 < x"
  obtains m where "double_of x = of_int m * pow2 (double_exp x)" "2 ^ 52 \<le> m" "m \<le> 2 ^ 53"
    "m = round_half_even (x / pow2 (double_exp x))"
proof -
  let ?e = "double_exp x"
  let ?y = "x / pow2 ?e"
  have y: "of_int (2 ^ 52) \<le> ?y" "?y \<le> of_int (2 ^ 53)"
    using double_exp_spec [OF assms] pow2_pos [of ?e] pow2_52 [of ?e] pow2_53 [of ?e]
    by (simp_all add: pos_le_divide_eq pos_divide_le_eq less_imp_le)
  have "2 ^ 52 \<le> round_half_even ?y" "round_half_even ?y \<le> 2 ^ 53"
    using round_half_even_mono [OF y(1)] round_half_even_mono [OF y(2)] by (simp_all only: round_half_even_of_int)
  moreover have "double_of x = of_int (round_half_even ?y) * pow2 ?e" using assms by (simp add: double_of_def Let_def)
  ultimately show ?thesis using that by blast
qed

lemma double_of_minus: "double_of (- x) = - double_of x"
  by (auto simp: double_of_def Let_def)

lemma double_of_pos_bounds:
  assumes "0 < x"
  shows "pow2 (double_exp x + 52) \<le> double_of x \<and> double_of x \<le> pow2 (double_exp x + 53)"
proof (rule double_of_pos [OF assms])
  fix m assume m: "double_of x = of_int m * pow2 (double_exp x)" "(2 :: int) ^ 52 \<le> m" "m \<le> 2 ^ 53"
  have "(of_int (2 ^ 52) :: rat) \<le> of_int m" "(of_int m :: rat) \<le> of_int (2 ^ 53)"
    using m(2,3) by (simp_all only: of_int_le_iff)
  then have "(2 ^ 52 :: rat) \<le> of_int m" "(of_int m :: rat) \<le> 2 ^ 53" by simp_all
  then show ?thesis
    using pow2_pos [of "double_exp x"] by (simp add: m(1) pow2_52 [symmetric] pow2_53 [symmetric])
qed

lemma double_of_mono_pos:
  assumes "0 < x" "x \<le> y"
  shows "double_of x \<le> double_of y"
proof -
  have y: "0 < y" using assms by simp
  have "\<not> double_exp y < double_exp x"
  proof
    assume "double_exp y < double_exp x"
    then have "pow2 (double_exp y + 53) \<le> pow2 (double_exp x + 52)" by (intro pow2_mono) simp
    then show False using double_exp_spec [OF assms(1)] double_exp_spec [OF y] assms(2) by linarith
  qed
  then consider "double_exp x = double_exp y" | "double_exp x < double_exp y" by linarith
  then show ?thesis
  proof cases
    case 1
    have "x / pow2 (double_exp y) \<le> y / pow2 (double_exp y)"
      using assms(2) pow2_pos [of "double_exp y"] by (simp add: divide_right_mono)
    then have "round_half_even (x / pow2 (double_exp y)) \<le> round_half_even (y / pow2 (double_exp y))"
      by (rule round_half_even_mono)
    then show ?thesis using assms(1) y 1 pow2_pos [of "double_exp y"] by (simp add: double_of_def Let_def)
  next
    case 2
    then have "pow2 (double_exp x + 53) \<le> pow2 (double_exp y + 52)" by (intro pow2_mono) simp
    then show ?thesis using double_of_pos_bounds [OF assms(1)] double_of_pos_bounds [OF y] by linarith
  qed
qed

lemma double_of_nonneg: "0 \<le> x \<Longrightarrow> 0 \<le> double_of x"
  using double_of_pos_bounds [of x] pow2_pos [of "double_exp x + 52"] by (cases "x = 0") auto

lemma double_of_mono:
  assumes "x \<le> y"
  shows "double_of x \<le> double_of y"
proof -
  consider "0 < x" | "x \<le> 0" "0 \<le> y" | "y < 0" by linarith
  then show ?thesis
  proof cases
    case 1
    then show ?thesis using double_of_mono_pos assms by blast
  next
    case 2
    then have "0 \<le> double_of (- x)" "0 \<le> double_of y" by (simp_all add: double_of_nonneg)
    then show ?thesis by (simp add: double_of_minus)
  next
    case 3
    then have "double_of (- y) \<le> double_of (- x)" using assms by (intro double_of_mono_pos) auto
    then show ?thesis by (simp add: double_of_minus)
  qed
qed

lemma double_of_idem [simp]: "double_of (double_of x) = double_of x"
proof -
  have pos: "double_of (double_of x) = double_of x" if "0 < x" for x
  proof (rule double_of_pos [OF that])
    fix m let ?e = "double_exp x"
    assume m: "double_of x = of_int m * pow2 ?e" "(2 :: int) ^ 52 \<le> m" "m \<le> 2 ^ 53"
    have val: "0 < double_of x" using double_of_pos_bounds [OF that] pow2_pos [of "?e + 52"] by linarith
    show ?thesis
    proof (cases "m = 2 ^ 53")
      case True
      then have v: "double_of x = pow2 (?e + 1 + 52)" using m(1) pow2_53 [of ?e] by (simp add: add.assoc)
      have e: "double_exp (double_of x) = ?e + 1"
        by (rule double_exp_unique) (simp_all add: v pow2_powi power_int_strict_increasing)
      have w: "double_of x = of_int (2 ^ 52) * pow2 (?e + 1)" using v pow2_52 [of "?e + 1"] by simp
      have "double_of x / pow2 (?e + 1) = of_int (2 ^ 52)" using pow2_pos [of "?e + 1"] w by (simp only: divide_eq_eq) simp
      then have "double_of (double_of x) = of_int (2 ^ 52) * pow2 (?e + 1)"
        using val e by (simp only: double_of_def [of "double_of x"] Let_def round_half_even_of_int abs_of_pos) simp
      then show ?thesis using w by (simp only:)
    next
      case False
      then have "m < 2 ^ 53" using m(3) by simp
      then have "(of_int m :: rat) < of_int (2 ^ 53)" by (simp only: of_int_less_iff)
      then have "double_of x < pow2 (?e + 53)" using pow2_pos [of ?e] by (simp add: m(1) pow2_53 [symmetric])
      then have e: "double_exp (double_of x) = ?e" using double_of_pos_bounds [OF that] double_exp_unique by blast
      have "double_of x / pow2 ?e = of_int m" using pow2_pos [of ?e] by (simp add: m(1))
      then have "double_of (double_of x) = of_int m * pow2 ?e"
        using val e by (simp only: double_of_def [of "double_of x"] Let_def round_half_even_of_int abs_of_pos) simp
      then show ?thesis using m(1) by (simp only:)
    qed
  qed
  consider "0 < x" | "x = 0" | "0 < - x" by linarith
  then show ?thesis
  proof cases
    case 3
    then show ?thesis using pos [of "- x"] by (simp add: double_of_minus)
  qed (use pos in simp_all)
qed

section \<open>Operations\<close>

lemma fadd_mono: "\<lbrakk>a \<le> b; c \<le> d\<rbrakk> \<Longrightarrow> fadd a c \<le> fadd b d"
  unfolding fadd_def by (rule double_of_mono) simp

lemma fmul_mono: "\<lbrakk>a \<le> b; 0 \<le> c\<rbrakk> \<Longrightarrow> fmul a c \<le> fmul b c"
  unfolding fmul_def by (rule double_of_mono) (simp add: mult_right_mono)

lemma fdiv_mono: "\<lbrakk>a \<le> b; 0 < c\<rbrakk> \<Longrightarrow> fdiv a c \<le> fdiv b c"
  unfolding fdiv_def by (rule double_of_mono) (simp add: divide_right_mono)

lemma fadd_nonneg: "\<lbrakk>0 \<le> a; 0 \<le> b\<rbrakk> \<Longrightarrow> 0 \<le> fadd a b"
  and fmul_nonneg: "\<lbrakk>0 \<le> a; 0 \<le> b\<rbrakk> \<Longrightarrow> 0 \<le> fmul a b"
  and fdiv_nonneg: "\<lbrakk>0 \<le> a; 0 < b\<rbrakk> \<Longrightarrow> 0 \<le> fdiv a b"
  unfolding fadd_def fmul_def fdiv_def by (simp_all add: double_of_nonneg)

lemma double_of_op [simp]: "double_of (fadd a b) = fadd a b" "double_of (fmul a b) = fmul a b"
  "double_of (fdiv a b) = fdiv a b"
  by (simp_all add: fadd_def fmul_def fdiv_def)

lemma fadd_0 [simp]: "fadd a 0 = double_of a" "fadd 0 a = double_of a"
  by (simp_all add: fadd_def)

lemma fmul_1 [simp]: "fmul 1 a = double_of a"
  by (simp add: fmul_def)

section \<open>Square roots\<close>

text \<open>The largest integer below \<open>2^k\<close> added to \<open>m\<close> whose square is at most \<open>y\<close>, bit by bit.\<close>

fun sqrt_bits :: "nat \<Rightarrow> rat \<Rightarrow> int \<Rightarrow> int" where
  "sqrt_bits 0 y m = m"
| "sqrt_bits (Suc i) y m = (let m' = m + 2 ^ i in sqrt_bits i y (if of_int (m' * m') \<le> y then m' else m))"

text \<open>\<open>math.sqrt\<close> of a non-negative float: 53 bits of the root, rounded to nearest, ties to even.\<close>

definition fsqrt :: "rat \<Rightarrow> rat" where
  "fsqrt x = (if x \<le> 0 then 0
     else let e = (double_exp x - 52) div 2; y = x / pow2 (2 * e); m = sqrt_bits 53 y 0;
              half = (of_int m + 1 / 2) * (of_int m + 1 / 2)
          in of_int (if half < y \<or> (half = y \<and> odd m) then m + 1 else m) * pow2 e)"

lemma sqrt_bits_ge: "m \<le> sqrt_bits i y m"
proof (induction i arbitrary: m)
  case (Suc i)
  have "m \<le> sqrt_bits i y (m + 2 ^ i)" by (rule order_trans [OF _ Suc.IH]) simp
  then show ?case using Suc.IH [of m] by (simp add: Let_def)
qed simp

lemma fsqrt_nonneg: "0 \<le> fsqrt x"
  using sqrt_bits_ge [of 0 53] pow2_pos by (auto simp: fsqrt_def Let_def less_imp_le)

end
