(* ===== verification/Scoring.thy ===== *)
theory Scoring
  imports Evidence FloatOrder "HOL-Library.Product_Lexorder"
begin

text \<open>
  \<open>scoring.py\<close>, \<open>compatibility.py\<close> and \<open>reporting.py\<close>: the score of a group of runs, the matrix of
  compatibility cells and the report. Counts are integers, rates are rounded floats, and
  \<open>statistics.mean\<close> rounds the exact mean once.
\<close>

section \<open>Statistics\<close>

definition fsub :: "rat \<Rightarrow> rat \<Rightarrow> rat" where
  "fsub a b = double_of (a - b)"

definition float_of_nat :: "nat \<Rightarrow> rat" where
  "float_of_nat n = double_of (of_nat n)"

definition fsum :: "rat list \<Rightarrow> rat" where
  "fsum xs = foldl fadd 0 xs"

definition stat_mean :: "rat list \<Rightarrow> rat" where
  "stat_mean xs = double_of (sum_list xs / of_nat (length xs))"

definition stat_median :: "rat list \<Rightarrow> rat" where
  "stat_median xs = (let s = sort xs; n = length xs in
     if odd n then s ! (n div 2) else fdiv (fadd (s ! (n div 2 - 1)) (s ! (n div 2))) 2)"

definition percentile :: "rat list \<Rightarrow> rat \<Rightarrow> rat" where
  "percentile xs q = (if xs = [] then 0
     else let n = int (length xs) in sort xs ! nat (min (n - 1) (max 0 (round_half_even (fmul (of_int (n - 1)) q)))))"

definition most_common_count :: "'a list \<Rightarrow> nat" where
  "most_common_count xs = foldr max (map (count_list xs) xs) 0"

text \<open>\<open>z: float = 1.959963984540054\<close>, the default that every call uses.\<close>

definition z95 :: rat where
  "z95 = double_of (1959963984540054 / 10 ^ 15)"

definition wilson_interval :: "nat \<Rightarrow> nat \<Rightarrow> rat \<times> rat" where
  "wilson_interval k n = (if n = 0 then (0, 0)
     else let zz = fmul z95 z95; p = fdiv (of_nat k) (of_nat n); m = float_of_nat n;
              denom = fadd 1 (fdiv zz m);
              centre = fadd p (fdiv zz (float_of_nat (2 * n)));
              spread = fmul z95 (fsqrt (fadd (fdiv (fmul p (fsub 1 p)) m) (fdiv zz (float_of_nat (4 * n * n)))))
          in (max 0 (fdiv (fsub centre spread) denom), min 1 (fdiv (fadd centre spread) denom)))"

section \<open>Scores\<close>

record score_policy =
  sp_version :: string
  sp_critical :: "string list"
  sp_correctness :: rat
  sp_reproducibility :: rat
  sp_least_privilege :: rat

definition make_score_policy :: "score_policy \<Rightarrow> score_policy res" where
  "make_score_policy p =
     (if \<bar>fsub (fadd (fadd (sp_correctness p) (sp_reproducibility p)) (sp_least_privilege p)) 1\<bar> > double_of (1 / 10 ^ 9)
      then Inl (ValueError ''score weights must sum to 1.0'') else Inr p)"

definition default_score_policy :: score_policy where
  "default_score_policy = \<lparr>sp_version = ''v0.4'', sp_critical = [''critical'', ''high''],
     sp_correctness = double_of (7 / 10), sp_reproducibility = double_of (1 / 5), sp_least_privilege = double_of (1 / 10)\<rparr>"

record raw_metrics =
  rm_task_success :: rat
  rm_ci95 :: "rat \<times> rat"
  rm_assertion_pass_rate :: rat
  rm_correctness :: rat
  rm_reproducibility_rate :: rat
  rm_least_privilege :: rat
  rm_critical :: nat
  rm_denied_network :: nat
  rm_latency_p50 :: rat
  rm_latency_p95 :: rat
  rm_input_tokens :: int
  rm_output_tokens :: int
  rm_token_efficiency :: rat
  rm_cost :: rat
  rm_recovery :: rat

record score_result =
  scr_policy_version :: string
  scr_gate :: string
  scr_confidence :: string
  scr_samples :: nat
  scr_raw :: raw_metrics
  scr_aggregate :: rat

text \<open>\<open>finding.get("severity") or finding.get("severity_id") or finding.get("severity_name") or ""\<close>.\<close>

definition score_severity :: "json dict \<Rightarrow> string" where
  "score_severity f = lower (py_str (let a = jget_null f ''severity''; b = jget_null f ''severity_id''; c = jget_null f ''severity_name''
     in if truthy a then a else if truthy b then b else if truthy c then c else JStr []))"

definition critical_count :: "score_policy \<Rightarrow> security_evaluation list \<Rightarrow> nat" where
  "critical_count p evals =
     length (filter (\<lambda>f. score_severity f \<in> set (sp_critical p)) (concat (map sec_findings evals)))"

definition assertion_rate :: "evidence_bundle \<Rightarrow> rat" where
  "assertion_rate run = (let vs = map snd (assertions run) in
     if vs = [] then 0 else fdiv (of_nat (length (filter id vs))) (of_nat (length vs)))"

definition exit_ok :: "evidence_bundle \<Rightarrow> rat" where
  "exit_ok run = (if exit_code run = Some 0 then 1 else 0)"

definition signature :: "evidence_bundle \<times> security_evaluation \<Rightarrow> int option \<times> (string \<times> bool) list \<times> string" where
  "signature re = (exit_code (fst re), sort_key fst (assertions (fst re)), sec_gate (snd re))"

definition denied_count :: "evidence_bundle list \<Rightarrow> nat" where
  "denied_count items = sum_list (map (\<lambda>r. length (filter denied (network r))) items)"

definition recovery_values :: "evidence_bundle list \<Rightarrow> rat list" where
  "recovery_values items = concat (map (\<lambda>r. case map_of (assertions r) ''recovery_success'' of
     None \<Rightarrow> [] | Some b \<Rightarrow> [if b then 1 else 0]) items)"

definition confidence_of :: "nat \<Rightarrow> string" where
  "confidence_of n = (if 10 \<le> n then ''verified'' else if 3 \<le> n then ''candidate'' else ''exploratory'')"

definition correctness_of :: "rat \<Rightarrow> rat \<Rightarrow> rat" where
  "correctness_of succ rate = fadd (fmul succ (double_of (11 / 20))) (fmul rate (double_of (9 / 20)))"

definition weighted_score :: "score_policy \<Rightarrow> rat \<Rightarrow> rat \<Rightarrow> rat \<Rightarrow> rat" where
  "weighted_score p correctness repro least =
     fadd (fadd (fmul correctness (sp_correctness p)) (fmul repro (sp_reproducibility p))) (fmul least (sp_least_privilege p))"

definition metrics_of :: "score_policy \<Rightarrow> evidence_bundle list \<Rightarrow> security_evaluation list \<Rightarrow> raw_metrics" where
  "metrics_of p items evals =
     (let n = length items; exits = map exit_ok items; critical = critical_count p evals; denied_events = denied_count items;
          succ = stat_mean exits; rate = stat_mean (map assertion_rate items);
          receipts = concat (map inference items); lats = map latency_ms receipts; recov = recovery_values items;
          outs = sum_list (map output_tokens receipts)
      in \<lparr>rm_task_success = succ, rm_ci95 = wilson_interval (nat \<lfloor>fsum exits\<rfloor>) n,
          rm_assertion_pass_rate = rate, rm_correctness = correctness_of succ rate,
          rm_reproducibility_rate = fdiv (of_nat (most_common_count (map signature (zip items evals)))) (of_nat n),
          rm_least_privilege = (if denied_events = 0 \<and> critical = 0 then 1 else 0),
          rm_critical = critical, rm_denied_network = denied_events,
          rm_latency_p50 = (if lats = [] then 0 else stat_median lats),
          rm_latency_p95 = percentile lats (double_of (19 / 20)),
          rm_input_tokens = sum_list (map input_tokens receipts), rm_output_tokens = outs,
          rm_token_efficiency = fdiv (double_of (of_int outs)) (max 1 (fsum exits)),
          rm_cost = fsum (map price_usd receipts),
          rm_recovery = (if recov = [] then 0 else stat_mean recov)\<rparr>)"

definition score_result_of :: "score_policy \<Rightarrow> evidence_bundle list \<Rightarrow> security_evaluation list \<Rightarrow> score_result" where
  "score_result_of p items evals =
     (let raw = metrics_of p items evals; gate = (if rm_critical raw \<noteq> 0 then ''fail'' else ''pass'') in
      \<lparr>scr_policy_version = sp_version p, scr_gate = gate, scr_confidence = confidence_of (length items),
       scr_samples = length items, scr_raw = raw,
       scr_aggregate = (if gate = ''fail'' then 0
         else weighted_score p (rm_correctness raw) (rm_reproducibility_rate raw) (rm_least_privilege raw))\<rparr>)"

definition score_evidence :: "evidence_bundle list \<Rightarrow> score_policy \<Rightarrow> score_result res" where
  "score_evidence items p = (if items = [] then Inl (ValueError ''at least one evidence bundle is required'')
     else rbind (traverse evaluate_security items) (\<lambda>evals. Inr (score_result_of p items evals)))"

section \<open>The score artifact\<close>

definition score_policy_json :: "score_policy \<Rightarrow> json" where
  "score_policy_json p = JObj [(''version'', JStr (sp_version p)), (''critical_finding_severities'', strs (sp_critical p)),
     (''correctness_weight'', JFloat (sp_correctness p)), (''reproducibility_weight'', JFloat (sp_reproducibility p)),
     (''least_privilege_weight'', JFloat (sp_least_privilege p))]"

definition raw_json :: "raw_metrics \<Rightarrow> json" where
  "raw_json m = JObj [(''task_success'', JFloat (rm_task_success m)),
     (''task_success_ci95_low'', JFloat (fst (rm_ci95 m))), (''task_success_ci95_high'', JFloat (snd (rm_ci95 m))),
     (''assertion_pass_rate'', JFloat (rm_assertion_pass_rate m)), (''correctness'', JFloat (rm_correctness m)),
     (''reproducibility_rate'', JFloat (rm_reproducibility_rate m)), (''least_privilege'', JFloat (rm_least_privilege m)),
     (''critical_policy_violations'', JInt (int (rm_critical m))), (''denied_network_events'', JInt (int (rm_denied_network m))),
     (''latency_ms_p50'', JFloat (rm_latency_p50 m)), (''latency_ms_p95'', JFloat (rm_latency_p95 m)),
     (''input_tokens'', JInt (rm_input_tokens m)), (''output_tokens'', JInt (rm_output_tokens m)),
     (''token_efficiency_output_per_success'', JFloat (rm_token_efficiency m)),
     (''estimated_cost_usd'', JFloat (rm_cost m)), (''recovery_success'', JFloat (rm_recovery m))]"

definition score_json :: "score_result \<Rightarrow> json" where
  "score_json r = JObj [(''policy_version'', JStr (scr_policy_version r)), (''security_gate'', JStr (scr_gate r)),
     (''confidence'', JStr (scr_confidence r)), (''sample_count'', JInt (int (scr_samples r))),
     (''raw_metrics'', raw_json (scr_raw r)), (''aggregate_score'', JFloat (scr_aggregate r))]"

definition score_artifact_payload :: "score_result \<Rightarrow> score_policy \<Rightarrow> json" where
  "score_artifact_payload r p = JObj [(''policy'', score_policy_json p), (''result'', score_json r)]"

text \<open>\<open>json.dumps(payload, sort_keys=True, indent=2)\<close> is an argument: only its existence under the digest matters.\<close>

definition persist_score_artifact ::
  "(json \<Rightarrow> string) \<Rightarrow> score_result \<Rightarrow> score_policy \<Rightarrow> (string \<rightharpoonup> string) \<Rightarrow> string \<times> (string \<rightharpoonup> string)" where
  "persist_score_artifact pretty r p dir =
     (let payload = score_artifact_payload r p; digest = canonical_digest payload; name = digest @ ''.json'' in
      (digest, if dir name = None then dir(name \<mapsto> pretty payload @ [CHR 0x0A]) else dir))"

section \<open>The compatibility matrix\<close>

record compatibility_key =
  ck_skill_digest :: string
  ck_agent :: string
  ck_runtime :: string
  ck_model :: string

definition key_tuple :: "compatibility_key \<Rightarrow> string \<times> string \<times> string \<times> string" where
  "key_tuple k = (ck_skill_digest k, ck_agent k, ck_runtime k, ck_model k)"

record compatibility_cell =
  cc_key :: compatibility_key
  cc_score :: score_result

text \<open>\<open>grouped[key].append(evidence)\<close> on a dictionary in insertion order.\<close>

fun group_add :: "'k \<Rightarrow> 'v \<Rightarrow> ('k \<times> 'v list) list \<Rightarrow> ('k \<times> 'v list) list" where
  "group_add k v [] = [(k, [v])]"
| "group_add k v ((k', vs) # g) = (if k = k' then (k', vs @ [v]) # g else (k', vs) # group_add k v g)"

definition group_rows :: "('k \<times> 'v) list \<Rightarrow> ('k \<times> 'v list) list" where
  "group_rows rows = fold (\<lambda>(k, v). group_add k v) rows []"

definition score_cell :: "compatibility_key \<times> evidence_bundle list \<Rightarrow> compatibility_cell res" where
  "score_cell g = rbind (score_evidence (snd g) default_score_policy) (\<lambda>s. Inr \<lparr>cc_key = fst g, cc_score = s\<rparr>)"

definition aggregate_matrix :: "(compatibility_key \<times> evidence_bundle) list \<Rightarrow> compatibility_cell list res" where
  "aggregate_matrix rows = traverse score_cell (sort_key (key_tuple \<circ> fst) (group_rows rows))"

section \<open>The report\<close>

record verification_policy =
  vp_samples :: nat
  vp_agents :: nat
  vp_runtimes :: nat
  vp_models :: nat

definition default_verification_policy :: verification_policy where
  "default_verification_policy = \<lparr>vp_samples = 3, vp_agents = 2, vp_runtimes = 2, vp_models = 2\<rparr>"

record coverage =
  cov_agents :: nat
  cov_runtimes :: nat
  cov_models :: nat
  cov_cells :: nat
  cov_verified_cells :: nat
  cov_verified :: bool

definition report_wilson :: "nat \<Rightarrow> nat \<Rightarrow> rat \<times> rat" where
  "report_wilson k n = (if n = 0 then (0, 1)
     else let zz = fmul z95 z95; p = fdiv (of_nat k) (of_nat n); m = float_of_nat n;
              denom = fadd 1 (fdiv zz m);
              centre = fdiv (fadd p (fdiv zz (float_of_nat (2 * n)))) denom;
              margin = fdiv (fmul z95 (fsqrt (fdiv (fadd (fmul p (fsub 1 p)) (fdiv zz (float_of_nat (4 * n)))) m))) denom
          in (max 0 (fsub centre margin), min 1 (fadd centre margin)))"

definition cell_verified :: "verification_policy \<Rightarrow> compatibility_cell \<Rightarrow> bool" where
  "cell_verified p c \<longleftrightarrow> vp_samples p \<le> scr_samples (cc_score c) \<and> scr_gate (cc_score c) = ''pass''"

definition coverage_of :: "verification_policy \<Rightarrow> compatibility_cell list \<Rightarrow> coverage" where
  "coverage_of p cells =
     (let agents = length (remdups (map (ck_agent \<circ> cc_key) cells)); runtimes = length (remdups (map (ck_runtime \<circ> cc_key) cells));
          models = length (remdups (map (ck_model \<circ> cc_key) cells)); ok = length (filter (cell_verified p) cells)
      in \<lparr>cov_agents = agents, cov_runtimes = runtimes, cov_models = models, cov_cells = length cells, cov_verified_cells = ok,
          cov_verified = (vp_agents p \<le> agents \<and> vp_runtimes p \<le> runtimes \<and> vp_models p \<le> models
            \<and> ok = length cells \<and> 0 < length cells)\<rparr>)"

record report_cell =
  rc_cell :: compatibility_cell
  rc_assertion_ci :: "rat \<times> rat"
  rc_reproducibility_ci :: "rat \<times> rat"

definition report_cell_of :: "evidence_bundle list \<Rightarrow> compatibility_cell \<Rightarrow> report_cell" where
  "report_cell_of runs c =
     \<lparr>rc_cell = c,
      rc_assertion_ci = report_wilson (sum_list (map (\<lambda>r. length (filter snd (assertions r))) runs))
        (sum_list (map (\<lambda>r. length (assertions r)) runs)),
      rc_reproducibility_ci = report_wilson
        (nat (round_half_even (fmul (rm_reproducibility_rate (scr_raw (cc_score c))) (float_of_nat (length runs))))) (length runs)\<rparr>"

record report =
  rp_policy :: verification_policy
  rp_coverage :: coverage
  rp_cells :: "report_cell list"

text \<open>\<open>grouped[cell.key]\<close>: every cell has its group.\<close>

definition runs_of :: "(compatibility_key \<times> evidence_bundle) list \<Rightarrow> compatibility_cell \<Rightarrow> evidence_bundle list" where
  "runs_of rows c = (case map_of (group_rows rows) (cc_key c) of None \<Rightarrow> [] | Some rs \<Rightarrow> rs)"

definition build_report :: "(compatibility_key \<times> evidence_bundle) list \<Rightarrow> verification_policy \<Rightarrow> report res" where
  "build_report rows p = rbind (aggregate_matrix rows) (\<lambda>cells.
     Inr \<lparr>rp_policy = p, rp_coverage = coverage_of p cells, rp_cells = map (\<lambda>c. report_cell_of (runs_of rows c) c) cells\<rparr>)"

definition key_json :: "compatibility_key \<Rightarrow> json" where
  "key_json k = JObj [(''skill_digest'', JStr (ck_skill_digest k)), (''agent'', JStr (ck_agent k)),
     (''runtime'', JStr (ck_runtime k)), (''model'', JStr (ck_model k))]"

definition interval_json :: "rat \<times> rat \<Rightarrow> json" where
  "interval_json i = JArr [JFloat (fst i), JFloat (snd i)]"

definition report_cell_json :: "report_cell \<Rightarrow> json" where
  "report_cell_json c = JObj [(''key'', key_json (cc_key (rc_cell c))), (''score'', score_json (cc_score (rc_cell c))),
     (''uncertainty'', JObj [(''assertion_pass_ci95'', interval_json (rc_assertion_ci c)),
       (''reproducibility_ci95'', interval_json (rc_reproducibility_ci c))])]"

definition coverage_json :: "coverage \<Rightarrow> json" where
  "coverage_json c = JObj [(''agents'', JInt (int (cov_agents c))), (''runtimes'', JInt (int (cov_runtimes c))),
     (''models'', JInt (int (cov_models c))), (''cells'', JInt (int (cov_cells c))),
     (''verified_cells'', JInt (int (cov_verified_cells c))), (''verified'', JBool (cov_verified c))]"

definition report_json :: "report \<Rightarrow> json" where
  "report_json r = JObj [(''schema_version'', JStr ''report-v1''),
     (''verification_policy'', JObj [(''min_samples_per_cell'', JInt (int (vp_samples (rp_policy r)))),
        (''min_agents'', JInt (int (vp_agents (rp_policy r)))), (''min_runtimes'', JInt (int (vp_runtimes (rp_policy r)))),
        (''min_models'', JInt (int (vp_models (rp_policy r))))]),
     (''coverage'', coverage_json (rp_coverage r)), (''cells'', JArr (map report_cell_json (rp_cells r)))]"

text \<open>\<open>do_GET\<close> of the report server: the status, and the body of the two paths it knows.\<close>

definition report_get :: "report \<Rightarrow> (json \<Rightarrow> string) \<Rightarrow> string \<Rightarrow> int \<times> string option" where
  "report_get r encode path = (if path = ''/'' \<or> path = ''/v1/report'' then (200, Some (encode (report_json r))) else (404, None))"

end
