(* ===== verification/ScoringProperties.thy ===== *)
theory ScoringProperties
  imports Scoring
begin

text \<open>
  What a score promises: rates, intervals and scores stay within their bounds for any input, a severe
  finding forces the score to zero, cells are never pooled, and a report is verified exactly when its
  coverage and every cell are.
\<close>

section \<open>Rounded arithmetic\<close>

lemma double_of_nat: "n \<le> 2 ^ 53 \<Longrightarrow> double_of (of_nat n) = of_nat n"
proof -
  assume n: "n \<le> 2 ^ 53"
  consider "n = 0" | "n = 2 ^ 53" | "0 < n" "n < 2 ^ 53" using n by linarith
  then show ?thesis
  proof cases
    case 2
    have "double_of (2 ^ 53) = 2 ^ 53" by code_simp
    then show ?thesis by (simp add: 2)
  next
    case 3
    let ?x = "of_nat n :: rat" and ?e = "double_exp (of_nat n)"
    have pos: "0 < ?x" using 3 by simp
    have "(of_nat n :: rat) < of_nat (2 ^ 53)" using 3 by (simp only: of_nat_less_iff)
    then have lt: "?x < pow2 53" by (simp add: pow2_def)
    have "\<not> 0 < ?e"
    proof
      assume "0 < ?e"
      then have "pow2 53 \<le> pow2 (?e + 52)" by (intro pow2_mono) simp
      then show False using double_exp_spec [OF pos] lt by linarith
    qed
    then have e: "?e \<le> 0" by simp
    have q: "?x / pow2 ?e = of_int (int n * 2 ^ nat (- ?e))" using e by (auto simp: pow2_def)
    have "double_of ?x = of_int (round_half_even (?x / pow2 ?e)) * pow2 ?e" using pos by (simp add: double_of_def Let_def)
    also have "\<dots> = ?x / pow2 ?e * pow2 ?e" by (simp only: q round_half_even_of_int)
    also have "\<dots> = ?x" using pow2_pos [of ?e] by simp
    finally show ?thesis .
  qed simp
qed

lemma fsub_self_bounds: "\<lbrakk>0 \<le> p; p \<le> 1\<rbrakk> \<Longrightarrow> 0 \<le> fsub 1 p"
  by (simp add: fsub_def double_of_nonneg)

lemma fsub_le: "0 \<le> b \<Longrightarrow> fsub a b \<le> double_of a"
  unfolding fsub_def by (rule double_of_mono) simp

lemma fadd_ge: "0 \<le> b \<Longrightarrow> double_of a \<le> fadd a b"
  unfolding fadd_def by (rule double_of_mono) simp

lemma fdiv_antimono: "\<lbrakk>0 \<le> a; 0 < b; b \<le> c\<rbrakk> \<Longrightarrow> fdiv a c \<le> fdiv a b"
  unfolding fdiv_def by (rule double_of_mono) (simp add: frac_le)

lemma fmul_unit: "\<lbrakk>0 \<le> a; a \<le> 1; 0 \<le> c\<rbrakk> \<Longrightarrow> 0 \<le> fmul a c \<and> fmul a c \<le> double_of c"
  using fmul_mono [of a 1 c] by (simp add: fmul_nonneg)

lemma float_of_nat_pos: "0 < n \<Longrightarrow> 0 < float_of_nat n"
  using double_of_mono [of 1 "of_nat n"] by (simp add: float_of_nat_def)

lemma float_of_nat_mono: "m \<le> n \<Longrightarrow> float_of_nat m \<le> float_of_nat n"
  unfolding float_of_nat_def by (rule double_of_mono) simp

lemma sum_list_unit: "\<forall>x \<in> set xs. 0 \<le> x \<and> x \<le> (1 :: rat) \<Longrightarrow> 0 \<le> sum_list xs \<and> sum_list xs \<le> of_nat (length xs)"
  by (induction xs) (auto simp: add_nonneg_nonneg intro: add_mono)

lemma stat_mean_unit:
  assumes "\<forall>x \<in> set xs. 0 \<le> x \<and> x \<le> 1"
  shows "0 \<le> stat_mean xs \<and> stat_mean xs \<le> 1"
proof -
  have "0 \<le> sum_list xs / of_nat (length xs)" "sum_list xs / of_nat (length xs) \<le> 1"
    using sum_list_unit [OF assms] by (simp_all add: divide_le_eq_1)
  then show ?thesis using double_of_bounds [of "sum_list xs / of_nat (length xs)" 1] by (simp add: stat_mean_def)
qed

lemma assertion_rate_unit: "0 \<le> assertion_rate r \<and> assertion_rate r \<le> 1"
proof (cases "assertions r = []")
  case False
  have "0 \<le> (of_nat (length (filter id (map snd (assertions r)))) :: rat)"
    "(of_nat (length (filter id (map snd (assertions r)))) :: rat) \<le> of_nat (length (map snd (assertions r)))"
    by (simp_all only: of_nat_0_le_iff of_nat_le_iff length_filter_le)
  then show ?thesis using False by (simp add: assertion_rate_def Let_def fdiv_unit)
qed (simp add: assertion_rate_def)

lemma exit_ok_unit: "0 \<le> exit_ok r \<and> exit_ok r \<le> 1"
  by (simp add: exit_ok_def)

lemma most_common_le: "most_common_count xs \<le> length xs"
proof -
  have "foldr max ns 0 \<le> m" if "\<forall>n \<in> set ns. n \<le> m" for ns :: "nat list" and m using that by (induction ns) auto
  then show ?thesis by (simp add: most_common_count_def count_le_length)
qed

lemma fsum_exits:
  assumes "length rs \<le> 2 ^ 53"
  shows "fsum (map exit_ok rs) = of_nat (length (filter (\<lambda>r. exit_code r = Some 0) rs))"
  using assms
proof (induction rs rule: rev_induct)
  case (snoc r rs)
  let ?k = "length (filter (\<lambda>r. exit_code r = Some 0) rs)"
  have "?k \<le> length rs" by simp
  then have k: "?k < 2 ^ 53" using snoc.prems by (simp only: length_append_singleton)
  have "double_of (of_nat ?k) = of_nat ?k" "double_of (of_nat (Suc ?k)) = of_nat (Suc ?k)"
    using k by (simp_all only: double_of_nat less_imp_le Suc_leI)
  then show ?case using snoc by (simp add: fsum_def exit_ok_def fadd_def add.commute)
qed (simp add: fsum_def)

section \<open>Wilson intervals\<close>

definition unit_interval :: "rat \<times> rat \<Rightarrow> bool" where
  "unit_interval i \<longleftrightarrow> 0 \<le> fst i \<and> fst i \<le> snd i \<and> snd i \<le> 1"

lemma z95_pos: "0 \<le> z95"
  unfolding z95_def by (rule double_of_nonneg) simp

lemma wilson_denominator:
  assumes "0 < n"
  shows "1 \<le> fadd 1 (fdiv (fmul z95 z95) (float_of_nat n))"
  using fadd_ge [of "fdiv (fmul z95 z95) (float_of_nat n)" 1] z95_pos float_of_nat_pos [OF assms]
  by (simp add: fdiv_nonneg fmul_nonneg)

lemma wilson_centre:
  assumes "0 < n" "0 \<le> p" "p \<le> 1"
  shows "0 \<le> fadd p (fdiv (fmul z95 z95) (float_of_nat (2 * n)))"
    and "fadd p (fdiv (fmul z95 z95) (float_of_nat (2 * n))) \<le> fadd 1 (fdiv (fmul z95 z95) (float_of_nat n))"
proof -
  have z: "0 \<le> fmul z95 z95" by (simp add: fmul_nonneg z95_pos)
  have n: "0 < float_of_nat n" "0 < float_of_nat (2 * n)" using assms(1) by (simp_all add: float_of_nat_pos)
  have "fdiv (fmul z95 z95) (float_of_nat (2 * n)) \<le> fdiv (fmul z95 z95) (float_of_nat n)"
    using z n(1) by (rule fdiv_antimono) (simp add: float_of_nat_mono)
  then show "fadd p (fdiv (fmul z95 z95) (float_of_nat (2 * n))) \<le> fadd 1 (fdiv (fmul z95 z95) (float_of_nat n))"
    using assms(3) by (rule fadd_mono [rotated])
  show "0 \<le> fadd p (fdiv (fmul z95 z95) (float_of_nat (2 * n)))"
    using assms(2) z n(2) by (simp add: fadd_nonneg fdiv_nonneg)
qed

lemma wilson_interval_unit:
  assumes "k \<le> n"
  shows "unit_interval (wilson_interval k n)"
proof (cases "n = 0")
  case False
  define zz where "zz = fmul z95 z95"
  define p where "p = fdiv (of_nat k) (of_nat n)"
  define denom where "denom = fadd 1 (fdiv zz (float_of_nat n))"
  define centre where "centre = fadd p (fdiv zz (float_of_nat (2 * n)))"
  define spread where "spread = fmul z95 (fsqrt (fadd (fdiv (fmul p (fsub 1 p)) (float_of_nat n)) (fdiv zz (float_of_nat (4 * n * n)))))"
  have p: "0 \<le> p" "p \<le> 1" using fdiv_unit [of "of_nat k" "of_nat n"] assms False by (simp_all add: p_def)
  have d: "1 \<le> denom" using wilson_denominator False by (simp add: denom_def zz_def)
  have c: "0 \<le> centre" "centre \<le> denom" "double_of centre = centre"
    using wilson_centre [of n p] p False by (simp_all add: centre_def denom_def zz_def)
  have s: "0 \<le> spread" by (simp add: spread_def fmul_nonneg z95_pos fsqrt_nonneg)
  have low: "fsub centre spread \<le> centre" using fsub_le [OF s, of centre] c(3) by simp
  have high: "centre \<le> fadd centre spread" using fadd_ge [OF s, of centre] c(3) by simp
  have "fdiv (fsub centre spread) denom \<le> fdiv denom denom" using low c(2) d by (intro fdiv_mono) auto
  moreover have "fdiv (fsub centre spread) denom \<le> fdiv (fadd centre spread) denom" using low high d by (intro fdiv_mono) auto
  moreover have "0 \<le> fdiv (fadd centre spread) denom" using c(1) s d by (simp add: fdiv_nonneg fadd_nonneg)
  moreover have "fdiv denom denom = 1" using d by simp
  moreover have "wilson_interval k n = (max 0 (fdiv (fsub centre spread) denom), min 1 (fdiv (fadd centre spread) denom))"
    using False by (simp only: wilson_interval_def Let_def if_False zz_def p_def denom_def centre_def spread_def)
  ultimately show ?thesis by (simp add: unit_interval_def)
qed (simp add: wilson_interval_def unit_interval_def)

lemma report_wilson_unit:
  assumes "k \<le> n"
  shows "unit_interval (report_wilson k n)"
proof (cases "n = 0")
  case False
  define zz where "zz = fmul z95 z95"
  define p where "p = fdiv (of_nat k) (of_nat n)"
  define denom where "denom = fadd 1 (fdiv zz (float_of_nat n))"
  define raw where "raw = fadd p (fdiv zz (float_of_nat (2 * n)))"
  define centre where "centre = fdiv raw denom"
  define margin where "margin = fdiv (fmul z95 (fsqrt (fdiv (fadd (fmul p (fsub 1 p)) (fdiv zz (float_of_nat (4 * n)))) (float_of_nat n)))) denom"
  have p: "0 \<le> p" "p \<le> 1" using fdiv_unit [of "of_nat k" "of_nat n"] assms False by (simp_all add: p_def)
  have d: "1 \<le> denom" using wilson_denominator False by (simp add: denom_def zz_def)
  have "0 \<le> raw" "raw \<le> denom" using wilson_centre [of n p] p False by (simp_all add: raw_def denom_def zz_def)
  then have c: "0 \<le> centre" "centre \<le> 1" "double_of centre = centre"
    using d fdiv_unit [of raw denom] by (simp_all add: centre_def)
  have m: "0 \<le> margin" using d by (simp add: margin_def fdiv_nonneg fmul_nonneg z95_pos fsqrt_nonneg)
  have "fsub centre margin \<le> centre" "centre \<le> fadd centre margin"
    using fsub_le [OF m, of centre] fadd_ge [OF m, of centre] c(3) by simp_all
  moreover have "report_wilson k n = (max 0 (fsub centre margin), min 1 (fadd centre margin))"
    using False by (simp only: report_wilson_def Let_def if_False zz_def p_def denom_def raw_def centre_def margin_def)
  ultimately show ?thesis using c(1,2) by (simp add: unit_interval_def)
qed (simp add: report_wilson_def unit_interval_def)

section \<open>Scores\<close>

lemma score_evidence_Inr:
  "score_evidence items p = Inr r \<longleftrightarrow> items \<noteq> [] \<and> (\<exists>evals. traverse evaluate_security items = Inr evals \<and> r = score_result_of p items evals)"
  by (auto simp: score_evidence_def rbind_Inr_iff)

lemma correctness_unit:
  assumes "0 \<le> a" "a \<le> 1" "0 \<le> b" "b \<le> 1"
  shows "0 \<le> correctness_of a b \<and> correctness_of a b \<le> 1"
proof -
  have c: "0 \<le> double_of (11 / 20)" "0 \<le> double_of (9 / 20)" by (simp_all add: double_of_nonneg)
  have "fadd (double_of (11 / 20)) (double_of (9 / 20)) = 1" by code_simp
  then show ?thesis
    using fmul_unit [OF assms(1,2) c(1)] fmul_unit [OF assms(3,4) c(2)]
      fadd_mono [of "fmul a (double_of (11 / 20))" "double_of (11 / 20)" "fmul b (double_of (9 / 20))" "double_of (9 / 20)"]
    by (simp add: correctness_of_def fadd_nonneg)
qed

lemma weighted_unit:
  assumes "0 \<le> a" "a \<le> 1" "0 \<le> b" "b \<le> 1" "0 \<le> c" "c \<le> 1"
  shows "0 \<le> weighted_score default_score_policy a b c \<and> weighted_score default_score_policy a b c \<le> 1 - 1 / 2 ^ 53"
proof -
  let ?u = "double_of (7 / 10)" and ?v = "double_of (1 / 5)" and ?w = "double_of (1 / 10)"
  have w: "0 \<le> ?u" "0 \<le> ?v" "0 \<le> ?w" by (simp_all add: double_of_nonneg)
  have "fadd (fadd ?u ?v) ?w = 1 - 1 / 2 ^ 53" by code_simp
  moreover have "weighted_score default_score_policy a b c \<le> fadd (fadd ?u ?v) ?w"
    using fmul_unit [OF assms(1,2) w(1)] fmul_unit [OF assms(3,4) w(2)] fmul_unit [OF assms(5,6) w(3)]
    by (simp add: weighted_score_def default_score_policy_def fadd_mono)
  ultimately show ?thesis
    using assms w by (simp add: weighted_score_def default_score_policy_def fadd_nonneg fmul_nonneg)
qed

lemma metrics_unit:
  fixes p :: score_policy and evals :: "security_evaluation list"
  assumes "items \<noteq> []" "length items \<le> 2 ^ 53" "length evals = length items"
  defines "m \<equiv> metrics_of p items evals"
  shows "0 \<le> rm_task_success m \<and> rm_task_success m \<le> 1" and "unit_interval (rm_ci95 m)"
    and "0 \<le> rm_assertion_pass_rate m \<and> rm_assertion_pass_rate m \<le> 1"
    and "0 \<le> rm_correctness m \<and> rm_correctness m \<le> 1"
    and "0 \<le> rm_reproducibility_rate m \<and> rm_reproducibility_rate m \<le> 1"
    and "rm_least_privilege m \<in> {0, 1}"
proof -
  have a: "0 \<le> stat_mean (map exit_ok items) \<and> stat_mean (map exit_ok items) \<le> 1"
    and b: "0 \<le> stat_mean (map assertion_rate items) \<and> stat_mean (map assertion_rate items) \<le> 1"
    using exit_ok_unit assertion_rate_unit by (intro stat_mean_unit; simp)+
  then show "0 \<le> rm_task_success m \<and> rm_task_success m \<le> 1"
    "0 \<le> rm_assertion_pass_rate m \<and> rm_assertion_pass_rate m \<le> 1"
    "0 \<le> rm_correctness m \<and> rm_correctness m \<le> 1"
    using correctness_unit [of "stat_mean (map exit_ok items)" "stat_mean (map assertion_rate items)"]
    by (simp_all add: m_def metrics_of_def Let_def)
  show "unit_interval (rm_ci95 m)"
    using fsum_exits [OF assms(2)] by (simp add: m_def metrics_of_def Let_def wilson_interval_unit)
  have "most_common_count (map signature (zip items evals)) \<le> length items"
    using most_common_le [of "map signature (zip items evals)"] assms(3) by simp
  then show "0 \<le> rm_reproducibility_rate m \<and> rm_reproducibility_rate m \<le> 1"
    using assms(1) by (simp add: m_def metrics_of_def Let_def fdiv_unit)
  show "rm_least_privilege m \<in> {0, 1}" by (simp add: m_def metrics_of_def Let_def)
qed

lemma score_range:
  assumes "score_evidence items default_score_policy = Inr r" and "length items \<le> 2 ^ 53"
  shows "0 \<le> scr_aggregate r \<and> scr_aggregate r \<le> 1 - 1 / 2 ^ 53
    \<and> 0 \<le> rm_task_success (scr_raw r) \<and> rm_task_success (scr_raw r) \<le> 1
    \<and> 0 \<le> rm_assertion_pass_rate (scr_raw r) \<and> rm_assertion_pass_rate (scr_raw r) \<le> 1
    \<and> 0 \<le> rm_reproducibility_rate (scr_raw r) \<and> rm_reproducibility_rate (scr_raw r) \<le> 1
    \<and> 0 \<le> fst (rm_ci95 (scr_raw r)) \<and> fst (rm_ci95 (scr_raw r)) \<le> snd (rm_ci95 (scr_raw r)) \<and> snd (rm_ci95 (scr_raw r)) \<le> 1
    \<and> scr_samples r = length items"
proof -
  obtain evals where e: "items \<noteq> []" "traverse evaluate_security items = Inr evals"
    "r = score_result_of default_score_policy items evals" using assms(1) by (auto simp: score_evidence_Inr)
  note m = metrics_unit [OF e(1) assms(2) traverse_length [OF e(2)], of default_score_policy]
  have "0 \<le> scr_aggregate r \<and> scr_aggregate r \<le> 1 - 1 / 2 ^ 53"
    using m(4,5,6) weighted_unit [of "rm_correctness (metrics_of default_score_policy items evals)"
        "rm_reproducibility_rate (metrics_of default_score_policy items evals)"
        "rm_least_privilege (metrics_of default_score_policy items evals)"]
    by (auto simp: e(3) score_result_of_def Let_def)
  then show ?thesis using m(1,2,3,5) by (simp add: e(3) score_result_of_def Let_def unit_interval_def)
qed

text \<open>C28: For any runs the scores stay within bounds: the rates and the confidence interval lie in the unit
  interval, the interval is not inverted, and the aggregate of the default policy lies between 0 and
  \<open>1 - 2^-53\<close>; rounding never carries a score out of range, and 1 is never reached, because the weights
  0.7, 0.2 and 0.1 add up to less than 1 as floats.\<close>

theorem score_stays_bounded:
  assumes "score_evidence items default_score_policy = Inr r" and "length items \<le> 2 ^ 53"
  shows "0 \<le> scr_aggregate r \<and> scr_aggregate r \<le> 1 - 1 / 2 ^ 53
    \<and> 0 \<le> rm_task_success (scr_raw r) \<and> rm_task_success (scr_raw r) \<le> 1
    \<and> 0 \<le> rm_assertion_pass_rate (scr_raw r) \<and> rm_assertion_pass_rate (scr_raw r) \<le> 1
    \<and> 0 \<le> rm_reproducibility_rate (scr_raw r) \<and> rm_reproducibility_rate (scr_raw r) \<le> 1
    \<and> 0 \<le> fst (rm_ci95 (scr_raw r)) \<and> fst (rm_ci95 (scr_raw r)) \<le> snd (rm_ci95 (scr_raw r)) \<and> snd (rm_ci95 (scr_raw r)) \<le> 1
    \<and> scr_samples r = length items"
  by (rule score_range [OF assms])

definition clean_run :: evidence_bundle where
  "clean_run = (empty_evidence ''r'')\<lparr>exit_code := Some 0, assertions := [(''ok'', True)]\<rparr>"

lemma clean_run_secure: "evaluate_security clean_run = Inr \<lparr>sec_findings = [], sec_gate = ''pass''\<rparr>"
  by (simp add: evaluate_security_def changed_paths_def combined_findings_def clean_run_def empty_evidence_def
      jget_default_def output_text_def secret_markers_def starts_with_def lower_def lower_char_def)

lemma score_stays_bounded_witness:
  "\<exists>r. score_evidence [clean_run, clean_run] default_score_policy = Inr r \<and> 0 \<le> scr_aggregate r \<and> scr_samples r = 2"
proof -
  obtain r where r: "score_evidence [clean_run, clean_run] default_score_policy = Inr r"
    by (simp add: score_evidence_def clean_run_secure)
  show ?thesis using score_stays_bounded [OF r] r by simp
qed

section \<open>The gate of a score\<close>

lemma falsy_str: "\<not> truthy v \<Longrightarrow> py_str v \<in> {''None'', ''False'', show_int 0, ''0.0'', [], ''[]'', ''{}''}"
  by (cases v) (auto simp: py_str_def float_repr_def)

lemma named_truthy: "lower (py_str v) \<in> {''critical'', ''high''} \<Longrightarrow> truthy v"
proof (rule ccontr)
  have "\<forall>s \<in> {''None'', ''False'', show_int 0, ''0.0'', [], ''[]'', ''{}''}. lower s \<notin> {''critical'', ''high''}" by code_simp
  moreover assume "lower (py_str v) \<in> {''critical'', ''high''}" "\<not> truthy v"
  ultimately show False using falsy_str by blast
qed

lemma severe_named:
  assumes "severe f"
  shows "score_severity f \<in> {''critical'', ''high''}"
proof (cases "map_of f ''severity''")
  case None
  then show ?thesis using assms by (simp add: severe_def jget_default_def lower_def)
next
  case (Some v)
  then have v: "lower (py_str v) \<in> {''critical'', ''high''}" using assms by (simp only: severe_def jget_default_def option.case)
  then have "truthy v" by (rule named_truthy)
  then show ?thesis using v Some by (simp add: score_severity_def jget_null_def)
qed

lemma critical_count_pos:
  "critical_count p evals \<noteq> 0 \<longleftrightarrow> (\<exists>s \<in> set evals. \<exists>f \<in> set (sec_findings s). score_severity f \<in> set (sp_critical p))"
  by (auto simp: critical_count_def filter_empty_conv)

lemma traverse_set:
  "traverse f xs = Inr ys \<Longrightarrow> y \<in> set ys \<longleftrightarrow> (\<exists>x \<in> set xs. f x = Inr y)"
  by (induction xs arbitrary: ys) (auto simp: rbind_Inr_iff)

text \<open>A score's gate fails exactly when some finding of some run has a severity the policy calls
  critical, and then the aggregate and the least privilege are zero, however good the rest is. When the
  policy lists critical and high, a run whose own security gate fails always closes the gate of its
  group.\<close>

theorem score_respects_gate:
  assumes "score_evidence items p = Inr r"
  shows "(scr_gate r = ''fail'' \<longleftrightarrow> (\<exists>run \<in> set items. \<exists>s. evaluate_security run = Inr s
            \<and> (\<exists>f \<in> set (sec_findings s). score_severity f \<in> set (sp_critical p))))
    \<and> (scr_gate r = ''fail'' \<longrightarrow> scr_aggregate r = 0 \<and> rm_least_privilege (scr_raw r) = 0)
    \<and> ({''critical'', ''high''} \<subseteq> set (sp_critical p) \<and> (\<exists>run \<in> set items. \<exists>s. evaluate_security run = Inr s \<and> sec_gate s = ''fail'')
        \<longrightarrow> scr_gate r = ''fail'')"
proof -
  obtain evals where e: "traverse evaluate_security items = Inr evals" "r = score_result_of p items evals"
    using assms by (auto simp: score_evidence_Inr)
  have gate: "scr_gate r = ''fail'' \<longleftrightarrow> critical_count p evals \<noteq> 0"
    by (simp add: e(2) score_result_of_def metrics_of_def Let_def)
  have iff: "scr_gate r = ''fail'' \<longleftrightarrow> (\<exists>run \<in> set items. \<exists>s. evaluate_security run = Inr s
      \<and> (\<exists>f \<in> set (sec_findings s). score_severity f \<in> set (sp_critical p)))"
    unfolding gate critical_count_pos using traverse_set [OF e(1)] by blast
  moreover have "scr_gate r = ''fail'' \<longrightarrow> scr_aggregate r = 0 \<and> rm_least_privilege (scr_raw r) = 0"
    by (auto simp: e(2) score_result_of_def metrics_of_def Let_def)
  moreover have "scr_gate r = ''fail''" if sub: "{''critical'', ''high''} \<subseteq> set (sp_critical p)"
    and run: "run \<in> set items" "evaluate_security run = Inr s" "sec_gate s = ''fail''" for run s
  proof -
    obtain f where f: "f \<in> set (sec_findings s)" "severe f"
      using security_gate_findings [OF run(2)] run(3) by (auto simp: list_ex_iff)
    then have "score_severity f \<in> set (sp_critical p)" using severe_named sub by blast
    then show ?thesis using iff run(1,2) f(1) by blast
  qed
  ultimately show ?thesis by blast
qed

definition leaking_run :: evidence_bundle where
  "leaking_run = clean_run\<lparr>network := [[(''action'', JStr ''Denied'')]]\<rparr>"

lemma lower_examples [simp]: "lower ''Denied'' = ''denied''" "lower ''Critical'' = ''critical''" "lower ''high'' = ''high''" "lower [CHR 0x0A] = [CHR 0x0A]"
  by code_simp+

lemma leaking_run_fails:
  "evaluate_security leaking_run = Inr \<lparr>sec_findings = [finding ''undeclared_network'' ''high'' ''network'' [(''action'', JStr ''Denied'')]],
     sec_gate = ''fail''\<rparr>"
  by (simp add: evaluate_security_def changed_paths_def combined_findings_def clean_run_def leaking_run_def empty_evidence_def
      jget_default_def output_text_def secret_markers_def starts_with_def denied_def)

lemma score_respects_gate_witness:
  "\<exists>r. score_evidence [clean_run, leaking_run] default_score_policy = Inr r \<and> scr_gate r = ''fail'' \<and> scr_aggregate r = 0"
proof -
  obtain r where r: "score_evidence [clean_run, leaking_run] default_score_policy = Inr r"
    by (simp add: score_evidence_def clean_run_secure leaking_run_fails)
  have "{''critical'', ''high''} \<subseteq> set (sp_critical default_score_policy)" by (simp add: default_score_policy_def)
  moreover have "\<exists>run \<in> set [clean_run, leaking_run]. \<exists>s. evaluate_security run = Inr s \<and> sec_gate s = ''fail''"
    by (simp add: leaking_run_fails)
  ultimately have "scr_gate r = ''fail''" "scr_aggregate r = 0" using score_respects_gate [OF r] by blast+
  then show ?thesis using r by blast
qed

text \<open>
  The converse fails: the gate of a single run reads only \<open>severity\<close>, a score also \<open>severity_name\<close>, so a
  finding that gives its severity under that name passes the verdict and closes the score.
\<close>

lemma severity_name_diverges:
  "\<exists>run s. evaluate_security run = Inr s \<and> sec_gate s = ''pass''
     \<and> critical_count default_score_policy [s] = 1"
proof -
  let ?run = "clean_run\<lparr>findings := [[(''severity_name'', JStr ''Critical'')]]\<rparr>"
  have "evaluate_security ?run = Inr \<lparr>sec_findings = [[(''severity_name'', JStr ''Critical'')]], sec_gate = ''pass''\<rparr>"
    by (simp add: evaluate_security_def changed_paths_def combined_findings_def clean_run_def empty_evidence_def severe_def
      jget_default_def output_text_def secret_markers_def starts_with_def lower_def lower_char_def)
  moreover have "critical_count default_score_policy [\<lparr>sec_findings = [[(''severity_name'', JStr ''Critical'')]], sec_gate = ''pass''\<rparr>] = 1"
    by (simp add: critical_count_def score_severity_def jget_null_def default_score_policy_def)
  ultimately show ?thesis by (intro exI conjI; (assumption | simp))
qed

section \<open>The matrix\<close>

text \<open>The reference: one cell for every key that occurs, in order, scored from exactly its own runs.\<close>

definition runs_with :: "compatibility_key \<Rightarrow> (compatibility_key \<times> evidence_bundle) list \<Rightarrow> evidence_bundle list" where
  "runs_with k rows = map snd (filter (\<lambda>r. fst r = k) rows)"

definition sorted_keys :: "(compatibility_key \<times> 'v) list \<Rightarrow> compatibility_key list" where
  "sorted_keys rows = sort_key key_tuple (remdups (map fst rows))"

lemma key_tuple_inj: "inj key_tuple"
  by (rule injI) (simp add: key_tuple_def)

lemma group_add_keys: "fst ` set (group_add k v g) = insert k (fst ` set g)"
  by (induction k v g rule: group_add.induct) auto

lemma group_add_distinct: "distinct (map fst g) \<Longrightarrow> distinct (map fst (group_add k v g))"
proof (induction k v g rule: group_add.induct)
  case (2 k v k' vs g)
  then show ?case using group_add_keys [of k v g] by auto
qed simp

lemma group_add_lookup:
  "map_of (group_add k v g) j = (if j = k then Some ((case map_of g k of None \<Rightarrow> [] | Some vs \<Rightarrow> vs) @ [v]) else map_of g j)"
  by (induction k v g rule: group_add.induct) auto

lemma group_rows_snoc: "group_rows (rows @ [(k, v)]) = group_add k v (group_rows rows)"
  by (simp add: group_rows_def)

lemma group_rows_keys: "fst ` set (group_rows rows) = fst ` set rows" "distinct (map fst (group_rows rows))"
proof (induction rows rule: rev_induct)
  case (snoc r rows)
  obtain k v where r: "r = (k, v)" by (cases r)
  { case 1 show ?case using snoc by (simp add: r group_rows_snoc group_add_keys) }
  { case 2 show ?case using snoc by (simp only: r group_rows_snoc group_add_distinct) }
qed (simp_all add: group_rows_def)

lemma group_rows_lookup:
  "map_of (group_rows rows) k = (if k \<in> fst ` set rows then Some (map snd (filter (\<lambda>r. fst r = k) rows)) else None)"
proof (induction rows rule: rev_induct)
  case (snoc r rows)
  obtain j v where r: "r = (j, v)" by (cases r)
  have "filter (\<lambda>r. fst r = k) rows = []" if "k \<notin> fst ` set rows" using that by (auto simp: filter_empty_conv)
  then show ?case using snoc by (auto simp: r group_rows_snoc group_add_lookup)
qed (simp add: group_rows_def)

lemma sort_key_map_pair: "sort_key (key_tuple \<circ> fst) (map (\<lambda>k. (k, f k)) ks) = map (\<lambda>k. (k, f k)) (sort_key key_tuple ks)"
proof -
  have ins: "insort_key (\<lambda>a. key_tuple (fst a)) (k, f k) (map (\<lambda>k. (k, f k)) ks) = map (\<lambda>k. (k, f k)) (insort_key key_tuple k ks)" for k ks
    by (induction ks) auto
  show ?thesis unfolding comp_def by (induction ks) (simp_all add: ins)
qed

lemma sort_key_unique:
  assumes "inj f" "distinct xs" "distinct ys" "set xs = set ys"
  shows "sort_key f xs = sort_key f ys"
proof -
  have "distinct (map f (sort_key f zs))" if "distinct zs" for zs
    using that assms(1) by (simp add: distinct_map inj_on_subset [OF assms(1)])
  then have "map f (sort_key f xs) = map f (sort_key f ys)"
    using assms by (intro map_sorted_distinct_set_unique [of "id" "map f (sort_key f xs)" "map f (sort_key f ys)", simplified]) auto
  then show ?thesis using assms(1) by (simp add: inj_map_eq_map)
qed

lemma group_rows_map: "group_rows rows = map (\<lambda>k. (k, runs_with k rows)) (map fst (group_rows rows))"
proof -
  have "snd g = runs_with (fst g) rows" if "g \<in> set (group_rows rows)" for g
    using that group_rows_lookup [of rows "fst g"] group_rows_keys [of rows]
      map_of_is_SomeI [of "group_rows rows" "fst g" "snd g"] by (auto simp: runs_with_def split: if_splits)
  then show ?thesis by (simp add: map_idI prod_eq_iff)
qed

lemma sorted_groups: "sort_key (key_tuple \<circ> fst) (group_rows rows) = map (\<lambda>k. (k, runs_with k rows)) (sorted_keys rows)"
proof -
  have "sort_key key_tuple (map fst (group_rows rows)) = sorted_keys rows"
    unfolding sorted_keys_def using key_tuple_inj group_rows_keys [of rows] by (intro sort_key_unique) auto
  then show ?thesis by (subst group_rows_map) (simp only: sort_key_map_pair)
qed

lemma traverse_map: "traverse f (map g xs) = traverse (\<lambda>x. f (g x)) xs"
  by (induction xs) auto

lemma matrix_reference:
  "aggregate_matrix rows = traverse (\<lambda>k. rbind (score_evidence (runs_with k rows) default_score_policy)
     (\<lambda>s. Inr \<lparr>cc_key = k, cc_score = s\<rparr>)) (sorted_keys rows)"
  unfolding aggregate_matrix_def sorted_groups by (simp add: traverse_map score_cell_def)

text \<open>C29: The matrix is the one of the reference definition: for every key that occurs, and no other, in the
  order of the keys and once each, the score of exactly the runs recorded under that key, in their
  order; runs of different agents, runtimes, models or skills are never pooled, and a run that cannot be
  scored makes the whole matrix fail with its error.\<close>

theorem matrix_never_pools:
  "aggregate_matrix rows = traverse (\<lambda>k. rbind (score_evidence (runs_with k rows) default_score_policy)
      (\<lambda>s. Inr \<lparr>cc_key = k, cc_score = s\<rparr>)) (sorted_keys rows)
    \<and> set (sorted_keys rows) = fst ` set rows \<and> distinct (sorted_keys rows)"
  by (simp add: matrix_reference sorted_keys_def)

section \<open>The report\<close>

lemma length_remdups: "length (remdups xs) = card (set xs)"
  by (simp add: length_remdups_card_conv)

lemma matrix_cells:
  assumes "aggregate_matrix rows = Inr cells"
  shows "map cc_key cells = sorted_keys rows"
    and "c \<in> set cells \<Longrightarrow> score_evidence (runs_with (cc_key c) rows) default_score_policy = Inr (cc_score c)"
proof -
  have "map cc_key ys = ks \<and> (\<forall>c \<in> set ys. score_evidence (runs_with (cc_key c) rows) default_score_policy = Inr (cc_score c))"
    if "traverse (\<lambda>k. rbind (score_evidence (runs_with k rows) default_score_policy) (\<lambda>s. Inr \<lparr>cc_key = k, cc_score = s\<rparr>)) ks = Inr ys"
    for ks ys
    using that by (induction ks arbitrary: ys) (auto simp: rbind_Inr_iff)
  from this [OF assms [unfolded matrix_reference]]
  show "map cc_key cells = sorted_keys rows"
    and "c \<in> set cells \<Longrightarrow> score_evidence (runs_with (cc_key c) rows) default_score_policy = Inr (cc_score c)" by blast+
qed

lemma matrix_key_set: "aggregate_matrix rows = Inr cells \<Longrightarrow> cc_key ` set cells = fst ` set rows"
proof -
  assume "aggregate_matrix rows = Inr cells"
  from arg_cong [OF matrix_cells(1) [OF this], of set] show ?thesis by (simp add: sorted_keys_def)
qed

lemma score_samples: "score_evidence items p = Inr r \<Longrightarrow> scr_samples r = length items"
  by (auto simp: score_evidence_Inr score_result_of_def Let_def)

lemma length_filter_all: "length (filter P xs) = length xs \<longleftrightarrow> (\<forall>x \<in> set xs. P x)"
  using filter_id_conv [of P xs] length_filter_less [of _ xs P] by (metis less_irrefl)

definition verified_group :: "verification_policy \<Rightarrow> evidence_bundle list \<Rightarrow> bool" where
  "verified_group p runs \<longleftrightarrow> vp_samples p \<le> length runs
     \<and> (\<exists>s. score_evidence runs default_score_policy = Inr s \<and> scr_gate s = ''pass'')"

lemma coverage_verified:
  assumes "aggregate_matrix rows = Inr cells"
  shows "cov_verified (coverage_of p cells) \<longleftrightarrow> rows \<noteq> []
    \<and> vp_agents p \<le> card (ck_agent ` fst ` set rows) \<and> vp_runtimes p \<le> card (ck_runtime ` fst ` set rows)
    \<and> vp_models p \<le> card (ck_model ` fst ` set rows)
    \<and> (\<forall>k \<in> fst ` set rows. verified_group p (runs_with k rows))"
proof -
  note keys = matrix_key_set [OF assms]
  have "cell_verified p c \<longleftrightarrow> verified_group p (runs_with (cc_key c) rows)" if "c \<in> set cells" for c
    using matrix_cells(2) [OF assms that] score_samples [OF matrix_cells(2) [OF assms that]]
    by (simp add: cell_verified_def verified_group_def)
  then have "(\<forall>c \<in> set cells. cell_verified p c) \<longleftrightarrow> (\<forall>k \<in> cc_key ` set cells. verified_group p (runs_with k rows))" by simp
  moreover have "cells = [] \<longleftrightarrow> rows = []" using keys by auto
  moreover have "(ck_agent \<circ> cc_key) ` set cells = ck_agent ` fst ` set rows"
    "(ck_runtime \<circ> cc_key) ` set cells = ck_runtime ` fst ` set rows" "(ck_model \<circ> cc_key) ` set cells = ck_model ` fst ` set rows"
    by (simp_all only: image_comp [symmetric] keys)
  ultimately show ?thesis
    by (auto simp: coverage_of_def Let_def length_remdups keys length_filter_all)
qed

text \<open>A report claims verified coverage exactly when there are runs, they cover enough different agents,
  runtimes and models, and every single group that occurs has enough samples and a passing gate: one
  group that is too small or has a critical finding withdraws the claim for all of them.\<close>

theorem report_verified_iff:
  assumes "build_report rows p = Inr rep"
  shows "cov_verified (rp_coverage rep) \<longleftrightarrow> rows \<noteq> []
    \<and> vp_agents p \<le> card (ck_agent ` fst ` set rows) \<and> vp_runtimes p \<le> card (ck_runtime ` fst ` set rows)
    \<and> vp_models p \<le> card (ck_model ` fst ` set rows)
    \<and> (\<forall>k \<in> fst ` set rows. verified_group p (runs_with k rows))"
proof -
  obtain cells where c: "aggregate_matrix rows = Inr cells" "rp_coverage rep = coverage_of p cells"
    using assms by (auto simp: build_report_def rbind_Inr_iff)
  show ?thesis using coverage_verified [OF c(1), of p] by (simp only: c(2))
qed

definition example_key :: compatibility_key where
  "example_key = \<lparr>ck_skill_digest = ''d'', ck_agent = ''a'', ck_runtime = ''r'', ck_model = ''m''\<rparr>"

lemma clean_score:
  "\<exists>s. score_evidence [clean_run] default_score_policy = Inr s \<and> scr_gate s = ''pass''"
proof -
  obtain r where r: "score_evidence [clean_run] default_score_policy = Inr r"
    by (simp add: score_evidence_def clean_run_secure)
  then have "scr_gate r = ''pass''"
    by (auto simp: score_evidence_def clean_run_secure score_result_of_def metrics_of_def critical_count_def Let_def)
  then show ?thesis using r by blast
qed

lemma report_verified_iff_witness:
  "\<exists>rep. build_report [(example_key, clean_run)] \<lparr>vp_samples = 1, vp_agents = 1, vp_runtimes = 1, vp_models = 1\<rparr> = Inr rep
     \<and> cov_verified (rp_coverage rep)"
proof -
  let ?rows = "[(example_key, clean_run)]" and ?p = "\<lparr>vp_samples = 1, vp_agents = 1, vp_runtimes = 1, vp_models = 1\<rparr>"
  obtain s where s: "score_evidence [clean_run] default_score_policy = Inr s" "scr_gate s = ''pass''" using clean_score by blast
  obtain rep where rep: "build_report ?rows ?p = Inr rep"
    using s(1) by (simp add: build_report_def aggregate_matrix_def group_rows_def score_cell_def)
  have "verified_group ?p (runs_with example_key ?rows)" using s by (simp add: verified_group_def runs_with_def)
  then show ?thesis using report_verified_iff [OF rep] rep by simp
qed

text \<open>The intervals of a report are intervals of the unit interval, for the runs of any cell.\<close>

lemma report_intervals:
  assumes "build_report rows p = Inr rep" and "c \<in> set (rp_cells rep)" and "length rows \<le> 2 ^ 53"
  shows "unit_interval (rc_assertion_ci c) \<and> unit_interval (rc_reproducibility_ci c)"
proof -
  obtain cells cell where cells: "aggregate_matrix rows = Inr cells" and cell: "cell \<in> set cells"
    and c: "c = report_cell_of (runs_of rows cell) cell"
    using assms(1,2) by (auto simp: build_report_def rbind_Inr_iff)
  have runs: "runs_of rows cell = runs_with (cc_key cell) rows"
    using matrix_key_set [OF cells] cell by (auto simp: runs_of_def group_rows_lookup runs_with_def)
  note score = matrix_cells(2) [OF cells cell]
  let ?n = "length (runs_with (cc_key cell) rows)"
  have "?n \<le> length rows" by (simp add: runs_with_def)
  then have n: "?n \<le> 2 ^ 53" using assms(3) by (rule order_trans)
  define rate where "rate = rm_reproducibility_rate (scr_raw (cc_score cell))"
  have rate: "0 \<le> rate" "rate \<le> 1" using score_range [OF score n] by (simp_all add: rate_def)
  have f: "float_of_nat ?n = of_int (int ?n)" using double_of_nat [OF n] by (simp add: float_of_nat_def)
  have "fmul rate (float_of_nat ?n) \<le> of_int (int ?n)"
    using fmul_unit [OF rate, of "float_of_nat ?n"] double_of_nat [OF n] by (simp add: float_of_nat_def)
  then have "nat (round_half_even (fmul rate (float_of_nat ?n))) \<le> ?n"
    using round_half_even_le by (metis nat_int nat_mono)
  moreover have "sum_list (map (\<lambda>r. length (filter snd (assertions r))) rs) \<le> sum_list (map (\<lambda>r. length (assertions r)) rs)"
    for rs :: "evidence_bundle list"
    by (induction rs) (auto intro: add_mono)
  ultimately show ?thesis by (simp add: c runs report_cell_of_def report_wilson_unit rate_def)
qed

text \<open>The two modules disagree on no data at all: a score has the empty interval at 0, a report all of it.\<close>

lemma empty_intervals: "wilson_interval 0 0 = (0, 0) \<and> report_wilson 0 0 = (0, 1)"
  by (simp add: wilson_interval_def report_wilson_def)

end
