(* ===== verification/BrowserRunner.thy ===== *)
theory BrowserRunner
  imports BrowserContract Steps
begin

text \<open>
  \<open>browser_runner.py\<close>: one run of the action plan in a browser. Playwright, the file system's names and
  the media types are the fields of \<open>browser_env\<close>: the answer of a call to Playwright is a function of
  all calls made so far, newest first, and comes with the events the browser delivers while the call
  runs. An event goes to the handlers the runner has installed, whose own calls (to continue or abort
  a request, to accept or dismiss a dialog) are calls like any other; events that arrive during a
  handler's call are delivered with the next call. The state is the runner's \<open>_ExecutionState\<close>, its
  artifact store, and the local variables of \<open>execute_browser\<close> that outlive an exception.
\<close>

section \<open>Playwright\<close>

datatype pw_call =
    StartDriver | StopDriver | Launch string bool | CloseBrowser | BrowserVersion
  | NewContext int int string | SetTimeout int | SetNavigationTimeout int | InstallHandlers | NewPage
  | Goto string string int | Fill string string int | SelectOption string string int | Press string string int
  | WaitFor string string int | TakeScreenshot string bool | TextContent string int | Click string int
  | PageUrl | PageTitle | PageContent | AriaSnapshot
  | AwaitPopup int | PopupLoaded int | PopupUrl | PopupClose | AwaitDownload int | SaveDownload string
  | RouteContinue string | RouteAbort string | DialogAccept | DialogDismiss | DownloadCancel

text \<open>What a call returns: a text (or \<open>None\<close>), or the file it wrote and whether it is a regular one.\<close>

record pw_answer =
  an_text :: "string option"
  an_bytes :: bytes
  an_regular :: bool

datatype pw_event =
    EvRequest string string string
  | EvResponse string int
  | EvRequestFailed string "string option"
  | EvPage
  | EvConsole string string
  | EvPageError string
  | EvDialog string string
  | EvDownload string

record browser_env =
  pw_version :: "string option"
  pw_importable :: bool
  pw_reply :: "pw_call list \<Rightarrow> pw_event list \<times> pw_answer res"
  pw_handler_raises :: bool
  fs_resolve :: "string \<Rightarrow> string"
  fs_exists :: "string \<Rightarrow> bool"
  fs_is_link :: "string \<Rightarrow> bool"
  fs_fault :: "string \<Rightarrow> exn option"
  fs_mime :: "string \<Rightarrow> string option"

section \<open>The state\<close>

record file_store =
  as_base :: string
  as_total :: int
  as_artifacts :: "browser_artifact list"
  as_files :: "(string \<times> bytes) list"

record browser_state =
  xs_calls :: "pw_call list"
  xs_handlers :: bool
  xs_attached :: bool
  xs_listening :: bool
  xs_events :: "browser_event list"
  xs_network :: "json dict list"
  xs_console :: "json dict list"
  xs_page_errors :: "string list"
  xs_assertions :: "bool dict"
  xs_violations :: "string list"
  xs_console_bytes :: int
  xs_seen_pages :: nat
  xs_event_overflow :: bool
  xs_network_overflow :: bool
  xs_console_overflow :: bool
  xs_expected_popup :: bool
  xs_expected_download :: "string option"
  xs_expected_dialog :: "string option"
  xs_dialog_seen :: bool
  xs_store :: "file_store option"
  xs_browser :: bool
  xs_page :: bool
  xs_final_url :: string
  xs_title :: string
  xs_browser_version :: string
  xs_page_count :: nat

definition start_state :: browser_state where
  "start_state = \<lparr>xs_calls = [], xs_handlers = False, xs_attached = False, xs_listening = False, xs_events = [],
     xs_network = [], xs_console = [], xs_page_errors = [], xs_assertions = [], xs_violations = [], xs_console_bytes = 0,
     xs_seen_pages = 0, xs_event_overflow = False, xs_network_overflow = False, xs_console_overflow = False,
     xs_expected_popup = False, xs_expected_download = None, xs_expected_dialog = None, xs_dialog_seen = False,
     xs_store = None, xs_browser = False, xs_page = False, xs_final_url = [], xs_title = [],
     xs_browser_version = ''unavailable'', xs_page_count = 0\<rparr>"

text \<open>\<open>_ExecutionState.event\<close>, \<open>network\<close>, \<open>console\<close> and \<open>violation\<close>.\<close>

definition add_event :: "browser_contract \<Rightarrow> string \<Rightarrow> json dict \<Rightarrow> browser_state \<Rightarrow> browser_state" where
  "add_event c kind details st =
     (if max_events c \<le> int (length (xs_events st))
      then (if xs_event_overflow st then st
        else st\<lparr>xs_violations := xs_violations st @ [''event budget exceeded''], xs_event_overflow := True\<rparr>)
      else st\<lparr>xs_events := xs_events st @
        [\<lparr>be_sequence = int (length (xs_events st)), be_kind = kind, be_details = details\<rparr>]\<rparr>)"

definition add_network :: "browser_contract \<Rightarrow> json dict \<Rightarrow> browser_state \<Rightarrow> browser_state" where
  "add_network c v st =
     (if max_network_events c \<le> int (length (xs_network st))
      then (if xs_network_overflow st then st
        else st\<lparr>xs_violations := xs_violations st @ [''network event budget exceeded''], xs_network_overflow := True\<rparr>)
      else st\<lparr>xs_network := xs_network st @ [v]\<rparr>)"

definition add_console :: "browser_contract \<Rightarrow> string \<Rightarrow> string \<Rightarrow> browser_state \<Rightarrow> browser_state" where
  "add_console c kind t st = (let n = int (length (utf8 t)) in
     if max_console_bytes c < xs_console_bytes st + n
     then (if xs_console_overflow st then st
       else st\<lparr>xs_violations := xs_violations st @ [''console byte budget exceeded''], xs_console_overflow := True\<rparr>)
     else st\<lparr>xs_console_bytes := xs_console_bytes st + n,
       xs_console := xs_console st @ [[(''type'', JStr kind), (''text'', JStr t)]]\<rparr>)"

definition add_violation :: "browser_contract \<Rightarrow> string \<Rightarrow> browser_state \<Rightarrow> browser_state" where
  "add_violation c v st = add_event c ''policy_violation'' [(''value'', JStr v)]
     (if v \<in> set (xs_violations st) then st else st\<lparr>xs_violations := xs_violations st @ [v]\<rparr>)"

section \<open>URLs\<close>

text \<open>\<open>_origin\<close>: \<open>None\<close> for the schemes that have no origin, \<open>invalid\<close> for what is not a web address.\<close>

definition origin_of :: "string \<Rightarrow> string option res" where
  "origin_of url = rbind (urlsplit url) (\<lambda>u.
     let scheme = url_scheme u; name = url_hostname u in
     if scheme \<in> {''about'', ''data'', ''blob''} then Inr None
     else if scheme \<notin> {''http'', ''https''} \<or> name = [] then Inr (Some ''invalid'')
     else rbind (url_port u) (\<lambda>p.
       let default = (scheme = ''http'' \<and> p \<in> {None, Some 80}) \<or> (scheme = ''https'' \<and> p \<in> {None, Some 443});
           authority = (if default then lower name
             else lower name @ '':'' @ (case p of None \<Rightarrow> ''None'' | Some n \<Rightarrow> show_nat n))
       in Inr (Some (lower scheme @ ''://'' @ authority))))"

definition origin_text :: "string option \<Rightarrow> string" where
  "origin_text og = (case og of None \<Rightarrow> ''None'' | Some s \<Rightarrow> s)"

text \<open>The violation of a request or popup that leaves the allowed origins.\<close>

definition unexpected_origin :: "string option \<Rightarrow> string" where
  "unexpected_origin og = ''unexpected origin: '' @ origin_text og"

text \<open>The schemes for which \<open>urlunsplit\<close> writes an empty authority.\<close>

definition uses_netloc :: "string list" where
  "uses_netloc = [[], ''ftp'', ''http'', ''gopher'', ''nntp'', ''telnet'', ''imap'', ''wais'', ''file'', ''mms'', ''https'', ''shttp'',
     ''snews'', ''prospero'', ''rtsp'', ''rtspu'', ''rsync'', ''svn'', ''svn+ssh'', ''sftp'', ''nfs'', ''git'', ''git+ssh'', ''ws'', ''wss'']"

text \<open>\<open>_redacted_url\<close>: the URL without its query and fragment.\<close>

definition redacted_url :: "string \<Rightarrow> string" where
  "redacted_url url = (case urlsplit url of Inl _ \<Rightarrow> [] | Inr u \<Rightarrow>
     (let p = url_path url; s = url_scheme u; n = url_netloc u;
          body = (if n \<noteq> [] \<or> (s \<noteq> [] \<and> s \<in> set uses_netloc \<and> \<not> starts_with p ''//'')
            then ''//'' @ n @ (if p \<noteq> [] \<and> \<not> starts_with p ''/'' then ''/'' @ p else p) else p)
      in if s = [] then body else s @ '':'' @ body))"

section \<open>Event handlers\<close>

definition origin_allowed :: "browser_contract \<Rightarrow> string option \<Rightarrow> bool" where
  "origin_allowed c og \<longleftrightarrow> (case og of None \<Rightarrow> True | Some s \<Rightarrow> s \<in> set (allowed_origins c))"

definition handler_call :: "browser_env \<Rightarrow> pw_call \<Rightarrow> browser_state \<Rightarrow> exn option \<times> browser_state" where
  "handler_call env k st = (let hist = k # xs_calls st in
     (case snd (pw_reply env hist) of Inl e \<Rightarrow> Some e | Inr _ \<Rightarrow> None, st\<lparr>xs_calls := hist\<rparr>))"

definition on_request :: "browser_env \<Rightarrow> browser_contract \<Rightarrow> string \<Rightarrow> string \<Rightarrow> string \<Rightarrow> browser_state \<Rightarrow> exn option \<times> browser_state" where
  "on_request env c url verb rtype st = (case origin_of url of
     Inl e \<Rightarrow> (Some e, st)
   | Inr og \<Rightarrow>
      (let ok = origin_allowed c og;
           st1 = add_network c [(''phase'', JStr ''request''), (''method'', JStr verb), (''url'', JStr (redacted_url url)),
             (''origin'', opt_str og), (''resource_type'', JStr rtype), (''action'', JStr (if ok then ''Allowed'' else ''Denied''))] st
       in if ok then handler_call env (RouteContinue url) st1
          else handler_call env (RouteAbort url) (add_violation c (unexpected_origin og) st1)))"

definition on_network :: "browser_contract \<Rightarrow> string \<Rightarrow> string \<Rightarrow> string \<times> json \<Rightarrow> browser_state \<Rightarrow> exn option \<times> browser_state" where
  "on_network c phase url entry st = (case origin_of url of
     Inl e \<Rightarrow> (Some e, st)
   | Inr og \<Rightarrow> (None, add_network c [(''phase'', JStr phase), (''url'', JStr (redacted_url url)), (''origin'', opt_str og),
       entry, (''action'', JStr ''Observed'')] st))"

definition attach_page :: "browser_contract \<Rightarrow> browser_state \<Rightarrow> browser_state" where
  "attach_page c st = add_event c ''page_opened'' [(''page_index'', JInt (int (xs_seen_pages st)))]
     (st\<lparr>xs_seen_pages := Suc (xs_seen_pages st), xs_attached := True\<rparr>)"

definition on_new_page :: "browser_contract \<Rightarrow> browser_state \<Rightarrow> browser_state" where
  "on_new_page c st = (let st1 = attach_page c st in
     if xs_expected_popup st1 then st1 else add_violation c ''unexpected popup'' st1)"

definition on_dialog :: "browser_env \<Rightarrow> browser_contract \<Rightarrow> string \<Rightarrow> string \<Rightarrow> browser_state \<Rightarrow> exn option \<times> browser_state" where
  "on_dialog env c dtype msg st =
     (let st1 = add_event c ''dialog'' [(''dialog_type'', JStr dtype), (''message'', JStr msg),
            (''expected'', JBool (xs_expected_dialog st \<noteq> None))] st
      in case xs_expected_dialog st of
           None \<Rightarrow> handler_call env DialogDismiss (add_violation c ''unexpected dialog'' st1)
         | Some e \<Rightarrow> handler_call env (if e = ''accept'' then DialogAccept else DialogDismiss) (st1\<lparr>xs_dialog_seen := True\<rparr>))"

definition on_download :: "browser_env \<Rightarrow> browser_contract \<Rightarrow> string \<Rightarrow> browser_state \<Rightarrow> browser_state" where
  "on_download env c name st =
     (let st1 = add_event c ''download'' [(''suggested_filename'', JStr name),
            (''expected'', JBool (xs_expected_download st \<noteq> None))] st
      in if xs_expected_download st = None
         then snd (handler_call env DownloadCancel (add_violation c ''unexpected download'' st1)) else st1)"

fun handle :: "browser_env \<Rightarrow> browser_contract \<Rightarrow> pw_event \<Rightarrow> browser_state \<Rightarrow> exn option \<times> browser_state" where
  "handle env c (EvRequest url verb rtype) st = (if xs_handlers st then on_request env c url verb rtype st else (None, st))"
| "handle env c (EvResponse url status) st =
     (if xs_handlers st then on_network c ''response'' url (''status'', JInt status) st else (None, st))"
| "handle env c (EvRequestFailed url failure) st =
     (if xs_handlers st then on_network c ''request_failed'' url (''failure'', opt_str failure) st else (None, st))"
| "handle env c EvPage st = (None, if xs_listening st then on_new_page c st else st)"
| "handle env c (EvConsole kind t) st = (None, if xs_attached st then add_console c kind t st else st)"
| "handle env c (EvPageError t) st =
     (None, if xs_attached st then st\<lparr>xs_page_errors := xs_page_errors st @ [t]\<rparr> else st)"
| "handle env c (EvDialog dtype msg) st = (if xs_attached st then on_dialog env c dtype msg st else (None, st))"
| "handle env c (EvDownload name) st = (None, if xs_attached st then on_download env c name st else st)"

text \<open>Every event is handled; the first exception of a handler is kept.\<close>

fun deliver :: "browser_env \<Rightarrow> browser_contract \<Rightarrow> pw_event list \<Rightarrow> browser_state \<Rightarrow> exn option \<times> browser_state" where
  "deliver env c [] st = (None, st)"
| "deliver env c (ev # evs) st = (case handle env c ev st of (x, st1) \<Rightarrow>
     (case deliver env c evs st1 of (y, st2) \<Rightarrow> (if x = None then y else x, st2)))"

definition pw :: "browser_env \<Rightarrow> browser_contract \<Rightarrow> pw_call \<Rightarrow> (browser_state, pw_answer) step" where
  "pw env c k st = (let hist = k # xs_calls st; (evs, ans) = pw_reply env hist;
       (err, st') = deliver env c evs (st\<lparr>xs_calls := hist\<rparr>)
     in (case err of None \<Rightarrow> ans | Some e \<Rightarrow> if pw_handler_raises env then Inl e else ans, st'))"

definition answer_text :: "pw_answer \<Rightarrow> string" where
  "answer_text a = (case an_text a of None \<Rightarrow> [] | Some t \<Rightarrow> t)"

definition pw_text :: "browser_env \<Rightarrow> browser_contract \<Rightarrow> pw_call \<Rightarrow> (browser_state, string) step" where
  "pw_text env c k = sbind (pw env c k) (\<lambda>a. sreturn (Inr (answer_text a)))"

text \<open>A step whose result nobody uses.\<close>

definition discard :: "('s, 'a) step \<Rightarrow> ('s, unit) step" where
  "discard m = sbind m (\<lambda>_. sreturn (Inr ()))"

definition pw_do :: "browser_env \<Rightarrow> browser_contract \<Rightarrow> pw_call \<Rightarrow> (browser_state, unit) step" where
  "pw_do env c k = discard (pw env c k)"

section \<open>The artifact store\<close>

definition to_slashes :: "string \<Rightarrow> string" where
  "to_slashes p = map (\<lambda>ch. if ch = CHR 0x5C then CHR ''/'' else ch) p"

definition runner_error :: "string \<Rightarrow> (browser_state, 'a) step" where
  "runner_error m = sreturn (Inl (BrowserRunnerError m))"

definition open_store :: "browser_env \<Rightarrow> string \<Rightarrow> browser_config \<Rightarrow> file_store res" where
  "open_store env cwd cfg =
     (let ws = fs_resolve env cwd;
          dir = fs_resolve env (join_path (join_path ws (artifact_root (bcfg_contract cfg))) (bcfg_run_id cfg))
      in if \<not> below ws dir then Inl (BrowserRunnerError ''artifact root escapes the browser workspace'')
         else if fs_exists env dir then Inl (BrowserRunnerError ''browser artifact root already exists'')
         else (case fs_fault env dir of Some e \<Rightarrow> Inl e | None \<Rightarrow>
           if fs_is_link env dir then Inl (BrowserRunnerError ''browser artifact root must not be a symlink'')
           else Inr \<lparr>as_base = dir, as_total = 0, as_artifacts = [], as_files = []\<rparr>))"

definition store_path :: "browser_env \<Rightarrow> file_store \<Rightarrow> string \<Rightarrow> string res" where
  "store_path env s rel =
     (let p = fs_resolve env (join_path (as_base s) (to_slashes rel))
      in if unsafe_relative_path rel then Inl (BrowserRunnerError ''browser artifact path is unsafe'')
         else if \<not> below (as_base s) p then Inl (BrowserRunnerError ''browser artifact path escapes artifact root'')
         else (case fs_fault env (parent_of p) of Some e \<Rightarrow> Inl e | None \<Rightarrow>
           if fs_is_link env (parent_of p) then Inl (BrowserRunnerError ''browser artifact parent must not be a symlink'')
           else Inr p))"

definition target_exists :: "browser_env \<Rightarrow> file_store \<Rightarrow> string \<Rightarrow> bool" where
  "target_exists env s p \<longleftrightarrow> fs_exists env p \<or> p \<in> fst ` set (as_files s)"

text \<open>\<open>_register\<close>, with the file's bytes and whether it is a regular file.\<close>

definition register_artifact ::
  "browser_contract \<Rightarrow> string \<Rightarrow> string \<Rightarrow> bytes \<Rightarrow> bool \<Rightarrow> string \<Rightarrow> string \<Rightarrow> file_store
    \<Rightarrow> (browser_artifact \<times> file_store) res" where
  "register_artifact c kind rel data regular media sens s =
     (let size = int (length data) in
      if \<not> regular then Inl (BrowserRunnerError ''browser artifact must be a regular file'')
      else if max_artifact_bytes c < as_total s + size
      then Inl (BrowserRunnerError (''browser artifacts exceed max_artifact_bytes: '' @ show_int (as_total s + size)
        @ ''>'' @ show_int (max_artifact_bytes c)))
      else rbind (validate_artifact \<lparr>ba_kind = kind, ba_path = to_slashes rel, ba_sha256 = sha256 data, ba_bytes = size,
             ba_media_type = media, ba_sensitivity = sens\<rparr>)
        (\<lambda>a. Inr (a, s\<lparr>as_total := as_total s + size, as_artifacts := as_artifacts s @ [a]\<rparr>)))"

text \<open>A step on the store, which exists once \<open>_ArtifactStore\<close> has been built.\<close>

definition with_store :: "(file_store \<Rightarrow> (browser_state, 'a) step) \<Rightarrow> (browser_state, 'a) step" where
  "with_store f st = (case xs_store st of
     None \<Rightarrow> (Inl (AttributeError ''NoneType object has no attribute write_text''), st) | Some s \<Rightarrow> f s st)"

text \<open>The file is there before it is registered, and stays when that fails.\<close>

definition keep_file ::
  "browser_contract \<Rightarrow> string \<Rightarrow> string \<Rightarrow> string \<Rightarrow> bytes \<Rightarrow> bool \<Rightarrow> string \<Rightarrow> string \<Rightarrow> (browser_state, browser_artifact) step" where
  "keep_file c kind rel p data regular media sens = with_store (\<lambda>s. \<lambda>st.
     (let s1 = s\<lparr>as_files := as_files s @ [(p, data)]\<rparr> in
      case register_artifact c kind rel data regular media sens s1 of
        Inl e \<Rightarrow> (Inl e, st\<lparr>xs_store := Some s1\<rparr>)
      | Inr (a, s2) \<Rightarrow> (Inr a, st\<lparr>xs_store := Some s2\<rparr>)))"

definition write_text ::
  "browser_env \<Rightarrow> browser_contract \<Rightarrow> string \<Rightarrow> string \<Rightarrow> string \<Rightarrow> int \<Rightarrow> string \<Rightarrow> string \<Rightarrow> (browser_state, browser_artifact) step" where
  "write_text env c kind rel v limit media sens =
     (let data = utf8 v; n = int (length data) in
      if limit < n
      then runner_error (kind @ '' artifact exceeds its byte budget: '' @ show_int n @ ''>'' @ show_int limit)
      else with_store (\<lambda>s. sbind (sreturn (store_path env s rel)) (\<lambda>p.
        if target_exists env s p then sreturn (Inl (OSError ''File exists''))
        else (case fs_fault env p of Some e \<Rightarrow> sreturn (Inl e)
          | None \<Rightarrow> keep_file c kind rel p data True media sens))))"

definition save_screenshot :: "browser_env \<Rightarrow> browser_contract \<Rightarrow> string \<Rightarrow> bool \<Rightarrow> (browser_state, browser_artifact) step" where
  "save_screenshot env c rel full = with_store (\<lambda>s. sbind (sreturn (store_path env s rel)) (\<lambda>p.
     if target_exists env s p then runner_error ''screenshot target already exists''
     else sbind (pw env c (TakeScreenshot p full)) (\<lambda>a.
       keep_file c ''screenshot'' rel p (an_bytes a) (an_regular a) ''image/png'' ''sensitive'')))"

definition save_download :: "browser_env \<Rightarrow> browser_contract \<Rightarrow> string \<Rightarrow> (browser_state, browser_artifact) step" where
  "save_download env c rel = with_store (\<lambda>s. sbind (sreturn (store_path env s rel)) (\<lambda>p.
     if target_exists env s p then runner_error ''download target already exists''
     else sbind (pw env c (SaveDownload p)) (\<lambda>a.
       sbind (keep_file c ''download'' rel p (an_bytes a) (an_regular a)
         (case fs_mime env (last (split_on CHR ''/'' p)) of Some m \<Rightarrow> if m = [] then ''application/octet-stream'' else m
            | None \<Rightarrow> ''application/octet-stream'') ''sensitive'')
       (\<lambda>art. if max_download_bytes c < ba_bytes art
         then runner_error (''download exceeds browser max_download_bytes: '' @ show_int (ba_bytes art) @ ''>''
           @ show_int (max_download_bytes c))
         else sreturn (Inr art)))))"

section \<open>Actions\<close>

definition text_matches :: "string \<Rightarrow> string \<Rightarrow> string \<Rightarrow> bool" where
  "text_matches mode observed v \<longleftrightarrow> (if mode = ''exact'' then observed = v else contains observed v)"

definition click_popup :: "browser_env \<Rightarrow> browser_contract \<Rightarrow> string \<Rightarrow> (browser_state, unit) step" where
  "click_popup env c sel = (let t = action_timeout_ms c in
     sbind (modify (\<lambda>st. st\<lparr>xs_expected_popup := True\<rparr>)) (\<lambda>_.
     finally_do
       (sbind (pw_do env c (Click sel t)) (\<lambda>_.
        sbind (pw_do env c (AwaitPopup t)) (\<lambda>_.
        sbind (pw_do env c (PopupLoaded (navigation_timeout_ms c))) (\<lambda>_.
        sbind (pw_text env c PopupUrl) (\<lambda>url.
        sbind (sreturn (origin_of url)) (\<lambda>og.
        sbind (if og = None \<or> the og \<notin> set (allowed_origins c)
               then modify (add_violation c (unexpected_origin og)) else sreturn (Inr ())) (\<lambda>_.
          pw_do env c PopupClose)))))))
       (modify (\<lambda>st. st\<lparr>xs_expected_popup := False\<rparr>))))"

definition click_download :: "browser_env \<Rightarrow> browser_contract \<Rightarrow> string \<Rightarrow> string \<Rightarrow> (browser_state, unit) step" where
  "click_download env c sel name = (let t = action_timeout_ms c in
     sbind (modify (\<lambda>st. st\<lparr>xs_expected_download := Some name\<rparr>)) (\<lambda>_.
     finally_do
       (sbind (pw_do env c (Click sel t)) (\<lambda>_.
        sbind (pw_do env c (AwaitDownload t)) (\<lambda>_.
        discard (save_download env c (''downloads/'' @ name)))))
       (modify (\<lambda>st. st\<lparr>xs_expected_download := None\<rparr>))))"

definition click_dialog :: "browser_env \<Rightarrow> browser_contract \<Rightarrow> string \<Rightarrow> string \<Rightarrow> (browser_state, unit) step" where
  "click_dialog env c sel answer =
     sbind (modify (\<lambda>st. st\<lparr>xs_expected_dialog := Some answer, xs_dialog_seen := False\<rparr>)) (\<lambda>_.
     finally_do
       (sbind (pw_do env c (Click sel (action_timeout_ms c))) (\<lambda>_. \<lambda>st.
          if xs_dialog_seen st then (Inr (), st) else (Inl (BrowserRunnerError ''expected dialog was not observed''), st)))
       (modify (\<lambda>st. st\<lparr>xs_expected_dialog := None\<rparr>)))"

fun execute_action :: "browser_env \<Rightarrow> browser_contract \<Rightarrow> browser_action \<Rightarrow> (browser_state, unit) step" where
  "execute_action env c (GotoAction url wait) = pw_do env c (Goto url wait (navigation_timeout_ms c))"
| "execute_action env c (FillAction sel v) = pw_do env c (Fill sel v (action_timeout_ms c))"
| "execute_action env c (SelectAction sel v) = pw_do env c (SelectOption sel v (action_timeout_ms c))"
| "execute_action env c (PressAction sel k) = pw_do env c (Press sel k (action_timeout_ms c))"
| "execute_action env c (WaitForAction sel s) = pw_do env c (WaitFor sel s (action_timeout_ms c))"
| "execute_action env c (ScreenshotAction n full) =
     discard (save_screenshot env c (''screenshots/'' @ (if ends_with n ''.png'' then n else n @ ''.png'')) full)"
| "execute_action env c (AssertTextAction sel v mode) =
     sbind (pw_text env c (TextContent sel (action_timeout_ms c))) (\<lambda>t.
       if text_matches mode t v then sreturn (Inr ())
       else runner_error (''text assertion failed for '' @ repr_str sel @ '': '' @ repr_str t))"
| "execute_action env c (AssertURLAction v) =
     sbind (pw_text env c PageUrl) (\<lambda>url. if url = v then sreturn (Inr ())
       else runner_error (''URL assertion failed: observed='' @ repr_str url @ '' expected='' @ repr_str v))"
| "execute_action env c (AssertTitleAction v mode) =
     sbind (pw_text env c PageTitle) (\<lambda>t. if text_matches mode t v then sreturn (Inr ())
       else runner_error (''title assertion failed: observed='' @ repr_str t @ '' expected='' @ repr_str v))"
| "execute_action env c (ClickAction sel popup dl dialog) =
     (if popup then click_popup env c sel
      else (case dl of Some name \<Rightarrow> click_download env c sel name
        | None \<Rightarrow> (case dialog of Some answer \<Rightarrow> click_dialog env c sel answer
            | None \<Rightarrow> pw_do env c (Click sel (action_timeout_ms c)))))"

fun action_kind :: "browser_action \<Rightarrow> string" where
  "action_kind (GotoAction _ _) = ''goto''"
| "action_kind (ClickAction _ _ _ _) = ''click''"
| "action_kind (FillAction _ _) = ''fill''"
| "action_kind (SelectAction _ _) = ''select''"
| "action_kind (PressAction _ _) = ''press''"
| "action_kind (WaitForAction _ _) = ''wait_for''"
| "action_kind (ScreenshotAction _ _) = ''screenshot''"
| "action_kind (AssertTextAction _ _ _) = ''assert_text''"
| "action_kind (AssertURLAction _) = ''assert_url''"
| "action_kind (AssertTitleAction _ _) = ''assert_title''"

definition action_id :: "nat \<Rightarrow> browser_action \<Rightarrow> string" where
  "action_id i a = ''action:'' @ show_nat i @ '':'' @ action_kind a"

definition run_action :: "browser_env \<Rightarrow> browser_contract \<Rightarrow> nat \<Rightarrow> browser_action \<Rightarrow> (browser_state, unit) step" where
  "run_action env c i a st =
     (let details = (\<lambda>ok. [(''index'', JInt (int i)), (''action'', JStr (action_kind a)), (''passed'', JBool ok)]);
          mark = (\<lambda>ok st1. st1\<lparr>xs_assertions := dict_set (action_id i a) ok (xs_assertions st1)\<rparr>)
      in case execute_action env c a st of
           (Inr _, st1) \<Rightarrow> (Inr (), add_event c ''action'' (details True) (mark True st1))
         | (Inl e, st1) \<Rightarrow> (Inl (BrowserRunnerError (''browser action '' @ show_nat i @ '' ('' @ action_kind a @ '') failed: '' @ exn_message e)),
             add_event c ''action'' (details False @ [(''error'', JStr (describe_exn e))]) (mark False st1)))"

fun run_actions :: "browser_env \<Rightarrow> browser_contract \<Rightarrow> nat \<Rightarrow> browser_action list \<Rightarrow> (browser_state, unit) step" where
  "run_actions env c i [] = sreturn (Inr ())"
| "run_actions env c i (a # as) = sbind (run_action env c i a) (\<lambda>_. run_actions env c (Suc i) as)"

section \<open>The session\<close>

definition check_final_origin :: "browser_contract \<Rightarrow> (browser_state, unit) step" where
  "check_final_origin c st = (case origin_of (xs_final_url st) of
     Inl e \<Rightarrow> (Inl e, st)
   | Inr og \<Rightarrow> (Inr (), if og = None \<or> the og \<notin> set (allowed_origins c)
       then add_violation c (''final URL origin is not allowed: '' @ origin_text og) st else st))"

definition capture_page :: "browser_env \<Rightarrow> browser_contract \<Rightarrow> (browser_state, unit) step" where
  "capture_page env c =
     sbind (if capture_dom c then discard (sbind (pw_text env c PageContent) (\<lambda>html.
              write_text env c ''dom'' ''final/dom.html'' html (max_dom_bytes c) ''text/html'' ''sensitive''))
              else sreturn (Inr ())) (\<lambda>_.
     sbind (if capture_aria c then discard (sbind (pw_text env c AriaSnapshot) (\<lambda>aria.
              write_text env c ''aria'' ''final/accessibility.yaml'' aria (max_aria_bytes c) ''application/yaml'' ''sensitive''))
              else sreturn (Inr ())) (\<lambda>_.
     if final_screenshot c then discard (save_screenshot env c ''final/final.png'' True) else sreturn (Inr ())))"

definition first_page :: "browser_contract \<Rightarrow> (browser_state, unit) step" where
  "first_page c = modify (\<lambda>st. (attach_page c (st\<lparr>xs_page := True\<rparr>))\<lparr>xs_listening := True\<rparr>)"

definition drive_page :: "browser_env \<Rightarrow> browser_contract \<Rightarrow> (browser_state, unit) step" where
  "drive_page env c =
     sbind (pw_do env c NewPage) (\<lambda>_.
     sbind (first_page c) (\<lambda>_.
     sbind (run_actions env c 0 (actions c)) (\<lambda>_.
     sbind (pw_text env c PageUrl) (\<lambda>url.
     sbind (modify (\<lambda>st. st\<lparr>xs_final_url := url\<rparr>)) (\<lambda>_.
     sbind (pw_text env c PageTitle) (\<lambda>t.
     sbind (modify (\<lambda>st. st\<lparr>xs_title := t\<rparr>)) (\<lambda>_.
     sbind (check_final_origin c) (\<lambda>_.
     sbind (capture_page env c) (\<lambda>_.
       modify (\<lambda>st. st\<lparr>xs_page_count := xs_seen_pages st\<rparr>))))))))))"

definition drive_browser :: "browser_env \<Rightarrow> browser_contract \<Rightarrow> (browser_state, unit) step" where
  "drive_browser env c =
     sbind (pw_do env c StartDriver) (\<lambda>_.
     finally_do
       (sbind (pw_do env c (Launch (bc_browser c) (bc_headless c))) (\<lambda>_.
        sbind (modify (\<lambda>st. st\<lparr>xs_browser := True\<rparr>)) (\<lambda>_.
        sbind (pw_text env c BrowserVersion) (\<lambda>v.
        sbind (modify (\<lambda>st. st\<lparr>xs_browser_version := v\<rparr>)) (\<lambda>_.
        sbind (pw_do env c (NewContext (viewport_width c) (viewport_height c) (bc_locale c))) (\<lambda>_.
        sbind (pw_do env c (SetTimeout (action_timeout_ms c))) (\<lambda>_.
        sbind (pw_do env c (SetNavigationTimeout (navigation_timeout_ms c))) (\<lambda>_.
        sbind (pw_do env c InstallHandlers) (\<lambda>_.
        sbind (modify (\<lambda>st. st\<lparr>xs_handlers := True\<rparr>)) (\<lambda>_.
          drive_page env c))))))))))
       (pw_do env c StopDriver))"

definition observed_driver :: "browser_env \<Rightarrow> browser_contract \<Rightarrow> string" where
  "observed_driver env c = (case pw_version env of None \<Rightarrow> bc_driver_version c | Some v \<Rightarrow> v)"

definition early_error :: "browser_env \<Rightarrow> browser_contract \<Rightarrow> string option" where
  "early_error env c =
     (if observed_driver env c \<noteq> bc_driver_version c
      then Some (''playwright version mismatch: declared='' @ bc_driver_version c @ '' observed='' @ observed_driver env c)
      else if pw_version env = None then Some ''playwright package is not installed'' else None)"

definition browser_session :: "browser_env \<Rightarrow> browser_config \<Rightarrow> string \<Rightarrow> (browser_state, unit) step" where
  "browser_session env cfg cwd =
     sbind (sreturn (open_store env cwd cfg)) (\<lambda>s.
     sbind (modify (\<lambda>st. st\<lparr>xs_store := Some s\<rparr>)) (\<lambda>_.
       (case early_error env (bcfg_contract cfg) of
          Some m \<Rightarrow> runner_error m
        | None \<Rightarrow> if pw_importable env then drive_browser env (bcfg_contract cfg)
            else runner_error ''playwright package is not importable'')))"

text \<open>The \<open>except\<close> and \<open>finally\<close> clauses of \<open>execute_browser\<close>; their own failures are ignored.\<close>

definition recover :: "browser_env \<Rightarrow> browser_contract \<Rightarrow> browser_state \<Rightarrow> browser_state" where
  "recover env c st =
     (let st1 = (if xs_page st
          then snd (sbind (pw_text env c PageUrl) (\<lambda>url. sbind (modify (\<lambda>s. s\<lparr>xs_final_url := url\<rparr>)) (\<lambda>_.
                    sbind (pw_text env c PageTitle) (\<lambda>t. modify (\<lambda>s. s\<lparr>xs_title := t\<rparr>)))) st)
          else st)
      in st1\<lparr>xs_page_count := xs_seen_pages st1\<rparr>)"

definition close_browser :: "browser_env \<Rightarrow> browser_contract \<Rightarrow> browser_state \<Rightarrow> browser_state" where
  "close_browser env c st = (if xs_browser st then snd (pw_do env c CloseBrowser st) else st)"

definition session_end :: "browser_env \<Rightarrow> browser_config \<Rightarrow> string \<Rightarrow> string option \<times> browser_state" where
  "session_end env cfg cwd =
     (let c = bcfg_contract cfg in
      case browser_session env cfg cwd start_state of
        (Inr _, st) \<Rightarrow> (early_error env c, close_browser env c st)
      | (Inl e, st) \<Rightarrow> (Some (case early_error env c of None \<Rightarrow> describe_exn e | Some m \<Rightarrow> m),
          close_browser env c (recover env c st)))"

section \<open>The receipt\<close>

definition runner_checks :: "browser_env \<Rightarrow> browser_contract \<Rightarrow> browser_state \<Rightarrow> bool dict" where
  "runner_checks env c st =
     [(''driver_version'', observed_driver env c = bc_driver_version c),
      (''allowed_origins'', \<not> list_ex (\<lambda>v. starts_with v ''unexpected origin'' \<or> starts_with v ''final URL origin'') (xs_violations st)),
      (''page_budget'', int (xs_seen_pages st) \<le> max_pages c),
      (''event_budget'', \<not> xs_event_overflow st),
      (''network_budget'', \<not> xs_network_overflow st),
      (''console_budget'', \<not> xs_console_overflow st),
      (''artifact_budget'', (case xs_store st of None \<Rightarrow> False | Some s \<Rightarrow> as_total s \<le> max_artifact_bytes c)),
      (''side_effects'', \<not> list_ex (\<lambda>v. v \<in> {''unexpected popup'', ''unexpected dialog'', ''unexpected download''}) (xs_violations st)),
      (''assertions'', xs_assertions st \<noteq> [] \<and> list_all snd (xs_assertions st))]"

definition runner_receipt ::
  "browser_env \<Rightarrow> browser_config \<Rightarrow> string option \<Rightarrow> bool dict \<Rightarrow> browser_state \<Rightarrow> browser_receipt" where
  "runner_receipt env cfg err checks st =
     (let c = bcfg_contract cfg; passed = err = None \<and> xs_violations st = [] \<and> list_all snd checks;
          r = \<lparr>br_runner_version = ''0.1.0'', br_run_id = bcfg_run_id cfg, br_config_digest = bcfg_config_digest cfg,
            br_contract_digest = bcfg_contract_digest cfg, br_action_plan_digest = bcfg_action_plan_digest cfg,
            br_driver_version = observed_driver env c, br_browser = bc_browser c, br_browser_version = xs_browser_version st,
            br_headless = bc_headless c, br_outcome = (if passed then ''pass'' else ''fail''),
            final_url = xs_final_url st, title = xs_title st, page_count = int (xs_page_count st), br_events = xs_events st,
            network_events = xs_network st, console_events = xs_console st, page_errors = xs_page_errors st,
            artifacts = (case xs_store st of None \<Rightarrow> [] | Some s \<Rightarrow> as_artifacts s), br_assertions = xs_assertions st,
            br_policy_checks = checks, violations = xs_violations st,
            br_error = (if passed then None else Some (case err of Some m \<Rightarrow> if m = [] then ''browser policy or assertion failed'' else m
               | None \<Rightarrow> ''browser policy or assertion failed'')), br_receipt_digest = []\<rparr>
      in r\<lparr>br_receipt_digest := canonical_digest (JObj (browser_receipt_payload r))\<rparr>)"

definition execute_browser :: "browser_env \<Rightarrow> browser_config \<Rightarrow> string \<Rightarrow> browser_receipt res \<times> browser_state" where
  "execute_browser env cfg cwd =
     (let c = bcfg_contract cfg; (err, st) = session_end env cfg cwd; checks = runner_checks env c st;
          st1 = (if max_pages c < int (xs_seen_pages st) then add_violation c ''page budget exceeded'' st else st)
      in (validate_browser_receipt (runner_receipt env cfg err checks st1), st1))"

end
