(* ===== verification/Provenance.thy ===== *)
theory Provenance
  imports GraphEquivalence Base64 CodingAgent
begin

text \<open>
  \<open>provenance.py\<close>, \<open>supply_chain.py\<close> and \<open>run_factory.py\<close>: the content digest of a skill's files, the
  provenance record and its digest, the merging of records with the same content, the software bill of
  materials, and the run specification made from a record. A directory is the list of its regular files,
  each with its path relative to the root, in the order the walk finds them.
\<close>

section \<open>The content digest of a directory\<close>

type_synonym tree = "(string \<times> bytes) list"

text \<open>\<open>sorted\<close> on paths compares their components one by one.\<close>

definition tree_order :: "tree \<Rightarrow> tree" where
  "tree_order t = sort_key (\<lambda>f. split_on CHR ''/'' (fst f)) t"

text \<open>\<open>n.to_bytes(8, "big")\<close> of a number below 2^64.\<close>

definition be8 :: "nat \<Rightarrow> bytes" where
  "be8 n = map (\<lambda>k. char_of (n div 256 ^ k)) [7, 6, 5, 4, 3, 2, 1, 0]"

definition entry_bytes :: "string \<times> bytes \<Rightarrow> bytes" where
  "entry_bytes f = be8 (length (utf8 (fst f))) @ utf8 (fst f) @ be8 (length (snd f)) @ snd f"

definition tree_bytes :: "tree \<Rightarrow> bytes" where
  "tree_bytes t = concat (map entry_bytes (tree_order t))"

definition too_long :: "string \<times> bytes \<Rightarrow> bool" where
  "too_long f \<longleftrightarrow> 2 ^ 64 \<le> length (utf8 (fst f)) \<or> 2 ^ 64 \<le> length (snd f)"

definition digest_tree :: "tree \<Rightarrow> string res" where
  "digest_tree t = (if list_ex too_long t then Inl (OverflowError ''int too big to convert'') else Inr (sha256 (tree_bytes t)))"

section \<open>What is found in a directory\<close>

definition file_name :: "string \<Rightarrow> string" where
  "file_name p = last (split_on CHR ''/'' p)"

definition dependency_names :: "string list" where
  "dependency_names = [''requirements.txt'', ''pyproject.toml'', ''package.json'', ''package-lock.json'',
     ''pnpm-lock.yaml'', ''yarn.lock'', ''Cargo.toml'', ''go.mod'', ''uv.lock'']"

definition discover_dependencies :: "tree \<Rightarrow> string list" where
  "discover_dependencies t = sort (filter (\<lambda>p. file_name p \<in> set dependency_names) (map fst t))"

definition is_license_file :: "string \<Rightarrow> bool" where
  "is_license_file p \<longleftrightarrow> CHR ''/'' \<notin> set p \<and> (starts_with (lower p) ''license'' \<or> starts_with (lower p) ''copying'')"

definition known_licenses :: "(string \<times> string) list" where
  "known_licenses = [(''mit license'', ''MIT''), (''apache license'', ''Apache-2.0''), (''bsd 3-clause'', ''BSD-3-Clause'')]"

definition infer_license_evidence :: "tree \<Rightarrow> string option \<times> string" where
  "infer_license_evidence t = (case filter (\<lambda>f. is_license_file (fst f)) t of
     [] \<Rightarrow> (None, ''missing'')
   | [f] \<Rightarrow> (case filter (\<lambda>(needle, _). contains (lower (utf8_decode (snd f))) needle) known_licenses of
         [(_, spdx)] \<Rightarrow> (Some spdx, ''detected'')
       | _ \<Rightarrow> (None, ''unclassified''))
   | _ \<Rightarrow> (None, ''ambiguous''))"

section \<open>Records\<close>

record source_attestation =
  sa_registry :: string
  sa_source_url :: string
  sa_immutable_ref :: string
  sa_publisher :: "string option"
  sa_retrieved_at :: string

record provenance_record =
  pv_content :: string
  pv_entrypoint :: string
  pv_license :: "string option"
  pv_license_status :: string
  pv_dependencies :: "string list"
  pv_attestations :: "source_attestation list"

definition branch_refs :: "string list" where
  "branch_refs = [''main'', ''master'', ''HEAD'', ''latest'']"

definition build_provenance :: "tree \<Rightarrow> string \<Rightarrow> source_attestation \<Rightarrow> provenance_record res" where
  "build_provenance t entry a =
     (if sa_immutable_ref a = [] \<or> sa_immutable_ref a \<in> set branch_refs
      then Inl (ValueError ''mutable source refs cannot be benchmark provenance'')
      else (case infer_license_evidence t of (expression, status) \<Rightarrow>
        rbind (digest_tree t) (\<lambda>d. Inr \<lparr>pv_content = d, pv_entrypoint = entry, pv_license = expression,
          pv_license_status = status, pv_dependencies = discover_dependencies t, pv_attestations = [a]\<rparr>)))"

definition source_json :: "source_attestation \<Rightarrow> json" where
  "source_json a = JObj [(''registry'', JStr (sa_registry a)), (''source_url'', JStr (sa_source_url a)),
     (''immutable_ref'', JStr (sa_immutable_ref a)), (''publisher'', opt_str (sa_publisher a)),
     (''retrieved_at'', JStr (sa_retrieved_at a))]"

definition provenance_payload :: "provenance_record \<Rightarrow> json dict" where
  "provenance_payload r = [(''content_sha256'', JStr (pv_content r)), (''entrypoint'', JStr (pv_entrypoint r)),
     (''license_expression'', opt_str (pv_license r)), (''license_status'', JStr (pv_license_status r)),
     (''dependency_files'', strs (pv_dependencies r)), (''attestations'', JArr (map source_json (pv_attestations r)))]"

definition provenance_digest_of :: "provenance_record \<Rightarrow> string" where
  "provenance_digest_of r = canonical_digest (JObj (provenance_payload r))"

text \<open>\<open>persist_provenance\<close> into a directory of named files: an existing file stays as it is.\<close>

definition persist_provenance :: "provenance_record \<Rightarrow> (string \<rightharpoonup> string) \<Rightarrow> string \<times> (string \<rightharpoonup> string)" where
  "persist_provenance r st = (let name = provenance_digest_of r @ ''.json'' in
     (name, if st name = None then st(name \<mapsto> dumps_indent 0 (JObj (provenance_payload r)) @ [CHR 0x0A]) else st))"

section \<open>Merging\<close>

text \<open>\<open>dict.fromkeys(xs)\<close>: the distinct elements in the order of their first occurrence.\<close>

definition fromkeys :: "'a list \<Rightarrow> 'a list" where
  "fromkeys xs = rev (remdups (rev xs))"

definition merge_into :: "provenance_record \<Rightarrow> provenance_record dict \<Rightarrow> provenance_record dict" where
  "merge_into r d = (case map_of d (pv_content r) of
     None \<Rightarrow> dict_set (pv_content r) r d
   | Some old \<Rightarrow> dict_set (pv_content r)
       (old\<lparr>pv_content := pv_content r, pv_attestations := fromkeys (pv_attestations old @ pv_attestations r)\<rparr>) d)"

definition merge_equivalent :: "provenance_record list \<Rightarrow> provenance_record list" where
  "merge_equivalent rs = map snd (fold merge_into rs [])"

section \<open>Supply chain\<close>

record supply_chain =
  sc_publisher :: "string option"
  sc_publisher_evidence :: string
  sc_signature_status :: string
  sc_signature_subject :: "string option"
  sc_sbom_format :: string
  sc_sbom_sha256 :: string
  sc_sbom :: json

definition sbom_component :: "tree \<Rightarrow> string \<Rightarrow> json res" where
  "sbom_component t p = (case map_of t p of
     None \<Rightarrow> Inl (OSError (''No such file or directory: '' @ p))
   | Some b \<Rightarrow> Inr (JObj [(''type'', JStr ''file''), (''name'', JStr p),
       (''hashes'', JArr [JObj [(''alg'', JStr ''SHA-256''), (''content'', JStr (sha256 b))]])]))"

definition build_cyclonedx_sbom :: "tree \<Rightarrow> provenance_record \<Rightarrow> json res" where
  "build_cyclonedx_sbom t r = rbind (traverse (sbom_component t) (pv_dependencies r)) (\<lambda>cs.
     Inr (JObj [(''bomFormat'', JStr ''CycloneDX''), (''specVersion'', JStr ''1.6''), (''version'', JInt 1),
       (''metadata'', JObj [(''component'', JObj [(''type'', JStr ''application''), (''name'', JStr (pv_entrypoint r)),
         (''version'', JStr (pv_content r))])]),
       (''components'', JArr cs)]))"

text \<open>The set of the publishers that are neither \<open>None\<close> nor empty, sorted.\<close>

definition publishers_of :: "provenance_record \<Rightarrow> string list" where
  "publishers_of r = sorted_set (filter (\<lambda>p. p \<noteq> []) (List.map_filter sa_publisher (pv_attestations r)))"

definition build_supply_chain_evidence ::
  "tree \<Rightarrow> provenance_record \<Rightarrow> string \<Rightarrow> string option \<Rightarrow> supply_chain res" where
  "build_supply_chain_evidence t r status subj = rbind (build_cyclonedx_sbom t r) (\<lambda>sbom.
     let ps = publishers_of r in
     Inr \<lparr>sc_publisher = (if length ps = 1 then Some (hd ps) else None),
       sc_publisher_evidence = (if length ps = 1 then ''consistent'' else if ps = [] then ''missing'' else ''conflicting''),
       sc_signature_status = status, sc_signature_subject = subj, sc_sbom_format = ''CycloneDX-1.6'',
       sc_sbom_sha256 = canonical_digest sbom, sc_sbom = sbom\<rparr>)"

definition supply_chain_json :: "supply_chain \<Rightarrow> json" where
  "supply_chain_json s = JObj [(''publisher'', opt_str (sc_publisher s)), (''publisher_evidence'', JStr (sc_publisher_evidence s)),
     (''signature_status'', JStr (sc_signature_status s)), (''signature_subject'', opt_str (sc_signature_subject s)),
     (''sbom_format'', JStr (sc_sbom_format s)), (''sbom_sha256'', JStr (sc_sbom_sha256 s)), (''sbom'', sc_sbom s)]"

definition persist_supply_chain :: "supply_chain \<Rightarrow> (string \<rightharpoonup> string) \<Rightarrow> string \<times> (string \<rightharpoonup> string)" where
  "persist_supply_chain s st = (let name = sc_sbom_sha256 s @ ''.supply-chain.json'' in
     (name, if st name = None then st(name \<mapsto> dumps_indent 0 (supply_chain_json s) @ [CHR 0x0A]) else st))"

section \<open>The run specification of a record\<close>

definition run_spec_from_provenance ::
  "provenance_record \<Rightarrow> string \<Rightarrow> string \<Rightarrow> agent_ref \<Rightarrow> model_ref \<Rightarrow> runtime_ref \<Rightarrow> scenario \<Rightarrow> run_spec res" where
  "run_spec_from_provenance r url run_id a m rt sc = (case pv_attestations r of
     [] \<Rightarrow> Inl (OtherError ''IndexError'' ''tuple index out of range'')
   | att # _ \<Rightarrow> Inr \<lparr>spec_run_id = run_id,
       skill = \<lparr>source_url = url,
         commit_or_digest = (if sa_immutable_ref att = [] then pv_content r else sa_immutable_ref att),
         entrypoint = pv_entrypoint r, provenance_digest = Some (provenance_digest_of r)\<rparr>,
       agent = a, model = m, runtime = rt, policy = default_policy, scenario = sc, limits = default_limits\<rparr>)"

end
