(* ===== verification/Ingest.thy ===== *)
theory Ingest
  imports Provenance PyNumbers Urls Steps
begin

text \<open>
  \<open>github_ingest.py\<close> and \<open>registries.py\<close>: fetching a skill from GitHub, from skills.sh or from a JSON
  export, writing its files into a directory and recording its provenance. \<open>httpx\<close>, the tar reader, the
  names of the file system, the environment variables and the clock are the fields of \<open>ingest_env\<close>; what a
  request returns is a function of all requests made so far, newest first. The state is the requests made
  and the files, by resolved path. A directory's files are those whose resolved path lies below it.
\<close>

section \<open>The environment and the state\<close>

record web_request =
  wq_url :: string
  wq_headers :: "string dict"
  wq_params :: "string dict"

record web_response =
  wr_status :: int
  wr_json :: "json option"
  wr_content :: bytes

record tar_member =
  tm_name :: string
  tm_regular :: bool
  tm_data :: "bytes option res"

record ingest_env =
  ig_get :: "web_request list \<Rightarrow> web_response res"
  ig_untar :: "bytes \<Rightarrow> tar_member list res"
  ig_resolve :: "string \<Rightarrow> string"
  ig_fault :: "string \<Rightarrow> exn option"
  ig_var :: "string \<Rightarrow> string option"
  ig_now :: string
  ig_temp :: string

record ingest_state =
  is_requests :: "web_request list"
  is_files :: "bytes dict"
  is_records :: "string \<rightharpoonup> string"

text \<open>\<open>client.get\<close> followed by \<open>raise_for_status\<close>.\<close>

definition http_get :: "ingest_env \<Rightarrow> string \<Rightarrow> string dict \<Rightarrow> string dict \<Rightarrow> (ingest_state, web_response) step" where
  "http_get env url headers params st =
     (let hist = \<lparr>wq_url = url, wq_headers = headers, wq_params = params\<rparr> # is_requests st; st' = st\<lparr>is_requests := hist\<rparr>
      in case ig_get env hist of
           Inl e \<Rightarrow> (Inl e, st')
         | Inr r \<Rightarrow> (if 200 \<le> wr_status r \<and> wr_status r < 300 then Inr r
             else Inl (OtherError ''HTTPStatusError'' (show_int (wr_status r))), st'))"

definition json_body :: "web_response \<Rightarrow> json res" where
  "json_body r = (case wr_json r of None \<Rightarrow> Inl (OtherError ''JSONDecodeError'' ''response body'') | Some v \<Rightarrow> Inr v)"

text \<open>The methods of a \<open>dict\<close> on what need not be one.\<close>

definition as_dict :: "string \<Rightarrow> json \<Rightarrow> json dict res" where
  "as_dict m v = (case v of JObj d \<Rightarrow> Inr d
     | _ \<Rightarrow> Inl (AttributeError (repr_str (type_name v) @ '' object has no attribute '' @ m)))"

section \<open>Files\<close>

definition tree_below :: "string \<Rightarrow> bytes dict \<Rightarrow> tree" where
  "tree_below dir fs = map (\<lambda>(p, d). (drop (length dir + 1) p, d)) (filter (\<lambda>(p, _). starts_with p (dir @ ''/'')) fs)"

text \<open>
  \<open>root.resolve() in target.resolve().parents\<close> or the two are the same; a write to the root itself is a
  write to a directory.
\<close>

definition write_below :: "ingest_env \<Rightarrow> exn \<Rightarrow> string \<Rightarrow> string \<Rightarrow> bytes \<Rightarrow> (ingest_state, unit) step" where
  "write_below env escape base target data st =
     (let p = ig_resolve env target; dir = ig_resolve env base in
      if \<not> below dir p then (Inl escape, st)
      else if p = dir then (Inl (OSError ''Is a directory''), st)
      else (case ig_fault env p of Some e \<Rightarrow> (Inl e, st)
        | None \<Rightarrow> (Inr (), st\<lparr>is_files := dict_set p data (is_files st)\<rparr>)))"

section \<open>GitHub\<close>

record github_source =
  gh_owner :: string
  gh_repo :: string
  gh_ref :: string
  gh_skill_path :: string
  gh_entrypoint :: string

text \<open>\<open>urlparse(url).path\<close>: without the parameters of its last segment.\<close>

definition parsed_path :: "string \<Rightarrow> string" where
  "parsed_path url = (let p = url_path url; ws = split_on CHR ''/'' p; s = fst (split_scheme (clean_url url))
     in if s \<in> {[], ''ftp'', ''hdl'', ''prospero'', ''http'', ''imap'', ''https'', ''shttp'', ''rtsp'', ''rtspu'', ''rtsps'', ''sip'', ''sips'', ''mms'', ''sftp'', ''tel''}
        then join ''/'' (butlast ws @ [takeWhile (\<lambda>c. c \<noteq> CHR '';'') (last ws)]) else p)"

definition github_from_url :: "string \<Rightarrow> string \<Rightarrow> string \<Rightarrow> string \<Rightarrow> github_source res" where
  "github_from_url url ref skill_path entry =
     rbind (urlsplit url) (\<lambda>u.
       let parts = filter (\<lambda>w. w \<noteq> []) (split_on CHR ''/'' (parsed_path url)) in
       if url_hostname u \<noteq> ''github.com'' then Inl (ValueError ''only github.com repository URLs are supported'')
       else if length parts < 2 then Inl (ValueError ''expected https://github.com/<owner>/<repo>'')
       else Inr \<lparr>gh_owner = parts ! 0,
         gh_repo = (let r = parts ! 1 in if ends_with r ''.git'' then take (length r - 4) r else r),
         gh_ref = ref, gh_skill_path = skill_path, gh_entrypoint = entry\<rparr>)"

definition strip_slashes :: "string \<Rightarrow> string" where
  "strip_slashes = strip_set (\<lambda>c. c = CHR ''/'')"

definition requested_parts :: "string \<Rightarrow> string list" where
  "requested_parts skill_path = (if skill_path \<in> {[], ''.''} then [] else path_parts (strip_slashes skill_path))"

text \<open>The path of a member below the requested directory, \<open>None\<close> when the member is skipped.\<close>

definition member_path :: "string \<Rightarrow> string list \<Rightarrow> tar_member \<Rightarrow> string list option" where
  "member_path lead req m = (case path_parts (tm_name m) of
     [] \<Rightarrow> None
   | p # ps \<Rightarrow> if p \<noteq> lead then None
       else if take (length req) ps \<noteq> req then None
       else (let rel = drop (length req) ps in if rel = [] \<or> ''..'' \<in> set rel then None else Some rel))"

text \<open>The loop over the members; its result is the number of files extracted.\<close>

fun extract_members ::
  "ingest_env \<Rightarrow> string \<Rightarrow> string \<Rightarrow> string list \<Rightarrow> nat \<Rightarrow> tar_member list \<Rightarrow> (ingest_state, nat) step" where
  "extract_members env dest lead req n [] = sreturn (Inr n)"
| "extract_members env dest lead req n (m # ms) = (case member_path lead req m of
     None \<Rightarrow> extract_members env dest lead req n ms
   | Some rel \<Rightarrow>
       (let target = join_path dest (join ''/'' rel) in
        if \<not> below (ig_resolve env dest) (ig_resolve env target)
        then sreturn (Inl (RuntimeError ''archive path escapes destination''))
        else (case tm_data m of
            Inl e \<Rightarrow> sreturn (Inl e)
          | Inr None \<Rightarrow> extract_members env dest lead req n ms
          | Inr (Some data) \<Rightarrow>
              sbind (write_below env (RuntimeError ''archive path escapes destination'') dest target data) (\<lambda>_.
                extract_members env dest lead req (Suc n) ms))))"

definition extract_skill_tree :: "ingest_env \<Rightarrow> bytes \<Rightarrow> string \<Rightarrow> string \<Rightarrow> (ingest_state, unit) step" where
  "extract_skill_tree env archive dest skill_path =
     sbind (sreturn (ig_untar env archive)) (\<lambda>all.
     let ms = filter tm_regular all in
     if ms = [] then sreturn (Inl (RuntimeError ''GitHub archive is empty''))
     else (case path_parts (tm_name (hd ms)) of
         [] \<Rightarrow> sreturn (Inl (OtherError ''IndexError'' ''tuple index out of range''))
       | lead # _ \<Rightarrow>
           sbind (extract_members env dest lead (requested_parts skill_path) 0 ms) (\<lambda>n.
             if n = 0 then sreturn (Inl (OSError (''Skill path not found in repository archive: '' @ skill_path)))
             else sreturn (Inr ()))))"

record ingested_skill =
  in_root :: string
  in_commit :: string
  in_provenance :: provenance_record
  in_digest :: string
  in_path :: "string option"

definition github_headers :: "ingest_env \<Rightarrow> string dict" where
  "github_headers env = [(''accept'', ''application/vnd.github+json''), (''x-github-api-version'', ''2022-11-28'')]
     @ (case ig_var env ''GITHUB_TOKEN'' of None \<Rightarrow> [] | Some t \<Rightarrow> if t = [] then [] else [(''authorization'', ''Bearer '' @ t)])"

definition github_api :: "github_source \<Rightarrow> string \<Rightarrow> string \<Rightarrow> string" where
  "github_api s what ref = ''https://api.github.com/repos/'' @ gh_owner s @ ''/'' @ gh_repo s @ ''/'' @ what @ ''/'' @ ref"

text \<open>\<open>body.get("sha")\<close>, a string of at least 40 characters.\<close>

definition commit_sha :: "json \<Rightarrow> string res" where
  "commit_sha body = rbind (as_dict ''get'' body) (\<lambda>d. case map_of d ''sha'' of
     Some (JStr s) \<Rightarrow> if length s < 40 then Inl (RuntimeError ''GitHub commit resolution did not return an immutable SHA'') else Inr s
   | _ \<Rightarrow> Inl (RuntimeError ''GitHub commit resolution did not return an immutable SHA''))"

definition root_of :: "ingest_env \<Rightarrow> string option \<Rightarrow> string" where
  "root_of env dest = (case dest of None \<Rightarrow> ig_temp env | Some d \<Rightarrow> if d = [] then ig_temp env else d)"

definition keep_record :: "bool \<Rightarrow> provenance_record \<Rightarrow> (ingest_state, string option) step" where
  "keep_record wanted r st = (if wanted
     then (case persist_provenance r (is_records st) of (name, m) \<Rightarrow> (Inr (Some name), st\<lparr>is_records := m\<rparr>))
     else (Inr None, st))"

text \<open>The provenance of the files below a directory, as they are now.\<close>

definition provenance_here :: "ingest_env \<Rightarrow> string \<Rightarrow> string \<Rightarrow> source_attestation \<Rightarrow> (ingest_state, provenance_record) step" where
  "provenance_here env base entry a st = (build_provenance (tree_below (ig_resolve env base) (is_files st)) entry a, st)"

definition has_file :: "ingest_env \<Rightarrow> string \<Rightarrow> ingest_state \<Rightarrow> bool" where
  "has_file env p st \<longleftrightarrow> ig_resolve env p \<in> set (dict_keys (is_files st))"

definition require_file :: "ingest_env \<Rightarrow> string \<Rightarrow> string \<Rightarrow> (ingest_state, unit) step" where
  "require_file env base entry st = (if has_file env (join_path base entry) st then Inr ()
     else Inl (OSError (''Skill entrypoint not found: '' @ entry)), st)"

definition github_attestation :: "ingest_env \<Rightarrow> github_source \<Rightarrow> string \<Rightarrow> source_attestation" where
  "github_attestation env s sha = \<lparr>sa_registry = ''github'',
     sa_source_url = ''https://github.com/'' @ gh_owner s @ ''/'' @ gh_repo s, sa_immutable_ref = sha,
     sa_publisher = Some (gh_owner s), sa_retrieved_at = ig_now env\<rparr>"

definition github_ingest :: "ingest_env \<Rightarrow> github_source \<Rightarrow> string option \<Rightarrow> bool \<Rightarrow> (ingest_state, ingested_skill) step" where
  "github_ingest env s dest wanted =
     sbind (http_get env (github_api s ''commits'' (gh_ref s)) (github_headers env) []) (\<lambda>r1.
     sbind (sreturn (rbind (json_body r1) commit_sha)) (\<lambda>sha.
     sbind (http_get env (github_api s ''tarball'' sha) (github_headers env) []) (\<lambda>r2.
     let base = root_of env dest in
     sbind (extract_skill_tree env (wr_content r2) base (gh_skill_path s)) (\<lambda>_.
     sbind (require_file env base (gh_entrypoint s)) (\<lambda>_.
     sbind (provenance_here env base (gh_entrypoint s) (github_attestation env s sha)) (\<lambda>pv.
     sbind (keep_record wanted pv) (\<lambda>path.
       sreturn (Inr \<lparr>in_root = base, in_commit = sha, in_provenance = pv, in_digest = provenance_digest_of pv, in_path = path\<rparr>))))))))"

section \<open>skills.sh\<close>

record registry_skill =
  rk_registry :: string
  rk_stable_id :: string
  rk_source_url :: string
  rk_content_hash :: json
  rk_files :: "(string \<times> string) list"
  rk_metadata :: "json dict"

fun materialize :: "ingest_env \<Rightarrow> string \<Rightarrow> (string \<times> string) list \<Rightarrow> (ingest_state, unit) step" where
  "materialize env base [] = sreturn (Inr ())"
| "materialize env base ((rel, t) # rest) =
     sbind (write_below env (ValueError ''registry file path escapes destination'') base (join_path base rel) (utf8 t)) (\<lambda>_.
       materialize env base rest)"

definition skills_headers :: "ingest_env \<Rightarrow> string dict res" where
  "skills_headers env = (case ig_var env ''VERCEL_OIDC_TOKEN'' of
     Some t \<Rightarrow> if t = [] then Inl (RuntimeError ''missing VERCEL_OIDC_TOKEN; skills.sh API requires Vercel OIDC'')
       else Inr [(''authorization'', ''Bearer '' @ t)]
   | None \<Rightarrow> Inl (RuntimeError ''missing VERCEL_OIDC_TOKEN; skills.sh API requires Vercel OIDC''))"

definition skills_get :: "ingest_env \<Rightarrow> string \<Rightarrow> string dict \<Rightarrow> (ingest_state, json) step" where
  "skills_get env path params =
     sbind (sreturn (skills_headers env)) (\<lambda>hs.
     sbind (http_get env (''https://skills.sh/api/v1/'' @ path) hs params) (\<lambda>r. sreturn (json_body r)))"

definition skills_search :: "ingest_env \<Rightarrow> string \<Rightarrow> int \<Rightarrow> (ingest_state, json list) step" where
  "skills_search env q limit =
     sbind (skills_get env ''skills/search'' [(''q'', q), (''limit'', show_int limit)]) (\<lambda>body.
       sreturn (rbind (as_dict ''get'' body) (\<lambda>d. case jget_default d ''data'' (JArr []) of
         JArr vs \<Rightarrow> Inr vs
       | JObj kvs \<Rightarrow> Inr (map (JStr \<circ> fst) kvs)
       | JStr s \<Rightarrow> Inr (map (\<lambda>c. JStr [c]) s)
       | v \<Rightarrow> Inl (TypeError (repr_str (type_name v) @ '' object is not iterable'')))))"

text \<open>\<open>(str(f["path"]), str(f["contents"]))\<close>.\<close>

definition file_item :: "json \<Rightarrow> (string \<times> string) res" where
  "file_item f = (case f of
     JObj d \<Rightarrow> (case map_of d ''path'' of None \<Rightarrow> Inl (KeyError ''path'') | Some p \<Rightarrow>
       (case map_of d ''contents'' of None \<Rightarrow> Inl (KeyError ''contents'') | Some t \<Rightarrow> Inr (py_str p, py_str t)))
   | _ \<Rightarrow> Inl (TypeError ''file entry is not a mapping''))"

definition listed_files :: "json dict \<Rightarrow> (string \<times> string) list res" where
  "listed_files d = (let v = jget_null d ''files'' in
     case (if truthy v then v else JArr []) of
       JArr vs \<Rightarrow> traverse file_item vs
     | _ \<Rightarrow> Inl (TypeError ''files is not a list of mappings''))"

definition skills_fetch :: "ingest_env \<Rightarrow> string \<Rightarrow> (ingest_state, registry_skill) step" where
  "skills_fetch env sid =
     sbind (skills_get env (''skills/'' @ sid) []) (\<lambda>body. sreturn (rbind (as_dict ''get'' body) (\<lambda>d.
       rbind (listed_files d) (\<lambda>fs.
         if fs = [] then Inl (RuntimeError ''skills.sh detail has no materialized files'')
         else Inr \<lparr>rk_registry = ''skills.sh'', rk_stable_id = sid,
           rk_source_url = py_str (jget_default d ''source'' (JStr sid)), rk_content_hash = jget_null d ''hash'',
           rk_files = fs, rk_metadata = dict_pop ''files'' d\<rparr>))))"

definition skills_audit :: "ingest_env \<Rightarrow> string \<Rightarrow> (ingest_state, json dict) step" where
  "skills_audit env sid =
     sbind (skills_get env (''skills/audit/'' @ sid) []) (\<lambda>body. sreturn (case body of
       JObj d \<Rightarrow> Inr d
     | JArr [] \<Rightarrow> Inr []
     | JStr [] \<Rightarrow> Inr []
     | v \<Rightarrow> Inl (TypeError (''cannot convert '' @ type_name v @ '' to a dictionary''))))"

text \<open>
  \<open>SkillsShAdapter.provenance\<close>. The registry's hash and publisher are typed here: a JSON value that is
  neither a string nor \<open>None\<close> would travel on and fail later.
\<close>

definition skills_provenance :: "ingest_env \<Rightarrow> registry_skill \<Rightarrow> string option \<Rightarrow> (ingest_state, provenance_record) step" where
  "skills_provenance env k dest =
     (let base = root_of env dest in
      sbind (materialize env base (rk_files k)) (\<lambda>_.
        if \<not> truthy (rk_content_hash k) then sreturn (Inl (RuntimeError ''skills.sh snapshot lacks immutable content hash''))
        else provenance_here env base ''SKILL.md''
          \<lparr>sa_registry = ''skills.sh'', sa_source_url = rk_source_url k, sa_immutable_ref = py_str (rk_content_hash k),
            sa_publisher = (case map_of (rk_metadata k) ''source'' of Some (JStr s) \<Rightarrow> Some s | _ \<Rightarrow> None),
            sa_retrieved_at = ig_now env\<rparr>))"

section \<open>JSON exports\<close>

record external_record =
  xr_registry :: string
  xr_stable_id :: string
  xr_metadata_url :: string
  xr_metadata :: "json dict"
  xr_digest :: string

definition metadata_fetch :: "ingest_env \<Rightarrow> string \<Rightarrow> string \<Rightarrow> string \<Rightarrow> (ingest_state, external_record) step" where
  "metadata_fetch env registry sid url =
     sbind (http_get env url [] []) (\<lambda>r. sreturn (rbind (json_body r) (\<lambda>body.
       case body of
         JObj d \<Rightarrow> Inr \<lparr>xr_registry = registry, xr_stable_id = sid, xr_metadata_url = url, xr_metadata = d,
           xr_digest = canonical_digest body\<rparr>
       | JArr [] \<Rightarrow> Inr \<lparr>xr_registry = registry, xr_stable_id = sid, xr_metadata_url = url, xr_metadata = [],
           xr_digest = canonical_digest body\<rparr>
       | JStr [] \<Rightarrow> Inr \<lparr>xr_registry = registry, xr_stable_id = sid, xr_metadata_url = url, xr_metadata = [],
           xr_digest = canonical_digest body\<rparr>
       | v \<Rightarrow> Inl (TypeError (''cannot convert '' @ type_name v @ '' to a dictionary'')))))"

end
