(* ===== verification/ProvenanceProperties.thy ===== *)
theory ProvenanceProperties
  imports Provenance KernelProperties "HOL-Library.Multiset"
begin

text \<open>
  What a provenance record pins: the encoding of a directory is injective, so the content digest names
  its files; the payload determines the record; and merging records equals grouping them by content.
\<close>

section \<open>The encoding of a directory is injective\<close>

definition of_be8 :: "bytes \<Rightarrow> nat" where
  "of_be8 bs = foldl (\<lambda>n c. n * 256 + of_char c) 0 bs"

lemma horner_step: "j = Suc k \<Longrightarrow> n div 256 ^ j * 256 + n div 256 ^ k mod 256 = (n :: nat) div 256 ^ k"
  by (simp only: power_Suc2 div_mult2_eq div_mult_mod_eq)

lemma of_be8_be8: "n < 2 ^ 64 \<Longrightarrow> of_be8 (be8 n) = n"
proof -
  assume "n < 2 ^ 64"
  then have top: "n div 256 ^ 7 mod 256 = n div 256 ^ 7" by simp
  have s: "n div 256 ^ 7 * 256 + n div 256 ^ 6 mod 256 = n div 256 ^ 6"
    "n div 256 ^ 6 * 256 + n div 256 ^ 5 mod 256 = n div 256 ^ 5"
    "n div 256 ^ 5 * 256 + n div 256 ^ 4 mod 256 = n div 256 ^ 4"
    "n div 256 ^ 4 * 256 + n div 256 ^ 3 mod 256 = n div 256 ^ 3"
    "n div 256 ^ 3 * 256 + n div 256 ^ 2 mod 256 = n div 256 ^ 2"
    "n div 256 ^ 2 * 256 + n div 256 ^ 1 mod 256 = n div 256 ^ 1"
    "n div 256 ^ 1 * 256 + n div 256 ^ 0 mod 256 = n div 256 ^ 0"
    by (rule horner_step, simp)+
  show ?thesis
    by (simp only: of_be8_def be8_def list.map foldl.simps of_char_of top mult_0 add_0 s) simp
qed

lemma be8_inj: "\<lbrakk>be8 m = be8 n; m < 2 ^ 64; n < 2 ^ 64\<rbrakk> \<Longrightarrow> m = n"
  by (metis of_be8_be8)

lemma length_be8 [simp]: "length (be8 n) = 8"
  by (simp add: be8_def)

lemma be8_prefixed:
  assumes "be8 (length a) @ a @ r = be8 (length b) @ b @ s" "length a < 2 ^ 64" "length b < 2 ^ 64"
  shows "a = b \<and> r = s"
proof -
  have "be8 (length a) = be8 (length b)" "a @ r = b @ s" using assms(1) by simp_all
  then show ?thesis using be8_inj assms(2,3) append_eq_append_conv by metis
qed

lemma entries_inj:
  assumes "concat (map entry_bytes xs) = concat (map entry_bytes ys)" "\<not> list_ex too_long xs" "\<not> list_ex too_long ys"
  shows "xs = ys"
  using assms
proof (induction xs arbitrary: ys)
  case Nil
  then show ?case by (cases ys) (auto simp: entry_bytes_def be8_def)
next
  case (Cons x xs)
  then obtain y zs where ys: "ys = y # zs" by (cases ys) (auto simp: entry_bytes_def be8_def)
  have lens: "length (utf8 (fst x)) < 2 ^ 64" "length (snd x) < 2 ^ 64" "length (utf8 (fst y)) < 2 ^ 64" "length (snd y) < 2 ^ 64"
    using Cons.prems(2,3) by (simp_all add: ys too_long_def)
  have "be8 (length (utf8 (fst x))) @ utf8 (fst x) @ (be8 (length (snd x)) @ snd x @ concat (map entry_bytes xs))
      = be8 (length (utf8 (fst y))) @ utf8 (fst y) @ (be8 (length (snd y)) @ snd y @ concat (map entry_bytes zs))"
    using Cons.prems(1) by (simp only: ys list.map concat.simps entry_bytes_def [of x] entry_bytes_def [of y] append_assoc)
  from be8_prefixed [OF this lens(1,3)] have p: "utf8 (fst x) = utf8 (fst y)"
    and "be8 (length (snd x)) @ snd x @ concat (map entry_bytes xs) = be8 (length (snd y)) @ snd y @ concat (map entry_bytes zs)"
    by blast+
  from be8_prefixed [OF this(2) lens(2,4)] have "snd x = snd y" "concat (map entry_bytes xs) = concat (map entry_bytes zs)"
    by blast+
  moreover have "fst x = fst y" using p by (simp add: utf8_inj)
  ultimately show ?case using Cons.IH [of zs] Cons.prems(2,3) by (simp add: ys prod_eq_iff)
qed

lemma set_tree_order [simp]: "set (tree_order t) = set t"
  by (simp add: tree_order_def)

lemma tree_order_too_long [simp]: "list_ex too_long (tree_order t) = list_ex too_long t"
  by (simp add: list_ex_iff)

lemma tree_bytes_inj:
  "\<lbrakk>tree_bytes a = tree_bytes b; \<not> list_ex too_long a; \<not> list_ex too_long b\<rbrakk> \<Longrightarrow> set a = set b"
  using entries_inj [of "tree_order a" "tree_order b"] by (simp add: tree_bytes_def) (metis set_tree_order)

text \<open>The walk's order does not matter: the components of a path determine the path.\<close>

lemma join_split: "join [c] (split_on c s) = s"
proof (induction s)
  case (Cons x xs)
  then obtain w ws where "split_on c xs = w # ws" "join [c] (w # ws) = xs" by (cases "split_on c xs") auto
  then show ?case by (cases ws) auto
qed simp

lemma split_on_inj: "split_on c s = split_on c t \<Longrightarrow> s = t"
  by (metis join_split)

lemma tree_order_perm:
  assumes "distinct (map fst a)" "distinct (map fst b)" "set a = set b"
  shows "tree_order a = tree_order b"
proof -
  let ?k = "\<lambda>f :: string \<times> bytes. split_on CHR ''/'' (fst f)"
  have inj: "inj_on ?k (set t)" if "distinct (map fst t)" for t :: tree
    using that by (auto simp: inj_on_def distinct_map dest!: split_on_inj)
  have "mset a = mset b" using assms by (intro set_eq_iff_mset_eq_distinct [THEN iffD1]) (simp_all add: distinct_map)
  then show ?thesis
    unfolding tree_order_def by (intro sort_key_inj_key_eq inj [OF assms(1)]) simp_all
qed

section \<open>The payload determines the record\<close>

lemma canon_opt_str [simp]: "canon (opt_str s) = opt_str s"
  by (cases s) simp_all

lemma canon_strs [simp]: "canon (strs xs) = strs xs"
  by (simp add: strs_def comp_def)

lemma plain_source [simp]: "plain (source_json a)"
  by (simp add: source_json_def)

lemma plain_payload: "plain (JObj (provenance_payload r))"
  by (simp add: provenance_payload_def list_all_iff)

lemma source_json_inj: "canon (source_json a) = canon (source_json b) \<Longrightarrow> a = b"
proof -
  assume c: "canon (source_json a) = canon (source_json b)"
  note agree = canon_agree [OF plain_source [of a, unfolded source_json_def] plain_source [of b, unfolded source_json_def]
    c [unfolded source_json_def]]
  show "a = b"
    using agree [of "''registry''"] agree [of "''source_url''"] agree [of "''immutable_ref''"] agree [of "''publisher''"]
      agree [of "''retrieved_at''"] by (simp add: opt_str_inj)
qed

lemma provenance_payload_inj: "dumps (JObj (provenance_payload a)) = dumps (JObj (provenance_payload b)) \<Longrightarrow> a = b"
proof -
  assume "dumps (JObj (provenance_payload a)) = dumps (JObj (provenance_payload b))"
  from dumps_canon [OF plain_payload plain_payload this]
  have c: "canon (JObj (provenance_payload a)) = canon (JObj (provenance_payload b))" .
  note agree = canon_agree [OF plain_payload plain_payload c]
  have "map (\<lambda>x. canon (source_json x)) (pv_attestations a) = map (\<lambda>x. canon (source_json x)) (pv_attestations b)"
    using agree [of "''attestations''"] by (simp add: provenance_payload_def comp_def)
  then have "pv_attestations a = pv_attestations b"
    by (rule map_injective) (auto simp: inj_def dest: source_json_inj)
  then show "a = b"
    using agree [of "''content_sha256''"] agree [of "''entrypoint''"] agree [of "''license_expression''"]
      agree [of "''license_status''"] agree [of "''dependency_files''"]
    by (simp add: provenance_payload_def opt_str_inj strs_inj)
qed

section \<open>Merging\<close>

lemma set_fromkeys [simp]: "set (fromkeys xs) = set xs"
  by (simp add: fromkeys_def)

lemma distinct_fromkeys [simp]: "distinct (fromkeys xs)"
  by (simp add: fromkeys_def)

lemma fromkeys_nil [simp]: "fromkeys [] = []"
  by (simp add: fromkeys_def)

lemma fromkeys_snoc: "fromkeys (xs @ [x]) = (if x \<in> set xs then fromkeys xs else fromkeys xs @ [x])"
  by (simp add: fromkeys_def)

lemma fromkeys_absorb [simp]: "fromkeys (fromkeys xs @ ys) = fromkeys (xs @ ys)"
proof (induction ys rule: rev_induct)
  case Nil
  show ?case by (simp add: fromkeys_def distinct_remdups_id)
next
  case (snoc y ys)
  then show ?case using fromkeys_snoc [of "fromkeys xs @ ys" y] fromkeys_snoc [of "xs @ ys" y] by simp
qed

text \<open>The reference: one record per content, in the order of first occurrence, with the first record's
  fields and the attestations of all of them.\<close>

definition merged_group :: "provenance_record list \<Rightarrow> provenance_record" where
  "merged_group g = (hd g)\<lparr>pv_attestations := if length g = 1 then pv_attestations (hd g)
     else fromkeys (concat (map pv_attestations g))\<rparr>"

definition with_content :: "string \<Rightarrow> provenance_record list \<Rightarrow> provenance_record list" where
  "with_content d rs = filter (\<lambda>r. pv_content r = d) rs"

definition merged :: "provenance_record list \<Rightarrow> provenance_record dict" where
  "merged rs = map (\<lambda>d. (d, merged_group (with_content d rs))) (fromkeys (map pv_content rs))"

lemma map_of_merged: "map_of (merged rs) d =
  (if d \<in> pv_content ` set rs then Some (merged_group (with_content d rs)) else None)"
  by (simp add: merged_def map_of_map_restrict)

lemma dict_set_map_in: "\<lbrakk>k \<in> set ks; distinct ks\<rbrakk> \<Longrightarrow>
  dict_set k v (map (\<lambda>d. (d, f d)) ks) = map (\<lambda>d. (d, if d = k then v else f d)) ks"
  by (induction ks) auto

lemma dict_set_map_new: "k \<notin> set ks \<Longrightarrow> dict_set k v (map (\<lambda>d. (d, f d)) ks) = map (\<lambda>d. (d, f d)) ks @ [(k, v)]"
  by (induction ks) auto

lemma with_content_snoc:
  "with_content d (rs @ [r]) = with_content d rs @ (if pv_content r = d then [r] else [])"
  by (simp add: with_content_def)

lemma with_content_empty: "with_content d rs = [] \<longleftrightarrow> d \<notin> pv_content ` set rs"
  by (auto simp: with_content_def filter_empty_conv)

lemma merged_group_snoc:
  assumes "g \<noteq> []"
  shows "merged_group (g @ [r]) = (hd g)\<lparr>pv_attestations := fromkeys (pv_attestations (merged_group g) @ pv_attestations r)\<rparr>"
  using assms by (cases g) (auto simp: merged_group_def)

lemma merge_into_merged: "merge_into r (merged rs) = merged (rs @ [r])"
proof (cases "pv_content r \<in> pv_content ` set rs")
  case True
  let ?k = "pv_content r" and ?g = "with_content (pv_content r) rs"
  have g: "?g \<noteq> []" using True by (simp add: with_content_empty)
  then have hd: "pv_content (hd ?g) = ?k" using hd_in_set [of ?g] by (auto simp: with_content_def)
  have new: "(merged_group ?g)\<lparr>pv_content := ?k, pv_attestations := fromkeys (pv_attestations (merged_group ?g) @ pv_attestations r)\<rparr>
      = merged_group (?g @ [r])"
    using hd by (simp add: merged_group_snoc [OF g]) (simp add: merged_group_def)
  have "merge_into r (merged rs) = map (\<lambda>d. (d, if d = ?k then merged_group (?g @ [r]) else merged_group (with_content d rs)))
      (fromkeys (map pv_content rs))"
    using True by (simp add: merge_into_def map_of_merged new) (simp add: merged_def dict_set_map_in)
  also have "\<dots> = merged (rs @ [r])"
    using True by (auto simp: merged_def fromkeys_snoc with_content_snoc)
  finally show ?thesis .
next
  case False
  then have "with_content (pv_content r) rs = []" by (simp add: with_content_empty)
  with False show ?thesis
    by (auto simp: merge_into_def map_of_merged) (auto simp: merged_def dict_set_map_new fromkeys_snoc with_content_snoc merged_group_def)
qed

lemma fold_merge: "fold merge_into rs [] = merged rs"
  by (induction rs rule: rev_induct) (simp_all add: merge_into_merged, simp add: merged_def)

section \<open>What a record pins\<close>

text \<open>The digest does not depend on the order in which the walk finds the files.\<close>

lemma digest_walk_order:
  "\<lbrakk>distinct (map fst a); distinct (map fst b); set a = set b\<rbrakk> \<Longrightarrow> digest_tree a = digest_tree b"
  using tree_order_perm [of a b] by (simp add: digest_tree_def tree_bytes_def list_ex_iff)

lemma build_provenance_Inr:
  assumes "build_provenance t e a = Inr r"
  shows "digest_tree t = Inr (pv_content r)" and "pv_entrypoint r = e" and "pv_attestations r = [a]"
    and "sa_immutable_ref a \<noteq> []" and "sa_immutable_ref a \<notin> set branch_refs"
  using assms by (auto simp: build_provenance_def rbind_Inr_iff split: if_splits prod.splits)

lemma digest_tree_Inr: "digest_tree t = Inr d \<Longrightarrow> d = sha256 (tree_bytes t) \<and> \<not> list_ex too_long t"
  by (auto simp: digest_tree_def split: if_splits)

text \<open>C30: The provenance digest of a run specification pins the skill: two specifications made from records
  of directories with the same provenance digest come from the same record and from the same files, path
  by path and byte by byte, or the two encodings of the payloads or of the directories are a SHA-256
  collision.\<close>

theorem provenance_pins_files:
  assumes "build_provenance ta ea aa = Inr ra" and "build_provenance tb eb ab = Inr rb"
    and "run_spec_from_provenance ra ua ia ga ma na sa = Inr xa" and "run_spec_from_provenance rb ub ib gb mb nb sb = Inr xb"
    and "provenance_digest (skill xa) = provenance_digest (skill xb)"
  shows "(ra = rb \<and> set ta = set tb)
    \<or> (dumps (JObj (provenance_payload ra)) \<noteq> dumps (JObj (provenance_payload rb))
       \<and> sha256 (utf8 (dumps (JObj (provenance_payload ra)))) = sha256 (utf8 (dumps (JObj (provenance_payload rb)))))
    \<or> (tree_bytes ta \<noteq> tree_bytes tb \<and> sha256 (tree_bytes ta) = sha256 (tree_bytes tb))"
proof -
  have "provenance_digest_of ra = provenance_digest_of rb"
    using assms(3-5) by (auto simp: run_spec_from_provenance_def split: list.splits)
  moreover have "set ta = set tb \<or> tree_bytes ta \<noteq> tree_bytes tb \<and> sha256 (tree_bytes ta) = sha256 (tree_bytes tb)" if "ra = rb"
    using digest_tree_Inr [OF build_provenance_Inr(1) [OF assms(1)]] digest_tree_Inr [OF build_provenance_Inr(1) [OF assms(2)]]
      tree_bytes_inj [of ta tb] that by metis
  ultimately show ?thesis
    using provenance_payload_inj [of ra rb] by (auto simp: provenance_digest_of_def canonical_digest_def)
qed

definition sample_source :: source_attestation where
  "sample_source = \<lparr>sa_registry = ''github'', sa_source_url = ''https://github.com/o/r'', sa_immutable_ref = ''abc'',
     sa_publisher = Some ''o'', sa_retrieved_at = ''t''\<rparr>"

definition sample_tree :: tree where
  "sample_tree = [(''SKILL.md'', ''do''), (''LICENSE'', ''MIT License'')]"

lemma sample_provenance: "\<exists>r. build_provenance sample_tree ''SKILL.md'' sample_source = Inr r
    \<and> build_provenance (rev sample_tree) ''SKILL.md'' sample_source = Inr r"
proof -
  have "digest_tree (rev sample_tree) = digest_tree sample_tree"
    by (rule digest_walk_order) (auto simp: sample_tree_def)
  moreover have "infer_license_evidence sample_tree = (Some ''MIT'', ''detected'')"
    "infer_license_evidence (rev sample_tree) = (Some ''MIT'', ''detected'')"
    "discover_dependencies sample_tree = []" "discover_dependencies (rev sample_tree) = []" by code_simp+
  moreover have "\<exists>d. digest_tree sample_tree = Inr d" by (simp add: digest_tree_def sample_tree_def too_long_def utf8_def utf8_char_def)
  moreover have "''abc'' \<notin> set branch_refs" by (simp add: branch_refs_def)
  ultimately show ?thesis by (auto simp: build_provenance_def sample_source_def)
qed

theorem provenance_pins_files_witness:
  "\<exists>r x. build_provenance sample_tree ''SKILL.md'' sample_source = Inr r
     \<and> run_spec_from_provenance r ''u'' ''run-1'' (agent sample_spec) (model sample_spec) (runtime sample_spec) (scenario sample_spec) = Inr x
     \<and> (set sample_tree = set (rev sample_tree) \<or> sha256 (tree_bytes sample_tree) = sha256 (tree_bytes (rev sample_tree)))"
proof -
  obtain r where r: "build_provenance sample_tree ''SKILL.md'' sample_source = Inr r"
    "build_provenance (rev sample_tree) ''SKILL.md'' sample_source = Inr r" using sample_provenance by blast
  obtain x where x: "run_spec_from_provenance r ''u'' ''run-1'' (agent sample_spec) (model sample_spec) (runtime sample_spec)
      (scenario sample_spec) = Inr x"
    using build_provenance_Inr(3) [OF r(1)] by (simp add: run_spec_from_provenance_def)
  from provenance_pins_files [OF r x x refl] r x show ?thesis by blast
qed

text \<open>Merging equivalent records is grouping by content: one record per content digest, in the order of
  first occurrence, with the fields of the first record and every attestation of the group once, in order.\<close>

theorem merge_is_grouping:
  "merge_equivalent rs = map (\<lambda>d. merged_group (with_content d rs)) (fromkeys (map pv_content rs))"
  by (simp add: merge_equivalent_def fold_merge merged_def)

text \<open>Hence no content occurs twice, and no attestation is lost.\<close>

lemma merged_contents: "map pv_content (merge_equivalent rs) = fromkeys (map pv_content rs)"
proof -
  have "pv_content (merged_group (with_content d rs)) = d" if "d \<in> set (fromkeys (map pv_content rs))" for d
  proof -
    have "with_content d rs \<noteq> []" using that by (simp add: with_content_empty)
    then show ?thesis using hd_in_set [of "with_content d rs"] by (auto simp: merged_group_def with_content_def)
  qed
  then have "map (\<lambda>d. pv_content (merged_group (with_content d rs))) (fromkeys (map pv_content rs)) = fromkeys (map pv_content rs)"
    by (intro map_idI)
  then show ?thesis by (simp add: merge_equivalent_def fold_merge merged_def comp_def)
qed

lemma merged_attestations:
  "(\<Union>r \<in> set (merge_equivalent rs). set (pv_attestations r)) = (\<Union>r \<in> set rs. set (pv_attestations r))"
proof -
  have "set (pv_attestations (merged_group g)) = (\<Union>r \<in> set g. set (pv_attestations r))" if "g \<noteq> []" for g
    using that by (cases g) (auto simp: merged_group_def)
  then have "set (pv_attestations (merged_group (with_content d rs))) = (\<Union>r \<in> set (with_content d rs). set (pv_attestations r))"
    if "d \<in> pv_content ` set rs" for d using that with_content_empty by blast
  then show ?thesis by (auto simp: merge_equivalent_def fold_merge merged_def with_content_def)
qed

section \<open>Supply chain\<close>

text \<open>The bill of materials of a record built from a directory names exactly its dependency files, each with
  the digest of its bytes.\<close>

lemma sbom_exact:
  assumes "build_provenance t e a = Inr r" and "distinct (map fst t)"
  shows "build_cyclonedx_sbom t r = Inr (JObj [(''bomFormat'', JStr ''CycloneDX''), (''specVersion'', JStr ''1.6''), (''version'', JInt 1),
       (''metadata'', JObj [(''component'', JObj [(''type'', JStr ''application''), (''name'', JStr e), (''version'', JStr (pv_content r))])]),
       (''components'', JArr (map (\<lambda>p. JObj [(''type'', JStr ''file''), (''name'', JStr p),
         (''hashes'', JArr [JObj [(''alg'', JStr ''SHA-256''), (''content'', JStr (sha256 (the (map_of t p))))]])])
           (discover_dependencies t)))])"
proof -
  have deps: "pv_dependencies r = discover_dependencies t"
    using assms(1) by (auto simp: build_provenance_def rbind_Inr_iff split: if_splits prod.splits)
  have "map_of t p \<noteq> None" if "p \<in> set (discover_dependencies t)" for p
    using that by (auto simp: discover_dependencies_def map_of_eq_None_iff)
  then have "traverse (sbom_component t) (discover_dependencies t) = Inr (map (\<lambda>p. JObj [(''type'', JStr ''file''), (''name'', JStr p),
      (''hashes'', JArr [JObj [(''alg'', JStr ''SHA-256''), (''content'', JStr (sha256 (the (map_of t p))))]])]) (discover_dependencies t))"
    by (intro traverse_all_Inr) (auto simp: sbom_component_def split: option.splits)
  then show ?thesis using build_provenance_Inr(2) [OF assms(1)] by (simp add: build_cyclonedx_sbom_def deps)
qed

end
