(* ===== verification/IngestProperties.thy ===== *)
theory IngestProperties
  imports Ingest ProvenanceProperties
begin

text \<open>
  What ingestion guarantees: nothing is written outside the destination, the recorded provenance is the one
  of the files that are there, and a GitHub skill is pinned to the commit its archive was fetched for.
\<close>

section \<open>Writes stay below the destination\<close>

text \<open>The files outside a directory are those of \<open>fs\<close>, and no file is gone.\<close>

definition only_below :: "string \<Rightarrow> bytes dict \<Rightarrow> ingest_state \<Rightarrow> bool" where
  "only_below dir fs st \<longleftrightarrow> (\<forall>p. \<not> below dir p \<longrightarrow> map_of (is_files st) p = map_of fs p)
     \<and> set (dict_keys fs) \<subseteq> set (dict_keys (is_files st))"

lemma write_below_inv [preserves_intros]: "preserves (only_below (ig_resolve env base) fs) (write_below env e base target d)"
  by (rule preservesI) (auto simp: write_below_def Let_def only_below_def dict_keys_set split: option.splits)

lemma http_get_inv [preserves_intros]: "preserves (only_below dir fs) (http_get env url hs ps)"
  by (rule preservesI) (auto simp: http_get_def Let_def only_below_def split: sum.splits)

lemma extract_members_inv [preserves_intros]:
  "preserves (only_below (ig_resolve env dest) fs) (extract_members env dest lead req n ms)"
  by (induction ms arbitrary: n)
    (auto simp: Let_def intro!: preserves_intros split: option.splits sum.splits)

lemma extract_inv [preserves_intros]:
  "preserves (only_below (ig_resolve env dest) fs) (extract_skill_tree env a dest sp)"
  unfolding extract_skill_tree_def Let_def
  by (auto intro!: preserves_intros split: list.splits)

lemma materialize_inv [preserves_intros]: "preserves (only_below (ig_resolve env base) fs) (materialize env base xs)"
proof (induction xs)
  case Nil
  show ?case by (simp only: materialize.simps preserves_sreturn)
next
  case (Cons x xs)
  then show ?case by (cases x) (auto intro!: preserves_intros)
qed

lemma small_inv [preserves_intros]:
  "preserves (only_below dir fs) (require_file env base entry)"
  "preserves (only_below dir fs) (provenance_here env base entry a)"
  "preserves (only_below dir fs) (keep_record wanted r)"
  by (rule preservesI, simp add: require_file_def provenance_here_def keep_record_def only_below_def split: prod.splits)+

lemma github_ingest_inv: "preserves (only_below (ig_resolve env (root_of env dest)) fs) (github_ingest env s dest wanted)"
  unfolding github_ingest_def Let_def by (intro preserves_intros)

lemma skills_provenance_inv: "preserves (only_below (ig_resolve env (root_of env dest)) fs) (skills_provenance env k dest)"
  unfolding skills_provenance_def Let_def by (intro preserves_intros)

lemma only_below_start: "only_below dir (is_files st) st"
  by (simp add: only_below_def)

text \<open>C31: Neither a GitHub archive nor a registry's file list changes a file outside the destination, whatever
  names they contain, whether the ingestion succeeds or raises half way; nor do they delete a file, so
  what an earlier ingestion left in the destination is still there.\<close>

theorem ingestion_contained:
  assumes "github_ingest env s dest wanted st = (out, st1)" and "skills_provenance env k dest st = (out', st2)"
    and "\<not> below (ig_resolve env (root_of env dest)) p"
  shows "map_of (is_files st1) p = map_of (is_files st) p \<and> map_of (is_files st2) p = map_of (is_files st) p
    \<and> set (dict_keys (is_files st)) \<subseteq> set (dict_keys (is_files st1)) \<inter> set (dict_keys (is_files st2))"
  using preservesD [OF github_ingest_inv only_below_start assms(1)] preservesD [OF skills_provenance_inv only_below_start assms(2)] assms(3)
  by (auto simp: only_below_def)

section \<open>A sample archive\<close>

text \<open>A file system whose only link is what dots resolve to, an archive with one good member and one that
  climbs out, and a registry skill that climbs out.\<close>

definition sample_sha :: string where
  "sample_sha = replicate 40 CHR ''a''"

definition sample_ingest_env :: ingest_env where
  "sample_ingest_env = \<lparr>
     ig_get = (\<lambda>hist. Inr \<lparr>wr_status = 200, wr_json = Some (JObj [(''sha'', JStr sample_sha)]), wr_content = ''tar''\<rparr>),
     ig_untar = (\<lambda>_. Inr [\<lparr>tm_name = ''r-1/SKILL.md'', tm_regular = True, tm_data = Inr (Some ''do'')\<rparr>,
       \<lparr>tm_name = ''r-1/../../x'', tm_regular = True, tm_data = Inr (Some ''evil'')\<rparr>]),
     ig_resolve = (\<lambda>p. if contains p ''..'' then ''/x'' else p), ig_fault = (\<lambda>_. None), ig_var = (\<lambda>_. None),
     ig_now = ''now'', ig_temp = ''/tmp/t''\<rparr>"

definition sample_github :: github_source where
  "sample_github = \<lparr>gh_owner = ''o'', gh_repo = ''r'', gh_ref = ''main'', gh_skill_path = ''.'', gh_entrypoint = ''SKILL.md''\<rparr>"

definition sample_ingest_state :: ingest_state where
  "sample_ingest_state = \<lparr>is_requests = [], is_files = [(''/x'', ''keep''), (''/d/old.md'', ''stale'')], is_records = Map.empty\<rparr>"

definition sample_registry_skill :: registry_skill where
  "sample_registry_skill = \<lparr>rk_registry = ''skills.sh'', rk_stable_id = ''s'', rk_source_url = ''s'', rk_content_hash = JStr ''h'',
     rk_files = [(''../x'', ''evil'')], rk_metadata = []\<rparr>"

lemma sample_extracted:
  "extract_skill_tree sample_ingest_env ''tar'' ''/d'' ''.'' st
     = (Inr (), st\<lparr>is_files := dict_set ''/d/SKILL.md'' ''do'' (is_files st)\<rparr>)"
proof -
  have p: "path_parts ''r-1/SKILL.md'' = [''r-1'', ''SKILL.md'']" "path_parts ''r-1/../../x'' = [''r-1'', ''..'', ''..'', ''x'']"
    "join_path ''/d'' ''SKILL.md'' = ''/d/SKILL.md''" "below ''/d'' ''/d/SKILL.md''"
    "\<not> contains ''/d/SKILL.md'' ''..''" "\<not> contains ''/d'' ''..''" by code_simp+
  show ?thesis
    by (simp add: extract_skill_tree_def sample_ingest_env_def requested_parts_def member_path_def write_below_def sbind_def Let_def p del: contains.simps)
qed

lemma sample_ingested:
  "\<exists>k. github_ingest sample_ingest_env sample_github (Some ''/d'') True sample_ingest_state = (Inr k,
     sample_ingest_state\<lparr>is_requests := [\<lparr>wq_url = github_api sample_github ''tarball'' sample_sha, wq_headers = github_headers sample_ingest_env, wq_params = []\<rparr>,
         \<lparr>wq_url = github_api sample_github ''commits'' ''main'', wq_headers = github_headers sample_ingest_env, wq_params = []\<rparr>],
       is_files := dict_set ''/d/SKILL.md'' ''do'' (is_files sample_ingest_state),
       is_records := snd (persist_provenance (in_provenance k) Map.empty)\<rparr>) \<and> in_commit k = sample_sha"
proof -
  let ?t = "tree_below ''/d'' (dict_set ''/d/SKILL.md'' ''do'' (is_files sample_ingest_state))"
  have t: "?t = [(''old.md'', ''stale''), (''SKILL.md'', ''do'')]" by code_simp
  have s: "infer_license_evidence ?t = (None, ''missing'')" "discover_dependencies ?t = []" unfolding t by code_simp+
  have d: "\<exists>d. digest_tree ?t = Inr d" by (simp add: t digest_tree_def too_long_def utf8_def utf8_char_def)
  have len: "length sample_sha = 40" by (simp add: sample_sha_def)
  have ref: "sample_sha \<noteq> []" "sample_sha \<notin> set branch_refs" by code_simp+
  have r: "ig_resolve sample_ingest_env ''/d'' = ''/d''" "ig_resolve sample_ingest_env (join_path ''/d'' ''SKILL.md'') = ''/d/SKILL.md''"
    by code_simp+
  have get: "ig_get sample_ingest_env h = Inr \<lparr>wr_status = 200, wr_json = Some (JObj [(''sha'', JStr sample_sha)]), wr_content = ''tar''\<rparr>" for h
    by (simp add: sample_ingest_env_def)
  show ?thesis
    using d
    by (auto simp: github_ingest_def sbind_def Let_def http_get_def get json_body_def commit_sha_def as_dict_def len
        sample_github_def root_of_def sample_extracted require_file_def has_file_def r provenance_here_def build_provenance_def
        s ref github_attestation_def keep_record_def sample_ingest_state_def dict_keys_def split: prod.splits)
qed

section \<open>GitHub skills are pinned\<close>

lemma extract_members_keeps [keeps_intros]: "keeps is_requests (extract_members env dest lead req n ms)"
  by (induction ms arbitrary: n)
    (auto simp: Let_def keeps_def write_below_def sbind_def split: option.splits sum.splits)

lemma extract_keeps: "extract_skill_tree env a dest sp st = (r, st') \<Longrightarrow> is_requests st' = is_requests st"
proof -
  have "keeps is_requests (extract_skill_tree env a dest sp)"
    unfolding extract_skill_tree_def Let_def by (auto intro!: keeps_intros split: list.splits)
  then show "extract_skill_tree env a dest sp st = (r, st') \<Longrightarrow> is_requests st' = is_requests st" by (rule keepsD)
qed

lemma http_get_Inr: "http_get env url hs ps st = (Inr r, st') \<Longrightarrow>
    st' = st\<lparr>is_requests := \<lparr>wq_url = url, wq_headers = hs, wq_params = ps\<rparr> # is_requests st\<rparr>
    \<and> ig_get env (is_requests st') = Inr r \<and> 200 \<le> wr_status r \<and> wr_status r < 300"
  by (auto simp: http_get_def Let_def split: sum.splits if_splits)

lemma commit_sha_Inr: "commit_sha v = Inr sha \<Longrightarrow> 40 \<le> length sha"
proof -
  assume "commit_sha v = Inr sha"
  then obtain d where d: "(case map_of d ''sha'' of
      Some (JStr s) \<Rightarrow> if length s < 40 then Inl (RuntimeError ''GitHub commit resolution did not return an immutable SHA'') else Inr s
    | _ \<Rightarrow> Inl (RuntimeError ''GitHub commit resolution did not return an immutable SHA'')) = Inr sha"
    unfolding commit_sha_def rbind_Inr_iff by blast
  show "40 \<le> length sha"
  proof (cases "map_of d ''sha''")
    case (Some x)
    then show ?thesis using d by (cases x) (simp_all split: if_splits)
  qed (use d in simp)
qed

lemma github_pins:
  assumes "github_ingest env s dest wanted st = (Inr k, st')"
  shows "40 \<le> length (in_commit k)
    \<and> map wq_url (is_requests st') = [github_api s ''tarball'' (in_commit k), github_api s ''commits'' (gh_ref s)] @ map wq_url (is_requests st)
    \<and> has_file env (join_path (in_root k) (gh_entrypoint s)) st'
    \<and> digest_tree (tree_below (ig_resolve env (in_root k)) (is_files st')) = Inr (pv_content (in_provenance k))
    \<and> pv_attestations (in_provenance k) = [github_attestation env s (in_commit k)]
    \<and> in_digest k = provenance_digest_of (in_provenance k)
    \<and> (wanted \<longrightarrow> in_path k = Some (in_digest k @ ''.json'') \<and> is_records st' (in_digest k @ ''.json'') \<noteq> None)"
proof -
  from assms obtain r1 st1 sha r2 st2 st3 pv path st4 where
    g: "http_get env (github_api s ''commits'' (gh_ref s)) (github_headers env) [] st = (Inr r1, st1)"
    "rbind (json_body r1) commit_sha = Inr sha"
    "http_get env (github_api s ''tarball'' sha) (github_headers env) [] st1 = (Inr r2, st2)"
    "extract_skill_tree env (wr_content r2) (root_of env dest) (gh_skill_path s) st2 = (Inr (), st3)"
    "has_file env (join_path (root_of env dest) (gh_entrypoint s)) st3"
    "build_provenance (tree_below (ig_resolve env (root_of env dest)) (is_files st3)) (gh_entrypoint s) (github_attestation env s sha) = Inr pv"
    "keep_record wanted pv st3 = (Inr path, st4)" "st' = st4"
    and k: "k = \<lparr>in_root = root_of env dest, in_commit = sha, in_provenance = pv, in_digest = provenance_digest_of pv, in_path = path\<rparr>"
    by (auto simp: github_ingest_def Let_def sbind_Inr_iff require_file_def provenance_here_def split: if_splits)
  have st4: "is_files st4 = is_files st3" "is_requests st4 = is_requests st3"
    "wanted \<longrightarrow> path = Some (provenance_digest_of pv @ ''.json'') \<and> is_records st4 (provenance_digest_of pv @ ''.json'') \<noteq> None"
    using g(7) by (auto simp: keep_record_def persist_provenance_def Let_def split: if_splits)
  have "is_requests st3 = is_requests st2" using extract_keeps [OF g(4)] .
  then have "map wq_url (is_requests st') = [github_api s ''tarball'' sha, github_api s ''commits'' (gh_ref s)] @ map wq_url (is_requests st)"
    using http_get_Inr [OF g(1)] http_get_Inr [OF g(3)] st4 g(8) by simp
  moreover have "40 \<le> length sha" using g(2) commit_sha_Inr by (auto simp: rbind_Inr_iff)
  ultimately show ?thesis
    using build_provenance_Inr [OF g(6)] g(5,8) st4 by (simp add: k has_file_def)
qed

text \<open>C32: An ingested GitHub skill is pinned: its commit has at least 40 characters, the archive was requested
  for exactly that commit, the entrypoint is there, and the returned digest is that of the record of the
  files now in the destination, with that commit as its one attestation; when asked for, the record is
  stored under that digest.\<close>

theorem github_skill_pinned:
  assumes "github_ingest env s dest wanted st = (Inr k, st')"
  shows "40 \<le> length (in_commit k)
    \<and> map wq_url (is_requests st') = [github_api s ''tarball'' (in_commit k), github_api s ''commits'' (gh_ref s)] @ map wq_url (is_requests st)
    \<and> has_file env (join_path (in_root k) (gh_entrypoint s)) st'
    \<and> digest_tree (tree_below (ig_resolve env (in_root k)) (is_files st')) = Inr (pv_content (in_provenance k))
    \<and> pv_attestations (in_provenance k) = [github_attestation env s (in_commit k)]
    \<and> in_digest k = provenance_digest_of (in_provenance k)
    \<and> (wanted \<longrightarrow> in_path k = Some (in_digest k @ ''.json'') \<and> is_records st' (in_digest k @ ''.json'') \<noteq> None)"
  by (rule github_pins [OF assms])

theorem github_skill_pinned_witness:
  "\<exists>k st'. github_ingest sample_ingest_env sample_github (Some ''/d'') True sample_ingest_state = (Inr k, st')
     \<and> in_commit k = sample_sha \<and> digest_tree (tree_below (ig_resolve sample_ingest_env (in_root k)) (is_files st')) = Inr (pv_content (in_provenance k))
     \<and> is_records st' (in_digest k @ ''.json'') \<noteq> None"
proof -
  obtain k st' where k: "github_ingest sample_ingest_env sample_github (Some ''/d'') True sample_ingest_state = (Inr k, st')"
    "in_commit k = sample_sha" using sample_ingested by blast
  from github_skill_pinned [OF k(1)] k show ?thesis by blast
qed

theorem ingestion_contained_witness:
  "\<exists>k st1 st2. github_ingest sample_ingest_env sample_github (Some ''/d'') True sample_ingest_state = (Inr k, st1)
     \<and> skills_provenance sample_ingest_env sample_registry_skill (Some ''/d'') sample_ingest_state
        = (Inl (ValueError ''registry file path escapes destination''), st2)
     \<and> map_of (is_files st1) ''/x'' = Some ''keep'' \<and> map_of (is_files st2) ''/x'' = Some ''keep''"
proof -
  obtain k st1 where g: "github_ingest sample_ingest_env sample_github (Some ''/d'') True sample_ingest_state = (Inr k, st1)"
    using sample_ingested by blast
  have r: "ig_resolve sample_ingest_env (join_path ''/d'' ''../x'') = ''/x''" "ig_resolve sample_ingest_env ''/d'' = ''/d''"
    "ig_resolve sample_ingest_env (root_of sample_ingest_env (Some ''/d'')) = ''/d''" "\<not> below ''/d'' ''/x''" by code_simp+
  have s: "skills_provenance sample_ingest_env sample_registry_skill (Some ''/d'') sample_ingest_state
      = (Inl (ValueError ''registry file path escapes destination''), sample_ingest_state)"
    by (simp add: skills_provenance_def sample_registry_skill_def root_of_def Let_def sbind_def write_below_def r)
  have "\<not> below (ig_resolve sample_ingest_env (root_of sample_ingest_env (Some ''/d''))) ''/x''" by (simp add: r)
  from ingestion_contained [OF g s this] g s show ?thesis by (simp add: sample_ingest_state_def)
qed

text \<open>A file that an earlier ingestion left in the destination is part of the next skill's content digest:
  the sample ingestion pins the commit of an archive without \<open>old.md\<close>, and digests a tree with it.\<close>

lemma stale_file_digested:
  "\<exists>k st'. github_ingest sample_ingest_env sample_github (Some ''/d'') True sample_ingest_state = (Inr k, st')
     \<and> (''old.md'', ''stale'') \<in> set (tree_below ''/d'' (is_files st'))
     \<and> digest_tree (tree_below ''/d'' (is_files st')) = Inr (pv_content (in_provenance k))"
proof -
  obtain k st' where k: "github_ingest sample_ingest_env sample_github (Some ''/d'') True sample_ingest_state = (Inr k, st')"
    and f: "is_files st' = dict_set ''/d/SKILL.md'' ''do'' (is_files sample_ingest_state)" and "in_root k = ''/d''"
    using sample_ingested by (fastforce simp: github_ingest_def sbind_Inr_iff Let_def root_of_def)
  moreover have "(''old.md'', ''stale'') \<in> set (tree_below ''/d'' (dict_set ''/d/SKILL.md'' ''do'' (is_files sample_ingest_state)))"
    by code_simp
  moreover have "ig_resolve sample_ingest_env ''/d'' = ''/d''" by code_simp
  ultimately show ?thesis using github_pins [OF k] by (metis f)
qed

end
