(* ===== verification/AndroidContract.thy ===== *)
theory AndroidContract
  imports BrowserContract Models
begin

text \<open>
  \<open>android_contract.py\<close> and \<open>android_compile.py\<close>: the bounded device actions of one Android run, the
  constraints on the device, the final assertions, the contract with its validation, and the runner
  configuration that binds the contract and its action plan by digest. Field constraints and model
  validators are guards, as in the browser contract.
\<close>

section \<open>Names\<close>

definition word_char :: "char \<Rightarrow> bool" where
  "word_char ch \<longleftrightarrow> is_alnum_char ch \<or> ch = CHR ''_''"

text \<open>\<open>^[A-Za-z][A-Za-z0-9_]*(?:\.[A-Za-z0-9_]+)+$\<close>\<close>

definition is_android_package :: "string \<Rightarrow> bool" where
  "is_android_package s \<longleftrightarrow> (let ws = split_on CHR ''.'' s in
     2 \<le> length ws \<and> list_all (\<lambda>w. w \<noteq> [] \<and> list_all word_char w) ws \<and> is_ascii_alpha (hd s))"

text \<open>\<open>^(?:\.)?[A-Za-z][A-Za-z0-9_.$]*$\<close>\<close>

definition is_android_activity :: "string \<Rightarrow> bool" where
  "is_android_activity s \<longleftrightarrow> (let t = (if starts_with s ''.'' then tl s else s) in
     t \<noteq> [] \<and> is_ascii_alpha (hd t) \<and> list_all (\<lambda>ch. word_char ch \<or> ch = CHR ''.'' \<or> ch = CHR ''$'') t)"

text \<open>\<open>^[A-Za-z0-9_.-]{1,64}$\<close> and \<open>^[A-Za-z0-9][A-Za-z0-9._:-]{0,127}$\<close>\<close>

definition is_android_abi :: "string \<Rightarrow> bool" where
  "is_android_abi s \<longleftrightarrow> s \<noteq> [] \<and> length s \<le> 64 \<and> list_all (\<lambda>ch. word_char ch \<or> ch = CHR ''.'' \<or> ch = CHR ''-'') s"

definition is_safe_serial :: "string \<Rightarrow> bool" where
  "is_safe_serial s \<longleftrightarrow> s \<noteq> [] \<and> length s \<le> 128 \<and> is_alnum_char (hd s)
     \<and> list_all (\<lambda>ch. word_char ch \<or> ch \<in> set ''.:-'') s"

text \<open>\<open>^[a-z0-9][a-z0-9._-]*$\<close>\<close>

definition is_assertion_id :: "string \<Rightarrow> bool" where
  "is_assertion_id s \<longleftrightarrow> (let low = (\<lambda>ch. is_digit_char ch \<or> (CHR ''a'' \<le> ch \<and> ch \<le> CHR ''z'')) in
     s \<noteq> [] \<and> low (hd s) \<and> list_all (\<lambda>ch. low ch \<or> ch \<in> set ''._-'') s)"

section \<open>Actions\<close>

datatype android_action =
    StartActivityAction string string
  | KeyEventAction int
  | TapAction int int
  | SwipeAction int int int int int
  | WaitAction int
  | WaitForPackageAction string int
  | WaitForActivityAction string string int
  | WaitForUiTextAction string string int
  | CaptureUiHierarchyAction string
  | CaptureScreenshotAction string

fun android_action_json :: "android_action \<Rightarrow> json" where
  "android_action_json (StartActivityAction p a) = JObj [(''kind'', JStr ''start_activity''), (''package'', JStr p), (''activity'', JStr a)]"
| "android_action_json (KeyEventAction k) = JObj [(''kind'', JStr ''keyevent''), (''keycode'', JInt k)]"
| "android_action_json (TapAction x y) = JObj [(''kind'', JStr ''tap''), (''x'', JInt x), (''y'', JInt y)]"
| "android_action_json (SwipeAction a b c d t) = JObj [(''kind'', JStr ''swipe''), (''start_x'', JInt a), (''start_y'', JInt b),
     (''end_x'', JInt c), (''end_y'', JInt d), (''duration_ms'', JInt t)]"
| "android_action_json (WaitAction t) = JObj [(''kind'', JStr ''wait''), (''duration_ms'', JInt t)]"
| "android_action_json (WaitForPackageAction p t) = JObj [(''kind'', JStr ''wait_for_package''), (''package'', JStr p),
     (''timeout_ms'', JInt t)]"
| "android_action_json (WaitForActivityAction p a t) = JObj [(''kind'', JStr ''wait_for_activity''), (''package'', JStr p),
     (''activity'', JStr a), (''timeout_ms'', JInt t)]"
| "android_action_json (WaitForUiTextAction v m t) = JObj [(''kind'', JStr ''wait_for_ui_text''), (''value'', JStr v),
     (''match'', JStr m), (''timeout_ms'', JInt t)]"
| "android_action_json (CaptureUiHierarchyAction n) = JObj [(''kind'', JStr ''capture_ui_hierarchy''), (''name'', JStr n)]"
| "android_action_json (CaptureScreenshotAction n) = JObj [(''kind'', JStr ''capture_screenshot''), (''name'', JStr n)]"

definition length_outside :: "nat \<Rightarrow> nat \<Rightarrow> string \<Rightarrow> bool" where
  "length_outside lo hi s \<longleftrightarrow> length s < lo \<or> hi < length s"

definition package_guards :: "string \<Rightarrow> (bool \<times> exn) list" where
  "package_guards p = [(length_outside 3 255 p, ValidationError ''package''),
     (\<not> is_android_package p, ValidationError ''package must be a canonical Android package name'')]"

definition activity_guards :: "string \<Rightarrow> (bool \<times> exn) list" where
  "activity_guards a = [(length_outside 1 255 a, ValidationError ''activity''),
     (\<not> is_android_activity a, ValidationError ''activity must be a safe Android activity name'')]"

definition timeout_guard :: "int \<Rightarrow> bool \<times> exn" where
  "timeout_guard t = (outside 100 120000 t, ValidationError ''timeout_ms'')"

fun android_action_guards :: "android_action \<Rightarrow> (bool \<times> exn) list" where
  "android_action_guards (StartActivityAction p a) = package_guards p @ activity_guards a"
| "android_action_guards (KeyEventAction k) = [(outside 0 1000 k, ValidationError ''keycode'')]"
| "android_action_guards (TapAction x y) = [(outside 0 10000 x, ValidationError ''x''), (outside 0 10000 y, ValidationError ''y'')]"
| "android_action_guards (SwipeAction a b c d t) = [(outside 0 10000 a, ValidationError ''start_x''),
     (outside 0 10000 b, ValidationError ''start_y''), (outside 0 10000 c, ValidationError ''end_x''),
     (outside 0 10000 d, ValidationError ''end_y''), (outside 1 10000 t, ValidationError ''duration_ms'')]"
| "android_action_guards (WaitAction t) = [(outside 1 30000 t, ValidationError ''duration_ms'')]"
| "android_action_guards (WaitForPackageAction p t) = package_guards p @ [timeout_guard t]"
| "android_action_guards (WaitForActivityAction p a t) = package_guards p @ activity_guards a @ [timeout_guard t]"
| "android_action_guards (WaitForUiTextAction v m t) = [(length_outside 1 512 v, ValidationError ''value''),
     (m \<notin> {''contains'', ''exact''}, ValidationError ''match''), timeout_guard t]"
| "android_action_guards (CaptureUiHierarchyAction n) = [(length_outside 1 128 n, ValidationError ''name''),
     (\<not> is_safe_name n, ValidationError ''UI hierarchy name must be a safe relative file name'')]"
| "android_action_guards (CaptureScreenshotAction n) = [(length_outside 1 128 n, ValidationError ''name''),
     (\<not> is_safe_name n, ValidationError ''screenshot name must be a safe relative file name'')]"

definition validate_android_action :: "android_action \<Rightarrow> android_action res" where
  "validate_android_action a = guards (android_action_guards a) a"

section \<open>Device and assertions\<close>

record device_constraint =
  dc_serial :: "string option"
  dc_min_api :: "int option"
  dc_max_api :: "int option"
  dc_abis :: "string list"
  dc_model :: "string option"
  dc_product :: "string option"
  dc_build_id :: "string option"
  dc_fingerprint :: "string option"

definition device_json :: "device_constraint \<Rightarrow> json" where
  "device_json d = JObj [(''serial'', opt_str (dc_serial d)), (''min_api_level'', opt_int (dc_min_api d)),
     (''max_api_level'', opt_int (dc_max_api d)), (''allowed_abis'', strs (dc_abis d)), (''model'', opt_str (dc_model d)),
     (''product'', opt_str (dc_product d)), (''build_id'', opt_str (dc_build_id d)), (''fingerprint'', opt_str (dc_fingerprint d))]"

definition opt_holds :: "('a \<Rightarrow> bool) \<Rightarrow> 'a option \<Rightarrow> bool" where
  "opt_holds P x \<longleftrightarrow> (case x of None \<Rightarrow> False | Some y \<Rightarrow> P y)"

definition device_guards :: "device_constraint \<Rightarrow> (bool \<times> exn) list" where
  "device_guards d =
     [(opt_holds (\<lambda>s. 128 < length s) (dc_serial d), ValidationError ''serial''),
      (opt_holds (outside 21 100) (dc_min_api d), ValidationError ''min_api_level''),
      (opt_holds (outside 21 100) (dc_max_api d), ValidationError ''max_api_level''),
      (16 < length (dc_abis d), ValidationError ''allowed_abis''),
      (opt_holds (length_outside 1 128) (dc_model d), ValidationError ''model''),
      (opt_holds (length_outside 1 128) (dc_product d), ValidationError ''product''),
      (opt_holds (length_outside 1 128) (dc_build_id d), ValidationError ''build_id''),
      (opt_holds (length_outside 1 512) (dc_fingerprint d), ValidationError ''fingerprint''),
      (opt_holds (\<lambda>s. \<not> is_safe_serial s) (dc_serial d), ValidationError ''device serial contains unsafe characters''),
      (opt_holds (\<lambda>lo. opt_holds (\<lambda>hi. hi < lo) (dc_max_api d)) (dc_min_api d),
        ValidationError ''min_api_level must not exceed max_api_level''),
      (list_ex (\<lambda>a. \<not> is_android_abi a) (dc_abis d), ValidationError ''allowed_abis contains an unsafe ABI token''),
      (dc_abis d \<noteq> sorted_set (dc_abis d), ValidationError ''allowed_abis must be sorted and unique'')]"

record final_assertion =
  fa_id :: string
  fa_kind :: string
  fa_value :: string
  fa_match :: string

definition final_assertion_json :: "final_assertion \<Rightarrow> json" where
  "final_assertion_json a = JObj [(''id'', JStr (fa_id a)), (''kind'', JStr (fa_kind a)), (''value'', JStr (fa_value a)),
     (''match'', JStr (fa_match a))]"

definition final_assertion_guards :: "final_assertion \<Rightarrow> (bool \<times> exn) list" where
  "final_assertion_guards a =
     [(length_outside 1 128 (fa_id a) \<or> \<not> is_assertion_id (fa_id a), ValidationError ''id''),
      (fa_kind a \<notin> {''package'', ''activity'', ''ui_text''}, ValidationError ''kind''),
      (length_outside 1 512 (fa_value a), ValidationError ''value''),
      (fa_match a \<notin> {''contains'', ''exact''}, ValidationError ''match''),
      (fa_kind a = ''package'' \<and> \<not> is_android_package (fa_value a),
        ValidationError ''package assertion must use a canonical Android package name'')]"

section \<open>The contract\<close>

record android_contract =
  ac_adb_version :: string
  ac_adb_sha256 :: string
  ac_device :: device_constraint
  ac_actions :: "android_action list"
  ac_assertions :: "final_assertion list"
  ac_artifact_root :: string
  ac_action_timeout :: int
  ac_max_ui_bytes :: int
  ac_max_screenshot_bytes :: int
  ac_max_logcat_bytes :: int
  ac_max_artifact_bytes :: int

definition android_contract_json :: "android_contract \<Rightarrow> json" where
  "android_contract_json c = JObj [(''schema_version'', JStr ''1.0''), (''driver'', JStr ''adb''),
     (''adb_version'', JStr (ac_adb_version c)), (''adb_sha256'', JStr (ac_adb_sha256 c)),
     (''device'', device_json (ac_device c)), (''actions'', JArr (map android_action_json (ac_actions c))),
     (''final_assertions'', JArr (map final_assertion_json (ac_assertions c))), (''artifact_root'', JStr (ac_artifact_root c)),
     (''action_timeout_ms'', JInt (ac_action_timeout c)), (''max_ui_hierarchy_bytes'', JInt (ac_max_ui_bytes c)),
     (''max_screenshot_bytes'', JInt (ac_max_screenshot_bytes c)), (''max_logcat_bytes'', JInt (ac_max_logcat_bytes c)),
     (''max_artifact_bytes'', JInt (ac_max_artifact_bytes c))]"

definition unsafe_artifact_root :: "string \<Rightarrow> bool" where
  "unsafe_artifact_root v \<longleftrightarrow> v = [] \<or> is_absolute v \<or> starts_with v ''~''
     \<or> list_ex (\<lambda>w. w \<in> {[], ''.'', ''..''}) (path_parts v)"

fun ui_name :: "android_action \<Rightarrow> string list" where
  "ui_name (CaptureUiHierarchyAction n) = [n]"
| "ui_name _ = []"

fun shot_name :: "android_action \<Rightarrow> string list" where
  "shot_name (CaptureScreenshotAction n) = [n]"
| "shot_name _ = []"

definition android_field_guards :: "android_contract \<Rightarrow> (bool \<times> exn) list" where
  "android_field_guards c =
     [(length_outside 1 128 (ac_adb_version c), ValidationError ''adb_version''),
      (\<not> is_hex64 (ac_adb_sha256 c), ValidationError ''adb_sha256''),
      (ac_actions c = [] \<or> 200 < length (ac_actions c), ValidationError ''actions''),
      (ac_assertions c = [] \<or> 64 < length (ac_assertions c), ValidationError ''final_assertions''),
      (outside 100 180000 (ac_action_timeout c), ValidationError ''action_timeout_ms''),
      (outside 1 50000000 (ac_max_ui_bytes c), ValidationError ''max_ui_hierarchy_bytes''),
      (outside 1 250000000 (ac_max_screenshot_bytes c), ValidationError ''max_screenshot_bytes''),
      (outside 0 50000000 (ac_max_logcat_bytes c), ValidationError ''max_logcat_bytes''),
      (outside 1 1000000000 (ac_max_artifact_bytes c), ValidationError ''max_artifact_bytes'')]"

definition android_model_guards :: "android_contract \<Rightarrow> (bool \<times> exn) list" where
  "android_model_guards c =
     [(unsafe_artifact_root (ac_artifact_root c), ValidationError ''artifact_root must be a safe relative path''),
      (\<not> distinct (map fa_id (ac_assertions c)), ValidationError ''final assertion ids must be unique''),
      (\<not> distinct (concat (map ui_name (ac_actions c))), ValidationError ''UI hierarchy artifact names must be unique''),
      (\<not> distinct (concat (map shot_name (ac_actions c))), ValidationError ''screenshot artifact names must be unique'')]"

definition validate_android_contract :: "android_contract \<Rightarrow> android_contract res" where
  "validate_android_contract c =
     rbind (guards (device_guards (ac_device c)) ()) (\<lambda>_.
     rbind (traverse validate_android_action (ac_actions c)) (\<lambda>_.
     rbind (traverse (\<lambda>a. guards (final_assertion_guards a) a) (ac_assertions c)) (\<lambda>_.
       guards (android_field_guards c @ android_model_guards c) c)))"

definition android_contract_digest :: "android_contract \<Rightarrow> string" where
  "android_contract_digest c = canonical_digest (android_contract_json c)"

definition android_action_plan_digest :: "android_action list \<Rightarrow> string" where
  "android_action_plan_digest as = canonical_digest (JArr (map android_action_json as))"

section \<open>The runner configuration\<close>

record android_config =
  acfg_run_id :: string
  acfg_contract :: android_contract
  acfg_contract_digest :: string
  acfg_action_plan_digest :: string
  acfg_config_digest :: string

definition android_config_payload :: "android_config \<Rightarrow> json dict" where
  "android_config_payload c = [(''schema_version'', JStr ''1.0''), (''run_id'', JStr (acfg_run_id c)),
     (''contract'', android_contract_json (acfg_contract c)), (''contract_digest'', JStr (acfg_contract_digest c)),
     (''action_plan_digest'', JStr (acfg_action_plan_digest c))]"

definition android_config_json :: "android_config \<Rightarrow> json" where
  "android_config_json c = JObj (android_config_payload c @ [(''config_digest'', JStr (acfg_config_digest c))])"

definition validate_android_config :: "android_config \<Rightarrow> android_config res" where
  "validate_android_config c = rbind (validate_android_contract (acfg_contract c)) (\<lambda>_. guards
     [(length_outside 1 256 (acfg_run_id c), ValidationError ''run_id''),
      (\<not> is_hex64 (acfg_contract_digest c), ValidationError ''contract_digest''),
      (\<not> is_hex64 (acfg_action_plan_digest c), ValidationError ''action_plan_digest''),
      (\<not> is_hex64 (acfg_config_digest c), ValidationError ''config_digest''),
      (acfg_contract_digest c \<noteq> android_contract_digest (acfg_contract c),
        ValidationError ''android contract digest does not match contract payload''),
      (acfg_action_plan_digest c \<noteq> android_action_plan_digest (ac_actions (acfg_contract c)),
        ValidationError ''android action-plan digest does not match actions''),
      (acfg_config_digest c \<noteq> canonical_digest (JObj (android_config_payload c)),
        ValidationError ''android runner config digest does not match payload'')] c)"

definition build_android_runner_config :: "string \<Rightarrow> android_contract \<Rightarrow> android_config res" where
  "build_android_runner_config run_id c =
     (let base = \<lparr>acfg_run_id = run_id, acfg_contract = c, acfg_contract_digest = android_contract_digest c,
            acfg_action_plan_digest = android_action_plan_digest (ac_actions c), acfg_config_digest = []\<rparr>
      in validate_android_config (base\<lparr>acfg_config_digest := canonical_digest (JObj (android_config_payload base))\<rparr>))"

definition encode_android_runner_stdin :: "android_config \<Rightarrow> string" where
  "encode_android_runner_stdin c = dumps (android_config_json c)"

definition android_runner_command :: "string list" where
  "android_runner_command = [''skill-native-android-runner'', ''--config-stdin'']"

definition android_runner_stdin_digest :: "android_config \<Rightarrow> string" where
  "android_runner_stdin_digest c = text_digest (encode_android_runner_stdin c)"

end
