(* ===== verification/AndroidAdb.thy ===== *)
theory AndroidAdb
  imports AndroidContract
begin

text \<open>
  \<open>android_adb.py\<close>: the identity of the ADB executable, the parser of \<open>adb devices -l\<close>, the choice of the
  device, and the argument list of each action. The executable is what the operating system answers for
  it: whether it opens, its status before and after reading, and the chunks read.
\<close>

section \<open>The executable\<close>

record file_status =
  fs_regular :: bool
  fs_mode :: int
  fs_dev :: int
  fs_ino :: int
  fs_size :: int
  fs_mtime :: int
  fs_ctime :: int

datatype open_outcome = Opened | OpenMissing | OpenRefused

record adb_file =
  af_nofollow :: bool
  af_open :: open_outcome
  af_status :: file_status
  af_chunks :: "bytes list res"
  af_after :: file_status
  af_resolved :: "string res"

record adb_identity =
  ai_path :: string
  ai_version :: string
  ai_sha256 :: string

definition same_file :: "file_status \<Rightarrow> file_status \<Rightarrow> bool" where
  "same_file a b \<longleftrightarrow> fs_dev a = fs_dev b \<and> fs_ino a = fs_ino b \<and> fs_size a = fs_size b \<and> fs_mtime a = fs_mtime b
     \<and> fs_ctime a = fs_ctime b"

text \<open>\<open>mode & 0o111\<close>: one of the three execute bits.\<close>

definition executable :: "int \<Rightarrow> bool" where
  "executable mode \<longleftrightarrow> bit mode 0 \<or> bit mode 3 \<or> bit mode 6"

definition adb_error :: "string \<Rightarrow> 'a res" where
  "adb_error m = Inl (AndroidAdbError m)"

definition attest_adb_binary :: "adb_file \<Rightarrow> string \<Rightarrow> adb_identity res" where
  "attest_adb_binary f reported =
     (let version = strip reported in
      if version = [] \<or> 256 < length version then adb_error ''ADB reported version is missing or too long''
      else if \<not> af_nofollow f then adb_error ''platform cannot enforce O_NOFOLLOW for ADB attestation''
      else if af_open f = OpenMissing then adb_error ''ADB executable does not exist''
      else if af_open f = OpenRefused then adb_error ''ADB executable could not be opened without following links''
      else if \<not> fs_regular (af_status f) then adb_error ''ADB executable must be a regular file''
      else if \<not> executable (fs_mode (af_status f)) then adb_error ''ADB executable is not executable''
      else rbind (af_chunks f) (\<lambda>chunks.
        if \<not> same_file (af_status f) (af_after f) then adb_error ''ADB executable changed while being attested''
        else rbind (af_resolved f) (\<lambda>p. guards
          [(p = [], ValidationError ''path'')]
          \<lparr>ai_path = p, ai_version = version, ai_sha256 = sha256 (concat chunks)\<rparr>)))"

section \<open>The device listing\<close>

record adb_device =
  dv_serial :: string
  dv_state :: string
  dv_attributes :: "string dict"

definition device_line_guards :: "adb_device \<Rightarrow> (bool \<times> exn) list" where
  "device_line_guards d =
     [(length_outside 1 128 (dv_serial d), ValidationError ''serial''), (length_outside 1 64 (dv_state d), ValidationError ''state''),
      (\<not> is_safe_serial (dv_serial d), ValidationError ''ADB device serial contains unsafe characters''),
      (list_ex is_space (dv_state d), ValidationError ''ADB device state must be a simple token''),
      (list_ex (\<lambda>(k, _). k = [] \<or> list_ex is_space k \<or> CHR '':'' \<in> set k) (dv_attributes d),
        ValidationError ''ADB device attribute keys must be simple tokens''),
      (list_ex (\<lambda>(_, v). 512 < length v) (dv_attributes d), ValidationError ''ADB device attribute values are too long'')]"

text \<open>\<open>output.replace("\r\n", "\n")\<close>\<close>

fun unix_lines :: "string \<Rightarrow> string" where
  "unix_lines [] = []"
| "unix_lines [x] = [x]"
| "unix_lines (x # y # r) = (if x = CHR 0x0D \<and> y = CHR 0x0A then CHR 0x0A # unix_lines r else x # unix_lines (y # r))"

definition listing_lines :: "string \<Rightarrow> string list" where
  "listing_lines out = map strip (split_on CHR 0x0A (unix_lines out))"

definition skipped_line :: "string \<Rightarrow> bool" where
  "skipped_line l \<longleftrightarrow> l = [] \<or> starts_with l ''List of devices attached'' \<or> starts_with l ''* daemon''"

fun parse_attributes :: "string dict \<Rightarrow> string list \<Rightarrow> string dict res" where
  "parse_attributes d [] = Inr d"
| "parse_attributes d (w # ws) = (case partition_on CHR '':'' w of (k, found, v) \<Rightarrow>
     if \<not> found then adb_error (''malformed ADB device attribute: '' @ repr_str w)
     else if k = [] \<or> v = [] \<or> k \<in> set (dict_keys d) then adb_error (''invalid ADB device attribute: '' @ repr_str w)
     else parse_attributes (dict_set k v d) ws)"

definition parse_device :: "string list \<Rightarrow> string \<Rightarrow> adb_device res" where
  "parse_device seen line = (case split_words line of
     serial # state # ws \<Rightarrow>
       if serial \<in> set seen then adb_error (''duplicate ADB serial: '' @ serial)
       else rbind (parse_attributes [] ws) (\<lambda>attrs.
         let d = \<lparr>dv_serial = serial, dv_state = state, dv_attributes = attrs\<rparr> in
         if list_all (\<lambda>g. \<not> fst g) (device_line_guards d) then Inr d
         else adb_error (''invalid ADB device entry for serial '' @ repr_str serial))
   | _ \<Rightarrow> adb_error (''malformed adb device line: '' @ repr_str line))"

fun parse_lines :: "adb_device list \<Rightarrow> string list \<Rightarrow> adb_device list res" where
  "parse_lines ds [] = Inr ds"
| "parse_lines ds (l # ls) =
     (if skipped_line l then parse_lines ds ls
      else rbind (parse_device (map dv_serial ds) l) (\<lambda>d.
        if 128 < length (ds @ [d]) then adb_error ''ADB device listing exceeds the device budget''
        else parse_lines (ds @ [d]) ls))"

definition parse_adb_devices :: "string \<Rightarrow> adb_device list res" where
  "parse_adb_devices out =
     (if 1000000 < length (utf8 out) then adb_error ''ADB device listing exceeds the byte budget''
      else parse_lines [] (listing_lines out))"

section \<open>The device\<close>

definition select_online_device :: "adb_device list \<Rightarrow> string option \<Rightarrow> adb_device res" where
  "select_online_device ds expected = (case expected of
     Some s \<Rightarrow>
       if \<not> is_safe_serial s then adb_error ''expected Android device serial contains unsafe characters''
       else (case filter (\<lambda>d. dv_serial d = s) ds of
           [d] \<Rightarrow> if dv_state d \<noteq> ''device'' then adb_error (''expected Android device is not online: '' @ dv_state d) else Inr d
         | _ \<Rightarrow> adb_error ''expected Android device serial is not uniquely present'')
   | None \<Rightarrow> (case filter (\<lambda>d. dv_state d = ''device'') ds of
         [d] \<Rightarrow> Inr d
       | online \<Rightarrow> adb_error (''exactly one online Android device is required; found '' @ show_nat (length online))))"

section \<open>Arguments\<close>

fun action_words :: "android_action \<Rightarrow> string list option" where
  "action_words (StartActivityAction p a) = Some [''shell'', ''am'', ''start'', ''-W'', ''-n'', p @ ''/'' @ a]"
| "action_words (KeyEventAction k) = Some [''shell'', ''input'', ''keyevent'', show_int k]"
| "action_words (TapAction x y) = Some [''shell'', ''input'', ''tap'', show_int x, show_int y]"
| "action_words (SwipeAction a b c d t) = Some [''shell'', ''input'', ''swipe'', show_int a, show_int b, show_int c, show_int d, show_int t]"
| "action_words (WaitAction t) = None"
| "action_words (WaitForPackageAction p t) = Some [''shell'', ''dumpsys'', ''window'', ''windows'']"
| "action_words (WaitForActivityAction p a t) = Some [''shell'', ''dumpsys'', ''activity'', ''activities'']"
| "action_words (WaitForUiTextAction v m t) = Some [''shell'', ''uiautomator'', ''dump'', ''/sdcard/window.xml'']"
| "action_words (CaptureUiHierarchyAction n) = Some [''exec-out'', ''uiautomator'', ''dump'', ''/dev/tty'']"
| "action_words (CaptureScreenshotAction n) = Some [''exec-out'', ''screencap'', ''-p'']"

definition compile_adb_action_argv :: "string \<Rightarrow> string \<Rightarrow> android_action \<Rightarrow> string list res" where
  "compile_adb_action_argv adb serial a =
     (if adb = [] \<or> \<not> is_absolute adb \<or> CHR 0x00 \<in> set adb then adb_error ''ADB path must be a non-empty absolute path''
      else if \<not> is_safe_serial serial then adb_error ''Android device serial contains unsafe characters''
      else (case action_words a of
          None \<Rightarrow> adb_error ''wait actions are runner-local and have no ADB argv''
        | Some ws \<Rightarrow> Inr ([adb, ''-s'', serial] @ ws)))"

end
