(* ===== verification/AndroidProperties.thy ===== *)
theory AndroidProperties
  imports AndroidAdb
begin

text \<open>
  The Android preparation: which listings the device parser accepts and what it makes of them, which device
  is chosen, what reaches the device's shell, and what the runner configuration binds.
\<close>

section \<open>The device listing\<close>

lemma partition_on_found: "partition_on c w = (k, True, v) \<Longrightarrow> w = k @ c # v \<and> c \<notin> set k"
  by (induction w arbitrary: k) (auto split: if_splits prod.splits)

lemma partition_on_append: "c \<notin> set k \<Longrightarrow> partition_on c (k @ c # v) = (k, True, v)"
  by (induction k) auto

definition attribute_word :: "string \<times> string \<Rightarrow> string" where
  "attribute_word kv = fst kv @ '':'' @ snd kv"

definition attributes_ok :: "string dict \<Rightarrow> bool" where
  "attributes_ok d \<longleftrightarrow> distinct (dict_keys d) \<and> list_all (\<lambda>(k, v). k \<noteq> [] \<and> v \<noteq> [] \<and> CHR '':'' \<notin> set k) d"

lemma attributes_ok_snoc:
  "attributes_ok (d @ [(k, v)]) \<longleftrightarrow> attributes_ok d \<and> k \<notin> set (dict_keys d) \<and> k \<noteq> [] \<and> v \<noteq> [] \<and> CHR '':'' \<notin> set k"
  by (auto simp: attributes_ok_def dict_keys_def)

lemma parse_attributes_iff:
  "attributes_ok d \<Longrightarrow> parse_attributes d ws = Inr d' \<longleftrightarrow> (\<exists>kvs. d' = d @ kvs \<and> ws = map attribute_word kvs \<and> attributes_ok d')"
proof (induction ws arbitrary: d)
  case (Cons w ws)
  obtain k f v where p: "partition_on CHR '':'' w = (k, f, v)" by (cases "partition_on CHR '':'' w")
  show ?case
  proof
    assume e: "parse_attributes d (w # ws) = Inr d'"
    then have f: "f" "k \<noteq> []" "v \<noteq> []" "k \<notin> set (dict_keys d)" and r: "parse_attributes (dict_set k v d) ws = Inr d'"
      by (auto simp: p adb_error_def split: if_splits)
    have w: "w = k @ CHR '':'' # v" "CHR '':'' \<notin> set k" using partition_on_found p f(1) by auto
    have ok: "attributes_ok (d @ [(k, v)])" using Cons.prems f w by (simp add: attributes_ok_snoc)
    from r have "parse_attributes (d @ [(k, v)]) ws = Inr d'" using f(4) by (simp add: dict_set_fresh)
    with Cons.IH [OF ok] obtain kvs where "d' = (d @ [(k, v)]) @ kvs" "ws = map attribute_word kvs" "attributes_ok d'" by blast
    then show "\<exists>kvs. d' = d @ kvs \<and> w # ws = map attribute_word kvs \<and> attributes_ok d'"
      using w(1) by (intro exI [of _ "(k, v) # kvs"]) (simp add: attribute_word_def)
  next
    assume "\<exists>kvs. d' = d @ kvs \<and> w # ws = map attribute_word kvs \<and> attributes_ok d'"
    then obtain a b kvs where k: "d' = (d @ [(a, b)]) @ kvs" "w = attribute_word (a, b)" "ws = map attribute_word kvs" "attributes_ok d'"
      by (auto simp: Cons_eq_map_conv)
    then have ok: "attributes_ok (d @ [(a, b)])" by (auto simp: attributes_ok_def dict_keys_def)
    then have a: "a \<notin> set (dict_keys d)" "a \<noteq> []" "b \<noteq> []" "CHR '':'' \<notin> set a" by (simp_all add: attributes_ok_snoc)
    have "partition_on CHR '':'' w = (a, True, b)" using k(2) a(4) by (simp add: attribute_word_def partition_on_append)
    moreover have "parse_attributes (d @ [(a, b)]) ws = Inr d'" using Cons.IH [OF ok] k by blast
    ultimately show "parse_attributes d (w # ws) = Inr d'" using a by (simp add: dict_set_fresh)
  qed
qed (auto simp: )

text \<open>The device a line describes, word by word.\<close>

definition describes :: "adb_device \<Rightarrow> string \<Rightarrow> bool" where
  "describes d l \<longleftrightarrow> split_words l = dv_serial d # dv_state d # map attribute_word (dv_attributes d)"

definition device_ok :: "adb_device \<Rightarrow> bool" where
  "device_ok d \<longleftrightarrow> attributes_ok (dv_attributes d) \<and> list_all (\<lambda>g. \<not> fst g) (device_line_guards d)"

lemma parse_device_iff: "parse_device seen l = Inr d \<longleftrightarrow> describes d l \<and> device_ok d \<and> dv_serial d \<notin> set seen"
proof -
  have nil: "attributes_ok []" by (simp add: attributes_ok_def dict_keys_def)
  show ?thesis
  proof (cases "split_words l")
    case (Cons serial r)
    show ?thesis
    proof (cases r)
      case (Cons state ws)
      have "parse_attributes [] ws = Inr attrs \<longleftrightarrow> ws = map attribute_word attrs \<and> attributes_ok attrs" for attrs
        using parse_attributes_iff [OF nil, of ws attrs] by auto
      then show ?thesis
        using \<open>split_words l = serial # r\<close> Cons
        by (cases d) (auto simp: parse_device_def describes_def device_ok_def adb_error_def rbind_Inr_iff Let_def)
    qed (use \<open>split_words l = serial # r\<close> in \<open>simp add: parse_device_def describes_def adb_error_def\<close>)
  qed (simp add: parse_device_def describes_def adb_error_def)
qed

text \<open>The devices \<open>new\<close> that the lines \<open>ls\<close> add to the devices \<open>ds\<close>.\<close>

definition lists :: "adb_device list \<Rightarrow> string list \<Rightarrow> adb_device list \<Rightarrow> bool" where
  "lists ds ls new \<longleftrightarrow> list_all2 describes new (filter (\<lambda>l. \<not> skipped_line l) ls) \<and> list_all device_ok new
     \<and> distinct (map dv_serial new) \<and> set (map dv_serial ds) \<inter> set (map dv_serial new) = {}
     \<and> (new \<noteq> [] \<longrightarrow> length ds + length new \<le> 128)"

lemma lists_skip: "skipped_line l \<Longrightarrow> lists ds (l # ls) new \<longleftrightarrow> lists ds ls new"
  by (simp add: lists_def)

lemma lists_Cons: "\<not> skipped_line l \<Longrightarrow> lists ds (l # ls) new \<longleftrightarrow> (\<exists>d rest. new = d # rest \<and> describes d l \<and> device_ok d
     \<and> dv_serial d \<notin> set (map dv_serial ds) \<and> length (ds @ [d]) \<le> 128 \<and> lists (ds @ [d]) ls rest)"
  by (cases new) (auto simp: lists_def)

lemma parse_lines_iff: "parse_lines ds ls = Inr out \<longleftrightarrow> (\<exists>new. out = ds @ new \<and> lists ds ls new)"
proof (induction ls arbitrary: ds)
  case Nil
  show ?case by (auto simp: lists_def)
next
  case (Cons l ls)
  show ?case
  proof (cases "skipped_line l")
    case False
    have "parse_lines ds (l # ls) = Inr out \<longleftrightarrow> (\<exists>d. describes d l \<and> device_ok d \<and> dv_serial d \<notin> set (map dv_serial ds)
        \<and> length (ds @ [d]) \<le> 128 \<and> parse_lines (ds @ [d]) ls = Inr out)"
      using False by (auto simp: rbind_Inr_iff parse_device_iff adb_error_def)
    then show ?thesis by (auto simp: Cons.IH lists_Cons [OF False])
  qed (simp add: Cons.IH lists_skip)
qed

lemma listing_iff:
  "parse_adb_devices out = Inr ds \<longleftrightarrow> length (utf8 out) \<le> 1000000
     \<and> list_all2 describes ds (filter (\<lambda>l. \<not> skipped_line l) (listing_lines out))
     \<and> list_all device_ok ds \<and> distinct (map dv_serial ds) \<and> length ds \<le> 128"
  by (auto simp: parse_adb_devices_def adb_error_def parse_lines_iff lists_def)

text \<open>C36: The parser accepts a listing exactly when it is within its byte budget and its lines, other than the
  header and the daemon's, are the words of at most 128 valid devices with different serials; then those
  devices are the result, in the order of their lines.\<close>

theorem device_listing_exact:
  "parse_adb_devices out = Inr ds \<longleftrightarrow> length (utf8 out) \<le> 1000000
     \<and> list_all2 describes ds (filter (\<lambda>l. \<not> skipped_line l) (listing_lines out))
     \<and> list_all device_ok ds \<and> distinct (map dv_serial ds) \<and> length ds \<le> 128"
  by (rule listing_iff)

section \<open>The device\<close>

lemma filter_key_single: "distinct (map f xs) \<Longrightarrow> filter (\<lambda>x. f x = k) xs = [y] \<longleftrightarrow> y \<in> set xs \<and> f y = k"
  by (induction xs) (auto simp: filter_empty_conv, metis image_eqI)

text \<open>From a parsed listing a device is chosen exactly when it is in the listing, online, and either carries
  the expected serial or is the only one online.\<close>

theorem device_selected_iff:
  assumes "parse_adb_devices out = Inr ds"
  shows "select_online_device ds expected = Inr d \<longleftrightarrow> (case expected of
      Some s \<Rightarrow> d \<in> set ds \<and> dv_serial d = s \<and> dv_state d = ''device''
    | None \<Rightarrow> filter (\<lambda>d. dv_state d = ''device'') ds = [d])"
proof -
  have ds: "distinct (map dv_serial ds)" "list_all device_ok ds" using assms by (simp_all add: listing_iff)
  show ?thesis
  proof (cases expected)
    case None
    then show ?thesis by (auto simp: select_online_device_def adb_error_def split: list.splits)
  next
    case (Some s)
    have "is_safe_serial (dv_serial d)" if "d \<in> set ds" for d
      using ds(2) that by (auto simp: list_all_iff device_ok_def device_line_guards_def)
    note safe = this and single = filter_key_single [OF ds(1), of s]
    show ?thesis
    proof (cases "filter (\<lambda>d. dv_serial d = s) ds")
      case Nil
      then show ?thesis using single [of d] by (auto simp: Some select_online_device_def adb_error_def)
    next
      case (Cons x xs)
      show ?thesis
      proof (cases xs)
        case Nil
        then have f: "filter (\<lambda>d. dv_serial d = s) ds = [x]" using Cons by simp
        then have x: "x \<in> set ds" "dv_serial x = s" using single [of x] by simp_all
        have d: "d \<in> set ds \<and> dv_serial d = s \<longleftrightarrow> d = x" using single [of d] f by auto
        show ?thesis using safe [OF x(1)] x d by (auto simp: Some f select_online_device_def adb_error_def)
      next
        case (Cons y ys)
        then show ?thesis using \<open>filter _ ds = x # xs\<close> single [of d] by (auto simp: Some select_online_device_def adb_error_def)
      qed
    qed
  qed
qed

definition sample_listing :: string where
  "sample_listing = ''e1 device p:q'' @ [CHR 0x0A] @ ''r2 offline''"

lemma sample_lines:
  "listing_lines sample_listing = [''e1 device p:q'', ''r2 offline'']" "length (utf8 sample_listing) = 24"
  "split_words ''e1 device p:q'' = [''e1'', ''device'', ''p:q'']" "split_words ''r2 offline'' = [''r2'', ''offline'']"
proof -
  have "unix_lines sample_listing = sample_listing" by (simp add: sample_listing_def)
  then show "listing_lines sample_listing = [''e1 device p:q'', ''r2 offline'']"
    by (simp add: listing_lines_def) (simp add: sample_listing_def strip_def strip_set_def is_space_def)
  show "length (utf8 sample_listing) = 24" by (simp add: sample_listing_def utf8_def utf8_char_def)
  show "split_words ''e1 device p:q'' = [''e1'', ''device'', ''p:q'']" "split_words ''r2 offline'' = [''r2'', ''offline'']"
    by (simp_all add: split_words_def is_space_def)
qed

lemma sample_devices: "parse_adb_devices sample_listing
    = Inr [\<lparr>dv_serial = ''e1'', dv_state = ''device'', dv_attributes = [(''p'', ''q'')]\<rparr>,
        \<lparr>dv_serial = ''r2'', dv_state = ''offline'', dv_attributes = []\<rparr>]"
proof -
  have s: "is_safe_serial ''e1''" "is_safe_serial ''r2''" by code_simp+
  have k: "\<not> skipped_line ''e1 device p:q''" "\<not> skipped_line ''r2 offline''" by (simp_all add: skipped_line_def starts_with_def)
  show ?thesis
    by (simp add: listing_iff sample_lines describes_def device_ok_def attributes_ok_def attribute_word_def dict_keys_def k
        device_line_guards_def s length_outside_def is_space_def)
qed

theorem device_selected_iff_witness:
  "\<exists>ds d. parse_adb_devices sample_listing = Inr ds \<and> length ds = 2
     \<and> select_online_device ds (Some ''e1'') = Inr d \<and> dv_attributes d = [(''p'', ''q'')]"
proof -
  let ?d = "\<lparr>dv_serial = ''e1'', dv_state = ''device'', dv_attributes = [(''p'', ''q'')]\<rparr>"
  have "select_online_device [?d, \<lparr>dv_serial = ''r2'', dv_state = ''offline'', dv_attributes = []\<rparr>] (Some ''e1'') = Inr ?d"
    using device_selected_iff [OF sample_devices, of "Some ''e1''" ?d] by simp
  with sample_devices show ?thesis by (intro exI [of _ "[?d, _]"] exI [of _ ?d]) simp
qed

section \<open>What reaches the device\<close>

text \<open>The characters of the words that follow the serial.\<close>

definition shell_char :: "char \<Rightarrow> bool" where
  "shell_char ch \<longleftrightarrow> word_char ch \<or> ch \<in> set ''./-''"

lemma digit_shell: "is_digit_char ch \<Longrightarrow> shell_char ch"
  by (simp add: shell_char_def word_char_def is_alnum_char_def)

lemma show_int_shell: "0 \<le> i \<Longrightarrow> list_all shell_char (show_int i)"
  using show_nat_digits [of "nat i"] digit_shell by (auto simp: show_int_def list_all_iff)

lemma nil_not_show_int [simp]: "[] \<noteq> show_int i"
  using show_int_nonempty [of i] by metis

lemma package_shell: "is_android_package p \<Longrightarrow> list_all shell_char p"
proof -
  have join: "\<forall>w \<in> set (split_on ch s). list_all P w \<Longrightarrow> list_all (\<lambda>x. P x \<or> x = ch) s" for ch s and P :: "char \<Rightarrow> bool"
    by (induction s) (auto split: if_splits list.splits)
  assume "is_android_package p"
  then have "\<forall>w \<in> set (split_on CHR ''.'' p). list_all word_char w" by (auto simp: is_android_package_def Let_def list_all_iff)
  from join [OF this] show ?thesis by (auto simp: list_all_iff shell_char_def)
qed

lemma activity_shell: "is_android_activity a \<Longrightarrow> list_all (\<lambda>ch. shell_char ch \<or> ch = CHR ''$'') a"
  by (cases a) (auto simp: is_android_activity_def Let_def list_all_iff shell_char_def starts_with_def split: if_splits)

definition starts_activity :: "android_action \<Rightarrow> bool" where
  "starts_activity a \<longleftrightarrow> (case a of StartActivityAction _ _ \<Rightarrow> True | _ \<Rightarrow> False)"

lemma action_words_shell:
  assumes "validate_android_action a = Inr b" "action_words a = Some ws"
  shows "list_all (\<lambda>w. w \<noteq> [] \<and> list_all (\<lambda>ch. shell_char ch \<or> (ch = CHR ''$'' \<and> starts_activity a)) w) ws"
proof (cases a)
  case (StartActivityAction p x)
  have "list_all shell_char p" "list_all (\<lambda>ch. shell_char ch \<or> ch = CHR ''$'') x"
    using assms(1) package_shell activity_shell
    by (simp_all add: StartActivityAction validate_android_action_def guard_simps package_guards_def activity_guards_def)
  moreover have "shell_char CHR ''/''" by (simp add: shell_char_def)
  moreover have "list_all (list_all shell_char) [''shell'', ''am'', ''start'', ''-W'', ''-n'']" by code_simp
  ultimately have "list_all (list_all shell_char) [''shell'', ''am'', ''start'', ''-W'', ''-n'']"
    "list_all (\<lambda>ch. shell_char ch \<or> ch = CHR ''$'') (p @ ''/'' @ x)" by (auto simp: list_all_iff)
  then show ?thesis using assms(2) by (auto simp: StartActivityAction starts_activity_def list_all_iff simp del: set_append append.simps)
next
  case (KeyEventAction k)
  have "list_all (list_all shell_char) [''shell'', ''input'', ''keyevent'']" by code_simp
  then show ?thesis
    using assms show_int_shell [of k] by (auto simp: KeyEventAction validate_android_action_def guard_simps outside_def list_all_iff)
next
  case (TapAction x y)
  have "list_all (list_all shell_char) [''shell'', ''input'', ''tap'']" by code_simp
  then show ?thesis
    using assms show_int_shell [of x] show_int_shell [of y]
    by (auto simp: TapAction validate_android_action_def guard_simps outside_def list_all_iff)
next
  case (SwipeAction x1 y1 x2 y2 t)
  have "list_all (list_all shell_char) [''shell'', ''input'', ''swipe'']" by code_simp
  moreover have "0 \<le> x1" "0 \<le> y1" "0 \<le> x2" "0 \<le> y2" "0 \<le> t"
    using assms(1) by (simp_all add: SwipeAction validate_android_action_def guard_simps outside_def)
  ultimately show ?thesis
    using assms(2) show_int_shell [of x1] show_int_shell [of y1] show_int_shell [of x2] show_int_shell [of y2] show_int_shell [of t]
    by (auto simp: SwipeAction list_all_iff)
next
  case (WaitForPackageAction p t)
  have "list_all (list_all shell_char) [''shell'', ''dumpsys'', ''window'', ''windows'']" by code_simp
  then show ?thesis using assms(2) by (auto simp: WaitForPackageAction list_all_iff)
next
  case (WaitForActivityAction p x t)
  have "list_all (list_all shell_char) [''shell'', ''dumpsys'', ''activity'', ''activities'']" by code_simp
  then show ?thesis using assms(2) by (auto simp: WaitForActivityAction list_all_iff)
next
  case (WaitForUiTextAction v m t)
  have "list_all (list_all shell_char) [''shell'', ''uiautomator'', ''dump'', ''/sdcard/window.xml'']" by code_simp
  then show ?thesis using assms(2) by (auto simp: WaitForUiTextAction list_all_iff)
next
  case (CaptureUiHierarchyAction n)
  have "list_all (list_all shell_char) [''exec-out'', ''uiautomator'', ''dump'', ''/dev/tty'']" by code_simp
  then show ?thesis using assms(2) by (auto simp: CaptureUiHierarchyAction list_all_iff)
next
  case (CaptureScreenshotAction n)
  have "list_all (list_all shell_char) [''exec-out'', ''screencap'', ''-p'']" by code_simp
  then show ?thesis using assms(2) by (auto simp: CaptureScreenshotAction list_all_iff)
qed (use assms(2) in simp)

text \<open>A validated action other than a wait always has arguments for an absolute ADB path and a safe serial;
  they select that device, and the words after it are non-empty and consist of letters, digits and
  \<open>_ . / -\<close>, except that the component of a started activity may contain a dollar sign.\<close>

theorem adb_arguments_bounded:
  assumes "validate_android_action a = Inr b"
  shows "((\<exists>argv. compile_adb_action_argv adb serial a = Inr argv) \<longleftrightarrow>
      is_absolute adb \<and> CHR 0x00 \<notin> set adb \<and> is_safe_serial serial \<and> (\<forall>t. a \<noteq> WaitAction t))
    \<and> (\<forall>argv. compile_adb_action_argv adb serial a = Inr argv \<longrightarrow> (\<exists>ws. argv = [adb, ''-s'', serial] @ ws
      \<and> list_all (\<lambda>w. w \<noteq> [] \<and> list_all (\<lambda>ch. shell_char ch \<or> (ch = CHR ''$'' \<and> starts_activity a)) w) ws))"
proof (intro conjI allI impI)
  have "is_absolute adb \<Longrightarrow> adb \<noteq> []" by (auto simp: is_absolute_def starts_with_def)
  then show "(\<exists>argv. compile_adb_action_argv adb serial a = Inr argv) \<longleftrightarrow>
      is_absolute adb \<and> CHR 0x00 \<notin> set adb \<and> is_safe_serial serial \<and> (\<forall>t. a \<noteq> WaitAction t)"
    by (cases a) (auto simp: compile_adb_action_argv_def adb_error_def)
  show "\<exists>ws. argv = [adb, ''-s'', serial] @ ws
      \<and> list_all (\<lambda>w. w \<noteq> [] \<and> list_all (\<lambda>ch. shell_char ch \<or> (ch = CHR ''$'' \<and> starts_activity a)) w) ws"
    if "compile_adb_action_argv adb serial a = Inr argv" for argv
    using action_words_shell [OF assms] that by (auto simp: compile_adb_action_argv_def adb_error_def split: if_splits option.splits)
qed

text \<open>\<open>adb shell\<close> hands its words to the device's shell as one line, and an inner class has a dollar sign
  in its name.\<close>

definition inner_activity :: android_action where
  "inner_activity = StartActivityAction ''a.b'' ''.C$D''"

lemma inner_activity_valid: "validate_android_action inner_activity = Inr inner_activity"
proof -
  have "is_android_package ''a.b''" "is_android_activity ''.C$D''" by code_simp+
  then show ?thesis
    by (simp add: inner_activity_def validate_android_action_def guard_simps package_guards_def activity_guards_def length_outside_def)
qed

lemma dollar_reaches_shell:
  "validate_android_action inner_activity = Inr inner_activity
   \<and> compile_adb_action_argv ''/adb'' ''e1'' inner_activity
      = Inr [''/adb'', ''-s'', ''e1'', ''shell'', ''am'', ''start'', ''-W'', ''-n'', ''a.b/.C$D'']"
proof -
  have "is_safe_serial ''e1''" "is_absolute ''/adb''" by code_simp+
  then show ?thesis by (simp add: inner_activity_valid) (simp add: inner_activity_def compile_adb_action_argv_def)
qed

theorem adb_arguments_bounded_witness:
  "\<exists>argv ws. compile_adb_action_argv ''/adb'' ''e1'' inner_activity = Inr argv \<and> argv = [''/adb'', ''-s'', ''e1''] @ ws
     \<and> list_all (\<lambda>w. w \<noteq> [] \<and> list_all (\<lambda>ch. shell_char ch \<or> ch = CHR ''$'') w) ws"
proof -
  from dollar_reaches_shell obtain argv where "compile_adb_action_argv ''/adb'' ''e1'' inner_activity = Inr argv" by blast
  with adb_arguments_bounded [OF inner_activity_valid, of "''/adb''" "''e1''"] show ?thesis
    by (fastforce simp: list_all_iff)
qed

section \<open>The executable\<close>

text \<open>An attested executable is the regular, executable file that was opened without following links, its
  digest is that of everything read from it, and it did not change meanwhile.\<close>

lemma attested_file:
  assumes "attest_adb_binary f reported = Inr i"
  shows "af_open f = Opened \<and> af_nofollow f \<and> fs_regular (af_status f) \<and> executable (fs_mode (af_status f))
    \<and> same_file (af_status f) (af_after f) \<and> ai_version i = strip reported \<and> ai_version i \<noteq> []
    \<and> (\<exists>chunks. af_chunks f = Inr chunks \<and> ai_sha256 i = sha256 (concat chunks)) \<and> af_resolved f = Inr (ai_path i)"
  using assms
  by (cases "af_open f") (auto simp: attest_adb_binary_def Let_def adb_error_def rbind_Inr_iff guard_simps split: if_splits)

section \<open>The runner configuration\<close>

lemma plain_opt_int [simp]: "plain (opt_int i)"
  by (cases i) (simp_all add: opt_int_def)

lemma plain_android_action [simp]: "plain (android_action_json a)"
  by (cases a) simp_all

lemma plain_android_config: "plain (android_config_json c)"
  by (simp add: android_config_json_def android_config_payload_def android_contract_json_def device_json_def
      final_assertion_json_def list_all_iff)

text \<open>A configuration is built exactly for a valid contract and a run id of 1 to 256 characters; it carries
  that contract with the digests of the contract, of its action plan and of the configuration, and its
  input is canonical JSON: parsing and encoding it again gives the same text.\<close>

lemma android_config_iff:
  "build_android_runner_config run_id c = Inr cfg \<longleftrightarrow>
     validate_android_contract c = Inr c \<and> 1 \<le> length run_id \<and> length run_id \<le> 256
     \<and> cfg = \<lparr>acfg_run_id = run_id, acfg_contract = c, acfg_contract_digest = android_contract_digest c,
          acfg_action_plan_digest = android_action_plan_digest (ac_actions c),
          acfg_config_digest = canonical_digest (JObj (android_config_payload cfg))\<rparr>"
proof -
  have "validate_android_contract c = Inr d \<Longrightarrow> d = c" for d
    by (auto simp: validate_android_contract_def rbind_Inr_iff guard_simps)
  then have v: "(\<exists>d. validate_android_contract c = Inr d) \<longleftrightarrow> validate_android_contract c = Inr c" by blast
  have p: "android_config_payload (x\<lparr>acfg_config_digest := d\<rparr>) = android_config_payload x" for x d
    by (simp add: android_config_payload_def)
  show ?thesis
    by (cases cfg) (auto simp: build_android_runner_config_def Let_def validate_android_config_def rbind_Inr_iff guard_simps v
        android_contract_digest_def android_action_plan_digest_def length_outside_def android_config_payload_def Suc_le_eq
        not_less)
qed

lemma android_stdin_canonical:
  "loads (encode_android_runner_stdin c) = Some (canon (android_config_json c))"
  unfolding encode_android_runner_stdin_def by (rule loads_dumps [OF plain_android_config])

end
