(* ===== verification/AuditCore.thy ===== *)
theory AuditCore
  imports Provenance
begin

text \<open>
  \<open>audit/audit_core.py\<close>: the capability audit. It runs commands, records a check for each, accepts
  declarations for capabilities it cannot exercise, and finally gives every capability of the contract a
  status and the audit an overall one. The processes, the clock, the files the processes leave behind and
  the environment variables are the fields of \<open>audit_env\<close>, indexed by the number of checks made before.
  The contract is the repository's own JSON file; a capability is its definition with the fields the code
  reads.
\<close>

section \<open>The environment of a command\<close>

definition upper_char :: "char \<Rightarrow> string" where
  "upper_char c = (let n = (of_char c :: nat) in
     if n = 223 then ''SS'' else if (97 \<le> n \<and> n \<le> 122) \<or> (224 \<le> n \<and> n \<le> 254 \<and> n \<noteq> 247) then [char_of (n - 32)] else [c])"

definition upper :: "string \<Rightarrow> string" where
  "upper s = concat (map upper_char s)"

definition exact_secrets :: "string list" where
  "exact_secrets = [''GITHUB_TOKEN'', ''GH_TOKEN'', ''CLOUDFLARE_API_TOKEN'', ''CLOUDFLARE_ACCOUNT_ID'', ''OPENAI_API_KEY'',
     ''ANTHROPIC_API_KEY'', ''GEMINI_API_KEY'', ''GROQ_API_KEY'', ''AWS_ACCESS_KEY_ID'', ''AWS_SECRET_ACCESS_KEY'', ''AWS_SESSION_TOKEN'']"

definition secret_name :: "string \<Rightarrow> bool" where
  "secret_name k \<longleftrightarrow> k \<in> set exact_secrets \<or> ends_with (upper k) ''_API_KEY'' \<or> ends_with (upper k) ''_SECRET''
     \<or> ends_with (upper k) ''_PASSWORD'' \<or> (ends_with (upper k) ''_TOKEN'' \<and> k \<noteq> ''GITHUB_ACTIONS'')"

definition safe_env :: "string dict \<Rightarrow> string dict option \<Rightarrow> string dict" where
  "safe_env vars extra =
     (let kept = filter (\<lambda>(k, _). \<not> secret_name k) vars;
          set_default = (if ''PYTHONDONTWRITEBYTECODE'' \<in> set (dict_keys kept) then kept
            else dict_set ''PYTHONDONTWRITEBYTECODE'' ''1'' kept)
      in case extra of None \<Rightarrow> set_default | Some e \<Rightarrow> dict_update set_default e)"

section \<open>Checks\<close>

record audit_check =
  ck_id :: string
  ck_capability :: string
  ck_title :: string
  ck_status :: string
  ck_expectation :: string
  ck_command :: "string list"
  ck_exit :: "int option"
  ck_started :: string
  ck_finished :: string
  ck_duration :: rat
  ck_log :: string
  ck_evidence :: "string list"
  ck_runtime :: "json dict"
  ck_notes :: "string list"

text \<open>A process ended, timed out with what it had printed, or could not be run. What a process printed
  before its timeout is always bytes, whatever the \<open>text\<close> argument of \<open>subprocess.run\<close> says.\<close>

datatype process_outcome = Ended int string string | TimedOut bytes bytes | NotRun string

record capability =
  cb_id :: string
  cb_required :: bool
  cb_level :: string
  cb_notes :: "string list"
  cb_fields :: "json dict"

record audit_declaration =
  dl_status :: string
  dl_notes :: "string list"

record audit_env =
  ae_vars :: "string dict"
  ae_process :: "nat \<Rightarrow> string list \<Rightarrow> string dict \<Rightarrow> int \<Rightarrow> process_outcome"
  ae_now :: "nat \<Rightarrow> string"
  ae_duration :: "nat \<Rightarrow> rat"
  ae_listing :: "nat \<Rightarrow> string \<Rightarrow> string list res"

record audit_state =
  au_capabilities :: "capability list"
  au_contract_bytes :: bytes
  au_non_claims :: "string list"
  au_checks :: "audit_check list"
  au_declarations :: "audit_declaration dict"
  au_files :: "string dict"
  au_started :: string

definition audit_states :: "string list" where
  "audit_states = [''PASS'', ''FAIL'', ''ABSENT'', ''NOT_IMPLEMENTED'', ''NOT_EXERCISED'', ''BLOCKED_INFRASTRUCTURE'', ''SKIPPED_BY_POLICY'']"

text \<open>\<open>shlex.quote\<close> and \<open>shlex.join\<close>.\<close>

definition shlex_safe :: "char \<Rightarrow> bool" where
  "shlex_safe c \<longleftrightarrow> is_alnum_char c \<or> c \<in> set ''_@%+=:,./-''"

definition shlex_quote :: "string \<Rightarrow> string" where
  "shlex_quote s = (let q = CHR 0x27 in
     if s = [] then [q, q] else if list_all shlex_safe s then s
     else q # concat (map (\<lambda>c. if c = q then [q, CHR 0x22, q, CHR 0x22, q] else [c]) s) @ [q])"

definition exit_text :: "int option \<Rightarrow> string" where
  "exit_text c = (case c of None \<Rightarrow> ''None'' | Some n \<Rightarrow> show_int n)"

definition log_text_of :: "string list \<Rightarrow> string \<Rightarrow> int option \<Rightarrow> string \<Rightarrow> string \<Rightarrow> rat \<Rightarrow> string option \<Rightarrow> string \<Rightarrow> string \<Rightarrow> string" where
  "log_text_of argv expectation code t1 t2 duration failure out err =
     (let lines = [''$ '' @ join '' '' (map shlex_quote argv), ''expectation='' @ expectation, ''exit_code='' @ exit_text code,
            ''started_at='' @ t1, ''finished_at='' @ t2, ''duration_seconds='' @ float_repr duration]
          @ (case failure of None \<Rightarrow> [] | Some f \<Rightarrow> if f = [] then [] else [[], ''[execution_error]'', f])
          @ [[], ''[stdout]'', out, [], ''[stderr]'', err]
      in rev (dropWhile is_space (rev (join [CHR 0x0A] lines))) @ [CHR 0x0A])"

text \<open>The exit code, the output and the failure of an outcome. The lines of the log are joined with
  the output among them, which fails on bytes; only an empty output has been replaced by a string.\<close>

definition bytes_in_lines :: "nat \<Rightarrow> exn" where
  "bytes_in_lines i = TypeError (''sequence item '' @ show_nat i @ '': expected str instance, bytes found'')"

fun outcome_parts :: "int \<Rightarrow> process_outcome \<Rightarrow> (int option \<times> string \<times> string \<times> string option) res" where
  "outcome_parts timeout (Ended n out err) = Inr (Some n, out, err, None)"
| "outcome_parts timeout (TimedOut out err) = (if out \<noteq> [] then Inl (bytes_in_lines 11) else if err \<noteq> [] then Inl (bytes_in_lines 14)
     else Inr (Some 124, [], [], Some (''timeout after '' @ show_int timeout @ ''s'')))"
| "outcome_parts timeout (NotRun m) = Inr (None, [], [], Some m)"

definition expectation_met :: "string \<Rightarrow> int option \<Rightarrow> string option \<Rightarrow> bool" where
  "expectation_met expectation code failure \<longleftrightarrow> failure = None
     \<and> (case code of None \<Rightarrow> False | Some n \<Rightarrow> (expectation = ''zero'' \<and> n = 0) \<or> (expectation = ''nonzero'' \<and> n \<noteq> 0))"

record check_request =
  cq_id :: string
  cq_capability :: string
  cq_title :: string
  cq_command :: "string list"
  cq_expectation :: string
  cq_timeout :: int
  cq_stdout :: "string option"
  cq_evidence :: "string list"
  cq_env :: "string dict option"
  cq_runtime :: "json dict"
  cq_notes :: "string list"

definition audit_record :: "audit_env \<Rightarrow> check_request \<Rightarrow> int option \<Rightarrow> string \<Rightarrow> string \<Rightarrow> string option \<Rightarrow> audit_state \<Rightarrow> audit_check res \<times> audit_state" where
  "audit_record env q code out err failure st =
     (let n = length (au_checks st); t1 = ae_now env (2 * n); t2 = ae_now env (2 * n + 1); log = ''logs/'' @ cq_id q @ ''.log'';
          fs1 = dict_set log (log_text_of (cq_command q) (cq_expectation q) code t1 t2 (ae_duration env n) failure out err) (au_files st);
          saved = (case cq_stdout q of None \<Rightarrow> [] | Some p \<Rightarrow> if p = [] \<or> out = [] then [] else [p]);
          fs2 = fold (\<lambda>p. dict_set p out) saved fs1;
          st2 = st\<lparr>au_files := fs2\<rparr>
      in case traverse (ae_listing env n) (cq_evidence q) of
           Inl e \<Rightarrow> (Inl e, st2)
         | Inr found \<Rightarrow>
             (let item = \<lparr>ck_id = cq_id q, ck_capability = cq_capability q, ck_title = cq_title q,
                    ck_status = (if expectation_met (cq_expectation q) code failure then ''PASS'' else ''FAIL''),
                    ck_expectation = cq_expectation q, ck_command = cq_command q, ck_exit = code, ck_started = t1, ck_finished = t2,
                    ck_duration = ae_duration env n, ck_log = log, ck_evidence = sorted_set ([log] @ saved @ concat found),
                    ck_runtime = cq_runtime q, ck_notes = cq_notes q @ (case failure of None \<Rightarrow> [] | Some f \<Rightarrow> if f = [] then [] else [f])\<rparr>
              in (Inr item, st2\<lparr>au_checks := au_checks st2 @ [item]\<rparr>)))"

definition audit_process :: "audit_env \<Rightarrow> check_request \<Rightarrow> audit_state \<Rightarrow> process_outcome" where
  "audit_process env q st = ae_process env (length (au_checks st)) (cq_command q) (safe_env (ae_vars env) (cq_env q)) (cq_timeout q)"

definition audit_run :: "audit_env \<Rightarrow> check_request \<Rightarrow> audit_state \<Rightarrow> audit_check res \<times> audit_state" where
  "audit_run env q st = (case outcome_parts (cq_timeout q) (audit_process env q st) of
       Inl e \<Rightarrow> (Inl e, st)
     | Inr (code, out, err, failure) \<Rightarrow> audit_record env q code out err failure st)"

definition audit_declare :: "string \<Rightarrow> string \<Rightarrow> string list \<Rightarrow> audit_state \<Rightarrow> unit res \<times> audit_state" where
  "audit_declare cap status notes st =
     (if status \<notin> set audit_states then (Inl (ValueError status), st)
      else (Inr (), st\<lparr>au_declarations := dict_set cap \<lparr>dl_status = status, dl_notes = notes\<rparr> (au_declarations st)\<rparr>))"

section \<open>The end of an audit\<close>

record audit_row =
  aw_capability :: capability
  aw_status :: string
  aw_checks :: "string list"
  aw_evidence :: "string list"
  aw_notes :: "string list"

definition related_checks :: "audit_state \<Rightarrow> capability \<Rightarrow> audit_check list" where
  "related_checks st c = filter (\<lambda>k. ck_capability k = cb_id c) (au_checks st)"

definition audit_row_of :: "audit_state \<Rightarrow> capability \<Rightarrow> audit_row" where
  "audit_row_of st c = (let related = related_checks st c in
     if related \<noteq> [] then \<lparr>aw_capability = c, aw_status = (if list_all (\<lambda>k. ck_status k = ''PASS'') related then ''PASS'' else ''FAIL''),
       aw_checks = map ck_id related, aw_evidence = sorted_set (concat (map ck_evidence related)), aw_notes = cb_notes c\<rparr>
     else (case map_of (au_declarations st) (cb_id c) of
         Some d \<Rightarrow> \<lparr>aw_capability = c, aw_status = dl_status d, aw_checks = [], aw_evidence = [], aw_notes = dl_notes d\<rparr>
       | None \<Rightarrow> \<lparr>aw_capability = c, aw_status = ''ABSENT'', aw_checks = [], aw_evidence = [],
           aw_notes = [''No check or declaration produced.'']\<rparr>))"

definition audit_rows :: "audit_state \<Rightarrow> audit_row list" where
  "audit_rows st = map (audit_row_of st) (au_capabilities st)"

definition unknown_ids :: "audit_state \<Rightarrow> string list" where
  "unknown_ids st = sorted_set (filter (\<lambda>i. i \<notin> cb_id ` set (au_capabilities st))
     (map ck_capability (au_checks st) @ dict_keys (au_declarations st)))"

definition failed_rows :: "bool \<Rightarrow> audit_state \<Rightarrow> audit_row list" where
  "failed_rows needed st = filter (\<lambda>r. cb_required (aw_capability r) = needed \<and> aw_status r \<noteq> ''PASS'') (audit_rows st)"

definition overall_status :: "audit_state \<Rightarrow> string" where
  "overall_status st = (if failed_rows True st \<noteq> [] then ''FAIL''
     else if failed_rows False st \<noteq> [] then ''PASS_WITH_DECLARED_GAPS'' else ''PASS'')"

definition row_json :: "audit_row \<Rightarrow> json" where
  "row_json r = JObj (dict_update (cb_fields (aw_capability r)) [(''status'', JStr (aw_status r)), (''check_ids'', strs (aw_checks r)),
     (''evidence_paths'', strs (aw_evidence r)), (''observed_notes'', strs (aw_notes r))])"

definition check_json :: "audit_check \<Rightarrow> json" where
  "check_json k = JObj [(''check_id'', JStr (ck_id k)), (''capability_id'', JStr (ck_capability k)), (''title'', JStr (ck_title k)),
     (''status'', JStr (ck_status k)), (''expectation'', JStr (ck_expectation k)), (''command'', strs (ck_command k)),
     (''exit_code'', (case ck_exit k of None \<Rightarrow> JNull | Some n \<Rightarrow> JInt n)), (''started_at'', JStr (ck_started k)),
     (''finished_at'', JStr (ck_finished k)), (''duration_seconds'', JFloat (ck_duration k)), (''log_path'', JStr (ck_log k)),
     (''evidence_paths'', strs (ck_evidence k)), (''runtime'', JObj (ck_runtime k)), (''notes'', strs (ck_notes k))]"

definition audit_result :: "json dict \<Rightarrow> json dict \<Rightarrow> string \<Rightarrow> audit_state \<Rightarrow> json" where
  "audit_result subj environment finished st = JObj
     [(''schema_version'', JStr ''skill-native-capability-audit/v1''), (''contract_digest'', JStr (sha256 (au_contract_bytes st))),
      (''subject'', JObj subj), (''environment'', JObj environment), (''started_at'', JStr (au_started st)),
      (''finished_at'', JStr finished), (''overall_status'', JStr (overall_status st)),
      (''capabilities'', JArr (map row_json (audit_rows st))), (''checks'', JArr (map check_json (au_checks st))),
      (''required_failures'', strs (map (cb_id \<circ> aw_capability) (failed_rows True st))),
      (''declared_gaps'', strs (map (cb_id \<circ> aw_capability) (failed_rows False st))),
      (''evidence_law'', JStr ''Absence, configuration, skipped execution, and prose are never PASS.'')]"

definition code_span :: "string \<Rightarrow> string" where
  "code_span s = ''`'' @ s @ ''`''"

definition summary_lines :: "json dict \<Rightarrow> audit_state \<Rightarrow> string list" where
  "summary_lines subj st =
     [''# Skill.md-native capability audit'', [], ''- Overall: **'' @ overall_status st @ ''**'',
      ''- Subject commit: '' @ code_span (py_str (jget_null subj ''commit_sha'')),
      ''- Subject tree: '' @ code_span (py_str (jget_null subj ''tree_sha'')),
      ''- Required failures: '' @ show_nat (length (failed_rows True st)),
      ''- Declared external gaps: '' @ show_nat (length (failed_rows False st)), [],
      ''| Capability | Required | Evidence level | State |'', ''|---|---:|---|---|'']
     @ map (\<lambda>r. ''| '' @ code_span (cb_id (aw_capability r)) @ '' | '' @ (if cb_required (aw_capability r) then ''yes'' else ''no'')
         @ '' | '' @ cb_level (aw_capability r) @ '' | **'' @ aw_status r @ ''** |'') (audit_rows st)
     @ [[], ''## Non-claims'', []] @ map (\<lambda>x. ''- '' @ x) (au_non_claims st)
     @ [[], ''The JSON result and raw logs are authoritative.'']"

text \<open>The manifest of all files of the output: those the audit wrote and those its processes left.\<close>

definition sums_lines :: "tree \<Rightarrow> string list" where
  "sums_lines t = map (\<lambda>(p, d). sha256 d @ ''  '' @ p) (tree_order (filter (\<lambda>(p, _). p \<noteq> ''SHA256SUMS'') t))"

definition audit_finish :: "audit_env \<Rightarrow> json dict \<Rightarrow> json dict \<Rightarrow> tree \<Rightarrow> audit_state \<Rightarrow> int res \<times> audit_state" where
  "audit_finish env subj environment produced st =
     (if unknown_ids st \<noteq> [] then (Inl (ValueError (''unknown capability ids: '' @ py_repr (strs (unknown_ids st)))), st)
      else (let finished = ae_now env (2 * length (au_checks st));
                fs1 = dict_set ''capability-audit-result.json'' (dumps_indent 0 (audit_result subj environment finished st) @ [CHR 0x0A]) (au_files st);
                fs2 = dict_set ''summary.md'' (join [CHR 0x0A] (summary_lines subj st) @ [CHR 0x0A]) fs1;
                all = filter (\<lambda>(p, _). p \<notin> set (dict_keys fs2)) produced @ map (\<lambda>(p, t). (p, utf8 t)) fs2;
                fs3 = dict_set ''SHA256SUMS'' (join [CHR 0x0A] (sums_lines all) @ [CHR 0x0A]) fs2
            in (Inr (if failed_rows True st \<noteq> [] then 1 else 0), st\<lparr>au_files := fs3\<rparr>)))"

section \<open>The start of an audit\<close>

definition audit_start :: "string \<Rightarrow> string list \<Rightarrow> bool \<Rightarrow> bool \<Rightarrow> bool \<Rightarrow> bytes \<Rightarrow> capability list \<Rightarrow> string list \<Rightarrow> string \<Rightarrow> audit_state res" where
  "audit_start output forbidden has_git present clean contract caps non_claims now =
     (if output \<in> set forbidden \<or> has_git then Inl (OtherError ''SystemExit'' (''unsafe output path: '' @ output))
      else if present \<and> \<not> clean then Inl (OtherError ''SystemExit'' (''output exists; pass --clean: '' @ output))
      else Inr \<lparr>au_capabilities = caps, au_contract_bytes = contract, au_non_claims = non_claims, au_checks = [],
        au_declarations = [], au_files = [], au_started = now\<rparr>)"

section \<open>What the audit is about\<close>

record host_facts =
  hf_python :: string
  hf_platform :: string
  hf_machine :: string
  hf_which :: "string \<Rightarrow> string option"
  hf_capture :: "string list \<Rightarrow> string option"

definition var_json :: "string dict \<Rightarrow> string \<Rightarrow> json" where
  "var_json vars k = opt_str (map_of vars k)"

definition audit_subject :: "host_facts \<Rightarrow> string dict \<Rightarrow> json dict" where
  "audit_subject h vars =
     [(''repository'', JStr (case map_of vars ''GITHUB_REPOSITORY'' of None \<Rightarrow> ''local/unknown'' | Some r \<Rightarrow> r)),
      (''commit_sha'', opt_str (hf_capture h [''git'', ''rev-parse'', ''HEAD''])),
      (''tree_sha'', opt_str (hf_capture h [''git'', ''rev-parse'', ''HEAD^{tree}''])),
      (''dirty'', JBool (case hf_capture h [''git'', ''status'', ''--porcelain=v1''] of None \<Rightarrow> False | Some t \<Rightarrow> t \<noteq> [])),
      (''github_ref'', var_json vars ''GITHUB_REF''), (''github_head_ref'', var_json vars ''GITHUB_HEAD_REF'')]"

definition audit_environment :: "host_facts \<Rightarrow> string dict \<Rightarrow> json dict" where
  "audit_environment h vars =
     [(''python'', JStr (hf_python h)), (''platform'', JStr (hf_platform h)), (''machine'', JStr (hf_machine h)),
      (''github_actions'', JBool (map_of vars ''GITHUB_ACTIONS'' = Some ''true'')),
      (''github_run_id'', var_json vars ''GITHUB_RUN_ID''), (''github_run_attempt'', var_json vars ''GITHUB_RUN_ATTEMPT''),
      (''github_workflow'', var_json vars ''GITHUB_WORKFLOW''), (''runner_os'', var_json vars ''RUNNER_OS''),
      (''runner_arch'', var_json vars ''RUNNER_ARCH''), (''docker_available'', JBool (hf_which h ''docker'' \<noteq> None)),
      (''docker_version'', opt_str (hf_capture h [''docker'', ''--version''])), (''node_available'', JBool (hf_which h ''node'' \<noteq> None)),
      (''node_version'', opt_str (hf_capture h [''node'', ''--version''])), (''npm_version'', opt_str (hf_capture h [''npm'', ''--version'']))]"

end
