(* ===== verification/AuditScript.thy ===== *)
theory AuditScript
  imports AuditCore Kernel
begin

text \<open>
  \<open>audit/run.py\<close>: the audit of this repository, after \<open>argparse\<close>, as steps on the state of \<open>AuditCore\<close>: which
  commands are run for which capability, in which order, what follows from their outcome, and what is
  declared instead. The record \<open>script_env\<close> holds the paths, the interpreter and the facts about the host.
\<close>

section \<open>Requests\<close>

record script_env =
  sc_audit :: audit_env
  sc_host :: host_facts
  sc_python :: string
  sc_root :: string
  sc_output :: string
  sc_tempdir :: string
  sc_produced :: tree

record script_flags =
  sf_browser :: bool
  sf_docker :: bool
  sf_github :: bool

text \<open>\<open>--full\<close> sets all of them.\<close>

definition full_flags :: "bool \<Rightarrow> script_flags \<Rightarrow> script_flags" where
  "full_flags full f = (if full then \<lparr>sf_browser = True, sf_docker = True, sf_github = True\<rparr> else f)"

definition artifact_path :: "script_env \<Rightarrow> string \<Rightarrow> string" where
  "artifact_path env name = sc_output env @ ''/artifacts/'' @ name"

definition request :: "string \<Rightarrow> string \<Rightarrow> string \<Rightarrow> string list \<Rightarrow> check_request" where
  "request i cap t cmd = \<lparr>cq_id = i, cq_capability = cap, cq_title = t, cq_command = cmd, cq_expectation = ''zero'', cq_timeout = 900,
     cq_stdout = None, cq_evidence = [], cq_env = None, cq_runtime = [], cq_notes = []\<rparr>"

definition text_runtime :: "(string \<times> string) list \<Rightarrow> json dict" where
  "text_runtime kvs = map (\<lambda>(k, v). (k, JStr v)) kvs"

type_synonym 'a audit_action = "(audit_state, 'a) step"

definition check :: "script_env \<Rightarrow> check_request \<Rightarrow> audit_check audit_action" where
  "check env q = audit_run (sc_audit env) q"

definition seq :: "'a audit_action \<Rightarrow> 'b audit_action \<Rightarrow> 'b audit_action" where
  "seq p q = sbind p (\<lambda>_. q)"

fun in_order :: "unit audit_action list \<Rightarrow> unit audit_action" where
  "in_order [] = sreturn (Inr ())"
| "in_order (p # ps) = seq p (in_order ps)"

definition checked :: "script_env \<Rightarrow> check_request \<Rightarrow> unit audit_action" where
  "checked env q = seq (check env q) (sreturn (Inr ()))"

definition keep_text :: "string \<Rightarrow> string \<Rightarrow> unit audit_action" where
  "keep_text name t st = (Inr (), st\<lparr>au_files := dict_set name t (au_files st)\<rparr>)"

text \<open>A file of the output that a check has kept, as JSON.\<close>

definition kept_json :: "string \<Rightarrow> json audit_action" where
  "kept_json name st = (case map_of (au_files st) name of
     None \<Rightarrow> Inl (OSError name)
   | Some t \<Rightarrow> (case loads t of None \<Rightarrow> Inl (OtherError ''JSONDecodeError'' name) | Some v \<Rightarrow> Inr v), st)"

definition passed :: "audit_check \<Rightarrow> bool" where
  "passed k \<longleftrightarrow> ck_status k = ''PASS''"

section \<open>The checks of every audit\<close>

definition skill_native :: "string list \<Rightarrow> string list" where
  "skill_native args = ''skill-native'' # args"

definition harness_file :: string where
  "harness_file = ''examples/harnesses/coding/harness.yaml''"

definition harness_spec :: string where
  "harness_spec = ''examples/harnesses/coding/run.fake.yaml''"

definition base_requests :: "script_env \<Rightarrow> json dict \<Rightarrow> check_request list" where
  "base_requests env facts = (let py = sc_python env; a = artifact_path env in
    [request ''package-cli-help'' ''package.cli.installable'' ''Installed CLI responds'' (skill_native [''--help'']),
     (request ''dependency-snapshot'' ''environment.dependency.snapshot'' ''Dependencies captured'' [py, ''-m'', ''pip'', ''freeze''])
       \<lparr>cq_stdout := Some ''artifacts/pip-freeze.txt''\<rparr>,
     (request ''full-python-suite'' ''tests.full_suite'' ''Full Python suite''
         [py, ''-m'', ''unittest'', ''discover'', ''-s'', ''tests'', ''-v''])
       \<lparr>cq_timeout := 1200,
        cq_runtime := text_runtime [(''kind'', if jget_null facts ''github_actions'' = JBool True then ''github-hosted-runner'' else ''local-host'')],
        cq_notes := [''Playwright must be installed so Browser integration tests do not skip.'']\<rparr>,
     request ''android-compile-tests'' ''android.compile.contract'' ''Android compile boundary''
       [py, ''-m'', ''unittest'', ''tests.test_android_compile'', ''-v''],
     (request ''cloudflare-worker-typecheck'' ''cloudflare.contracts.typecheck'' ''Cloudflare Sandbox Worker contracts''
         [''/bin/bash'', ''-lc'', ''cd cloudflare/worker && npm install --ignore-scripts && npm run typecheck''])\<lparr>cq_timeout := 600\<rparr>,
     (request ''cloudflare-dynamic-worker-typecheck'' ''cloudflare.contracts.typecheck'' ''Cloudflare Dynamic Worker contracts''
         [''/bin/bash'', ''-lc'', ''cd cloudflare/dynamic-worker && npm install --ignore-scripts && npm run typecheck''])\<lparr>cq_timeout := 600\<rparr>,
     (request ''schema-sync'' ''schemas.deterministic.sync'' ''Generated schemas match''
         [''/bin/bash'', ''-lc'', ''rm -rf \"$1\"; skill-native export-harness-schemas \"$1\"; skill-native-run-artifacts export-schemas \"$1\"; skill-native-attest export-schemas \"$1\"; diff -ru schemas \"$1\"'',
          ''schema'', a ''generated-schemas''])\<lparr>cq_evidence := [a ''generated-schemas'']\<rparr>,
     (request ''materialize-fixtures'' ''security.fixtures.materialized'' ''Adversarial fixtures materialize''
         (skill_native [''materialize-fixtures'', a ''adversarial-fixtures'']))
       \<lparr>cq_stdout := Some ''artifacts/adversarial-fixtures.json'', cq_evidence := [a ''adversarial-fixtures'']\<rparr>,
     (request ''validate-coding-harness'' ''harness.coding.fake'' ''Coding manifest validates'' (skill_native [''validate-harness'', harness_file]))
       \<lparr>cq_stdout := Some ''artifacts/coding-harness-manifest.json''\<rparr>,
     (request ''plan-coding-harness'' ''harness.coding.fake'' ''Coding plan compiles'' (skill_native [''plan-harness'', harness_file, harness_spec]))
       \<lparr>cq_stdout := Some ''artifacts/coding-harness-plan.json''\<rparr>,
     (request ''run-coding-fake'' ''harness.coding.fake'' ''FakeRuntime evidence/verdict''
         (skill_native [''run-harness-fake'', harness_file, harness_spec, ''--evidence-dir'', a ''coding-evidence'', ''--verdict-dir'', a ''coding-verdicts'']))
       \<lparr>cq_stdout := Some ''artifacts/coding-harness-result.json'', cq_evidence := [a ''coding-evidence'', a ''coding-verdicts''],
        cq_runtime := text_runtime [(''kind'', ''deterministic-fixture''), (''backend'', ''fake''), (''isolation'', ''none'')]\<rparr>])"

definition bundle_request :: "script_env \<Rightarrow> check_request" where
  "bundle_request env = (let a = artifact_path env in
     (request ''build-run-artifacts'' ''run_artifact.bundle'' ''Run Artifact Bundle''
       [''skill-native-run-artifacts'', ''build'', ''--authority'', ''examples/run-artifacts/authority.json'', ''--plan'', ''examples/run-artifacts/plan.json'',
        ''--evidence'', ''examples/run-artifacts/evidence.json'', ''--verdict'', ''examples/run-artifacts/verdict.json'', ''--output'', a ''run-artifacts''])
     \<lparr>cq_stdout := Some ''artifacts/run-artifacts-build.json'', cq_evidence := [a ''run-artifacts'']\<rparr>)"

section \<open>The attestation of the bundle\<close>

text \<open>\<open>s[:n]\<close> and \<open>x or y\<close> on the facts about the subject.\<close>

definition text_or :: "json \<Rightarrow> string \<Rightarrow> string" where
  "text_or v d = (case v of JStr s \<Rightarrow> if s = [] then d else s | _ \<Rightarrow> d)"

definition subject_commit :: "json dict \<Rightarrow> string" where
  "subject_commit subj = (case jget_null subj ''commit_sha'' of
     JStr s \<Rightarrow> if length s = 40 then s else replicate 40 (CHR ''0'') | _ \<Rightarrow> replicate 40 (CHR ''0''))"

definition workflow_reference :: "json dict \<Rightarrow> string" where
  "workflow_reference subj = text_or (jget_null subj ''repository'') [] @ ''/.github/workflows/capability-audit.yml@'' @ subject_commit subj"

definition audit_identity :: "json dict \<Rightarrow> json dict \<Rightarrow> string dict" where
  "audit_identity subj facts = (let hosted = (jget_null facts ''github_actions'' = JBool True) in
     [(''issuer'', ''skill-native.local-ephemeral-key''),
      (''subject'', ''audit-run:'' @ text_or (jget_null facts ''github_run_id'') ''local'' @ '':attempt:''
         @ text_or (jget_null facts ''github_run_attempt'') ''local''),
      (''repository'', text_or (jget_null subj ''repository'') []), (''workflow_ref'', workflow_reference subj),
      (''commit_sha'', subject_commit subj),
      (''environment'', if hosted then ''github-hosted-audit-local-key'' else ''local-audit-local-key'')])"

definition key_request :: "script_env \<Rightarrow> check_request" where
  "key_request env = (request ''attest-key'' ''attestation.ephemeral_local_key'' ''Ephemeral Ed25519 key''
     [''skill-native-attest'', ''generate-key'', ''--private-key'', sc_tempdir env @ ''/private.pem'', ''--public-key'',
      artifact_path env ''ephemeral-public-key.pem''])
   \<lparr>cq_stdout := Some ''artifacts/key-generation.json'', cq_notes := [''Private key is deleted before publication.'']\<rparr>"

definition attest_request :: "string \<Rightarrow> string \<Rightarrow> string list \<Rightarrow> check_request" where
  "attest_request i t args = request i ''attestation.ephemeral_local_key'' t (''skill-native-attest'' # args)"

definition attestation_requests :: "script_env \<Rightarrow> json dict \<Rightarrow> json dict \<Rightarrow> string \<Rightarrow> check_request list" where
  "attestation_requests env subj facts bundle =
     (let a = artifact_path env; ident = (\<lambda>k. the (map_of (audit_identity subj facts) k));
          key = sc_tempdir env @ ''/private.pem''; pub = a ''ephemeral-public-key.pem''; rules = a ''attestation-policy.json'';
          dsse = a ''run-artifact.dsse.json''; verified = a ''attestation-verification.json''; lg = a ''transparency-log.jsonl'';
          incl = a ''inclusion-receipt.json''; idf = a ''attestation-identity.json'' in
     [attest_request ''attest-policy'' ''Exact-commit trust policy''
        [''create-policy'', ''--policy-id'', ''skill-native.capability-audit'', ''--public-key'', pub, ''--expected-issuer'', ident ''issuer'',
         ''--expected-subject'', ident ''subject'', ''--expected-repository'', ident ''repository'', ''--expected-workflow-ref'', ident ''workflow_ref'',
         ''--expected-commit-sha'', ident ''commit_sha'', ''--require-rank-eligible'', ''--output'', rules],
      (attest_request ''attest-sign'' ''DSSE sign exact bundle''
        [''sign'', ''--bundle'', bundle, ''--identity'', idf, ''--private-key'', key, ''--output'', dsse])
        \<lparr>cq_notes := [''Local key, not GitHub OIDC/keyless identity.'']\<rparr>,
      attest_request ''attest-verify'' ''Verify DSSE and policy''
        [''verify'', ''--bundle'', bundle, ''--envelope'', dsse, ''--public-key'', pub, ''--policy'', rules, ''--output'', verified],
      (attest_request ''transparency-append'' ''Append local transparency log''
        [''log-append'', ''--bundle'', bundle, ''--envelope'', dsse, ''--public-key'', pub, ''--policy'', rules, ''--log'', lg,
         ''--log-id'', ''skill-native.capability-audit'', ''--receipt-output'', incl])
        \<lparr>cq_notes := [''Local log is not independently witnessed.'']\<rparr>,
      (attest_request ''transparency-receipt'' ''Verify inclusion receipt''
        [''receipt-verify'', ''--log'', lg, ''--log-id'', ''skill-native.capability-audit'', ''--receipt'', incl])
        \<lparr>cq_stdout := Some ''artifacts/transparency-receipt-verification.json'', cq_evidence := [idf, pub, rules, dsse, verified, lg, incl]\<rparr>])"

text \<open>\<open>Path(...)["bundle_path"]\<close>, relative to the repository.\<close>

definition bundle_path_of :: "script_env \<Rightarrow> json \<Rightarrow> string res" where
  "bundle_path_of env v = (case v of
     JObj d \<Rightarrow> (case map_of d ''bundle_path'' of
         Some (JStr p) \<Rightarrow> Inr (join_path (sc_root env) p)
       | Some _ \<Rightarrow> Inl (TypeError ''bundle_path'')
       | None \<Rightarrow> Inl (KeyError ''bundle_path''))
   | _ \<Rightarrow> Inl (TypeError ''value is not a mapping''))"

definition attest_bundle :: "script_env \<Rightarrow> json dict \<Rightarrow> json dict \<Rightarrow> audit_check \<Rightarrow> unit audit_action" where
  "attest_bundle env subj facts built = (if passed built
     then sbind (kept_json ''artifacts/run-artifacts-build.json'') (\<lambda>v. sbind (sreturn (bundle_path_of env v)) (\<lambda>bundle.
       seq (keep_text ''artifacts/attestation-identity.json''
           (dumps_indent 0 (JObj (text_runtime (audit_identity subj facts))) @ [CHR 0x0A]))
         (sbind (check env (key_request env)) (\<lambda>k. if passed k
            then in_order (map (checked env) (attestation_requests env subj facts bundle)) else sreturn (Inr ())))))
     else audit_declare ''attestation.ephemeral_local_key'' ''NOT_EXERCISED'' [''Run Artifact build failed.''])"

section \<open>The optional parts\<close>

definition browser_part :: "script_env \<Rightarrow> bool \<Rightarrow> unit audit_action" where
  "browser_part env on = (if on then checked env ((request ''browser-runtime'' ''browser.chromium.loopback'' ''Real Chromium loopback''
       [sc_python env, ''examples/harnesses/browser/run_fixture.py'', ''--output-dir'', artifact_path env ''browser-runtime''])
     \<lparr>cq_timeout := 600, cq_stdout := Some ''artifacts/browser-runtime-result.json'', cq_evidence := [artifact_path env ''browser-runtime''],
      cq_runtime := text_runtime [(''kind'', ''real-browser-process''), (''browser'', ''chromium''), (''isolation'', ''none'')],
      cq_notes := [''Real Chromium, deterministic local loopback, no hostile-code isolation.'']\<rparr>)
   else audit_declare ''browser.chromium.loopback'' ''NOT_EXERCISED'' [''Run --with-browser or --full.''])"

definition github_part :: "script_env \<Rightarrow> bool \<Rightarrow> unit audit_action" where
  "github_part env on = (if on then checked env ((request ''github-ingestion'' ''integration.github.ingestion'' ''Public GitHub immutable ingestion''
       (skill_native [''ingest-github'', ''https://github.com/vercel-labs/agent-skills'', ''--ref'', ''main'', ''--skill-path'', ''skills/react-best-practices'',
        ''--output'', artifact_path env ''ingested-skill'', ''--provenance-dir'', artifact_path env ''provenance'']))
     \<lparr>cq_timeout := 300, cq_stdout := Some ''artifacts/github-ingestion-result.json'',
      cq_evidence := [artifact_path env ''ingested-skill'', artifact_path env ''provenance''],
      cq_env := (case map_of (ae_vars (sc_audit env)) ''GITHUB_TOKEN'' of
         None \<Rightarrow> None | Some t \<Rightarrow> if t = [] then None else Some [(''GITHUB_TOKEN'', t)]),
      cq_runtime := text_runtime [(''kind'', ''external-public-integration''), (''service'', ''github.com'')]\<rparr>)
   else audit_declare ''integration.github.ingestion'' ''NOT_EXERCISED'' [''Run --with-github-ingestion or --full.''])"

section \<open>The container\<close>

definition container :: "string \<Rightarrow> string \<Rightarrow> string \<Rightarrow> string list \<Rightarrow> string list" where
  "container user entry img args =
     [''docker'', ''run'', ''--rm'', ''--network'', ''none'', ''--read-only'', ''--cap-drop'', ''ALL'', ''--security-opt'', ''no-new-privileges'',
      ''--pids-limit'', ''128'', ''--memory'', ''512m'', ''--cpus'', ''1'', ''--tmpfs'', ''/tmp:rw,nosuid,nodev,size=64m'', ''--user'', user,
      ''--env'', ''PYTHONDONTWRITEBYTECODE=1''] @ [''--entrypoint'', entry, img] @ args"

definition unlines :: "string list \<Rightarrow> string" where
  "unlines ls = concat (map (\<lambda>l. l @ [CHR 0x0A]) ls)"

definition egress_probe :: string where
  "egress_probe = unlines
    [''import errno, json, socket'',
     ''try:'',
     ''    socket.create_connection(('1.1.1.1', 53), 2)'',
     ''except OSError as exc:'',
     ''    print(json.dumps({'errno': exc.errno, 'error': str(exc)}, sort_keys=True))'',
     ''    allowed = {errno.ENETUNREACH, errno.EHOSTUNREACH, errno.EACCES, errno.EPERM}'',
     ''    raise SystemExit(0 if exc.errno in allowed else 3)'',
     ''raise SystemExit(2)'']"

definition rootfs_probe :: string where
  "rootfs_probe = unlines
    [''import errno, json'',
     ''from pathlib import Path'',
     ''try:'',
     ''    Path('/app/forbidden').write_text('x')'',
     ''except OSError as exc:'',
     ''    print(json.dumps({'errno': exc.errno, 'error': str(exc)}, sort_keys=True))'',
     ''    raise SystemExit(0 if exc.errno == errno.EROFS else 3)'',
     ''raise SystemExit(2)'']"

definition container_requests :: "string \<Rightarrow> check_request list" where
  "container_requests img = (let real = [(''kind'', ''real-linux-container''), (''image_id'', img)] in
    [(request ''docker-harness'' ''sandbox.container.execution'' ''Harness in hardened container''
        (container ''65534:65534'' ''/bin/sh'' img [''-lc'',
          ''skill-native run-harness-fake examples/harnesses/coding/harness.yaml examples/harnesses/coding/run.fake.yaml --evidence-dir /tmp/evidence --verdict-dir /tmp/verdicts >/tmp/result.json && test \"$(find /tmp/evidence -type f | wc -l)\" -eq 1 && test \"$(find /tmp/verdicts -type f | wc -l)\" -eq 1 && cat /tmp/result.json'']))
       \<lparr>cq_stdout := Some ''artifacts/docker-hardened-harness-result.json'',
        cq_runtime := text_runtime (real @ [(''network'', ''none''), (''rootfs'', ''read-only''), (''capabilities'', ''all-dropped'')]),
        cq_notes := [''Generic Docker boundary, not OpenShell.'']\<rparr>,
     (request ''docker-tmpfs'' ''sandbox.container.tmpfs_write'' ''Writable declared tmpfs''
        (container ''65534:65534'' ''python'' img [''-c'',
          ''from pathlib import Path; p=Path('/tmp/allowed'); p.write_text('ok'); assert p.read_text()=='ok'' @ [CHR 0x27]]))
       \<lparr>cq_runtime := text_runtime real\<rparr>,
     (request ''docker-egress'' ''sandbox.container.egress_denied'' ''Denied outbound socket''
        (container ''65534:65534'' ''python'' img [''-c'', egress_probe]))
       \<lparr>cq_stdout := Some ''artifacts/docker-egress-denial.json'', cq_runtime := text_runtime (real @ [(''network'', ''none'')]),
        cq_notes := [''PASS requires an expected network-policy errno; arbitrary non-zero exits fail.'']\<rparr>,
     (request ''docker-rootfs'' ''sandbox.container.rootfs_write_denied'' ''Read-only rootfs denial''
        (container ''0:0'' ''python'' img [''-c'', rootfs_probe]))
       \<lparr>cq_stdout := Some ''artifacts/docker-rootfs-denial.json'',
        cq_runtime := text_runtime (real @ [(''rootfs'', ''read-only''), (''user'', ''root-with-caps-dropped'')]),
        cq_notes := [''PASS requires EROFS; arbitrary non-zero exits fail. Root isolates filesystem enforcement from ordinary permissions.'']\<rparr>])"

definition image_tag :: "json dict \<Rightarrow> string" where
  "image_tag subj = ''skill-native-capability-audit:'' @ take 12 (text_or (jget_null subj ''commit_sha'') ''unknown'')"

text \<open>\<open>json.loads(...)[0]["Id"]\<close>, a string.\<close>

definition image_id_of :: "json \<Rightarrow> string res" where
  "image_id_of v = (case v of
     JArr [] \<Rightarrow> Inl (OtherError ''IndexError'' ''list index out of range'')
   | JArr (JObj d # _) \<Rightarrow> (case map_of d ''Id'' of Some (JStr i) \<Rightarrow> Inr i | Some _ \<Rightarrow> Inl (TypeError ''Id'') | None \<Rightarrow> Inl (KeyError ''Id''))
   | _ \<Rightarrow> Inl (TypeError ''image inspection''))"

definition container_capabilities :: "string list" where
  "container_capabilities = [''sandbox.container.execution'', ''sandbox.container.tmpfs_write'', ''sandbox.container.egress_denied'',
     ''sandbox.container.rootfs_write_denied'']"

definition docker_part :: "script_env \<Rightarrow> json dict \<Rightarrow> bool \<Rightarrow> unit audit_action" where
  "docker_part env subj on = (if on then
     sbind (check env ((request ''docker-build'' ''sandbox.container.execution'' ''Build audit image''
         [''docker'', ''build'', ''--pull'', ''-f'', ''audit/Dockerfile'', ''-t'', image_tag subj, ''.''])
       \<lparr>cq_timeout := 1200, cq_runtime := text_runtime [(''kind'', ''docker-build'')]\<rparr>)) (\<lambda>built. if passed built then
     sbind (check env ((request ''docker-inspect'' ''sandbox.container.execution'' ''Capture image identity''
         [''docker'', ''image'', ''inspect'', image_tag subj])\<lparr>cq_stdout := Some ''artifacts/docker-image-inspect.json''\<rparr>)) (\<lambda>inspected.
     sbind (if passed inspected then sbind (kept_json ''artifacts/docker-image-inspect.json'') (\<lambda>v. sreturn (image_id_of v))
       else sreturn (Inr (image_tag subj))) (\<lambda>img. in_order (map (checked env) (container_requests img)))) else sreturn (Inr ()))
   else in_order (map (\<lambda>c. audit_declare c ''NOT_EXERCISED'' [''Run --with-docker or --full.'']) container_capabilities))"

section \<open>The audit\<close>

definition declared_gaps :: "(string \<times> string \<times> string list) list" where
  "declared_gaps =
    [(''runtime.openshell.live'', ''NOT_EXERCISED'', [''No real OpenShell gateway/runner admitted.'', ''Docker is not OpenShell.'']),
     (''runtime.cloudflare.live'', ''NOT_EXERCISED'', [''No admitted account endpoint/credentials; typecheck is not runtime evidence.'']),
     (''inference.provider.live'', ''NOT_EXERCISED'', [''No provider credential or local inference endpoint admitted.'']),
     (''android.adb.runtime'', ''NOT_IMPLEMENTED'', [''Android contract/compile exists; trusted ADB runner/evidence/emulator/device path is absent.'']),
     (''ranking.multicell.runtime_samples'', ''NOT_EXERCISED'',
        [''No adequate live Skill '' @ [CHR 0xD7] @ '' Agent '' @ [CHR 0xD7] @ '' Runtime '' @ [CHR 0xD7] @ '' Model matrix executed.'']),
     (''transparency.public_witness'', ''NOT_IMPLEMENTED'', [''Local log is not independently witnessed or equivalent to Rekor.''])]"

definition script_body :: "script_env \<Rightarrow> script_flags \<Rightarrow> json dict \<Rightarrow> json dict \<Rightarrow> unit audit_action" where
  "script_body env flags subj facts =
     seq (in_order (map (checked env) (base_requests env facts)))
     (sbind (check env (bundle_request env)) (\<lambda>built. in_order
       [attest_bundle env subj facts built, browser_part env (sf_browser flags), github_part env (sf_github flags),
        docker_part env subj (sf_docker flags), in_order (map (\<lambda>(c, s, ns). audit_declare c s ns) declared_gaps),
        keep_text ''subject.json'' (dumps_indent 0 (JObj subj) @ [CHR 0x0A]),
        keep_text ''environment.json'' (dumps_indent 0 (JObj facts) @ [CHR 0x0A])]))"

definition audit_script :: "script_env \<Rightarrow> script_flags \<Rightarrow> int audit_action" where
  "audit_script env flags =
     (let vars = ae_vars (sc_audit env); subj = audit_subject (sc_host env) vars; facts = audit_environment (sc_host env) vars in
      seq (script_body env flags subj facts) (audit_finish (sc_audit env) subj facts (sc_produced env)))"

text \<open>\<open>main\<close>: the audit starts on an unused output directory, or replaces it with \<open>--clean\<close>.\<close>

definition audit_main ::
  "script_env \<Rightarrow> script_flags \<Rightarrow> bool \<Rightarrow> bool \<Rightarrow> string list \<Rightarrow> bool \<Rightarrow> bool \<Rightarrow> bytes \<Rightarrow> capability list \<Rightarrow> string list \<Rightarrow> string \<Rightarrow> int res" where
  "audit_main env flags full clean forbidden has_git present contract caps non_claims now =
     rbind (audit_start (sc_output env) forbidden has_git present clean contract caps non_claims now)
       (\<lambda>st. fst (audit_script env (full_flags full flags) st))"

end
