(* ===== verification/AuditProperties.thy ===== *)
theory AuditProperties
  imports AuditCore
begin

text \<open>
  The audit: the environment of its commands holds no secret that was not passed on purpose, its exit code
  is decided by the required capabilities alone, and every passing check goes back to a command that ended
  as expected and whose log is kept. A declaration, however, may say \<open>PASS\<close>.
\<close>

section \<open>The environment of a command\<close>

lemma dict_keys_update: "set (dict_keys (dict_update d e)) = set (dict_keys d) \<union> set (dict_keys e)"
  unfolding dict_update_def by (induction e arbitrary: d) (auto simp: dict_keys_set, auto simp: dict_keys_def)

lemma default_not_secret: "\<not> secret_name ''PYTHONDONTWRITEBYTECODE''"
  by code_simp

lemma kept_not_secret: "k \<in> set (dict_keys (filter (\<lambda>(k, _). \<not> secret_name k) vars)) \<Longrightarrow> \<not> secret_name k"
  by (auto simp: dict_keys_def)

lemma env_without_extra: "k \<in> set (dict_keys (safe_env vars None)) \<Longrightarrow> \<not> secret_name k"
  using kept_not_secret [of k vars] default_not_secret by (auto simp: safe_env_def Let_def dict_keys_set split: if_splits)

lemma env_with_extra: "safe_env vars (Some e) = dict_update (safe_env vars None) e"
  by (simp add: safe_env_def Let_def)

lemma env_keeps_rest:
  "filter (\<lambda>(k, _). \<not> secret_name k \<and> k \<noteq> ''PYTHONDONTWRITEBYTECODE'') (safe_env vars None) =
   filter (\<lambda>(k, _). \<not> secret_name k \<and> k \<noteq> ''PYTHONDONTWRITEBYTECODE'') vars"
proof -
  have "filter (\<lambda>(k, _). \<not> secret_name k \<and> k \<noteq> n) (filter (\<lambda>(k, _). \<not> secret_name k) d) =
        filter (\<lambda>(k, _). \<not> secret_name k \<and> k \<noteq> n) d" for n and d :: "string dict"
    by (induction d) auto
  then show ?thesis by (simp add: safe_env_def Let_def dict_set_fresh)
qed

text \<open>A command of the audit sees no variable with the name of a secret, whatever the environment holds,
  except those passed to it explicitly. Every other variable of the environment it sees unchanged.\<close>

theorem commands_see_no_secret:
  "set (dict_keys (safe_env vars extra)) \<inter> Collect secret_name \<subseteq> (case extra of None \<Rightarrow> {} | Some e \<Rightarrow> set (dict_keys e))
   \<and> filter (\<lambda>(k, _). \<not> secret_name k \<and> k \<noteq> ''PYTHONDONTWRITEBYTECODE'') (safe_env vars None) =
     filter (\<lambda>(k, _). \<not> secret_name k \<and> k \<noteq> ''PYTHONDONTWRITEBYTECODE'') vars"
proof (intro conjI env_keeps_rest)
  show "set (dict_keys (safe_env vars extra)) \<inter> Collect secret_name \<subseteq> (case extra of None \<Rightarrow> {} | Some e \<Rightarrow> set (dict_keys e))"
  proof (cases extra)
    case None
    then show ?thesis using env_without_extra by auto
  next
    case (Some e)
    then show ?thesis using env_without_extra by (auto simp: env_with_extra dict_keys_update)
  qed
qed

section \<open>The verdict of an audit\<close>

definition cap_passes :: "audit_state \<Rightarrow> capability \<Rightarrow> bool" where
  "cap_passes st c \<longleftrightarrow> (if related_checks st c = [] then map_option dl_status (map_of (au_declarations st) (cb_id c)) = Some ''PASS''
     else (\<forall>k \<in> set (related_checks st c). ck_status k = ''PASS''))"

lemma row_pass: "aw_status (audit_row_of st c) = ''PASS'' \<longleftrightarrow> cap_passes st c"
  by (auto simp: audit_row_of_def cap_passes_def Let_def list_all_iff split: option.splits)

lemma row_capability [simp]: "aw_capability (audit_row_of st c) = c"
  by (simp add: audit_row_of_def Let_def split: option.splits)

lemma failed_rows_empty: "failed_rows needed st = [] \<longleftrightarrow> (\<forall>c \<in> set (au_capabilities st). cb_required c = needed \<longrightarrow> cap_passes st c)"
  by (auto simp: failed_rows_def audit_rows_def filter_empty_conv row_pass)

text \<open>The exit code of an audit. It is an error if a check or declaration is about a capability that the
  contract does not have; otherwise the code is 0 exactly when every required capability passes: all its
  checks pass, or it has none and was declared to pass. The overall status is PASS only if the others pass
  as well.\<close>

theorem audit_verdict_exact:
  "fst (audit_finish env subj environment produced st) =
     (if ck_capability ` set (au_checks st) \<union> set (dict_keys (au_declarations st)) \<subseteq> cb_id ` set (au_capabilities st)
      then Inr (if {c \<in> set (au_capabilities st). cb_required c} \<subseteq> Collect (cap_passes st) then 0 else 1)
      else Inl (ValueError (''unknown capability ids: '' @ py_repr (strs (unknown_ids st)))))
   \<and> (overall_status st = ''PASS'' \<longleftrightarrow> set (au_capabilities st) \<subseteq> Collect (cap_passes st))"
proof -
  have "unknown_ids st = [] \<longleftrightarrow> ck_capability ` set (au_checks st) \<union> set (dict_keys (au_declarations st)) \<subseteq> cb_id ` set (au_capabilities st)"
    by (auto simp: unknown_ids_def filter_empty_conv)
  moreover have "failed_rows True st = [] \<longleftrightarrow> {c \<in> set (au_capabilities st). cb_required c} \<subseteq> Collect (cap_passes st)"
    by (auto simp: failed_rows_empty)
  moreover have "overall_status st = ''PASS'' \<longleftrightarrow> failed_rows True st = [] \<and> failed_rows False st = []"
    by (simp add: overall_status_def)
  ultimately show ?thesis by (auto simp: audit_finish_def Let_def failed_rows_empty)
qed

lemma exit_zero:
  assumes "audit_finish env subj environment produced st = (Inr 0, st')"
  shows "\<forall>c \<in> set (au_capabilities st). cb_required c \<longrightarrow> cap_passes st c"
  using assms by (auto simp: audit_finish_def Let_def failed_rows_empty split: if_splits)

lemma finish_keeps_files:
  assumes "audit_finish env subj environment produced st = (Inr n, st')"
  shows "set (dict_keys (au_files st)) \<subseteq> set (dict_keys (au_files st'))"
  using assms by (auto simp: audit_finish_def Let_def dict_keys_set split: if_splits)

text \<open>A declaration may say PASS: with no check at all, a required capability then passes.\<close>

lemma declared_pass_accepted:
  assumes "au_capabilities st = [c]" "au_checks st = []" "au_declarations st = []"
  shows "fst (audit_finish env subj environment produced (snd (audit_declare (cb_id c) ''PASS'' notes st))) = Inr 0"
  using assms by (simp add: audit_finish_def Let_def audit_declare_def audit_states_def unknown_ids_def dict_keys_def
    failed_rows_def audit_rows_def audit_row_of_def related_checks_def)

section \<open>Passing checks have evidence\<close>

text \<open>An audit: any sequence of commands and declarations.\<close>

datatype audit_step = Run check_request | Declare string string "string list"

fun audit_do :: "audit_env \<Rightarrow> audit_step \<Rightarrow> audit_state \<Rightarrow> audit_state" where
  "audit_do env (Run q) st = snd (audit_run env q st)"
| "audit_do env (Declare cap status notes) st = snd (audit_declare cap status notes st)"

definition audit_after :: "audit_env \<Rightarrow> audit_step list \<Rightarrow> audit_state \<Rightarrow> audit_state" where
  "audit_after env steps st = fold (audit_do env) steps st"

text \<open>A check has its log among the audit's files, and if it passes, its command ended with an exit code
  that its expectation allows.\<close>

definition check_evidenced :: "audit_env \<Rightarrow> audit_state \<Rightarrow> audit_check \<Rightarrow> bool" where
  "check_evidenced env st k \<longleftrightarrow> ck_log k \<in> set (ck_evidence k) \<and> ck_log k \<in> set (dict_keys (au_files st))
     \<and> (ck_status k = ''PASS'' \<longrightarrow> (\<exists>n m vars timeout out err. ae_process env n (ck_command k) vars timeout = Ended m out err \<and> ck_exit k = Some m
          \<and> ck_expectation k = (if m = 0 then ''zero'' else ''nonzero'')))"

definition audit_honest :: "audit_env \<Rightarrow> audit_state \<Rightarrow> bool" where
  "audit_honest env st \<longleftrightarrow> (\<forall>k \<in> set (au_checks st). check_evidenced env st k)"

lemma outcome_met:
  "expectation_met x code failure \<Longrightarrow> outcome_parts t p = Inr (code, out, err, failure) \<Longrightarrow>
   \<exists>m. p = Ended m out err \<and> code = Some m \<and> x = (if m = 0 then ''zero'' else ''nonzero'')"
  by (cases p) (auto simp: expectation_met_def split: if_splits)

lemma keys_fold: "set (dict_keys (fold (\<lambda>p. dict_set p v) ps d)) = set (dict_keys d) \<union> set ps"
  by (induction ps arbitrary: d) (auto simp: dict_keys_set)

lemma check_evidenced_mono:
  "\<lbrakk>check_evidenced env st k; set (dict_keys (au_files st)) \<subseteq> set (dict_keys (au_files st'))\<rbrakk> \<Longrightarrow> check_evidenced env st' k"
  unfolding check_evidenced_def by blast

lemma record_files:
  "insert (''logs/'' @ cq_id q @ ''.log'') (set (dict_keys (au_files st)))
   \<subseteq> set (dict_keys (au_files (snd (audit_record env q code out err failure st))))"
  by (auto simp: audit_record_def Let_def keys_fold dict_keys_set split: sum.splits)

lemma record_checks:
  assumes "k \<in> set (au_checks (snd (audit_record env q code out err failure st)))" "k \<notin> set (au_checks st)"
  shows "ck_log k = ''logs/'' @ cq_id q @ ''.log'' \<and> ck_log k \<in> set (ck_evidence k) \<and> ck_command k = cq_command q
    \<and> ck_exit k = code \<and> ck_expectation k = cq_expectation q
    \<and> ck_status k = (if expectation_met (cq_expectation q) code failure then ''PASS'' else ''FAIL'')"
  using assms by (auto simp: audit_record_def Let_def split: sum.splits)

lemma run_honest:
  assumes "audit_honest env st"
  shows "audit_honest env (snd (audit_run env q st))"
proof (cases "outcome_parts (cq_timeout q) (audit_process env q st)")
  case (Inl e)
  then show ?thesis using assms by (simp add: audit_run_def)
next
  case (Inr r)
  obtain code out err failure where r: "r = (code, out, err, failure)" by (cases r)
  define st2 where "st2 = snd (audit_record env q code out err failure st)"
  have st2: "snd (audit_run env q st) = st2" by (simp add: audit_run_def Inr r st2_def)
  have files: "insert (''logs/'' @ cq_id q @ ''.log'') (set (dict_keys (au_files st))) \<subseteq> set (dict_keys (au_files st2))"
    unfolding st2_def by (rule record_files)
  have "check_evidenced env st2 k" if k: "k \<in> set (au_checks st2)" for k
  proof (cases "k \<in> set (au_checks st)")
    case True
    then show ?thesis using assms files check_evidenced_mono unfolding audit_honest_def by blast
  next
    case False
    note new = record_checks [OF k [unfolded st2_def] False]
    have "\<exists>n m vars timeout out err. ae_process env n (ck_command k) vars timeout = Ended m out err \<and> ck_exit k = Some m
          \<and> ck_expectation k = (if m = 0 then ''zero'' else ''nonzero'')" if "ck_status k = ''PASS''"
    proof -
      have "expectation_met (cq_expectation q) code failure" using that new by (simp split: if_splits)
      from outcome_met [OF this] Inr r obtain m where
        "audit_process env q st = Ended m out err" "code = Some m" "cq_expectation q = (if m = 0 then ''zero'' else ''nonzero'')" by blast
      then show ?thesis using new unfolding audit_process_def by metis
    qed
    then show ?thesis using files new unfolding check_evidenced_def by blast
  qed
  then show ?thesis by (simp add: st2 audit_honest_def)
qed

text \<open>A process that printed something before its timeout breaks the audit: the check is not recorded.\<close>

lemma timeout_with_output_raises:
  assumes "audit_process env q st = TimedOut out err" and "out \<noteq> []"
  shows "audit_run env q st = (Inl (bytes_in_lines 11), st)"
  using assms by (simp add: audit_run_def)

lemma declare_honest: "audit_honest env st \<Longrightarrow> audit_honest env (snd (audit_declare cap status notes st))"
  by (auto simp: audit_honest_def audit_declare_def check_evidenced_def)

lemma after_honest: "audit_honest env st \<Longrightarrow> audit_honest env (audit_after env steps st)"
  unfolding audit_after_def
proof (induction steps arbitrary: st)
  case (Cons s steps)
  then show ?case by (cases s) (simp_all add: run_honest declare_honest)
qed simp

text \<open>A required capability that passes without being declared has a check whose command ended with the
  expected exit code and whose log is among the audit's files.\<close>

lemma evidenced_pass:
  assumes "audit_honest env st" "cap_passes st c" "map_option dl_status (map_of (au_declarations st) (cb_id c)) \<noteq> Some ''PASS''"
  shows "\<exists>k \<in> set (au_checks st). ck_capability k = cb_id c \<and> ck_status k = ''PASS'' \<and> check_evidenced env st k"
proof -
  have "related_checks st c \<noteq> []" "\<forall>k \<in> set (related_checks st c). ck_status k = ''PASS''"
    using assms(2,3) by (auto simp: cap_passes_def split: if_splits)
  then obtain k where "k \<in> set (related_checks st c)" "ck_status k = ''PASS''" by (cases "related_checks st c") auto
  then show ?thesis using assms(1) by (auto simp: related_checks_def audit_honest_def)
qed

text \<open>Nothing was declared to pass.\<close>

definition no_pass_declared :: "audit_state \<Rightarrow> bool" where
  "no_pass_declared st \<longleftrightarrow> (\<forall>k d. map_of (au_declarations st) k = Some d \<longrightarrow> dl_status d \<noteq> ''PASS'')"

fun declares_pass :: "audit_step \<Rightarrow> bool" where
  "declares_pass (Run q) \<longleftrightarrow> False"
| "declares_pass (Declare cap status notes) \<longleftrightarrow> status = ''PASS''"

lemma run_keeps: "au_declarations (snd (audit_run env q st)) = au_declarations st \<and> au_capabilities (snd (audit_run env q st)) = au_capabilities st"
  by (auto simp: audit_run_def audit_record_def Let_def split: sum.splits)

lemma step_keeps:
  "au_capabilities (audit_do env s st) = au_capabilities st \<and> (no_pass_declared st \<longrightarrow> \<not> declares_pass s \<longrightarrow> no_pass_declared (audit_do env s st))"
  by (cases s) (auto simp: run_keeps no_pass_declared_def audit_declare_def)

lemma after_keeps:
  "au_capabilities (audit_after env steps st) = au_capabilities st
   \<and> (no_pass_declared st \<longrightarrow> (\<forall>s \<in> set steps. \<not> declares_pass s) \<longrightarrow> no_pass_declared (audit_after env steps st))"
  unfolding audit_after_def
proof (induction steps arbitrary: st)
  case (Cons s steps)
  then show ?case using step_keeps [of env s st] by simp
qed simp

text \<open>C33: Whatever commands and declarations make up an audit: if nothing is declared to pass and the exit code
  is 0, every required capability has a passing check, whose command ended with an exit code its
  expectation allows and whose log is among the files of the audit.\<close>

theorem audit_pass_evidenced:
  assumes "audit_start output forbidden has_git present clean contract caps non_claims now = Inr st"
    and "audit_finish env subj environment produced (audit_after env steps st) = (Inr 0, st')"
    and "\<not> list_ex declares_pass steps" and "c \<in> set caps" and "cb_required c"
  shows "\<exists>k \<in> set (au_checks (audit_after env steps st)).
    ck_capability k = cb_id c \<and> ck_status k = ''PASS'' \<and> ck_log k \<in> set (dict_keys (au_files st'))
    \<and> check_evidenced env (audit_after env steps st) k"
proof -
  have st: "au_capabilities st = caps" "audit_honest env st" "no_pass_declared st"
    using assms(1) by (auto simp: audit_start_def audit_honest_def no_pass_declared_def split: if_splits)
  have "no_pass_declared (audit_after env steps st)" "au_capabilities (audit_after env steps st) = caps"
    using after_keeps [of env steps st] st assms(3) by (auto simp: list_ex_iff)
  then have "cap_passes (audit_after env steps st) c" and "map_option dl_status (map_of (au_declarations (audit_after env steps st)) (cb_id c)) \<noteq> Some ''PASS''"
    using exit_zero [OF assms(2)] assms(4,5) by (auto simp: no_pass_declared_def)
  from evidenced_pass [OF after_honest [OF st(2)] this] finish_keeps_files [OF assms(2)]
  show ?thesis unfolding check_evidenced_def by blast
qed

definition passing_capability :: capability where
  "passing_capability = \<lparr>cb_id = ''unit-tests'', cb_required = True, cb_level = ''E2'', cb_notes = [], cb_fields = []\<rparr>"

definition quiet_env :: audit_env where
  "quiet_env = \<lparr>ae_vars = [], ae_process = (\<lambda>n argv vars t. Ended 0 [] []), ae_now = (\<lambda>n. ''t''), ae_duration = (\<lambda>n. 0),
     ae_listing = (\<lambda>n p. Inr [])\<rparr>"

definition one_check :: check_request where
  "one_check = \<lparr>cq_id = ''c1'', cq_capability = ''unit-tests'', cq_title = [], cq_command = [''pytest''], cq_expectation = ''zero'', cq_timeout = 900,
     cq_stdout = None, cq_evidence = [], cq_env = None, cq_runtime = [], cq_notes = []\<rparr>"

definition new_audit :: audit_state where
  "new_audit = \<lparr>au_capabilities = [passing_capability], au_contract_bytes = [], au_non_claims = [], au_checks = [], au_declarations = [],
     au_files = [], au_started = ''t''\<rparr>"

lemma one_check_passes: "fst (audit_finish quiet_env [] [] [] (audit_after quiet_env [Run one_check] new_audit)) = Inr 0"
  by (simp add: audit_finish_def Let_def audit_after_def audit_run_def audit_process_def audit_record_def quiet_env_def one_check_def
    new_audit_def passing_capability_def expectation_met_def unknown_ids_def failed_rows_def audit_rows_def audit_row_of_def
    related_checks_def dict_keys_def)

theorem audit_pass_evidenced_witness:
  "\<exists>k \<in> set (au_checks (audit_after quiet_env [Run one_check] new_audit)). ck_capability k = ''unit-tests'' \<and> ck_status k = ''PASS''"
proof -
  have start: "audit_start ''out'' [] False False False [] [passing_capability] [] ''t'' = Inr new_audit"
    by (simp add: audit_start_def new_audit_def)
  have "audit_finish quiet_env [] [] [] (audit_after quiet_env [Run one_check] new_audit) =
      (Inr 0, snd (audit_finish quiet_env [] [] [] (audit_after quiet_env [Run one_check] new_audit)))"
    using one_check_passes by (metis prod.collapse)
  from audit_pass_evidenced [OF start this, of passing_capability]
  show ?thesis by (auto simp: passing_capability_def)
qed

end
