(* ===== verification/AuditScriptProperties.thy ===== *)
theory AuditScriptProperties
  imports AuditScript AuditProperties
begin

text \<open>
  What the audit of the repository cannot claim: every action of the script checks only capabilities of its
  part and declares none of them to pass, so a capability whose part is switched off does not pass.
\<close>

section \<open>The capabilities an action may check\<close>

definition confined :: "script_env \<Rightarrow> string set \<Rightarrow> 'a audit_action \<Rightarrow> bool" where
  "confined env C m \<longleftrightarrow> (\<forall>st. let st' = snd (m st) in
     ck_capability ` set (au_checks st') \<subseteq> ck_capability ` set (au_checks st) \<union> C \<and> au_capabilities st' = au_capabilities st
     \<and> (no_pass_declared st \<longrightarrow> no_pass_declared st') \<and> (audit_honest (sc_audit env) st \<longrightarrow> audit_honest (sc_audit env) st'))"

named_theorems confined_rules

lemma confined_return [confined_rules]: "confined env C (sreturn r)"
  by (simp add: confined_def sreturn_def)

lemma confined_bind:
  assumes "confined env C m" "\<And>x. confined env C (f x)"
  shows "confined env C (sbind m f)"
  unfolding confined_def Let_def
proof
  fix st
  obtain r st1 where m: "m st = (r, st1)" by fastforce
  show "ck_capability ` set (au_checks (snd (sbind m f st))) \<subseteq> ck_capability ` set (au_checks st) \<union> C
    \<and> au_capabilities (snd (sbind m f st)) = au_capabilities st \<and> (no_pass_declared st \<longrightarrow> no_pass_declared (snd (sbind m f st)))
    \<and> (audit_honest (sc_audit env) st \<longrightarrow> audit_honest (sc_audit env) (snd (sbind m f st)))"
  proof (cases r)
    case (Inl e)
    then show ?thesis using assms(1) [unfolded confined_def Let_def, rule_format, of st] m by (simp add: sbind_def)
  next
    case (Inr x)
    then show ?thesis
      using assms(1) [unfolded confined_def Let_def, rule_format, of st] assms(2) [of x, unfolded confined_def Let_def, rule_format, of st1] m
      by (simp add: sbind_def) blast
  qed
qed

lemma confined_seq: "\<lbrakk>confined env C p; confined env C q\<rbrakk> \<Longrightarrow> confined env C (seq p q)"
  unfolding seq_def by (rule confined_bind)

lemma confined_order: "(\<And>p. p \<in> set ps \<Longrightarrow> confined env C p) \<Longrightarrow> confined env C (in_order ps)"
  by (induction ps) (simp_all add: confined_return confined_seq)

lemma run_capability:
  "ck_capability ` set (au_checks (snd (audit_run env q st))) \<subseteq> ck_capability ` set (au_checks st) \<union> {cq_capability q}"
  by (auto simp: audit_run_def audit_record_def Let_def split: sum.splits)

lemma confined_check: "cq_capability q \<in> C \<Longrightarrow> confined env C (check env q)"
  unfolding confined_def Let_def check_def
proof (intro allI conjI impI)
  fix st :: audit_state
  assume q: "cq_capability q \<in> C"
  have "ck_capability ` set (au_checks st) \<union> {cq_capability q} \<subseteq> ck_capability ` set (au_checks st) \<union> C"
    by (rule Un_mono) (simp_all add: q)
  with run_capability show "ck_capability ` set (au_checks (snd (audit_run (sc_audit env) q st))) \<subseteq> ck_capability ` set (au_checks st) \<union> C"
    by (rule order_trans)
  show "au_capabilities (snd (audit_run (sc_audit env) q st)) = au_capabilities st" using run_keeps by blast
  show "no_pass_declared (snd (audit_run (sc_audit env) q st))" if "no_pass_declared st"
    using that run_keeps [of "sc_audit env" q st] by (simp add: no_pass_declared_def)
  show "audit_honest (sc_audit env) (snd (audit_run (sc_audit env) q st))" if "audit_honest (sc_audit env) st"
    using run_honest [OF that] .
qed

lemma confined_checked: "cq_capability q \<in> C \<Longrightarrow> confined env C (checked env q)"
  unfolding checked_def by (intro confined_seq confined_check confined_return)

lemma confined_declare [confined_rules]: "status \<noteq> ''PASS'' \<Longrightarrow> confined env C (audit_declare cap status notes)"
  unfolding confined_def Let_def
proof (intro allI conjI impI)
  fix st :: audit_state
  assume s: "status \<noteq> ''PASS''"
  note k = step_keeps [of "sc_audit env" "Declare cap status notes" st, simplified]
  show "ck_capability ` set (au_checks (snd (audit_declare cap status notes st))) \<subseteq> ck_capability ` set (au_checks st) \<union> C"
    by (simp add: audit_declare_def)
  show "au_capabilities (snd (audit_declare cap status notes st)) = au_capabilities st" using k by blast
  show "no_pass_declared (snd (audit_declare cap status notes st))" if "no_pass_declared st" using k s that by blast
  show "audit_honest (sc_audit env) (snd (audit_declare cap status notes st))" if "audit_honest (sc_audit env) st"
    using declare_honest [OF that] .
qed

lemma confined_keep_text [confined_rules]: "confined env C (keep_text name t)"
  by (auto simp: confined_def keep_text_def no_pass_declared_def audit_honest_def check_evidenced_def dict_keys_set)

lemma confined_kept_json [confined_rules]: "confined env C (kept_json name)"
  by (simp add: confined_def kept_json_def)

lemma confined_mono: "\<lbrakk>confined env B m; B \<subseteq> C\<rbrakk> \<Longrightarrow> confined env C m"
  unfolding confined_def Let_def by (meson Un_mono order.refl order.trans)

section \<open>The parts of the script\<close>

definition always_checked :: "string set" where
  "always_checked = {''package.cli.installable'', ''environment.dependency.snapshot'', ''tests.full_suite'', ''android.compile.contract'',
     ''cloudflare.contracts.typecheck'', ''schemas.deterministic.sync'', ''security.fixtures.materialized'', ''harness.coding.fake'',
     ''run_artifact.bundle'', ''attestation.ephemeral_local_key''}"

text \<open>The capabilities a run with the given flags may check.\<close>

definition reached :: "script_flags \<Rightarrow> string set" where
  "reached f = always_checked \<union> (if sf_browser f then {''browser.chromium.loopback''} else {})
     \<union> (if sf_github f then {''integration.github.ingestion''} else {}) \<union> (if sf_docker f then set container_capabilities else {})"

lemma request_capability [simp]: "cq_capability (request i cap t cmd) = cap"
  "cq_capability (attest_request i t cmd) = ''attestation.ephemeral_local_key''"
  by (simp_all add: request_def attest_request_def)

lemma base_confined: "confined env always_checked (in_order (map (checked env) (base_requests env facts)))"
proof (rule confined_order)
  fix p assume "p \<in> set (map (checked env) (base_requests env facts))"
  then obtain q where q: "p = checked env q" "q \<in> set (base_requests env facts)" by auto
  have "list_all (\<lambda>q. cq_capability q \<in> always_checked) (base_requests env facts)"
    by (simp add: base_requests_def Let_def) (simp add: always_checked_def)
  with q show "confined env always_checked p" by (simp add: list_all_iff confined_checked)
qed

lemma attest_confined: "confined env {''attestation.ephemeral_local_key''} (attest_bundle env subj facts built)"
proof -
  have "confined env {''attestation.ephemeral_local_key''} (in_order (map (checked env) (attestation_requests env subj facts bp)))" for bp
  proof (rule confined_order)
    fix p assume "p \<in> set (map (checked env) (attestation_requests env subj facts bp))"
    then obtain q where q: "p = checked env q" "q \<in> set (attestation_requests env subj facts bp)" by auto
    have "list_all (\<lambda>q. cq_capability q = ''attestation.ephemeral_local_key'') (attestation_requests env subj facts bp)"
      by (simp add: attestation_requests_def Let_def)
    with q show "confined env {''attestation.ephemeral_local_key''} p" by (simp add: list_all_iff confined_checked)
  qed
  then show ?thesis
    unfolding attest_bundle_def
    by (auto intro!: confined_bind confined_seq confined_rules confined_check simp: key_request_def)
qed

lemma browser_confined: "confined env (if on then {''browser.chromium.loopback''} else {}) (browser_part env on)"
  by (auto simp: browser_part_def intro!: confined_checked confined_declare)

lemma github_confined: "confined env (if on then {''integration.github.ingestion''} else {}) (github_part env on)"
  by (auto simp: github_part_def intro!: confined_checked confined_declare)

lemma docker_confined: "confined env (if on then set container_capabilities else {}) (docker_part env subj on)"
proof -
  have img: "confined env (set container_capabilities) (in_order (map (checked env) (container_requests img)))" for img
  proof (rule confined_order)
    fix p assume "p \<in> set (map (checked env) (container_requests img))"
    then obtain q where q: "p = checked env q" "q \<in> set (container_requests img)" by auto
    have "list_all (\<lambda>q. cq_capability q \<in> set container_capabilities) (container_requests img)"
      by (simp add: container_requests_def Let_def) (simp add: container_capabilities_def)
    with q show "confined env (set container_capabilities) p" by (simp add: list_all_iff confined_checked)
  qed
  have exec: "''sandbox.container.execution'' \<in> set container_capabilities" by (simp add: container_capabilities_def)
  show ?thesis
  proof (cases on)
    case True
    then show ?thesis unfolding docker_part_def
      by (auto intro!: confined_bind confined_rules confined_check img simp: exec)
  next
    case False
    then show ?thesis unfolding docker_part_def by (auto intro!: confined_order confined_declare)
  qed
qed

lemma gaps_confined: "confined env {} (in_order (map (\<lambda>(c, s, ns). audit_declare c s ns) declared_gaps))"
proof (rule confined_order)
  fix p assume "p \<in> set (map (\<lambda>(c, s, ns). audit_declare c s ns) declared_gaps)"
  then obtain c s ns where p: "p = audit_declare c s ns" "(c, s, ns) \<in> set declared_gaps" by auto
  have "list_all (\<lambda>(c, s, ns). s \<noteq> ''PASS'') declared_gaps" by (simp add: declared_gaps_def)
  with p show "confined env {} p" by (auto simp: list_all_iff intro!: confined_declare)
qed

lemma body_confined: "confined env (reached flags) (script_body env flags subj facts)"
proof -
  have sub: "always_checked \<subseteq> reached flags" "(if sf_browser flags then {''browser.chromium.loopback''} else {}) \<subseteq> reached flags"
    "(if sf_github flags then {''integration.github.ingestion''} else {}) \<subseteq> reached flags"
    "(if sf_docker flags then set container_capabilities else {}) \<subseteq> reached flags" "{} \<subseteq> reached flags"
    "{''attestation.ephemeral_local_key''} \<subseteq> reached flags" "cq_capability (bundle_request env) \<in> reached flags"
    by (auto simp: reached_def) (simp_all add: always_checked_def bundle_request_def Let_def)
  show ?thesis
    unfolding script_body_def
    by (intro confined_seq confined_bind confined_check sub(7) confined_mono [OF base_confined sub(1)])
       (simp add: confined_seq confined_return confined_keep_text confined_mono [OF attest_confined sub(6)]
         confined_mono [OF browser_confined sub(2)] confined_mono [OF github_confined sub(3)]
         confined_mono [OF docker_confined sub(4)] confined_mono [OF gaps_confined sub(5)])
qed

section \<open>What an exit code of 0 says\<close>

lemma script_zero:
  assumes "audit_start out forbidden has_git present clean contract caps non_claims now = Inr st"
    and "fst (audit_script env flags st) = Inr 0" "c \<in> set caps" "cb_required c"
  shows "cb_id c \<in> reached flags"
    and "\<exists>st'. \<exists>k \<in> set (au_checks st'). ck_capability k = cb_id c \<and> ck_status k = ''PASS'' \<and> check_evidenced (sc_audit env) st' k"
proof -
  let ?vars = "ae_vars (sc_audit env)"
  let ?subj = "audit_subject (sc_host env) ?vars" and ?facts = "audit_environment (sc_host env) ?vars"
  have st: "au_checks st = []" "au_declarations st = []" "au_capabilities st = caps"
    using assms(1) by (auto simp: audit_start_def split: if_splits)
  obtain r st1 where b: "script_body env flags ?subj ?facts st = (r, st1)" by fastforce
  with assms(2) obtain u where r: "r = Inr u" and "fst (audit_finish (sc_audit env) ?subj ?facts (sc_produced env) st1) = Inr 0"
    by (cases r) (auto simp: audit_script_def Let_def seq_def sbind_def)
  then obtain st2 where fin: "audit_finish (sc_audit env) ?subj ?facts (sc_produced env) st1 = (Inr 0, st2)" by (metis prod.collapse)
  have inv: "ck_capability ` set (au_checks st1) \<subseteq> reached flags" "au_capabilities st1 = caps" "no_pass_declared st1"
    "audit_honest (sc_audit env) st1"
    using body_confined [of env flags ?subj ?facts, unfolded confined_def Let_def, rule_format, of st] b
    by (simp_all add: st no_pass_declared_def audit_honest_def)
  have "cap_passes st1 c" using exit_zero [OF fin] inv(2) assms(3,4) by simp
  moreover have "map_option dl_status (map_of (au_declarations st1) (cb_id c)) \<noteq> Some ''PASS''"
    using inv(3) by (auto simp: no_pass_declared_def)
  ultimately obtain k where k: "k \<in> set (au_checks st1)" "ck_capability k = cb_id c" "ck_status k = ''PASS''"
    "check_evidenced (sc_audit env) st1 k" using evidenced_pass [OF inv(4)] by blast
  then show "cb_id c \<in> reached flags" using inv(1) by auto
  show "\<exists>st'. \<exists>k \<in> set (au_checks st'). ck_capability k = cb_id c \<and> ck_status k = ''PASS'' \<and> check_evidenced (sc_audit env) st' k"
    using k by blast
qed

text \<open>C34: A partial audit does not weaken the contract: if the contract requires a capability that the run
  does not reach, because its part is switched off or the script has no check for it, the audit does not
  exit with 0, whatever the commands do and whatever is declared.\<close>

theorem partial_audit_never_passes:
  assumes "c \<in> set caps" "cb_required c" "cb_id c \<notin> reached (full_flags full flags)"
  shows "audit_main env flags full clean forbidden has_git present contract caps non_claims now \<noteq> Inr 0"
proof
  assume "audit_main env flags full clean forbidden has_git present contract caps non_claims now = Inr 0"
  then obtain st where st: "audit_start (sc_output env) forbidden has_git present clean contract caps non_claims now = Inr st"
    "fst (audit_script env (full_flags full flags) st) = Inr 0" by (auto simp: audit_main_def rbind_Inr_iff)
  from script_zero(1) [OF st assms(1,2)] assms(3) show False by blast
qed

definition sample_script_env :: script_env where
  "sample_script_env = \<lparr>sc_audit = quiet_env, sc_host = \<lparr>hf_python = ''3.11'', hf_platform = ''Linux'', hf_machine = ''x86_64'',
     hf_which = (\<lambda>_. None), hf_capture = (\<lambda>_. None)\<rparr>, sc_python = ''python3'', sc_root = ''/repo'', sc_output = ''/repo/out'',
     sc_tempdir = ''/tmp/k'', sc_produced = []\<rparr>"

definition browser_capability :: capability where
  "browser_capability = \<lparr>cb_id = ''browser.chromium.loopback'', cb_required = True, cb_level = ''runtime-substrate'', cb_notes = [], cb_fields = []\<rparr>"

theorem partial_audit_never_passes_witness:
  "audit_main sample_script_env \<lparr>sf_browser = False, sf_docker = True, sf_github = True\<rparr> False True [] False False []
     [passing_capability, browser_capability] [] ''t'' \<noteq> Inr 0"
proof (rule partial_audit_never_passes [of browser_capability])
  show "cb_id browser_capability \<notin> reached (full_flags False \<lparr>sf_browser = False, sf_docker = True, sf_github = True\<rparr>)"
    by (simp add: browser_capability_def reached_def always_checked_def full_flags_def container_capabilities_def)
qed (simp_all add: browser_capability_def)

end
