(* ===== verification/RunnerProcess.thy ===== *)
theory RunnerProcess
  imports BrowserRunner Base64 CodingAgent Runtime
begin

text \<open>
  The processes the harness starts: \<open>browser_entrypoint.py\<close>, the \<open>main\<close> of \<open>browser_runner.py\<close> and of
  \<open>coding_agent.py\<close> with the transport of their configurations (\<open>browser_contract.py\<close>,
  \<open>coding_agent.py\<close>), and the local runtime that runs them for integration tests
  (\<open>browser_fixture_runtime.py\<close>). The arguments are those \<open>argparse\<close> has parsed; pydantic's reading of
  JSON into the typed fields of a configuration is the argument \<open>dec\<close>.
\<close>

section \<open>The transport of configurations\<close>

definition encode_browser_runner_config :: "browser_config \<Rightarrow> string" where
  "encode_browser_runner_config cfg = urlsafe_b64encode (utf8 (dumps (browser_config_json cfg)))"

definition non_ascii :: "char \<Rightarrow> bool" where
  "non_ascii ch \<longleftrightarrow> 128 \<le> (of_char ch :: nat)"

text \<open>The bytes of the configuration and their JSON value.\<close>

definition browser_config_bytes :: "string \<Rightarrow> (bytes \<times> json) option" where
  "browser_config_bytes v = (if list_ex non_ascii v then None
     else Option.bind (b64_decode_strict (map from_url v)) (\<lambda>raw.
       Option.bind (utf8_strict raw) (\<lambda>t. map_option (Pair raw) (loads t))))"

definition decode_browser_runner_config :: "(json \<Rightarrow> browser_config res) \<Rightarrow> string \<Rightarrow> browser_config res" where
  "decode_browser_runner_config dec v = (case browser_config_bytes v of
     None \<Rightarrow> Inl (BrowserContractError ''browser runner config is not valid canonical base64 JSON'')
   | Some (raw, parsed) \<Rightarrow> rbind (dec parsed) (\<lambda>typed. rbind (validate_browser_config typed) (\<lambda>cfg.
       if raw \<noteq> utf8 (dumps (browser_config_json cfg))
       then Inl (BrowserContractError ''browser runner config must use canonical JSON'') else Inr cfg)))"

text \<open>The padding that \<open>encode_runner_config\<close> strips, and the lenient decoder that ignores what is not in
  the alphabet; \<open>dec\<close> is \<open>model_validate_json\<close> up to the validators.\<close>

definition b64_padding :: "string \<Rightarrow> string" where
  "b64_padding v = replicate ((4 - length v mod 4) mod 4) CHR ''=''"

definition decode_runner_config :: "(bytes \<Rightarrow> runner_config res) \<Rightarrow> string \<Rightarrow> runner_config res" where
  "decode_runner_config dec v =
     (case (if list_ex non_ascii v then None else b64_decode_lenient (map from_url (v @ b64_padding v))) of
        None \<Rightarrow> Inl (ValueError ''invalid coding runner configuration'')
      | Some payload \<Rightarrow> (case rbind (dec payload) validate_config of
          Inl e \<Rightarrow> Inl (ValueError ''invalid coding runner configuration'') | Inr c \<Rightarrow> Inr c))"

section \<open>The browser runner's processes\<close>

record process_end =
  pe_code :: int
  pe_stdout :: string
  pe_stderr :: string

definition browser_end :: "browser_receipt res \<Rightarrow> process_end" where
  "browser_end out = (case out of
     Inl e \<Rightarrow> \<lparr>pe_code = 2, pe_stdout = [], pe_stderr = ''skill-native-browser-runner: '' @ describe_exn e @ [CHR 0x0A]\<rparr>
   | Inr r \<Rightarrow> \<lparr>pe_code = (if br_outcome r = ''pass'' then 0 else 1), pe_stdout = dumps (JObj (browser_receipt_obj r)) @ [CHR 0x0A],
       pe_stderr = []\<rparr>)"

text \<open>The run and its end; the state of the browser exists only when there was a configuration.\<close>

definition browser_process ::
  "browser_env \<Rightarrow> string \<Rightarrow> browser_config res \<Rightarrow> process_end \<times> browser_state option" where
  "browser_process env cwd conf = (case conf of
     Inl e \<Rightarrow> (browser_end (Inl e), None)
   | Inr cfg \<Rightarrow> (case execute_browser env cfg cwd of (out, st) \<Rightarrow> (browser_end out, Some st)))"

definition stdin_config :: "(json \<Rightarrow> browser_config res) \<Rightarrow> string \<Rightarrow> browser_config res" where
  "stdin_config dec raw =
     (if raw = [] then Inl (BrowserContractError ''browser runner config stdin is empty'')
      else (case loads raw of
          None \<Rightarrow> Inl (OtherError ''JSONDecodeError'' ''stdin'')
        | Some parsed \<Rightarrow> rbind (dec parsed) (\<lambda>typed. rbind (validate_browser_config typed) (\<lambda>cfg.
            if raw \<noteq> dumps (browser_config_json cfg)
            then Inl (BrowserContractError ''browser runner config stdin must use canonical JSON encoding'') else Inr cfg))))"

definition browser_entrypoint ::
  "(json \<Rightarrow> browser_config res) \<Rightarrow> browser_env \<Rightarrow> string \<Rightarrow> string \<Rightarrow> process_end \<times> browser_state option" where
  "browser_entrypoint dec env cwd raw = browser_process env cwd (stdin_config dec raw)"

definition browser_runner_main ::
  "(json \<Rightarrow> browser_config res) \<Rightarrow> browser_env \<Rightarrow> string \<Rightarrow> string \<Rightarrow> process_end \<times> browser_state option" where
  "browser_runner_main dec env cwd v = browser_process env cwd (decode_browser_runner_config dec v)"

section \<open>The coding runner's process\<close>

text \<open>The remaining arguments, without a leading separator. \<open>dump\<close> is \<open>model_dump_json\<close>.\<close>

definition child_of :: "string list \<Rightarrow> string list" where
  "child_of rest = (case rest of [] \<Rightarrow> [] | w # ws \<Rightarrow> if w = ''--'' then ws else rest)"

definition coding_main ::
  "(bytes \<Rightarrow> runner_config res) \<Rightarrow> (json \<Rightarrow> string) \<Rightarrow> 'w runner_os \<Rightarrow> string \<Rightarrow> string list \<Rightarrow> string \<Rightarrow> 'w \<Rightarrow> process_end" where
  "coding_main dec dump os v rest stdin w =
     (case rbind (decode_runner_config dec v) (\<lambda>cfg. execute_coding_agent os cfg (child_of rest) stdin w) of
        Inl e \<Rightarrow> \<lparr>pe_code = 2, pe_stdout = [],
          pe_stderr = dumps (JObj [(''error'', JStr (exn_name e)), (''message'', JStr (exn_message e))]) @ [CHR 0x0A]\<rparr>
      | Inr r \<Rightarrow> \<lparr>pe_code = (if outcome r = ''pass'' then 0 else 2), pe_stdout = dump (JObj (receipt_obj r)) @ [CHR 0x0A],
          pe_stderr = []\<rparr>)"

section \<open>The local runtime\<close>

text \<open>
  \<open>LocalBrowserFixtureRuntime\<close>. Creating the workspace and running a process are steps on the world
  \<open>'w\<close>; a process returns its exit code and output, or raises.
\<close>

record 'w fixture_env =
  fx_workspace :: string
  fx_mkdir :: "('w, unit) step"
  fx_run :: "string list \<Rightarrow> string option \<Rightarrow> int \<Rightarrow> ('w, int \<times> string \<times> string) step"

record fixture_execution =
  fe_argv :: "string list"
  fe_stdin :: "string option"
  fe_code :: int
  fe_out :: string
  fe_err :: string

record fixture_run =
  fu_spec :: run_spec
  fu_executions :: "fixture_execution dict"

type_synonym 'w fixture_state = "'w \<times> fixture_run dict"

definition fixture_evidence :: "string list" where
  "fixture_evidence = [''exit_code'', ''stdout'', ''stderr'', ''commands'', ''assertions'', ''runtime_metadata'']"

definition fixture_prepare :: "'w fixture_env \<Rightarrow> run_spec \<Rightarrow> ('w fixture_state, string) step" where
  "fixture_prepare env spec st = (case fx_mkdir env (fst st) of
     (Inl e, w) \<Rightarrow> (Inl e, w, snd st)
   | (Inr _, w) \<Rightarrow> (let sid = ''browser-fixture:'' @ spec_run_id spec
       in (Inr sid, w, dict_set sid \<lparr>fu_spec = spec, fu_executions = []\<rparr> (snd st))))"

definition fixture_execute :: "'w fixture_env \<Rightarrow> string \<Rightarrow> string list \<Rightarrow> string option \<Rightarrow> ('w fixture_state, string) step" where
  "fixture_execute env sid argv stdin st = (case map_of (snd st) sid of
     None \<Rightarrow> (Inl (KeyError sid), st)
   | Some run \<Rightarrow>
       (let eid = sid @ '':exec:'' @ show_nat (length (fu_executions run))
        in case fx_run env argv stdin (timeout_seconds (limits (fu_spec run))) (fst st) of
             (Inl e, w) \<Rightarrow> (Inl e, w, snd st)
           | (Inr (code, out, err), w) \<Rightarrow>
               (let x = \<lparr>fe_argv = argv, fe_stdin = map_option text_digest stdin, fe_code = code, fe_out = out, fe_err = err\<rparr>
                in (Inr eid, w, dict_set sid (run\<lparr>fu_executions := dict_set eid x (fu_executions run)\<rparr>) (snd st)))))"

text \<open>\<open>s.rsplit(sep, 1)[0]\<close>: the text before the last occurrence of the separator.\<close>

fun last_cut :: "string \<Rightarrow> string \<Rightarrow> string option" where
  "last_cut sep [] = None"
| "last_cut sep (c # cs) = (case last_cut sep cs of
     Some p \<Rightarrow> Some (c # p)
   | None \<Rightarrow> if starts_with (c # cs) sep then Some [] else None)"

definition before_last :: "string \<Rightarrow> string \<Rightarrow> string" where
  "before_last sep s = (case last_cut sep s of None \<Rightarrow> s | Some p \<Rightarrow> p)"

definition fixture_bundle :: "'w fixture_env \<Rightarrow> string \<Rightarrow> string \<Rightarrow> run_spec \<Rightarrow> fixture_execution \<Rightarrow> evidence_bundle" where
  "fixture_bundle env rid eid spec x = (empty_evidence rid)\<lparr>
     ev_provenance_digest := provenance_digest (skill spec), exit_code := Some (fe_code x),
     ev_stdout := fe_out x, ev_stderr := fe_err x,
     commands := [[(''execution_id'', JStr eid), (''argv'', strs (fe_argv x)), (''requested_argv'', strs (fe_argv x)),
       (''stdin_digest'', opt_str (fe_stdin x)), (''exit_code'', JInt (fe_code x))]],
     assertions := [(''runtime_completed'', True)],
     runtime_metadata := [(''backend'', JStr ''local-browser-fixture''), (''runtime_backend'', JStr (backend_value Fake)),
       (''verification_state'', JStr ''deterministic-local-browser-integration''), (''isolation'', JStr ''none''),
       (''workspace_root'', JStr (fx_workspace env)), (''command_digest'', JStr (text_digest (join [CHR 0x00] (fe_argv x))))]\<rparr>"

definition fixture_collect :: "'w fixture_env \<Rightarrow> string \<Rightarrow> string \<Rightarrow> ('w fixture_state, evidence_bundle) step" where
  "fixture_collect env rid eid st = (let sid = before_last '':exec:'' eid in
     case map_of (snd st) sid of
       None \<Rightarrow> (Inl (KeyError sid), st)
     | Some run \<Rightarrow> (case map_of (fu_executions run) eid of
         None \<Rightarrow> (Inl (KeyError eid), st)
       | Some x \<Rightarrow> (Inr (mark_evidence_captured (fixture_bundle env rid eid (fu_spec run) x) fixture_evidence
           (Some (backend_value Fake))), st)))"

definition fixture_destroy :: "string \<Rightarrow> ('w fixture_state, unit) step" where
  "fixture_destroy sid st = (Inr (), fst st, dict_pop sid (snd st))"

definition fixture_capabilities :: capability_set where
  "fixture_capabilities = \<lparr>kernel_or_vm_isolation = False, network_deny_by_default = False, l7_http_policy = False,
     filesystem_policy = False, brokered_secrets = False, process_telemetry = False, snapshot_restore = False,
     persistent_filesystem = False, cap_gpu = False, network_telemetry = False, stdin_stream = True\<rparr>"

definition fixture_runtime :: "'w fixture_env \<Rightarrow> 'w fixture_state runtime_adapter" where
  "fixture_runtime env = \<lparr>ra_backend = Fake, ra_capabilities = fixture_capabilities, ra_evidence = fixture_evidence,
     ra_prepare = fixture_prepare env, ra_execute = fixture_execute env, ra_collect = fixture_collect env,
     ra_destroy = fixture_destroy\<rparr>"

end
