(* ===== verification/RunnerProcessProperties.thy ===== *)
theory RunnerProcessProperties
  imports RunnerProcess BrowserRunnerProperties AdapterProperties LogEncoding
begin

text \<open>
  The processes do what the plan's command says: a compiled configuration arrives unchanged over the
  command line or the standard input, the process runs exactly it, and what it prints is the receipt the
  adapter accepts. The local runtime is a second faithful runtime.
\<close>

section \<open>Base64 over the command line\<close>

lemma first_digit:
  "of_char a div 4 < (64 :: nat)"
  "(1024 * of_char a + of_char b * 4) div 4096 < (64 :: nat)"
  "(65536 * of_char a + of_char b * 256 + of_char c) div 262144 < (64 :: nat)"
proof -
  have le: "of_char a \<le> (255 :: nat)" "of_char b \<le> (255 :: nat)" "of_char c \<le> (255 :: nat)"
    using of_char_256 [of a] of_char_256 [of b] of_char_256 [of c] by linarith+
  then show "of_char a div 4 < (64 :: nat)" by (simp add: div_less_iff_less_mult)
  from le have "1024 * of_char a + of_char b * 4 < (262144 :: nat)" by linarith
  then show "(1024 * of_char a + of_char b * 4) div 4096 < (64 :: nat)" by (simp add: div_less_iff_less_mult)
  from le have "65536 * of_char a + of_char b * 256 + of_char c < (16777216 :: nat)" by linarith
  then show "(65536 * of_char a + of_char b * 256 + of_char c) div 262144 < (64 :: nat)" by (simp add: div_less_iff_less_mult)
qed

lemma b64_encode_all:
  assumes "\<And>n. n < 64 \<Longrightarrow> P (std_digit n)" and "P (CHR ''='')"
  shows "list_all P (b64_encode bs)"
  by (induction bs rule: b64_encode.induct) (simp_all add: Let_def assms first_digit)

lemma b64_raw_all:
  assumes "\<And>n. n < 64 \<Longrightarrow> P (b64_digit n)"
  shows "list_all P (b64_raw bs)"
  by (induction bs rule: b64_raw.induct) (simp_all add: Let_def assms first_digit)

lemma digit_tables:
  "list_all (\<lambda>n. from_url (b64_digit n) = std_digit n \<and> \<not> non_ascii (b64_digit n)
     \<and> from_url (to_url (std_digit n)) = std_digit n \<and> \<not> non_ascii (to_url (std_digit n))) [0..<64]"
  by code_simp

lemma digits:
  assumes "n < 64"
  shows "from_url (b64_digit n) = std_digit n" "\<not> non_ascii (b64_digit n)"
    "from_url (to_url (std_digit n)) = std_digit n" "\<not> non_ascii (to_url (std_digit n))"
  using digit_tables assms by (auto simp: list_all_iff)

lemma pad_char: "from_url (CHR ''='') = CHR ''=''" "to_url (CHR ''='') = CHR ''=''" "\<not> non_ascii (CHR ''='')"
  by code_simp+

lemma urlsafe_back: "map from_url (urlsafe_b64encode bs) = b64_encode bs" "\<not> list_ex non_ascii (urlsafe_b64encode bs)"
proof -
  have "list_all (\<lambda>ch. from_url (to_url ch) = ch \<and> \<not> non_ascii (to_url ch)) (b64_encode bs)"
    by (rule b64_encode_all) (simp_all add: digits pad_char)
  then show "map from_url (urlsafe_b64encode bs) = b64_encode bs" "\<not> list_ex non_ascii (urlsafe_b64encode bs)"
    by (auto simp: urlsafe_b64encode_def list_all_iff list_ex_iff intro: map_idI)
qed

lemma padding_group: "b64_padding (w # x # y # z # v) = b64_padding v"
  by (simp add: b64_padding_def)

lemma raw_back: "map from_url (b64_raw bs @ b64_padding (b64_raw bs)) = b64_encode bs" "\<not> list_ex non_ascii (b64_raw bs)"
proof -
  show "map from_url (b64_raw bs @ b64_padding (b64_raw bs)) = b64_encode bs"
  proof (induction bs rule: b64_raw.induct)
    case (4 a b c r)
    then show ?case by (simp add: Let_def digits first_digit padding_group)
  qed (simp_all add: Let_def digits first_digit b64_padding_def pad_char numeral_2_eq_2)
  have "list_all (\<lambda>ch. \<not> non_ascii ch) (b64_raw bs)" by (rule b64_raw_all) (rule digits(2))
  then show "\<not> list_ex non_ascii (b64_raw bs)" by (auto simp: list_all_iff list_ex_iff)
qed

lemma lenient_roundtrip: "b64_decode_lenient (b64_encode bs) = Some bs"
  by (simp add: b64_decode_lenient_def b64_roundtrip)

section \<open>Configurations arrive unchanged\<close>

lemma plain_browser_action: "plain (action_json a)"
  by (cases a) simp_all

lemma plain_browser_config: "plain (browser_config_json cfg)"
  by (simp add: browser_config_json_def config_payload_def browser_contract_json_def list_all_iff plain_browser_action)

lemma dumps_nonempty: "plain v \<Longrightarrow> dumps v \<noteq> []"
  using length_dumps_pos by force

lemma browser_config_read:
  assumes "validate_browser_config cfg = Inr cfg" and "dec (canon (browser_config_json cfg)) = Inr cfg"
  shows "stdin_config dec (dumps (browser_config_json cfg)) = Inr cfg"
    and "decode_browser_runner_config dec (encode_browser_runner_config cfg) = Inr cfg"
proof -
  note facts = loads_dumps [OF plain_browser_config [of cfg]] dumps_nonempty [OF plain_browser_config [of cfg]]
  show "stdin_config dec (dumps (browser_config_json cfg)) = Inr cfg"
    by (simp add: stdin_config_def facts assms)
  have "browser_config_bytes (encode_browser_runner_config cfg)
      = Some (utf8 (dumps (browser_config_json cfg)), canon (browser_config_json cfg))"
    by (simp add: browser_config_bytes_def encode_browser_runner_config_def urlsafe_back facts)
  then show "decode_browser_runner_config dec (encode_browser_runner_config cfg) = Inr cfg"
    by (simp add: decode_browser_runner_config_def assms)
qed

lemma coding_config_read:
  assumes "validate_config cfg = Inr cfg" and "dec (utf8 (dump (config_json cfg))) = Inr cfg"
  shows "decode_runner_config dec (encode_runner_config dump cfg) = Inr cfg"
  by (simp add: decode_runner_config_def encode_runner_config_def raw_back [simplified] lenient_roundtrip assms)

lemma validate_browser_config_Inr: "validate_browser_config a = Inr b \<Longrightarrow> b = a"
  by (auto simp: validate_browser_config_def rbind_Inr_iff guard_simps)

lemma stdin_config_Inr:
  assumes "stdin_config dec raw = Inr cfg"
  shows "raw = dumps (browser_config_json cfg) \<and> validate_browser_config cfg = Inr cfg"
proof -
  from assms obtain t where "validate_browser_config t = Inr cfg" "raw = dumps (browser_config_json cfg)"
    by (auto simp: stdin_config_def rbind_Inr_iff split: if_splits option.splits)
  then show ?thesis using validate_browser_config_Inr by metis
qed

lemma decoded_config_Inr:
  assumes "decode_browser_runner_config dec v = Inr cfg"
  shows "b64_decode_strict (map from_url v) = Some (utf8 (dumps (browser_config_json cfg))) \<and> validate_browser_config cfg = Inr cfg"
proof -
  from assms obtain t parsed where "browser_config_bytes v = Some (utf8 (dumps (browser_config_json cfg)), parsed)" "validate_browser_config t = Inr cfg"
    by (auto simp: decode_browser_runner_config_def rbind_Inr_iff split: if_splits option.splits)
  then show ?thesis using validate_browser_config_Inr
    by (auto simp: browser_config_bytes_def bind_eq_Some_conv split: if_splits)
qed

section \<open>What the processes print\<close>

text \<open>The exit code is 0 only for a passing run of a configuration whose canonical encoding is exactly
  what the process was given, on the standard input or on the command line; anything else, an exception
  included, ends with another exit code.\<close>

lemma exit_zero_iff: "pe_code (fst (browser_process env cwd conf)) = 0 \<longleftrightarrow>
    (\<exists>cfg r st. conf = Inr cfg \<and> execute_browser env cfg cwd = (Inr r, st) \<and> br_outcome r = ''pass'')"
  by (auto simp: browser_process_def browser_end_def split: sum.splits prod.splits)

theorem runner_process_fails_closed:
  "(pe_code (fst (browser_entrypoint dec env cwd raw)) = 0 \<longleftrightarrow>
      (\<exists>cfg r st. stdin_config dec raw = Inr cfg \<and> raw = dumps (browser_config_json cfg) \<and> validate_browser_config cfg = Inr cfg
        \<and> execute_browser env cfg cwd = (Inr r, st) \<and> br_outcome r = ''pass''))
   \<and> (pe_code (fst (browser_runner_main dec env cwd v)) = 0 \<longleftrightarrow>
      (\<exists>cfg r st. decode_browser_runner_config dec v = Inr cfg
        \<and> b64_decode_strict (map from_url v) = Some (utf8 (dumps (browser_config_json cfg))) \<and> validate_browser_config cfg = Inr cfg
        \<and> execute_browser env cfg cwd = (Inr r, st) \<and> br_outcome r = ''pass''))"
  unfolding browser_entrypoint_def browser_runner_main_def exit_zero_iff
  using stdin_config_Inr [of dec raw] decoded_config_Inr [of dec v] by blast

text \<open>The decoder of the adapter reads a printed receipt back.\<close>

definition read_back :: "(json \<Rightarrow> browser_receipt res) \<Rightarrow> browser_receipt \<Rightarrow> bool" where
  "read_back decode r \<longleftrightarrow> plain (JObj (browser_receipt_obj r)) \<and> decode (canon (JObj (browser_receipt_obj r))) = Inr r"

lemma one_line_append: "\<lbrakk>CHR 0x0A \<notin> set t; t \<noteq> []\<rbrakk> \<Longrightarrow> one_line (t @ [CHR 0x0A]) = Inr t"
  by (simp add: one_line_def)

lemma printed_line:
  assumes "plain v"
  shows "one_line (dumps v @ [CHR 0x0A]) = Inr (dumps v)"
proof -
  have "\<not> printable (CHR 0x0A)" by code_simp
  then have "CHR 0x0A \<notin> set (dumps v)" using printable_dumps [OF assms] by (auto simp: list_all_iff)
  then show ?thesis using dumps_nonempty [OF assms] by (rule one_line_append)
qed

lemma printed_receipt:
  assumes "read_back decode r" and "validate_browser_receipt r = Inr r"
  shows "parse_browser_receipt decode (dumps (JObj (browser_receipt_obj r)) @ [CHR 0x0A]) = Inr r"
proof -
  define v where "v = JObj (browser_receipt_obj r)"
  have v: "plain v" "decode (canon v) = Inr r" using assms(1) by (simp_all only: read_back_def v_def)
  show ?thesis unfolding parse_browser_receipt_def v_def [symmetric] printed_line [OF v(1)]
    by (simp add: loads_dumps [OF v(1)] v(2) assms(2) v_def [symmetric] del: dumps.simps)
qed

lemma passing_checks:
  assumes "execute_browser env cfg cwd = (Inr r, st)" "br_outcome r = ''pass''"
  shows "br_driver_version r = bc_driver_version (bcfg_contract cfg)"
proof -
  obtain err checks st0 where r: "r = runner_receipt env cfg err checks st" "checks = runner_checks env (bcfg_contract cfg) st0"
    using execute_receipt [OF assms(1)] by blast
  then have "list_all snd checks" using assms(2) receipt_fields(16) by simp
  then show ?thesis by (simp add: r runner_checks_def receipt_fields)
qed

text \<open>C35: A compiled browser configuration runs unchanged in both processes; the exit code is 0 exactly for a
  passing receipt, the adapter parses what is printed back to the receipt, and against the plan that
  receipt can only differ in the number of pages and, when it does not pass, in the driver's version.\<close>

theorem browser_process_faithful:
  assumes "build_browser_runner_config (hp_run_id p) c = Inr cfg" and "dec (canon (browser_config_json cfg)) = Inr cfg"
    and "hp_stdin_digest p = Some (text_digest (dumps (browser_config_json cfg)))"
    and "execute_browser env cfg cwd = (Inr r, st)" and "read_back decode r"
  shows "browser_entrypoint dec env cwd (dumps (browser_config_json cfg)) = (browser_end (Inr r), Some st)
    \<and> browser_runner_main dec env cwd (encode_browser_runner_config cfg) = (browser_end (Inr r), Some st)
    \<and> (pe_code (browser_end (Inr r)) = 0 \<longleftrightarrow> br_outcome r = ''pass'')
    \<and> parse_browser_receipt decode (pe_stdout (browser_end (Inr r))) = Inr r
    \<and> set (browser_mismatches c p cfg r) \<subseteq> (if br_outcome r = ''pass'' then {''page_count''} else {''driver_version'', ''page_count''})"
proof -
  have "\<exists>base. validate_browser_config base = Inr cfg" using assms(1) by (auto simp: build_browser_runner_config_def Let_def)
  then have valid: "validate_browser_config cfg = Inr cfg" using validate_browser_config_Inr by blast
  have fields: "bcfg_contract cfg = c" "bcfg_run_id cfg = hp_run_id p" using build_browser_config_Inr [OF assms(1)] by simp_all
  note read = browser_config_read [where dec = dec, OF valid assms(2)]
  obtain err checks st0 where rr: "r = runner_receipt env cfg err checks st" "validate_browser_receipt r = Inr r"
    using execute_receipt [OF assms(4)] by blast
  have budget: "within_budgets c start_state"
    using valid_budgets [OF valid] by (simp add: within_budgets_def start_state_def console_size_def fields)
  have b: "within_budgets c st" using budgets.execute_inv [OF budget] fields(1) assms(4) by metis
  have digests: "bcfg_contract_digest cfg = browser_contract_digest c" "bcfg_action_plan_digest cfg = browser_action_plan_digest (actions c)"
    using valid by (auto simp: validate_browser_config_def rbind_Inr_iff guard_simps fields)
  have same: "br_browser r = bc_browser c" "br_headless r = bc_headless c"
    by (simp_all add: rr(1) runner_receipt_def Let_def fields)
  have "set (browser_mismatches c p cfg r) \<subseteq> (if br_outcome r = ''pass'' then {''page_count''} else {''driver_version'', ''page_count''})"
    using passing_checks [OF assms(4)] b same digests assms(3)
    by (auto simp: browser_mismatches_def mismatches_def fields rr(1) receipt_fields within_budgets_def)
  moreover have "parse_browser_receipt decode (pe_stdout (browser_end (Inr r))) = Inr r"
    using printed_receipt [OF assms(5) rr(2)] by (simp add: browser_end_def)
  ultimately show ?thesis
    by (simp add: browser_entrypoint_def browser_runner_main_def read browser_process_def assms(4) browser_end_def)
qed

text \<open>The same for the coding runner and the words of its command.\<close>

lemma coding_process_runs_plan:
  assumes "build_runner_config rid t child c = Inr cfg" and "dec (utf8 (dump (config_json cfg))) = Inr cfg"
    and "execute_coding_agent os cfg child t w = Inr r"
  shows "coding_main dec dump os (encode_runner_config dump cfg) (''--'' # child) t w =
    \<lparr>pe_code = (if outcome r = ''pass'' then 0 else 2), pe_stdout = dump (JObj (receipt_obj r)) @ [CHR 0x0A], pe_stderr = []\<rparr>"
proof -
  have "validate_config cfg = Inr cfg"
    using assms(1) by (auto simp: build_runner_config_def validate_config_def rbind_Inr_iff guard_simps)
  from coding_config_read [where dec = dec and dump = dump, OF this assms(2)] show ?thesis by (simp add: coding_main_def child_of_def assms(3))
qed

section \<open>A concrete run\<close>

lemma plain_receipt:
  assumes "list_all (\<lambda>e. plain (JObj (be_details e))) (br_events r)" "list_all (\<lambda>d. plain (JObj d)) (network_events r)"
    "list_all (\<lambda>d. plain (JObj d)) (console_events r)" "distinct (map fst (br_assertions r))" "distinct (map fst (br_policy_checks r))"
  shows "plain (JObj (browser_receipt_obj r))"
  using assms by (simp add: browser_receipt_obj_def browser_receipt_payload_def event_json_def artifact_obj_def list_all_iff
    comp_def case_prod_unfold)

lemma quiet_plain:
  "\<exists>s. session_end (page_env ''1.40.0'' []) bare_config ''/w'' = (None, s) \<and> xs_violations s = [] \<and> xs_seen_pages s = 1
   \<and> list_all (\<lambda>e. plain (JObj (be_details e))) (xs_events s) \<and> xs_network s = [] \<and> xs_console s = []
   \<and> distinct (map fst (xs_assertions s))"
  by (simp add: session_end_def close_browser_def bare_simps sample_simps open_page early_page home_origin runner_checks_def
   browser_eval browser_defs cong: sbind_cong_weak)

definition read_plan :: harness_plan where
  "read_plan = (agent_plan sample_env)\<lparr>hp_run_id := ''r1'',
     hp_stdin_digest := Some (text_digest (dumps (browser_config_json sample_browser_config)))\<rparr>"

lemma sample_browser_built: "build_browser_runner_config ''r1'' sample_browser_contract = Inr sample_browser_config"
  using sample_browser_config_valid by (simp add: build_browser_runner_config_def sample_browser_config_def bare_config_def Let_def)

lemma quiet_receipt:
  "\<exists>r st. execute_browser (page_env ''1.40.0'' []) sample_browser_config ''/w'' = (Inr r, st) \<and> br_outcome r = ''pass''
     \<and> plain (JObj (browser_receipt_obj r))"
proof -
  let ?env = "page_env ''1.40.0'' []"
  obtain r st where run: "execute_browser ?env sample_browser_config ''/w'' = (Inr r, st)" "br_outcome r = ''pass''" using quiet_run by blast
  obtain s where s: "session_end ?env bare_config ''/w'' = (None, s)" "xs_violations s = []" "xs_seen_pages s = 1"
    "list_all (\<lambda>e. plain (JObj (be_details e))) (xs_events s)" "xs_network s = []" "xs_console s = []" "distinct (map fst (xs_assertions s))"
    using quiet_plain by blast
  obtain err st0 checks where e: "session_end ?env sample_browser_config ''/w'' = (err, st0)"
    "checks = runner_checks ?env sample_browser_contract st0" "r = runner_receipt ?env sample_browser_config err checks st"
    "st = (if max_pages sample_browser_contract < int (xs_seen_pages st0) then add_violation sample_browser_contract ''page budget exceeded'' st0 else st0)"
    using execute_receipt [OF run(1)] by (auto simp: sample_config_reads)
  have "st0 = s" using e(1) s(1) by (simp add: sample_config_reads)
  then have "st = s" using e(4) s(3) by (simp add: sample_simps)
  moreover have "distinct (map fst checks)" by (simp add: e(2) runner_checks_def)
  ultimately have "plain (JObj (browser_receipt_obj r))"
    using s(4-7) by (intro plain_receipt) (simp_all add: e(3) receipt_fields)
  then show ?thesis using run by blast
qed

theorem browser_process_faithful_witness:
  "\<exists>r st. browser_entrypoint (\<lambda>_. Inr sample_browser_config) (page_env ''1.40.0'' []) ''/w'' (dumps (browser_config_json sample_browser_config))
      = (browser_end (Inr r), Some st)
    \<and> pe_code (browser_end (Inr r)) = 0 \<and> parse_browser_receipt (\<lambda>_. Inr r) (pe_stdout (browser_end (Inr r))) = Inr r
    \<and> set (browser_mismatches sample_browser_contract read_plan sample_browser_config r) \<subseteq> {''page_count''}"
proof -
  obtain r st where run: "execute_browser (page_env ''1.40.0'' []) sample_browser_config ''/w'' = (Inr r, st)" "br_outcome r = ''pass''"
    "plain (JObj (browser_receipt_obj r))" using quiet_receipt by blast
  have p: "build_browser_runner_config (hp_run_id read_plan) sample_browser_contract = Inr sample_browser_config"
    "hp_stdin_digest read_plan = Some (text_digest (dumps (browser_config_json sample_browser_config)))"
    by (simp_all add: read_plan_def sample_browser_built)
  have "read_back (\<lambda>_. Inr r) r" using run(3) by (simp add: read_back_def)
  from browser_process_faithful [OF p(1) _ p(2) run(1) this, of "\<lambda>_. Inr sample_browser_config"] run(2)
  show ?thesis by auto
qed

section \<open>The local runtime is faithful\<close>

lemma last_cut_append: "last_cut sep t = Some p \<Longrightarrow> last_cut sep (s @ t) = Some (s @ p)"
  by (induction s) auto

lemma last_cut_none: "CHR '':'' \<notin> set t \<Longrightarrow> last_cut '':exec:'' t = None"
  by (induction t) (auto simp: starts_with_iff)

lemma last_cut_head:
  assumes "CHR '':'' \<notin> set t"
  shows "last_cut '':exec:'' ('':exec:'' @ t) = Some []"
proof -
  have "take n t \<noteq> ''exec:''" for n using assms in_set_takeD [of "CHR '':''" n t] by auto
  then show ?thesis using last_cut_none [OF assms] by (auto simp: starts_with_def)
qed

lemma last_cut_exec:
  assumes "CHR '':'' \<notin> set t"
  shows "last_cut '':exec:'' (s @ '':exec:'' @ t) = Some s"
  using last_cut_append [OF last_cut_head [OF assms], of s] by (simp only: append_Nil2)

lemma no_colon: "CHR '':'' \<notin> set (show_nat n)"
  using show_nat_digits [of n] by (auto simp: list_all_iff is_digit_char_def)

text \<open>It accepts a fresh specification when the workspace can be made and its processes return; a run id
  that contains the separator does no harm.\<close>

definition fixture_accepts :: "'w fixture_env \<Rightarrow> run_spec \<Rightarrow> 'w fixture_state \<Rightarrow> bool" where
  "fixture_accepts env spec st \<longleftrightarrow> fst (fx_mkdir env (fst st)) = Inr ()
     \<and> ''browser-fixture:'' @ spec_run_id spec \<notin> set (dict_keys (snd st))
     \<and> (\<forall>argv stdin w. \<exists>r. fst (fx_run env argv stdin (timeout_seconds (limits spec)) w) = Inr r)"

lemma fixture_round:
  assumes "fixture_accepts env spec st"
  shows "\<exists>sid st1 eid st2 ev st3 st4.
      ra_prepare (fixture_runtime env) spec st = (Inr sid, st1) \<and>
      ra_execute (fixture_runtime env) sid argv stdin st1 = (Inr eid, st2) \<and>
      ra_collect (fixture_runtime env) (spec_run_id spec) eid st2 = (Inr ev, st3) \<and>
      ra_destroy (fixture_runtime env) sid st3 = (Inr (), st4) \<and> snd st4 = snd st \<and>
      ev_run_id ev = spec_run_id spec \<and>
      ev_provenance_digest ev = provenance_digest (skill spec) \<and>
      map_of (runtime_metadata ev) ''runtime_backend'' = Some (JStr (backend_value (ra_backend (fixture_runtime env)))) \<and>
      (\<exists>r \<in> set (commands ev). records_command argv stdin r) \<and>
      set (ra_evidence (fixture_runtime env)) \<subseteq> set (captured_evidence ev)"
proof -
  define sid where "sid = ''browser-fixture:'' @ spec_run_id spec"
  obtain w1 where w1: "fx_mkdir env (fst st) = (Inr (), w1)" using assms by (cases "fx_mkdir env (fst st)") (auto simp: fixture_accepts_def)
  obtain code out err w2 where w2: "fx_run env argv stdin (timeout_seconds (limits spec)) w1 = (Inr (code, out, err), w2)"
    using assms unfolding fixture_accepts_def by (metis prod.collapse)
  have cut: "before_last '':exec:'' (sid @ '':exec:'' @ show_nat 0) = sid"
    by (simp only: before_last_def last_cut_exec [OF no_colon] option.case)
  have fresh: "sid \<notin> set (dict_keys (snd st))" using assms by (simp add: fixture_accepts_def sid_def)
  show ?thesis
    by (simp add: fixture_runtime_def fixture_prepare_def fixture_execute_def fixture_collect_def fixture_destroy_def w1 w2
        sid_def [symmetric] Let_def cut dict_pop_set_fresh [OF fresh] mark_runtime_backend fixture_bundle_def empty_evidence_def
        records_command_def jget_default_def jget_null_def del: append.simps)
qed

interpretation fixture: faithful_runtime "fixture_runtime env" "fixture_accepts env" "\<lambda>st st'. snd st' = snd st" for env
  by unfold_locales (rule refl, rule fixture_round)

end
