(* ===== verification/AttestCommand.thy ===== *)
theory AttestCommand
  imports Transparency RunnerProcess
begin

text \<open>
  \<open>attestation_cli.py\<close>: the command line of the attestation tools, after \<open>argparse\<close>. The file system is
  three stores, by path: the JSON documents, the key files and the logs; a path is used for one of them.
  Pydantic's decoders, the key material and the faults of writing are the fields of \<open>attest_cli\<close>.
\<close>

section \<open>Commands and files\<close>

datatype attest_command =
    GenerateKey string string bool
  | CreatePolicy string "string list" "string option" "string option" "string option" "string option" "string option" bool string
  | ExportSchemas string
  | LogVerify string string
  | ReceiptVerify string string string
  | SignBundle string string string string
  | VerifyBundle string string string string string
  | LogAppend string string string string string string string

record command_files =
  cm_docs :: "string \<rightharpoonup> bytes"
  cm_keys :: key_files
  cm_logs :: "string \<Rightarrow> log_files"

record ('sk, 'pk) attest_cli =
  cl_crypto :: "('sk, 'pk) ed25519"
  cl_pem :: "('sk, 'pk) pem_codec"
  cl_new_key :: 'sk
  cl_resolve :: "string \<Rightarrow> string"
  cl_decoders :: log_decoders
  cl_bundle :: "json \<Rightarrow> artifact_bundle res"
  cl_identity :: "json \<Rightarrow> attester_identity res"
  cl_envelope :: "json \<Rightarrow> dsse_envelope res"
  cl_policy :: "json \<Rightarrow> trust_policy res"
  cl_receipt :: "json \<Rightarrow> inclusion_receipt res"
  cl_fault :: "string \<Rightarrow> exn option"
  cl_schemas :: "(string \<times> json) list"

section \<open>Documents\<close>

text \<open>\<open>_load_json\<close>.\<close>

definition document_of :: "string \<Rightarrow> command_files \<Rightarrow> json res" where
  "document_of path st = (case cm_docs st path of
     None \<Rightarrow> Inl (OSError path)
   | Some b \<Rightarrow> (case utf8_strict b of
       None \<Rightarrow> Inl (ValueError path)
     | Some t \<Rightarrow> (case loads t of
         None \<Rightarrow> Inl (OtherError ''JSONDecodeError'' path)
       | Some (JObj d) \<Rightarrow> Inr (JObj d)
       | Some _ \<Rightarrow> Inl (AttestationError (path @ '' must contain a JSON object'')))))"

text \<open>\<open>Model.model_validate(_load_json(path))\<close>: the decoder and the validators of the model.\<close>

definition read_model :: "(json \<Rightarrow> 'a res) \<Rightarrow> ('a \<Rightarrow> 'a res) \<Rightarrow> string \<Rightarrow> (command_files, 'a) step" where
  "read_model dec valid path st = (rbind (document_of path st) (\<lambda>v. rbind (dec v) valid), st)"

text \<open>\<open>_write_json\<close>.\<close>

definition write_text_file :: "('sk, 'pk) attest_cli \<Rightarrow> string \<Rightarrow> string \<Rightarrow> (command_files, unit) step" where
  "write_text_file env path t st = (case cl_fault env path of
     Some e \<Rightarrow> (Inl e, st)
   | None \<Rightarrow> (Inr (), st\<lparr>cm_docs := (cm_docs st)(path \<mapsto> utf8 t)\<rparr>))"

definition write_document :: "('sk, 'pk) attest_cli \<Rightarrow> string \<Rightarrow> json \<Rightarrow> (command_files, unit) step" where
  "write_document env path v = write_text_file env path (dumps_indent 0 v @ [CHR 0x0A])"

text \<open>\<open>json.dumps(v, indent=2)\<close>, which keeps the order of the keys.\<close>

fun dumps_listed :: "nat \<Rightarrow> json \<Rightarrow> string" where
  "dumps_listed n (JArr xs) = (if xs = [] then ''[]'' else
     ''['' @ indent_line (Suc n) @ join ('','' @ indent_line (Suc n)) (map (dumps_listed (Suc n)) xs) @ indent_line n @ '']'')"
| "dumps_listed n (JObj kvs) = (if kvs = [] then ''{}'' else
     ''{'' @ indent_line (Suc n) @ join ('','' @ indent_line (Suc n))
       (map (\<lambda>(k, v). quote k @ '': '' @ dumps_listed (Suc n) v) kvs) @ indent_line n @ ''}'')"
| "dumps_listed n v = dumps v"

text \<open>\<open>export_attestation_schemas\<close>: pydantic's schemas, one file each, in the order of the dictionary; the
  printed names are sorted.\<close>

fun write_schemas :: "('sk, 'pk) attest_cli \<Rightarrow> string \<Rightarrow> (string \<times> json) list \<Rightarrow> (command_files, unit) step" where
  "write_schemas env out [] = sreturn (Inr ())"
| "write_schemas env out ((n, v) # vs) =
     sbind (write_text_file env (join_path out n) (dumps v @ [CHR 0x0A])) (\<lambda>_. write_schemas env out vs)"

section \<open>The commands\<close>

definition read_bundle :: "('sk, 'pk) attest_cli \<Rightarrow> string \<Rightarrow> (command_files, artifact_bundle) step" where
  "read_bundle env = read_model (cl_bundle env) validate_bundle"

definition envelope_read :: "('sk, 'pk) attest_cli \<Rightarrow> string \<Rightarrow> (command_files, dsse_envelope) step" where
  "envelope_read env = read_model (cl_envelope env) (validate_envelope (ld_statement (cl_decoders env)))"

definition policy_read :: "('sk, 'pk) attest_cli \<Rightarrow> string \<Rightarrow> (command_files, trust_policy) step" where
  "policy_read env = read_model (cl_policy env) validate_trust_policy"

definition key_read :: "('sk, 'pk) attest_cli \<Rightarrow> string \<Rightarrow> (command_files, 'pk) step" where
  "key_read env path st = (load_public_key (cl_pem env) (cm_keys st) path, st)"

definition trust_json :: "trust_policy \<Rightarrow> json" where
  "trust_json p = JObj (trust_payload p @ [(''policy_digest'', JStr (tp_digest p))])"

definition attestation_json :: "attestation_receipt \<Rightarrow> json" where
  "attestation_json r = JObj (attestation_payload r @ [(''receipt_digest'', JStr (av_digest r))])"

definition inclusion_json :: "inclusion_receipt \<Rightarrow> json" where
  "inclusion_json r = JObj (inclusion_payload r @ [(''receipt_digest'', JStr (ir_digest r))])"

definition log_verification_json :: "log_verification \<Rightarrow> json" where
  "log_verification_json v = JObj [(''log_id'', JStr (lv_log_id v)), (''tree_size'', JInt (int (lv_size v))), (''root_hash'', JStr (lv_root v)),
     (''head_entry_digest'', opt_str (lv_head v)), (''checkpoint_digest'', JStr (lv_checkpoint_digest v))]"

definition append_step ::
  "('sk, 'pk) attest_cli \<Rightarrow> string \<Rightarrow> string \<Rightarrow> dsse_envelope \<Rightarrow> artifact_bundle \<Rightarrow> 'pk \<Rightarrow> trust_policy
    \<Rightarrow> (command_files, inclusion_receipt) step" where
  "append_step env lf lid e b pk p st = (case log_append (cl_crypto env) (cl_decoders env) lid e b pk p (cm_logs st lf) of
     (r, fs) \<Rightarrow> (r, st\<lparr>cm_logs := (cm_logs st)(lf := fs)\<rparr>))"

text \<open>The part that \<open>verify\<close> and \<open>log-append\<close> share.\<close>

definition verified_inputs ::
  "('sk, 'pk) attest_cli \<Rightarrow> string \<Rightarrow> string \<Rightarrow> string \<Rightarrow> string
    \<Rightarrow> (command_files, artifact_bundle \<times> dsse_envelope \<times> trust_policy \<times> attestation_receipt) step" where
  "verified_inputs env bf ef kf pf =
     sbind (read_bundle env bf) (\<lambda>b. sbind (envelope_read env ef) (\<lambda>e. sbind (policy_read env pf) (\<lambda>p.
     sbind (key_read env kf) (\<lambda>pk.
     sbind (sreturn (verify_attestation (cl_crypto env) (ld_statement (cl_decoders env)) b e pk p)) (\<lambda>r.
       sreturn (Inr (b, e, p, r)))))))"

fun attest_step :: "('sk, 'pk) attest_cli \<Rightarrow> attest_command \<Rightarrow> (command_files, string) step" where
  "attest_step env (GenerateKey skf pkf overwrite) = (\<lambda>st.
     (case generate_keypair (cl_crypto env) (cl_pem env) (cl_resolve env) (cl_new_key env) skf pkf overwrite (cm_keys st) of
        (r, ks) \<Rightarrow> (rbind r (\<lambda>k. Inr (dumps_listed 0 (JObj [(''key_id'', JStr k)]))), st\<lparr>cm_keys := ks\<rparr>)))"
| "attest_step env (CreatePolicy pid keys iss sub repo wref com rank out) = (\<lambda>st.
     (case rbind (traverse (load_public_key (cl_pem env) (cm_keys st)) keys) (\<lambda>pks.
        build_trust_policy pid (map (key_id_for_public_key (cl_crypto env)) pks) iss sub repo wref com rank) of
        Inl e \<Rightarrow> (Inl e, st)
      | Inr p \<Rightarrow> sbind (write_document env out (trust_json p)) (\<lambda>_. sreturn (Inr out)) st))"
| "attest_step env (ExportSchemas out) =
     sbind (write_schemas env out (cl_schemas env)) (\<lambda>_. sreturn (Inr (dumps_listed 0
       (JObj (map (\<lambda>n. (n, JStr (join_path out n))) (sort (map fst (cl_schemas env))))))))"
| "attest_step env (LogVerify lf lid) = (\<lambda>st.
     (rbind (log_verify (cl_decoders env) lid (cm_logs st lf)) (\<lambda>v. Inr (dumps_listed 0 (log_verification_json v))), st))"
| "attest_step env (ReceiptVerify lf lid rf) =
     sbind (read_model (cl_receipt env) validate_inclusion rf) (\<lambda>r.
     sbind (\<lambda>st. (verify_receipt (cl_decoders env) lid r (cm_logs st lf), st)) (\<lambda>_.
       sreturn (Inr (dumps_listed 0 (JObj [(''valid'', JBool True), (''receipt_digest'', JStr (ir_digest r))])))))"
| "attest_step env (SignBundle bf idf kf out) =
     sbind (read_bundle env bf) (\<lambda>b. sbind (read_model (cl_identity env) validate_attester idf) (\<lambda>i.
     sbind (\<lambda>st. (load_private_key (cl_pem env) (cm_keys st) kf, st)) (\<lambda>sk.
     sbind (sreturn (sign_bundle (cl_crypto env) (ld_statement (cl_decoders env)) b i sk)) (\<lambda>e.
     sbind (write_document env out (envelope_json e)) (\<lambda>_. sreturn (Inr out))))))"
| "attest_step env (VerifyBundle bf ef kf pf out) =
     sbind (verified_inputs env bf ef kf pf) (\<lambda>(b, e, p, r).
     sbind (write_document env out (attestation_json r)) (\<lambda>_. sreturn (Inr out)))"
| "attest_step env (LogAppend bf ef kf pf lf lid out) =
     sbind (verified_inputs env bf ef kf pf) (\<lambda>(b, e, p, r). sbind (key_read env kf) (\<lambda>pk.
     sbind (append_step env lf lid e b pk p) (\<lambda>i.
     sbind (write_document env out (inclusion_json i)) (\<lambda>_. sreturn (Inr out)))))"

text \<open>The exceptions that end with the tool's own message are \<open>ValueError\<close>, its subclasses and
  \<open>OSError\<close>; others leave the interpreter with a traceback, of which the model keeps the last line.\<close>

fun handled_error :: "exn \<Rightarrow> bool" where
  "handled_error (RuntimeError m) = False"
| "handled_error (KeyError m) = False"
| "handled_error (TypeError m) = False"
| "handled_error (AttributeError m) = False"
| "handled_error (OverflowError m) = False"
| "handled_error (AssertionError m) = False"
| "handled_error (OpenShellError m) = False"
| "handled_error (BrowserRunnerError m) = False"
| "handled_error (OtherError n m) = (n = ''JSONDecodeError'')"
| "handled_error e = True"

definition attest_main :: "('sk, 'pk) attest_cli \<Rightarrow> attest_command \<Rightarrow> command_files \<Rightarrow> process_end \<times> command_files" where
  "attest_main env c st = (case attest_step env c st of
     (Inr out, st') \<Rightarrow> (\<lparr>pe_code = 0, pe_stdout = out @ [CHR 0x0A], pe_stderr = []\<rparr>, st')
   | (Inl e, st') \<Rightarrow> (if handled_error e
       then \<lparr>pe_code = 2, pe_stdout = [], pe_stderr = ''skill-native-attest: '' @ exn_message e @ [CHR 0x0A]\<rparr>
       else \<lparr>pe_code = 1, pe_stdout = [], pe_stderr = describe_exn e @ [CHR 0x0A]\<rparr>, st'))"

end
