(* ===== verification/PrettyJson.thy ===== *)
theory PrettyJson
  imports RunArtifacts JsonParser
begin

text \<open>
  The indented layout the command lines write, \<open>json.dumps(v, sort_keys=True, indent=2)\<close>, is read back by
  \<open>json.loads\<close>: the parser skips its white space, so an indented value parses to the same value as the
  canonical encoding.
\<close>

section \<open>White space\<close>

lemma skip_indent [simp]: "skip_ws (indent_line n @ t) = skip_ws t"
proof -
  have "dropWhile is_json_ws (replicate k CHR 0x20 @ t) = dropWhile is_json_ws t" for k
    by (induction k) (simp_all add: is_json_ws_def)
  then show ?thesis by (simp add: skip_ws_def indent_line_def is_json_ws_def)
qed

lemma stops_indent [simp]: "stops (indent_line n @ t)"
  by (simp add: stops_def indent_line_def is_digit_char_def less_eq_char_def)

lemma pretty_first:
  "plain v \<Longrightarrow> \<exists>c cs. dumps_indent n v = c # cs \<and> \<not> is_json_ws c \<and> c \<noteq> CHR '']'' \<and> c \<noteq> CHR ''}''"
proof (cases v)
  case (JArr xs)
  then show ?thesis by (auto simp: is_json_ws_def)
next
  case (JObj kvs)
  then show ?thesis by (auto simp: is_json_ws_def)
qed (use first_char [of v] in auto)

lemma skip_ws_pretty: "plain v \<Longrightarrow> skip_ws (dumps_indent n v @ r) = dumps_indent n v @ r"
  using pretty_first [of v n] by (auto simp: skip_ws_def)

section \<open>Values\<close>

definition pretty_parses :: "json \<Rightarrow> bool" where
  "pretty_parses v \<longleftrightarrow> (\<forall>n d r. fuel_of v \<le> n \<longrightarrow> stops r \<longrightarrow> pval n (dumps_indent d v @ r) = Some (canon v, r))"

abbreviation comma_line :: "nat \<Rightarrow> string" where
  "comma_line d \<equiv> '','' @ indent_line d"

definition pretty_entry :: "nat \<Rightarrow> string \<times> json \<Rightarrow> string" where
  "pretty_entry d kv = quote (fst kv) @ '': '' @ dumps_indent d (snd kv)"

lemma parr_pretty:
  "\<lbrakk>xs \<noteq> []; \<forall>x \<in> set xs. pretty_parses x \<and> plain x; sum_list (map (\<lambda>x. 1 + fuel_of x) xs) \<le> n\<rbrakk> \<Longrightarrow>
    parr n (join (comma_line e) (map (dumps_indent e) xs) @ indent_line d @ '']'' @ r) = Some (map canon xs, r)"
proof (induction xs arbitrary: n)
  case (Cons x xs)
  then obtain m where n: "n = Suc m" by (cases n) auto
  have v: "pval m (dumps_indent e x @ t) = Some (canon x, t)" if "stops t" for t
    using Cons.prems n that by (simp add: pretty_parses_def)
  show ?case
  proof (cases xs)
    case Nil
    then show ?thesis using v [of "indent_line d @ '']'' @ r"] n by simp
  next
    case (Cons y ys)
    let ?rest = "join (comma_line e) (map (dumps_indent e) xs) @ indent_line d @ '']'' @ r"
    have rest: "parr m ?rest = Some (map canon xs, r)"
      using Cons.prems Cons n by (intro Cons.IH) auto
    have ws: "skip_ws ?rest = ?rest"
      using Cons.prems skip_ws_pretty [of y e] Cons by (cases ys) auto
    show ?thesis
      using v [of "comma_line e @ ?rest"] rest ws Cons n by simp
  qed
qed simp

lemma skip_space [simp]: "skip_ws (CHR 0x20 # t) = skip_ws t"
  by (simp add: skip_ws_def is_json_ws_def)

lemma pobj_pretty:
  "\<lbrakk>kvs \<noteq> []; \<forall>kv \<in> set kvs. pretty_parses (snd kv) \<and> plain (snd kv);
    sum_list (map (\<lambda>kv. 1 + fuel_of (snd kv)) kvs) \<le> n\<rbrakk> \<Longrightarrow>
    pobj n (join (comma_line e) (map (pretty_entry e) kvs) @ indent_line d @ ''}'' @ r) = Some (map (\<lambda>(k, v). (k, canon v)) kvs, r)"
proof (induction kvs arbitrary: n)
  case (Cons kv kvs)
  then obtain m where n: "n = Suc m" by (cases n) auto
  obtain k x where kv: "kv = (k, x)" by (cases kv)
  have v: "pval m (dumps_indent e x @ t) = Some (canon x, t)" if "stops t" for t
    using Cons.prems n kv that by (simp add: pretty_parses_def)
  have key: "pstr (concat (map escape_char k) @ CHR 0x22 # t) = Some (k, t)" for t
    by (rule pstr_quote)
  have ws: "skip_ws (dumps_indent e x @ t) = dumps_indent e x @ t" for t
    using Cons.prems kv by (auto intro: skip_ws_pretty)
  show ?case
  proof (cases kvs)
    case Nil
    then show ?thesis
      using v [of "indent_line d @ ''}'' @ r"] key ws n kv by (simp add: pretty_entry_def quote_def)
  next
    case (Cons kv2 ys)
    let ?rest = "join (comma_line e) (map (pretty_entry e) kvs) @ indent_line d @ ''}'' @ r"
    have rest: "pobj m ?rest = Some (map (\<lambda>(k, v). (k, canon v)) kvs, r)"
      using Cons.prems Cons n by (intro Cons.IH) auto
    have ws2: "skip_ws ?rest = ?rest"
      using Cons by (cases ys) (simp_all add: pretty_entry_def quote_def)
    show ?thesis
      using v [of "comma_line e @ ?rest"] key ws ws2 rest Cons n kv
      by (simp add: pretty_entry_def [of e "(k, x)"] quote_def)
  qed
qed simp

lemma pretty_arr:
  "xs \<noteq> [] \<Longrightarrow> dumps_indent d (JArr xs) = ''['' @ indent_line (Suc d) @ join (comma_line (Suc d)) (map (dumps_indent (Suc d)) xs)
     @ indent_line d @ '']''"
  by simp

lemma pretty_obj:
  assumes "kvs \<noteq> []"
  shows "dumps_indent d (JObj kvs) = ''{'' @ indent_line (Suc d) @ join (comma_line (Suc d)) (map (pretty_entry (Suc d)) (sort_key fst kvs))
     @ indent_line d @ ''}''"
proof -
  have e: "(\<lambda>(k, t). quote k @ '': '' @ t) \<circ> (\<lambda>(k, v). (k, dumps_indent (Suc d) v)) = pretty_entry (Suc d)"
    by (auto simp: pretty_entry_def)
  show ?thesis using assms by (simp only: dumps_indent.simps if_False sort_key_map_snd map_map e)
qed

lemma pretty_parses_plain: "plain v \<Longrightarrow> pretty_parses v"
proof (induction v)
  case (JArr xs)
  have el: "\<forall>x \<in> set xs. pretty_parses x \<and> plain x" using JArr by (auto simp: list_all_iff)
  show ?case unfolding pretty_parses_def
  proof (intro allI impI)
    fix n d r assume f: "fuel_of (JArr xs) \<le> n" and "stops r"
    then obtain m where n: "n = Suc m" by (cases n) auto
    show "pval n (dumps_indent d (JArr xs) @ r) = Some (canon (JArr xs), r)"
    proof (cases xs)
      case Nil
      then show ?thesis by (simp add: n)
    next
      case (Cons y ys)
      let ?rest = "join (comma_line (Suc d)) (map (dumps_indent (Suc d)) xs) @ indent_line d @ '']'' @ r"
      obtain c cs where c: "?rest = c # cs" "c \<noteq> CHR '']''" "\<not> is_json_ws c"
        using Cons pretty_first [of y "Suc d"] el by (cases ys) auto
      have "parr m (c # cs) = Some (map canon xs, r)"
        using parr_pretty [OF _ el, of m "Suc d" d r] Cons f n c(1) by simp
      moreover have "skip_ws ?rest = c # cs" using c by (simp add: skip_ws_def)
      moreover have "dumps_indent d (JArr xs) @ r = CHR ''['' # indent_line (Suc d) @ ?rest"
        using pretty_arr [of xs d] Cons by simp
      ultimately show ?thesis using c n by (simp del: dumps_indent.simps)
    qed
  qed
next
  case (JObj kvs)
  let ?s = "sort_key fst kvs"
  have el: "\<forall>kv \<in> set ?s. pretty_parses (snd kv) \<and> plain (snd kv)"
    using JObj by (auto simp: list_all_iff snds.simps)
  have dist: "distinct (map fst ?s)"
    using JObj.prems by (simp add: distinct_map inj_on_def)
  show ?case unfolding pretty_parses_def
  proof (intro allI impI)
    fix n d r assume f: "fuel_of (JObj kvs) \<le> n" and "stops r"
    then obtain m where n: "n = Suc m" by (cases n) auto
    have f': "sum_list (map (\<lambda>kv. 1 + fuel_of (snd kv)) ?s) \<le> m"
      using f n by (simp only: sum_list_sort_key) (simp add: case_prod_unfold)
    show "pval n (dumps_indent d (JObj kvs) @ r) = Some (canon (JObj kvs), r)"
    proof (cases ?s)
      case Nil
      then have "kvs = []" by (metis length_0_conv length_sort)
      then show ?thesis by (simp add: n)
    next
      case (Cons y ys)
      then have ne: "kvs \<noteq> []" by auto
      let ?rest = "join (comma_line (Suc d)) (map (pretty_entry (Suc d)) ?s) @ indent_line d @ ''}'' @ r"
      obtain cs where c: "?rest = CHR 0x22 # cs"
        using Cons by (cases ys) (auto simp: pretty_entry_def quote_def)
      have "pobj m (CHR 0x22 # cs) = Some (map (\<lambda>(k, v). (k, canon v)) ?s, r)"
        using pobj_pretty [OF _ el f', of "Suc d" d r] Cons c by simp
      moreover have "dict_update [] (map (\<lambda>(k, v). (k, canon v)) ?s) = map (\<lambda>(k, v). (k, canon v)) ?s"
        by (rule dict_update_fresh [of "[]", simplified]) (simp add: comp_def case_prod_unfold dist)
      moreover have "dumps_indent d (JObj kvs) @ r = CHR ''{'' # indent_line (Suc d) @ CHR 0x22 # cs"
        using c by (simp add: pretty_obj [OF ne] del: dumps_indent.simps)
      ultimately show ?thesis using n by (simp add: canon_obj del: dumps_indent.simps canon.simps)
    qed
  qed
qed (use parses_plain in \<open>auto simp: pretty_parses_def parses_def simp del: pval.simps dumps.simps\<close>)

section \<open>Documents\<close>

lemma length_join_mono:
  "\<lbrakk>list_all2 (\<lambda>x y. length x \<le> length y) xs ys; length s \<le> length t\<rbrakk> \<Longrightarrow> length (join s xs) \<le> length (join t ys)"
proof (induction s xs arbitrary: ys rule: join.induct)
  case (2 s x)
  then show ?case by (auto simp: list_all2_Cons1)
next
  case (3 s x y xs)
  then obtain x' y' zs where ys: "ys = x' # y' # zs" "length x \<le> length x'" "length y \<le> length y'"
    "list_all2 (\<lambda>x y. length x \<le> length y) xs zs" by (auto simp: list_all2_Cons1)
  have "length (join s (y # xs)) \<le> length (join t (y' # zs))" using 3 ys by (intro 3(1)) auto
  then show ?case using ys 3(3) by simp
qed simp

lemma length_pretty: "length (dumps v) \<le> length (dumps_indent d v)"
proof (induction v arbitrary: d)
  case (JArr xs)
  have "list_all2 (\<lambda>x y. length x \<le> length y) (map dumps xs) (map (dumps_indent (Suc d)) xs)"
    using JArr by (simp add: list_all2_map1 list_all2_map2 list_all2_same)
  from length_join_mono [OF this, of "'',''" "comma_line (Suc d)"] show ?case by simp
next
  case (JObj kvs)
  have "length (entry_text kv) \<le> length (pretty_entry (Suc d) kv)" if "kv \<in> set (sort_key fst kvs)" for kv
  proof -
    have "length (dumps (snd kv)) \<le> length (dumps_indent (Suc d) (snd kv))" using that by (intro JObj [of kv]) (auto simp: snds.simps)
    then show ?thesis by (simp add: entry_text_def pretty_entry_def)
  qed
  then have "list_all2 (\<lambda>x y. length x \<le> length y) (map entry_text (sort_key fst kvs)) (map (pretty_entry (Suc d)) (sort_key fst kvs))"
    by (simp add: list_all2_map1 list_all2_map2 list_all2_same)
  from length_join_mono [OF this, of "'',''" "comma_line (Suc d)"]
  show ?case by (cases "kvs = []") (simp_all add: dumps_obj pretty_obj del: dumps.simps dumps_indent.simps, simp)
qed simp_all

lemma loads_pretty: "plain v \<Longrightarrow> loads (dumps_indent 0 v @ [CHR 0x0A]) = Some (canon v)"
proof -
  assume v: "plain v"
  let ?t = "dumps_indent 0 v @ [CHR 0x0A]"
  have nl: "stops [CHR 0x0A]" "skip_ws [CHR 0x0A] = []" by code_simp+
  have "fuel_of v \<le> 2 * length ?t + 2" using fuel_enough [OF v] length_pretty [of v 0] by simp
  then have "pval (2 * length ?t + 2) ?t = Some (canon v, [CHR 0x0A])"
    using pretty_parses_plain [OF v] nl(1) unfolding pretty_parses_def by blast
  then show ?thesis using skip_ws_pretty [OF v, of 0 "[CHR 0x0A]"] nl(2) by (simp add: loads_def del: pval.simps)
qed

end
