(* ===== verification/AttestCommandProperties.thy ===== *)
theory AttestCommandProperties
  imports AttestCommand PrettyJson TransparencyProperties
begin

text \<open>
  What the attestation tools promise together: a document one command writes is what the next one reads, a
  signed file passes the verify command, a rejected command leaves no trace, and a receipt that cannot be
  written is lost although its entry is published.
\<close>

section \<open>Documents are read as they were written\<close>

lemma document_of_written:
  assumes "plain (JObj kvs)" "write_document env path (JObj kvs) st = (Inr (), st')"
  shows "document_of path st' = Inr (canon (JObj kvs))"
  using assms
  by (auto simp: write_document_def write_text_file_def document_of_def loads_pretty canon_obj split: option.splits
      simp del: dumps_indent.simps canon.simps)

lemma written_frame:
  assumes "write_document env path v st = (Inr (), st')"
  shows "st' = st\<lparr>cm_docs := (cm_docs st)(path \<mapsto> utf8 (dumps_indent 0 v @ [CHR 0x0A]))\<rparr> \<and> cl_fault env path = None"
  using assms by (auto simp: write_document_def write_text_file_def split: option.splits)

lemma document_of_other: "\<lbrakk>write_document env path v st = (Inr (), st'); q \<noteq> path\<rbrakk> \<Longrightarrow> document_of q st' = document_of q st"
  by (drule written_frame) (simp add: document_of_def)

lemma write_ok: "cl_fault env path = None \<Longrightarrow> \<exists>st'. write_document env path v st = (Inr (), st')"
  by (simp add: write_document_def write_text_file_def)

lemma plain_envelope: "plain (envelope_json e)"
  by (auto simp: envelope_json_def signature_json_def list_all_iff)

section \<open>Signing, then verifying\<close>

text \<open>Pydantic reads the envelopes the tool writes.\<close>

definition envelope_reader :: "('sk, 'pk) attest_cli \<Rightarrow> bool" where
  "envelope_reader env \<longleftrightarrow> statement_decoder (ld_statement (cl_decoders env))
     \<and> (\<forall>e. validate_envelope (ld_statement (cl_decoders env)) e = Inr e \<longrightarrow> cl_envelope env (canon (envelope_json e)) = Inr e)"

lemma written_envelope_reads:
  assumes "envelope_reader env" "validate_envelope (ld_statement (cl_decoders env)) e = Inr e"
    and "write_document env path (envelope_json e) st = (Inr (), st')"
  shows "envelope_read env path st' = (Inr e, st')"
proof -
  have "document_of path st' = Inr (canon (envelope_json e))"
    using document_of_written [OF _ assms(3) [unfolded envelope_json_def]] plain_envelope [of e] by (simp add: envelope_json_def)
  then show ?thesis using assms(1,2) by (simp add: envelope_read_def read_model_def envelope_reader_def)
qed

text \<open>The inputs of both commands.\<close>

definition signing_inputs ::
  "('sk, 'pk) attest_cli \<Rightarrow> string \<Rightarrow> string \<Rightarrow> string \<Rightarrow> string \<Rightarrow> string \<Rightarrow> command_files
    \<Rightarrow> artifact_bundle \<Rightarrow> attester_identity \<Rightarrow> 'sk \<Rightarrow> trust_policy \<Rightarrow> bool" where
  "signing_inputs env bf idf skf pkf pf st b i sk p \<longleftrightarrow>
     read_bundle env bf st = (Inr b, st) \<and> read_model (cl_identity env) validate_attester idf st = (Inr i, st)
     \<and> load_private_key (cl_pem env) (cm_keys st) skf = Inr sk
     \<and> load_public_key (cl_pem env) (cm_keys st) pkf = Inr (ed_public (cl_crypto env) sk)
     \<and> policy_read env pf st = (Inr p, st)"

lemma read_model_Inr:
  "read_model dec valid path st = (r, st') \<longleftrightarrow> st' = st \<and> r = rbind (document_of path st) (\<lambda>v. rbind (dec v) valid)"
  by (auto simp: read_model_def)

lemma read_model_valid: "read_model dec valid path st = (Inr x, st') \<Longrightarrow> \<exists>y. valid y = Inr x"
  by (cases "document_of path st") (auto simp: read_model_def rbind_Inr_iff)

lemma validate_trust_policy_Inr: "validate_trust_policy p = Inr q \<Longrightarrow> q = p"
  by (auto simp: validate_trust_policy_def guards_Inr_iff)

lemma signing_inputs_valid:
  assumes "signing_inputs env bf idf skf pkf pf st b i sk p"
  shows "validate_bundle b = Inr b" "validate_attester i = Inr i" "validate_trust_policy p = Inr p"
proof -
  obtain b' where b: "validate_bundle b' = Inr b"
    using assms read_model_valid unfolding signing_inputs_def read_bundle_def by metis
  then show "validate_bundle b = Inr b" using validate_bundle_Inr by metis
  show "validate_attester i = Inr i"
    using assms read_model_valid validate_attester_Inr unfolding signing_inputs_def by metis
  show "validate_trust_policy p = Inr p"
    using assms read_model_valid validate_trust_policy_Inr unfolding signing_inputs_def policy_read_def by metis
qed

lemma read_model_frame:
  "\<lbrakk>read_model dec valid q st = (r, st); write_document env path v st = (Inr (), st'); q \<noteq> path\<rbrakk>
    \<Longrightarrow> read_model dec valid q st' = (r, st')"
  by (auto simp: read_model_def document_of_other)

text \<open>\<open>sign\<close> followed by \<open>verify\<close> on the file it wrote.\<close>

lemma sign_then_verify_files:
  assumes "ed25519_laws (cl_crypto env)" "envelope_reader env" "signing_inputs env bf idf skf pkf pf st b i sk p"
    and "key_id_for_public_key (cl_crypto env) (ed_public (cl_crypto env) sk) \<in> set (tp_keys p)" "identity_trusted p i"
    and "tp_require_rank p \<longrightarrow> rank_eligible (ab_scorecard b)"
    and "cl_fault env ef = None" "cl_fault env out = None" "ef \<noteq> bf" "ef \<noteq> pf"
  obtains r st1 st2 where
    "attest_main env (SignBundle bf idf skf ef) st = (\<lparr>pe_code = 0, pe_stdout = ef @ [CHR 0x0A], pe_stderr = []\<rparr>, st1)"
    "attest_main env (VerifyBundle bf ef pkf pf out) st1 = (\<lparr>pe_code = 0, pe_stdout = out @ [CHR 0x0A], pe_stderr = []\<rparr>, st2)"
    "document_of out st2 = Inr (canon (attestation_json r))" "validate_attestation_receipt r = Inr r"
    "av_bundle_digest r = bundle_digest b" "av_identity r = i" "av_policy_digest r = tp_digest p"
proof -
  let ?c = "cl_crypto env" let ?d = "ld_statement (cl_decoders env)"
  note v = signing_inputs_valid(1-3) [OF assms(3)]
  have sd: "statement_decoder ?d" using assms(2) by (simp add: envelope_reader_def)
  obtain e r where e: "sign_bundle ?c ?d b i sk = Inr e" "validate_envelope ?d e = Inr e"
    "verify_attestation ?c ?d b e (ed_public ?c sk) p = Inr r" "av_identity r = i"
    using sign_then_verify [OF assms(1) sd v assms(4-6)] by blast
  obtain st1 where w: "write_document env ef (envelope_json e) st = (Inr (), st1)" using write_ok [OF assms(7)] by blast
  note frame = written_frame [OF w]
  have sgn: "attest_main env (SignBundle bf idf skf ef) st = (\<lparr>pe_code = 0, pe_stdout = ef @ [CHR 0x0A], pe_stderr = []\<rparr>, st1)"
    using assms(3) e(1) w by (simp add: signing_inputs_def attest_main_def sbind_def sreturn_def)
  have "read_bundle env bf st1 = (Inr b, st1)" "policy_read env pf st1 = (Inr p, st1)"
    using assms(3) read_model_frame [OF _ w not_sym [OF assms(9)]] read_model_frame [OF _ w not_sym [OF assms(10)]]
    unfolding signing_inputs_def read_bundle_def policy_read_def by blast+
  moreover have "key_read env pkf st1 = (Inr (ed_public ?c sk), st1)"
    using assms(3) frame by (simp add: signing_inputs_def key_read_def)
  moreover note written_envelope_reads [OF assms(2) e(2) w]
  moreover obtain st2 where w2: "write_document env out (attestation_json r) st1 = (Inr (), st2)"
    using write_ok [OF assms(8)] by blast
  ultimately have ver: "attest_main env (VerifyBundle bf ef pkf pf out) st1 =
      (\<lparr>pe_code = 0, pe_stdout = out @ [CHR 0x0A], pe_stderr = []\<rparr>, st2)"
    using e(3) by (simp add: attest_main_def verified_inputs_def sbind_def sreturn_def)
  have doc: "document_of out st2 = Inr (canon (attestation_json r))"
    using document_of_written [OF _ w2 [unfolded attestation_json_def]]
    by (simp add: attestation_json_def attestation_payload_def plain_attester strs_def list_all_iff)
  have "validate_attestation_receipt r = Inr r" "av_bundle_digest r = bundle_digest b" "av_policy_digest r = tp_digest p"
    using verified_receipt [OF sd e(2) v(3), of "cl_crypto env" b "ed_public ?c sk"] e(3) by simp_all
  with sgn ver doc e(4) show ?thesis by (intro that [of st1 st2 r])
qed

text \<open>C13: Signing and verifying compose through the files: when both commands read the same valid bundle and the
  policy allows the key, the identity and the rank, \<open>sign\<close> exits with 0, \<open>verify\<close> on the envelope file it wrote
  exits with 0, and the file it writes holds a valid receipt for this bundle, identity and policy.\<close>

theorem signed_file_verifies:
  assumes "ed25519_laws (cl_crypto env)" "envelope_reader env" "signing_inputs env bf idf skf pkf pf st b i sk p"
    and "key_id_for_public_key (cl_crypto env) (ed_public (cl_crypto env) sk) \<in> set (tp_keys p)" "identity_trusted p i"
    and "tp_require_rank p \<longrightarrow> rank_eligible (ab_scorecard b)"
    and "cl_fault env ef = None" "cl_fault env out = None" "ef \<noteq> bf" "ef \<noteq> pf"
  shows "\<exists>r st1 st2.
      attest_main env (SignBundle bf idf skf ef) st = (\<lparr>pe_code = 0, pe_stdout = ef @ [CHR 0x0A], pe_stderr = []\<rparr>, st1)
    \<and> attest_main env (VerifyBundle bf ef pkf pf out) st1 = (\<lparr>pe_code = 0, pe_stdout = out @ [CHR 0x0A], pe_stderr = []\<rparr>, st2)
    \<and> document_of out st2 = Inr (canon (attestation_json r)) \<and> validate_attestation_receipt r = Inr r
    \<and> av_bundle_digest r = bundle_digest b \<and> av_identity r = i \<and> av_policy_digest r = tp_digest p"
  by (rule sign_then_verify_files [OF assms]) blast

section \<open>A receipt that cannot be written\<close>

text \<open>An envelope that the log holds is not published again.\<close>

lemma republish_rejected:
  assumes "log_decoders_ok d" "log_append c d lid e b pk p st = (Inr r, st')"
  shows "\<exists>err. log_append c' d lid e b' pk' p' st' = (Inl err, st')"
proof -
  obtain es x where x: "read_entries d st' = Inr (es @ [x])" "le_envelope x = envelope_digest e"
    using append_effect [OF assms] by blast
  obtain res st2 where a: "log_append c' d lid e b' pk' p' st' = (res, st2)" by fastforce
  from assms(1) a show ?thesis
  proof (cases rule: append_cases)
    case (ok es' x' r')
    then have "verify_unlocked d lid True st' = Inr (es', make_checkpoint lid es')" "envelope_digest e \<notin> set (map le_envelope es')"
      using prepare_facts [OF ok(1)] by metis+
    with x show ?thesis by (auto simp: verify_unlocked_iff)
  qed (use a in blast)
qed

lemma verified_inputs_frame:
  "verified_inputs env bf ef kf pf st = (Inr (b, e, p, v), st) \<Longrightarrow>
   verified_inputs env bf ef kf pf (st\<lparr>cm_logs := logs\<rparr>) = (Inr (b, e, p, v), st\<lparr>cm_logs := logs\<rparr>)"
  by (auto simp: verified_inputs_def sbind_def sreturn_def read_bundle_def envelope_read_def policy_read_def key_read_def
      read_model_def document_of_def split: sum.splits prod.splits)

lemma receipt_lost:
  assumes "log_decoders_ok (cl_decoders env)" "verified_inputs env bf ef kf pf st = (Inr (b, e, p, v), st)"
    and "key_read env kf st = (Inr pk, st)"
    and "log_append (cl_crypto env) (cl_decoders env) lid e b pk p (cm_logs st lf) = (Inr r, fs)"
    and "cl_fault env out = Some err" "handled_error err"
  obtains st1 where
    "attest_main env (LogAppend bf ef kf pf lf lid out) st =
      (\<lparr>pe_code = 2, pe_stdout = [], pe_stderr = ''skill-native-attest: '' @ exn_message err @ [CHR 0x0A]\<rparr>, st1)"
    "verify_receipt (cl_decoders env) lid r (cm_logs st1 lf) = Inr True" "cm_docs st1 = cm_docs st" "cm_keys st1 = cm_keys st"
    "\<And>out'. pe_code (fst (attest_main env (LogAppend bf ef kf pf lf lid out') st1)) \<noteq> 0 \<and>
      snd (attest_main env (LogAppend bf ef kf pf lf lid out') st1) = st1"
proof -
  let ?st1 = "st\<lparr>cm_logs := (cm_logs st)(lf := fs)\<rparr>"
  have "attest_main env (LogAppend bf ef kf pf lf lid out) st =
      (\<lparr>pe_code = 2, pe_stdout = [], pe_stderr = ''skill-native-attest: '' @ exn_message err @ [CHR 0x0A]\<rparr>, ?st1)"
    using assms(2-6) by (simp add: attest_main_def sbind_def append_step_def write_document_def write_text_file_def)
  moreover have "verify_receipt (cl_decoders env) lid r fs = Inr True" using append_effect [OF assms(1,4)] by blast
  moreover have "pe_code (fst (attest_main env (LogAppend bf ef kf pf lf lid out') ?st1)) \<noteq> 0 \<and>
      snd (attest_main env (LogAppend bf ef kf pf lf lid out') ?st1) = ?st1" for out'
  proof -
    obtain err' where a: "log_append (cl_crypto env) (cl_decoders env) lid e b pk p fs = (Inl err', fs)"
      using republish_rejected [OF assms(1,4), of "cl_crypto env" b pk p] by auto
    have k: "key_read env kf ?st1 = (Inr pk, ?st1)" using assms(3) by (simp add: key_read_def)
    have "append_step env lf lid e b pk p ?st1 = (Inl err', ?st1)" using a by (simp add: append_step_def)
    then show ?thesis using verified_inputs_frame [OF assms(2)] k by (simp add: attest_main_def sbind_def)
  qed
  ultimately show ?thesis using that [of ?st1] by simp
qed

text \<open>A receipt that cannot be written is lost: if the log accepts the envelope and the receipt document
  cannot be written, \<open>log-append\<close> exits with 2 as if nothing had happened, although the log now holds the
  entry; no document and no key has changed, and repeating the command, to any file, fails and changes nothing.\<close>

theorem unwritten_receipt_is_lost:
  assumes "log_decoders_ok (cl_decoders env)" "verified_inputs env bf ef kf pf st = (Inr (b, e, p, v), st)"
    and "key_read env kf st = (Inr pk, st)"
    and "log_append (cl_crypto env) (cl_decoders env) lid e b pk p (cm_logs st lf) = (Inr r, fs)"
    and "cl_fault env out = Some err" "handled_error err"
  shows "\<exists>st1. attest_main env (LogAppend bf ef kf pf lf lid out) st =
      (\<lparr>pe_code = 2, pe_stdout = [], pe_stderr = ''skill-native-attest: '' @ exn_message err @ [CHR 0x0A]\<rparr>, st1)
    \<and> verify_receipt (cl_decoders env) lid r (cm_logs st1 lf) = Inr True \<and> cm_docs st1 = cm_docs st \<and> cm_keys st1 = cm_keys st
    \<and> (\<forall>out'. pe_code (fst (attest_main env (LogAppend bf ef kf pf lf lid out') st1)) \<noteq> 0
          \<and> snd (attest_main env (LogAppend bf ef kf pf lf lid out') st1) = st1)"
  by (rule receipt_lost [OF assms]) blast

section \<open>Samples\<close>

definition read_signature :: "json \<Rightarrow> dsse_signature" where
  "read_signature v = \<lparr>sg_keyid = text_in (field_of v ''keyid''), sg_sig = text_in (field_of v ''sig'')\<rparr>"

definition read_envelope :: "json \<Rightarrow> dsse_envelope res" where
  "read_envelope v = Inr \<lparr>de_payload = text_in (field_of v ''payload''),
     de_signatures = map read_signature (items_of (field_of v ''signatures''))\<rparr>"

lemma read_envelope_json: "read_envelope (canon (envelope_json e)) = Inr e"
proof -
  have g: "read_signature (canon (signature_json s)) = s" for s
    by (simp add: read_signature_def signature_json_def field_of_canon del: canon.simps(2))
  have "field_of (canon (envelope_json e)) ''signatures'' = canon (JArr (map signature_json (de_signatures e)))"
    "field_of (canon (envelope_json e)) ''payload'' = JStr (de_payload e)"
    unfolding envelope_json_def by (simp_all add: field_of_canon del: canon.simps(2))
  then show ?thesis by (simp add: read_envelope_def comp_def g)
qed

text \<open>Three input documents whose contents stand for the sample bundle, identity and policy.\<close>

definition sample_cli :: "artifact_bundle \<Rightarrow> string \<Rightarrow> (bytes, bytes) attest_cli" where
  "sample_cli b full = \<lparr>cl_crypto = toy_ed25519, cl_pem = toy_pem, cl_new_key = ''k'', cl_resolve = id,
     cl_decoders = sample_decoders, cl_bundle = (\<lambda>_. Inr b), cl_identity = (\<lambda>_. Inr sample_attester),
     cl_envelope = read_envelope, cl_policy = (\<lambda>_. Inr sample_trust), cl_receipt = (\<lambda>_. Inl (ValidationError ''receipt'')),
     cl_fault = (\<lambda>q. if q = full then Some (OSError ''No space left on device'') else None), cl_schemas = []\<rparr>"

definition sample_command_files :: command_files where
  "sample_command_files = \<lparr>cm_docs = [''b'' \<mapsto> utf8 ''{}'', ''i'' \<mapsto> utf8 ''{}'', ''p'' \<mapsto> utf8 ''{}''],
     cm_keys = [''key'' \<mapsto> KeyFile ''Sk'' 384, ''pub'' \<mapsto> KeyFile ''Pk'' 420], cm_logs = (\<lambda>_. empty_files)\<rparr>"

lemma sample_document:
  "document_of ''b'' sample_command_files = Inr (JObj [])" "document_of ''i'' sample_command_files = Inr (JObj [])"
  "document_of ''p'' sample_command_files = Inr (JObj [])"
proof -
  have "loads ''{}'' = Some (JObj [])" by code_simp
  then show "document_of ''b'' sample_command_files = Inr (JObj [])" "document_of ''i'' sample_command_files = Inr (JObj [])"
    "document_of ''p'' sample_command_files = Inr (JObj [])"
    by (simp_all add: document_of_def sample_command_files_def)
qed

lemma sample_reader: "envelope_reader (sample_cli b full)"
  by (simp add: envelope_reader_def sample_cli_def sample_decoders_def read_statement_law read_envelope_json)

lemma sample_signing:
  assumes "validate_bundle b = Inr b"
  shows "signing_inputs (sample_cli b full) ''b'' ''i'' ''key'' ''pub'' ''p'' sample_command_files b sample_attester ''k'' sample_trust"
proof -
  have "cm_keys sample_command_files ''key'' = Some (KeyFile ''Sk'' 384)" "cm_keys sample_command_files ''pub'' = Some (KeyFile ''Pk'' 420)"
    by (simp_all add: sample_command_files_def)
  then have "load_private_key toy_pem (cm_keys sample_command_files) ''key'' = Inr ''k''"
    "load_public_key toy_pem (cm_keys sample_command_files) ''pub'' = Inr ''k''"
    by (simp_all add: load_private_key_def load_public_key_def follow_file toy_pem_def)
  then show ?thesis
    using assms by (simp add: signing_inputs_def read_bundle_def policy_read_def read_model_def sample_document sample_cli_def
        sample_attester_valid sample_trust_facts(1) toy_ed25519_def)
qed

lemma sample_rank: "tp_require_rank sample_trust" "key_id_for_public_key toy_ed25519 ''k'' \<in> set (tp_keys sample_trust)"
  by (simp add: sample_trust_def Let_def, simp add: sample_trust_facts(2))

lemma sample_cli_fields [simp]:
  "cl_crypto (sample_cli b full) = toy_ed25519" "cl_decoders (sample_cli b full) = sample_decoders"
  "ed_public toy_ed25519 = id" "cl_fault (sample_cli b full) q = (if q = full then Some (OSError ''No space left on device'') else None)"
  by (simp_all add: sample_cli_def toy_ed25519_def)

theorem signed_file_verifies_witness:
  "sample_outcome (\<lambda>b. \<exists>r st1 st2.
      attest_main (sample_cli b ''full'') (SignBundle ''b'' ''i'' ''key'' ''e'') sample_command_files
        = (\<lparr>pe_code = 0, pe_stdout = ''e'' @ [CHR 0x0A], pe_stderr = []\<rparr>, st1)
    \<and> attest_main (sample_cli b ''full'') (VerifyBundle ''b'' ''e'' ''pub'' ''p'' ''out'') st1
        = (\<lparr>pe_code = 0, pe_stdout = ''out'' @ [CHR 0x0A], pe_stderr = []\<rparr>, st2)
    \<and> document_of ''out'' st2 = Inr (canon (attestation_json r)) \<and> av_identity r = sample_attester)"
proof (rule sample_outcomeI)
  fix b assume b: "validate_bundle b = Inr b" "rank_eligible (ab_scorecard b)"
  have l: "ed25519_laws (cl_crypto (sample_cli b ''full''))" using toy_laws by simp
  from signed_file_verifies [OF l sample_reader sample_signing [OF b(1)] _ sample_trust_facts(3), of "''e''" "''out''"]
  show "\<exists>r st1 st2.
      attest_main (sample_cli b ''full'') (SignBundle ''b'' ''i'' ''key'' ''e'') sample_command_files
        = (\<lparr>pe_code = 0, pe_stdout = ''e'' @ [CHR 0x0A], pe_stderr = []\<rparr>, st1)
    \<and> attest_main (sample_cli b ''full'') (VerifyBundle ''b'' ''e'' ''pub'' ''p'' ''out'') st1
        = (\<lparr>pe_code = 0, pe_stdout = ''out'' @ [CHR 0x0A], pe_stderr = []\<rparr>, st2)
    \<and> document_of ''out'' st2 = Inr (canon (attestation_json r)) \<and> av_identity r = sample_attester"
    using b(2) sample_rank(2) by auto
qed

theorem unwritten_receipt_is_lost_witness:
  "sample_outcome (\<lambda>b. \<exists>st st1. pe_code (fst (attest_main (sample_cli b ''full'') (LogAppend ''b'' ''e'' ''pub'' ''p'' ''l'' ''log'' ''full'') st)) = 2
    \<and> snd (attest_main (sample_cli b ''full'') (LogAppend ''b'' ''e'' ''pub'' ''p'' ''l'' ''log'' ''full'') st) = st1
    \<and> (\<exists>r. verify_receipt sample_decoders ''log'' r (cm_logs st1 ''l'') = Inr True)
    \<and> pe_code (fst (attest_main (sample_cli b ''full'') (LogAppend ''b'' ''e'' ''pub'' ''p'' ''l'' ''log'' ''out'') st1)) \<noteq> 0)"
    (is "sample_outcome ?P")
proof (rule sample_outcomeI)
  fix b assume b: "validate_bundle b = Inr b" "rank_eligible (ab_scorecard b)"
  then obtain e v r fs where e: "validate_envelope read_statement e = Inr e"
    "verify_attestation toy_ed25519 read_statement b e ''k'' sample_trust = Inr v"
    "log_append toy_ed25519 sample_decoders ''log'' e b ''k'' sample_trust empty_files = (Inr r, fs)" by (rule sample_append)
  let ?env = "sample_cli b ''full''"
  have d: "ld_statement sample_decoders = read_statement" by (simp add: sample_decoders_def)
  obtain st where w: "write_document ?env ''e'' (envelope_json e) sample_command_files = (Inr (), st)" using write_ok [of ?env "''e''"] by auto
  note s = sample_signing [OF b(1), of "''full''", unfolded signing_inputs_def read_bundle_def policy_read_def] and f = written_frame [OF w]
  have ins: "read_bundle ?env ''b'' st = (Inr b, st)" "policy_read ?env ''p'' st = (Inr sample_trust, st)"
    using s read_model_frame [OF _ w, of _ _ "''b''"] read_model_frame [OF _ w, of _ _ "''p''"]
    unfolding read_bundle_def policy_read_def by fastforce+
  have er: "envelope_read ?env ''e'' st = (Inr e, st)" by (rule written_envelope_reads [OF sample_reader _ w]) (simp add: d e(1))
  have k: "key_read ?env ''pub'' st = (Inr ''k'', st)" using s f by (simp add: key_read_def)
  have vi: "verified_inputs ?env ''b'' ''e'' ''pub'' ''p'' st = (Inr (b, e, sample_trust, v), st)"
    using ins er k e(2) by (simp add: verified_inputs_def sbind_def sreturn_def d)
  have "cm_logs st ''l'' = empty_files" using f by (simp add: sample_command_files_def)
  then have la: "log_append (cl_crypto ?env) (cl_decoders ?env) ''log'' e b ''k'' sample_trust (cm_logs st ''l'') = (Inr r, fs)"
    using e(3) by simp
  have ok: "log_decoders_ok (cl_decoders ?env)" using sample_decoders_ok by simp
  have "cl_fault ?env ''full'' = Some (OSError ''No space left on device'')" by simp
  from unwritten_receipt_is_lost [OF ok vi k la this] obtain st1 where
    "pe_code (fst (attest_main ?env (LogAppend ''b'' ''e'' ''pub'' ''p'' ''l'' ''log'' ''full'') st)) = 2"
    "snd (attest_main ?env (LogAppend ''b'' ''e'' ''pub'' ''p'' ''l'' ''log'' ''full'') st) = st1"
    "verify_receipt sample_decoders ''log'' r (cm_logs st1 ''l'') = Inr True"
    "pe_code (fst (attest_main ?env (LogAppend ''b'' ''e'' ''pub'' ''p'' ''l'' ''log'' ''out'') st1)) \<noteq> 0" by auto
  then show "?P b" by blast
qed

end
