(* ===== verification/RunArtifactCommand.thy ===== *)
theory RunArtifactCommand
  imports RunArtifactBuilder AttestCommand
begin

text \<open>
  \<open>run_artifacts.py\<close>: the command line of the run artifacts, after \<open>argparse\<close>. Documents are a store by
  path; below every output directory lies an artifact store. No exception is caught, so that every one of
  them ends the process with a traceback and exit code 1; a bundle that is not rank eligible gives 2.
\<close>

datatype artifact_command =
    BuildBundle string string string string string
  | CreateAuthority string authority_kind trust_basis string string string string string
  | ExportArtifactSchemas string

record artifact_world =
  aw_docs :: "string \<rightharpoonup> bytes"
  aw_stores :: "string \<Rightarrow> artifact_store"

record artifact_cli =
  ak_authority :: "json \<Rightarrow> evaluator_authority res"
  ak_fault :: "string \<Rightarrow> exn option"
  ak_schemas :: "(string \<times> json) list"

text \<open>\<open>_load_json\<close> with \<open>_json_mapping\<close>.\<close>

definition artifact_document :: "string \<Rightarrow> artifact_world \<Rightarrow> json dict res" where
  "artifact_document path w = (case aw_docs w path of
     None \<Rightarrow> Inl (RunArtifactError (''cannot load JSON from '' @ path))
   | Some b \<Rightarrow> (case utf8_strict b of
       None \<Rightarrow> Inl (ValueError path)
     | Some t \<Rightarrow> (case loads t of
         None \<Rightarrow> Inl (RunArtifactError (''cannot load JSON from '' @ path))
       | Some (JObj d) \<Rightarrow> Inr d
       | Some _ \<Rightarrow> Inl (RunArtifactError (path @ '' must be a JSON object'')))))"

text \<open>\<open>EvaluatorAuthority.model_validate\<close> at the start of \<open>build\<close>.\<close>

definition authority_of :: "artifact_cli \<Rightarrow> json dict \<Rightarrow> evaluator_authority res" where
  "authority_of env d = rbind (ak_authority env (JObj d)) validate_authority"

definition artifact_write :: "artifact_cli \<Rightarrow> string \<Rightarrow> string \<Rightarrow> (artifact_world, unit) step" where
  "artifact_write env path t w = (case ak_fault env path of
     Some e \<Rightarrow> (Inl e, w)
   | None \<Rightarrow> (Inr (), w\<lparr>aw_docs := (aw_docs w)(path \<mapsto> utf8 t)\<rparr>))"

fun artifact_schemas :: "artifact_cli \<Rightarrow> string \<Rightarrow> (string \<times> json) list \<Rightarrow> (artifact_world, unit) step" where
  "artifact_schemas env out [] = sreturn (Inr ())"
| "artifact_schemas env out ((n, v) # vs) =
     sbind (artifact_write env (join_path out n) (dumps v @ [CHR 0x0A])) (\<lambda>_. artifact_schemas env out vs)"

definition persist_step :: "string \<Rightarrow> artifact_bundle \<Rightarrow> (artifact_world, string \<times> string) step" where
  "persist_step out b w = (case artifact_persist b (aw_stores w out) of
     (r, s) \<Rightarrow> (r, w\<lparr>aw_stores := (aw_stores w)(out := s)\<rparr>))"

text \<open>What a command prints, and whether it leaves with \<open>SystemExit(2)\<close>.\<close>

fun artifact_step :: "artifact_cli \<Rightarrow> artifact_command \<Rightarrow> (artifact_world, string \<times> bool) step" where
  "artifact_step env (BuildBundle af pf ef vf out) =
     sbind (\<lambda>w. (artifact_document af w, w)) (\<lambda>ad. sbind (\<lambda>w. (artifact_document pf w, w)) (\<lambda>pd.
     sbind (\<lambda>w. (artifact_document ef w, w)) (\<lambda>ed. sbind (\<lambda>w. (artifact_document vf w, w)) (\<lambda>vd.
     sbind (sreturn (rbind (authority_of env ad) (\<lambda>a. build_artifacts a pd ed vd))) (\<lambda>b.
     sbind (persist_step out b) (\<lambda>(d, p).
       sreturn (Inr (dumps_listed 0 (JObj [(''bundle_digest'', JStr d), (''bundle_path'', JStr (join_path out p))]),
         rank_eligible (ab_scorecard b)))))))))"
| "artifact_step env (CreateAuthority aid k b url commit md ed out) =
     sbind (sreturn (build_evaluator_authority aid k b url commit md ed)) (\<lambda>a.
     sbind (artifact_write env out (dumps_indent 0 (authority_json a) @ [CHR 0x0A])) (\<lambda>_. sreturn (Inr (out, True))))"
| "artifact_step env (ExportArtifactSchemas out) =
     sbind (artifact_schemas env out (ak_schemas env)) (\<lambda>_. sreturn (Inr (dumps_listed 0
       (JObj (map (\<lambda>n. (n, JStr (join_path out n))) (sort (map fst (ak_schemas env))))), True)))"

definition artifact_main :: "artifact_cli \<Rightarrow> artifact_command \<Rightarrow> artifact_world \<Rightarrow> process_end \<times> artifact_world" where
  "artifact_main env c w = (case artifact_step env c w of
     (Inr (out, ok), w') \<Rightarrow> (\<lparr>pe_code = (if ok then 0 else 2), pe_stdout = out @ [CHR 0x0A], pe_stderr = []\<rparr>, w')
   | (Inl e, w') \<Rightarrow> (\<lparr>pe_code = 1, pe_stdout = [], pe_stderr = describe_exn e @ [CHR 0x0A]\<rparr>, w'))"

end
