(* ===== verification/RunArtifactCommandProperties.thy ===== *)
theory RunArtifactCommandProperties
  imports RunArtifactCommand ArtifactProperties PrettyJson
begin

text \<open>
  What the exit code of the build command says, what it leaves in the store, and that an authority created
  by one command is the authority the build command reads.
\<close>

section \<open>Building\<close>

text \<open>The four documents are read, the authority is valid and the builder returns the bundle.\<close>

definition built_from :: "artifact_cli \<Rightarrow> string \<Rightarrow> string \<Rightarrow> string \<Rightarrow> string \<Rightarrow> artifact_world \<Rightarrow> artifact_bundle \<Rightarrow> bool" where
  "built_from env af pf ef vf w b \<longleftrightarrow> (\<exists>ad a p e v. artifact_document af w = Inr ad \<and> authority_of env ad = Inr a
     \<and> artifact_document pf w = Inr p \<and> artifact_document ef w = Inr e \<and> artifact_document vf w = Inr v
     \<and> build_artifacts a p e v = Inr b)"

text \<open>No stored file of the bundle has other bytes.\<close>

definition storable :: "artifact_bundle \<Rightarrow> artifact_store \<Rightarrow> bool" where
  "storable b s \<longleftrightarrow> (\<forall>(n, v) \<in> set (artifact_files b). s (bundle_digest b, n) \<in> {None, Some (stored_text v)})"

definition fully_stored :: "artifact_bundle \<Rightarrow> artifact_store \<Rightarrow> bool" where
  "fully_stored b s \<longleftrightarrow> (\<forall>(n, v) \<in> set (artifact_files b). s (bundle_digest b, n) = Some (stored_text v))"

lemma built_unique: "\<lbrakk>built_from env af pf ef vf w b; built_from env af pf ef vf w c\<rbrakk> \<Longrightarrow> c = b"
  unfolding built_from_def by fastforce

lemma persist_step_cases:
  assumes "persist_step out b w = (res, w')"
  obtains (stored) s where "storable b (aw_stores w out)" "res = Inr (bundle_digest b, bundle_digest b @ ''/run-artifact-bundle.json'')"
      "w' = w\<lparr>aw_stores := (aw_stores w)(out := s)\<rparr>" "aw_stores w out \<subseteq>\<^sub>m s"
      "fully_stored b s"
  | (collision) e s where "\<not> storable b (aw_stores w out)" "res = Inl e" "w' = w\<lparr>aw_stores := (aw_stores w)(out := s)\<rparr>"
      "aw_stores w out \<subseteq>\<^sub>m s"
proof -
  obtain r s where run: "artifact_persist b (aw_stores w out) = (r, s)" by fastforce
  then have w': "res = r" "w' = w\<lparr>aw_stores := (aw_stores w)(out := s)\<rparr>" using assms by (simp_all add: persist_step_def)
  obtain q where q: "persist_files (bundle_digest b) (artifact_files b) (aw_stores w out) = (q, s)"
    "r = rbind q (\<lambda>_. Inr (bundle_digest b, bundle_digest b @ ''/run-artifact-bundle.json''))"
    using run by (cases "persist_files (bundle_digest b) (artifact_files b) (aw_stores w out)")
      (auto simp: artifact_persist_def split: sum.splits)
  have grow: "aw_stores w out \<subseteq>\<^sub>m s" using persist_files_grows [OF q(1)] .
  have "q = Inr () \<longleftrightarrow> storable b (aw_stores w out)"
    using persist_files_outcome [OF artifact_files_distinct, of "bundle_digest b" b "aw_stores w out"] q(1)
    by (simp add: storable_def)
  moreover have "fully_stored b s" if "q = Inr ()"
    using persist_files_stored [OF artifact_files_distinct] q(1) that unfolding fully_stored_def by blast
  ultimately show ?thesis using stored collision w' q(2) grow by (cases q) auto
qed

lemma build_step_cases:
  assumes "artifact_main env (BuildBundle af pf ef vf out) w = (pe, w')"
  obtains (built) b s where "built_from env af pf ef vf w b" "storable b (aw_stores w out)"
      "pe_code pe = (if rank_eligible (ab_scorecard b) then 0 else 2)" "w' = w\<lparr>aw_stores := (aw_stores w)(out := s)\<rparr>"
      "aw_stores w out \<subseteq>\<^sub>m s" "fully_stored b s"
  | (failed) s where "pe_code pe = 1" "w' = w\<lparr>aw_stores := (aw_stores w)(out := s)\<rparr>" "aw_stores w out \<subseteq>\<^sub>m s"
      "\<nexists>b. built_from env af pf ef vf w b \<and> storable b (aw_stores w out)"
proof (cases "\<exists>b. built_from env af pf ef vf w b")
  case True
  then obtain b where b: "built_from env af pf ef vf w b" by blast
  obtain res w2 where p: "persist_step out b w = (res, w2)" by fastforce
  have run: "artifact_main env (BuildBundle af pf ef vf out) w = (case res of
      Inr (d, q) \<Rightarrow> (\<lparr>pe_code = (if rank_eligible (ab_scorecard b) then 0 else 2), pe_stdout = dumps_listed 0 (JObj
        [(''bundle_digest'', JStr d), (''bundle_path'', JStr (join_path out q))]) @ [CHR 0x0A], pe_stderr = []\<rparr>, w2)
    | Inl e \<Rightarrow> (\<lparr>pe_code = 1, pe_stdout = [], pe_stderr = describe_exn e @ [CHR 0x0A]\<rparr>, w2))"
    using b p by (auto simp: built_from_def artifact_main_def sbind_def sreturn_def split: sum.splits prod.splits simp del: dumps_listed.simps)
  from p show ?thesis
  proof (cases rule: persist_step_cases)
    case (stored s)
    have "pe_code pe = (if rank_eligible (ab_scorecard b) then 0 else 2)" "w' = w2" using assms run by (auto simp: stored(2))
    then show ?thesis using built b stored by simp
  next
    case (collision e s)
    have "pe_code pe = 1" "w' = w2" using assms run by (auto simp: collision(2))
    then show ?thesis using failed collision built_unique [OF b] by blast
  qed
next
  case False
  have "pe_code pe = 1 \<and> w' = w"
    using assms False
    by (auto simp: built_from_def artifact_main_def sbind_def sreturn_def rbind_Inr_iff split: sum.splits)
  then show ?thesis using failed [of "aw_stores w out"] False by auto
qed


section \<open>Creating an authority\<close>

lemma validate_authority_Inr: "validate_authority a = Inr b \<Longrightarrow> b = a"
  unfolding validate_authority_def guards_Inr_iff by simp

text \<open>The authority a successful \<open>create-authority\<close> wrote is the one the build command reads.\<close>

lemma created_authority_reads:
  assumes "\<And>a. validate_authority a = Inr a \<Longrightarrow> ak_authority env (canon (authority_json a)) = Inr a"
    and "artifact_main env (CreateAuthority aid k b url commit md ed out) w = (pe, w')" "pe_code pe = 0"
  shows "\<exists>a d. build_evaluator_authority aid k b url commit md ed = Inr a \<and> artifact_document out w' = Inr d
     \<and> authority_of env d = Inr a"
proof -
  obtain a where a: "build_evaluator_authority aid k b url commit md ed = Inr a"
    using assms(2,3) by (cases "build_evaluator_authority aid k b url commit md ed") (auto simp: artifact_main_def sbind_def sreturn_def)
  have w': "w' = w\<lparr>aw_docs := (aw_docs w)(out \<mapsto> utf8 (dumps_indent 0 (authority_json a) @ [CHR 0x0A]))\<rparr>"
    using assms(2,3) by (cases "ak_fault env out") (auto simp: a artifact_main_def sbind_def sreturn_def artifact_write_def simp del: dumps_indent.simps)
  have v: "validate_authority a = Inr a"
    using a validate_authority_Inr unfolding build_evaluator_authority_def Let_def by metis
  have "plain (authority_json a)" by (simp add: authority_json_def authority_payload_def)
  then have "loads (dumps_indent 0 (authority_json a) @ [CHR 0x0A]) = Some (canon (authority_json a))" by (rule loads_pretty)
  moreover obtain d where d: "canon (authority_json a) = JObj d" by (simp add: authority_json_def canon_obj del: canon.simps)
  ultimately have "artifact_document out w' = Inr d" by (simp add: artifact_document_def w' del: dumps_indent.simps canon.simps)
  then show ?thesis using a assms(1) [OF v] v by (simp add: authority_of_def d)
qed

end
