(* ===== verification/CommandLine.thy ===== *)
theory CommandLine
  imports Kernel OpenShell CloudflareRuntime Gateway Scoring SecurityBenchmark Ingest AttestCommand
begin

text \<open>
  \<open>cli.py\<close>: the main command line, after \<open>argparse\<close>. The state of one process run is the record \<open>cli_world\<close>:
  the state behind the sandbox controllers, the evidence and verdict stores by directory, the text files the
  commands read or write, the broker and the ingestion. YAML, pydantic's decoders and the controllers are
  the fields of \<open>cli_env\<close>; the sockets of \<open>serve-gateway\<close> are not modelled, only the gateway it serves.
\<close>

section \<open>Commands\<close>

datatype cli_command =
    CliValidate string
  | CliValidateHarness string
  | CliPlanHarness string string
  | CliRunHarnessFake string string "string option" string string
  | CliExportSchemas string
  | CliCompilePolicy string
  | CliRunFake string "string option" "string option"
  | CliRunOpenShell string "string option" "string option" "string list"
  | CliRunCloudflare string "string option" "string option" "string list" string "string option"
  | CliProbe string string "string option" int
  | CliIngestGithub string string string string string string
  | CliIngestSkills string string
  | CliFixtures string
  | CliReport string string

record 's cli_world =
  cw_runtime :: 's
  cw_evidence :: "string \<Rightarrow> string \<rightharpoonup> json"
  cw_verdicts :: "string \<Rightarrow> string \<rightharpoonup> json"
  cw_files :: "string \<rightharpoonup> string"
  cw_broker :: broker_state
  cw_ingest :: ingest_state

record 's cli_env =
  ce_yaml :: "string \<Rightarrow> json res"
  ce_spec :: "json \<Rightarrow> run_spec res"
  ce_manifest :: "json \<Rightarrow> harness_manifest res"
  ce_evidence :: "json \<Rightarrow> evidence_bundle res"
  ce_adapters :: adapter_env
  ce_ledger :: "string \<Rightarrow> string \<Rightarrow> inference_receipt list"
  ce_openshell :: "'s runtime_adapter"
  ce_cloudflare :: "string \<Rightarrow> string option \<Rightarrow> 's runtime_adapter"
  ce_dump_yaml :: "json \<Rightarrow> string"
  ce_broker :: environment
  ce_ingest :: ingest_env
  ce_schemas :: "(string \<times> json) list"
  ce_usage :: string

section \<open>Loading\<close>

definition load_spec :: "'s cli_env \<Rightarrow> string \<Rightarrow> run_spec res" where
  "load_spec env path = rbind (ce_yaml env path) (ce_spec env)"

text \<open>\<open>load_harness_manifest\<close> of \<open>harness_contract.py\<close>.\<close>

definition load_harness_manifest :: "'s cli_env \<Rightarrow> string \<Rightarrow> harness_manifest res" where
  "load_harness_manifest env path = rbind (ce_yaml env path) (\<lambda>raw. case raw of
     JObj d \<Rightarrow> rbind (ce_manifest env (JObj d)) validate_manifest
   | _ \<Rightarrow> Inl (HarnessContractError ''harness manifest must be a YAML object''))"

definition provider_kind_of :: "json \<Rightarrow> provider_kind res" where
  "provider_kind_of v = (if v = JStr ''groq'' then Inr KindGroq else if v = JStr ''gemini'' then Inr KindGemini
     else if v = JStr ''cloudflare'' then Inr KindCloudflare else if v = JStr ''local'' then Inr KindLocal
     else Inl (ValueError (py_repr v @ '' is not a valid ProviderKind'')))"

text \<open>
  \<open>ProviderConfig(**item)\<close>. A dataclass checks the names of its arguments and not their types; a value of
  another type than the declared one is outside the model, which raises \<open>TypeError\<close> there.
\<close>

definition config_fields :: "string list" where
  "config_fields = [''name'', ''kind'', ''base_url'', ''model'', ''quota_class'', ''api_key_env'', ''enabled'',
     ''timeout_seconds'', ''extra_headers'']"

fun typed_str :: "json \<Rightarrow> string res" where
  "typed_str (JStr s) = Inr s"
| "typed_str _ = Inl (TypeError ''str'')"

fun typed_opt_str :: "json \<Rightarrow> string option res" where
  "typed_opt_str JNull = Inr None"
| "typed_opt_str (JStr s) = Inr (Some s)"
| "typed_opt_str _ = Inl (TypeError ''str'')"

fun typed_bool :: "json \<Rightarrow> bool res" where
  "typed_bool (JBool b) = Inr b"
| "typed_bool _ = Inl (TypeError ''bool'')"

fun typed_float :: "json \<Rightarrow> rat res" where
  "typed_float (JFloat r) = Inr r"
| "typed_float (JInt i) = Inr (of_int i)"
| "typed_float _ = Inl (TypeError ''float'')"

fun typed_headers :: "json \<Rightarrow> string dict res" where
  "typed_headers (JObj d) = traverse (\<lambda>(k, v). rbind (typed_str v) (\<lambda>s. Inr (k, s))) d"
| "typed_headers _ = Inl (TypeError ''dict'')"

definition provider_config_of :: "provider_kind \<Rightarrow> json dict \<Rightarrow> provider_config res" where
  "provider_config_of k d =
     rbind (guards [(\<exists>f \<in> set (dict_keys d). f \<notin> set config_fields, TypeError ''unexpected keyword argument''),
       (\<exists>f \<in> set [''name'', ''base_url'', ''model'']. f \<notin> set (dict_keys d), TypeError ''missing required positional argument'')] ()) (\<lambda>_.
     rbind (typed_str (jget_null d ''name'')) (\<lambda>n. rbind (typed_str (jget_null d ''base_url'')) (\<lambda>u.
     rbind (typed_str (jget_null d ''model'')) (\<lambda>m. rbind (typed_str (jget_default d ''quota_class'' (JStr ''free''))) (\<lambda>q.
     rbind (typed_opt_str (jget_null d ''api_key_env'')) (\<lambda>e. rbind (typed_bool (jget_default d ''enabled'' (JBool True))) (\<lambda>on.
     rbind (typed_float (jget_default d ''timeout_seconds'' (JFloat 60))) (\<lambda>t.
     rbind (typed_headers (jget_default d ''extra_headers'' (JObj []))) (\<lambda>hs.
       Inr \<lparr>pc_name = n, pc_kind = k, pc_base_url = u, pc_model = m, pc_quota = q, pc_key_env = e, pc_enabled = on,
            pc_timeout = t, pc_headers = hs\<rparr>)))))))))"

definition provider_of_item :: "json \<Rightarrow> provider_config res" where
  "provider_of_item v = (case v of
     JObj d \<Rightarrow> (case map_of d ''kind'' of
         None \<Rightarrow> Inl (KeyError ''kind'')
       | Some k \<Rightarrow> rbind (provider_kind_of k) (\<lambda>kind. provider_config_of kind d))
   | _ \<Rightarrow> Inl (TypeError ''provider entry is not a mapping''))"

definition load_providers :: "'s cli_env \<Rightarrow> string \<Rightarrow> provider_config list res" where
  "load_providers env path = rbind (ce_yaml env path) (\<lambda>raw.
     rbind (as_dict ''get'' (if truthy raw then raw else JObj [])) (\<lambda>d.
       case jget_default d ''providers'' (JArr []) of
         JArr xs \<Rightarrow> traverse provider_of_item xs
       | v \<Rightarrow> Inl (TypeError (type_name v @ '' object is not a list of providers''))))"

section \<open>Running a command in a sandbox\<close>

text \<open>A step of the runtime inside the state with its stores.\<close>

definition on_runtime :: "('s, 'a) step \<Rightarrow> ('s kernel_state, 'a) step" where
  "on_runtime m ks = (case m (ks_runtime ks) of (r, s) \<Rightarrow> (r, ks\<lparr>ks_runtime := s\<rparr>))"

definition keep_evidence :: "string option \<Rightarrow> evidence_bundle \<Rightarrow> ('s kernel_state, json dict) step" where
  "keep_evidence dir e ks = (let result = obj_items (evidence_json e) in case dir of
     None \<Rightarrow> (Inr result, ks)
   | Some d \<Rightarrow> (case evidence_store_persist (ks_evidence ks) e of (digest, store) \<Rightarrow>
       (Inr (dict_set ''evidence_path'' (JStr (d @ ''/'' @ digest @ ''.json'')) (dict_set ''evidence_digest'' (JStr digest) result)),
        ks\<lparr>ks_evidence := store\<rparr>)))"

definition run_runtime ::
  "'s runtime_adapter \<Rightarrow> run_spec \<Rightarrow> string list \<Rightarrow> (string \<Rightarrow> inference_receipt list) option \<Rightarrow> string option
    \<Rightarrow> ('s kernel_state, json dict) step" where
  "run_runtime rt spec cmd ledger dir = sbind (on_runtime (ra_prepare rt spec)) (\<lambda>sid. finally_do
     (sbind (on_runtime (ra_execute rt sid cmd None)) (\<lambda>eid.
      sbind (on_runtime (ra_collect rt (spec_run_id spec) eid)) (\<lambda>raw. keep_evidence dir (attach_run_receipts raw ledger))))
     (on_runtime (ra_destroy rt sid)))"

text \<open>A run on the stores of the given directories.\<close>

definition in_stores ::
  "'r \<Rightarrow> string option \<Rightarrow> string option \<Rightarrow> ('r kernel_state, 'a) step \<Rightarrow> 's cli_world \<Rightarrow> 'a res \<times> 'r \<times> 's cli_world" where
  "in_stores r ev vd m w =
     (case m \<lparr>ks_runtime = r, ks_evidence = (case ev of None \<Rightarrow> Map.empty | Some d \<Rightarrow> cw_evidence w d),
        ks_verdicts = (case vd of None \<Rightarrow> Map.empty | Some d \<Rightarrow> cw_verdicts w d)\<rparr> of
        (res, ks) \<Rightarrow> (res, ks_runtime ks, w\<lparr>
          cw_evidence := (case ev of None \<Rightarrow> cw_evidence w | Some d \<Rightarrow> (cw_evidence w)(d := ks_evidence ks)),
          cw_verdicts := (case vd of None \<Rightarrow> cw_verdicts w | Some d \<Rightarrow> (cw_verdicts w)(d := ks_verdicts ks))\<rparr>))"

text \<open>\<open>FakeRuntime()\<close> starts empty and is forgotten with the process.\<close>

definition with_fake :: "string option \<Rightarrow> string option \<Rightarrow> (fake_state kernel_state, 'a) step \<Rightarrow> ('s cli_world, 'a) step" where
  "with_fake ev vd m w = (case in_stores [] ev vd m w of (res, _, w') \<Rightarrow> (res, w'))"

definition with_runtime :: "string option \<Rightarrow> ('s kernel_state, 'a) step \<Rightarrow> ('s cli_world, 'a) step" where
  "with_runtime ev m w = (case in_stores (cw_runtime w) ev None m w of (res, s, w') \<Rightarrow> (res, w'\<lparr>cw_runtime := s\<rparr>))"

section \<open>Reports and providers\<close>

text \<open>\<open>value[name]\<close> on a JSON value.\<close>

definition subscript :: "json \<Rightarrow> string \<Rightarrow> json res" where
  "subscript v name = (case v of
     JObj d \<Rightarrow> (case map_of d name of None \<Rightarrow> Inl (KeyError name) | Some x \<Rightarrow> Inr x)
   | _ \<Rightarrow> Inl (TypeError (type_name v)))"

text \<open>\<open>CompatibilityKey(**value)\<close>, for the declared types of its fields.\<close>

definition compatibility_key_of :: "json \<Rightarrow> compatibility_key res" where
  "compatibility_key_of v = (case v of
     JObj d \<Rightarrow> if set (dict_keys d) = {''skill_digest'', ''agent'', ''runtime'', ''model''}
       then rbind (typed_str (jget_null d ''skill_digest'')) (\<lambda>s. rbind (typed_str (jget_null d ''agent'')) (\<lambda>a.
            rbind (typed_str (jget_null d ''runtime'')) (\<lambda>r. rbind (typed_str (jget_null d ''model'')) (\<lambda>m.
              Inr \<lparr>ck_skill_digest = s, ck_agent = a, ck_runtime = r, ck_model = m\<rparr>))))
       else Inl (TypeError ''arguments of CompatibilityKey'')
   | _ \<Rightarrow> Inl (TypeError ''argument after ** must be a mapping''))"

definition report_row :: "'s cli_env \<Rightarrow> string \<Rightarrow> (compatibility_key \<times> evidence_bundle) res" where
  "report_row env line = (case loads line of
     None \<Rightarrow> Inl (exn.OtherError ''JSONDecodeError'' line)
   | Some v \<Rightarrow> rbind (rbind (subscript v ''key'') compatibility_key_of) (\<lambda>k.
       rbind (rbind (subscript v ''evidence'') (ce_evidence env)) (\<lambda>e. Inr (k, e))))"

definition report_rows :: "'s cli_env \<Rightarrow> string \<Rightarrow> (compatibility_key \<times> evidence_bundle) list res" where
  "report_rows env content = traverse (report_row env) (filter (\<lambda>l. strip l \<noteq> []) (splitlines content))"

definition read_input :: "string \<Rightarrow> ('s cli_world, string) step" where
  "read_input path w = (case cw_files w path of None \<Rightarrow> Inl (OSError path) | Some c \<Rightarrow> Inr c, w)"

definition write_output :: "string \<Rightarrow> string \<Rightarrow> ('s cli_world, unit) step" where
  "write_output path c w = (Inr (), w\<lparr>cw_files := (cw_files w)(path \<mapsto> c)\<rparr>)"

fun write_outputs :: "string \<Rightarrow> (string \<times> json) list \<Rightarrow> ('s cli_world, unit) step" where
  "write_outputs out [] = sreturn (Inr ())"
| "write_outputs out ((n, v) # vs) = sbind (write_output (join_path out n) (dumps v @ [CHR 0x0A])) (\<lambda>_. write_outputs out vs)"

text \<open>The fixtures below a root directory of the command.\<close>

definition fixture_outputs :: "string \<Rightarrow> ('s cli_world, string list) step" where
  "fixture_outputs out w = (Inr (map (\<lambda>f. join_path out (fx_id f)) adversarial_fixtures),
     w\<lparr>cw_files := fold (\<lambda>f fs. fs(join_path out (fx_id f) @ ''/SKILL.md'' \<mapsto> fx_skill_md f,
        join_path out (fx_id f) @ ''/'' @ fx_script_name f \<mapsto> fx_script f)) adversarial_fixtures (cw_files w)\<rparr>)"

definition attempt_exn :: "attempt_error \<Rightarrow> exn" where
  "attempt_exn e = (case e of ProviderError m r retry \<Rightarrow> exn.OtherError ''ProviderError'' m | attempt_error.OtherError x \<Rightarrow> x)"

definition probe_provider :: "'s cli_env \<Rightarrow> router \<Rightarrow> string \<Rightarrow> string option \<Rightarrow> int \<Rightarrow> ('s cli_world, json) step" where
  "probe_provider env r prompt wanted max_tokens w =
     (case router_complete (ce_broker env) [JObj [(''role'', JStr ''user''), (''content'', JStr prompt)]] (opt_str wanted)
        (JInt max_tokens) (JFloat 0) r (cw_broker w) of
        (Inl e, r', b) \<Rightarrow> (Inl (attempt_exn e), w\<lparr>cw_broker := b\<rparr>)
      | (Inr res, r', b) \<Rightarrow> (Inr (JObj [(''text'', JStr (ir_text res)), (''receipt'', receipt_json (ir_receipt res)),
          (''attempt_receipts'', JArr (map receipt_json (rt_attempts r')))]), w\<lparr>cw_broker := b\<rparr>))"

text \<open>What \<open>serve-gateway\<close> serves.\<close>

definition served_gateway ::
  "'s cli_env \<Rightarrow> string \<Rightarrow> bool \<Rightarrow> string option \<Rightarrow> int option \<Rightarrow> int option \<Rightarrow> rat option \<Rightarrow> gateway res" where
  "served_gateway env config local_only ledger requests tokens cost = rbind (load_providers env config) (\<lambda>ps.
     Inr \<lparr>gw_router = make_router ps [], gw_policy = \<lparr>pp_local_only = local_only, pp_max_requests = requests,
            pp_max_tokens = tokens, pp_max_cost = cost\<rparr>, gw_ledger = (ledger \<noteq> None)\<rparr>)"

definition on_ingest :: "(ingest_state, 'a) step \<Rightarrow> ('s cli_world, 'a) step" where
  "on_ingest m w = (case m (cw_ingest w) of (r, s) \<Rightarrow> (r, w\<lparr>cw_ingest := s\<rparr>))"

section \<open>Dispatch\<close>

text \<open>What a command prints, what it writes to its error stream and its exit code.\<close>

definition printed :: "json \<Rightarrow> string \<times> string \<times> int" where
  "printed v = (dumps_listed 0 v @ [CHR 0x0A], [], 0)"

definition run_result_json :: "harness_run_result \<Rightarrow> json" where
  "run_result_json r = JObj [(''plan'', plan_json (rr_plan r)), (''evidence'', evidence_json (rr_evidence r)),
     (''verdict'', verdict_json (rr_verdict r)), (''evidence_path'', opt_str (evidence_path r)),
     (''verdict_path'', opt_str (verdict_path r))]"

text \<open>A command given after \<open>--\<close>; none at all is an error of the argument parser.\<close>

definition given_command :: "string list \<Rightarrow> string list" where
  "given_command argv = (if argv \<noteq> [] \<and> hd argv = ''--'' then tl argv else argv)"

definition run_given ::
  "'s cli_env \<Rightarrow> string \<Rightarrow> 's runtime_adapter \<Rightarrow> run_spec \<Rightarrow> string option \<Rightarrow> string option \<Rightarrow> string list
    \<Rightarrow> ('s cli_world, string \<times> string \<times> int) step" where
  "run_given env name rt spec ledger dir argv = (if given_command argv = []
     then sreturn (Inr ([], ce_usage env @ ''skill-native: error: '' @ name @ '' requires a command'' @ [CHR 0x0A], 2))
     else sbind (with_runtime dir (run_runtime rt spec (given_command argv) (map_option (ce_ledger env) ledger) dir))
       (\<lambda>d. sreturn (Inr (printed (JObj d)))))"

definition run_harness_fake ::
  "'s cli_env \<Rightarrow> harness_manifest \<Rightarrow> run_spec \<Rightarrow> string option \<Rightarrow> string \<Rightarrow> string
    \<Rightarrow> ('s cli_world, string \<times> string \<times> int) step" where
  "run_harness_fake env m spec ledger ev vd = sbind (sreturn (default_registry (ce_adapters env))) (\<lambda>reg.
     sbind (with_fake (Some ev) (Some vd) (run_harness reg m spec fake_runtime (map_option (ce_ledger env) ledger) (Some ev) (Some vd)))
       (\<lambda>r. sreturn (Inr (dumps_listed 0 (run_result_json r) @ [CHR 0x0A], [], if hv_status (rr_verdict r) = VFail then 2 else 0))))"

fun cli_step :: "'s cli_env \<Rightarrow> cli_command \<Rightarrow> ('s cli_world, string \<times> string \<times> int) step" where
  "cli_step env (CliValidate sf) = sbind (sreturn (load_spec env sf)) (\<lambda>s. sreturn (Inr (printed (run_spec_json s))))"
| "cli_step env (CliValidateHarness mf) = sbind (sreturn (load_harness_manifest env mf)) (\<lambda>m. sreturn (Inr (printed
     (JObj [(''manifest_digest'', JStr (canonical_digest (manifest_json m))), (''manifest'', manifest_json m)]))))"
| "cli_step env (CliPlanHarness mf sf) = sbind (sreturn (load_harness_manifest env mf)) (\<lambda>m.
     sbind (sreturn (load_spec env sf)) (\<lambda>s. sbind (sreturn (default_registry (ce_adapters env))) (\<lambda>reg.
     sbind (sreturn (compile_plan reg m s None None)) (\<lambda>p. sreturn (Inr (printed (plan_json p)))))))"
| "cli_step env (CliRunHarnessFake mf sf ledger ev vd) = sbind (sreturn (load_harness_manifest env mf)) (\<lambda>m.
     sbind (sreturn (load_spec env sf)) (\<lambda>s. run_harness_fake env m s ledger ev vd))"
| "cli_step env (CliExportSchemas out) = sbind (write_outputs out (ce_schemas env)) (\<lambda>_. sreturn (Inr (printed
     (JObj (map (\<lambda>n. (n, JStr (join_path out n))) (sort (map fst (ce_schemas env))))))))"
| "cli_step env (CliCompilePolicy sf) = sbind (sreturn (load_spec env sf)) (\<lambda>s.
     sbind (sreturn (compile_policy s)) (\<lambda>p. sreturn (Inr (ce_dump_yaml env p, [], 0))))"
| "cli_step env (CliRunFake sf ledger ev) = sbind (sreturn (load_spec env sf)) (\<lambda>s.
     sbind (with_fake ev None (run_runtime fake_runtime s [''skill'', ''run'', entrypoint (skill s)] (map_option (ce_ledger env) ledger) ev))
       (\<lambda>d. sreturn (Inr (printed (JObj d)))))"
| "cli_step env (CliRunOpenShell sf ledger ev argv) = sbind (sreturn (load_spec env sf)) (\<lambda>s.
     run_given env ''run-openshell'' (ce_openshell env) s ledger ev argv)"
| "cli_step env (CliRunCloudflare sf ledger ev argv url token) = sbind (sreturn (load_spec env sf)) (\<lambda>s.
     run_given env ''run-cloudflare'' (ce_cloudflare env url token) s ledger ev argv)"
| "cli_step env (CliProbe config prompt wanted tokens) = sbind (sreturn (load_providers env config)) (\<lambda>ps.
     sbind (probe_provider env (make_router ps []) prompt wanted tokens) (\<lambda>v. sreturn (Inr (printed v))))"
| "cli_step env (CliIngestGithub url ref path entry out dir) = sbind (sreturn (github_from_url url ref path entry)) (\<lambda>src.
     sbind (on_ingest (github_ingest (ce_ingest env) src (Some out) True)) (\<lambda>r. sreturn (Inr (printed (JObj
       [(''root'', JStr (in_root r)), (''commit_sha'', JStr (in_commit r)), (''content_sha256'', JStr (pv_content (in_provenance r))),
        (''provenance_digest'', JStr (in_digest r)),
        (''provenance_path'', opt_str (map_option (join_path dir) (in_path r)))])))))"
| "cli_step env (CliIngestSkills sid out) = sbind (on_ingest (skills_fetch (ce_ingest env) sid)) (\<lambda>k.
     sbind (on_ingest (skills_provenance (ce_ingest env) k (Some out))) (\<lambda>r. sreturn (Inr (printed (JObj
       [(''stable_id'', JStr (rk_stable_id k)), (''registry_hash'', rk_content_hash k), (''content_sha256'', JStr (pv_content r)),
        (''license_status'', JStr (pv_license_status r))])))))"
| "cli_step env (CliFixtures out) = sbind (fixture_outputs out) (\<lambda>ps. sreturn (Inr (printed (strs ps))))"
| "cli_step env (CliReport inp out) = sbind (read_input inp) (\<lambda>c. sbind (sreturn (report_rows env c)) (\<lambda>rows.
     sbind (sreturn (build_report rows default_verification_policy)) (\<lambda>r.
     sbind (write_output out (dumps_indent 0 (report_json r) @ [CHR 0x0A])) (\<lambda>_. sreturn (Inr (out @ [CHR 0x0A], [], 0))))))"

definition cli_main :: "'s cli_env \<Rightarrow> cli_command \<Rightarrow> 's cli_world \<Rightarrow> process_end \<times> 's cli_world" where
  "cli_main env c w = (case cli_step env c w of
     (Inr (out, err, code), w') \<Rightarrow> (\<lparr>pe_code = code, pe_stdout = out, pe_stderr = err\<rparr>, w')
   | (Inl e, w') \<Rightarrow> (\<lparr>pe_code = 1, pe_stdout = [], pe_stderr = describe_exn e @ [CHR 0x0A]\<rparr>, w'))"

end
