(* ===== verification/CommandLineProperties.thy ===== *)
theory CommandLineProperties
  imports CommandLine KernelProperties
begin

text \<open>
  The exit code of the harness command says whether the evidence satisfies the abstract specification of the
  kernel, and what it judged is in the stores; a command run in a sandbox destroys the sandbox and, on a
  faithful runtime, yields the evidence of this command.
\<close>

section \<open>Running a command\<close>

lemma run_runtime_destroys:
  assumes "ra_prepare rt spec (ks_runtime ks) = (Inr sid, s1)"
  shows "\<exists>s2. ks_runtime (snd (run_runtime rt spec cmd ledger dir ks)) = snd (ra_destroy rt sid s2)"
  using assms
  by (auto simp: run_runtime_def sbind_def on_runtime_def finally_do_def split: prod.splits sum.splits)
     (metis snd_conv)+

context faithful_runtime
begin

text \<open>On an accepted specification the result is the dump of evidence for this run and this command.\<close>

lemma run_runtime_round:
  assumes "accepts spec (ks_runtime ks)"
  obtains ev ks' where
    "run_runtime rt spec cmd ledger dir ks = (fst (keep_evidence dir (attach_run_receipts ev ledger) ks), ks')"
    "leaves (ks_runtime ks) (ks_runtime ks')" "ev_run_id ev = spec_run_id spec"
    "\<exists>r \<in> set (commands ev). records_command cmd None r"
    "set (ra_evidence rt) \<subseteq> set (captured_evidence ev)"
    "ks_evidence ks' = (case dir of None \<Rightarrow> ks_evidence ks | Some d \<Rightarrow> snd (evidence_store_persist (ks_evidence ks) (attach_run_receipts ev ledger)))"
proof -
  from round [OF assms, where argv = cmd and stdin = None] obtain sid st1 eid st2 ev st3 st4 where
    s: "ra_prepare rt spec (ks_runtime ks) = (Inr sid, st1)" "ra_execute rt sid cmd None st1 = (Inr eid, st2)"
    "ra_collect rt (spec_run_id spec) eid st2 = (Inr ev, st3)" "ra_destroy rt sid st3 = (Inr (), st4)"
    and l: "leaves (ks_runtime ks) st4" "ev_run_id ev = spec_run_id spec" "\<exists>r \<in> set (commands ev). records_command cmd None r"
    "set (ra_evidence rt) \<subseteq> set (captured_evidence ev)" by blast
  let ?e = "attach_run_receipts ev ledger"
  let ?ks = "ks\<lparr>ks_runtime := st4, ks_evidence := (case dir of None \<Rightarrow> ks_evidence ks
    | Some d \<Rightarrow> snd (evidence_store_persist (ks_evidence ks) ?e))\<rparr>"
  have "run_runtime rt spec cmd ledger dir ks = (fst (keep_evidence dir ?e ks), ?ks)"
    by (cases dir) (simp_all add: run_runtime_def sbind_def on_runtime_def finally_do_def s keep_evidence_def Let_def split_beta)
  then show ?thesis using that [of ev ?ks] l by (simp split: option.splits)
qed

end

text \<open>\<open>run-fake\<close> on an accepted specification prints the evidence of its command and exits with 0.\<close>

lemma fake_command_runs:
  assumes "load_spec env sf = Inr s" "fake_accepts s []"
  obtains ev w' where
    "cli_main env (CliRunFake sf ledger None) w = (\<lparr>pe_code = 0, pe_stdout = dumps_listed 0 (JObj (obj_items (evidence_json
        (attach_run_receipts ev (map_option (ce_ledger env) ledger))))) @ [CHR 0x0A], pe_stderr = []\<rparr>, w')"
    "ev_run_id ev = spec_run_id s" "\<exists>r \<in> set (commands ev). records_command [''skill'', ''run'', entrypoint (skill s)] None r"
proof -
  let ?ks = "\<lparr>ks_runtime = [] :: fake_state, ks_evidence = Map.empty, ks_verdicts = Map.empty\<rparr>"
  have "fake_accepts s (ks_runtime ?ks)" using assms(2) by simp
  then obtain ev ks' where ev: "run_runtime fake_runtime s [''skill'', ''run'', entrypoint (skill s)] (map_option (ce_ledger env) ledger) None ?ks
      = (fst (keep_evidence None (attach_run_receipts ev (map_option (ce_ledger env) ledger)) ?ks), ks')"
    "ev_run_id ev = spec_run_id s" "\<exists>r \<in> set (commands ev). records_command [''skill'', ''run'', entrypoint (skill s)] None r"
    by (rule fake.run_runtime_round)
  show ?thesis
    by (rule that [OF _ ev(2,3)])
       (simp add: cli_main_def assms(1) sbind_def sreturn_def with_fake_def in_stores_def ev(1) keep_evidence_def Let_def printed_def
         del: dumps_listed.simps)
qed

section \<open>The harness command\<close>

lemma persist_results_stored:
  assumes "persist_results (Some er) (Some vr) p e v ks = (Inr r, ks')"
  shows "ks_evidence ks' (canonical_digest (evidence_json e)) \<noteq> None" "ks_verdicts ks' (verdict_digest v) \<noteq> None"
    "rr_plan r = p" "rr_evidence r = e" "rr_verdict r = v"
  using assms
  by (auto simp: persist_results_def evidence_store_persist_def verdict_store_persist_def Let_def guards.simps
      split: prod.splits sum.splits if_splits)

lemma run_harness_result:
  assumes "run_harness reg m spec rt ledger (Some er) (Some vr) ks = (Inr r, ks')"
  obtains ad changed where "require reg (hp_adapter (rr_plan r)) = Inr ad" "changed_paths (rr_evidence r) = Inr changed"
    "compile_plan reg m spec (Some (ra_capabilities rt)) (Some (ra_evidence rt)) = Inr (rr_plan r)"
    "verify_evidence reg m (rr_plan r) (rr_evidence r) = Inr (rr_verdict r)"
    "hv_status (rr_verdict r) = VPass \<longleftrightarrow> evidence_satisfies m (rr_plan r) ad (rr_evidence r) changed"
    "ks_evidence ks' (canonical_digest (evidence_json (rr_evidence r))) \<noteq> None"
    "ks_verdicts ks' (verdict_digest (rr_verdict r)) \<noteq> None"
proof -
  from assms obtain p e v s' where c: "compile_plan reg m spec (Some (ra_capabilities rt)) (Some (ra_evidence rt)) = Inr p"
    and v: "verify_evidence reg m p e = Inr v" and pr: "persist_results (Some er) (Some vr) p e v (ks\<lparr>ks_runtime := s'\<rparr>) = (Inr r, ks')"
    by (auto simp: run_harness_def split: sum.splits prod.splits if_splits)
  note r = persist_results_stored [OF pr]
  from v obtain ad sec where ad: "require reg (hp_adapter p) = Inr ad" and sec: "evaluate_security e = Inr sec"
    and vm: "v = make_verdict p e (all_results m p e ad sec) sec" by (rule verify_evidence_Inr)
  from sec obtain changed where ch: "changed_paths e = Inr changed" by (auto simp: evaluate_security_Inr_iff)
  have "hv_status v = VPass \<longleftrightarrow> failed_ids (all_results m p e ad sec) = []" by (simp add: vm)
  then have "hv_status v = VPass \<longleftrightarrow> evidence_satisfies m p ad e changed"
    using all_results_pass [OF ch sec] by (simp add: failed_ids_empty_iff)
  then show ?thesis using that [of ad changed] r ad ch c v by simp
qed

text \<open>C2: The exit code of \<open>run-harness-fake\<close> is a judgement on evidence: it is 1 or there are the plan compiled
  from the loaded files and evidence for which the code is 0 exactly when the evidence satisfies the
  abstract specification of the plan and 2 otherwise; the evidence and its verdict are then in the stores.\<close>

theorem harness_command_exact:
  assumes "load_harness_manifest env mf = Inr m" "load_spec env sf = Inr s" "default_registry (ce_adapters env) = Inr reg"
    and "cli_main env (CliRunHarnessFake mf sf ledger ev vd) w = (pe, w')" "pe_code pe \<noteq> 1"
  shows "\<exists>p ad e v changed. compile_plan reg m s (Some fake_capabilities) (Some fake_evidence) = Inr p
    \<and> require reg (hp_adapter p) = Inr ad \<and> changed_paths e = Inr changed \<and> verify_evidence reg m p e = Inr v
    \<and> pe_code pe = (if evidence_satisfies m p ad e changed then 0 else 2)
    \<and> cw_evidence w' ev (canonical_digest (evidence_json e)) \<noteq> None \<and> cw_verdicts w' vd (verdict_digest v) \<noteq> None"
proof -
  let ?ks = "\<lparr>ks_runtime = [] :: fake_state, ks_evidence = cw_evidence w ev, ks_verdicts = cw_verdicts w vd\<rparr>"
  obtain res ks' where run: "run_harness reg m s fake_runtime (map_option (ce_ledger env) ledger) (Some ev) (Some vd) ?ks = (res, ks')"
    by fastforce
  have main: "cli_main env (CliRunHarnessFake mf sf ledger ev vd) w = (case res of
      Inl x \<Rightarrow> (\<lparr>pe_code = 1, pe_stdout = [], pe_stderr = describe_exn x @ [CHR 0x0A]\<rparr>,
        w\<lparr>cw_evidence := (cw_evidence w)(ev := ks_evidence ks'), cw_verdicts := (cw_verdicts w)(vd := ks_verdicts ks')\<rparr>)
    | Inr r \<Rightarrow> (\<lparr>pe_code = (if hv_status (rr_verdict r) = VFail then 2 else 0),
          pe_stdout = dumps_listed 0 (run_result_json r) @ [CHR 0x0A], pe_stderr = []\<rparr>,
        w\<lparr>cw_evidence := (cw_evidence w)(ev := ks_evidence ks'), cw_verdicts := (cw_verdicts w)(vd := ks_verdicts ks')\<rparr>))"
    by (cases res) (simp_all add: cli_main_def assms(1-3) run_harness_fake_def sbind_def sreturn_def with_fake_def in_stores_def run
        del: dumps_listed.simps)
  from assms(5) obtain r where r: "res = Inr r" using assms(4) main by (cases res) auto
  have c: "ra_capabilities fake_runtime = fake_capabilities" "ra_evidence fake_runtime = fake_evidence"
    by (simp_all add: fake_runtime_def)
  have w': "pe_code pe = (if hv_status (rr_verdict r) = VFail then 2 else 0)" "cw_evidence w' ev = ks_evidence ks'"
    "cw_verdicts w' vd = ks_verdicts ks'" using assms(4) main r by auto
  obtain ad changed where h: "require reg (hp_adapter (rr_plan r)) = Inr ad" "changed_paths (rr_evidence r) = Inr changed"
    "compile_plan reg m s (Some (ra_capabilities fake_runtime)) (Some (ra_evidence fake_runtime)) = Inr (rr_plan r)"
    "verify_evidence reg m (rr_plan r) (rr_evidence r) = Inr (rr_verdict r)"
    "hv_status (rr_verdict r) = VPass \<longleftrightarrow> evidence_satisfies m (rr_plan r) ad (rr_evidence r) changed"
    "ks_evidence ks' (canonical_digest (evidence_json (rr_evidence r))) \<noteq> None"
    "ks_verdicts ks' (verdict_digest (rr_verdict r)) \<noteq> None" by (rule run_harness_result [OF run [unfolded r]])
  have "hv_status (rr_verdict r) = VFail \<longleftrightarrow> hv_status (rr_verdict r) \<noteq> VPass" by (cases "hv_status (rr_verdict r)") simp_all
  then have "pe_code pe = (if evidence_satisfies m (rr_plan r) ad (rr_evidence r) changed then 0 else 2)" using h(5) w'(1) by simp
  then show ?thesis using h(1-4,6,7) unfolding w'(2,3) c by blast
qed

section \<open>A sample run\<close>

definition sample_cli_env :: "fake_state cli_env" where
  "sample_cli_env = \<lparr>ce_yaml = (\<lambda>_. Inr (JObj [])), ce_spec = (\<lambda>_. Inr sample_spec), ce_manifest = (\<lambda>_. Inr sample_manifest),
     ce_evidence = (\<lambda>_. Inl (ValidationError ''evidence'')), ce_adapters = sample_env, ce_ledger = (\<lambda>_ _. []),
     ce_openshell = fake_runtime, ce_cloudflare = (\<lambda>_ _. fake_runtime), ce_dump_yaml = dumps,
     ce_broker = \<lparr>en_var = (\<lambda>_. None), en_http = (\<lambda>_. HttpFailed [] []), en_perf = of_nat, en_time = of_nat,
       en_now = show_nat, en_uuid = show_nat\<rparr>,
     ce_ingest = \<lparr>ig_get = (\<lambda>_. Inl (OSError [])), ig_untar = (\<lambda>_. Inr []), ig_resolve = id, ig_fault = (\<lambda>_. None),
       ig_var = (\<lambda>_. None), ig_now = [], ig_temp = []\<rparr>, ce_schemas = [], ce_usage = []\<rparr>"

definition sample_cli_world :: "fake_state cli_world" where
  "sample_cli_world = \<lparr>cw_runtime = [], cw_evidence = (\<lambda>_. Map.empty), cw_verdicts = (\<lambda>_. Map.empty), cw_files = Map.empty,
     cw_broker = \<lparr>sent = [], ticks = 0, ledger_text = None\<rparr>,
     cw_ingest = \<lparr>is_requests = [], is_files = [], is_records = Map.empty\<rparr>\<rparr>"

lemma verdict_validated: "verify_evidence reg m p e = Inr v \<Longrightarrow> canonical_digest (JObj (verdict_payload v)) = verdict_digest v"
  by (auto simp: verify_evidence_def rbind_Inr_iff validate_verdict_def verdict_guards_def guards_Inr_iff)

lemma sample_harness_run:
  "\<exists>r ks'. run_harness (sample_registry sample_env) sample_manifest sample_spec fake_runtime None (Some ''e'') (Some ''v'') sample_state
     = (Inr r, ks') \<and> hv_status (rr_verdict r) = VPass"
proof -
  obtain v where v: "verify_evidence (sample_registry sample_env) sample_manifest sample_plan sample_bundle = Inr v"
    using sample_verdict by blast
  from v obtain ad sec where ad: "require (sample_registry sample_env) (hp_adapter sample_plan) = Inr ad"
    and sec: "evaluate_security sample_bundle = Inr sec"
    and vm: "v = make_verdict sample_plan sample_bundle (all_results sample_manifest sample_plan sample_bundle ad sec) sec"
    by (rule verify_evidence_Inr)
  have "ad = coding_command_adapter" using ad by (simp add: sample_require)
  then have pass: "hv_status v = VPass"
    using all_results_pass [OF sample_changed sec] sample_satisfies by (simp add: vm failed_ids_empty_iff)
  have ad: "adapter_name (hm_execution sample_manifest) = ''coding.command.v1''"
    "da_stdin coding_command_adapter sample_manifest sample_spec = Inr None" "backend (runtime sample_spec) = Fake"
    by (simp_all add: sample_manifest_def coding_command_adapter_def base_adapter_def sample_spec_def)
  have rt: "ra_backend fake_runtime = Fake" "ra_capabilities fake_runtime = fake_capabilities"
    "ra_evidence fake_runtime = fake_evidence" by (simp_all add: fake_runtime_def)
  obtain r ks' where pr: "persist_results (Some ''e'') (Some ''v'') sample_plan sample_bundle v (sample_state\<lparr>ks_runtime := []\<rparr>) = (Inr r, ks')"
    "rr_verdict r = v"
    by (simp add: persist_results_def evidence_store_persist_def verdict_store_persist_def Let_def guards.simps verdict_validated [OF v])
  have "run_harness (sample_registry sample_env) sample_manifest sample_spec fake_runtime None (Some ''e'') (Some ''v'') sample_state = (Inr r, ks')"
    using pr(1) by (simp add: run_harness_def ad rt sample_require sample_compiles sample_state_def sample_execute v)
  with pr(2) pass show ?thesis by blast
qed

theorem harness_command_exact_witness:
  "\<exists>w'. pe_code (fst (cli_main sample_cli_env (CliRunHarnessFake ''m'' ''s'' None ''e'' ''v'') sample_cli_world)) = 0
     \<and> snd (cli_main sample_cli_env (CliRunHarnessFake ''m'' ''s'' None ''e'' ''v'') sample_cli_world) = w'
     \<and> (\<exists>p ad e changed. evidence_satisfies sample_manifest p ad e changed \<and> cw_evidence w' ''e'' (canonical_digest (evidence_json e)) \<noteq> None)"
proof -
  let ?run = "cli_main sample_cli_env (CliRunHarnessFake ''m'' ''s'' None ''e'' ''v'') sample_cli_world"
  have l: "load_harness_manifest sample_cli_env ''m'' = Inr sample_manifest" "load_spec sample_cli_env ''s'' = Inr sample_spec"
    by (simp_all add: load_harness_manifest_def load_spec_def sample_cli_env_def sample_manifest_valid)
  have reg: "default_registry (ce_adapters sample_cli_env) = Inr (sample_registry sample_env)"
    by (simp add: sample_cli_env_def default_registry_Inr sample_registry_def)
  obtain r ks' where r: "run_harness (sample_registry sample_env) sample_manifest sample_spec fake_runtime None (Some ''e'') (Some ''v'') sample_state
     = (Inr r, ks')" "hv_status (rr_verdict r) = VPass" using sample_harness_run by blast
  have s: "sample_state = \<lparr>ks_runtime = [], ks_evidence = cw_evidence sample_cli_world ''e'', ks_verdicts = cw_verdicts sample_cli_world ''v''\<rparr>"
    by (simp add: sample_state_def sample_cli_world_def)
  obtain pe w' where run: "?run = (pe, w')" by fastforce
  then have pe: "pe_code pe = 0"
    using r by (auto simp: cli_main_def l reg run_harness_fake_def sbind_def sreturn_def with_fake_def in_stores_def s
        simp del: dumps_listed.simps)
  from harness_command_exact [OF l reg run] pe obtain p ad e changed where
    "evidence_satisfies sample_manifest p ad e changed" "cw_evidence w' ''e'' (canonical_digest (evidence_json e)) \<noteq> None"
    "changed_paths e = Inr changed" by (auto split: if_splits)
  then show ?thesis using run pe by auto
qed

end
