(* ===== verification/Spec2Isabelle.thy ===== *)
theory Spec2Isabelle
  imports AdapterProperties ArtifactProperties AttestationProperties TransparencyProperties GatewayProperties
    ControllerProperties SecurityBenchmark BrowserRunnerProperties IngestProperties AndroidProperties AuditScriptProperties
    RunnerProcessProperties AttestCommandProperties RunArtifactCommandProperties CommandLineProperties
begin

text \<open>
  Verification development for Skill.md-native: a harness that runs agent skills in sandboxes, verifies what
  the run left as evidence, turns it into content-addressed artifacts and attests these. The Python sources
  are below \<open>src/src/skill_native\<close> (file names without a directory are files there) and \<open>src/audit\<close>.

  \<^bold>\<open>The program.\<close> A manifest (\<open>harness_contract.py\<close>) declares what a domain must prove; a run specification
  (\<open>models.py\<close>, made from provenance by \<open>run_factory.py\<close>) says which skill runs where. The kernel
  (\<open>harness_kernel_impl.py\<close>) compiles both into a plan, using a domain adapter (\<open>harness_adapters.py\<close>,
  \<open>browser_adapter.py\<close>) for the command, its input and the meaning of its output, runs the plan on a runtime
  (\<open>runtime.py\<close> with the controllers \<open>openshell.py\<close> and \<open>cloudflare_runtime.py\<close>), and verifies the evidence
  (\<open>harness_verifiers.py\<close>, \<open>security.py\<close>) into a verdict. The command a plan starts in the sandbox is one of
  two runners: the wrapper of a coding agent (\<open>coding_agent.py\<close>) or the browser runner (\<open>browser_runner.py\<close>),
  both configured by the adapter and both printing a receipt the adapter checks against the plan. Plan,
  evidence and verdict become a bundle of run artifacts (\<open>run_artifact_*.py\<close>), which is signed
  (\<open>attestation_*.py\<close>) and published in an append-only log (\<open>transparency_log.py\<close>). Beside this line stand
  the inference broker (\<open>gateway.py\<close>, \<open>policy.py\<close>, \<open>providers.py\<close>), scoring and reports (\<open>scoring.py\<close>,
  \<open>compatibility.py\<close>, \<open>reporting.py\<close>), the security benchmark, the ingestion of skills with their provenance
  (\<open>github_ingest.py\<close>, \<open>registries.py\<close>, \<open>provenance.py\<close>, \<open>supply_chain.py\<close>), the Android preparation and
  the capability audit (\<open>audit/audit_core.py\<close>).

  \<^bold>\<open>The theories.\<close> Each component has a theory of definitions and, where its proofs are long, one of
  properties; definitions have the names of the sources.

  \<^item> Vocabulary: \<open>Prelude\<close> (exceptions as the datatype \<open>exn\<close>, results \<open>'a res = exn + 'a\<close>, chains of guards,
    \<open>str\<close> operations, dictionaries as association lists with insertion order), \<open>Sha256\<close> (on \<open>32 word\<close>),
    \<open>Floats\<close>, \<open>FloatBounds\<close>, \<open>FloatOrder\<close> (doubles as the rationals they denote, every operation rounded half
    to even), \<open>Json\<close> and \<open>JsonParser\<close> (\<open>json.dumps\<close>, \<open>json.loads\<close> and their round trip), \<open>Base64\<close>, \<open>PyNumbers\<close>,
    \<open>Paths\<close>, \<open>Urls\<close>, and \<open>Steps\<close>, a calculus for state steps \<open>'s \<Rightarrow> 'a res \<times> 's\<close> (success, kept fields,
    invariants).
  \<^item> Data and contracts: \<open>Models\<close>, \<open>Evidence\<close>, \<open>CodingContract\<close>, \<open>BrowserContract\<close>, \<open>HarnessContract\<close>: a record
    per pydantic class, its \<open>model_dump\<close> as a JSON value, its validator as a list of guards in source order.
  \<^item> The kernel: \<open>Runtime\<close>, \<open>Verifiers\<close>, \<open>Adapters\<close>, \<open>Kernel\<close>, with \<open>KernelProperties\<close> and \<open>AdapterProperties\<close>. A
    runtime is a record of four state steps; the kernel's operations thread its state.
  \<^item> The runners: \<open>CodingAgent\<close> (its operating system is the record \<open>runner_os\<close> on a world \<open>'w\<close>), \<open>BrowserRunner\<close>
    (Playwright answers every call as a function of all calls so far and delivers events meanwhile; the state
    is \<open>browser_state\<close>), \<open>RunnerProcess\<close> (configurations over the command line and the standard input, exit
    codes, output, and the local runtime of \<open>browser_fixture_runtime.py\<close>), with \<open>BrowserRunnerProperties\<close> and
    \<open>RunnerProcessProperties\<close>.
  \<^item> Controllers: \<open>OpenShell\<close>, \<open>CloudflareRuntime\<close>, \<open>ControllerProperties\<close>: the command line or the bridge answers
    every call; prepare, execute, collect and destroy are steps on the controller's state.
  \<^item> Artifacts: \<open>RunArtifacts\<close>, \<open>RunArtifactBuilder\<close>, and \<open>GraphProperties\<close>, \<open>GraphEquivalence\<close>,
    \<open>BundleProperties\<close>, \<open>KernelBundle\<close>, \<open>ArtifactProperties\<close>. The stateful graph construction is state passing
    over \<open>graph_state\<close> and is proved equal to a declarative list of nodes and edges. \<open>RunArtifactCommand\<close> and
    \<open>RunArtifactCommandProperties\<close> are the command line of \<open>run_artifacts.py\<close>.
  \<^item> The main command line: \<open>CommandLine\<close>, \<open>CommandLineProperties\<close> (\<open>cli.py\<close>; a step on the stores, files, broker and
    ingestion of the record \<open>cli_world\<close>, which calls the operations of the other theories).
  \<^item> Attestation: \<open>Attestation\<close>, \<open>Transparency\<close>, \<open>Merkle\<close>, \<open>LogEncoding\<close>, \<open>AttestationProperties\<close>,
    \<open>TransparencyProperties\<close>, and the command line \<open>AttestCommand\<close>, \<open>AttestCommandProperties\<close> (documents, keys and
    logs are stores by path; \<open>PrettyJson\<close> reads back what is printed with indentation). The log is its two files; a locked section is one step, except that a crash may
    come between the two writes of an append.
  \<^item> Broker: \<open>Providers\<close>, \<open>Gateway\<close>, \<open>GatewayProperties\<close>. Measurement: \<open>Scoring\<close>, \<open>ScoringProperties\<close>,
    \<open>SecurityBenchmark\<close>.
  \<^item> Provenance: \<open>Provenance\<close>, \<open>Ingest\<close>, \<open>ProvenanceProperties\<close>, \<open>IngestProperties\<close>; a directory is the list of its
    files. Android: \<open>AndroidContract\<close>, \<open>AndroidAdb\<close>, \<open>AndroidProperties\<close>. Audit: \<open>AuditCore\<close>,
    \<open>AuditProperties\<close>, where an audit is a list of commands and declarations, and \<open>AuditScript\<close>,
    \<open>AuditScriptProperties\<close>, the audit of this repository (\<open>audit/run.py\<close>).

  \<^bold>\<open>The interfaces.\<close> \<open>faithful_runtime\<close> (\<open>Runtime\<close>) is what the kernel needs of a runtime; the kernel's lemmas on
  whole runs are proved in it, and it is interpreted on the fake runtime and on the local browser runtime; \<open>CommandLineProperties\<close> proves the sandbox command of the main command line in it.
  \<open>attempts\<close> (\<open>GatewayProperties\<close>) is what the failover loop needs of one attempt, interpreted on
  \<open>provider_complete\<close>. \<open>runner_invariant\<close> (\<open>BrowserRunnerProperties\<close>) carries an invariant of the browser
  runner's primitive operations through handlers, actions and session; it is interpreted for the decisions on
  requests, the budgets, the violations and the artifact store. \<open>hex_digest\<close> (\<open>Sha256\<close>) is what digests need of
  the hash.

  \<^bold>\<open>What is shown.\<close> Verdicts: a verdict passes exactly when the evidence satisfies an abstract specification,
  verification is total, a run destroys its sandbox on every path, a coding verdict needs a receipt bound to
  the plan. Runners: they always end with a receipt (coding) or exactly when the versions have the demanded
  form (browser); passing receipts bound what the agent changed or the browser requested; budgets hold; a
  receipt against the plan's configuration shows no mismatch, also over the processes and their output.
  Artifacts: rank eligibility as an equivalence, references of the graph resolve, a passing run is bundled,
  the store is append-only. Attestation: the verifier decides an abstract notion of trust, what is signed
  verifies, an envelope binds its bundle, a checkpoint binds its log, every reachable log holds verified
  entries, a crash fails closed. Broker: requests leave within policy and budget, attempts are in the ledger,
  failover is the first outcome that does not retry. Measurement: bounds with rounding included, the matrix
  equals its reference. Ingestion: nothing is written outside the destination, provenance digests pin the
  files. Android: the listing parser is exact, arguments are bounded. Audit: an exit code of 0 is evidenced, and a
  partial audit never has it.
  Command lines: the exit code of the harness command decides the abstract specification, the one of the
  build command rank eligibility, and the file one attestation command writes is what the next accepts.

  \<^bold>\<open>Bounds and fuel.\<close> \<open>json.loads\<close> runs with fuel \<open>2 * length + 2\<close>, enough for every value without floats by
  \<open>fuel_enough\<close>; links of the file system are followed 40 times, as the kernel of Linux does. All other loops
  are structural or have a measure. A policy key is proved unique below \<open>10 ^ 113\<close> rules; scores are exact in
  counts below \<open>2 ^ 53\<close> runs. SHA-256 is a definition, so no statement assumes that it does not collide:
  bindings have the disjunct of two different messages with one digest, named in the statement.

  \<^bold>\<open>Parameters.\<close> Code that is not in the repository is an argument: pydantic's reading of JSON into typed
  fields (\<open>dec\<close>, \<open>decode_*\<close>) and its compact dump, Ed25519 and PEM, httpx, YAML, Playwright, the tar reader, the
  OpenShell command line, processes, clocks, random ids, environment variables and the names of the file
  system. Where a statement needs a law of one of them, it is a named hypothesis (a signature verifies, a
  decoder reads back what was printed, a process returns), and a witness instantiates it.

  \<^bold>\<open>Where the model ends.\<close> Strings are Latin-1: characters above 255 and case mappings that leave the range do
  not occur. Messages of pydantic's validation errors and of the operating system are abstract. Floats are
  finite doubles; sums are rounded from left to right, means once. A command starts after
  \<open>argparse\<close>, whose parsing and defaults are not modelled, and a path names one kind of file. Not modelled: the
  sockets of the two HTTP servers; YAML loading; the content of
  JSON schemas, which pydantic generates; locking, \<open>fsync\<close>, process groups and signals; and the modules that
  only re-export names (\<open>harness.py\<close>, \<open>harness_kernel.py\<close>, \<open>attestations.py\<close>).

  \<^bold>\<open>Findings.\<close> Where the code and its intention part, a lemma says so next to the component: an unrecorded
  request after a malformed answer (\<open>malformed_completion_unrecorded\<close>), a log that one crash closes for good
  (\<open>crash_fails_closed\<close>), a receipt whose index is not bound (\<open>receipt_index_unbound\<close>), a key file that keeps
  its mode (\<open>overwritten_key_keeps_mode\<close>), sandboxes that a failed preparation leaves alive
  (\<open>failed_preparation_leaks\<close>), an unprobed credential assertion (\<open>cloud_credential_unchecked\<close>), severities
  read from different keys (\<open>severity_name_diverges\<close>), two intervals for no data (\<open>empty_intervals\<close>),
  credentials in recorded URLs (\<open>redaction_keeps_userinfo\<close>), stale files in a provenance digest
  (\<open>stale_file_digested\<close>), a published entry whose receipt is lost (\<open>unwritten_receipt_is_lost\<close>), a dollar sign that reaches the device's shell (\<open>dollar_reaches_shell\<close>), an audit
  that a timeout with output breaks (\<open>timeout_with_output_raises\<close>) and one that accepts a declared pass
  (\<open>declared_pass_accepted\<close>).
\<close>

end
